(* ===== verification/Prelude.thy ===== *)
theory Prelude
  imports Main "HOL-Library.Char_ord" "HOL-Library.List_Lexorder" "HOL-Library.Multiset"
begin

text \<open>
  Prelude of the verification of the Timeweb provider: the Go standard library functions the
  sources call on strings and integers (\<^verbatim>\<open>strings\<close>, \<^verbatim>\<open>strconv\<close>), pointers as options, the wrap-around
  of 64-bit integers, and the generic lemmas and theorem collections the component theories
  share.

  A Go string is a byte string and is modelled as a HOL \<open>string\<close> whose characters are the
  bytes. Case folding and white space are those of ASCII. A nil-able pointer \<^verbatim>\<open>*T\<close> is a value
  of type \<open>'t option\<close>. Go's \<^verbatim>\<open>int\<close> and \<^verbatim>\<open>int64\<close> are \<open>int\<close>, with \<open>int64\<close> naming the range and
  \<open>wrap64\<close> the wrap-around where an operation can leave it.
\<close>

named_theorems go_simps \<open>unfolding of the Go standard library models\<close>
named_theorems emits_rules \<open>which requests a handler may issue\<close>
named_theorems valid_rules \<open>Hoare rules of the handler monad\<close>

section \<open>Strings\<close>

text \<open>\<^verbatim>\<open>unicode.IsSpace\<close> on ASCII: tab, line feed, vertical tab, form feed, return, space.\<close>

definition IsSpace :: "char \<Rightarrow> bool" where
  "IsSpace c \<longleftrightarrow> (of_char c :: nat) \<in> {9, 10, 11, 12, 13, 32}"

text \<open>\<^verbatim>\<open>strings.TrimSpace\<close>\<close>

definition TrimSpace :: "string \<Rightarrow> string" where
  "TrimSpace s = rev (dropWhile IsSpace (rev (dropWhile IsSpace s)))"

definition lower_char :: "char \<Rightarrow> char" where
  "lower_char c = (let n = (of_char c :: nat) in if 65 \<le> n \<and> n \<le> 90 then char_of (n + 32) else c)"

text \<open>\<^verbatim>\<open>strings.ToLower\<close>\<close>

definition ToLower :: "string \<Rightarrow> string" where
  "ToLower s = map lower_char s"

text \<open>\<^verbatim>\<open>strings.EqualFold\<close>\<close>

definition EqualFold :: "string \<Rightarrow> string \<Rightarrow> bool" where
  "EqualFold s t \<longleftrightarrow> ToLower s = ToLower t"

text \<open>\<^verbatim>\<open>strings.HasPrefix\<close> with the argument order of the source: string first.\<close>

fun HasPrefix :: "string \<Rightarrow> string \<Rightarrow> bool" where
  "HasPrefix s [] = True"
| "HasPrefix [] (c # cs) = False"
| "HasPrefix (x # xs) (c # cs) = (x = c \<and> HasPrefix xs cs)"

text \<open>\<^verbatim>\<open>strings.Index\<close>: the first position at which the pattern occurs; \<open>None\<close> is Go's -1.\<close>

fun Index :: "string \<Rightarrow> string \<Rightarrow> nat option" where
  "Index [] p = (if p = [] then Some 0 else None)"
| "Index (x # xs) p = (if HasPrefix (x # xs) p then Some 0 else map_option Suc (Index xs p))"

text \<open>\<^verbatim>\<open>strings.Contains\<close>\<close>

definition Contains :: "string \<Rightarrow> string \<Rightarrow> bool" where
  "Contains s p \<longleftrightarrow> Index s p \<noteq> None"

text \<open>\<^verbatim>\<open>strings.IndexByte\<close>\<close>

fun IndexByte :: "string \<Rightarrow> char \<Rightarrow> nat option" where
  "IndexByte [] c = None"
| "IndexByte (x # xs) c = (if x = c then Some 0 else map_option Suc (IndexByte xs c))"

text \<open>\<^verbatim>\<open>strings.LastIndexByte\<close>\<close>

definition LastIndexByte :: "string \<Rightarrow> char \<Rightarrow> nat option" where
  "LastIndexByte s c = map_option (\<lambda>i. length s - Suc i) (IndexByte (rev s) c)"

text \<open>\<^verbatim>\<open>strings.Join\<close>\<close>

fun Join :: "string list \<Rightarrow> string \<Rightarrow> string" where
  "Join [] sep = []"
| "Join [s] sep = s"
| "Join (s # t # ss) sep = s @ sep @ Join (t # ss) sep"

text \<open>\<^verbatim>\<open>strings.Split\<close> with a one-byte separator, which undoes \<^verbatim>\<open>strings.Join\<close>.\<close>

fun Split :: "string \<Rightarrow> char \<Rightarrow> string list" where
  "Split [] c = [[]]"
| "Split (x # xs) c = (if x = c then [] # Split xs c
     else case Split xs c of [] \<Rightarrow> [[x]] | p # ps \<Rightarrow> (x # p) # ps)"

lemma Split_nonempty: "Split s c \<noteq> []"
  by (cases s) (auto split: list.splits)

lemma Split_no_sep: "c \<notin> set p \<Longrightarrow> Split p c = [p]"
  by (induction p) auto

lemma Split_app: "c \<notin> set p \<Longrightarrow> Split (p @ c # s) c = p # Split s c"
  by (induction p) auto

lemma Split_Join:
  "ps \<noteq> [] \<Longrightarrow> \<forall>p \<in> set ps. c \<notin> set p \<Longrightarrow> Split (Join ps [c]) c = ps"
  by (induction ps rule: induct_list012) (auto simp: Split_no_sep Split_app)

lemma HasPrefix_iff: "HasPrefix s p \<longleftrightarrow> (\<exists>t. s = p @ t)"
  by (induction s p rule: HasPrefix.induct) auto

lemma IndexByte_Some_iff:
  "IndexByte s c = Some i \<longleftrightarrow> (\<exists>a b. s = a @ c # b \<and> c \<notin> set a \<and> i = length a)"
proof (induction s arbitrary: i)
  case Nil
  then show ?case by simp
next
  case (Cons x xs)
  show ?case
  proof (cases "x = c")
    case True
    then show ?thesis by (auto simp: Cons_eq_append_conv)
  next
    case False
    have "IndexByte (x # xs) c = Some i \<longleftrightarrow> (\<exists>j. IndexByte xs c = Some j \<and> i = Suc j)"
      using False by auto
    also have "\<dots> \<longleftrightarrow> (\<exists>a b. xs = a @ c # b \<and> c \<notin> set a \<and> i = Suc (length a))"
      by (auto simp: Cons.IH)
    also have "\<dots> \<longleftrightarrow> (\<exists>a b. x # xs = a @ c # b \<and> c \<notin> set a \<and> i = length a)" (is "?l \<longleftrightarrow> ?r")
    proof
      assume ?l
      then obtain a b where "xs = a @ c # b" "c \<notin> set a" "i = Suc (length a)" by blast
      then show ?r using False by (intro exI[of _ "x # a"] exI[of _ b]) auto
    next
      assume ?r
      then obtain a b where ab: "x # xs = a @ c # b" "c \<notin> set a" "i = length a" by blast
      then obtain a' where "a = x # a'" using False by (cases a) auto
      with ab show ?l by (intro exI[of _ a'] exI[of _ b]) auto
    qed
    finally show ?thesis .
  qed
qed

lemma IndexByte_None_iff [simp]: "IndexByte s c = None \<longleftrightarrow> c \<notin> set s"
  by (induction s) auto

lemma LastIndexByte_Some_iff:
  "LastIndexByte s c = Some i \<longleftrightarrow> (\<exists>a b. s = a @ c # b \<and> c \<notin> set b \<and> i = length a)"
proof -
  have "LastIndexByte s c = Some i \<longleftrightarrow>
      (\<exists>j. IndexByte (rev s) c = Some j \<and> i = length s - Suc j)"
    by (auto simp: LastIndexByte_def)
  also have "\<dots> \<longleftrightarrow> (\<exists>b a. rev s = b @ c # a \<and> c \<notin> set b \<and> i = length s - Suc (length b))"
    by (auto simp: IndexByte_Some_iff)
  also have "\<dots> \<longleftrightarrow> (\<exists>a b. s = a @ c # b \<and> c \<notin> set b \<and> i = length a)" (is "?l \<longleftrightarrow> ?r")
  proof
    assume ?l
    then obtain a b where "rev s = b @ c # a" "c \<notin> set b" "i = length s - Suc (length b)"
      by blast
    moreover from this(1) have "s = rev a @ c # rev b" by (simp add: rev_swap)
    ultimately show ?r by (intro exI[of _ "rev a"] exI[of _ "rev b"]) simp
  next
    assume ?r
    then obtain a b where "s = a @ c # b" "c \<notin> set b" "i = length a" by blast
    then show ?l by (intro exI[of _ "rev b"] exI[of _ "rev a"]) simp
  qed
  finally show ?thesis .
qed

lemma TrimSpace_Nil [simp]: "TrimSpace [] = []"
  by (simp add: TrimSpace_def)

lemma TrimSpace_id:
  assumes "s \<noteq> []" "\<not> IsSpace (hd s)" "\<not> IsSpace (last s)"
  shows "TrimSpace s = s"
proof -
  have "dropWhile IsSpace s = s"
    using assms by (cases s) auto
  moreover have "dropWhile IsSpace (rev s) = rev s"
    using assms by (cases s rule: rev_cases) auto
  ultimately show ?thesis by (simp add: TrimSpace_def)
qed

lemma lower_char_idem [simp]: "lower_char (lower_char c) = lower_char c"
  by (auto simp: lower_char_def Let_def)

lemma ToLower_idem [simp]: "ToLower (ToLower s) = ToLower s"
  by (simp add: ToLower_def)

lemma ToLower_Nil [simp]: "ToLower [] = []"
  by (simp add: ToLower_def)

lemma length_ToLower [simp]: "length (ToLower s) = length s"
  by (simp add: ToLower_def)

section \<open>Integers\<close>

definition int64 :: "int \<Rightarrow> bool" where
  "int64 n \<longleftrightarrow> - (2 ^ 63) \<le> n \<and> n < 2 ^ 63"

definition wrap64 :: "int \<Rightarrow> int" where
  "wrap64 n = (n + 2 ^ 63) mod 2 ^ 64 - 2 ^ 63"

lemma wrap64_id [simp]: "int64 n \<Longrightarrow> wrap64 n = n"
  by (simp add: wrap64_def int64_def mod_pos_pos_trivial)

lemma int64_wrap64 [simp]: "int64 (wrap64 n)"
  by (simp add: wrap64_def int64_def algebra_simps)

text \<open>Go's \<^verbatim>\<open>/\<close> and \<^verbatim>\<open>%\<close> truncate towards zero.\<close>

definition go_div :: "int \<Rightarrow> int \<Rightarrow> int" where
  "go_div a b = sgn a * sgn b * (\<bar>a\<bar> div \<bar>b\<bar>)"

definition go_mod :: "int \<Rightarrow> int \<Rightarrow> int" where
  "go_mod a b = a - b * go_div a b"

lemma go_mod_nonneg: "0 \<le> a \<Longrightarrow> 0 < b \<Longrightarrow> go_mod a b = a mod b"
  by (cases "a = 0") (auto simp: go_mod_def go_div_def minus_mult_div_eq_mod)

lemma go_div_nonneg: "0 \<le> a \<Longrightarrow> 0 < b \<Longrightarrow> go_div a b = a div b"
  by (cases "a = 0") (auto simp: go_div_def)

text \<open>
  The generated client decodes several numeric JSON fields into \<^verbatim>\<open>float32\<close>. For an integer the
  stored value is the nearest one with 24 significant bits, ties to even; \<^verbatim>\<open>int64(x)\<close> reads it back.
\<close>

fun f32_exp :: "nat \<Rightarrow> nat" where
  "f32_exp m = (if m < 2 ^ 24 then 0 else Suc (f32_exp (m div 2)))"

declare f32_exp.simps [simp del]

definition float32_nat :: "nat \<Rightarrow> nat" where
  "float32_nat m =
     (let u = 2 ^ f32_exp m; q = m div u; r = m mod u in
      (if 2 * r > u \<or> (2 * r = u \<and> odd q) then q + 1 else q) * u)"

definition float32_int :: "int \<Rightarrow> int" where
  "float32_int n = sgn n * int (float32_nat (nat \<bar>n\<bar>))"

lemma float32_int_exact: "\<bar>n\<bar> < 2 ^ 24 \<Longrightarrow> float32_int n = n"
proof -
  assume "\<bar>n\<bar> < 2 ^ 24"
  then have "f32_exp (nat \<bar>n\<bar>) = 0" by (subst f32_exp.simps) (simp add: nat_less_iff)
  then show ?thesis by (simp add: float32_int_def float32_nat_def sgn_mult_abs)
qed

section \<open>Decimal notation: \<^verbatim>\<open>strconv.Itoa\<close>, \<^verbatim>\<open>strconv.Atoi\<close>\<close>

definition digit_char :: "nat \<Rightarrow> char" where
  "digit_char d = char_of (48 + d)"

definition digit_val :: "char \<Rightarrow> nat option" where
  "digit_val c = (let n = of_char c in if 48 \<le> n \<and> n \<le> 57 then Some (n - 48) else None)"

fun nat_digits :: "nat \<Rightarrow> string" where
  "nat_digits n = (if n < 10 then [digit_char n] else nat_digits (n div 10) @ [digit_char (n mod 10)])"

declare nat_digits.simps [simp del]

fun parse_digits :: "nat \<Rightarrow> string \<Rightarrow> nat option" where
  "parse_digits acc [] = Some acc"
| "parse_digits acc (c # cs) =
     (case digit_val c of None \<Rightarrow> None | Some d \<Rightarrow> parse_digits (acc * 10 + d) cs)"

definition Itoa :: "int \<Rightarrow> string" where
  "Itoa n = (if n < 0 then CHR ''-'' # nat_digits (nat (- n)) else nat_digits (nat n))"

text \<open>
  \<^verbatim>\<open>strconv.Atoi\<close> on a 64-bit platform, and \<^verbatim>\<open>strconv.ParseInt(s, 10, 64)\<close>: an optional sign,
  at least one decimal digit, nothing else, and a value in the range of \<^verbatim>\<open>int64\<close>.
  \<open>None\<close> is the error (syntax or range).
\<close>

definition Atoi :: "string \<Rightarrow> int option" where
  "Atoi s =
     (let (neg, ds) = (case s of [] \<Rightarrow> (False, [])
                       | c # cs \<Rightarrow> if c = CHR ''-'' then (True, cs)
                                  else if c = CHR ''+'' then (False, cs) else (False, s))
      in if ds = [] then None
         else case parse_digits 0 ds of None \<Rightarrow> None
              | Some n \<Rightarrow> let v = (if neg then - int n else int n)
                         in if int64 v then Some v else None)"

lemma of_char_digit_char: "d < 10 \<Longrightarrow> of_char (digit_char d) = 48 + d"
  by (simp add: digit_char_def take_bit_eq_mod)

lemma digit_val_digit_char [simp]: "d < 10 \<Longrightarrow> digit_val (digit_char d) = Some d"
  by (simp add: digit_val_def of_char_digit_char)

lemma nat_digits_nonempty [simp]: "nat_digits n \<noteq> []"
  by (subst nat_digits.simps) simp

lemma digit_val_range: "digit_val c = Some d \<Longrightarrow> d < 10"
  by (auto simp: digit_val_def Let_def split: if_splits)

lemma nat_digits_set: "c \<in> set (nat_digits n) \<Longrightarrow> \<exists>d. digit_val c = Some d"
proof (induction n rule: nat_digits.induct)
  case (1 n)
  then show ?case
    by (cases "n < 10") (auto simp: nat_digits.simps[of n])
qed

lemma parse_digits_append:
  "parse_digits acc (xs @ ys) = (case parse_digits acc xs of None \<Rightarrow> None | Some a \<Rightarrow> parse_digits a ys)"
  by (induction acc xs rule: parse_digits.induct) (auto split: option.splits)

lemma parse_nat_digits [simp]: "parse_digits 0 (nat_digits n) = Some n"
proof (induction n rule: nat_digits.induct)
  case (1 n)
  show ?case
  proof (cases "n < 10")
    case True
    then show ?thesis by (simp add: nat_digits.simps[of n])
  next
    case False
    then show ?thesis
      using 1 by (simp add: nat_digits.simps[of n] parse_digits_append)
  qed
qed

lemma length_nat_digits: "n < 10 ^ k \<Longrightarrow> 0 < k \<Longrightarrow> length (nat_digits n) \<le> k"
proof (induction n arbitrary: k rule: nat_digits.induct)
  case (1 n)
  show ?case
  proof (cases "n < 10")
    case True
    then show ?thesis using 1 by (simp add: nat_digits.simps[of n])
  next
    case False
    then obtain j where k: "k = Suc j" "0 < j" using 1 by (cases k; cases "k - 1") auto
    then have "n div 10 < 10 ^ j" using 1(2) by (simp add: div_less_iff_less_mult mult.commute)
    then show ?thesis using 1(1)[OF False, of j] k False by (simp add: nat_digits.simps[of n])
  qed
qed

lemma nat_digits_hd_not_sign:
  "hd (nat_digits n) \<noteq> CHR ''-''" "hd (nat_digits n) \<noteq> CHR ''+''"
proof -
  have "hd (nat_digits n) \<in> set (nat_digits n)" by simp
  then obtain d where "digit_val (hd (nat_digits n)) = Some d"
    using nat_digits_set by blast
  then show "hd (nat_digits n) \<noteq> CHR ''-''" "hd (nat_digits n) \<noteq> CHR ''+''"
    by (auto simp: digit_val_def Let_def split: if_splits)
qed

lemma Atoi_unsigned:
  assumes "s \<noteq> []" "hd s \<noteq> CHR ''-''" "hd s \<noteq> CHR ''+''"
  shows "Atoi s = (case parse_digits 0 s of None \<Rightarrow> None
                   | Some n \<Rightarrow> if int64 (int n) then Some (int n) else None)"
  using assms by (cases s) (simp_all add: Atoi_def Let_def split: option.split)

lemma Atoi_nat_digits: "int64 (int n) \<Longrightarrow> Atoi (nat_digits n) = Some (int n)"
  by (simp add: Atoi_unsigned nat_digits_hd_not_sign)

lemma Atoi_Itoa [simp]: "int64 n \<Longrightarrow> Atoi (Itoa n) = Some n"
proof (cases "n < 0")
  case True
  assume "int64 n"
  with True show ?thesis by (simp add: Itoa_def Atoi_def)
next
  case False
  assume "int64 n"
  with False Atoi_nat_digits[of "nat n"] show ?thesis by (simp add: Itoa_def)
qed

lemma Itoa_nonempty [simp]: "Itoa n \<noteq> []"
  by (simp add: Itoa_def)

lemma Atoi_Nil [simp]: "Atoi [] = None"
  by (simp add: Atoi_def)

lemma Itoa_inj: "Itoa m = Itoa n \<Longrightarrow> m = n"
proof -
  have neg: "Itoa k \<noteq> [] \<and> (hd (Itoa k) = CHR ''-'' \<longleftrightarrow> k < 0)" for k
    using nat_digits_hd_not_sign(1)[of "nat k"] by (simp add: Itoa_def)
  have dig: "nat_digits a = nat_digits b \<Longrightarrow> a = b" for a b
    by (metis parse_nat_digits option.inject)
  assume "Itoa m = Itoa n"
  moreover from this neg[of m] neg[of n] have "m < 0 \<longleftrightarrow> n < 0" by simp
  ultimately show "m = n"
    by (auto simp: Itoa_def split: if_splits dest: dig)
qed

section \<open>Pointers and association lists\<close>

text \<open>
  A Go map that the code only reads is an association list: its entries in some iteration
  order, with distinct keys. \<open>map_of\<close> is the lookup.
\<close>

abbreviation go_map :: "('k \<times> 'v) list \<Rightarrow> bool" where
  "go_map m \<equiv> distinct (map fst m)"

text \<open>\<^verbatim>\<open>m[k] = v\<close> on a map that is filled while the code runs.\<close>

fun map_put :: "'k \<Rightarrow> 'v \<Rightarrow> ('k \<times> 'v) list \<Rightarrow> ('k \<times> 'v) list" where
  "map_put k v [] = [(k, v)]"
| "map_put k v ((k', v') # m) = (if k = k' then (k, v) # m else (k', v') # map_put k v m)"

lemma map_of_map_put: "map_of (map_put k v m) = (map_of m)(k \<mapsto> v)"
  by (induction k v m rule: map_put.induct) (auto simp: fun_upd_twist)

lemma set_keys_map_put [simp]: "fst ` set (map_put k v m) = insert k (fst ` set m)"
  by (induction k v m rule: map_put.induct) auto

lemma go_map_put [simp]: "go_map m \<Longrightarrow> go_map (map_put k v m)"
  by (induction k v m rule: map_put.induct) auto

text \<open>\<^verbatim>\<open>delete(m, k)\<close>\<close>

definition map_del :: "'k \<Rightarrow> ('k \<times> 'v) list \<Rightarrow> ('k \<times> 'v) list" where
  "map_del k m = filter (\<lambda>(k', _). k' \<noteq> k) m"

lemma map_of_map_del: "map_of (map_del k m) = (map_of m)(k := None)"
  by (induction m) (auto simp: map_del_def fun_eq_iff)

text \<open>Building a map from a list, as the \<^verbatim>\<open>for\<close> loops of the sources do: later entries win.\<close>

definition map_build :: "('k \<times> 'v) list \<Rightarrow> ('k \<times> 'v) list" where
  "map_build xs = fold (\<lambda>(k, v). map_put k v) xs []"

lemma map_of_fold_put:
  "map_of (fold (\<lambda>(k, v). map_put k v) xs m) = map_of m ++ map_of (rev xs)"
proof (induction xs arbitrary: m)
  case Nil
  then show ?case by simp
next
  case (Cons x xs)
  then show ?case by (cases x) (simp add: map_of_map_put map_add_def fun_eq_iff split: option.split)
qed

lemma map_of_map_build: "map_of (map_build xs) = map_of (rev xs)"
  by (simp add: map_build_def map_of_fold_put)

lemma keys_map_build: "fst ` set (map_build xs) = fst ` set xs"
  using arg_cong[OF map_of_map_build, of dom xs] by (simp add: dom_map_of_conv_image_fst)

lemma go_map_build [simp]: "go_map (map_build xs)"
proof -
  have "go_map m \<Longrightarrow> go_map (fold (\<lambda>(k, v). map_put k v) xs m)" for m :: "('a \<times> 'b) list"
    by (induction xs arbitrary: m) auto
  then show ?thesis by (simp add: map_build_def)
qed

lemma map_of_map_build_None [simp]: "map_of (map_build xs) k = None \<longleftrightarrow> k \<notin> fst ` set xs"
  by (metis keys_map_build map_of_eq_None_iff)

lemma length_go_map: "go_map m \<Longrightarrow> length m = card (fst ` set m)"
  by (metis distinct_card length_map set_map)

end
