(* ===== verification/TwErrors.thy ===== *)
theory TwErrors
  imports Prelude
begin

text \<open>
  Error values and the classification of Timeweb API responses:
  \<^verbatim>\<open>internal/clients/timeweb/errors.go\<close> and \<^verbatim>\<open>decode.go\<close>.

  A response body is what the client reads of it: the bytes behind the 64 KiB limit reader,
  together with the JSON value those bytes parse to (\<open>None\<close> when they are not JSON), or a read
  error. \<^verbatim>\<open>net/http\<close> guarantees that the body of a response is never nil. \<open>resp_payload\<close> is what
  \<^verbatim>\<open>DecodeBody\<close> builds from the body for the envelope type the call site decodes into, \<open>None\<close>
  when \<^verbatim>\<open>DecodeBody\<close> returns an error.

  Errors that wrap another one with \<^verbatim>\<open>%w\<close> are \<open>Wrap\<close>; \<^verbatim>\<open>errors.Is\<close> is a test of the wrapped
  error (\<open>root\<close>).
\<close>

section \<open>Error values\<close>

text \<open>Why the resolver rejected a configurator (the structured form of the reason text).\<close>

datatype rejection =
    NoEntries
  | MissingFilter string
  | FilterValue string
  | MissingTag string
  | AxisUnsupported string
  | AxisOutside string int int int
  | AxisMisaligned string int int int
  | OnlyPromo "int list"

datatype go_error =
    ErrNotFound string
  | TransientError int string
  | APIError int string string
  | DecodeBodyError
  | ErrImmutableFieldChange
  | ErrSizingSwitchRequiresRecreate
  | ErrInvalidProviderConfigRef
  | ErrTargetNotFound string
  | ErrTargetNotReady string
  | PresetNotFoundError string "string list" string string
  | PresetAmbiguousError string "int list" string string
  | NoConfiguratorAvailableError int rejection string
  | DimensionValueNotFoundError string "string list" string
  | ErrCatalogUnauthorized int
  | ErrCatalogTransient int
  | ErrInvalidInput
  | ErrUnknownDimension string
  | ErrDimensionFetcherUnwired
  | ErrDuplicateRule
  | Errorf string
  | Wrap string go_error

fun root :: "go_error \<Rightarrow> go_error" where
  "root (Wrap _ e) = root e"
| "root e = e"

text \<open>\<^verbatim>\<open>errors.Is(err, ErrNotFound)\<close> and \<^verbatim>\<open>errors.Is(err, ErrTransient)\<close>\<close>

definition is_not_found :: "go_error \<Rightarrow> bool" where
  "is_not_found e = (case root e of ErrNotFound _ \<Rightarrow> True | _ \<Rightarrow> False)"

definition is_transient :: "go_error \<Rightarrow> bool" where
  "is_transient e = (case root e of TransientError _ _ \<Rightarrow> True | _ \<Rightarrow> False)"

lemma is_not_found_simps [simp]:
  "is_not_found (ErrNotFound d)" "is_not_found (Wrap m e) = is_not_found e"
  "\<not> is_not_found (TransientError c r)" "\<not> is_not_found (APIError c k m)"
  "\<not> is_not_found DecodeBodyError" "\<not> is_not_found (Errorf m)"
  by (simp_all add: is_not_found_def)

lemma is_transient_simps [simp]:
  "is_transient (TransientError c r)" "is_transient (Wrap m e) = is_transient e"
  "\<not> is_transient (ErrNotFound d)" "\<not> is_transient (APIError c k m)"
  "\<not> is_transient DecodeBodyError" "\<not> is_transient (Errorf m)"
  by (simp_all add: is_transient_def)

section \<open>Responses\<close>

datatype json = JNull | JBool bool | JNum string | JStr string
  | JArr "json list" | JObj "(string \<times> json) list"

datatype body = ReadError | Bytes string "json option"

record 'p http_response =
  resp_status :: int
  resp_body :: body
  resp_payload :: "'p option"

text \<open>The result of a generated client method: \<^verbatim>\<open>(*http.Response, error)\<close>.\<close>

datatype 'p http_result = NetErr string | Resp "'p http_response"

text \<open>\<^verbatim>\<open>errorResponseBody\<close>, the error envelope.\<close>

record error_response_body =
  StatusCode :: json
  ErrorCode :: string
  Message :: json
  ResponseID :: string

definition empty_error_body :: error_response_body where
  "empty_error_body = \<lparr>StatusCode = JNull, ErrorCode = [], Message = JNull, ResponseID = []\<rparr>"

text \<open>
  \<^verbatim>\<open>encoding/json\<close> on this struct: members are stored in order, keys match a field name up to
  case, unknown keys are skipped, null leaves a string field alone, and a value of the wrong
  type for a string field is an error.
\<close>

definition set_string :: "json \<Rightarrow> (string \<Rightarrow> 'a) \<Rightarrow> 'a \<Rightarrow> 'a option" where
  "set_string v upd old =
     (case v of JStr s \<Rightarrow> Some (upd s) | JNull \<Rightarrow> Some old | _ \<Rightarrow> None)"

definition error_body_member :: "string \<times> json \<Rightarrow> error_response_body \<Rightarrow> error_response_body option" where
  "error_body_member kv b =
     (let k = ToLower (fst kv); v = snd kv in
      if k = ''status_code'' then Some (b\<lparr>StatusCode := v\<rparr>)
      else if k = ''error_code'' then set_string v (\<lambda>s. b\<lparr>ErrorCode := s\<rparr>) b
      else if k = ''message'' then Some (b\<lparr>Message := v\<rparr>)
      else if k = ''response_id'' then set_string v (\<lambda>s. b\<lparr>ResponseID := s\<rparr>) b
      else Some b)"

fun error_body_members :: "(string \<times> json) list \<Rightarrow> error_response_body \<Rightarrow> error_response_body option" where
  "error_body_members [] b = Some b"
| "error_body_members (kv # kvs) b =
     (case error_body_member kv b of None \<Rightarrow> None | Some b' \<Rightarrow> error_body_members kvs b')"

fun unmarshal_error_body :: "json \<Rightarrow> error_response_body option" where
  "unmarshal_error_body (JObj kvs) = error_body_members kvs empty_error_body"
| "unmarshal_error_body JNull = Some empty_error_body"
| "unmarshal_error_body _ = None"

text \<open>Read the body once and decode the envelope: \<open>None\<close> covers a read error, an empty body and a
  body that is not the envelope.\<close>

definition read_envelope :: "body \<Rightarrow> error_response_body option" where
  "read_envelope b =
     (case b of ReadError \<Rightarrow> None
      | Bytes raw j \<Rightarrow> if raw = [] then None else Option.bind j unmarshal_error_body)"

section \<open>\<^verbatim>\<open>stringifyMessage\<close>, \<^verbatim>\<open>scrubSecrets\<close>, \<^verbatim>\<open>readErrorMessage\<close>\<close>

fun message_part :: "json \<Rightarrow> string option" where
  "message_part (JStr s) = (if TrimSpace s \<noteq> [] then Some (TrimSpace s) else None)"
| "message_part _ = None"

fun stringifyMessage :: "json \<Rightarrow> string" where
  "stringifyMessage (JStr m) = TrimSpace m"
| "stringifyMessage (JArr m) = Join (List.map_filter message_part m) ''; ''"
| "stringifyMessage _ = []"

definition secret_names :: "string list" where
  "secret_names = [''private_key'', ''secret_key'', ''access_key'', ''secret'', ''password'', ''token'']"

definition is_re_space :: "char \<Rightarrow> bool" where
  "is_re_space c \<longleftrightarrow> (of_char c :: nat) \<in> {9, 10, 12, 13, 32}"

text \<open>A quoted run \<^verbatim>\<open>"[^"]*"\<close> at the start of the text: the run and the rest behind it.\<close>

fun quoted :: "string \<Rightarrow> (string \<times> string) option" where
  "quoted (c # s) =
     (if c = CHR 0x22
      then (case dropWhile (\<lambda>x. x \<noteq> CHR 0x22) s of [] \<Rightarrow> None
            | _ # rest \<Rightarrow> Some (takeWhile (\<lambda>x. x \<noteq> CHR 0x22) s, rest))
      else None)"
| "quoted [] = None"

text \<open>\<^verbatim>\<open>secretKeyPattern\<close> anchored at the start of the text: the member name as written, the value,
  and the rest behind the match.\<close>

definition match_secret :: "string \<Rightarrow> (string \<times> string \<times> string) option" where
  "match_secret s =
     (case quoted s of None \<Rightarrow> None
      | Some (k, r) \<Rightarrow>
          if ToLower k \<in> set secret_names
          then (case dropWhile is_re_space r of
                  c # r' \<Rightarrow> if c = CHR '':'' then
                      (case quoted (dropWhile is_re_space r') of None \<Rightarrow> None
                       | Some (v, rest) \<Rightarrow> Some (k, v, rest))
                    else None
                | [] \<Rightarrow> None)
          else None)"

lemma quoted_length: "quoted s = Some (v, r) \<Longrightarrow> length r < length s"
proof -
  assume q: "quoted s = Some (v, r)"
  then obtain c t where s: "s = c # t" "c = CHR 0x22" by (cases s) (auto split: if_splits)
  with q obtain x where "dropWhile (\<lambda>x. x \<noteq> CHR 0x22) t = x # r"
    by (auto split: list.splits)
  then have "Suc (length r) \<le> length t"
    by (metis length_Cons length_dropWhile_le)
  with s show ?thesis by simp
qed

lemma match_secret_length:
  assumes "match_secret s = Some (k, v, rest)"
  shows "length rest < length s"
proof -
  from assms obtain r c r' where q: "quoted s = Some (k, r)" and r': "dropWhile is_re_space r = c # r'"
    and v: "quoted (dropWhile is_re_space r') = Some (v, rest)"
    by (auto simp: match_secret_def split: option.splits if_splits list.splits)
  have "length rest < length (dropWhile is_re_space r')" using v by (rule quoted_length)
  also have "\<dots> \<le> length r'" by (rule length_dropWhile_le)
  also have "\<dots> \<le> length r" using length_dropWhile_le[of is_re_space r] r' by simp
  also have "\<dots> < length s" using q by (rule quoted_length)
  finally show ?thesis .
qed

definition redacted_member :: "string \<Rightarrow> string" where
  "redacted_member k = [CHR 0x22] @ k @ [CHR 0x22] @ '':'' @ [CHR 0x22] @ ''[redacted]'' @ [CHR 0x22]"

text \<open>\<^verbatim>\<open>secretKeyPattern.ReplaceAllString\<close>: leftmost matches, replaced from left to right.\<close>

function replace_secrets :: "string \<Rightarrow> string" where
  "replace_secrets s =
     (case match_secret s of
        Some (k, v, rest) \<Rightarrow> redacted_member k @ replace_secrets rest
      | None \<Rightarrow> (case s of [] \<Rightarrow> [] | c # cs \<Rightarrow> c # replace_secrets cs))"
  by pat_completeness auto
termination
  by (relation "measure length") (auto dest: match_secret_length)

declare replace_secrets.simps [simp del]

definition scrubSecrets :: "string \<Rightarrow> string" where
  "scrubSecrets s =
     replace_secrets (case Index s ''-----BEGIN'' of
        Some i \<Rightarrow> TrimSpace (take i s) @ '' [PEM block redacted]''
      | None \<Rightarrow> s)"

definition readErrorMessage :: "body \<Rightarrow> string" where
  "readErrorMessage b =
     (case b of ReadError \<Rightarrow> []
      | Bytes raw j \<Rightarrow>
          if raw = [] then []
          else let m = (case Option.bind j unmarshal_error_body of
                          Some e \<Rightarrow> stringifyMessage (Message e) | None \<Rightarrow> [])
               in if m \<noteq> [] then m
                  else let s = TrimSpace raw
                       in if s \<noteq> [] then take 300 (scrubSecrets s) else [])"

section \<open>\<^verbatim>\<open>Classify\<close>\<close>

text \<open>\<^verbatim>\<open>http.StatusText\<close> for the codes a transient or terminal API error can carry.\<close>

fun StatusText :: "int \<Rightarrow> string" where
  "StatusText code =
     (case map_of [(400, ''Bad Request''), (401, ''Unauthorized''), (402, ''Payment Required''),
        (403, ''Forbidden''), (404, ''Not Found''), (405, ''Method Not Allowed''),
        (406, ''Not Acceptable''), (407, ''Proxy Authentication Required''), (408, ''Request Timeout''),
        (409, ''Conflict''), (410, ''Gone''), (411, ''Length Required''), (412, ''Precondition Failed''),
        (413, ''Request Entity Too Large''), (414, ''Request URI Too Long''),
        (415, ''Unsupported Media Type''), (416, ''Requested Range Not Satisfiable''),
        (417, ''Expectation Failed''), (418, ''I'' @ [CHR 0x27] @ ''m a teapot''), (421, ''Misdirected Request''),
        (422, ''Unprocessable Entity''), (423, ''Locked''), (424, ''Failed Dependency''),
        (425, ''Too Early''), (426, ''Upgrade Required''), (428, ''Precondition Required''),
        (429, ''Too Many Requests''), (431, ''Request Header Fields Too Large''),
        (451, ''Unavailable For Legal Reasons''), (500, ''Internal Server Error''),
        (501, ''Not Implemented''), (502, ''Bad Gateway''), (503, ''Service Unavailable''),
        (504, ''Gateway Timeout''), (505, ''HTTP Version Not Supported''),
        (506, ''Variant Also Negotiates''), (507, ''Insufficient Storage''), (508, ''Loop Detected''),
        (510, ''Not Extended''), (511, ''Network Authentication Required'')] code
      of Some t \<Rightarrow> t | None \<Rightarrow> [])"

declare StatusText.simps [simp del]

definition isTransientStatus :: "int \<Rightarrow> bool" where
  "isTransientStatus code \<longleftrightarrow>
     (if code \<in> {408, 409, 425, 429} then True else 500 \<le> code \<and> code < 600)"

definition decodeAPIError :: "int \<Rightarrow> body \<Rightarrow> go_error" where
  "decodeAPIError st b =
     (case read_envelope b of
        None \<Rightarrow> APIError st [] (StatusText st)
      | Some e \<Rightarrow>
          APIError st (ErrorCode e)
            (if stringifyMessage (Message e) \<noteq> [] then stringifyMessage (Message e) else StatusText st))"

definition readNotFoundEnvelope :: "body \<Rightarrow> string \<times> string" where
  "readNotFoundEnvelope b =
     (case read_envelope b of
        None \<Rightarrow> ([], [])
      | Some e \<Rightarrow>
          let msg = stringifyMessage (Message e) in
          (ErrorCode e,
           if msg \<noteq> [] \<and> ResponseID e \<noteq> [] then msg @ '' (response_id: '' @ ResponseID e @ '')''
           else if msg \<noteq> [] then msg
           else if ResponseID e \<noteq> [] then ''response_id: '' @ ResponseID e
           else []))"

text \<open>The two fixed reason texts of \<^verbatim>\<open>Classify\<close>; the three bytes are the UTF-8 code of the dash.\<close>

definition flap_reason :: string where
  "flap_reason = ''404 without canonical error envelope (suspected upstream flap; not treating as deleted)''"

definition settle_reason :: string where
  "settle_reason = ''Forbidden (networks_location_mismatch '' @ [CHR 0xE2, CHR 0x80, CHR 0x94] @
     '' newly created VPCs settle in ~1 min): ''"

definition Classify :: "'p http_response option \<Rightarrow> go_error option" where
  "Classify r =
     (case r of
        None \<Rightarrow> Some (TransientError 0 ''nil response'')
      | Some resp \<Rightarrow>
          let st = resp_status resp; b = resp_body resp in
          if 200 \<le> st \<and> st < 300 then None
          else if st = 404 then
            (let (code, detail) = readNotFoundEnvelope b in
             if code = [] then Some (TransientError 404 flap_reason)
             else Some (ErrNotFound detail))
          else if isTransientStatus st then
            (let msg = readErrorMessage b in
             Some (TransientError st (if msg \<noteq> [] then StatusText st @ '': '' @ msg else StatusText st)))
          else
            (case decodeAPIError st b of
               APIError c k m \<Rightarrow>
                 if c = 403 \<and> k = ''networks_location_mismatch''
                 then Some (TransientError c (settle_reason @ m))
                 else Some (APIError c k m)
             | e \<Rightarrow> Some e))"

text \<open>A transport error of \<^verbatim>\<open>http.Client.Do\<close>; the nil case of the source is a response.\<close>

definition ClassifyNetworkError :: "string \<Rightarrow> go_error" where
  "ClassifyNetworkError e = TransientError 0 ''network''"

section \<open>Lemmas\<close>

lemma decodeAPIError_APIError:
  "decodeAPIError st b = APIError st (case read_envelope b of None \<Rightarrow> [] | Some e \<Rightarrow> ErrorCode e)
     (case read_envelope b of None \<Rightarrow> StatusText st
      | Some e \<Rightarrow> if stringifyMessage (Message e) \<noteq> [] then stringifyMessage (Message e) else StatusText st)"
  by (simp add: decodeAPIError_def split: option.split)

text \<open>The canonical not-found signal: an envelope whose \<^verbatim>\<open>error_code\<close> is a non-empty string.\<close>

definition canonical_envelope :: "body \<Rightarrow> bool" where
  "canonical_envelope b \<longleftrightarrow>
     (\<exists>raw kvs e. b = Bytes raw (Some (JObj kvs)) \<and> raw \<noteq> [] \<and>
        error_body_members kvs empty_error_body = Some e \<and> ErrorCode e \<noteq> [])"

lemma fst_readNotFoundEnvelope:
  "fst (readNotFoundEnvelope b) = (case read_envelope b of None \<Rightarrow> [] | Some e \<Rightarrow> ErrorCode e)"
  by (simp add: readNotFoundEnvelope_def Let_def split: option.split)

lemma readNotFoundEnvelope_canonical:
  "fst (readNotFoundEnvelope b) \<noteq> [] \<longleftrightarrow> canonical_envelope b"
proof (cases b)
  case ReadError
  then show ?thesis by (simp add: fst_readNotFoundEnvelope read_envelope_def canonical_envelope_def)
next
  case (Bytes raw j)
  show ?thesis
  proof (cases j)
    case None
    with Bytes show ?thesis by (simp add: fst_readNotFoundEnvelope read_envelope_def canonical_envelope_def)
  next
    case (Some v)
    with Bytes show ?thesis
      by (cases v) (auto simp: fst_readNotFoundEnvelope read_envelope_def canonical_envelope_def
            empty_error_body_def split: option.splits)
  qed
qed

text \<open>An object without a member named \<^verbatim>\<open>error_code\<close> is not the canonical envelope.\<close>

lemma error_body_member_ErrorCode:
  assumes "error_body_member kv b = Some b'" "ToLower (fst kv) \<noteq> ''error_code''"
  shows "ErrorCode b' = ErrorCode b"
  using assms
  by (auto simp: error_body_member_def Let_def set_string_def split: if_splits json.splits)

lemma error_body_members_ErrorCode:
  assumes "error_body_members kvs b = Some b'" "\<forall>kv \<in> set kvs. ToLower (fst kv) \<noteq> ''error_code''"
  shows "ErrorCode b' = ErrorCode b"
  using assms
proof (induction kvs arbitrary: b)
  case Nil
  then show ?case by simp
next
  case (Cons kv kvs)
  then obtain b1 where b1: "error_body_member kv b = Some b1" "error_body_members kvs b1 = Some b'"
    by (auto split: option.splits)
  from Cons.IH[OF b1(2)] Cons.prems(2) error_body_member_ErrorCode[OF b1(1)] show ?case by simp
qed

lemma canonical_envelope_member:
  assumes "canonical_envelope b"
  shows "\<exists>raw kvs. b = Bytes raw (Some (JObj kvs)) \<and> (\<exists>kv \<in> set kvs. ToLower (fst kv) = ''error_code'')"
proof -
  from assms obtain raw kvs e where b: "b = Bytes raw (Some (JObj kvs))"
    "error_body_members kvs empty_error_body = Some e" "ErrorCode e \<noteq> []"
    by (auto simp: canonical_envelope_def)
  have "\<exists>kv \<in> set kvs. ToLower (fst kv) = ''error_code''"
    using error_body_members_ErrorCode[OF b(2)] b(3) by (auto simp: empty_error_body_def)
  with b(1) show ?thesis by blast
qed

lemma Classify_404:
  "resp_status r = 404 \<Longrightarrow> Classify (Some r) =
     (if canonical_envelope (resp_body r) then Some (ErrNotFound (snd (readNotFoundEnvelope (resp_body r))))
      else Some (TransientError 404 flap_reason))"
  using readNotFoundEnvelope_canonical[of "resp_body r"]
  by (simp add: Classify_def Let_def split: prod.split) auto

lemma Classify_not_found_iff:
  "(\<exists>e. Classify (Some r) = Some e \<and> is_not_found e) \<longleftrightarrow>
     resp_status r = 404 \<and> canonical_envelope (resp_body r)"
proof (cases "resp_status r = 404")
  case True
  then show ?thesis by (simp add: Classify_404)
next
  case False
  have "\<not> is_not_found e" if "Classify (Some r) = Some e" for e
    using that False
    by (auto simp: Classify_def Let_def decodeAPIError_APIError split: if_splits)
  with False show ?thesis by blast
qed

lemma Classify_None_iff: "Classify (Some r) = None \<longleftrightarrow> 200 \<le> resp_status r \<and> resp_status r < 300"
  by (auto simp: Classify_def Let_def decodeAPIError_APIError split: prod.splits)

lemma Classify_not_found_status:
  "Classify (Some r) = Some e \<Longrightarrow> is_not_found e \<Longrightarrow> resp_status r = 404 \<and> canonical_envelope (resp_body r)"
  using Classify_not_found_iff[of r] by blast

section \<open>Scrubbing a flat object\<close>

text \<open>A raw body that is a flat JSON object whose keys and values need no escaping.\<close>

definition member_text :: "string \<times> string \<Rightarrow> string" where
  "member_text kv = [CHR 0x22] @ fst kv @ [CHR 0x22] @ '':'' @ [CHR 0x22] @ snd kv @ [CHR 0x22]"

definition object_text :: "(string \<times> string) list \<Rightarrow> string" where
  "object_text ms = ''{'' @ Join (map member_text ms) '','' @ ''}''"

definition plain_member :: "string \<times> string \<Rightarrow> bool" where
  "plain_member kv \<longleftrightarrow> CHR 0x22 \<notin> set (fst kv) \<and> CHR 0x22 \<notin> set (snd kv)"

definition redact_member :: "string \<times> string \<Rightarrow> string \<times> string" where
  "redact_member kv = (if ToLower (fst kv) \<in> set secret_names then (fst kv, ''[redacted]'') else kv)"

lemma quoted_run: "CHR 0x22 \<notin> set k \<Longrightarrow> quoted (CHR 0x22 # k @ CHR 0x22 # r) = Some (k, r)"
proof -
  assume "CHR 0x22 \<notin> set k"
  then have "dropWhile (\<lambda>x. x \<noteq> CHR 0x22) (k @ CHR 0x22 # r) = CHR 0x22 # r"
    "takeWhile (\<lambda>x. x \<noteq> CHR 0x22) (k @ CHR 0x22 # r) = k"
    by (subst dropWhile_append2 takeWhile_append2; auto)+
  then show ?thesis by simp
qed

lemma match_secret_no_quote: "CHR 0x22 \<noteq> c \<Longrightarrow> match_secret (c # s) = None"
  by (auto simp: match_secret_def)

declare quoted.simps(1) [simp del]

lemma replace_secrets_plain:
  "CHR 0x22 \<notin> set xs \<Longrightarrow> replace_secrets (xs @ rest) = xs @ replace_secrets rest"
proof (induction xs)
  case (Cons x xs)
  then show ?case by (subst replace_secrets.simps) (simp add: match_secret_no_quote)
qed simp

lemma replace_secrets_skip:
  "match_secret (c # s) = None \<Longrightarrow> replace_secrets (c # s) = c # replace_secrets s"
  by (subst replace_secrets.simps) simp

lemma not_secret_names: "ToLower '':'' \<notin> set secret_names"
  by code_simp

text \<open>What may follow a member: the comma before the next one, or the closing brace.\<close>

definition after_member :: "string \<Rightarrow> bool" where
  "after_member r \<longleftrightarrow> r = ''}'' \<or> (\<exists>t. r = '','' @ CHR 0x22 # t)"

lemma match_secret_after_value:
  assumes "after_member r"
  shows "match_secret (CHR 0x22 # r) = None"
proof -
  have "ToLower '','' \<notin> set secret_names" by code_simp
  moreover have "quoted (CHR 0x22 # '','' @ CHR 0x22 # t) = Some ('','', t)" for t using quoted_run[of "'',''" t] by simp
  moreover have "quoted (CHR 0x22 # ''}'') = None" by (simp add: quoted.simps)
  ultimately show ?thesis using assms by (auto simp: after_member_def match_secret_def)
qed

lemma match_secret_value:
  assumes "CHR 0x22 \<notin> set v" "after_member r"
  shows "match_secret (CHR 0x22 # v @ CHR 0x22 # r) = None"
  using assms by (auto simp: match_secret_def quoted_run after_member_def is_re_space_def of_char_def)

lemma replace_secrets_member:
  assumes "plain_member kv" "after_member r"
  shows "replace_secrets (member_text kv @ r) = member_text (redact_member kv) @ replace_secrets r"
proof -
  obtain k v where kv: "kv = (k, v)" by (cases kv)
  with assms(1) have q: "CHR 0x22 \<notin> set k" "CHR 0x22 \<notin> set v" by (simp_all add: plain_member_def)
  let ?q = "CHR 0x22"
  have qc: "quoted (?q # '':'' @ ?q # x) = Some ('':'', x)" for x using quoted_run[of "'':''" x] by simp
  have sp: "dropWhile is_re_space ('':'' @ ?q # v @ ?q # r) = '':'' @ ?q # v @ ?q # r"
    "dropWhile is_re_space (?q # v @ ?q # r) = ?q # v @ ?q # r"
    by (simp_all add: is_re_space_def of_char_def)
  have m: "match_secret (?q # k @ ?q # '':'' @ ?q # v @ ?q # r)
      = (if ToLower k \<in> set secret_names then Some (k, v, r) else None)"
    using quoted_run[OF q(1)] quoted_run[OF q(2)] sp by (simp add: match_secret_def)
  show ?thesis
  proof (cases "ToLower k \<in> set secret_names")
    case True
    with m show ?thesis
      by (subst replace_secrets.simps) (simp add: kv member_text_def redact_member_def redacted_member_def)
  next
    case False
    have c1: "match_secret (?q # '':'' @ ?q # v @ ?q # r) = None"
      using qc[of "v @ ?q # r"] not_secret_names by (simp add: match_secret_def)
    have c2: "replace_secrets (?q # v @ ?q # r) = ?q # v @ ?q # replace_secrets r"
      using match_secret_value[OF q(2) assms(2)] match_secret_after_value[OF assms(2)]
      by (simp add: replace_secrets_skip replace_secrets_plain[OF q(2)])
    have c3: "replace_secrets ('':'' @ ?q # v @ ?q # r) = '':'' @ replace_secrets (?q # v @ ?q # r)"
      by (rule replace_secrets_plain) simp
    have "replace_secrets (?q # k @ ?q # '':'' @ ?q # v @ ?q # r)
        = ?q # k @ ?q # '':'' @ ?q # v @ ?q # replace_secrets r"
      using m False c1 c2 c3 by (simp add: replace_secrets_skip replace_secrets_plain[OF q(1)])
    then show ?thesis by (simp add: kv member_text_def redact_member_def False)
  qed
qed

lemma Join_members_shape: "ms \<noteq> [] \<Longrightarrow> \<exists>t. Join (map member_text ms) '','' @ ''}'' = CHR 0x22 # t"
  by (cases ms; cases "tl ms") (auto simp: member_text_def)

lemma replace_secrets_members:
  "\<forall>kv \<in> set ms. plain_member kv \<Longrightarrow>
   replace_secrets (Join (map member_text ms) '','' @ ''}'') = Join (map member_text (map redact_member ms)) '','' @ ''}''"
proof (induction ms)
  case Nil
  show ?case using replace_secrets_plain[of "''}''" "[]"] by (simp add: replace_secrets.simps match_secret_def)
next
  case (Cons kv ms)
  show ?case
  proof (cases ms)
    case Nil
    have "replace_secrets ''}'' = ''}''"
      using replace_secrets_plain[of "''}''" "[]"] by (simp add: replace_secrets.simps match_secret_def)
    with Nil Cons.prems replace_secrets_member[of kv "''}''"] show ?thesis by (simp add: after_member_def)
  next
    case (Cons kv' ms')
    obtain t where t: "Join (map member_text ms) '','' @ ''}'' = CHR 0x22 # t"
      using Join_members_shape[of ms] Cons by auto
    have "replace_secrets (member_text kv @ '','' @ CHR 0x22 # t)
        = member_text (redact_member kv) @ replace_secrets ('','' @ CHR 0x22 # t)"
      using Cons.prems by (intro replace_secrets_member) (auto simp: after_member_def)
    also have "replace_secrets ('','' @ CHR 0x22 # t) = '','' @ replace_secrets (CHR 0x22 # t)"
      by (rule replace_secrets_plain) simp
    finally show ?thesis using Cons.IH Cons.prems t Cons by simp
  qed
qed

section \<open>Properties\<close>

text \<open>
  C1. A response counts as proof that the resource is gone exactly when its status is 404 and its body
  is the canonical error envelope; every other answer, a bare 404 of an edge proxy included, is not
  "not found", so no caller recreates or forgets a resource because of it.
\<close>

theorem Classify_not_found_exact:
  "(\<exists>e. Classify (Some r) = Some e \<and> is_not_found e) \<longleftrightarrow>
     resp_status r = 404 \<and> canonical_envelope (resp_body r)"
  by (rule Classify_not_found_iff)

text \<open>
  The three-way verdict is complete: success exactly on 2xx; retry exactly on a request timeout, a
  conflict, too-early, rate limiting, any 5xx, a 404 without envelope and the 403 of a settling VPC.
\<close>

theorem Classify_partition:
  "(Classify (Some r) = None \<longleftrightarrow> resp_status r \<in> {200..<300}) \<and>
   ((\<exists>e. Classify (Some r) = Some e \<and> is_transient e) \<longleftrightarrow>
      resp_status r \<in> {408, 409, 425, 429} \<union> {500..<600}
      \<or> (resp_status r = 404 \<and> \<not> canonical_envelope (resp_body r))
      \<or> (resp_status r = 403 \<and>
          (case read_envelope (resp_body r) of None \<Rightarrow> False | Some e \<Rightarrow> ErrorCode e = ''networks_location_mismatch'')))"
proof
  show "Classify (Some r) = None \<longleftrightarrow> resp_status r \<in> {200..<300}"
    by (simp add: Classify_None_iff)
  show "(\<exists>e. Classify (Some r) = Some e \<and> is_transient e) \<longleftrightarrow>
      resp_status r \<in> {408, 409, 425, 429} \<union> {500..<600}
      \<or> (resp_status r = 404 \<and> \<not> canonical_envelope (resp_body r))
      \<or> (resp_status r = 403 \<and>
          (case read_envelope (resp_body r) of None \<Rightarrow> False | Some e \<Rightarrow> ErrorCode e = ''networks_location_mismatch''))"
  proof (cases "resp_status r = 404")
    case True
    then show ?thesis by (simp add: Classify_404 is_transient_def)
  next
    case False
    then show ?thesis
      by (auto simp: Classify_def Let_def decodeAPIError_APIError isTransientStatus_def is_transient_def
          split: option.splits if_splits)
  qed
qed

text \<open>
  Secrets never reach a condition or an event through the raw-body fallback: in a flat JSON object
  every value of a secret-named member is replaced, and all other members are kept as they are.
\<close>

theorem scrubSecrets_members:
  assumes "\<forall>kv \<in> set ms. plain_member kv" "Index (object_text ms) ''-----BEGIN'' = None"
  shows "scrubSecrets (object_text ms) = object_text (map redact_member ms)"
proof -
  have "replace_secrets (object_text ms) = ''{'' @ replace_secrets (Join (map member_text ms) '','' @ ''}'')"
    unfolding object_text_def by (rule replace_secrets_plain) simp
  with replace_secrets_members[OF assms(1)] assms(2) show ?thesis by (simp add: scrubSecrets_def object_text_def)
qed

theorem scrubSecrets_members_witness:
  "scrubSecrets (object_text [(''message'', ''boom''), (''Private_Key'', ''abc''), (''hint'', ''token'')])
     = object_text [(''message'', ''boom''), (''Private_Key'', ''[redacted]''), (''hint'', ''token'')]"
proof -
  let ?ms = "[(''message'', ''boom''), (''Private_Key'', ''abc''), (''hint'', ''token'')]"
  have "\<forall>kv \<in> set ?ms. plain_member kv" by (simp add: plain_member_def)
  moreover have "Index (object_text ?ms) ''-----BEGIN'' = None" by code_simp
  ultimately have "scrubSecrets (object_text ?ms) = object_text (map redact_member ?ms)"
    by (rule scrubSecrets_members)
  also have "map redact_member ?ms = [(''message'', ''boom''), (''Private_Key'', ''[redacted]''), (''hint'', ''token'')]"
    by code_simp
  finally show ?thesis .
qed

end
