(* ===== verification/Handler.thy ===== *)
theory Handler
  imports TwErrors
begin

text \<open>
  The state a managed-resource handler runs in and the shallow embedding of its control flow.

  A handler (\<^verbatim>\<open>Observe\<close>, \<^verbatim>\<open>Create\<close>, \<^verbatim>\<open>Update\<close>, \<^verbatim>\<open>Delete\<close> of a \<^verbatim>\<open>managed.ExternalClient\<close>) reads and
  writes the managed resource it is called with, issues requests to the upstream API and emits
  Kubernetes events. It is a function from \<open>rstate\<close> to a result and a new \<open>rstate\<close>; the result
  is an error value (\<open>Inl\<close>) or the value the handler returns (\<open>Inr\<close>). A Go statement sequence with
  \<^verbatim>\<open>if err != nil { return err }\<close> is \<open>bindE\<close>.

  The upstream is a parameter \<open>api\<close>: it takes the state of the outside world and a request and
  gives the response and the new world. \<open>reqs\<close> records every request a handler issues, in order.
  Condition messages and transition times carry no control and are left out: a condition is its
  type, status and reason.
\<close>

section \<open>The managed resource and its conditions\<close>

datatype cond_type = TypeReady | TypeSynced | TypeOther string
datatype cond_status = ConditionTrue | ConditionFalse | ConditionUnknown

record condition =
  c_type :: cond_type
  c_status :: cond_status
  c_reason :: string

datatype event_type = EventTypeNormal | EventTypeWarning
type_synonym event = "event_type \<times> string"

text \<open>
  What a handler sees of a custom resource: the external-name annotation, the two annotations the
  runtime keeps about an interrupted create, the parameters of the spec, the observed state and
  the conditions of the status.
\<close>

record ('s, 'o) mr =
  external_name :: string
  create_incomplete :: bool
  create_failed :: string
  for_provider :: 's
  at_provider :: 'o
  conditions :: "cond_type \<Rightarrow> condition option"

record ('w, 'q, 's, 'o) rstate =
  world :: 'w
  reqs :: "'q list"
  events :: "event list"
  recorder :: bool
  cr :: "('s, 'o) mr"

definition GetCondition :: "('s, 'o) mr \<Rightarrow> cond_type \<Rightarrow> condition" where
  "GetCondition m t = (case conditions m t of Some c \<Rightarrow> c
     | None \<Rightarrow> \<lparr>c_type = t, c_status = ConditionUnknown, c_reason = []\<rparr>)"

definition SetConditions :: "condition \<Rightarrow> ('s, 'o) mr \<Rightarrow> ('s, 'o) mr" where
  "SetConditions c m = m\<lparr>conditions := (conditions m)(c_type c \<mapsto> c)\<rparr>"

text \<open>\<^verbatim>\<open>xpv2.Available()\<close>, \<^verbatim>\<open>xpv2.Creating()\<close>, \<^verbatim>\<open>xpv2.Deleting()\<close>\<close>

definition Available :: condition where
  "Available = \<lparr>c_type = TypeReady, c_status = ConditionTrue, c_reason = ''Available''\<rparr>"

definition Creating :: condition where
  "Creating = \<lparr>c_type = TypeReady, c_status = ConditionFalse, c_reason = ''Creating''\<rparr>"

definition Deleting :: condition where
  "Deleting = \<lparr>c_type = TypeReady, c_status = ConditionFalse, c_reason = ''Deleting''\<rparr>"

text \<open>\<^verbatim>\<open>managed.ExternalObservation\<close>; connection details are a map from keys to values.\<close>

record observation =
  ResourceExists :: bool
  ResourceUpToDate :: bool
  ConnectionDetails :: "(string \<times> string) list"

definition absent :: observation where
  "absent = \<lparr>ResourceExists = False, ResourceUpToDate = False, ConnectionDetails = []\<rparr>"

definition present :: "bool \<Rightarrow> observation" where
  "present utd = \<lparr>ResourceExists = True, ResourceUpToDate = utd, ConnectionDetails = []\<rparr>"

lemma present_simps [simp]:
  "ResourceExists (present b)" "ResourceUpToDate (present b) = b" "\<not> ResourceExists absent"
  by (simp_all add: present_def absent_def)

section \<open>The handler monad\<close>

type_synonym ('w, 'q, 's, 'o, 'a) act =
  "('w, 'q, 's, 'o) rstate \<Rightarrow> (go_error + 'a) \<times> ('w, 'q, 's, 'o) rstate"

type_synonym ('w, 'q, 'p) api = "'w \<Rightarrow> 'q \<Rightarrow> 'p http_result \<times> 'w"

definition returnOk :: "'a \<Rightarrow> ('w, 'q, 's, 'o, 'a) act" where
  "returnOk x = (\<lambda>s. (Inr x, s))"

definition throwError :: "go_error \<Rightarrow> ('w, 'q, 's, 'o, 'a) act" where
  "throwError e = (\<lambda>s. (Inl e, s))"

definition bindE :: "('w, 'q, 's, 'o, 'a) act \<Rightarrow> ('a \<Rightarrow> ('w, 'q, 's, 'o, 'b) act) \<Rightarrow> ('w, 'q, 's, 'o, 'b) act" where
  "bindE m f = (\<lambda>s. case m s of (Inl e, s') \<Rightarrow> (Inl e, s') | (Inr x, s') \<Rightarrow> f x s')"

text \<open>The result as a value, for code that looks at \<^verbatim>\<open>err\<close> itself.\<close>

definition attempt :: "('w, 'q, 's, 'o, 'a) act \<Rightarrow> ('w, 'q, 's, 'o, go_error + 'a) act" where
  "attempt m = (\<lambda>s. case m s of (r, s') \<Rightarrow> (Inr r, s'))"

definition gets :: "(('s, 'o) mr \<Rightarrow> 'a) \<Rightarrow> ('w, 'q, 's, 'o, 'a) act" where
  "gets f = (\<lambda>s. (Inr (f (cr s)), s))"

definition modify_cr :: "(('s, 'o) mr \<Rightarrow> ('s, 'o) mr) \<Rightarrow> ('w, 'q, 's, 'o, unit) act" where
  "modify_cr f = (\<lambda>s. (Inr (), s\<lparr>cr := f (cr s)\<rparr>))"

text \<open>\<^verbatim>\<open>recorder.Event\<close>, guarded by \<^verbatim>\<open>recorder != nil\<close>.\<close>

definition emit_event :: "event_type \<Rightarrow> string \<Rightarrow> ('w, 'q, 's, 'o, unit) act" where
  "emit_event t r = (\<lambda>s. (Inr (), if recorder s then s\<lparr>events := events s @ [(t, r)]\<rparr> else s))"

text \<open>One upstream call: the request is logged, the world moves on.\<close>

definition call :: "('w, 'q, 'p) api \<Rightarrow> 'q \<Rightarrow> ('w, 'q, 's, 'o, 'p http_result) act" where
  "call api q = (\<lambda>s. case api (world s) q of (r, w) \<Rightarrow> (Inr r, s\<lparr>world := w, reqs := reqs s @ [q]\<rparr>))"

text \<open>
  The call idiom of every external client: a transport error goes through
  \<^verbatim>\<open>ClassifyNetworkError\<close>, a response through \<^verbatim>\<open>Classify\<close>.
\<close>

definition classify_result :: "'p http_result \<Rightarrow> go_error + 'p http_response" where
  "classify_result r =
     (case r of NetErr e \<Rightarrow> Inl (ClassifyNetworkError e)
      | Resp resp \<Rightarrow> (case Classify (Some resp) of Some e \<Rightarrow> Inl e | None \<Rightarrow> Inr resp))"

definition lift_sum :: "go_error + 'a \<Rightarrow> ('w, 'q, 's, 'o, 'a) act" where
  "lift_sum r = (\<lambda>s. (r, s))"

definition call_classify :: "('w, 'q, 'p) api \<Rightarrow> 'q \<Rightarrow> ('w, 'q, 's, 'o, 'p http_response) act" where
  "call_classify api q = bindE (call api q) (\<lambda>r. lift_sum (classify_result r))"

text \<open>\<^verbatim>\<open>DecodeBody\<close> into the envelope \<open>sel\<close> selects, wrapped with the kind's prefix.\<close>

definition decode :: "string \<Rightarrow> ('p \<Rightarrow> 'a option) \<Rightarrow> 'p http_response \<Rightarrow> ('w, 'q, 's, 'o, 'a) act" where
  "decode pfx sel resp =
     (case Option.bind (resp_payload resp) sel of
        Some x \<Rightarrow> returnOk x | None \<Rightarrow> throwError (Wrap pfx DecodeBodyError))"

definition fetch :: "('w, 'q, 'p) api \<Rightarrow> string \<Rightarrow> ('p \<Rightarrow> 'a option) \<Rightarrow> 'q \<Rightarrow> ('w, 'q, 's, 'o, 'a) act" where
  "fetch api pfx sel q = bindE (call_classify api q) (decode pfx sel)"

text \<open>A write whose response body is not read.\<close>

definition write_call :: "('w, 'q, 'p) api \<Rightarrow> 'q \<Rightarrow> ('w, 'q, 's, 'o, unit) act" where
  "write_call api q = bindE (call_classify api q) (\<lambda>_. returnOk ())"

lemma bindE_returnOk [simp]: "bindE (returnOk x) f = f x"
  by (simp add: bindE_def returnOk_def)

lemma bindE_throwError [simp]: "bindE (throwError e) f = throwError e"
  by (simp add: bindE_def throwError_def)

lemma bindE_assoc: "bindE (bindE m f) g = bindE m (\<lambda>x. bindE (f x) g)"
  by (auto simp: bindE_def fun_eq_iff split: prod.splits sum.splits)

lemma bindE_returnOk_right [simp]: "bindE m returnOk = m"
  by (auto simp: bindE_def returnOk_def fun_eq_iff split: prod.splits sum.splits)

lemmas act_defs = bindE_def returnOk_def throwError_def attempt_def gets_def modify_cr_def
  emit_event_def call_def lift_sum_def call_classify_def decode_def fetch_def write_call_def

section \<open>Which requests a handler issues\<close>

definition emits :: "('q \<Rightarrow> bool) \<Rightarrow> ('w, 'q, 's, 'o, 'a) act \<Rightarrow> bool" where
  "emits P m \<longleftrightarrow> (\<forall>s r s'. m s = (r, s') \<longrightarrow> (\<exists>qs. reqs s' = reqs s @ qs \<and> list_all P qs))"

lemma emitsI: "(\<And>s r s'. m s = (r, s') \<Longrightarrow> \<exists>qs. reqs s' = reqs s @ qs \<and> list_all P qs) \<Longrightarrow> emits P m"
  by (simp add: emits_def)

lemma emitsD: "emits P m \<Longrightarrow> m s = (r, s') \<Longrightarrow> \<exists>qs. reqs s' = reqs s @ qs \<and> list_all P qs"
  by (simp add: emits_def)

lemma emits_returnOk [emits_rules, simp]: "emits P (returnOk x)"
  by (simp add: emits_def returnOk_def)

lemma emits_throwError [emits_rules, simp]: "emits P (throwError e)"
  by (simp add: emits_def throwError_def)

lemma emits_lift_sum [emits_rules, simp]: "emits P (lift_sum r)"
  by (simp add: emits_def lift_sum_def)

lemma emits_gets [emits_rules, simp]: "emits P (gets f)"
  by (simp add: emits_def gets_def)

lemma emits_modify_cr [emits_rules, simp]: "emits P (modify_cr f)"
  by (auto simp: emits_def modify_cr_def)

lemma emits_emit_event [emits_rules, simp]: "emits P (emit_event t r)"
  by (auto simp: emits_def emit_event_def)

lemma emits_bindE [emits_rules]:
  assumes m: "emits P m" and f: "\<And>x. emits P (f x)"
  shows "emits P (bindE m f)"
proof (rule emitsI)
  fix s r s' assume run: "bindE m f s = (r, s')"
  obtain r1 s1 where m1: "m s = (r1, s1)" by (cases "m s")
  obtain qs1 where qs1: "reqs s1 = reqs s @ qs1" "list_all P qs1"
    using emitsD[OF m m1] by blast
  show "\<exists>qs. reqs s' = reqs s @ qs \<and> list_all P qs"
  proof (cases r1)
    case (Inl e)
    then show ?thesis using run m1 qs1 by (auto simp: bindE_def)
  next
    case (Inr x)
    then have "f x s1 = (r, s')" using run m1 by (simp add: bindE_def)
    then obtain qs2 where "reqs s' = reqs s1 @ qs2" "list_all P qs2"
      using emitsD[OF f] by blast
    then show ?thesis using qs1 by (intro exI[of _ "qs1 @ qs2"]) simp
  qed
qed

lemma emits_attempt [emits_rules]: "emits P m \<Longrightarrow> emits P (attempt m)"
  by (auto simp: emits_def attempt_def split: prod.splits)

lemma emits_call [emits_rules]: "P q \<Longrightarrow> emits P (call api q)"
  by (auto simp: emits_def call_def split: prod.splits)

lemma emits_call_classify [emits_rules]: "P q \<Longrightarrow> emits P (call_classify api q)"
  unfolding call_classify_def by (intro emits_rules)

lemma emits_decode [emits_rules, simp]: "emits P (decode pfx sel resp)"
  by (simp add: decode_def split: option.split)

lemma emits_fetch [emits_rules]: "P q \<Longrightarrow> emits P (fetch api pfx sel q)"
  unfolding fetch_def by (intro emits_rules)

lemma emits_write_call [emits_rules]: "P q \<Longrightarrow> emits P (write_call api q)"
  unfolding write_call_def by (intro emits_rules)

lemma emits_if [emits_rules]:
  "(b \<Longrightarrow> emits P m) \<Longrightarrow> (\<not> b \<Longrightarrow> emits P n) \<Longrightarrow> emits P (if b then m else n)"
  by simp

lemma emits_option [emits_rules]:
  "(x = None \<Longrightarrow> emits P m) \<Longrightarrow> (\<And>y. x = Some y \<Longrightarrow> emits P (f y)) \<Longrightarrow>
   emits P (case x of None \<Rightarrow> m | Some y \<Rightarrow> f y)"
  by (cases x) auto

lemma emits_sum [emits_rules]:
  "(\<And>y. x = Inl y \<Longrightarrow> emits P (f y)) \<Longrightarrow> (\<And>y. x = Inr y \<Longrightarrow> emits P (g y)) \<Longrightarrow>
   emits P (case x of Inl y \<Rightarrow> f y | Inr y \<Rightarrow> g y)"
  by (cases x) auto

lemma emits_prod [emits_rules]:
  "(\<And>a b. x = (a, b) \<Longrightarrow> emits P (f a b)) \<Longrightarrow> emits P (case x of (a, b) \<Rightarrow> f a b)"
  by (cases x) auto

lemma emits_list [emits_rules]:
  "(x = [] \<Longrightarrow> emits P m) \<Longrightarrow> (\<And>y ys. x = y # ys \<Longrightarrow> emits P (f y ys)) \<Longrightarrow>
   emits P (case x of [] \<Rightarrow> m | y # ys \<Rightarrow> f y ys)"
  by (cases x) auto

lemma emits_Let [emits_rules]: "emits P (f x) \<Longrightarrow> emits P (let y = x in f y)"
  by simp

lemma emits_mono: "emits P m \<Longrightarrow> (\<And>q. P q \<Longrightarrow> Q q) \<Longrightarrow> emits Q m"
  unfolding emits_def by (meson list.pred_mono_strong)

lemma emits_conj: "emits P m \<Longrightarrow> emits Q m \<Longrightarrow> emits (\<lambda>q. P q \<and> Q q) m"
  by (rule emitsI) (fastforce dest: emitsD simp: list_all_iff)

text \<open>A handler that issues no request at all.\<close>

lemma emits_False_iff: "emits (\<lambda>_. False) m \<longleftrightarrow> (\<forall>s r s'. m s = (r, s') \<longrightarrow> reqs s' = reqs s)"
  by (auto simp: emits_def list_all_iff)

section \<open>Hoare triples\<close>

text \<open>
  \<open>valid P m Q E\<close>: from a state that satisfies \<open>P\<close>, a result value satisfies \<open>Q\<close> and an error \<open>E\<close>,
  each together with the final state. Handlers are total functions, so this is total correctness.
\<close>

definition valid :: "(('w, 'q, 's, 'o) rstate \<Rightarrow> bool) \<Rightarrow> ('w, 'q, 's, 'o, 'a) act \<Rightarrow>
    ('a \<Rightarrow> ('w, 'q, 's, 'o) rstate \<Rightarrow> bool) \<Rightarrow> (go_error \<Rightarrow> ('w, 'q, 's, 'o) rstate \<Rightarrow> bool) \<Rightarrow> bool" where
  "valid P m Q E \<longleftrightarrow> (\<forall>s. P s \<longrightarrow> (case m s of (Inr x, s') \<Rightarrow> Q x s' | (Inl e, s') \<Rightarrow> E e s'))"

lemma validD_Inr: "valid P m Q E \<Longrightarrow> P s \<Longrightarrow> m s = (Inr x, s') \<Longrightarrow> Q x s'"
  by (force simp: valid_def)

lemma validD_Inl: "valid P m Q E \<Longrightarrow> P s \<Longrightarrow> m s = (Inl e, s') \<Longrightarrow> E e s'"
  by (force simp: valid_def)

lemma valid_returnOk [valid_rules]: "valid (Q x) (returnOk x) Q E"
  by (simp add: valid_def returnOk_def)

lemma valid_throwError [valid_rules]: "valid (E e) (throwError e) Q E"
  by (simp add: valid_def throwError_def)

lemma valid_bindE [valid_rules]:
  "(\<And>x. valid (R x) (f x) Q E) \<Longrightarrow> valid P m R E \<Longrightarrow> valid P (bindE m f) Q E"
  by (fastforce simp: valid_def bindE_def split: prod.splits sum.splits)

lemma valid_conseq:
  "valid P' m Q' E' \<Longrightarrow> (\<And>s. P s \<Longrightarrow> P' s) \<Longrightarrow> (\<And>x s. Q' x s \<Longrightarrow> Q x s) \<Longrightarrow>
   (\<And>e s. E' e s \<Longrightarrow> E e s) \<Longrightarrow> valid P m Q E"
  by (fastforce simp: valid_def split: prod.splits sum.splits)

lemma valid_pre: "valid P' m Q E \<Longrightarrow> (\<And>s. P s \<Longrightarrow> P' s) \<Longrightarrow> valid P m Q E"
  by (rule valid_conseq)

lemma valid_if [valid_rules]:
  "(b \<Longrightarrow> valid P m Q E) \<Longrightarrow> (\<not> b \<Longrightarrow> valid P n Q E) \<Longrightarrow> valid P (if b then m else n) Q E"
  by simp

lemma valid_option [valid_rules]:
  "(x = None \<Longrightarrow> valid P m Q E) \<Longrightarrow> (\<And>y. x = Some y \<Longrightarrow> valid P (f y) Q E) \<Longrightarrow>
   valid P (case x of None \<Rightarrow> m | Some y \<Rightarrow> f y) Q E"
  by (cases x) auto

lemma valid_sum [valid_rules]:
  "(\<And>y. x = Inl y \<Longrightarrow> valid P (f y) Q E) \<Longrightarrow> (\<And>y. x = Inr y \<Longrightarrow> valid P (g y) Q E) \<Longrightarrow>
   valid P (case x of Inl y \<Rightarrow> f y | Inr y \<Rightarrow> g y) Q E"
  by (cases x) auto

lemma valid_prod [valid_rules]:
  "(\<And>a b. x = (a, b) \<Longrightarrow> valid P (f a b) Q E) \<Longrightarrow> valid P (case x of (a, b) \<Rightarrow> f a b) Q E"
  by (cases x) auto

end
