(* ===== verification/SharedHelpers.thy ===== *)
theory SharedHelpers
  imports Handler
begin

text \<open>
  The helpers every controller uses, from \<^verbatim>\<open>internal/controller/shared\<close>: condition builders and
  the upstream-state vocabulary (\<^verbatim>\<open>conditions.go\<close>), the event on a condition change
  (\<^verbatim>\<open>events.go\<close>), rejection of immutable-field edits (\<^verbatim>\<open>immutable.go\<close>), pointer helpers
  (\<^verbatim>\<open>ptr.go\<close>), the external-name codecs (\<^verbatim>\<open>externalname.go\<close>) and the mapping of resolver errors to
  conditions (\<^verbatim>\<open>map_resolver_error.go\<close>).
\<close>

section \<open>\<^verbatim>\<open>shared/conditions.go\<close>, \<^verbatim>\<open>shared/events.go\<close>, \<^verbatim>\<open>shared/immutable.go\<close>\<close>

definition SyncedFalse :: "string \<Rightarrow> condition" where
  "SyncedFalse reason = \<lparr>c_type = TypeSynced, c_status = ConditionFalse, c_reason = reason\<rparr>"

definition ReadyFalse :: "string \<Rightarrow> condition" where
  "ReadyFalse reason = \<lparr>c_type = TypeReady, c_status = ConditionFalse, c_reason = reason\<rparr>"

definition normalReasons :: "string list" where
  "normalReasons = [''Available'', ''Creating'', ''Deleting'', ''ParentNotReady'', ''Aligned'']"

definition RecordConditionChange :: "condition \<Rightarrow> ('w, 'q, 's, 'o, unit) act" where
  "RecordConditionChange c = (\<lambda>s.
     if \<not> recorder s then (Inr (), s)
     else let cur = GetCondition (cr s) (c_type c) in
       if c_status cur = c_status c \<and> c_reason cur = c_reason c then (Inr (), s)
       else (Inr (), s\<lparr>events := events s @
         [(if c_reason c \<in> set normalReasons then EventTypeNormal else EventTypeWarning, c_reason c)]\<rparr>))"

text \<open>The two statements that always come together: record the change, then set the condition.\<close>

definition record_and_set :: "condition \<Rightarrow> ('w, 'q, 's, 'o, unit) act" where
  "record_and_set c = bindE (RecordConditionChange c) (\<lambda>_. modify_cr (SetConditions c))"

lemma emits_RecordConditionChange [emits_rules, simp]: "emits P (RecordConditionChange c)"
  by (auto simp: emits_def RecordConditionChange_def Let_def split: if_splits)

lemma emits_record_and_set [emits_rules, simp]: "emits P (record_and_set c)"
  unfolding record_and_set_def by (intro emits_rules)

definition RejectSizingSwitch :: "('w, 'q, 's, 'o, 'a) act" where
  "RejectSizingSwitch =
     bindE (modify_cr (SetConditions (SyncedFalse ''SizingSwitchRequiresRecreate''))) (\<lambda>_.
     bindE (emit_event EventTypeWarning ''SizingSwitchRequiresRecreate'') (\<lambda>_.
     throwError ErrSizingSwitchRequiresRecreate))"

definition RejectImmutableChange :: "string \<Rightarrow> ('w, 'q, 's, 'o, 'a) act" where
  "RejectImmutableChange field =
     bindE (modify_cr (SetConditions (SyncedFalse ''ImmutableFieldChange''))) (\<lambda>_.
     bindE (emit_event EventTypeWarning ''ImmutableFieldChange'') (\<lambda>_.
     throwError ErrImmutableFieldChange))"

lemma emits_Reject [emits_rules, simp]:
  "emits P (RejectSizingSwitch :: ('w, 'q, 's, 'o, 'a) act)"
  "emits P (RejectImmutableChange field :: ('w, 'q, 's, 'o, 'a) act)"
  unfolding RejectSizingSwitch_def RejectImmutableChange_def by (intro emits_rules)+

record immutable_field =
  if_name :: string
  if_desired :: string
  if_observed :: string

abbreviation imm :: "string \<Rightarrow> string \<Rightarrow> string \<Rightarrow> immutable_field" where
  "imm n d v \<equiv> \<lparr>if_name = n, if_desired = d, if_observed = v\<rparr>"

fun FirstImmutableDiff :: "immutable_field list \<Rightarrow> string option" where
  "FirstImmutableDiff [] = None"
| "FirstImmutableDiff (f # fs) =
     (if TrimSpace (if_desired f) \<noteq> TrimSpace (if_observed f) then Some (if_name f)
      else FirstImmutableDiff fs)"

lemma FirstImmutableDiff_None_iff:
  "FirstImmutableDiff fs = None \<longleftrightarrow> (\<forall>f \<in> set fs. TrimSpace (if_desired f) = TrimSpace (if_observed f))"
  by (induction fs) auto

text \<open>\<^verbatim>\<open>UpstreamState\<close> and \<^verbatim>\<open>ClassifyUpstreamState\<close>.\<close>

datatype upstream_state = StateProvisioning | StateActive | StateUnfunded | StateFailed

definition ClassifyUpstreamState :: "string \<Rightarrow> upstream_state" where
  "ClassifyUpstreamState status =
     (let s = ToLower (TrimSpace status) in
      if s = ''no_paid'' then StateUnfunded
      else if s \<in> {''active'', ''started'', ''running'', ''on'', ''ready'', ''installed'', ''created''}
        then StateActive
      else if Contains s ''error'' \<or> Contains s ''fail'' then StateFailed
      else StateProvisioning)"

section \<open>\<^verbatim>\<open>shared/ptr.go\<close>\<close>

definition DerefString :: "string option \<Rightarrow> string" where
  "DerefString p = (case p of None \<Rightarrow> [] | Some s \<Rightarrow> s)"

definition DerefBool :: "bool option \<Rightarrow> bool" where
  "DerefBool p = (case p of None \<Rightarrow> False | Some b \<Rightarrow> b)"

definition PtrEqString :: "string option \<Rightarrow> string \<Rightarrow> bool" where
  "PtrEqString p s = (case p of None \<Rightarrow> s = [] | Some t \<Rightarrow> t = s)"

definition PtrEqStringPtr :: "string option \<Rightarrow> string option \<Rightarrow> bool" where
  "PtrEqStringPtr a b =
     (if a = None \<and> b = None then True
      else (case a of None \<Rightarrow> [] | Some s \<Rightarrow> s) = (case b of None \<Rightarrow> [] | Some s \<Rightarrow> s))"

lemma PtrEqString_Deref: "PtrEqString p s \<longleftrightarrow> DerefString p = s"
  by (auto simp: PtrEqString_def DerefString_def split: option.split)

lemma PtrEqStringPtr_Deref: "PtrEqStringPtr a b \<longleftrightarrow> DerefString a = DerefString b"
  by (simp add: PtrEqStringPtr_def DerefString_def)

lemma Deref_simps [simp]:
  "DerefString None = []" "DerefString (Some s) = s" "DerefBool None = False" "DerefBool (Some b) = b"
  by (simp_all add: DerefString_def DerefBool_def)


section \<open>\<^verbatim>\<open>shared/externalname.go\<close>\<close>

definition EncodeID :: "int \<Rightarrow> string" where
  "EncodeID n = Itoa n"

definition DecodeID :: "string \<Rightarrow> int option" where
  "DecodeID externalName = (if externalName = [] then None else Atoi externalName)"

definition EncodeComposite :: "string \<times> string \<Rightarrow> string" where
  "EncodeComposite pc = fst pc @ ''/'' @ snd pc"

definition DecodeComposite :: "string \<Rightarrow> (string \<times> string) option" where
  "DecodeComposite externalName =
     (if externalName = [] then None
      else case IndexByte externalName (CHR ''/'') of
             None \<Rightarrow> None
           | Some idx \<Rightarrow>
               if idx = 0 \<or> idx = length externalName - 1 then None
               else Some (take idx externalName, drop (Suc idx) externalName))"

text \<open>
  The contract of an external-name codec: what is encoded on \<^verbatim>\<open>Create\<close> is what every later
  \<^verbatim>\<open>Observe\<close> decodes, an encoded name is never empty (the empty name means "not created"), and two
  resources never share a name.
\<close>

locale name_codec =
  fixes enc :: "'i \<Rightarrow> string" and dec :: "string \<Rightarrow> 'i option" and ok :: "'i \<Rightarrow> bool"
  assumes dec_enc: "ok i \<Longrightarrow> dec (enc i) = Some i"
    and dec_empty: "dec [] = None"
begin

lemma enc_nonempty: "ok i \<Longrightarrow> enc i \<noteq> []"
  using dec_enc dec_empty by force

lemma enc_inj: "ok i \<Longrightarrow> ok j \<Longrightarrow> enc i = enc j \<Longrightarrow> i = j"
  using dec_enc by (metis option.inject)

end

lemma DecodeID_EncodeID [simp]: "int64 n \<Longrightarrow> DecodeID (EncodeID n) = Some n"
  by (simp add: DecodeID_def EncodeID_def)

lemma DecodeComposite_EncodeComposite:
  assumes "p \<noteq> []" "CHR ''/'' \<notin> set p" "c \<noteq> []"
  shows "DecodeComposite (EncodeComposite (p, c)) = Some (p, c)"
proof -
  have "IndexByte (p @ CHR ''/'' # c) (CHR ''/'') = Some (length p)"
    unfolding IndexByte_Some_iff using assms(2) by blast
  with assms show ?thesis by (simp add: DecodeComposite_def EncodeComposite_def)
qed

lemma DecodeComposite_Some:
  assumes "DecodeComposite s = Some (p, c)"
  shows "s = EncodeComposite (p, c) \<and> p \<noteq> [] \<and> c \<noteq> [] \<and> CHR ''/'' \<notin> set p"
proof -
  from assms obtain i where i: "IndexByte s (CHR ''/'') = Some i" "i \<noteq> 0" "i \<noteq> length s - 1"
    "p = take i s" "c = drop (Suc i) s"
    by (auto simp: DecodeComposite_def split: if_splits option.splits)
  then obtain a b where "s = a @ CHR ''/'' # b" "CHR ''/'' \<notin> set a" "i = length a"
    by (auto simp: IndexByte_Some_iff)
  with i show ?thesis by (auto simp: EncodeComposite_def)
qed

interpretation id_codec: name_codec EncodeID DecodeID int64
  by unfold_locales (simp_all add: DecodeID_def EncodeID_def)

interpretation composite_codec: name_codec EncodeComposite DecodeComposite
  "\<lambda>(p, c). p \<noteq> [] \<and> CHR ''/'' \<notin> set p \<and> c \<noteq> []"
proof unfold_locales
  fix i :: "string \<times> string"
  assume "case i of (p, c) \<Rightarrow> p \<noteq> [] \<and> CHR ''/'' \<notin> set p \<and> c \<noteq> []"
  then show "DecodeComposite (EncodeComposite i) = Some i"
    by (cases i) (simp add: DecodeComposite_EncodeComposite)
qed (simp add: DecodeComposite_def)

section \<open>\<^verbatim>\<open>shared/map_resolver_error.go\<close>\<close>

definition MapResolverErrorToCondition :: "go_error \<Rightarrow> condition" where
  "MapResolverErrorToCondition err =
     SyncedFalse (case root err of
        PresetNotFoundError _ _ _ _ \<Rightarrow> ''PresetNotFound''
      | PresetAmbiguousError _ _ _ _ \<Rightarrow> ''PresetAmbiguous''
      | NoConfiguratorAvailableError _ _ _ \<Rightarrow> ''NoConfiguratorAvailable''
      | DimensionValueNotFoundError _ _ _ \<Rightarrow> ''DimensionValueNotFound''
      | ErrCatalogUnauthorized _ \<Rightarrow> ''CatalogUnauthorized''
      | ErrCatalogTransient _ \<Rightarrow> ''CatalogTransient''
      | _ \<Rightarrow> ''APIError'')"

section \<open>Lemmas\<close>

lemma RecordConditionChange_state:
  assumes "RecordConditionChange c s = (r, s')"
  shows "cr s' = cr s \<and> world s' = world s \<and> reqs s' = reqs s \<and> r = Inr ()"
  using assms by (auto simp: RecordConditionChange_def Let_def split: if_splits)

text \<open>Once the condition is set, recording the same condition again emits nothing.\<close>

lemma record_after_set:
  assumes "record_and_set c s = (r, s')"
  shows "RecordConditionChange c s' = (Inr (), s')"
proof -
  obtain r1 s1 where r1: "RecordConditionChange c s = (r1, s1)" by (cases "RecordConditionChange c s")
  with assms RecordConditionChange_state[OF r1] have "s' = s1\<lparr>cr := SetConditions c (cr s1)\<rparr>"
    by (simp add: record_and_set_def bindE_def modify_cr_def)
  then show ?thesis
    by (simp add: RecordConditionChange_def GetCondition_def SetConditions_def Let_def)
qed

end
