(* ===== verification/ExternalClient.thy ===== *)
theory ExternalClient
  imports SharedHelpers
begin

text \<open>
  What the external clients of all kinds have in common: the read that treats a confirmed 404 as
  absence, the delete that treats it as done, and the contract the managed-resource runtime relies
  on, as a locale that each kind interprets on its own handlers.
\<close>

section \<open>Shared idioms\<close>

text \<open>The result of a classified call for code that branches on \<^verbatim>\<open>errors.Is(err, ErrNotFound)\<close>.\<close>

definition on_not_found :: "('w, 'q, 's, 'o, 'b) act \<Rightarrow> ('a \<Rightarrow> ('w, 'q, 's, 'o, 'b) act) \<Rightarrow> go_error + 'a \<Rightarrow> ('w, 'q, 's, 'o, 'b) act" where
  "on_not_found gone ok r = (case r of Inl err \<Rightarrow> if is_not_found err then gone else throwError err | Inr x \<Rightarrow> ok x)"

definition fetch_or_absent :: "('w, 'q, 'p) api \<Rightarrow> string \<Rightarrow> ('p \<Rightarrow> 'a option) \<Rightarrow> 'q \<Rightarrow>
    ('a \<Rightarrow> ('w, 'q, 's, 'o, observation) act) \<Rightarrow> ('w, 'q, 's, 'o, observation) act" where
  "fetch_or_absent api pfx sel q k =
     bindE (attempt (call_classify api q)) (on_not_found (returnOk absent) (\<lambda>resp. bindE (decode pfx sel resp) k))"

definition delete_or_gone :: "('w, 'q, 'p) api \<Rightarrow> 'q \<Rightarrow> ('w, 'q, 's, 'o, unit) act \<Rightarrow> ('w, 'q, 's, 'o, unit) act" where
  "delete_or_gone api q k = bindE (attempt (call_classify api q)) (on_not_found (returnOk ()) (\<lambda>_. k))"

lemma emits_on_not_found [emits_rules]:
  "emits P gone \<Longrightarrow> (\<And>x. emits P (ok x)) \<Longrightarrow> emits P (on_not_found gone ok r)"
  by (simp add: on_not_found_def split: sum.split)

lemma emits_fetch_or_absent [emits_rules]:
  "P q \<Longrightarrow> (\<And>x. emits P (k x)) \<Longrightarrow> emits P (fetch_or_absent api pfx sel q k)"
  unfolding fetch_or_absent_def by (intro emits_rules)

lemma emits_delete_or_gone [emits_rules]: "P q \<Longrightarrow> emits P k \<Longrightarrow> emits P (delete_or_gone api q k)"
  unfolding delete_or_gone_def by (intro emits_rules)

lemma classify_result_not_found:
  "classify_result r = Inl e \<Longrightarrow> is_not_found e \<Longrightarrow>
   \<exists>resp. r = Resp resp \<and> resp_status resp = 404 \<and> canonical_envelope (resp_body resp)"
  by (auto simp: classify_result_def ClassifyNetworkError_def dest: Classify_not_found_status
      split: http_result.splits option.splits)

lemma classify_result_ok:
  "classify_result r = Inr resp \<Longrightarrow> r = Resp resp \<and> 200 \<le> resp_status resp \<and> resp_status resp < 300"
  by (auto simp: classify_result_def Classify_None_iff split: http_result.splits option.splits)

abbreviation after_call :: "('w, 'q, 'p) api \<Rightarrow> 'q \<Rightarrow> ('w, 'q, 's, 'o) rstate \<Rightarrow> ('w, 'q, 's, 'o) rstate" where
  "after_call api q s \<equiv> s\<lparr>world := snd (api (world s) q), reqs := reqs s @ [q]\<rparr>"

lemma call_classify_run:
  "call_classify api q s = (classify_result (fst (api (world s) q)), after_call api q s)"
  by (simp add: call_classify_def bindE_def call_def lift_sum_def split: prod.split)

lemma attempt_call_run [simp]:
  "bindE (attempt (call_classify api q)) f s = f (classify_result (fst (api (world s) q))) (after_call api q s)"
  by (simp add: bindE_def attempt_def call_classify_run)

lemma fetch_or_absent_error:
  "classify_result (fst (api (world s) q)) = Inl e \<Longrightarrow>
   fetch_or_absent api pfx sel q k s = (if is_not_found e then Inr absent else Inl e, after_call api q s)"
  by (simp add: fetch_or_absent_def on_not_found_def returnOk_def throwError_def)

lemma delete_or_gone_error:
  "classify_result (fst (api (world s) q)) = Inl e \<Longrightarrow>
   delete_or_gone api q k s = (if is_not_found e then Inr () else Inl e, after_call api q s)"
  by (simp add: delete_or_gone_def on_not_found_def returnOk_def throwError_def)

section \<open>The contract of an external client\<close>

text \<open>The part about \<^verbatim>\<open>Observe\<close>, for kinds whose \<^verbatim>\<open>Delete\<close> does more than one request.\<close>

locale external_observer =
  fixes api :: "('w, 'q, 'p) api"
    and observe :: "('w, 'q, 's, 'o, observation) act"
    and get_req :: "('s, 'o) mr \<Rightarrow> 'q option"
  assumes observe_no_identity: "get_req (cr s) = None \<Longrightarrow> observe s = (Inr absent, s)"
    and observe_error: "get_req (cr s) = Some q \<Longrightarrow> classify_result (fst (api (world s) q)) = Inl e \<Longrightarrow>
      observe s = (if is_not_found e then Inr absent else Inl e, after_call api q s)"
    and observe_ok: "get_req (cr s) = Some q \<Longrightarrow> classify_result (fst (api (world s) q)) = Inr resp \<Longrightarrow>
      observe s = (Inr ob, s') \<Longrightarrow> ResourceExists ob"
begin

text \<open>A resource that has an identity is reported absent only on a confirmed 404.\<close>

lemma absent_means_gone:
  assumes "observe s = (Inr ob, s')" "\<not> ResourceExists ob" "get_req (cr s) = Some q"
  shows "\<exists>resp. fst (api (world s) q) = Resp resp \<and> resp_status resp = 404 \<and> canonical_envelope (resp_body resp)"
proof (cases "classify_result (fst (api (world s) q))")
  case (Inl e)
  with observe_error[OF assms(3) Inl] assms(1) have "is_not_found e" by (auto split: if_splits)
  with Inl show ?thesis by (rule classify_result_not_found)
next
  case (Inr resp)
  with observe_ok[OF assms(3) Inr assms(1)] assms(2) show ?thesis by simp
qed

text \<open>Whatever the answer, an error leaves the managed resource's identity and status as they were.\<close>

lemma observe_error_keeps:
  assumes "observe s = (Inl e, s')" "get_req (cr s) = Some q" "classify_result (fst (api (world s) q)) = Inl e'"
  shows "e = e' \<and> cr s' = cr s \<and> reqs s' = reqs s @ [q]"
  using observe_error[OF assms(2,3)] assms(1) by (auto split: if_splits)

end

locale external_client = external_observer api observe get_req
  for api :: "('w, 'q, 'p) api"
    and observe :: "('w, 'q, 's, 'o, observation) act"
    and delete :: "('w, 'q, 's, 'o, unit) act"
    and get_req :: "('s, 'o) mr \<Rightarrow> 'q option"
    and del_req :: "('s, 'o) mr \<Rightarrow> 'q option" +
  assumes delete_no_identity: "del_req (cr s) = None \<Longrightarrow> delete s = (Inr (), s)"
    and delete_error: "del_req (cr s) = Some q \<Longrightarrow> classify_result (fst (api (world s) q)) = Inl e \<Longrightarrow>
      delete s = (if is_not_found e then Inr () else Inl e, after_call api q s)"
    and delete_ok: "del_req (cr s) = Some q \<Longrightarrow> classify_result (fst (api (world s) q)) = Inr resp \<Longrightarrow>
      fst (delete s) = Inr ()"
begin

text \<open>A delete that reports success was accepted upstream or found the resource gone.\<close>

lemma delete_means_gone:
  assumes "delete s = (Inr (), s')" "del_req (cr s) = Some q"
  shows "\<exists>resp. fst (api (world s) q) = Resp resp \<and>
    (resp_status resp \<in> {200..<300} \<or> resp_status resp = 404 \<and> canonical_envelope (resp_body resp))"
proof (cases "classify_result (fst (api (world s) q))")
  case (Inl e)
  with delete_error[OF assms(2) Inl] assms(1) have "is_not_found e" by (auto split: if_splits)
  with classify_result_not_found[OF Inl] show ?thesis by blast
next
  case (Inr resp)
  from classify_result_ok[OF Inr] show ?thesis by simp
qed

end

section \<open>Establishing the contract\<close>

lemma gets_run [simp]: "gets f s = (Inr (f (cr s)), s)"
  by (simp add: gets_def)

lemma bindE_gets [simp]: "bindE (gets f) g s = g (f (cr s)) s"
  by (simp add: bindE_def gets_def)

lemma bindE_modify_cr [simp]: "bindE (modify_cr f) g s = g () (s\<lparr>cr := f (cr s)\<rparr>)"
  by (simp add: bindE_def modify_cr_def)

lemma modify_cr_run [simp]: "modify_cr f s = (Inr (), s\<lparr>cr := f (cr s)\<rparr>)"
  by (simp add: modify_cr_def)

lemma bindE_lift_sum [simp]: "bindE (lift_sum (Inr x)) f = f x" "bindE (lift_sum (Inl e)) f = throwError e"
  by (simp_all add: bindE_def lift_sum_def throwError_def)

lemma bindE_emit_event [simp]:
  "bindE (emit_event t r) f s = f () (if recorder s then s\<lparr>events := events s @ [(t, r)]\<rparr> else s)"
  by (simp add: bindE_def emit_event_def)

lemma DecodeID_Nil [simp]: "DecodeID [] = None"
  by (simp add: DecodeID_def)

lemma GetCondition_SetConditions [simp]: "GetCondition (SetConditions c m) (c_type c) = c"
  by (simp add: GetCondition_def SetConditions_def)

text \<open>The events after recording a condition change.\<close>

definition events_after :: "condition \<Rightarrow> ('w, 'q, 's, 'o) rstate \<Rightarrow> event list" where
  "events_after c s = events (snd (RecordConditionChange c s))"

lemma record_and_set_run [simp]:
  "record_and_set c s = (Inr (), s\<lparr>events := events_after c s, cr := SetConditions c (cr s)\<rparr>)"
  by (simp add: events_after_def record_and_set_def bindE_def RecordConditionChange_def modify_cr_def Let_def)

lemma bindE_record_and_set [simp]:
  "bindE (record_and_set c) f s = f () (s\<lparr>events := events_after c s, cr := SetConditions c (cr s)\<rparr>)"
  by (simp add: bindE_def)

lemma returnOk_run [simp]: "returnOk x s = (Inr x, s)"
  by (simp add: returnOk_def)

lemma throwError_run [simp]: "throwError e s = (Inl e, s)"
  by (simp add: throwError_def)

lemma SetConditions_simps [simp]:
  "external_name (SetConditions c m) = external_name m" "for_provider (SetConditions c m) = for_provider m"
  "at_provider (SetConditions c m) = at_provider m"
  "create_incomplete (SetConditions c m) = create_incomplete m" "create_failed (SetConditions c m) = create_failed m"
  by (simp_all add: SetConditions_def)

text \<open>A continuation that, when it returns, reports the resource as existing.\<close>

definition reports_present :: "('w, 'q, 's, 'o, observation) act \<Rightarrow> bool" where
  "reports_present m \<longleftrightarrow> (\<forall>s ob s'. m s = (Inr ob, s') \<longrightarrow> ResourceExists ob)"

lemma reports_present_returnOk [simp]: "reports_present (returnOk ob) \<longleftrightarrow> ResourceExists ob"
  by (auto simp: reports_present_def returnOk_def)

lemma reports_present_throwError [simp]: "reports_present (throwError e)"
  by (simp add: reports_present_def throwError_def)

lemma reports_present_bindE: "(\<And>x. reports_present (f x)) \<Longrightarrow> reports_present (bindE m f)"
  unfolding reports_present_def bindE_def by (auto split: prod.splits sum.splits)

lemma external_observerI:
  assumes obs: "\<And>s. observe s = (case get_req (cr s) of None \<Rightarrow> (Inr absent, s)
      | Some q \<Rightarrow> fetch_or_absent api pfx sel q (k q) s)"
    and k: "\<And>q x. reports_present (k q x)"
  shows "external_observer api observe get_req"
proof
  fix s q resp ob s'
  assume "get_req (cr s) = Some q" "classify_result (fst (api (world s) q)) = Inr resp" "observe s = (Inr ob, s')"
  then show "ResourceExists ob"
    using reports_present_bindE[of "k q" "decode pfx sel resp"] k
    by (auto simp: obs fetch_or_absent_def on_not_found_def reports_present_def)
qed (auto simp: obs fetch_or_absent_error)

lemma external_clientI_req:
  assumes obs: "\<And>s. observe s = (case get_req (cr s) of None \<Rightarrow> (Inr absent, s)
      | Some q \<Rightarrow> fetch_or_absent api pfx sel q (k q) s)"
    and k: "\<And>q x. reports_present (k q x)"
    and del: "\<And>s. delete s = (case del_req (cr s) of None \<Rightarrow> (Inr (), s) | Some q \<Rightarrow> delete_or_gone api q d s)"
    and d: "\<And>s. fst (d s) = Inr ()"
  shows "external_client api observe delete get_req del_req"
  by (rule external_client.intro[OF external_observerI[OF obs k]], unfold_locales)
     (use d in \<open>auto simp: del delete_or_gone_error delete_or_gone_def on_not_found_def\<close>)

lemmas external_clientI = external_clientI_req[where k = "\<lambda>_. k" for k]

text \<open>Running a read or a write whose answer is known.\<close>

definition answers :: "('w, 'q, 'p) api \<Rightarrow> 'w \<Rightarrow> 'q \<Rightarrow> 'p \<Rightarrow> 'w \<Rightarrow> bool" where
  "answers api w q x w' \<longleftrightarrow> (\<exists>resp. api w q = (Resp resp, w') \<and> resp_status resp = 200 \<and> resp_payload resp = Some x)"

lemma answers_classify: "answers api w q x w' \<Longrightarrow>
  \<exists>resp. classify_result (fst (api w q)) = Inr resp \<and> resp_payload resp = Some x \<and> snd (api w q) = w'"
  by (auto simp: answers_def classify_result_def Classify_def)

lemma fetch_run:
  "answers api (world s) q x w' \<Longrightarrow> bindE (fetch api pfx Some q) f s = f x (s\<lparr>world := w', reqs := reqs s @ [q]\<rparr>)"
  by (auto dest!: answers_classify simp: bindE_def fetch_def call_classify_run decode_def)

lemma fetch_or_absent_run:
  "answers api (world s) q x w' \<Longrightarrow>
   fetch_or_absent api pfx Some q k s = k x (s\<lparr>world := w', reqs := reqs s @ [q]\<rparr>)"
  by (auto dest!: answers_classify simp: fetch_or_absent_def on_not_found_def decode_def)

lemma write_call_run:
  "answers api (world s) q x w' \<Longrightarrow> write_call api q s = (Inr (), s\<lparr>world := w', reqs := reqs s @ [q]\<rparr>)"
  by (auto dest!: answers_classify simp: bindE_def write_call_def call_classify_run)

text \<open>The variant in which an error response is wrapped with a message of its own; transport errors are not.\<close>

definition call_classify_as :: "string \<Rightarrow> ('w, 'q, 'p) api \<Rightarrow> 'q \<Rightarrow> ('w, 'q, 's, 'o, 'p http_response) act" where
  "call_classify_as msg api q = bindE (call api q) (\<lambda>r. case r of
     NetErr e \<Rightarrow> throwError (ClassifyNetworkError e)
   | Resp resp \<Rightarrow> (case Classify (Some resp) of Some err \<Rightarrow> throwError (Wrap msg err) | None \<Rightarrow> returnOk resp))"

definition fetch_as :: "string \<Rightarrow> ('w, 'q, 'p) api \<Rightarrow> string \<Rightarrow> ('p \<Rightarrow> 'a option) \<Rightarrow> 'q \<Rightarrow> ('w, 'q, 's, 'o, 'a) act" where
  "fetch_as msg api pfx sel q = bindE (call_classify_as msg api q) (decode pfx sel)"

definition write_call_as :: "string \<Rightarrow> ('w, 'q, 'p) api \<Rightarrow> 'q \<Rightarrow> ('w, 'q, 's, 'o, unit) act" where
  "write_call_as msg api q = bindE (call_classify_as msg api q) (\<lambda>_. returnOk ())"

lemma emits_call_classify_as [emits_rules]: "P q \<Longrightarrow> emits P (call_classify_as msg api q)"
  unfolding call_classify_as_def
  by (intro emits_rules) (auto intro!: emits_rules split: http_result.split option.split)

lemma emits_fetch_as [emits_rules]: "P q \<Longrightarrow> emits P (fetch_as msg api pfx sel q)"
  unfolding fetch_as_def by (intro emits_rules)

lemma emits_write_call_as [emits_rules]: "P q \<Longrightarrow> emits P (write_call_as msg api q)"
  unfolding write_call_as_def by (intro emits_rules)

lemma call_classify_as_ok:
  "answers api (world s) q x w' \<Longrightarrow> \<exists>resp. resp_payload resp = Some x \<and>
   call_classify_as msg api q s = (Inr resp, s\<lparr>world := w', reqs := reqs s @ [q]\<rparr>)"
  by (auto simp: answers_def call_classify_as_def bindE_def call_def Classify_def returnOk_def)

lemma fetch_as_run:
  "answers api (world s) q p w' \<Longrightarrow> sel p = Some x \<Longrightarrow>
   fetch_as msg api pfx sel q s = (Inr x, s\<lparr>world := w', reqs := reqs s @ [q]\<rparr>)"
  by (auto dest!: call_classify_as_ok[of _ _ _ _ _ msg] simp: fetch_as_def bindE_def decode_def returnOk_def)

lemma write_call_as_run:
  "answers api (world s) q p w' \<Longrightarrow> write_call_as msg api q s = (Inr (), s\<lparr>world := w', reqs := reqs s @ [q]\<rparr>)"
  by (auto dest!: call_classify_as_ok[of _ _ _ _ _ msg] simp: write_call_as_def bindE_def returnOk_def)

lemma fetch_sel_run:
  "answers api (world s) q p w' \<Longrightarrow> sel p = Some x \<Longrightarrow>
   fetch api pfx sel q s = (Inr x, s\<lparr>world := w', reqs := reqs s @ [q]\<rparr>)"
  by (auto dest!: answers_classify simp: bindE_def fetch_def call_classify_run decode_def returnOk_def)

text \<open>The equations that evaluate a handler; theories that reason with rules over folded handlers remove them.\<close>

lemmas run_equations = returnOk_run throwError_run gets_run modify_cr_run bindE_gets bindE_modify_cr bindE_emit_event
  bindE_record_and_set record_and_set_run attempt_call_run

section \<open>Concrete states and answers, for witnesses\<close>

definition wit_state :: "'w \<Rightarrow> ('s, 'o) mr \<Rightarrow> ('w, 'q, 's, 'o) rstate" where
  "wit_state w m = \<lparr>world = w, reqs = [], events = [], recorder = True, cr = m\<rparr>"

definition gone_response :: "'p http_response" where
  "gone_response = \<lparr>resp_status = 404, resp_body = Bytes ''x'' (Some (JObj [(''error_code'', JStr ''not_found'')])), resp_payload = None\<rparr>"

definition ok_response :: "'p \<Rightarrow> 'p http_response" where
  "ok_response x = \<lparr>resp_status = 200, resp_body = Bytes ''{}'' None, resp_payload = Some x\<rparr>"

lemma answers_ok: "api w q = (Resp (ok_response x), w') \<Longrightarrow> answers api w q x w'"
  by (simp add: answers_def ok_response_def)

end
