(* ===== verification/NetworkExternal.thy ===== *)
theory NetworkExternal
  imports ExternalClient
begin

text \<open>
  The Network (VPC) kind: \<^verbatim>\<open>internal/controller/network/network_external.go\<close>. The upstream id is a
  string and is the external name. \<open>api\<close> stands for the generated client and the service behind it.
\<close>

section \<open>Data\<close>

record network_parameters =
  np_Name :: string
  np_SubnetCIDR :: string
  np_Location :: string
  np_AvailabilityZone :: "string option"
  np_Description :: "string option"

record network_observation =
  no_UpstreamID :: "string option"
  no_AssignedCIDR :: "string option"
  no_State :: "string option"

record vpc =
  vpc_Id :: string
  vpc_Name :: string
  vpc_SubnetV4 :: string
  vpc_Location :: string
  vpc_AvailabilityZone :: string
  vpc_Description :: string
  vpc_Type :: string

record create_vpc =
  cv_Name :: string
  cv_SubnetV4 :: string
  cv_Location :: string
  cv_Description :: "string option"
  cv_AvailabilityZone :: "string option"

text \<open>\<^verbatim>\<open>UpdateVPCs\<close> carries the description of the patch body; \<open>None\<close> is omitted from the JSON.\<close>

datatype network_req = GetVPC string | CreateVPC create_vpc | UpdateVPCs string "string option" | DeleteVPC string

type_synonym network_mr = "(network_parameters, network_observation) mr"
type_synonym ('w, 'a) network_act = "('w, network_req, network_parameters, network_observation, 'a) act"
type_synonym 'w network_api = "('w, network_req, vpc) api"

section \<open>Helpers\<close>

definition buildCreateVPCBody :: "network_parameters \<Rightarrow> create_vpc" where
  "buildCreateVPCBody fp = \<lparr>cv_Name = np_Name fp, cv_SubnetV4 = np_SubnetCIDR fp, cv_Location = np_Location fp,
     cv_Description = np_Description fp, cv_AvailabilityZone = np_AvailabilityZone fp\<rparr>"

definition populateNetworkStatus :: "vpc \<Rightarrow> network_mr \<Rightarrow> network_mr" where
  "populateNetworkStatus v m = m\<lparr>at_provider := (at_provider m)\<lparr>no_UpstreamID := Some (vpc_Id v),
     no_AssignedCIDR := Some (vpc_SubnetV4 v), no_State := Some (vpc_Type v)\<rparr>\<rparr>"

definition isNetworkUpToDate :: "network_parameters \<Rightarrow> vpc \<Rightarrow> bool" where
  "isNetworkUpToDate spec v \<longleftrightarrow>
     (if np_Name spec \<noteq> vpc_Name v then False
      else if np_SubnetCIDR spec \<noteq> vpc_SubnetV4 v then False
      else if np_Location spec \<noteq> vpc_Location v then False
      else if np_AvailabilityZone spec \<noteq> None \<and> np_AvailabilityZone spec \<noteq> Some (vpc_AvailabilityZone v) then False
      else DerefString (np_Description spec) = vpc_Description v)"

definition network_checks :: "network_parameters \<Rightarrow> vpc \<Rightarrow> immutable_field list" where
  "network_checks fp v =
     [imm ''name'' (np_Name fp) (vpc_Name v), imm ''subnetCIDR'' (np_SubnetCIDR fp) (vpc_SubnetV4 v),
      imm ''location'' (np_Location fp) (vpc_Location v)] @
     (case np_AvailabilityZone fp of None \<Rightarrow> [] | Some az \<Rightarrow> [imm ''availabilityZone'' az (vpc_AvailabilityZone v)])"

section \<open>The four handlers\<close>

definition network_Observe :: "'w network_api \<Rightarrow> ('w, observation) network_act" where
  "network_Observe api =
     bindE (gets external_name) (\<lambda>n.
     if n = [] then returnOk absent
     else fetch_or_absent api ''network/network'' Some (GetVPC n) (\<lambda>v.
       bindE (modify_cr (populateNetworkStatus v)) (\<lambda>_.
       bindE (record_and_set Available) (\<lambda>_.
       bindE (gets for_provider) (\<lambda>fp.
       returnOk (present (isNetworkUpToDate fp v)))))))"

definition network_Create :: "'w network_api \<Rightarrow> ('w, unit) network_act" where
  "network_Create api =
     bindE (gets for_provider) (\<lambda>fp.
     bindE (fetch api ''network/network'' Some (CreateVPC (buildCreateVPCBody fp))) (\<lambda>v.
     bindE (modify_cr (\<lambda>m. m\<lparr>external_name := vpc_Id v\<rparr>)) (\<lambda>_.
     bindE (modify_cr (populateNetworkStatus v)) (\<lambda>_.
     record_and_set Creating))))"

definition network_Update :: "'w network_api \<Rightarrow> ('w, unit) network_act" where
  "network_Update api =
     bindE (gets external_name) (\<lambda>n.
     if n = [] then throwError (Errorf ''network/network: empty external-name on Update'')
     else bindE (fetch api ''network/network'' Some (GetVPC n)) (\<lambda>v.
       bindE (gets for_provider) (\<lambda>fp.
       case FirstImmutableDiff (network_checks fp v) of
         Some field \<Rightarrow> RejectImmutableChange field
       | None \<Rightarrow>
           if DerefString (np_Description fp) = vpc_Description v then returnOk ()
           else write_call api (UpdateVPCs n (np_Description fp)))))"

definition network_Delete :: "'w network_api \<Rightarrow> ('w, unit) network_act" where
  "network_Delete api =
     bindE (gets external_name) (\<lambda>n.
     if n = [] then returnOk ()
     else delete_or_gone api (DeleteVPC n) (record_and_set Deleting))"

definition network_get_req :: "network_mr \<Rightarrow> network_req option" where
  "network_get_req m = (if external_name m = [] then None else Some (GetVPC (external_name m)))"

definition network_del_req :: "network_mr \<Rightarrow> network_req option" where
  "network_del_req m = (if external_name m = [] then None else Some (DeleteVPC (external_name m)))"

interpretation network: external_client api "network_Observe api" "network_Delete api" network_get_req network_del_req
  for api
  by (rule external_clientI[where pfx = "''network/network''" and sel = Some and d = "record_and_set Deleting"
        and k = "\<lambda>v. bindE (modify_cr (populateNetworkStatus v)) (\<lambda>_. bindE (record_and_set Available) (\<lambda>_.
          bindE (gets for_provider) (\<lambda>fp. returnOk (present (isNetworkUpToDate fp v)))))"])
     (auto simp: network_Observe_def network_Delete_def network_get_req_def network_del_req_def
       intro!: reports_present_bindE)

section \<open>The upstream service\<close>

text \<open>
  What the handlers rely on of the service behind \<open>api\<close>: \<open>store w n\<close> is the VPC with id \<open>n\<close> in world
  \<open>w\<close>; reading it changes nothing, and a PATCH replaces the description when the body carries one and
  leaves it alone when the field is omitted.
\<close>

definition vpc_service :: "'w network_api \<Rightarrow> ('w \<Rightarrow> string \<Rightarrow> vpc option) \<Rightarrow> bool" where
  "vpc_service api store \<longleftrightarrow>
     (\<forall>w n v. store w n = Some v \<longrightarrow> answers api w (GetVPC n) v w) \<and>
     (\<forall>w n v d. store w n = Some v \<longrightarrow>
        (\<exists>v' w'. answers api w (UpdateVPCs n d) v' w' \<and> v' = (case d of None \<Rightarrow> v | Some t \<Rightarrow> v\<lparr>vpc_Description := t\<rparr>)
           \<and> store w' n = Some v'))"

lemma vpc_service_get: "vpc_service api store \<Longrightarrow> store w n = Some v \<Longrightarrow> answers api w (GetVPC n) v w"
  by (simp add: vpc_service_def)

lemma network_Observe_run:
  assumes "vpc_service api store" "external_name (cr s) = n" "n \<noteq> []" "store (world s) n = Some v"
  shows "fst (network_Observe api s) = Inr (present (isNetworkUpToDate (for_provider (cr s)) v))
    \<and> world (snd (network_Observe api s)) = world s"
  using assms(2,3) fetch_or_absent_run[OF vpc_service_get[OF assms(1,4)]]
  by (simp add: network_Observe_def populateNetworkStatus_def)

lemma network_Update_run:
  assumes "vpc_service api store" "external_name (cr s) = n" "n \<noteq> []" "store (world s) n = Some v"
  shows "network_Update api s =
    (let s1 = s\<lparr>reqs := reqs s @ [GetVPC n]\<rparr>; fp = for_provider (cr s) in
     case FirstImmutableDiff (network_checks fp v) of Some field \<Rightarrow> RejectImmutableChange field s1
     | None \<Rightarrow> if DerefString (np_Description fp) = vpc_Description v then (Inr (), s1)
               else write_call api (UpdateVPCs n (np_Description fp)) s1)"
  using assms(2,3)
  by (simp add: network_Update_def Let_def fetch_run[OF vpc_service_get[OF assms(1,4)]] split: option.split)

section \<open>Properties\<close>

text \<open>
  A Network that has an external name is reported as absent (and hence recreated) only when the
  service answered its GET with a confirmed 404; a transport error, a bare 404 or any other failure
  is an error of the reconcile.
\<close>

theorem network_absent_only_if_gone:
  assumes "network_Observe api s = (Inr ob, s')" "\<not> ResourceExists ob" "external_name (cr s) \<noteq> []"
  shows "\<exists>resp. fst (api (world s) (GetVPC (external_name (cr s)))) = Resp resp \<and>
    resp_status resp = 404 \<and> canonical_envelope (resp_body resp)"
  using network.absent_means_gone[OF assms(1,2)] assms(3) by (simp add: network_get_req_def)

definition wit_network :: network_mr where
  "wit_network = \<lparr>external_name = ''network-1'', create_incomplete = False, create_failed = [],
     for_provider = \<lparr>np_Name = ''net'', np_SubnetCIDR = ''10.0.0.0/24'', np_Location = ''ru-1'',
       np_AvailabilityZone = None, np_Description = Some ''new''\<rparr>,
     at_provider = \<lparr>no_UpstreamID = None, no_AssignedCIDR = None, no_State = None\<rparr>, conditions = Map.empty\<rparr>"

theorem network_absent_only_if_gone_witness:
  "fst (network_Observe (\<lambda>w q. (Resp gone_response, w)) (wit_state () wit_network)) = Inr absent \<and>
   canonical_envelope (resp_body (gone_response :: vpc http_response))"
proof -
  let ?o = "network_Observe (\<lambda>w q. (Resp gone_response, w)) (wit_state () wit_network)"
  have h: "fst ?o = Inr absent" by code_simp
  then obtain s' where "?o = (Inr absent, s')" by (cases ?o) auto
  from network_absent_only_if_gone[OF this] h show ?thesis by (simp add: wit_state_def wit_network_def)
qed

text \<open>
  A Network converges: when no immutable field drifted and the spec sets a description, Update
  succeeds and the next Observe reports the resource up to date.
\<close>

theorem network_Update_converges:
  assumes "vpc_service api store" "external_name (cr s) = n" "n \<noteq> []" "store (world s) n = Some v"
    and "np_Name fp = vpc_Name v" "np_SubnetCIDR fp = vpc_SubnetV4 v" "np_Location fp = vpc_Location v"
      "np_AvailabilityZone fp \<in> {None, Some (vpc_AvailabilityZone v)}" "np_Description fp \<noteq> None"
    and "fp = for_provider (cr s)" "network_Update api s = (r, s1)"
  shows "r = Inr () \<and> fst (network_Observe api s1) = Inr (present True)"
proof -
  obtain d where d: "np_Description fp = Some d" using assms(9) by blast
  have imm: "FirstImmutableDiff (network_checks fp v) = None"
    using assms(5-8) by (auto simp: FirstImmutableDiff_None_iff network_checks_def split: option.splits)
  note run = network_Update_run[OF assms(1-4)]
  show ?thesis
  proof (cases "d = vpc_Description v")
    case True
    with run imm d assms(10,11) have s1: "r = Inr ()" "s1 = s\<lparr>reqs := reqs s @ [GetVPC n]\<rparr>" by (simp_all add: Let_def)
    then have "external_name (cr s1) = n" "store (world s1) n = Some v" "for_provider (cr s1) = fp" using assms(2,4,10) by simp_all
    with network_Observe_run[OF assms(1) this(1) assms(3) this(2)] True d assms(5-8) s1(1) show ?thesis
      by (auto simp: isNetworkUpToDate_def)
  next
    case False
    obtain w' where w': "answers api (world s) (UpdateVPCs n (Some d)) (v\<lparr>vpc_Description := d\<rparr>) w'"
        "store w' n = Some (v\<lparr>vpc_Description := d\<rparr>)"
      using assms(1,4) unfolding vpc_service_def by (metis option.simps(5))
    let ?s1 = "s\<lparr>world := w', reqs := (reqs s @ [GetVPC n]) @ [UpdateVPCs n (Some d)]\<rparr>"
    have "network_Update api s = (Inr (), ?s1)"
      using run imm d False assms(10) write_call_run[of api "s\<lparr>reqs := reqs s @ [GetVPC n]\<rparr>"] w'(1) by (simp add: Let_def)
    with assms(11) have s1: "r = Inr ()" "s1 = ?s1" by simp_all
    then have "external_name (cr s1) = n" "store (world s1) n = Some (v\<lparr>vpc_Description := d\<rparr>)" "for_provider (cr s1) = fp"
      using assms(2,10) w'(2) by simp_all
    with network_Observe_run[OF assms(1) this(1) assms(3) this(2)] d assms(5-8) s1(1) show ?thesis
      by (auto simp: isNetworkUpToDate_def)
  qed
qed

definition wit_vpc :: vpc where
  "wit_vpc = \<lparr>vpc_Id = ''network-1'', vpc_Name = ''net'', vpc_SubnetV4 = ''10.0.0.0/24'', vpc_Location = ''ru-1'',
     vpc_AvailabilityZone = ''spb-3'', vpc_Description = ''old'', vpc_Type = ''bgp''\<rparr>"

text \<open>A service with one VPC, the world being that VPC.\<close>

definition wit_vpc_api :: "vpc network_api" where
  "wit_vpc_api w q = (case q of
     UpdateVPCs n (Some d) \<Rightarrow> (Resp (ok_response (w\<lparr>vpc_Description := d\<rparr>)), w\<lparr>vpc_Description := d\<rparr>)
   | _ \<Rightarrow> (Resp (ok_response w), w))"

lemma wit_vpc_service: "vpc_service wit_vpc_api (\<lambda>w n. Some w)"
  by (auto simp: vpc_service_def answers_def wit_vpc_api_def ok_response_def split: option.splits)

theorem network_Update_converges_witness:
  "fst (network_Update wit_vpc_api (wit_state wit_vpc wit_network)) = Inr () \<and>
   fst (network_Observe wit_vpc_api (snd (network_Update wit_vpc_api (wit_state wit_vpc wit_network)))) = Inr (present True)"
proof -
  obtain r s1 where u: "network_Update wit_vpc_api (wit_state wit_vpc wit_network) = (r, s1)" by fastforce
  from network_Update_converges[OF wit_vpc_service _ _ _ _ _ _ _ _ refl u, of "''network-1''" wit_vpc] u show ?thesis
    by (simp add: wit_state_def wit_network_def wit_vpc_def)
qed

text \<open>
  With no description in the spec and one upstream, the PATCH body omits the field: the resource stays
  out of date however often Update runs.
\<close>

lemma network_nil_description_stuck:
  assumes "vpc_service api store" "external_name (cr s) = n" "n \<noteq> []" "store (world s) n = Some v"
    and "FirstImmutableDiff (network_checks (for_provider (cr s)) v) = None"
    and "np_Description (for_provider (cr s)) = None" "vpc_Description v \<noteq> []"
    and "network_Update api s = (r, s1)"
  shows "r = Inr () \<and> store (world s1) n = Some v \<and> fst (network_Observe api s1) = Inr (present False)"
proof -
  obtain w' where w': "answers api (world s) (UpdateVPCs n None) v w'" "store w' n = Some v"
    using assms(1,4) unfolding vpc_service_def by (metis option.simps(4))
  have "network_Update api s = (Inr (), s\<lparr>world := w', reqs := (reqs s @ [GetVPC n]) @ [UpdateVPCs n None]\<rparr>)"
    using network_Update_run[OF assms(1-4)] assms(5-7) write_call_run[of api "s\<lparr>reqs := reqs s @ [GetVPC n]\<rparr>"] w'(1)
    by (auto simp: Let_def)
  with assms(8) have s1: "r = Inr ()" "s1 = s\<lparr>world := w', reqs := (reqs s @ [GetVPC n]) @ [UpdateVPCs n None]\<rparr>" by simp_all
  then have "external_name (cr s1) = n" "store (world s1) n = Some v" "for_provider (cr s1) = for_provider (cr s)"
    using assms(2) w'(2) by simp_all
  with network_Observe_run[OF assms(1) this(1) assms(3) this(2)] assms(6,7) s1(1) show ?thesis
    by (auto simp: isNetworkUpToDate_def)
qed

end
