(* ===== verification/Placement.thy ===== *)
theory Placement
  imports SharedHelpers
begin

text \<open>
  Locations and availability zones: \<^verbatim>\<open>internal/controller/shared/azlocation.go\<close>. The static table
  is a Go map; the reverse index is built by ranging over it, in an order Go does not fix.
\<close>

type_synonym location_table = "(string \<times> string list) list"

definition staticLocations :: location_table where
  "staticLocations =
     [(''ru-1'', [''spb-1'', ''spb-2'', ''spb-3'', ''spb-4'', ''spb-5'']),
      (''ru-2'', [''nsk-1'']), (''ru-3'', [''msk-1'']), (''nl-1'', [''ams-1'']),
      (''de-1'', [''fra-1'']), (''kz-1'', [''ala-1'']), (''us-4'', [''us-4'']),
      (''pl-1'', [''pl-1''])]"

definition zone_pairs :: "location_table \<Rightarrow> (string \<times> string) list" where
  "zone_pairs t = concat (map (\<lambda>(loc, zones). map (\<lambda>az. (az, loc)) zones) t)"

definition buildAZToLocation :: "location_table \<Rightarrow> (string \<times> string) list" where
  "buildAZToLocation t = map_build (zone_pairs t)"

definition azToLocation :: "string \<Rightarrow> string option" where
  "azToLocation = map_of (buildAZToLocation staticLocations)"

definition AZToLocation :: "string \<Rightarrow> go_error + string" where
  "AZToLocation az = (case azToLocation az of Some loc \<Rightarrow> Inr loc
     | None \<Rightarrow> Inl (Errorf ''no catalog location known for availability zone''))"

definition LocationZones :: "string \<Rightarrow> string list" where
  "LocationZones location = (case map_of staticLocations location of None \<Rightarrow> [] | Some zones \<Rightarrow> zones)"

definition DefaultZoneForLocation :: "string \<Rightarrow> go_error + string" where
  "DefaultZoneForLocation location =
     (case LocationZones location of
        [] \<Rightarrow> Inl (Errorf ''no availability zones known for location'')
      | [z] \<Rightarrow> Inr z
      | _ \<Rightarrow> Inl (Errorf ''location has multiple availability zones''))"

definition ResolvePlacement :: "string \<Rightarrow> string option \<Rightarrow> go_error + string \<times> string" where
  "ResolvePlacement location az =
     (let hasLocation = (location \<noteq> []); hasAZ = (DerefString az \<noteq> []) in
      if hasLocation \<and> hasAZ then
        (let zones = LocationZones location in
         if zones = [] then Inl (Errorf ''unknown location'')
         else if DerefString az \<in> set zones then Inr (location, DerefString az)
         else Inl (Errorf ''availabilityZone does not belong to location''))
      else if hasLocation then
        (case DefaultZoneForLocation location of Inl e \<Rightarrow> Inl e | Inr zone \<Rightarrow> Inr (location, zone))
      else if hasAZ then
        (case AZToLocation (DerefString az) of Inl e \<Rightarrow> Inl e | Inr loc \<Rightarrow> Inr (loc, DerefString az))
      else Inl (Errorf ''location is required''))"

section \<open>The table is a bijection between zones and (location, position)\<close>

lemma zone_pairs_mem: "(az, loc) \<in> set (zone_pairs t) \<longleftrightarrow> (\<exists>zs. (loc, zs) \<in> set t \<and> az \<in> set zs)"
  by (auto simp: zone_pairs_def)

lemma static_zones_distinct: "distinct (map fst (zone_pairs staticLocations))"
  by (simp add: zone_pairs_def staticLocations_def)

lemma static_go_map: "go_map staticLocations"
  by (simp add: staticLocations_def)

lemma map_of_distinct_build:
  assumes "distinct (map fst xs)"
  shows "map_of (map_build xs) k = Some v \<longleftrightarrow> (k, v) \<in> set xs"
  using assms by (simp add: map_of_map_build map_of_eq_Some_iff rev_map[symmetric])

text \<open>The reverse index does not depend on the order in which the table is ranged over.\<close>

lemma buildAZToLocation_order:
  assumes "distinct (map fst (zone_pairs t))" "mset t' = mset t"
  shows "map_of (buildAZToLocation t') = map_of (buildAZToLocation t)"
proof -
  have "mset (zone_pairs u) = (\<Sum>\<^sub># (image_mset (\<lambda>(loc, zones). mset (map (\<lambda>az. (az, loc)) zones)) (mset u)))" for u
    by (induction u) (auto simp: zone_pairs_def)
  then have "mset (map fst (zone_pairs t')) = mset (map fst (zone_pairs t))"
    using assms(2) by simp
  then have d': "distinct (map fst (zone_pairs t'))"
    using assms(1) by (metis mset_eq_imp_distinct_iff)
  have "set t' = set t" using assms(2) by (rule mset_eq_setD)
  then have "(k, v) \<in> set (zone_pairs t') \<longleftrightarrow> (k, v) \<in> set (zone_pairs t)" for k v
    by (simp add: zone_pairs_mem)
  then have "map_of (buildAZToLocation t') k = Some v \<longleftrightarrow> map_of (buildAZToLocation t) k = Some v" for k v
    unfolding buildAZToLocation_def map_of_distinct_build[OF d'] map_of_distinct_build[OF assms(1)] .
  then show ?thesis by (metis (no_types, opaque_lifting) ext not_None_eq)
qed

lemma azToLocation_iff: "azToLocation az = Some loc \<longleftrightarrow> az \<in> set (LocationZones loc)"
proof -
  have "azToLocation az = Some loc \<longleftrightarrow> (\<exists>zs. (loc, zs) \<in> set staticLocations \<and> az \<in> set zs)"
    by (simp add: azToLocation_def buildAZToLocation_def map_of_distinct_build[OF static_zones_distinct]
        zone_pairs_mem)
  also have "\<dots> \<longleftrightarrow> az \<in> set (LocationZones loc)"
    unfolding LocationZones_def map_of_eq_Some_iff[OF static_go_map, symmetric]
    by (cases "map_of staticLocations loc") simp_all
  finally show ?thesis .
qed

lemma AZToLocation_iff: "AZToLocation az = Inr loc \<longleftrightarrow> az \<in> set (LocationZones loc)"
  by (auto simp: AZToLocation_def azToLocation_iff[symmetric] split: option.split)

lemma DefaultZone_Inr: "DefaultZoneForLocation loc = Inr z \<longleftrightarrow> LocationZones loc = [z]"
  by (auto simp: DefaultZoneForLocation_def split: list.split)

lemma LocationZones_empty_location: "LocationZones [] = []"
  by (simp add: LocationZones_def staticLocations_def)

lemma LocationZones_nonempty_zone: "[] \<notin> set (LocationZones loc)"
proof -
  have "\<forall>(l, zs) \<in> set staticLocations. [] \<notin> set zs" by (simp add: staticLocations_def)
  then show ?thesis
    by (cases "map_of staticLocations loc") (auto simp: LocationZones_def dest: map_of_SomeD)
qed

text \<open>
  C2. Placement is sound: a resolved pair is a row of the table (the zone belongs to the location and
  the reverse lookup agrees), a declared location or zone is never replaced, and this does not depend
  on the order of the Go map behind the reverse index.
\<close>

theorem ResolvePlacement_sound:
  assumes "ResolvePlacement location az = Inr (l, z)"
  shows "z \<in> set (LocationZones l) \<and> AZToLocation z = Inr l \<and> (location \<noteq> [] \<longrightarrow> l = location)
    \<and> (DerefString az \<noteq> [] \<longrightarrow> z = DerefString az)"
proof -
  have "z \<in> set (LocationZones l) \<and> (location \<noteq> [] \<longrightarrow> l = location)
    \<and> (DerefString az \<noteq> [] \<longrightarrow> z = DerefString az)"
    using assms by (auto simp: ResolvePlacement_def Let_def DefaultZone_Inr AZToLocation_iff
        split: if_splits sum.splits)
  then show ?thesis by (simp add: AZToLocation_iff)
qed

theorem ResolvePlacement_sound_witness:
  "ResolvePlacement ''ru-3'' None = Inr (''ru-3'', ''msk-1'') \<and> AZToLocation ''msk-1'' = Inr ''ru-3''"
proof -
  have h: "ResolvePlacement ''ru-3'' None = Inr (''ru-3'', ''msk-1'')"
    by (simp add: ResolvePlacement_def DefaultZoneForLocation_def LocationZones_def staticLocations_def)
  show ?thesis using h ResolvePlacement_sound[OF h] by simp
qed

text \<open>
  Placement is complete: every row of the table resolves, from the pair, from the zone alone and,
  where the location has a single zone, from the location alone.
\<close>

theorem ResolvePlacement_complete:
  assumes "z \<in> set (LocationZones l)"
  shows "ResolvePlacement l (Some z) = Inr (l, z) \<and> ResolvePlacement [] (Some z) = Inr (l, z)
    \<and> (LocationZones l = [z] \<longrightarrow> ResolvePlacement l None = Inr (l, z))"
proof -
  have l: "l \<noteq> []" using assms LocationZones_empty_location by auto
  have z: "z \<noteq> []" using assms LocationZones_nonempty_zone by auto
  have "AZToLocation z = Inr l" using assms by (simp add: AZToLocation_iff)
  with assms l z show ?thesis
    by (auto simp: ResolvePlacement_def DefaultZoneForLocation_def Let_def)
qed

theorem ResolvePlacement_complete_witness:
  "ResolvePlacement [] (Some ''spb-3'') = Inr (''ru-1'', ''spb-3'')"
proof -
  have h: "''spb-3'' \<in> set (LocationZones ''ru-1'')"
    by (simp add: LocationZones_def staticLocations_def)
  show ?thesis using ResolvePlacement_complete[OF h] by simp
qed

end
