(* ===== verification/FloatingIPExternal.thy ===== *)
theory FloatingIPExternal
  imports ExternalClient Placement
begin

text \<open>
  The FloatingIP kind: \<^verbatim>\<open>internal/controller/network/floatingip_external.go\<close>. It allocates and
  releases an address and keeps its comment; binding belongs to the Server and Router controllers.
\<close>

section \<open>Data\<close>

record fip_parameters =
  fp_Location :: string
  fp_AvailabilityZone :: "string option"
  fp_IsDDoSGuard :: bool
  fp_Comment :: "string option"

record fip_binding =
  fb_ResourceType :: "string option"
  fb_ResourceID :: "int option"
  fb_ResourceUUID :: "string option"

record fip_observation =
  fo_UpstreamID :: "string option"
  fo_IP :: "string option"
  fo_ObservedBoundTo :: "fip_binding option"
  fo_ObservedBoundSummary :: "string option"

text \<open>The union \<^verbatim>\<open>FloatingIp_ResourceId\<close>: a JSON number, a JSON string, or something else.\<close>

datatype resource_id = RidNumber int | RidString string | RidOther

record floating_ip =
  ip_Id :: string
  ip_Ip :: "string option"
  ip_AvailabilityZone :: string
  ip_IsDdosGuard :: bool
  ip_Comment :: "string option"
  ip_ResourceType :: "string option"
  ip_ResourceId :: "resource_id option"

datatype fip_req =
    GetFloatingIp string | CreateFloatingIp bool string | UpdateFloatingIP string "string option" | DeleteFloatingIP string

type_synonym fip_mr = "(fip_parameters, fip_observation) mr"
type_synonym ('w, 'a) fip_act = "('w, fip_req, fip_parameters, fip_observation, 'a) act"
type_synonym 'w fip_api = "('w, fip_req, floating_ip) api"

section \<open>Helpers\<close>

definition AsFloatingIpResourceId1 :: "resource_id \<Rightarrow> string option" where
  "AsFloatingIpResourceId1 r = (case r of RidString s \<Rightarrow> Some s | _ \<Rightarrow> None)"

definition AsFloatingIpResourceId0 :: "resource_id \<Rightarrow> int option" where
  "AsFloatingIpResourceId0 r = (case r of RidNumber n \<Rightarrow> Some (float32_int n) | _ \<Rightarrow> None)"

text \<open>The binding a response describes, and its compact form \<^verbatim>\<open>type/id\<close>.\<close>

definition fip_bound :: "string \<Rightarrow> resource_id option \<Rightarrow> fip_binding \<times> string" where
  "fip_bound rt rid =
     (let bound = \<lparr>fb_ResourceType = Some rt, fb_ResourceID = None, fb_ResourceUUID = None\<rparr> in
      case rid of None \<Rightarrow> (bound, rt)
      | Some r \<Rightarrow>
          (case AsFloatingIpResourceId1 r of
             Some uuid \<Rightarrow>
               if uuid \<noteq> [] then (bound\<lparr>fb_ResourceUUID := Some uuid\<rparr>, rt @ ''/'' @ uuid) else (bound, rt)
           | None \<Rightarrow>
               (case AsFloatingIpResourceId0 r of
                  Some n \<Rightarrow> (bound\<lparr>fb_ResourceID := Some n\<rparr>, rt @ ''/'' @ Itoa n)
                | None \<Rightarrow> (bound, rt))))"

definition populateFloatingIPStatus :: "floating_ip \<Rightarrow> fip_mr \<Rightarrow> fip_mr" where
  "populateFloatingIPStatus f m = m\<lparr>at_provider :=
     (let o' = (at_provider m)\<lparr>fo_UpstreamID := Some (ip_Id f), fo_IP := ip_Ip f\<rparr> in
      case ip_ResourceType f of
        None \<Rightarrow> o'\<lparr>fo_ObservedBoundTo := None, fo_ObservedBoundSummary := None\<rparr>
      | Some rt \<Rightarrow> (case fip_bound rt (ip_ResourceId f) of (b, summary) \<Rightarrow>
          o'\<lparr>fo_ObservedBoundTo := Some b, fo_ObservedBoundSummary := Some summary\<rparr>))\<rparr>"

definition isFloatingIPUpToDate :: "fip_parameters \<Rightarrow> floating_ip \<Rightarrow> bool" where
  "isFloatingIPUpToDate spec f \<longleftrightarrow> DerefString (fp_Comment spec) = DerefString (ip_Comment f)"

definition floatingIPConnectionDetails :: "fip_mr \<Rightarrow> (string \<times> string) list" where
  "floatingIPConnectionDetails m =
     (case fo_IP (at_provider m) of None \<Rightarrow> [] | Some x \<Rightarrow> [(''ip'', x)]) @
     (case fo_UpstreamID (at_provider m) of None \<Rightarrow> [] | Some x \<Rightarrow> [(''upstreamID'', x)])"

definition availabilityZoneFor :: "fip_parameters \<Rightarrow> go_error + string" where
  "availabilityZoneFor fp =
     (if DerefString (fp_AvailabilityZone fp) \<noteq> [] then Inr (DerefString (fp_AvailabilityZone fp))
      else (case DefaultZoneForLocation (fp_Location fp) of
              Inl e \<Rightarrow> Inl (Wrap ''network/floatingip'' e) | Inr az \<Rightarrow> Inr az))"

definition bool_string :: "bool \<Rightarrow> string" where
  "bool_string b = (if b then ''true'' else ''false'')"

definition fip_checks :: "string \<Rightarrow> fip_parameters \<Rightarrow> floating_ip \<Rightarrow> immutable_field list" where
  "fip_checks az fp f =
     [imm ''availabilityZone'' az (ip_AvailabilityZone f),
      imm ''isDDoSGuard'' (bool_string (fp_IsDDoSGuard fp)) (bool_string (ip_IsDdosGuard f))]"

section \<open>The four handlers\<close>

definition fip_observed :: "floating_ip \<Rightarrow> ('w, observation) fip_act" where
  "fip_observed f =
     bindE (modify_cr (populateFloatingIPStatus f)) (\<lambda>_.
     bindE (record_and_set Available) (\<lambda>_.
     bindE (gets (\<lambda>m. m)) (\<lambda>m.
     returnOk ((present (isFloatingIPUpToDate (for_provider m) f))\<lparr>ConnectionDetails := floatingIPConnectionDetails m\<rparr>))))"

definition fip_Observe :: "'w fip_api \<Rightarrow> ('w, observation) fip_act" where
  "fip_Observe api =
     bindE (gets external_name) (\<lambda>n.
     if n = [] then returnOk absent
     else fetch_or_absent api ''network/floatingip'' Some (GetFloatingIp n) fip_observed)"

definition fip_Create :: "'w fip_api \<Rightarrow> ('w, (string \<times> string) list) fip_act" where
  "fip_Create api =
     bindE (gets for_provider) (\<lambda>fp.
     bindE (lift_sum (availabilityZoneFor fp)) (\<lambda>az.
     bindE (fetch api ''network/floatingip'' Some (CreateFloatingIp (fp_IsDDoSGuard fp) az)) (\<lambda>f.
     bindE (modify_cr (\<lambda>m. m\<lparr>external_name := ip_Id f\<rparr>)) (\<lambda>_.
     bindE (modify_cr (populateFloatingIPStatus f)) (\<lambda>_.
     bindE (record_and_set Creating) (\<lambda>_.
     gets floatingIPConnectionDetails))))))"

definition fip_Update :: "'w fip_api \<Rightarrow> ('w, unit) fip_act" where
  "fip_Update api =
     bindE (gets external_name) (\<lambda>n.
     if n = [] then throwError (Errorf ''network/floatingip: empty external-name on Update'')
     else bindE (fetch api ''network/floatingip'' Some (GetFloatingIp n)) (\<lambda>f.
       bindE (gets for_provider) (\<lambda>fp.
       bindE (lift_sum (availabilityZoneFor fp)) (\<lambda>az.
       case FirstImmutableDiff (fip_checks az fp f) of
         Some field \<Rightarrow> RejectImmutableChange field
       | None \<Rightarrow>
           if DerefString (fp_Comment fp) = DerefString (ip_Comment f) then returnOk ()
           else write_call api (UpdateFloatingIP n (fp_Comment fp))))))"

definition fip_Delete :: "'w fip_api \<Rightarrow> ('w, unit) fip_act" where
  "fip_Delete api =
     bindE (gets external_name) (\<lambda>n.
     if n = [] then returnOk ()
     else delete_or_gone api (DeleteFloatingIP n) (record_and_set Deleting))"

definition fip_get_req :: "fip_mr \<Rightarrow> fip_req option" where
  "fip_get_req m = (if external_name m = [] then None else Some (GetFloatingIp (external_name m)))"

definition fip_del_req :: "fip_mr \<Rightarrow> fip_req option" where
  "fip_del_req m = (if external_name m = [] then None else Some (DeleteFloatingIP (external_name m)))"

interpretation fip: external_client api "fip_Observe api" "fip_Delete api" fip_get_req fip_del_req for api
  by (rule external_clientI[where pfx = "''network/floatingip''" and sel = Some and d = "record_and_set Deleting"
        and k = fip_observed])
     (auto simp: fip_Observe_def fip_Delete_def fip_get_req_def fip_del_req_def fip_observed_def
       intro!: reports_present_bindE)

section \<open>Properties\<close>

text \<open>
  An existing FloatingIP's address attributes are never changed behind the operator's back: when the
  service reports a different zone or DDoS setting than the spec asks for, Update refuses with
  ImmutableFieldChange after its single GET, and nothing is written.
\<close>

theorem fip_Update_immutable:
  assumes "external_name (cr s) = n" "n \<noteq> []" "answers api (world s) (GetFloatingIp n) f w'"
    and "fp = for_provider (cr s)" "availabilityZoneFor fp = Inr az"
    and "TrimSpace az \<noteq> TrimSpace (ip_AvailabilityZone f) \<or> fp_IsDDoSGuard fp \<noteq> ip_IsDdosGuard f"
    and "fip_Update api s = (r, s')"
  shows "r = Inl ErrImmutableFieldChange \<and> reqs s' = reqs s @ [GetFloatingIp n] \<and>
    GetCondition (cr s') TypeSynced = SyncedFalse ''ImmutableFieldChange''"
proof -
  have "TrimSpace (bool_string True) \<noteq> TrimSpace (bool_string False)" by code_simp
  then have "FirstImmutableDiff (fip_checks az fp f) \<noteq> None"
    using assms(6) by (cases "fp_IsDDoSGuard fp"; cases "ip_IsDdosGuard f")
      (auto simp: FirstImmutableDiff_None_iff fip_checks_def)
  then obtain field where f: "FirstImmutableDiff (fip_checks az fp f) = Some field" by blast
  have "fip_Update api s = RejectImmutableChange field (s\<lparr>world := w', reqs := reqs s @ [GetFloatingIp n]\<rparr>)"
    using assms(1,2,4,5) f by (simp add: fip_Update_def fetch_run[OF assms(3)])
  with assms(7) show ?thesis
    by (auto simp: RejectImmutableChange_def GetCondition_def SetConditions_def SyncedFalse_def)
qed

definition wit_fip :: floating_ip where
  "wit_fip = \<lparr>ip_Id = ''f-1'', ip_Ip = Some ''198.51.100.7'', ip_AvailabilityZone = ''ams-1'', ip_IsDdosGuard = False,
     ip_Comment = None, ip_ResourceType = None, ip_ResourceId = None\<rparr>"

definition wit_fip_mr :: fip_mr where
  "wit_fip_mr = \<lparr>external_name = ''f-1'', create_incomplete = False, create_failed = [],
     for_provider = \<lparr>fp_Location = ''ru-3'', fp_AvailabilityZone = None, fp_IsDDoSGuard = False, fp_Comment = None\<rparr>,
     at_provider = \<lparr>fo_UpstreamID = None, fo_IP = None, fo_ObservedBoundTo = None, fo_ObservedBoundSummary = None\<rparr>,
     conditions = Map.empty\<rparr>"

theorem fip_Update_immutable_witness:
  "fst (fip_Update (\<lambda>w q. (Resp (ok_response wit_fip), w)) (wit_state () wit_fip_mr)) = Inl ErrImmutableFieldChange"
proof -
  let ?api = "\<lambda>w q. (Resp (ok_response wit_fip), w)"
  obtain r s' where u: "fip_Update ?api (wit_state () wit_fip_mr) = (r, s')" by fastforce
  have a: "answers ?api (world (wit_state () wit_fip_mr)) (GetFloatingIp ''f-1'') wit_fip ()" by (rule answers_ok) simp
  have z: "availabilityZoneFor (for_provider (cr (wit_state () wit_fip_mr))) = Inr ''msk-1''" by code_simp
  have t: "TrimSpace ''msk-1'' \<noteq> TrimSpace (ip_AvailabilityZone wit_fip)" by code_simp
  from fip_Update_immutable[OF _ _ a refl z disjI1[OF t] u] u show ?thesis
    by (simp add: wit_state_def wit_fip_mr_def)
qed

end
