(* ===== verification/ProjectExternal.thy ===== *)
theory ProjectExternal
  imports ExternalClient
begin

text \<open>
  The Project kind: \<^verbatim>\<open>internal/controller/project/external.go\<close>. Ids are integers upstream; the
  generated \<^verbatim>\<open>Project\<close> struct decodes them into \<^verbatim>\<open>float32\<close>.
\<close>

record project_parameters =
  pp_Name :: string
  pp_Description :: "string option"
  pp_AvatarID :: "string option"

record project_observation =
  po_ID :: "int option"
  po_AccountID :: "string option"
  po_IsDefault :: "bool option"

record project =
  pj_Id :: int
  pj_AccountId :: string
  pj_IsDefault :: bool
  pj_Name :: string
  pj_Description :: string
  pj_AvatarId :: "string option"

text \<open>The bodies: \<^verbatim>\<open>description\<close> and \<^verbatim>\<open>avatar_id\<close> have no \<^verbatim>\<open>omitempty\<close>, so \<open>None\<close> is sent as null.\<close>

record project_body =
  pb_Name :: string
  pb_Description :: "string option"
  pb_AvatarId :: "string option"

datatype project_req = GetProject int | CreateProject project_body | UpdateProject int project_body | DeleteProject int

type_synonym project_mr = "(project_parameters, project_observation) mr"
type_synonym ('w, 'a) project_act = "('w, project_req, project_parameters, project_observation, 'a) act"
type_synonym 'w project_api = "('w, project_req, project) api"

definition project_body_of :: "project_parameters \<Rightarrow> project_body" where
  "project_body_of fp = \<lparr>pb_Name = pp_Name fp, pb_Description = pp_Description fp, pb_AvatarId = pp_AvatarID fp\<rparr>"

definition project_populateStatus :: "project \<Rightarrow> project_mr \<Rightarrow> project_mr" where
  "project_populateStatus p m = m\<lparr>at_provider :=
     \<lparr>po_ID = Some (float32_int (pj_Id p)), po_AccountID = Some (pj_AccountId p), po_IsDefault = Some (pj_IsDefault p)\<rparr>\<rparr>"

definition project_isUpToDate :: "project_parameters \<Rightarrow> project \<Rightarrow> bool" where
  "project_isUpToDate spec p \<longleftrightarrow>
     (if pp_Name spec \<noteq> pj_Name p then False
      else if \<not> PtrEqString (pp_Description spec) (pj_Description p) then False
      else PtrEqStringPtr (pp_AvatarID spec) (pj_AvatarId p))"

definition project_observed :: "project \<Rightarrow> ('w, observation) project_act" where
  "project_observed p =
     bindE (modify_cr (project_populateStatus p)) (\<lambda>_.
     bindE (record_and_set Available) (\<lambda>_.
     bindE (gets for_provider) (\<lambda>fp. returnOk (present (project_isUpToDate fp p)))))"

definition project_Observe :: "'w project_api \<Rightarrow> ('w, observation) project_act" where
  "project_Observe api =
     bindE (gets external_name) (\<lambda>extName.
     if extName = [] then returnOk absent
     else (case DecodeID extName of
             None \<Rightarrow> returnOk absent
           | Some n \<Rightarrow> fetch_or_absent api ''project'' Some (GetProject n) project_observed))"

definition project_Create :: "'w project_api \<Rightarrow> ('w, unit) project_act" where
  "project_Create api =
     bindE (gets for_provider) (\<lambda>fp.
     bindE (fetch api ''project'' Some (CreateProject (project_body_of fp))) (\<lambda>p.
     bindE (modify_cr (\<lambda>m. m\<lparr>external_name := EncodeID (float32_int (pj_Id p))\<rparr>)) (\<lambda>_.
     bindE (modify_cr (project_populateStatus p)) (\<lambda>_.
     record_and_set Creating))))"

definition project_Update :: "'w project_api \<Rightarrow> ('w, unit) project_act" where
  "project_Update api =
     bindE (gets external_name) (\<lambda>extName.
     case DecodeID extName of
       None \<Rightarrow> throwError (Errorf ''project: decode external-name'')
     | Some n \<Rightarrow> bindE (gets for_provider) (\<lambda>fp. write_call api (UpdateProject n (project_body_of fp))))"

definition project_Delete :: "'w project_api \<Rightarrow> ('w, unit) project_act" where
  "project_Delete api =
     bindE (gets external_name) (\<lambda>extName.
     case DecodeID extName of
       None \<Rightarrow> returnOk ()
     | Some n \<Rightarrow> delete_or_gone api (DeleteProject n) (modify_cr (SetConditions Deleting)))"

definition project_get_req :: "project_mr \<Rightarrow> project_req option" where
  "project_get_req m = map_option GetProject (DecodeID (external_name m))"

definition project_del_req :: "project_mr \<Rightarrow> project_req option" where
  "project_del_req m = map_option DeleteProject (DecodeID (external_name m))"

interpretation project: external_client api "project_Observe api" "project_Delete api" project_get_req project_del_req for api
  by (rule external_clientI[where pfx = "''project''" and sel = Some and d = "modify_cr (SetConditions Deleting)"
        and k = project_observed])
     (auto simp: project_Observe_def project_Delete_def project_get_req_def project_del_req_def project_observed_def
       split: option.splits intro!: reports_present_bindE)

section \<open>The upstream service\<close>

text \<open>
  \<open>store w n\<close> is the project with id \<open>n\<close>. Reading changes nothing; a PUT replaces the fields of the body
  (null clears them) and answers the stored project.
\<close>

definition apply_body :: "project_body \<Rightarrow> project \<Rightarrow> project" where
  "apply_body b p = p\<lparr>pj_Name := pb_Name b, pj_Description := DerefString (pb_Description b), pj_AvatarId := pb_AvatarId b\<rparr>"

definition project_service :: "'w project_api \<Rightarrow> ('w \<Rightarrow> int \<Rightarrow> project option) \<Rightarrow> bool" where
  "project_service api store \<longleftrightarrow>
     (\<forall>w n p. store w n = Some p \<longrightarrow> answers api w (GetProject n) p w) \<and>
     (\<forall>w n p b. store w n = Some p \<longrightarrow>
        (\<exists>w'. answers api w (UpdateProject n b) (apply_body b p) w' \<and> store w' n = Some (apply_body b p)))"

lemma project_Observe_run:
  assumes "answers api (world s) (GetProject n) p w'" "DecodeID (external_name (cr s)) = Some n"
  shows "fst (project_Observe api s) = Inr (present (project_isUpToDate (for_provider (cr s)) p))"
proof -
  have "external_name (cr s) \<noteq> []" using assms(2) by auto
  with assms(2) fetch_or_absent_run[OF assms(1)] show ?thesis
    by (simp add: project_Observe_def project_observed_def project_populateStatus_def)
qed

lemma isUpToDate_apply_body: "project_isUpToDate fp (apply_body (project_body_of fp) p)"
  by (simp add: project_isUpToDate_def apply_body_def project_body_of_def PtrEqString_Deref PtrEqStringPtr_Deref)

section \<open>Properties\<close>

text \<open>
  One Update brings any drifted Project to the desired state: the Observe that follows reports it up to
  date, whatever fields drifted, cleared ones included.
\<close>

theorem project_Update_converges:
  assumes "project_service api store" "DecodeID (external_name (cr s)) = Some n" "store (world s) n = Some p"
    and "project_Update api s = (r, s1)"
  shows "r = Inr () \<and> fst (project_Observe api s1) = Inr (present True)"
proof -
  let ?b = "project_body_of (for_provider (cr s))"
  obtain w' where w': "answers api (world s) (UpdateProject n ?b) (apply_body ?b p) w'" "store w' n = Some (apply_body ?b p)"
    using assms(1,3) unfolding project_service_def by blast
  have "project_Update api s = (Inr (), s\<lparr>world := w', reqs := reqs s @ [UpdateProject n ?b]\<rparr>)"
    using assms(2) by (simp add: project_Update_def write_call_run[OF w'(1)])
  with assms(4) have s1: "r = Inr ()" "s1 = s\<lparr>world := w', reqs := reqs s @ [UpdateProject n ?b]\<rparr>" by simp_all
  have "answers api (world s1) (GetProject n) (apply_body ?b p) w'"
    using assms(1) w'(2) s1(2) unfolding project_service_def by simp
  from project_Observe_run[OF this] assms(2) s1 show ?thesis by (simp add: isUpToDate_apply_body)
qed

definition wit_project :: project where
  "wit_project = \<lparr>pj_Id = 77, pj_AccountId = ''acc'', pj_IsDefault = False, pj_Name = ''old'', pj_Description = ''gone'', pj_AvatarId = Some ''a''\<rparr>"

definition wit_project_api :: "project project_api" where
  "wit_project_api w q = (case q of
     UpdateProject n b \<Rightarrow> (Resp (ok_response (apply_body b w)), apply_body b w)
   | CreateProject b \<Rightarrow> (Resp (ok_response (apply_body b w)), apply_body b w)
   | _ \<Rightarrow> (Resp (ok_response w), w))"

definition wit_project_mr :: "string \<Rightarrow> project_mr" where
  "wit_project_mr n = \<lparr>external_name = n, create_incomplete = False, create_failed = [],
     for_provider = \<lparr>pp_Name = ''new'', pp_Description = None, pp_AvatarID = None\<rparr>,
     at_provider = \<lparr>po_ID = None, po_AccountID = None, po_IsDefault = None\<rparr>, conditions = Map.empty\<rparr>"

lemma wit_project_service: "project_service wit_project_api (\<lambda>w n. Some w)"
  by (auto simp: project_service_def answers_def wit_project_api_def ok_response_def)

theorem project_Update_converges_witness:
  "fst (project_Update wit_project_api (wit_state wit_project (wit_project_mr ''77''))) = Inr () \<and>
   fst (project_Observe wit_project_api (snd (project_Update wit_project_api (wit_state wit_project (wit_project_mr ''77''))))) = Inr (present True)"
proof -
  let ?s = "wit_state wit_project (wit_project_mr ''77'')"
  obtain r s1 where u: "project_Update wit_project_api ?s = (r, s1)" by fastforce
  have d: "DecodeID (external_name (cr ?s)) = Some 77" by code_simp
  from project_Update_converges[OF wit_project_service d refl u] u show ?thesis by simp
qed

text \<open>
  Create records the identity of what it created: for an id below 2^24 in absolute value (the exact
  range of the \<^verbatim>\<open>float32\<close> the generated client decodes ids into), the external name decodes to the id
  the service answered with.
\<close>

theorem project_Create_identity:
  assumes "answers api (world s) (CreateProject (project_body_of (for_provider (cr s)))) p w'" "\<bar>pj_Id p\<bar> < 2 ^ 24"
    and "project_Create api s = (r, s1)"
  shows "r = Inr () \<and> DecodeID (external_name (cr s1)) = Some (pj_Id p) \<and> po_ID (at_provider (cr s1)) = Some (pj_Id p)"
proof -
  have "int64 (pj_Id p)" using assms(2) by (auto simp: int64_def abs_less_iff)
  with assms show ?thesis
    by (auto simp: project_Create_def fetch_run[OF assms(1)] float32_int_exact project_populateStatus_def)
qed

theorem project_Create_identity_witness:
  "DecodeID (external_name (cr (snd (project_Create wit_project_api (wit_state wit_project (wit_project_mr [])))))) = Some 77"
proof -
  let ?s = "wit_state wit_project (wit_project_mr [])"
  obtain r s1 where u: "project_Create wit_project_api ?s = (r, s1)" by fastforce
  let ?b = "project_body_of (for_provider (wit_project_mr []))"
  let ?p = "apply_body ?b wit_project"
  have "answers wit_project_api wit_project (CreateProject ?b) ?p ?p"
    by (rule answers_ok) (simp add: wit_project_api_def)
  then have a: "answers wit_project_api (world ?s) (CreateProject (project_body_of (for_provider (cr ?s)))) ?p ?p"
    by (simp add: wit_state_def)
  have "\<bar>pj_Id ?p\<bar> < 2 ^ 24" by (simp add: apply_body_def wit_project_def)
  from project_Create_identity[OF a this u] u show ?thesis by (simp add: apply_body_def wit_project_def)
qed

text \<open>Beyond that range the recorded name is another project's.\<close>

lemma project_Create_identity_lost: "EncodeID (float32_int 16777217) = ''16777216''"
proof -
  have e: "f32_exp 16777217 = 1" by (subst f32_exp.simps) (simp, subst f32_exp.simps, simp)
  have "float32_int 16777217 = 16777216" by (simp add: float32_int_def float32_nat_def e)
  moreover have "EncodeID 16777216 = ''16777216''"
    by (simp add: EncodeID_def Itoa_def nat_digits.simps digit_char_def char_of_def bit_0)
  ultimately show ?thesis by simp
qed

end
