(* ===== verification/RouterRefs.thy ===== *)
theory RouterRefs
  imports NetworkExternal FloatingIPExternal ProjectExternal
begin

text \<open>
  References of a Router: \<^verbatim>\<open>internal/controller/network/refs.go\<close>. The Kubernetes client is a
  parameter: reads by namespace and name, and a list of the Networks that match a label selector.
\<close>

section \<open>Data\<close>

datatype 'a kube_get = KNotFound | KError string | KFound 'a

record router_network_status =
  rns_ID :: string
  rns_Name :: "string option"
  rns_Gateway :: "string option"
  rns_NATIP :: "string option"
  rns_DHCPEnabled :: "bool option"
  rns_ReservedIPs :: "string list"

record router_parent_service =
  ps_ID :: string
  ps_Type :: string

record static_route_status =
  srs_ID :: string
  srs_Subnet :: string
  srs_Nexthop :: string

record router_observation =
  ro_UpstreamID :: "string option"
  ro_State :: "string option"
  ro_LockedPresetID :: "int option"
  ro_Networks :: "router_network_status list"
  ro_IPs :: "(string \<times> string option) list"
  ro_ParentServices :: "router_parent_service list"
  ro_StaticRoutes :: "static_route_status list"
  ro_ResolvedProjectID :: "int option"

record nat_floating_ip =
  nf_Ref :: "string option"
  nf_IP :: "string option"

record 'l router_attachment =
  at_NetworkRef :: "string option"
  at_NetworkID :: "string option"
  at_NetworkSelector :: "'l option"
  at_NATFloatingIP :: "nat_floating_ip option"
  at_DHCP :: bool
  at_Gateway :: "string option"
  at_ReservedIPs :: "string list"

record router_static_route =
  sr_Subnet :: string
  sr_Nexthop :: "string option"
  sr_Via :: "(string \<times> string) option"

record 'l router_parameters =
  rp_Name :: string
  rp_Comment :: "string option"
  rp_Location :: string
  rp_AvailabilityZone :: "string option"
  rp_PresetName :: string
  rp_Networks :: "'l router_attachment list"
  rp_ProjectRef :: "string option"
  rp_ProjectID :: "int option"
  rp_StaticRoutes :: "router_static_route list"

type_synonym 'l router_mr = "('l router_parameters, router_observation) mr"

text \<open>What the resolver of references reads of the cluster; \<open>'l\<close> is the type of label selectors. A Get or
  List answers for one namespace, the Router's own.\<close>

record 'l kube =
  kube_Network :: "string \<Rightarrow> string \<Rightarrow> network_mr kube_get"
  kube_FloatingIP :: "string \<Rightarrow> string \<Rightarrow> fip_mr kube_get"
  kube_Project :: "string \<Rightarrow> string \<Rightarrow> project_mr kube_get"
  kube_Router :: "string \<Rightarrow> string \<Rightarrow> 'l router_mr kube_get"
  kube_ListNetworks :: "string \<Rightarrow> 'l \<Rightarrow> go_error + network_mr list"

record resolved_attachment =
  ra_NetworkID :: string
  ra_NATIP :: string
  ra_DHCP :: bool
  ra_Gateway :: "string option"
  ra_ReservedIPs :: "string list"

record resolved_route =
  rr_Subnet :: string
  rr_Nexthop :: string

section \<open>Single references\<close>

definition is_ready :: "('s, 'o) mr \<Rightarrow> bool" where
  "is_ready m \<longleftrightarrow> c_status (GetCondition m TypeReady) = ConditionTrue"

text \<open>The shape these functions share in the other groups: the target is read, and what is wanted of it taken when it is there.\<close>

definition get_ref :: "'a kube_get \<Rightarrow> string \<Rightarrow> ('a \<Rightarrow> 'b option) \<Rightarrow> go_error + 'b" where
  "get_ref got name sel = (case got of
     KNotFound \<Rightarrow> Inl (ErrTargetNotFound name)
   | KError e \<Rightarrow> Inl (Errorf ''get reference'')
   | KFound t \<Rightarrow> (case sel t of None \<Rightarrow> Inl (ErrTargetNotReady name) | Some x \<Rightarrow> Inr x))"

text \<open>A text that is not there, or empty, counts as not set.\<close>

definition set_text :: "string option \<Rightarrow> string option" where
  "set_text x = (if x = None \<or> x = Some [] then None else x)"

lemma set_text_Some [simp]: "set_text x = Some y \<longleftrightarrow> x = Some y \<and> y \<noteq> []"
  by (auto simp: set_text_def)

lemma get_ref_Inr: "get_ref got name sel = Inr x \<longleftrightarrow> (\<exists>t. got = KFound t \<and> sel t = Some x)"
  by (auto simp: get_ref_def split: kube_get.split option.split)

lemma get_ref_Inl: "get_ref got name sel = Inl e \<longleftrightarrow>
    got = KNotFound \<and> e = ErrTargetNotFound name \<or> (\<exists>m. got = KError m \<and> e = Errorf ''get reference'') \<or>
    (\<exists>t. got = KFound t \<and> sel t = None \<and> e = ErrTargetNotReady name)"
  by (auto simp: get_ref_def split: kube_get.split option.split)

definition resolveRouterNetworkRef :: "'l kube \<Rightarrow> string \<Rightarrow> string \<Rightarrow> go_error + string" where
  "resolveRouterNetworkRef kube ns name = (case kube_Network kube ns name of
     KNotFound \<Rightarrow> Inl (ErrTargetNotFound name)
   | KError e \<Rightarrow> Inl (Errorf ''get Network'')
   | KFound t \<Rightarrow>
       if DerefString (no_UpstreamID (at_provider t)) = [] then Inl (ErrTargetNotReady name)
       else if \<not> is_ready t then Inl (ErrTargetNotReady name)
       else Inr (DerefString (no_UpstreamID (at_provider t))))"

definition resolveFloatingIPRef :: "'l kube \<Rightarrow> string \<Rightarrow> string \<Rightarrow> go_error + string" where
  "resolveFloatingIPRef kube ns name = (case kube_FloatingIP kube ns name of
     KNotFound \<Rightarrow> Inl (ErrTargetNotFound name)
   | KError e \<Rightarrow> Inl (Errorf ''get FloatingIP'')
   | KFound t \<Rightarrow>
       if DerefString (fo_IP (at_provider t)) = [] then Inl (ErrTargetNotReady name)
       else if \<not> is_ready t then Inl (ErrTargetNotReady name)
       else Inr (DerefString (fo_IP (at_provider t))))"

definition resolveProjectRef :: "'l kube \<Rightarrow> string \<Rightarrow> string \<Rightarrow> go_error + int" where
  "resolveProjectRef kube ns name = (case kube_Project kube ns name of
     KNotFound \<Rightarrow> Inl (ErrTargetNotFound name)
   | KError e \<Rightarrow> Inl (Errorf ''get Project'')
   | KFound t \<Rightarrow> (case po_ID (at_provider t) of None \<Rightarrow> Inl (ErrTargetNotReady name) | Some n \<Rightarrow> Inr n))"

definition resolveRouterNetworkSelector :: "'l kube \<Rightarrow> string \<Rightarrow> 'l \<Rightarrow> go_error + string list" where
  "resolveRouterNetworkSelector kube ns ls = (case kube_ListNetworks kube ns ls of
     Inl e \<Rightarrow> Inl (Wrap ''network/router: list Networks by selector'' e)
   | Inr items \<Rightarrow> Inr (sort (map (\<lambda>n. DerefString (no_UpstreamID (at_provider n)))
       (filter (\<lambda>n. DerefString (no_UpstreamID (at_provider n)) \<noteq> [] \<and> is_ready n) items))))"

section \<open>Attachments\<close>

text \<open>The pair of \<^verbatim>\<open>byID\<close> and \<^verbatim>\<open>order\<close>.\<close>

type_synonym attachment_set = "(string \<rightharpoonup> resolved_attachment) \<times> string list"

definition resolve_nat :: "'l kube \<Rightarrow> string \<Rightarrow> nat_floating_ip option \<Rightarrow> go_error + string" where
  "resolve_nat kube ns nf = (case nf of
     None \<Rightarrow> Inr []
   | Some x \<Rightarrow>
       if DerefString (nf_IP x) \<noteq> [] then Inr (DerefString (nf_IP x))
       else (case nf_Ref x of
               Some r \<Rightarrow> resolveFloatingIPRef kube ns r
             | None \<Rightarrow> Inl (Errorf ''natFloatingIP: one of ref or ip must be set'')))"

definition resolve_network_id :: "'l kube \<Rightarrow> string \<Rightarrow> 'l router_attachment \<Rightarrow> go_error + string" where
  "resolve_network_id kube ns a =
     (if DerefString (at_NetworkID a) \<noteq> [] then Inr (DerefString (at_NetworkID a))
      else (case at_NetworkRef a of
              Some r \<Rightarrow> resolveRouterNetworkRef kube ns r
            | None \<Rightarrow> Inl (Errorf ''one of networkRef, networkID, or networkSelector must be set'')))"

definition resolve_explicit :: "'l kube \<Rightarrow> string \<Rightarrow> 'l router_attachment \<Rightarrow> go_error + resolved_attachment" where
  "resolve_explicit kube ns a = (case resolve_network_id kube ns a of
     Inl e \<Rightarrow> Inl e
   | Inr n \<Rightarrow> (case resolve_nat kube ns (at_NATFloatingIP a) of
       Inl e \<Rightarrow> Inl e
     | Inr ip \<Rightarrow> Inr \<lparr>ra_NetworkID = n, ra_NATIP = ip, ra_DHCP = at_DHCP a, ra_Gateway = at_Gateway a,
                     ra_ReservedIPs = at_ReservedIPs a\<rparr>))"

fun explicit_pass :: "'l kube \<Rightarrow> string \<Rightarrow> 'l router_attachment list \<Rightarrow> attachment_set \<Rightarrow> go_error + attachment_set" where
  "explicit_pass kube ns [] acc = Inr acc"
| "explicit_pass kube ns (a # as) (byID, order) =
     (if at_NetworkSelector a \<noteq> None then explicit_pass kube ns as (byID, order)
      else (case resolve_explicit kube ns a of
              Inl e \<Rightarrow> Inl e
            | Inr ra \<Rightarrow> explicit_pass kube ns as
                (byID(ra_NetworkID ra \<mapsto> ra), if byID (ra_NetworkID ra) = None then order @ [ra_NetworkID ra] else order)))"

fun add_selected :: "'l router_attachment \<Rightarrow> string list \<Rightarrow> attachment_set \<Rightarrow> attachment_set" where
  "add_selected a [] acc = acc"
| "add_selected a (n # ns) (byID, order) =
     (if byID n \<noteq> None then add_selected a ns (byID, order)
      else add_selected a ns (byID(n \<mapsto> \<lparr>ra_NetworkID = n, ra_NATIP = [], ra_DHCP = at_DHCP a,
             ra_Gateway = at_Gateway a, ra_ReservedIPs = at_ReservedIPs a\<rparr>), order @ [n]))"

fun selector_pass :: "'l kube \<Rightarrow> string \<Rightarrow> 'l router_attachment list \<Rightarrow> attachment_set \<Rightarrow> go_error + attachment_set" where
  "selector_pass kube ns [] acc = Inr acc"
| "selector_pass kube ns (a # as) acc = (case at_NetworkSelector a of
     None \<Rightarrow> selector_pass kube ns as acc
   | Some ls \<Rightarrow> (case resolveRouterNetworkSelector kube ns ls of
       Inl e \<Rightarrow> Inl e
     | Inr ids \<Rightarrow> selector_pass kube ns as (add_selected a ids acc)))"

definition resolve_project :: "'l kube \<Rightarrow> string \<Rightarrow> 'l router_parameters \<Rightarrow> go_error + int option" where
  "resolve_project kube ns fp = (case rp_ProjectID fp of
     Some p \<Rightarrow> Inr (Some p)
   | None \<Rightarrow> (case rp_ProjectRef fp of
       None \<Rightarrow> Inr None
     | Some r \<Rightarrow> map_sum (\<lambda>e. e) Some (resolveProjectRef kube ns r)))"

definition resolveRouterRefs :: "'l kube \<Rightarrow> string \<Rightarrow> 'l router_parameters \<Rightarrow> go_error + resolved_attachment list \<times> int option" where
  "resolveRouterRefs kube ns fp = (case explicit_pass kube ns (rp_Networks fp) (Map.empty, []) of
     Inl e \<Rightarrow> Inl e
   | Inr acc \<Rightarrow> (case selector_pass kube ns (rp_Networks fp) acc of
       Inl e \<Rightarrow> Inl e
     | Inr (byID, order) \<Rightarrow> (case resolve_project kube ns fp of
         Inl e \<Rightarrow> Inl e
       | Inr pid \<Rightarrow> Inr (map (\<lambda>n. the (byID n)) order, pid))))"

section \<open>Static routes\<close>

definition resolveStaticRouteVia :: "'l kube \<Rightarrow> string \<Rightarrow> string \<times> string \<Rightarrow> go_error + string" where
  "resolveStaticRouteVia kube ns via = (case via of (routerRef, networkRef) \<Rightarrow>
     (case resolveRouterNetworkRef kube ns networkRef of
        Inl e \<Rightarrow> Inl e
      | Inr netID \<Rightarrow> (case kube_Router kube ns routerRef of
          KNotFound \<Rightarrow> Inl (ErrTargetNotFound routerRef)
        | KError e \<Rightarrow> Inl (Errorf ''get Router'')
        | KFound neighbor \<Rightarrow>
            if \<not> is_ready neighbor then Inl (ErrTargetNotReady routerRef)
            else (case find (\<lambda>n. rns_ID n = netID \<and> DerefString (rns_Gateway n) \<noteq> []) (ro_Networks (at_provider neighbor)) of
                    Some n \<Rightarrow> Inr (DerefString (rns_Gateway n))
                  | None \<Rightarrow> Inl (ErrTargetNotReady routerRef)))))"

definition resolve_route :: "'l kube \<Rightarrow> string \<Rightarrow> router_static_route \<Rightarrow> go_error + resolved_route" where
  "resolve_route kube ns r =
     (if DerefString (sr_Nexthop r) \<noteq> [] then Inr \<lparr>rr_Subnet = sr_Subnet r, rr_Nexthop = DerefString (sr_Nexthop r)\<rparr>
      else (case sr_Via r of
              Some via \<Rightarrow> map_sum (\<lambda>e. e) (\<lambda>nh. \<lparr>rr_Subnet = sr_Subnet r, rr_Nexthop = nh\<rparr>) (resolveStaticRouteVia kube ns via)
            | None \<Rightarrow> Inl (Errorf ''staticRoutes: one of nexthop or via must be set'')))"

fun resolveRouterStaticRoutes :: "'l kube \<Rightarrow> string \<Rightarrow> router_static_route list \<Rightarrow> go_error + resolved_route list" where
  "resolveRouterStaticRoutes kube ns [] = Inr []"
| "resolveRouterStaticRoutes kube ns (r # rs) = (case resolve_route kube ns r of
     Inl e \<Rightarrow> Inl e
   | Inr x \<Rightarrow> map_sum (\<lambda>e. e) (\<lambda>xs. x # xs) (resolveRouterStaticRoutes kube ns rs))"

section \<open>The attachment set\<close>

text \<open>\<^verbatim>\<open>order\<close> lists exactly the keys of \<^verbatim>\<open>byID\<close>, once each, and each entry is stored under its own id.\<close>

definition set_ok :: "attachment_set \<Rightarrow> bool" where
  "set_ok acc \<longleftrightarrow> distinct (snd acc) \<and> set (snd acc) = dom (fst acc) \<and>
     (\<forall>n ra. fst acc n = Some ra \<longrightarrow> ra_NetworkID ra = n)"

lemma explicit_pass_ok: "explicit_pass kube ns as acc = Inr acc' \<Longrightarrow> set_ok acc \<Longrightarrow> set_ok acc'"
proof (induction kube ns as acc rule: explicit_pass.induct)
  case (2 kube ns a as byID order)
  show ?case
  proof (cases "at_NetworkSelector a \<noteq> None")
    case True
    with 2 show ?thesis by auto
  next
    case False
    with "2.prems"(1) obtain ra where ra: "resolve_explicit kube ns a = Inr ra" by (auto split: sum.splits)
    have "set_ok (byID(ra_NetworkID ra \<mapsto> ra), if byID (ra_NetworkID ra) = None then order @ [ra_NetworkID ra] else order)"
      using "2.prems"(2) by (auto simp: set_ok_def domIff)
    with "2.IH"(2)[OF False ra] "2.prems"(1) False ra show ?thesis by simp
  qed
qed simp

lemma set_ok_insert:
  "set_ok (byID, order) \<Longrightarrow> byID (ra_NetworkID ra) = None \<Longrightarrow>
   set_ok (byID(ra_NetworkID ra \<mapsto> ra), order @ [ra_NetworkID ra])"
  by (auto simp: set_ok_def domIff)

lemma add_selected_ok: "set_ok acc \<Longrightarrow> set_ok (add_selected a ns acc)"
proof (induction a ns acc rule: add_selected.induct)
  case (2 a n ns byID order)
  then show ?case
    using set_ok_insert[of byID order "\<lparr>ra_NetworkID = n, ra_NATIP = [], ra_DHCP = at_DHCP a,
      ra_Gateway = at_Gateway a, ra_ReservedIPs = at_ReservedIPs a\<rparr>"] by simp
qed simp

lemma selector_pass_ok: "selector_pass kube ns as acc = Inr acc' \<Longrightarrow> set_ok acc \<Longrightarrow> set_ok acc'"
  by (induction kube ns as acc rule: selector_pass.induct) (auto simp: add_selected_ok split: option.splits sum.splits)

text \<open>A selector never overrides an entry that is there, and what it adds has no NAT and is a ready match.\<close>

definition selected_by :: "'l kube \<Rightarrow> string \<Rightarrow> 'l router_attachment \<Rightarrow> string \<Rightarrow> bool" where
  "selected_by kube ns a n \<longleftrightarrow> (\<exists>ls ids. at_NetworkSelector a = Some ls \<and>
     resolveRouterNetworkSelector kube ns ls = Inr ids \<and> n \<in> set ids)"

lemma add_selected_spec:
  "fst (add_selected a ns acc) n = (case fst acc n of Some ra \<Rightarrow> Some ra
     | None \<Rightarrow> if n \<in> set ns then Some \<lparr>ra_NetworkID = n, ra_NATIP = [], ra_DHCP = at_DHCP a,
         ra_Gateway = at_Gateway a, ra_ReservedIPs = at_ReservedIPs a\<rparr> else None)"
  by (induction a ns acc rule: add_selected.induct) (auto split: option.splits)

lemma selector_pass_spec:
  assumes "selector_pass kube ns as acc = Inr acc'" "fst acc' n = Some ra"
  shows "fst acc n = Some ra \<or>
    (fst acc n = None \<and> ra_NATIP ra = [] \<and> (\<exists>a \<in> set as. selected_by kube ns a n))"
  using assms
proof (induction kube ns as acc rule: selector_pass.induct)
  case (2 kube ns a as acc)
  show ?case
  proof (cases "at_NetworkSelector a")
    case None
    with 2 show ?thesis by auto
  next
    case (Some ls)
    with "2.prems"(1) obtain ids where ids: "resolveRouterNetworkSelector kube ns ls = Inr ids" by (auto split: sum.splits)
    with "2.prems" Some have "selector_pass kube ns as (add_selected a ids acc) = Inr acc'" by simp
    from "2.IH"(2)[OF Some ids this "2.prems"(2)] Some ids show ?thesis
      by (auto simp: add_selected_spec selected_by_def split: option.splits if_splits)
  qed
qed simp

text \<open>Every explicit entry that is the last for its network determines the attachment.\<close>

lemma explicit_pass_spec:
  assumes "explicit_pass kube ns as acc = Inr acc'" "fst acc' n = Some ra"
  shows "fst acc n = Some ra \<or> (\<exists>a \<in> set as. at_NetworkSelector a = None \<and> resolve_explicit kube ns a = Inr ra)"
  using assms
proof (induction kube ns as acc rule: explicit_pass.induct)
  case (2 kube ns a as byID order)
  show ?case
  proof (cases "at_NetworkSelector a \<noteq> None")
    case True
    with 2 show ?thesis by auto
  next
    case False
    with "2.prems"(1) obtain ra1 where r1: "resolve_explicit kube ns a = Inr ra1" by (auto split: sum.splits)
    from "2.IH"(2)[OF False r1] "2.prems" False r1 show ?thesis by (auto split: if_splits)
  qed
qed simp

section \<open>Properties\<close>

text \<open>
  The resolved attachments of a Router list each upstream network once; every attachment comes from
  an explicit entry or from a selector that matched a ready, provisioned Network in the namespace, and
  only explicit entries carry a NAT address.
\<close>

theorem resolveRouterRefs_sound:
  assumes "resolveRouterRefs kube ns fp = Inr (atts, pid)"
  shows "distinct (map ra_NetworkID atts) \<and>
    (\<forall>ra \<in> set atts. (\<exists>a \<in> set (rp_Networks fp). at_NetworkSelector a = None \<and> resolve_explicit kube ns a = Inr ra)
       \<or> (ra_NATIP ra = [] \<and> (\<exists>a \<in> set (rp_Networks fp). selected_by kube ns a (ra_NetworkID ra))))"
proof -
  from assms obtain acc byID order where e: "explicit_pass kube ns (rp_Networks fp) (Map.empty, []) = Inr acc"
      and p: "selector_pass kube ns (rp_Networks fp) acc = Inr (byID, order)"
      and atts: "atts = map (\<lambda>n. the (byID n)) order"
    by (auto simp: resolveRouterRefs_def split: sum.splits)
  have "set_ok (Map.empty, [])" by (simp add: set_ok_def)
  with explicit_pass_ok[OF e] selector_pass_ok[OF p] have ok: "set_ok (byID, order)" by blast
  then have ids: "map ra_NetworkID atts = order"
    unfolding atts map_map by (intro map_idI) (fastforce simp: set_ok_def domIff)
  moreover have "(\<exists>a \<in> set (rp_Networks fp). at_NetworkSelector a = None \<and> resolve_explicit kube ns a = Inr ra)
       \<or> (ra_NATIP ra = [] \<and> (\<exists>a \<in> set (rp_Networks fp). selected_by kube ns a (ra_NetworkID ra)))"
    if "ra \<in> set atts" for ra
  proof -
    from that ok obtain n where n: "byID n = Some ra" "ra_NetworkID ra = n"
      unfolding atts by (fastforce simp: set_ok_def domIff)
    from selector_pass_spec[OF p, of n ra] n explicit_pass_spec[OF e, of n ra] show ?thesis by auto
  qed
  ultimately show ?thesis using ok by (simp add: set_ok_def)
qed

definition wit_kube :: "unit kube" where
  "wit_kube = \<lparr>kube_Network = (\<lambda>_ _. KNotFound), kube_FloatingIP = (\<lambda>_ _. KNotFound), kube_Project = (\<lambda>_ _. KNotFound),
     kube_Router = (\<lambda>_ _. KNotFound),
     kube_ListNetworks = (\<lambda>_ _. Inr [wit_network\<lparr>at_provider := \<lparr>no_UpstreamID = Some ''network-b'', no_AssignedCIDR = None, no_State = None\<rparr>,
         conditions := [TypeReady \<mapsto> Available]\<rparr>,
       wit_network\<lparr>at_provider := \<lparr>no_UpstreamID = Some ''network-a'', no_AssignedCIDR = None, no_State = None\<rparr>,
         conditions := [TypeReady \<mapsto> Available]\<rparr>, wit_network])\<rparr>"

definition wit_router_fp :: "unit router_parameters" where
  "wit_router_fp = \<lparr>rp_Name = ''gw'', rp_Comment = None, rp_Location = ''ru-3'', rp_AvailabilityZone = None, rp_PresetName = ''router-1x1-1gb'',
     rp_Networks = [\<lparr>at_NetworkRef = None, at_NetworkID = None, at_NetworkSelector = Some (), at_NATFloatingIP = None,
         at_DHCP = False, at_Gateway = None, at_ReservedIPs = []\<rparr>,
       \<lparr>at_NetworkRef = None, at_NetworkID = Some ''network-a'', at_NetworkSelector = None,
         at_NATFloatingIP = Some \<lparr>nf_Ref = None, nf_IP = Some ''203.0.113.9''\<rparr>, at_DHCP = True, at_Gateway = None, at_ReservedIPs = []\<rparr>],
     rp_ProjectRef = None, rp_ProjectID = None, rp_StaticRoutes = []\<rparr>"

definition wit_attachments :: "resolved_attachment list" where
  "wit_attachments = [\<lparr>ra_NetworkID = ''network-a'', ra_NATIP = ''203.0.113.9'', ra_DHCP = True, ra_Gateway = None, ra_ReservedIPs = []\<rparr>,
     \<lparr>ra_NetworkID = ''network-b'', ra_NATIP = [], ra_DHCP = False, ra_Gateway = None, ra_ReservedIPs = []\<rparr>]"

theorem resolveRouterRefs_sound_witness:
  "resolveRouterRefs wit_kube ''ns'' wit_router_fp = Inr (wit_attachments, None) \<and> distinct (map ra_NetworkID wit_attachments)"
proof -
  have h: "resolveRouterRefs wit_kube ''ns'' wit_router_fp = Inr (wit_attachments, None)" by code_simp
  show ?thesis using h resolveRouterRefs_sound[OF h] by blast
qed

end
