(* ===== verification/ResolverSlug.thy ===== *)
theory ResolverSlug
  imports SharedHelpers
begin

text \<open>
  Preset matching of the catalog resolver: slugs (\<^verbatim>\<open>resolver/slug.go\<close>) and sizes
  (\<^verbatim>\<open>resolver/match_size.go\<close>).

  \<^verbatim>\<open>normalize\<close> ranges over runes; a rune outside ASCII is never in \<^verbatim>\<open>[a-z0-9]\<close>, so a run of its
  bytes collapses to one hyphen exactly as the rune does.
\<close>

record preset_entry =
  pe_UpstreamID :: int
  pe_DescShort :: string
  pe_Location :: string
  pe_DiskGB :: int
  pe_StorageClass :: string
  pe_Zone :: string

definition is_slug_char :: "char \<Rightarrow> bool" where
  "is_slug_char c \<longleftrightarrow> (let n = (of_char c :: nat) in (97 \<le> n \<and> n \<le> 122) \<or> (48 \<le> n \<and> n \<le> 57))"

text \<open>The loop of \<^verbatim>\<open>normalize\<close>, with \<^verbatim>\<open>prevDash\<close> as the first argument.\<close>

fun norm_loop :: "bool \<Rightarrow> string \<Rightarrow> string" where
  "norm_loop prevDash [] = []"
| "norm_loop prevDash (c # cs) =
     (let r = lower_char c in
      if is_slug_char r then r # norm_loop False cs
      else if \<not> prevDash then CHR ''-'' # norm_loop True cs
      else norm_loop prevDash cs)"

text \<open>\<^verbatim>\<open>strings.TrimRight(out, "-")\<close>\<close>

definition trim_dashes :: "string \<Rightarrow> string" where
  "trim_dashes s = rev (dropWhile (\<lambda>c. c = CHR ''-'') (rev s))"

definition normalize :: "string \<Rightarrow> string" where
  "normalize s = trim_dashes (norm_loop True s)"

definition Slugify :: "string \<Rightarrow> string \<Rightarrow> string" where
  "Slugify descShort location =
     (let short = normalize descShort; loc = normalize location in
      if short = [] \<and> loc = [] then []
      else if loc = [] then short
      else if short = [] then loc
      else short @ ''-'' @ loc)"

definition SlugWithID :: "string \<Rightarrow> string \<Rightarrow> int \<Rightarrow> string" where
  "SlugWithID descShort location n =
     (let base = Slugify descShort location in
      if base = [] then Itoa n else base @ ''-'' @ Itoa n)"

definition splitDisambiguator :: "string \<Rightarrow> (string \<times> int) option" where
  "splitDisambiguator s =
     (case LastIndexByte s (CHR ''-'') of
        None \<Rightarrow> None
      | Some i \<Rightarrow>
          if i = 0 \<or> i = length s - 1 then None
          else let suffix = drop (Suc i) s in
            if length suffix > 18 then None
            else (case Atoi suffix of None \<Rightarrow> None | Some n \<Rightarrow> Some (take i s, n)))"

definition simplifiedSlug :: "preset_entry \<Rightarrow> string" where
  "simplifiedSlug e =
     (if pe_Location e \<noteq> [] \<and> normalize (pe_DescShort e) \<noteq> [] then normalize (pe_DescShort e)
      else Slugify (pe_DescShort e) (pe_Location e))"

definition entry_slug :: "preset_entry \<Rightarrow> string" where
  "entry_slug e = Slugify (pe_DescShort e) (pe_Location e)"

text \<open>The ids of the entries that satisfy a test, in catalog order.\<close>

definition ids_of :: "(preset_entry \<Rightarrow> bool) \<Rightarrow> preset_entry list \<Rightarrow> int list" where
  "ids_of p entries = map pe_UpstreamID (filter p entries)"

text \<open>Step 1 of \<^verbatim>\<open>MatchPresetSlug\<close>: the explicit form \<open>base-id\<close>.\<close>

definition explicit_match :: "string \<Rightarrow> preset_entry list \<Rightarrow> preset_entry option" where
  "explicit_match slug entries =
     (case splitDisambiguator slug of None \<Rightarrow> None
      | Some (base, n) \<Rightarrow> find (\<lambda>e. pe_UpstreamID e = n \<and> entry_slug e = base) entries)"

definition MatchPresetSlug :: "string \<Rightarrow> preset_entry list \<Rightarrow> string \<Rightarrow> go_error + int" where
  "MatchPresetSlug slug0 entries dimensionID =
     (let slug = normalize slug0 in
      case explicit_match slug entries of
        Some e \<Rightarrow> Inr (pe_UpstreamID e)
      | None \<Rightarrow>
          let full = ids_of (\<lambda>e. entry_slug e = slug) entries;
              matches = (if full = [] then ids_of (\<lambda>e. normalize (pe_DescShort e) = slug) entries else full)
          in case matches of
               [] \<Rightarrow> Inl (PresetNotFoundError slug
                        (filter (\<lambda>v. v \<noteq> []) (map simplifiedSlug entries)) dimensionID [])
             | [n] \<Rightarrow> Inr n
             | _ \<Rightarrow>
                 let hint = (case find (\<lambda>e. entry_slug e = slug \<or> normalize (pe_DescShort e) = slug) entries of
                               None \<Rightarrow> []
                             | Some e \<Rightarrow> SlugWithID (pe_DescShort e) (pe_Location e) (pe_UpstreamID e))
                 in Inl (PresetAmbiguousError slug matches dimensionID hint))"

section \<open>Matching by size\<close>

record preset_by_size_input =
  ps_DiskGB :: int
  ps_Location :: string
  ps_StorageClass :: string

definition size_matches :: "preset_by_size_input \<Rightarrow> preset_entry \<Rightarrow> bool" where
  "size_matches inp e \<longleftrightarrow>
     pe_DiskGB e = ps_DiskGB inp \<and>
     \<not> (ps_Location inp \<noteq> [] \<and> pe_Location e \<noteq> ps_Location inp) \<and>
     \<not> (ps_StorageClass inp \<noteq> [] \<and> pe_StorageClass e \<noteq> ps_StorageClass inp)"

definition describeEntry :: "preset_entry \<Rightarrow> string" where
  "describeEntry e =
     (let d = Itoa (pe_DiskGB e) @ ''GB'' in
      if pe_StorageClass e \<noteq> [] \<and> pe_Location e \<noteq> [] then d @ ''/'' @ pe_Location e @ ''/'' @ pe_StorageClass e
      else if pe_Location e \<noteq> [] then d @ ''/'' @ pe_Location e
      else if pe_StorageClass e \<noteq> [] then d @ ''/'' @ pe_StorageClass e
      else d)"

text \<open>The printed form of the request; \<^verbatim>\<open>%q\<close> quotes a string of plain characters.\<close>

definition size_slug :: "preset_by_size_input \<Rightarrow> string" where
  "size_slug inp = ''size='' @ Itoa (ps_DiskGB inp) @ ''GB,location='' @ [CHR 0x22] @ ps_Location inp @ [CHR 0x22]
     @ '',storageClass='' @ [CHR 0x22] @ ps_StorageClass inp @ [CHR 0x22]"

definition MatchPresetBySize :: "preset_by_size_input \<Rightarrow> preset_entry list \<Rightarrow> string \<Rightarrow> go_error + int" where
  "MatchPresetBySize inp entries dimensionID =
     (case filter (size_matches inp) entries of
        [] \<Rightarrow> Inl (PresetNotFoundError (size_slug inp) (map describeEntry entries) dimensionID [])
      | [m] \<Rightarrow> Inr (pe_UpstreamID m)
      | ms \<Rightarrow> Inl (PresetAmbiguousError (size_slug inp) (map pe_UpstreamID ms) dimensionID
                  ''narrow with location and/or storageClass''))"

section \<open>Normal forms\<close>

lemma lower_slug_char: "is_slug_char c \<Longrightarrow> lower_char c = c"
  by (auto simp: is_slug_char_def lower_char_def Let_def)

lemma dash_not_slug [simp]: "\<not> is_slug_char (CHR ''-'')" "lower_char (CHR ''-'') = CHR ''-''"
  by (simp_all add: is_slug_char_def lower_char_def)

lemma norm_loop_fix: "norm_loop b (norm_loop b s) = norm_loop b s"
  by (induction b s rule: norm_loop.induct) (auto simp: Let_def lower_slug_char)

text \<open>The value of \<^verbatim>\<open>prevDash\<close> after a prefix.\<close>

fun dash_state :: "bool \<Rightarrow> string \<Rightarrow> bool" where
  "dash_state b [] = b"
| "dash_state b (c # cs) = dash_state (\<not> is_slug_char (lower_char c)) cs"

lemma norm_loop_append: "norm_loop b (xs @ ys) = norm_loop b xs @ norm_loop (dash_state b xs) ys"
  by (induction b xs rule: norm_loop.induct) (auto simp: Let_def)

lemma length_norm_loop: "length (norm_loop b s) \<le> length s"
  by (induction b s rule: norm_loop.induct) (auto simp: Let_def)

lemma norm_loop_fix_prefix: "norm_loop b (xs @ ys) = xs @ ys \<Longrightarrow> norm_loop b xs = xs"
  using length_norm_loop[of b xs] length_norm_loop[of "dash_state b xs" ys]
  by (simp add: norm_loop_append append_eq_append_conv_if)

text \<open>A string in slug form: what \<^verbatim>\<open>normalize\<close> leaves alone.\<close>

definition slug_ok :: "string \<Rightarrow> bool" where
  "slug_ok s \<longleftrightarrow> norm_loop True s = s \<and> (s = [] \<or> last s \<noteq> CHR ''-'')"


lemma trim_dashes_prefix: "\<exists>ys. s = trim_dashes s @ ys"
proof -
  have "rev s = takeWhile (\<lambda>c. c = CHR ''-'') (rev s) @ dropWhile (\<lambda>c. c = CHR ''-'') (rev s)" by simp
  then have "s = rev (dropWhile (\<lambda>c. c = CHR ''-'') (rev s)) @ rev (takeWhile (\<lambda>c. c = CHR ''-'') (rev s))"
    by (metis rev_append rev_rev_ident)
  then show ?thesis unfolding trim_dashes_def by blast
qed

lemma last_trim_dashes: "trim_dashes s \<noteq> [] \<Longrightarrow> last (trim_dashes s) \<noteq> CHR ''-''"
  unfolding trim_dashes_def using hd_dropWhile[of "\<lambda>c. c = CHR ''-''" "rev s"] by (auto simp: last_rev)

lemma trim_dashes_id: "s = [] \<or> last s \<noteq> CHR ''-'' \<Longrightarrow> trim_dashes s = s"
  unfolding trim_dashes_def by (cases s rule: rev_cases) auto

lemma slug_ok_normalize [simp]: "slug_ok (normalize s)"
proof -
  obtain ys where "norm_loop True s = normalize s @ ys"
    using trim_dashes_prefix unfolding normalize_def by blast
  moreover have "norm_loop True (norm_loop True s) = norm_loop True s" by (rule norm_loop_fix)
  ultimately have "norm_loop True (normalize s) = normalize s" by (metis norm_loop_fix_prefix)
  then show ?thesis using last_trim_dashes unfolding slug_ok_def normalize_def by blast
qed

lemma normalize_slug_ok: "slug_ok s \<Longrightarrow> normalize s = s"
  by (simp add: slug_ok_def normalize_def trim_dashes_id)

lemma normalize_idem [simp]: "normalize (normalize s) = normalize s"
  by (simp add: normalize_slug_ok)

lemma slug_ok_Nil [simp]: "slug_ok []"
  by (simp add: slug_ok_def)

lemma dash_state_slug: "slug_ok s \<Longrightarrow> s \<noteq> [] \<Longrightarrow> dash_state b s = False"
proof -
  assume ok: "slug_ok s" and ne: "s \<noteq> []"
  have state: "dash_state b (xs @ [x]) = (\<not> is_slug_char (lower_char x))" for b xs x
    by (induction b xs rule: dash_state.induct) auto
  have out: "x \<in> set (norm_loop b' t) \<Longrightarrow> is_slug_char x \<or> x = CHR ''-''" for x b' t
    by (induction b' t rule: norm_loop.induct) (auto simp: Let_def split: if_splits)
  have "last s \<in> set (norm_loop True s)" using ok ne by (simp add: slug_ok_def)
  then have "is_slug_char (last s)" using out[of "last s" True s] ok ne by (simp add: slug_ok_def)
  then show ?thesis using state[of b "butlast s" "last s"] ne by (simp add: lower_slug_char)
qed

lemma norm_loop_slug_chars: "list_all is_slug_char s \<Longrightarrow> norm_loop b s = s"
  by (induction s arbitrary: b) (auto simp: lower_slug_char)

text \<open>Two slug forms joined by a hyphen are a slug form again.\<close>

lemma norm_loop_hd_slug: "norm_loop True t = t \<Longrightarrow> norm_loop False t = t"
proof (cases t)
  case (Cons c cs)
  assume ft: "norm_loop True t = t"
  have "is_slug_char (lower_char c)"
  proof (rule ccontr)
    assume "\<not> is_slug_char (lower_char c)"
    then have "length (norm_loop True t) < length t"
      using Cons length_norm_loop[of True cs] by (simp add: less_Suc_eq_le)
    with ft show False by simp
  qed
  with ft Cons show ?thesis by simp
qed simp

lemma slug_ok_join:
  assumes "slug_ok a" "a \<noteq> []" "slug_ok b" "b \<noteq> []"
  shows "slug_ok (a @ CHR ''-'' # b)"
proof -
  have "norm_loop True (a @ CHR ''-'' # b) = a @ norm_loop False (CHR ''-'' # b)"
    unfolding norm_loop_append dash_state_slug[OF assms(1,2)] using assms(1) by (simp add: slug_ok_def)
  also have "\<dots> = a @ CHR ''-'' # b"
    using assms by (simp add: slug_ok_def)
  finally show ?thesis using assms by (simp add: slug_ok_def)
qed

lemma slug_ok_Slugify [simp]: "slug_ok (Slugify d l)"
  by (simp add: Slugify_def Let_def slug_ok_join)

lemma slug_ok_entry_slug [simp]: "slug_ok (entry_slug e)"
  by (simp add: entry_slug_def)

lemma digit_slug_char: "digit_val c = Some d \<Longrightarrow> is_slug_char c"
  by (auto simp: digit_val_def is_slug_char_def Let_def split: if_splits)

lemma nat_digits_slug: "list_all is_slug_char (nat_digits n)"
  using nat_digits_set digit_slug_char by (fastforce simp: list_all_iff)

lemma slug_ok_chars: "list_all is_slug_char s \<Longrightarrow> slug_ok s"
proof -
  assume l: "list_all is_slug_char s"
  have "s \<noteq> [] \<Longrightarrow> last s \<noteq> CHR ''-''"
    using l last_in_set[of s] dash_not_slug(1) by (metis list_all_iff)
  with l show ?thesis by (auto simp: slug_ok_def norm_loop_slug_chars)
qed

lemma dash_notin_digits: "CHR ''-'' \<notin> set (nat_digits n)"
  using nat_digits_slug[of n] by (auto simp: list_all_iff)

text \<open>The explicit form splits into the base and the id it was built from.\<close>

lemma splitDisambiguator_explicit:
  assumes "base \<noteq> []" "n < 10 ^ 18"
  shows "splitDisambiguator (base @ CHR ''-'' # nat_digits n) = Some (base, int n)"
proof -
  have li: "LastIndexByte (base @ CHR ''-'' # nat_digits n) (CHR ''-'') = Some (length base)"
    unfolding LastIndexByte_Some_iff using dash_notin_digits by blast
  have "length (nat_digits n) \<le> 18" using assms(2) length_nat_digits[of n 18] by simp
  moreover have "Atoi (nat_digits n) = Some (int n)"
    using assms(2) by (intro Atoi_nat_digits) (simp add: int64_def)
  ultimately show ?thesis
    using assms(1) li nat_digits_nonempty[of n] by (simp add: splitDisambiguator_def del: nat_digits_nonempty)
qed

lemma splitDisambiguator_Some:
  assumes "splitDisambiguator s = Some (base, n)"
  shows "\<exists>suffix. s = base @ CHR ''-'' # suffix \<and> Atoi suffix = Some n \<and> base \<noteq> []"
proof -
  from assms obtain i where i: "LastIndexByte s (CHR ''-'') = Some i" "i \<noteq> 0"
    "base = take i s" "Atoi (drop (Suc i) s) = Some n"
    by (auto simp: splitDisambiguator_def Let_def split: option.splits if_splits)
  then obtain a b where "s = a @ CHR ''-'' # b" "i = length a" by (auto simp: LastIndexByte_Some_iff)
  with i show ?thesis by auto
qed

lemma ids_of_singleton:
  assumes "ids_of p es = [n]"
  shows "\<exists>e \<in> set es. p e \<and> pe_UpstreamID e = n"
proof -
  from assms obtain e where "filter p es = [e]" "pe_UpstreamID e = n" by (auto simp: ids_of_def)
  then have "e \<in> set (filter p es)" by simp
  with \<open>pe_UpstreamID e = n\<close> show ?thesis by auto
qed

lemma ids_of_Nil: "ids_of p es = [] \<longleftrightarrow> (\<forall>e \<in> set es. \<not> p e)"
  by (simp add: ids_of_def filter_empty_conv)

section \<open>Properties\<close>

lemma match_slug_sound:
  assumes "MatchPresetSlug slug entries dim = Inr n"
  shows "\<exists>e \<in> set entries. pe_UpstreamID e = n \<and>
    ((\<exists>suffix. normalize slug = entry_slug e @ CHR ''-'' # suffix \<and> Atoi suffix = Some n)
     \<or> (normalize slug = entry_slug e \<and> ids_of (\<lambda>x. entry_slug x = normalize slug) entries = [n])
     \<or> (normalize slug = normalize (pe_DescShort e)
        \<and> ids_of (\<lambda>x. entry_slug x = normalize slug) entries = []
        \<and> ids_of (\<lambda>x. normalize (pe_DescShort x) = normalize slug) entries = [n]))"
proof (cases "explicit_match (normalize slug) entries")
  case (Some e)
  then obtain base m where sp: "splitDisambiguator (normalize slug) = Some (base, m)"
    and f: "find (\<lambda>e. pe_UpstreamID e = m \<and> entry_slug e = base) entries = Some e"
    by (auto simp: explicit_match_def split: option.splits)
  from f have e: "e \<in> set entries" "pe_UpstreamID e = m" "entry_slug e = base"
    by (auto simp: find_Some_iff)
  from assms Some have "n = m" using e by (simp add: MatchPresetSlug_def Let_def)
  with splitDisambiguator_Some[OF sp] e show ?thesis by auto
next
  case None
  let ?full = "ids_of (\<lambda>x. entry_slug x = normalize slug) entries"
  show ?thesis
  proof (cases "?full = []")
    case True
    with assms None have "ids_of (\<lambda>x. normalize (pe_DescShort x) = normalize slug) entries = [n]"
      by (auto simp: MatchPresetSlug_def Let_def split: list.splits)
    with ids_of_singleton[OF this] True show ?thesis by auto
  next
    case False
    with assms None have "?full = [n]"
      by (auto simp: MatchPresetSlug_def Let_def split: list.splits)
    with ids_of_singleton[OF this] show ?thesis by auto
  qed
qed

text \<open>
  Slug matching is sound and never guesses: an id is returned only for a catalog entry that
  carries it and whose slug is the requested one, either spelled out with the id, or as the only
  entry with that full slug, or (no entry having the full slug) as the only one with that short
  slug.
\<close>

theorem MatchPresetSlug_sound:
  assumes "MatchPresetSlug slug entries dim = Inr n"
  shows "\<exists>e \<in> set entries. pe_UpstreamID e = n \<and>
    ((\<exists>suffix. normalize slug = entry_slug e @ CHR ''-'' # suffix \<and> Atoi suffix = Some n)
     \<or> (normalize slug = entry_slug e \<and> ids_of (\<lambda>x. entry_slug x = normalize slug) entries = [n])
     \<or> (normalize slug = normalize (pe_DescShort e)
        \<and> ids_of (\<lambda>x. entry_slug x = normalize slug) entries = []
        \<and> ids_of (\<lambda>x. normalize (pe_DescShort x) = normalize slug) entries = [n]))"
  using assms by (rule match_slug_sound)

definition wit_ssd15 :: preset_entry where
  "wit_ssd15 = \<lparr>pe_UpstreamID = 199, pe_DescShort = ''SSD 15'', pe_Location = ''ru-1'', pe_DiskGB = 15,
     pe_StorageClass = [], pe_Zone = []\<rparr>"

lemma wit_ssd15_slug: "normalize ''SSD 15'' = ''ssd-15''" "normalize ''ru-1'' = ''ru-1''"
  "normalize ''ssd-15'' = ''ssd-15''" "entry_slug wit_ssd15 = ''ssd-15-ru-1''"
  by code_simp+

theorem MatchPresetSlug_sound_witness:
  "MatchPresetSlug ''ssd-15'' [wit_ssd15] ''ServerPreset'' = Inr 199 \<and>
   (\<exists>e \<in> set [wit_ssd15]. pe_UpstreamID e = 199)"
proof -
  have h: "MatchPresetSlug ''ssd-15'' [wit_ssd15] ''ServerPreset'' = Inr 199"
    by code_simp
  show ?thesis using h MatchPresetSlug_sound[OF h] by blast
qed

text \<open>
  The disambiguator round trip: the explicit slug that \<^verbatim>\<open>SlugWithID\<close> prints for a catalog entry
  (and that an ambiguity error suggests) resolves to that entry's id, whatever else the catalog
  holds. It needs a non-empty base slug and an id of at most 18 digits, the limit of
  \<^verbatim>\<open>splitDisambiguator\<close>.
\<close>

theorem SlugWithID_roundtrip:
  assumes e: "e \<in> set entries" and base: "entry_slug e \<noteq> []"
    and n: "0 \<le> pe_UpstreamID e" "pe_UpstreamID e < 10 ^ 18"
  shows "MatchPresetSlug (SlugWithID (pe_DescShort e) (pe_Location e) (pe_UpstreamID e)) entries dim
    = Inr (pe_UpstreamID e)"
proof -
  let ?d = "nat_digits (nat (pe_UpstreamID e))" and ?b = "entry_slug e"
  have s: "SlugWithID (pe_DescShort e) (pe_Location e) (pe_UpstreamID e) = ?b @ CHR ''-'' # ?d"
    using base n by (simp add: SlugWithID_def entry_slug_def Let_def Itoa_def)
  have "slug_ok (?b @ CHR ''-'' # ?d)"
    using base by (intro slug_ok_join slug_ok_entry_slug slug_ok_chars[OF nat_digits_slug]) simp_all
  then have norm: "normalize (?b @ CHR ''-'' # ?d) = ?b @ CHR ''-'' # ?d" by (rule normalize_slug_ok)
  have "nat (pe_UpstreamID e) < 10 ^ 18" using n by (simp add: nat_less_iff)
  then have sp: "splitDisambiguator (?b @ CHR ''-'' # ?d) = Some (?b, pe_UpstreamID e)"
    using base n(1) by (simp add: splitDisambiguator_explicit)
  obtain x where "find (\<lambda>x. pe_UpstreamID x = pe_UpstreamID e \<and> entry_slug x = ?b) entries = Some x"
    using e by (cases "find (\<lambda>x. pe_UpstreamID x = pe_UpstreamID e \<and> entry_slug x = ?b) entries")
      (auto simp: find_None_iff)
  moreover from this have "pe_UpstreamID x = pe_UpstreamID e" by (auto simp: find_Some_iff)
  ultimately show ?thesis by (simp add: MatchPresetSlug_def s norm explicit_match_def sp)
qed

theorem SlugWithID_roundtrip_witness:
  "MatchPresetSlug (SlugWithID ''SSD 15'' ''ru-1'' 199) [wit_ssd15\<lparr>pe_UpstreamID := 7\<rparr>, wit_ssd15] [] = Inr 199"
proof -
  have "entry_slug wit_ssd15 \<noteq> []" by (simp add: wit_ssd15_slug)
  from SlugWithID_roundtrip[of wit_ssd15 "[wit_ssd15\<lparr>pe_UpstreamID := 7\<rparr>, wit_ssd15]", OF _ this]
  show ?thesis by (simp add: wit_ssd15_def)
qed

text \<open>
  Size matching returns an id exactly when one entry of the catalog has the requested disk size
  within the requested location and storage class.
\<close>

theorem MatchPresetBySize_iff:
  "MatchPresetBySize inp entries dim = Inr n \<longleftrightarrow>
     (\<exists>e. filter (\<lambda>x. pe_DiskGB x = ps_DiskGB inp
              \<and> (ps_Location inp = [] \<or> pe_Location x = ps_Location inp)
              \<and> (ps_StorageClass inp = [] \<or> pe_StorageClass x = ps_StorageClass inp)) entries = [e]
          \<and> pe_UpstreamID e = n)"
proof -
  have eq: "size_matches inp = (\<lambda>x. pe_DiskGB x = ps_DiskGB inp
              \<and> (ps_Location inp = [] \<or> pe_Location x = ps_Location inp)
              \<and> (ps_StorageClass inp = [] \<or> pe_StorageClass x = ps_StorageClass inp))"
    by (auto simp: size_matches_def)
  show ?thesis unfolding MatchPresetBySize_def eq by (auto split: list.split)
qed

end
