(* ===== verification/ResolverSelect.thy ===== *)
theory ResolverSelect
  imports SharedHelpers "HOL-Library.Product_Lexorder"
begin

text \<open>
  Configurator selection of the catalog resolver: \<^verbatim>\<open>resolver/select_configurator.go\<close>.

  The maps \<^verbatim>\<open>Filters\<close>, \<^verbatim>\<open>Sizing\<close> and \<^verbatim>\<open>Bounds\<close> are association lists: their entries in the order in
  which Go ranges over them. The order can only change which rejection reason is reported; the
  theorems below show that the selection itself does not depend on it.
\<close>

datatype any = AStr string | ABool bool | AInt int

record capacity_bound =
  cb_Min :: int
  cb_Step :: int
  cb_Max :: int

record configurator_entry =
  ce_UpstreamID :: int
  ce_Filters :: "(string \<times> any) list"
  ce_Bounds :: "(string \<times> capacity_bound) list"
  ce_Tags :: "string list"

record configurator_input =
  ci_Filters :: "(string \<times> any) list"
  ci_Sizing :: "(string \<times> int) list"
  ci_RequireTags :: "string list"

record configurator_output =
  co_UpstreamID :: int
  co_LockedSizing :: "(string \<times> int) list"

definition promoTagMarkers :: "string list" where
  "promoTagMarkers = [''discount'', ''promo'', ''sale'', ''legacy'', ''2022'']"

definition isPromoEntry :: "configurator_entry \<Rightarrow> bool" where
  "isPromoEntry e \<longleftrightarrow> list_ex (\<lambda>t. list_ex (\<lambda>m. Contains (ToLower t) m) promoTagMarkers) (ce_Tags e)"

text \<open>The three match functions return the reason of the first failure; \<open>None\<close> is a match.\<close>

fun matchTags :: "string list \<Rightarrow> string list \<Rightarrow> rejection option" where
  "matchTags has [] = None"
| "matchTags has (w # want) = (if w \<in> set has then matchTags has want else Some (MissingTag w))"

fun matchFilters :: "(string \<times> any) list \<Rightarrow> (string \<times> any) list \<Rightarrow> rejection option" where
  "matchFilters has [] = None"
| "matchFilters has ((k, wv) # want) =
     (case map_of has k of
        None \<Rightarrow> Some (MissingFilter k)
      | Some hv \<Rightarrow> if hv \<noteq> wv then Some (FilterValue k) else matchFilters has want)"

fun matchSizing :: "(string \<times> capacity_bound) list \<Rightarrow> (string \<times> int) list \<Rightarrow> rejection option" where
  "matchSizing bounds [] = None"
| "matchSizing bounds ((axis, v) # sizing) =
     (case map_of bounds axis of
        None \<Rightarrow> Some (AxisUnsupported axis)
      | Some b \<Rightarrow>
          if v < cb_Min b \<or> v > cb_Max b then Some (AxisOutside axis v (cb_Min b) (cb_Max b))
          else if cb_Step b > 0 \<and> go_mod (wrap64 (v - cb_Min b)) (cb_Step b) \<noteq> 0
            then Some (AxisMisaligned axis v (cb_Step b) (cb_Min b))
          else matchSizing bounds sizing)"

definition maxBound :: "(string \<times> capacity_bound) list \<Rightarrow> string \<Rightarrow> int" where
  "maxBound bounds axis = (case map_of bounds axis of Some b \<Rightarrow> cb_Max b | None \<Rightarrow> 2 ^ 63 - 1)"

text \<open>The comparison of the sort: the three axes in order, then the id. Tuples compare
  lexicographically.\<close>

definition fit_key :: "configurator_entry \<Rightarrow> int \<times> int \<times> int \<times> int" where
  "fit_key e = (maxBound (ce_Bounds e) ''cpu'', maxBound (ce_Bounds e) ''ramMB'',
                maxBound (ce_Bounds e) ''diskGB'', ce_UpstreamID e)"

text \<open>One filter pass: the survivors, or the first rejected entry with its reason.\<close>

definition filter_pass :: "(configurator_entry \<Rightarrow> rejection option) \<Rightarrow> string \<Rightarrow>
    configurator_entry list \<Rightarrow> go_error + configurator_entry list" where
  "filter_pass f dim entries =
     (case filter (\<lambda>e. f e = None) entries of
        [] \<Rightarrow> (case entries of
                 [] \<Rightarrow> Inl (NoConfiguratorAvailableError 0 NoEntries dim)
               | e # _ \<Rightarrow> Inl (NoConfiguratorAvailableError (ce_UpstreamID e) (the (f e)) dim))
      | survivors \<Rightarrow> Inr survivors)"

definition SelectConfigurator :: "configurator_input \<Rightarrow> configurator_entry list \<Rightarrow> string \<Rightarrow>
    go_error + configurator_output" where
  "SelectConfigurator input entries dim =
     (if entries = [] then Inl (NoConfiguratorAvailableError 0 NoEntries dim)
      else case filter_pass (\<lambda>e. matchFilters (ce_Filters e) (ci_Filters input)) dim entries of
        Inl err \<Rightarrow> Inl err
      | Inr afterFilter \<Rightarrow>
          (case (if ci_RequireTags input \<noteq> []
                 then filter_pass (\<lambda>e. matchTags (ce_Tags e) (ci_RequireTags input)) dim afterFilter
                 else Inr afterFilter) of
             Inl err \<Rightarrow> Inl err
           | Inr afterTags \<Rightarrow>
               (case filter_pass (\<lambda>e. matchSizing (ce_Bounds e) (ci_Sizing input)) dim afterTags of
                  Inl err \<Rightarrow> Inl err
                | Inr survivors \<Rightarrow>
                    (let standard = filter (\<lambda>e. \<not> isPromoEntry e) survivors;
                         promo = filter isPromoEntry survivors in
                     case sort_key fit_key standard of
                       [] \<Rightarrow> (let ids = map ce_UpstreamID promo in
                             Inl (NoConfiguratorAvailableError (hd ids) (OnlyPromo ids) dim))
                     | chosen # _ \<Rightarrow>
                         Inr \<lparr>co_UpstreamID = ce_UpstreamID chosen,
                              co_LockedSizing = ci_Sizing input\<rparr>))))"

section \<open>Declarative specification\<close>

text \<open>An entry is eligible when it has every requested filter value and tag and offers every
  requested axis within its bounds and on its step. It is offered when it is eligible and not promo
  or legacy.\<close>

definition axis_ok :: "(string \<times> capacity_bound) list \<Rightarrow> string \<times> int \<Rightarrow> bool" where
  "axis_ok bounds av \<longleftrightarrow> (case map_of bounds (fst av) of None \<Rightarrow> False
     | Some b \<Rightarrow> cb_Min b \<le> snd av \<and> snd av \<le> cb_Max b \<and>
         (cb_Step b > 0 \<longrightarrow> go_mod (wrap64 (snd av - cb_Min b)) (cb_Step b) = 0))"

definition eligible :: "configurator_input \<Rightarrow> configurator_entry \<Rightarrow> bool" where
  "eligible input e \<longleftrightarrow>
     (\<forall>(k, v) \<in> set (ci_Filters input). map_of (ce_Filters e) k = Some v)
     \<and> set (ci_RequireTags input) \<subseteq> set (ce_Tags e)
     \<and> (\<forall>av \<in> set (ci_Sizing input). axis_ok (ce_Bounds e) av)"

definition offered :: "configurator_input \<Rightarrow> configurator_entry \<Rightarrow> bool" where
  "offered input e \<longleftrightarrow> eligible input e \<and> \<not> isPromoEntry e"

lemma matchTags_None: "matchTags has want = None \<longleftrightarrow> set want \<subseteq> set has"
  by (induction has want rule: matchTags.induct) auto

lemma matchFilters_None: "matchFilters has want = None \<longleftrightarrow> (\<forall>(k, v) \<in> set want. map_of has k = Some v)"
  by (induction has want rule: matchFilters.induct) (auto split: option.splits)

lemma matchSizing_None: "matchSizing bounds sizing = None \<longleftrightarrow> (\<forall>av \<in> set sizing. axis_ok bounds av)"
  by (induction bounds sizing rule: matchSizing.induct) (auto simp: axis_ok_def split: option.splits)

text \<open>With bounds and sizes in the range of \<^verbatim>\<open>int64\<close> and a non-negative minimum, the step test is
  plain divisibility.\<close>

lemma axis_ok_dvd:
  assumes "map_of bounds axis = Some b" "0 \<le> cb_Min b" "int64 v"
  shows "axis_ok bounds (axis, v) \<longleftrightarrow>
    cb_Min b \<le> v \<and> v \<le> cb_Max b \<and> (cb_Step b > 0 \<longrightarrow> cb_Step b dvd (v - cb_Min b))"
proof -
  have "go_mod (wrap64 (v - cb_Min b)) (cb_Step b) = 0 \<longleftrightarrow> cb_Step b dvd (v - cb_Min b)"
    if "cb_Min b \<le> v" "cb_Step b > 0"
  proof -
    have "int64 (v - cb_Min b)" using that assms by (simp add: int64_def)
    then show ?thesis using that by (simp add: go_mod_nonneg dvd_eq_mod_eq_0)
  qed
  then show ?thesis using assms(1) by (auto simp: axis_ok_def)
qed

lemma filter_pass_Inr: "filter_pass f dim es = Inr ss \<longleftrightarrow> ss = filter (\<lambda>e. f e = None) es \<and> ss \<noteq> []"
  by (auto simp: filter_pass_def split: list.splits)

lemma filter_pass_Inl: "filter_pass f dim es = Inl err \<Longrightarrow> filter (\<lambda>e. f e = None) es = []"
  by (auto simp: filter_pass_def split: list.splits)

lemma sort_key_hd_min:
  assumes "sort_key f xs = y # ys"
  shows "y \<in> set xs \<and> (\<forall>x \<in> set xs. f y \<le> f x)"
proof -
  have "sorted (map f (y # ys))" using assms by (metis sorted_sort_key)
  moreover have "set (y # ys) = set xs" using assms by (metis set_sort)
  ultimately show ?thesis by auto
qed

lemma sort_key_Nil: "sort_key f xs = [] \<Longrightarrow> xs = []"
  by (metis length_0_conv length_sort)

text \<open>The three passes together keep the eligible entries.\<close>

lemma passes_filter:
  "filter (\<lambda>e. matchSizing (ce_Bounds e) (ci_Sizing input) = None)
     (if ci_RequireTags input \<noteq> []
      then filter (\<lambda>e. matchTags (ce_Tags e) (ci_RequireTags input) = None)
             (filter (\<lambda>e. matchFilters (ce_Filters e) (ci_Filters input) = None) entries)
      else filter (\<lambda>e. matchFilters (ce_Filters e) (ci_Filters input) = None) entries)
   = filter (eligible input) entries"
  by (auto simp: matchTags_None matchFilters_None matchSizing_None eligible_def intro!: filter_cong)

lemma SelectConfigurator_cases:
  "(\<exists>err. SelectConfigurator input entries dim = Inl err \<and> filter (offered input) entries = [])
   \<or> (\<exists>chosen rest. sort_key fit_key (filter (offered input) entries) = chosen # rest \<and>
        SelectConfigurator input entries dim =
          Inr \<lparr>co_UpstreamID = ce_UpstreamID chosen, co_LockedSizing = ci_Sizing input\<rparr>)"
proof -
  let ?F = "\<lambda>e. matchFilters (ce_Filters e) (ci_Filters input)"
  let ?T = "\<lambda>e. matchTags (ce_Tags e) (ci_RequireTags input)"
  let ?S = "\<lambda>e. matchSizing (ce_Bounds e) (ci_Sizing input)"
  let ?tags = "\<lambda>as. if ci_RequireTags input \<noteq> [] then filter_pass ?T dim as else Inr as"
  note p = passes_filter[of input entries]
  have off: "filter (\<lambda>e. \<not> isPromoEntry e) (filter (eligible input) entries) = filter (offered input) entries"
    unfolding filter_filter by (rule filter_cong) (auto simp: offered_def)
  show ?thesis
  proof (cases "filter_pass ?F dim entries")
    case (Inl err)
    then have "filter (eligible input) entries = []" using p filter_pass_Inl[OF Inl] by (simp split: if_splits)
    with off Inl show ?thesis by (cases "entries = []") (auto simp: SelectConfigurator_def)
  next
    case (Inr as)
    then have ne: "entries \<noteq> []" by (auto simp: filter_pass_Inr)
    show ?thesis
    proof (cases "?tags as")
      case (Inl err)
      then have req: "ci_RequireTags input \<noteq> []" and tp: "filter_pass ?T dim as = Inl err"
        by (simp_all split: if_splits)
      have "as = filter (\<lambda>e. ?F e = None) entries" using Inr by (simp add: filter_pass_Inr)
      then have "filter (\<lambda>e. ?T e = None) (filter (\<lambda>e. ?F e = None) entries) = []"
        using filter_pass_Inl[OF tp] by simp
      then have "filter (eligible input) entries = []" using p req by (auto simp: filter_empty_conv)
      with off Inl Inr ne show ?thesis by (auto simp: SelectConfigurator_def)
    next
      case (Inr bs)
      have bs: "filter (\<lambda>e. ?S e = None) bs = filter (eligible input) entries"
        using p Inr \<open>filter_pass ?F dim entries = Inr as\<close> by (auto simp: filter_pass_Inr split: if_splits)
      show ?thesis
      proof (cases "filter_pass ?S dim bs")
        case (Inl err)
        with bs off filter_pass_Inl[OF Inl] Inr \<open>filter_pass ?F dim entries = Inr as\<close> ne show ?thesis
          by (auto simp: SelectConfigurator_def)
      next
        case (Inr cs)
        then have cs: "cs = filter (eligible input) entries" using bs by (simp add: filter_pass_Inr)
        from Inr \<open>?tags as = Inr bs\<close> \<open>filter_pass ?F dim entries = Inr as\<close> ne show ?thesis
          unfolding SelectConfigurator_def
          by (cases "sort_key fit_key (filter (offered input) entries)")
             (auto simp: cs off[unfolded filter_filter] Let_def dest: sort_key_Nil)
      qed
    qed
  qed
qed

lemma select_tightest:
  assumes "SelectConfigurator input entries dim = Inr out"
  shows "\<exists>e \<in> set entries. offered input e \<and> co_UpstreamID out = ce_UpstreamID e
    \<and> co_LockedSizing out = ci_Sizing input
    \<and> (\<forall>e' \<in> set entries. offered input e' \<longrightarrow> fit_key e \<le> fit_key e')"
proof -
  from SelectConfigurator_cases[of input entries dim] assms obtain chosen rest
    where s: "sort_key fit_key (filter (offered input) entries) = chosen # rest"
      and out: "out = \<lparr>co_UpstreamID = ce_UpstreamID chosen, co_LockedSizing = ci_Sizing input\<rparr>"
    by auto
  from sort_key_hd_min[OF s] out show ?thesis by auto
qed

lemma select_fails_iff:
  "(\<exists>err. SelectConfigurator input entries dim = Inl err) \<longleftrightarrow> (\<forall>e \<in> set entries. \<not> offered input e)"
proof -
  have emp: "filter (offered input) entries = [] \<longleftrightarrow> (\<forall>e \<in> set entries. \<not> offered input e)"
    by (simp add: filter_empty_conv)
  have "sort_key fit_key (filter (offered input) entries) \<noteq> [] \<longleftrightarrow> filter (offered input) entries \<noteq> []"
    using sort_key_Nil by fastforce
  with SelectConfigurator_cases[of input entries dim] emp show ?thesis by fastforce
qed

text \<open>
  C3. Configurator selection returns an offered entry that fits tightest: it is eligible, not promo
  or legacy, no other offered entry has smaller maximal bounds (cpu, then ram, then disk, then id),
  and the requested sizing is locked unchanged.
\<close>

theorem SelectConfigurator_tightest:
  assumes "SelectConfigurator input entries dim = Inr out"
  shows "\<exists>e \<in> set entries. offered input e \<and> co_UpstreamID out = ce_UpstreamID e
    \<and> co_LockedSizing out = ci_Sizing input
    \<and> (\<forall>e' \<in> set entries. offered input e' \<longrightarrow> fit_key e \<le> fit_key e')"
  using assms by (rule select_tightest)

definition wit_cfg :: "int \<Rightarrow> int \<Rightarrow> string list \<Rightarrow> configurator_entry" where
  "wit_cfg n mx tags = \<lparr>ce_UpstreamID = n, ce_Filters = [(''location'', AStr ''ru-1'')],
     ce_Bounds = [(''cpu'', \<lparr>cb_Min = 1, cb_Step = 1, cb_Max = mx\<rparr>)], ce_Tags = tags\<rparr>"

definition wit_cfg_input :: configurator_input where
  "wit_cfg_input = \<lparr>ci_Filters = [(''location'', AStr ''ru-1'')], ci_Sizing = [(''cpu'', 2)], ci_RequireTags = []\<rparr>"

theorem SelectConfigurator_tightest_witness:
  "SelectConfigurator wit_cfg_input [wit_cfg 11 8 [''msk_nvme''], wit_cfg 12 4 [''ssd_2022''], wit_cfg 13 6 []] ''d''
     = Inr \<lparr>co_UpstreamID = 13, co_LockedSizing = [(''cpu'', 2)]\<rparr> \<and>
   (\<exists>e \<in> set [wit_cfg 11 8 [''msk_nvme''], wit_cfg 12 4 [''ssd_2022''], wit_cfg 13 6 []]. offered wit_cfg_input e)"
proof -
  have h: "SelectConfigurator wit_cfg_input [wit_cfg 11 8 [''msk_nvme''], wit_cfg 12 4 [''ssd_2022''], wit_cfg 13 6 []] ''d''
     = Inr \<lparr>co_UpstreamID = 13, co_LockedSizing = [(''cpu'', 2)]\<rparr>"
    by code_simp
  show ?thesis using h SelectConfigurator_tightest[OF h] by blast
qed

text \<open>
  Selection is complete: it fails exactly when the catalog offers no entry for the request, so an
  orderable configurator is never overlooked and a promo or legacy one is never chosen.
\<close>

theorem SelectConfigurator_fails_iff:
  "(\<exists>err. SelectConfigurator input entries dim = Inl err) \<longleftrightarrow> (\<forall>e \<in> set entries. \<not> offered input e)"
  by (rule select_fails_iff)

theorem SelectConfigurator_fails_iff_witness:
  "\<exists>err. SelectConfigurator wit_cfg_input [wit_cfg 12 4 [''ssd_2022''], wit_cfg 13 1 []] ''d'' = Inl err"
proof -
  have "\<not> offered wit_cfg_input (wit_cfg 12 4 [''ssd_2022''])" "\<not> offered wit_cfg_input (wit_cfg 13 1 [])"
    by code_simp+
  then show ?thesis using SelectConfigurator_fails_iff[of wit_cfg_input] by simp
qed

text \<open>
  Selection is deterministic: the order in which the catalog lists its entries, repeats of an
  entry, and the order in which Go ranges over the request's maps do not change which configurator
  is chosen.
\<close>

theorem SelectConfigurator_order_independent:
  assumes "set entries' = set entries"
    and "set (ci_Filters input') = set (ci_Filters input)" "set (ci_Sizing input') = set (ci_Sizing input)"
    and "set (ci_RequireTags input') = set (ci_RequireTags input)"
  shows "map_sum (\<lambda>_. ()) co_UpstreamID (SelectConfigurator input' entries' dim)
       = map_sum (\<lambda>_. ()) co_UpstreamID (SelectConfigurator input entries dim)"
proof -
  have el: "offered input' = offered input"
    by (simp add: fun_eq_iff offered_def eligible_def assms)
  show ?thesis
  proof (cases "SelectConfigurator input entries dim")
    case (Inl err)
    then have "\<exists>err'. SelectConfigurator input' entries' dim = Inl err'"
      using select_fails_iff[of input entries dim] select_fails_iff[of input' entries' dim]
      by (simp add: el assms(1))
    with Inl show ?thesis by auto
  next
    case (Inr out)
    then have "\<nexists>err. SelectConfigurator input' entries' dim = Inl err"
      using select_fails_iff[of input entries dim] select_fails_iff[of input' entries' dim]
      by (simp add: el assms(1))
    then obtain out' where out': "SelectConfigurator input' entries' dim = Inr out'"
      by (cases "SelectConfigurator input' entries' dim") auto
    from select_tightest[OF Inr] obtain e where e: "e \<in> set entries" "offered input e"
      "co_UpstreamID out = ce_UpstreamID e" "\<forall>x \<in> set entries. offered input x \<longrightarrow> fit_key e \<le> fit_key x"
      by blast
    from select_tightest[OF out'] obtain e' where e': "e' \<in> set entries" "offered input e'"
      "co_UpstreamID out' = ce_UpstreamID e'" "\<forall>x \<in> set entries. offered input x \<longrightarrow> fit_key e' \<le> fit_key x"
      by (auto simp: el assms(1))
    have "fit_key e = fit_key e'" using e e' by (meson order.antisym)
    then have "ce_UpstreamID e = ce_UpstreamID e'" by (simp add: fit_key_def)
    with e e' Inr out' show ?thesis by simp
  qed
qed

theorem SelectConfigurator_order_independent_witness:
  "map_sum (\<lambda>_. ()) co_UpstreamID (SelectConfigurator wit_cfg_input [wit_cfg 13 6 [], wit_cfg 11 8 []] [])
   = map_sum (\<lambda>_. ()) co_UpstreamID (SelectConfigurator wit_cfg_input [wit_cfg 11 8 [], wit_cfg 13 6 [], wit_cfg 11 8 []] [])"
  by (rule SelectConfigurator_order_independent) auto

end
