(* ===== verification/ResolverCache.thy ===== *)
theory ResolverCache
  imports ResolverSlug ResolverSelect
begin

text \<open>
  The catalog cache of the resolver: \<^verbatim>\<open>resolver/cache.go\<close> and the types and TTL bounds of
  \<^verbatim>\<open>resolver/resolver.go\<close>.

  Times are integers (nanoseconds). \<open>getOrFetch\<close> is one call of \<^verbatim>\<open>(*cache).getOrFetch\<close> that nothing
  overlaps; it takes the three clock readings of the call. The second half of the theory models
  concurrent calls: goroutines that share the cache and \<^verbatim>\<open>singleflight\<close>, of which we use what its
  documentation promises (one execution per key at a time, later callers wait and share the result).
\<close>

section \<open>Keys, entries, TTL\<close>

datatype dimension_kind = DimensionPreset | DimensionConfigurator | DimensionEnum

record pc_ref =
  pc_Kind :: string
  pc_Name :: string
  pc_Namespace :: string

record dimension =
  dim_Name :: string
  dim_Kind :: dimension_kind

type_synonym cache_key = "pc_ref \<times> dimension"

datatype payload =
    PresetPayload "preset_entry list"
  | ConfiguratorPayload "configurator_entry list"
  | StringPayload "string list"

definition isEmptySlice :: "payload \<Rightarrow> bool" where
  "isEmptySlice p = (case p of PresetPayload l \<Rightarrow> l = [] | ConfiguratorPayload l \<Rightarrow> l = [] | StringPayload l \<Rightarrow> l = [])"

record cache_entry =
  ent_result :: "go_error + payload"
  ent_fetchedAt :: int

record cache =
  cache_entries :: "cache_key \<Rightarrow> cache_entry option"
  cache_ttl :: int

definition Minute :: int where "Minute = 60 * 10 ^ 9"

definition MinTTL :: int where "MinTTL = 1 * Minute"
definition MaxTTL :: int where "MaxTTL = 60 * Minute"
definition DefaultTTL :: int where "DefaultTTL = 5 * Minute"

definition clampTTL :: "int \<Rightarrow> int" where
  "clampTTL t = (if t \<le> 0 then DefaultTTL else if t < MinTTL then MinTTL else if t > MaxTTL then MaxTTL else t)"

definition newCache :: "int \<Rightarrow> cache" where
  "newCache ttl = \<lparr>cache_entries = (\<lambda>_. None), cache_ttl = clampTTL ttl\<rparr>"

definition expired :: "cache \<Rightarrow> int \<Rightarrow> cache_entry \<Rightarrow> bool" where
  "expired c now e \<longleftrightarrow> now - ent_fetchedAt e \<ge> cache_ttl c"

definition invalidate :: "cache_key \<Rightarrow> cache \<Rightarrow> cache" where
  "invalidate key c = c\<lparr>cache_entries := (cache_entries c)(key := None)\<rparr>"

definition is_unauthorized :: "go_error \<Rightarrow> bool" where
  "is_unauthorized e = (case root e of ErrCatalogUnauthorized _ \<Rightarrow> True | _ \<Rightarrow> False)"

section \<open>\<^verbatim>\<open>getOrFetch\<close>\<close>

text \<open>The cached result that is still fresh, if any.\<close>

definition cached :: "cache \<Rightarrow> int \<Rightarrow> cache_key \<Rightarrow> (go_error + payload) option" where
  "cached c now key = (case cache_entries c key of
     Some e \<Rightarrow> if \<not> expired c now e then Some (ent_result e) else None | None \<Rightarrow> None)"

definition put_entry :: "cache_key \<Rightarrow> go_error + payload \<Rightarrow> int \<Rightarrow> cache \<Rightarrow> cache" where
  "put_entry key r now c = c\<lparr>cache_entries := (cache_entries c)(key \<mapsto> \<lparr>ent_result = r, ent_fetchedAt = now\<rparr>)\<rparr>"

text \<open>What the callback does with the result of the fetcher: the value returned and the new cache.\<close>

definition store_result :: "cache_key \<Rightarrow> int \<Rightarrow> go_error + payload \<Rightarrow> cache \<Rightarrow> (go_error + payload) \<times> cache" where
  "store_result key now r c =
     (case r of
        Inl ferr \<Rightarrow> (Inl ferr, if is_unauthorized ferr then put_entry key (Inl ferr) now c else c)
      | Inr payload \<Rightarrow>
          if isEmptySlice payload then (Inl (ErrCatalogTransient 0), c)
          else (Inr payload, put_entry key (Inr payload) now c))"

definition getOrFetch :: "int \<Rightarrow> int \<Rightarrow> int \<Rightarrow> cache_key \<Rightarrow> ('w \<Rightarrow> (go_error + payload) \<times> 'w) \<Rightarrow>
    cache \<Rightarrow> 'w \<Rightarrow> (go_error + payload) \<times> cache \<times> 'w" where
  "getOrFetch t1 t2 t3 key f c w =
     (case cached c t1 key of
        Some r \<Rightarrow> (r, c, w)
      | None \<Rightarrow>
          (case cached c t2 key of
             Some r \<Rightarrow> (r, c, w)
           | None \<Rightarrow> (case f w of (r, w') \<Rightarrow>
                        (case store_result key t3 r c of (v, c') \<Rightarrow> (v, c', w')))))"

text \<open>Which fetch results are kept: a non-empty catalog, and a refused one.\<close>

definition cacheable :: "go_error + payload \<Rightarrow> bool" where
  "cacheable r = (case r of Inl e \<Rightarrow> is_unauthorized e | Inr p \<Rightarrow> \<not> isEmptySlice p)"

lemma clampTTL_bounds: "MinTTL \<le> clampTTL t \<and> clampTTL t \<le> MaxTTL"
  by (simp add: clampTTL_def MinTTL_def MaxTTL_def DefaultTTL_def Minute_def)

lemma store_result_cacheable: "cacheable r \<Longrightarrow> store_result key now r c = (r, put_entry key r now c)"
  by (auto simp: store_result_def cacheable_def split: sum.splits)

lemma store_result_not_cacheable: "\<not> cacheable r \<Longrightarrow> snd (store_result key now r c) = c"
  by (auto simp: store_result_def cacheable_def split: sum.splits)

lemma store_result_ttl [simp]: "cache_ttl (snd (store_result key now r c)) = cache_ttl c"
  by (auto simp: store_result_def put_entry_def split: sum.splits)

lemma store_result_other:
  "k \<noteq> key \<Longrightarrow> cache_entries (snd (store_result key now r c)) k = cache_entries c k"
  by (auto simp: store_result_def put_entry_def split: sum.splits)

text \<open>
  The contract the resolver relies on, as a locale over any cache implementation: a hit answers
  without the fetcher, a kept result is answered for one TTL, and an invalidated key is fetched
  again.
\<close>

locale ttl_cache =
  fixes get :: "int \<Rightarrow> 'k \<Rightarrow> ('w \<Rightarrow> 'r \<times> 'w) \<Rightarrow> 'c \<Rightarrow> 'w \<Rightarrow> 'r \<times> 'c \<times> 'w"
    and drop_key :: "'k \<Rightarrow> 'c \<Rightarrow> 'c" and ttl :: "'c \<Rightarrow> int" and keep :: "'r \<Rightarrow> bool"
    and hit :: "'c \<Rightarrow> int \<Rightarrow> 'k \<Rightarrow> 'r option"
  assumes get_hit: "hit c t k = Some r \<Longrightarrow> get t k f c w = (r, c, w)"
    and get_miss_keep: "hit c t k = None \<Longrightarrow> f w = (r, w') \<Longrightarrow> keep r \<Longrightarrow>
      \<exists>c'. get t k f c w = (r, c', w') \<and> ttl c' = ttl c \<and> (\<forall>t'. t' - t < ttl c \<longrightarrow> hit c' t' k = Some r)"
    and get_miss_drop: "hit c t k = None \<Longrightarrow> f w = (r, w') \<Longrightarrow> \<not> keep r \<Longrightarrow>
      \<exists>v. get t k f c w = (v, c, w')"
    and hit_drop: "hit (drop_key k c) t k = None"
begin

text \<open>Two calls within one TTL of a kept fetch run the fetcher once and answer the same.\<close>

lemma one_fetch_per_ttl:
  assumes "hit c t k = None" "f w = (r, w')" "keep r" "get t k f c w = (v, c1, w1)" "t' - t < ttl c"
  shows "v = r \<and> w1 = w' \<and> get t' k g c1 w2 = (r, c1, w2)"
  using get_miss_keep[of c t k f w r w'] get_hit assms by fastforce

text \<open>A result that is not kept is fetched again by the next call.\<close>

lemma dropped_refetched:
  assumes "hit c t k = None" "f w = (r, w')" "\<not> keep r" "get t k f c w = (v, c1, w1)"
  shows "c1 = c \<and> w1 = w'"
  using get_miss_drop[of c t k f w r w'] assms by auto

end

interpretation gc: ttl_cache "\<lambda>t. getOrFetch t t t" invalidate cache_ttl cacheable cached
proof unfold_locales
  fix c t k r and f :: "'w \<Rightarrow> (go_error + payload) \<times> 'w" and w
  assume "cached c t k = Some r"
  then show "getOrFetch t t t k f c w = (r, c, w)" by (simp add: getOrFetch_def)
next
  fix c t k r and f :: "'w \<Rightarrow> (go_error + payload) \<times> 'w" and w w'
  assume miss: "cached c t k = None" "f w = (r, w')" "cacheable r"
  have "\<forall>t'. t' - t < cache_ttl c \<longrightarrow> cached (put_entry k r t c) t' k = Some r"
    by (simp add: cached_def put_entry_def expired_def)
  moreover have "getOrFetch t t t k f c w = (r, put_entry k r t c, w')"
    using miss by (simp add: getOrFetch_def store_result_cacheable)
  ultimately show "\<exists>c'. getOrFetch t t t k f c w = (r, c', w') \<and> cache_ttl c' = cache_ttl c \<and>
      (\<forall>t'. t' - t < cache_ttl c \<longrightarrow> cached c' t' k = Some r)"
    by (auto simp: put_entry_def)
next
  fix c t k r and f :: "'w \<Rightarrow> (go_error + payload) \<times> 'w" and w w'
  assume "cached c t k = None" "f w = (r, w')" "\<not> cacheable r"
  then show "\<exists>v. getOrFetch t t t k f c w = (v, c, w')"
    using store_result_not_cacheable[of r k t c]
    by (cases "store_result k t r c") (simp add: getOrFetch_def)
next
  fix k c t show "cached (invalidate k c) t k = None" by (simp add: cached_def invalidate_def)
qed

section \<open>Concurrent calls\<close>

text \<open>
  Goroutines are numbered. A call goes through the phases of \<^verbatim>\<open>getOrFetch\<close>: the entry is read under
  the read lock and its age is checked afterwards (\<open>Checking\<close>), a miss enters \<^verbatim>\<open>sf.Do\<close> (\<open>Missed\<close>), where
  it either leads the flight of its \<open>sfKey\<close> or waits for the goroutine that does, and the leader reads
  and checks again before it runs the fetcher. \<open>ct_hist\<close> is a ghost history, newest event first.
\<close>

definition sfKey :: "cache_key \<Rightarrow> string" where
  "sfKey key = (case key of (pc, dim) \<Rightarrow>
     pc_Kind pc @ ''|'' @ pc_Namespace pc @ ''|'' @ pc_Name pc @ ''|'' @ dim_Name dim)"

datatype phase =
    Idle
  | Checking cache_key "cache_entry option"
  | Missed cache_key
  | Leading cache_key
  | Rechecking cache_key "cache_entry option"
  | Fetching cache_key int
  | Waiting cache_key nat
  | Returned cache_key "go_error + payload"

datatype cache_event = Fetched int int cache_key "go_error + payload" | Invalidated cache_key

record threads =
  ct_now :: int
  ct_cache :: cache
  ct_flight :: "string \<Rightarrow> nat option"
  ct_phase :: "nat \<Rightarrow> phase"
  ct_hist :: "cache_event list"

definition threads0 :: "int \<Rightarrow> int \<Rightarrow> threads" where
  "threads0 t ttl = \<lparr>ct_now = t, ct_cache = newCache ttl, ct_flight = (\<lambda>_. None), ct_phase = (\<lambda>_. Idle), ct_hist = []\<rparr>"

definition fresh :: "threads \<Rightarrow> cache_entry option \<Rightarrow> (go_error + payload) option" where
  "fresh s e = (case e of Some e \<Rightarrow> if \<not> expired (ct_cache s) (ct_now s) e then Some (ent_result e) else None | None \<Rightarrow> None)"

definition set_phase :: "nat \<Rightarrow> phase \<Rightarrow> threads \<Rightarrow> threads" where
  "set_phase g p s = s\<lparr>ct_phase := (ct_phase s)(g := p)\<rparr>"

text \<open>The leader's callback returned: the flight is removed and every waiter gets the value.\<close>

definition end_flight :: "nat \<Rightarrow> cache_key \<Rightarrow> go_error + payload \<Rightarrow> threads \<Rightarrow> threads" where
  "end_flight g key v s = s\<lparr>
     ct_flight := (ct_flight s)(sfKey key := None),
     ct_phase := (\<lambda>h. if h = g then Returned key v
                       else (case ct_phase s h of Waiting k l \<Rightarrow> if l = g then Returned k v else Waiting k l | p \<Rightarrow> p))\<rparr>"

datatype thread_action =
    Call nat cache_key
  | Step nat
  | FetchDone nat "go_error + payload"
  | Invalidate cache_key
  | Tick int

definition goroutine_step :: "nat \<Rightarrow> threads \<Rightarrow> threads option" where
  "goroutine_step g s = (case ct_phase s g of
     Checking key e \<Rightarrow> (case fresh s e of
         Some r \<Rightarrow> Some (set_phase g (Returned key r) s)
       | None \<Rightarrow> Some (set_phase g (Missed key) s))
   | Missed key \<Rightarrow> (case ct_flight s (sfKey key) of
         None \<Rightarrow> Some (set_phase g (Leading key) (s\<lparr>ct_flight := (ct_flight s)(sfKey key \<mapsto> g)\<rparr>))
       | Some l \<Rightarrow> Some (set_phase g (Waiting key l) s))
   | Leading key \<Rightarrow> Some (set_phase g (Rechecking key (cache_entries (ct_cache s) key)) s)
   | Rechecking key e \<Rightarrow> (case fresh s e of
         Some r \<Rightarrow> Some (end_flight g key r s)
       | None \<Rightarrow> Some (set_phase g (Fetching key (ct_now s)) s))
   | _ \<Rightarrow> None)"

definition thread_step :: "thread_action \<Rightarrow> threads \<Rightarrow> threads option" where
  "thread_step a s = (case a of
     Call g key \<Rightarrow> (case ct_phase s g of
         Idle \<Rightarrow> Some (set_phase g (Checking key (cache_entries (ct_cache s) key)) s)
       | Returned _ _ \<Rightarrow> Some (set_phase g (Checking key (cache_entries (ct_cache s) key)) s)
       | _ \<Rightarrow> None)
   | Step g \<Rightarrow> goroutine_step g s
   | FetchDone g r \<Rightarrow> (case ct_phase s g of
         Fetching key t0 \<Rightarrow> (case store_result key (ct_now s) r (ct_cache s) of (v, c) \<Rightarrow>
           Some (end_flight g key v (s\<lparr>ct_cache := c, ct_hist := Fetched t0 (ct_now s) key r # ct_hist s\<rparr>)))
       | _ \<Rightarrow> None)
   | Invalidate key \<Rightarrow> Some (s\<lparr>ct_cache := invalidate key (ct_cache s), ct_hist := Invalidated key # ct_hist s\<rparr>)
   | Tick d \<Rightarrow> if d \<ge> 0 then Some (s\<lparr>ct_now := ct_now s + d\<rparr>) else None)"

inductive reachable :: "int \<Rightarrow> threads \<Rightarrow> bool" for ttl where
  start: "reachable ttl (threads0 t ttl)"
| step: "reachable ttl s \<Longrightarrow> thread_step a s = Some s' \<Longrightarrow> reachable ttl s'"

fun run_threads :: "thread_action list \<Rightarrow> threads \<Rightarrow> threads option" where
  "run_threads [] s = Some s"
| "run_threads (a # as) s = (case thread_step a s of Some s' \<Rightarrow> run_threads as s' | None \<Rightarrow> None)"

lemma run_threads_reachable: "reachable ttl s \<Longrightarrow> run_threads as s = Some s' \<Longrightarrow> reachable ttl s'"
  by (induction as s rule: run_threads.induct) (auto split: option.splits intro: reachable.step)

subsection \<open>What the history says\<close>

text \<open>The result a key is answered with, from the history alone, and when it was stored.\<close>

fun kept :: "cache_event list \<Rightarrow> cache_key \<Rightarrow> cache_entry option" where
  "kept [] k = None"
| "kept (Invalidated k' # h) k = (if k' = k then None else kept h k)"
| "kept (Fetched s f k' r # h) k =
     (if k' = k \<and> cacheable r then Some \<lparr>ent_result = r, ent_fetchedAt = f\<rparr> else kept h k)"

text \<open>Every fetch of a key starts at least one TTL after the kept fetch of the key before it.\<close>

fun spaced :: "int \<Rightarrow> cache_event list \<Rightarrow> bool" where
  "spaced ttl [] \<longleftrightarrow> True"
| "spaced ttl (Invalidated k # h) \<longleftrightarrow> spaced ttl h"
| "spaced ttl (Fetched s f k r # h) \<longleftrightarrow>
     spaced ttl h \<and> (case kept h k of None \<Rightarrow> True | Some e \<Rightarrow> ent_fetchedAt e + ttl \<le> s)"

fun in_flight :: "phase \<Rightarrow> cache_key option" where
  "in_flight (Leading k) = Some k"
| "in_flight (Rechecking k e) = Some k"
| "in_flight (Fetching k t) = Some k"
| "in_flight _ = None"

text \<open>A value a call may return: what some fetch in the history produced for a key of that flight.\<close>

definition provenance :: "threads \<Rightarrow> cache_key \<Rightarrow> go_error + payload \<Rightarrow> bool" where
  "provenance s k v \<longleftrightarrow> (\<exists>t f k' r. Fetched t f k' r \<in> set (ct_hist s) \<and> sfKey k' = sfKey k \<and>
     v = fst (store_result k' f r (newCache 0)))"

definition phase_inv :: "int \<Rightarrow> threads \<Rightarrow> phase \<Rightarrow> bool" where
  "phase_inv ttl s p = (case p of
     Checking k (Some e) \<Rightarrow> provenance s k (ent_result e)
   | Rechecking k e \<Rightarrow> (case e of None \<Rightarrow> True | Some e' \<Rightarrow> provenance s k (ent_result e')) \<and>
       (kept (ct_hist s) k = None \<or> kept (ct_hist s) k = e)
   | Fetching k t \<Rightarrow> (case kept (ct_hist s) k of None \<Rightarrow> True | Some e \<Rightarrow> ent_fetchedAt e + clampTTL ttl \<le> t)
   | Waiting k g \<Rightarrow> (\<exists>k'. in_flight (ct_phase s g) = Some k' \<and> sfKey k' = sfKey k)
   | Returned k v \<Rightarrow> provenance s k v
   | _ \<Rightarrow> True)"

definition threads_inv :: "int \<Rightarrow> threads \<Rightarrow> bool" where
  "threads_inv ttl s \<longleftrightarrow>
     cache_ttl (ct_cache s) = clampTTL ttl \<and>
     cache_entries (ct_cache s) = kept (ct_hist s) \<and>
     spaced (clampTTL ttl) (ct_hist s) \<and>
     (\<forall>g k. in_flight (ct_phase s g) = Some k \<longrightarrow> ct_flight s (sfKey k) = Some g) \<and>
     (\<forall>f g. ct_flight s f = Some g \<longrightarrow> (\<exists>k. in_flight (ct_phase s g) = Some k \<and> sfKey k = f)) \<and>
     (\<forall>g. phase_inv ttl s (ct_phase s g))"

subsection \<open>The invariant holds in every reachable state\<close>

declare split_paired_Ex [simp del] split_paired_All [simp del]

lemma store_result_fst: "fst (store_result k t r c) = fst (store_result k t r c')"
  by (auto simp: store_result_def split: sum.splits)

lemma store_result_entries:
  "cache_entries (snd (store_result k t r c)) =
     (cache_entries c)(k := if cacheable r then Some \<lparr>ent_result = r, ent_fetchedAt = t\<rparr> else cache_entries c k)"
  by (auto simp: store_result_def cacheable_def put_entry_def split: sum.splits)

lemma kept_Fetched_other: "k' \<noteq> k \<Longrightarrow> kept (Fetched s f k' r # h) k = kept h k"
  by simp

lemma provenance_mono:
  "provenance s k v \<Longrightarrow> set (ct_hist s) \<subseteq> set (ct_hist s') \<Longrightarrow> provenance s' k v"
  unfolding provenance_def by blast

lemma kept_provenance: "kept (ct_hist s) k = Some e \<Longrightarrow> provenance s k (ent_result e)"
proof -
  have "kept h k = Some e \<Longrightarrow> \<exists>t f r. Fetched t f k r \<in> set h \<and> cacheable r \<and> ent_result e = r" for h
    by (induction h k rule: kept.induct) (fastforce split: if_splits)+
  moreover have "cacheable r \<Longrightarrow> r = fst (store_result k f r (newCache 0))" for f r
    by (simp add: store_result_cacheable)
  ultimately show "kept (ct_hist s) k = Some e \<Longrightarrow> provenance s k (ent_result e)"
    unfolding provenance_def by metis
qed

lemma fresh_Some: "fresh s e = Some r \<Longrightarrow> \<exists>e'. e = Some e' \<and> ent_result e' = r"
  by (auto simp: fresh_def split: option.splits if_splits)

lemma threads_inv_D:
  assumes "threads_inv ttl s"
  shows "cache_ttl (ct_cache s) = clampTTL ttl" "cache_entries (ct_cache s) = kept (ct_hist s)"
    "spaced (clampTTL ttl) (ct_hist s)"
    "in_flight (ct_phase s g) = Some k \<Longrightarrow> ct_flight s (sfKey k) = Some g"
    "ct_flight s f = Some g \<Longrightarrow> \<exists>k. in_flight (ct_phase s g) = Some k \<and> sfKey k = f"
    "phase_inv ttl s (ct_phase s g)"
  using assms unfolding threads_inv_def by blast+

lemma threads_inv_flight_unique:
  assumes "threads_inv ttl s" "in_flight (ct_phase s g) = Some k" "in_flight (ct_phase s h) = Some k'" "sfKey k = sfKey k'"
  shows "g = h"
  using assms unfolding threads_inv_def by (metis option.inject)

text \<open>A step that changes one goroutine's phase and neither the flights nor the cache.\<close>

lemma provenance_cong: "ct_hist s' = ct_hist s \<Longrightarrow> provenance s' k v = provenance s k v"
  by (simp add: provenance_def)

lemma phase_inv_mono:
  assumes "phase_inv ttl s p" "ct_hist s' = ct_hist s"
    and "\<And>k g k'. p = Waiting k g \<Longrightarrow> in_flight (ct_phase s g) = Some k' \<Longrightarrow> in_flight (ct_phase s' g) = Some k'"
  shows "phase_inv ttl s' p"
proof (cases p)
  case (Waiting k g)
  with assms(1) obtain k' where "in_flight (ct_phase s g) = Some k'" "sfKey k' = sfKey k"
    by (auto simp: phase_inv_def)
  with assms(3) Waiting show ?thesis by (auto simp: phase_inv_def)
qed (use assms(1,2) in \<open>auto simp: phase_inv_def provenance_cong[OF assms(2)] split: option.splits\<close>)

lemma set_phase_inv:
  assumes "threads_inv ttl s" "in_flight p = in_flight (ct_phase s g)" "phase_inv ttl s p"
  shows "threads_inv ttl (set_phase g p s)"
proof -
  have fl: "in_flight (ct_phase (set_phase g p s) h) = in_flight (ct_phase s h)" for h
    using assms(2) by (simp add: set_phase_def)
  have "phase_inv ttl s q \<Longrightarrow> phase_inv ttl (set_phase g p s) q" for q
    by (erule phase_inv_mono) (use fl in \<open>simp_all add: set_phase_def\<close>)
  then have "phase_inv ttl (set_phase g p s) (ct_phase (set_phase g p s) h)" for h
    using assms(1,3) unfolding threads_inv_def by (simp add: set_phase_def)
  with fl assms(1) show ?thesis unfolding threads_inv_def by (simp add: set_phase_def)
qed

lemma lead_inv:
  assumes inv: "threads_inv ttl s" and ph: "ct_phase s g = Missed k" and fl: "ct_flight s (sfKey k) = None"
  shows "threads_inv ttl (set_phase g (Leading k) (s\<lparr>ct_flight := (ct_flight s)(sfKey k \<mapsto> g)\<rparr>))"
    (is "threads_inv ttl ?s'")
proof -
  have stay: "in_flight (ct_phase s h) = Some k' \<Longrightarrow> in_flight (ct_phase ?s' h) = Some k'" for h k'
    using ph by (auto simp: set_phase_def)
  have "phase_inv ttl s (ct_phase s h)" for h using inv by (simp add: threads_inv_def)
  then have "phase_inv ttl ?s' (ct_phase s h)" for h
    by (rule phase_inv_mono) (use stay in \<open>simp_all add: set_phase_def\<close>)
  then have "phase_inv ttl ?s' (ct_phase ?s' h)" for h
    by (cases "h = g") (simp_all add: set_phase_def phase_inv_def)
  moreover have "in_flight (ct_phase ?s' h) = Some k' \<Longrightarrow> ct_flight ?s' (sfKey k') = Some h" for h k'
    using inv fl by (fastforce simp: set_phase_def threads_inv_def split: if_splits)
  moreover have "ct_flight ?s' f = Some h \<Longrightarrow> \<exists>k'. in_flight (ct_phase ?s' h) = Some k' \<and> sfKey k' = f" for f h
  proof (cases "f = sfKey k")
    case False
    assume "ct_flight ?s' f = Some h"
    with False have "ct_flight s f = Some h" by (simp add: set_phase_def)
    then obtain k' where "in_flight (ct_phase s h) = Some k'" "sfKey k' = f"
      using threads_inv_D(5)[OF inv] by blast
    with stay show ?thesis by blast
  qed (simp add: set_phase_def)
  ultimately show ?thesis using inv unfolding threads_inv_def by (simp add: set_phase_def)
qed

text \<open>The end of a flight, after the cache and the history were updated.\<close>

lemma end_flight_inv:
  assumes c: "cache_ttl (ct_cache s) = clampTTL ttl" "cache_entries (ct_cache s) = kept (ct_hist s)"
      "spaced (clampTTL ttl) (ct_hist s)"
    and a: "\<And>h k. in_flight (ct_phase s h) = Some k \<Longrightarrow> ct_flight s (sfKey k) = Some h"
    and b: "\<And>f h. ct_flight s f = Some h \<Longrightarrow> \<exists>k. in_flight (ct_phase s h) = Some k \<and> sfKey k = f"
    and o: "\<And>h. h \<noteq> g \<Longrightarrow> phase_inv ttl s (ct_phase s h)"
    and g: "in_flight (ct_phase s g) = Some k" and v: "provenance s k v"
  shows "threads_inv ttl (end_flight g k v s)" (is "threads_inv ttl ?s'")
proof -
  have fl: "in_flight (ct_phase ?s' h) = (if h = g then None else in_flight (ct_phase s h))" for h
    by (auto simp: end_flight_def split: phase.splits)
  have "phase_inv ttl ?s' (ct_phase ?s' h)" for h
  proof (cases "h = g")
    case True
    then show ?thesis using v by (simp add: phase_inv_def end_flight_def provenance_def)
  next
    case False
    from o[OF False] have ih: "phase_inv ttl s (ct_phase s h)" .
    show ?thesis
    proof (cases "\<exists>k' l. ct_phase s h = Waiting k' l")
      case True
      then obtain k' l where w: "ct_phase s h = Waiting k' l" by blast
      with ih obtain k2 where k2: "in_flight (ct_phase s l) = Some k2" "sfKey k2 = sfKey k'"
        by (auto simp: phase_inv_def)
      have "l = g \<Longrightarrow> provenance s k' v" using v k2 g by (auto simp: provenance_def)
      moreover have "l \<noteq> g \<Longrightarrow> in_flight (ct_phase ?s' l) = Some k2" using k2 fl[of l] by simp
      moreover have "ct_phase ?s' h = (if l = g then Returned k' v else Waiting k' l)"
        using False w by (simp add: end_flight_def)
      ultimately show ?thesis using k2 provenance_cong[of ?s' s k' v] by (auto simp: phase_inv_def end_flight_def)
    next
      case nw: False
      then have "ct_phase ?s' h = ct_phase s h" using False by (auto simp: end_flight_def split: phase.splits)
      then show ?thesis using phase_inv_mono[OF ih, of ?s'] nw by (auto simp: end_flight_def)
    qed
  qed
  moreover have "in_flight (ct_phase ?s' h) = Some k' \<Longrightarrow> ct_flight ?s' (sfKey k') = Some h" for h k'
    using a[of h k'] a[OF g] fl[of h] by (auto simp: end_flight_def split: if_splits)
  moreover have "ct_flight ?s' f = Some h \<Longrightarrow> \<exists>k'. in_flight (ct_phase ?s' h) = Some k' \<and> sfKey k' = f" for f h
    using b[of f h] g fl[of h] by (auto simp: end_flight_def split: if_splits)
  ultimately show ?thesis using c unfolding threads_inv_def by (auto simp: end_flight_def)
qed

lemma fetch_done_inv:
  assumes inv: "threads_inv ttl s" and ph: "ct_phase s g = Fetching k t0"
    and st: "store_result k (ct_now s) r (ct_cache s) = (v, c)"
  shows "threads_inv ttl (end_flight g k v (s\<lparr>ct_cache := c, ct_hist := Fetched t0 (ct_now s) k r # ct_hist s\<rparr>))"
    (is "threads_inv ttl (end_flight g k v ?m)")
proof (rule end_flight_inv)
  note I = threads_inv_D[OF inv]
  have c: "c = snd (store_result k (ct_now s) r (ct_cache s))" using st by simp
  show "cache_ttl (ct_cache ?m) = clampTTL ttl" using I(1) c by simp
  show "cache_entries (ct_cache ?m) = kept (ct_hist ?m)"
    unfolding c using I(2) by (auto simp: store_result_entries fun_eq_iff)
  show "spaced (clampTTL ttl) (ct_hist ?m)" using I(3) I(6)[of g] ph by (simp add: phase_inv_def)
  show "in_flight (ct_phase ?m g) = Some k" using ph by simp
  show "provenance ?m k v"
    unfolding provenance_def using st store_result_fst[of k "ct_now s" r "ct_cache s" "newCache 0"] by fastforce
  show "in_flight (ct_phase ?m h) = Some k' \<Longrightarrow> ct_flight ?m (sfKey k') = Some h" for h k' using I(4) by simp
  show "ct_flight ?m f = Some h \<Longrightarrow> \<exists>k'. in_flight (ct_phase ?m h) = Some k' \<and> sfKey k' = f" for f h
    using I(5)[of f h] by simp
  fix h assume "h \<noteq> g"
  have other: "in_flight (ct_phase s h) = Some k' \<Longrightarrow> k' \<noteq> k" for k'
    using threads_inv_flight_unique[OF inv, of h k' g k] ph \<open>h \<noteq> g\<close> by auto
  have prov: "provenance s k' v' \<Longrightarrow> provenance ?m k' v'" for k' v' by (rule provenance_mono) auto
  show "phase_inv ttl ?m (ct_phase ?m h)"
    using I(6)[of h] other prov by (cases "ct_phase s h") (auto simp: phase_inv_def split: option.splits)
qed

lemma invalidate_inv:
  assumes inv: "threads_inv ttl s"
  shows "threads_inv ttl (s\<lparr>ct_cache := invalidate k (ct_cache s), ct_hist := Invalidated k # ct_hist s\<rparr>)"
    (is "threads_inv ttl ?s'")
proof -
  note I = threads_inv_D[OF inv]
  have prov: "provenance s k' v' \<Longrightarrow> provenance ?s' k' v'" for k' v' by (rule provenance_mono) auto
  have "phase_inv ttl ?s' (ct_phase ?s' h)" for h
    using I(6)[of h] prov by (cases "ct_phase s h") (auto simp: phase_inv_def split: option.splits)
  moreover have "cache_entries (ct_cache ?s') = kept (ct_hist ?s')"
    using I(2) by (auto simp: invalidate_def fun_eq_iff)
  ultimately show ?thesis using I(1,3,4) I(5) unfolding threads_inv_def by (simp add: invalidate_def)
qed

lemma goroutine_step_inv:
  assumes inv: "threads_inv ttl s" and st: "goroutine_step g s = Some s'"
  shows "threads_inv ttl s'"
proof -
  note I = threads_inv_D[OF inv]
  have ph: "phase_inv ttl s (ct_phase s g)" by (rule I(6))
  show ?thesis
  proof (cases "ct_phase s g")
    case (Checking k e)
    with ph st show ?thesis
      by (auto simp: goroutine_step_def phase_inv_def dest!: fresh_Some split: option.splits intro!: set_phase_inv[OF inv])
  next
    case (Missed k)
    show ?thesis
    proof (cases "ct_flight s (sfKey k)")
      case None
      with st Missed lead_inv[OF inv Missed None] show ?thesis by (simp add: goroutine_step_def)
    next
      case (Some l)
      with st Missed I(5)[OF Some] show ?thesis
        by (auto simp: goroutine_step_def phase_inv_def intro!: set_phase_inv[OF inv])
    qed
  next
    case (Leading k)
    with st I(2) show ?thesis
      by (auto simp: goroutine_step_def phase_inv_def intro!: set_phase_inv[OF inv] dest: kept_provenance split: option.splits)
  next
    case (Rechecking k e)
    show ?thesis
    proof (cases "fresh s e")
      case (Some r)
      with ph Rechecking have "provenance s k r" by (auto simp: phase_inv_def dest!: fresh_Some)
      with st Some Rechecking I show ?thesis by (auto simp: goroutine_step_def intro!: end_flight_inv)
    next
      case None
      with ph Rechecking I(1) have "phase_inv ttl s (Fetching k (ct_now s))"
        by (auto simp: phase_inv_def fresh_def expired_def split: option.splits if_splits)
      with st None Rechecking show ?thesis by (auto simp: goroutine_step_def intro!: set_phase_inv[OF inv])
    qed
  qed (use st in \<open>auto simp: goroutine_step_def\<close>)
qed

lemma thread_step_inv:
  assumes inv: "threads_inv ttl s" and st: "thread_step a s = Some s'"
  shows "threads_inv ttl s'"
proof (cases a)
  case (Call g k)
  have "phase_inv ttl s (Checking k (cache_entries (ct_cache s) k))"
    using threads_inv_D(2)[OF inv] by (auto simp: phase_inv_def dest: kept_provenance split: option.splits)
  with Call st show ?thesis
    by (auto simp: thread_step_def split: phase.splits intro!: set_phase_inv[OF inv])
next
  case (Step g)
  with st goroutine_step_inv[OF inv] show ?thesis by (simp add: thread_step_def)
next
  case (FetchDone g r)
  with st fetch_done_inv[OF inv] show ?thesis by (auto simp: thread_step_def split: phase.splits prod.splits)
next
  case (Invalidate k)
  with st invalidate_inv[OF inv, of k] show ?thesis by (simp add: thread_step_def)
next
  case (Tick d)
  with st have s': "s' = s\<lparr>ct_now := ct_now s + d\<rparr>" by (simp add: thread_step_def split: if_splits)
  have "phase_inv ttl s' (ct_phase s h)" for h
    by (rule phase_inv_mono[OF threads_inv_D(6)[OF inv]]) (simp_all add: s')
  with threads_inv_D[OF inv] show ?thesis unfolding threads_inv_def by (simp add: s')
qed

lemma reachable_inv: "reachable ttl s \<Longrightarrow> threads_inv ttl s"
proof (induction rule: reachable.induct)
  case (start t)
  show ?case by (auto simp: threads0_def threads_inv_def phase_inv_def newCache_def)
qed (rule thread_step_inv)

subsection \<open>Flight keys\<close>

text \<open>The parts of a key hold no separator (Kubernetes names have none), and a dimension name has one
  kind, as in the registry.\<close>

definition plain_key :: "(string \<Rightarrow> dimension_kind) \<Rightarrow> cache_key \<Rightarrow> bool" where
  "plain_key kind_of k = (case k of (pc, dim) \<Rightarrow>
     CHR ''|'' \<notin> set (pc_Kind pc) \<and> CHR ''|'' \<notin> set (pc_Namespace pc) \<and> CHR ''|'' \<notin> set (pc_Name pc) \<and>
     dim_Kind dim = kind_of (dim_Name dim))"

lemma sep_append_inj:
  assumes "xs @ c # ys = xs' @ c # ys'" "c \<notin> set xs" "c \<notin> set xs'"
  shows "xs = xs' \<and> ys = ys'"
  using assms by (auto simp: append_eq_append_conv2 append_eq_Cons_conv Cons_eq_append_conv)

lemma sfKey_inj:
  assumes "sfKey k = sfKey k'" "plain_key kind_of k" "plain_key kind_of k'"
  shows "k = k'"
proof -
  obtain pc d pc' d' where k: "k = (pc, d)" "k' = (pc', d')" by (metis surj_pair)
  have e: "pc_Kind pc @ CHR ''|'' # (pc_Namespace pc @ CHR ''|'' # (pc_Name pc @ CHR ''|'' # dim_Name d))
      = pc_Kind pc' @ CHR ''|'' # (pc_Namespace pc' @ CHR ''|'' # (pc_Name pc' @ CHR ''|'' # dim_Name d'))"
    using assms(1) k by (simp add: sfKey_def)
  have "pc_Kind pc = pc_Kind pc'" "pc_Namespace pc = pc_Namespace pc'" "pc_Name pc = pc_Name pc'" "dim_Name d = dim_Name d'"
    using sep_append_inj[OF e] sep_append_inj assms(2,3) k by (auto simp: plain_key_def dest: sep_append_inj)
  then show ?thesis using assms(2,3) k by (simp add: plain_key_def)
qed

definition wit_key :: cache_key where
  "wit_key = (\<lparr>pc_Kind = ''ProviderConfig'', pc_Name = ''default'', pc_Namespace = ''team-a''\<rparr>,
              \<lparr>dim_Name = ''servers/os'', dim_Kind = DimensionEnum\<rparr>)"

text \<open>Two goroutines ask for the same catalog at once, one fetches, both are answered; a third call
  after the TTL fetches again.\<close>

definition wit_trace :: "thread_action list" where
  "wit_trace = [Call 0 wit_key, Call 1 wit_key, Step 0, Step 1, Step 0, Step 1, Step 0, Step 0, Tick 5,
     FetchDone 0 (Inr (StringPayload [''ubuntu''])), Tick MinTTL, Call 2 wit_key, Step 2, Step 2, Step 2, Step 2]"

definition wit_threads :: threads where
  "wit_threads = the (run_threads wit_trace (threads0 0 1))"

lemma wit_threads_reachable: "reachable 1 wit_threads"
proof -
  have "run_threads wit_trace (threads0 0 1) \<noteq> None" by code_simp
  then have "run_threads wit_trace (threads0 0 1) = Some wit_threads" by (simp add: wit_threads_def)
  then show ?thesis using run_threads_reachable[OF reachable.start] by blast
qed



text \<open>
  C5. Under any interleaving, the cache holds exactly what the history of fetches says (the last kept
  result of each key that was not invalidated since), and a fetch of a key never starts within one TTL
  of the kept fetch before it: a kept result, also a refused one, is served for a full TTL.
\<close>

theorem getOrFetch_history:
  assumes "reachable ttl s"
  shows "cache_entries (ct_cache s) = kept (ct_hist s) \<and> spaced (clampTTL ttl) (ct_hist s)"
  using threads_inv_D[OF reachable_inv[OF assms]] by simp

theorem getOrFetch_history_witness:
  "kept (ct_hist wit_threads) wit_key = Some \<lparr>ent_result = Inr (StringPayload [''ubuntu'']), ent_fetchedAt = 5\<rparr>
   \<and> cache_entries (ct_cache wit_threads) wit_key
       = Some \<lparr>ent_result = Inr (StringPayload [''ubuntu'']), ent_fetchedAt = 5\<rparr>"
proof -
  have "kept (ct_hist wit_threads) wit_key = Some \<lparr>ent_result = Inr (StringPayload [''ubuntu'']), ent_fetchedAt = 5\<rparr>"
    by code_simp
  with getOrFetch_history[OF wit_threads_reachable] show ?thesis by simp
qed

text \<open>
  A value that \<^verbatim>\<open>getOrFetch\<close> returns for a key, cached, fetched or shared from another
  goroutine's flight, is the outcome of a fetch of that very key: credentials' catalogs do not mix.
\<close>

theorem getOrFetch_provenance:
  assumes "reachable ttl s" "ct_phase s g = Returned k v" "plain_key kind_of k"
    and "\<And>t f k' r. Fetched t f k' r \<in> set (ct_hist s) \<Longrightarrow> plain_key kind_of k'"
  shows "\<exists>t f r. Fetched t f k r \<in> set (ct_hist s) \<and> v = fst (store_result k f r (newCache 0))"
proof -
  have "provenance s k v"
    using threads_inv_D(6)[OF reachable_inv[OF assms(1)], of g] assms(2) by (simp add: phase_inv_def)
  then obtain t f k' r where "Fetched t f k' r \<in> set (ct_hist s)" "sfKey k' = sfKey k"
      "v = fst (store_result k' f r (newCache 0))"
    unfolding provenance_def by blast
  moreover from this assms(3,4) have "k' = k" by (intro sfKey_inj) auto
  ultimately show ?thesis by blast
qed

theorem getOrFetch_provenance_witness:
  "ct_phase wit_threads 1 = Returned wit_key (Inr (StringPayload [''ubuntu'']))
   \<and> (\<exists>t f r. Fetched t f wit_key r \<in> set (ct_hist wit_threads))"
proof -
  have h: "ct_phase wit_threads 1 = Returned wit_key (Inr (StringPayload [''ubuntu'']))" by code_simp
  have p: "plain_key (\<lambda>_. DimensionEnum) wit_key" by code_simp
  have "ct_hist wit_threads = [Fetched 0 5 wit_key (Inr (StringPayload [''ubuntu'']))]" by code_simp
  then have "\<And>t f k' r. Fetched t f k' r \<in> set (ct_hist wit_threads) \<Longrightarrow> plain_key (\<lambda>_. DimensionEnum) k'"
    using p by simp
  then have "\<exists>t f r. Fetched t f wit_key r \<in> set (ct_hist wit_threads) \<and>
      Inr (StringPayload [''ubuntu'']) = fst (store_result wit_key f r (newCache 0))"
    by (rule getOrFetch_provenance[OF wit_threads_reachable h p])
  with h show ?thesis by blast
qed

end
