(* ===== verification/Resolver.thy ===== *)
theory Resolver
  imports ResolverCache
begin

text \<open>
  The resolver proper: the dimension registry and its fetchers (\<^verbatim>\<open>resolver/dimensions.go\<close>) and
  \<^verbatim>\<open>Resolve\<close> / \<^verbatim>\<open>Invalidate\<close> (\<^verbatim>\<open>resolver/resolve.go\<close>).

  The generated Timeweb client is a parameter: \<open>client w call\<close> answers a catalog call in world \<open>w\<close>.
  Wire records hold the numbers upstream sent; where the generated struct declares \<^verbatim>\<open>float32\<close> the
  fetcher reads them through \<open>float32_int\<close>.
\<close>

section \<open>Catalog payloads\<close>

datatype catalog_call =
    GetRegistryPresets | GetStoragesPresets | GetServersPresets | GetOsList | GetKubernetesPresets
  | GetK8SVersions | GetConfigurators | GetK8sConfigurators | GetRouterPresets

record registry_preset =
  rp_id :: int
  rp_description_short :: string
  rp_disk :: int
  rp_location :: "string option"

record storage_preset =
  sp_id :: int
  sp_description_short :: string
  sp_disk :: int
  sp_location :: string
  sp_storage_class :: string

record server_preset =
  vp_id :: int
  vp_description_short :: string
  vp_disk :: int
  vp_location :: string

record server_os =
  os_id :: "int option"
  os_name :: "string option"
  os_version :: "string option"

record K8sPresetItem =
  kp_Id :: "int option"
  kp_Type :: "string option"
  kp_DescriptionShort :: "string option"
  kp_Disk :: "int option"
  kp_AvailabilityZone :: "string option"

record router_preset =
  rt_id :: int
  rt_node_count :: int
  rt_cpu :: int
  rt_ram :: int
  rt_location :: string

record requirement =
  rq_min :: int
  rq_step :: int
  rq_max :: int

record servers_configurator =
  sc_id :: int
  sc_location :: string
  sc_disk_type :: string
  sc_is_allowed_local_network :: bool
  sc_cpu_frequency :: string
  sc_cpu :: requirement
  sc_ram :: requirement
  sc_disk :: requirement
  sc_bandwidth :: requirement
  sc_gpu_min :: "int option"
  sc_gpu_step :: "int option"
  sc_gpu_max :: "int option"
  sc_tags :: "string list option"

datatype catalog_body =
    RegistryPresets "registry_preset list"
  | StoragesPresets "storage_preset list"
  | ServerPresets "server_preset list"
  | ServersOs "server_os list"
  | K8sPresets "K8sPresetItem list"
  | K8sVersions "string list"
  | ServerConfigurators "servers_configurator list"
  | K8sConfigurators "servers_configurator list"
  | RouterPresets "router_preset list"

text \<open>A transport error, or a response with its status and \<^verbatim>\<open>JSON200\<close> (absent unless the status was
  200 and the body decoded).\<close>

datatype catalog_reply = CatalogNetErr | CatalogResp int "catalog_body option"

type_synonym 'w catalog_client = "'w \<Rightarrow> catalog_call \<Rightarrow> catalog_reply \<times> 'w"
type_synonym 'w fetcher = "'w catalog_client \<Rightarrow> 'w \<Rightarrow> (go_error + payload) \<times> 'w"

definition classifyUpstream :: "int \<Rightarrow> go_error" where
  "classifyUpstream status =
     (if status = 401 \<or> status = 403 then ErrCatalogUnauthorized status
      else if status \<ge> 500 \<or> status = 0 then ErrCatalogTransient status
      else Errorf ''catalog HTTP'')"

text \<open>The part all fetchers share: \<^verbatim>\<open>JSON200\<close> or the classified failure. \<open>sel\<close> picks the list of the
  response struct of this endpoint.\<close>

definition catalog_get :: "catalog_call \<Rightarrow> (catalog_body \<Rightarrow> 'a list option) \<Rightarrow> ('a list \<Rightarrow> payload) \<Rightarrow> 'w fetcher" where
  "catalog_get c sel build client w =
     (case client w c of (reply, w') \<Rightarrow>
        ((case reply of
            CatalogNetErr \<Rightarrow> Inl (classifyUpstream 0)
          | CatalogResp status None \<Rightarrow> Inl (classifyUpstream status)
          | CatalogResp status (Some b) \<Rightarrow>
              (case sel b of None \<Rightarrow> Inl (classifyUpstream status) | Some l \<Rightarrow> Inr (build l))), w'))"

section \<open>Fetchers\<close>

definition opt_string :: "string option \<Rightarrow> string" where
  "opt_string o' = (case o' of None \<Rightarrow> [] | Some s \<Rightarrow> s)"

definition k8s_preset_entry :: "K8sPresetItem \<Rightarrow> preset_entry" where
  "k8s_preset_entry p = \<lparr>
     pe_UpstreamID = (case kp_Id p of None \<Rightarrow> 0 | Some n \<Rightarrow> n),
     pe_DescShort = opt_string (kp_DescriptionShort p), pe_Location = [],
     pe_DiskGB = (case kp_Disk p of None \<Rightarrow> 0 | Some d \<Rightarrow> go_div d 1024),
     pe_StorageClass = [], pe_Zone = opt_string (kp_AvailabilityZone p)\<rparr>"

definition fetchK8sPresetsByType :: "string \<Rightarrow> 'w fetcher" where
  "fetchK8sPresetsByType role =
     catalog_get GetKubernetesPresets (\<lambda>b. case b of K8sPresets l \<Rightarrow> Some l | _ \<Rightarrow> None)
       (\<lambda>l. PresetPayload (map k8s_preset_entry (filter (\<lambda>p. kp_Type p = Some role) l)))"

definition fetchK8sMasterPresets :: "'w fetcher" where
  "fetchK8sMasterPresets = fetchK8sPresetsByType ''master''"

definition fetchK8sWorkerPresets :: "'w fetcher" where
  "fetchK8sWorkerPresets = fetchK8sPresetsByType ''worker''"

definition fetchK8sVersions :: "'w fetcher" where
  "fetchK8sVersions = catalog_get GetK8SVersions (\<lambda>b. case b of K8sVersions l \<Rightarrow> Some l | _ \<Rightarrow> None) StringPayload"

definition fetchContainerRegistryPresets :: "'w fetcher" where
  "fetchContainerRegistryPresets =
     catalog_get GetRegistryPresets (\<lambda>b. case b of RegistryPresets l \<Rightarrow> Some l | _ \<Rightarrow> None)
       (\<lambda>l. PresetPayload (map (\<lambda>p. \<lparr>pe_UpstreamID = rp_id p, pe_DescShort = rp_description_short p,
          pe_Location = opt_string (rp_location p), pe_DiskGB = rp_disk p, pe_StorageClass = [], pe_Zone = []\<rparr>) l))"

definition fetchS3BucketPresets :: "'w fetcher" where
  "fetchS3BucketPresets =
     catalog_get GetStoragesPresets (\<lambda>b. case b of StoragesPresets l \<Rightarrow> Some l | _ \<Rightarrow> None)
       (\<lambda>l. PresetPayload (map (\<lambda>p. \<lparr>pe_UpstreamID = float32_int (sp_id p), pe_DescShort = sp_description_short p,
          pe_Location = sp_location p, pe_DiskGB = go_div (float32_int (sp_disk p)) 1024,
          pe_StorageClass = sp_storage_class p, pe_Zone = []\<rparr>) l))"

definition fetchServerPresets :: "'w fetcher" where
  "fetchServerPresets =
     catalog_get GetServersPresets (\<lambda>b. case b of ServerPresets l \<Rightarrow> Some l | _ \<Rightarrow> None)
       (\<lambda>l. PresetPayload (map (\<lambda>p. \<lparr>pe_UpstreamID = float32_int (vp_id p), pe_DescShort = vp_description_short p,
          pe_Location = vp_location p, pe_DiskGB = go_div (float32_int (vp_disk p)) 1024,
          pe_StorageClass = [], pe_Zone = []\<rparr>) l))"

definition fetchServerOSImages :: "'w fetcher" where
  "fetchServerOSImages =
     catalog_get GetOsList (\<lambda>b. case b of ServersOs l \<Rightarrow> Some l | _ \<Rightarrow> None)
       (\<lambda>l. PresetPayload (map (\<lambda>p. \<lparr>pe_UpstreamID = (case os_id p of None \<Rightarrow> 0 | Some n \<Rightarrow> float32_int n),
          pe_DescShort = opt_string (os_name p), pe_Location = opt_string (os_version p),
          pe_DiskGB = 0, pe_StorageClass = [], pe_Zone = []\<rparr>) l))"

definition bound_of :: "(int \<Rightarrow> int) \<Rightarrow> requirement \<Rightarrow> capacity_bound" where
  "bound_of f r = \<lparr>cb_Min = f (rq_min r), cb_Step = f (rq_step r), cb_Max = f (rq_max r)\<rparr>"

definition configurator_bounds :: "servers_configurator \<Rightarrow> (string \<times> capacity_bound) list" where
  "configurator_bounds cfg =
     [(''cpu'', bound_of float32_int (sc_cpu cfg)),
      (''ramMB'', bound_of float32_int (sc_ram cfg)),
      (''diskGB'', bound_of (\<lambda>x. go_div (float32_int x) 1024) (sc_disk cfg)),
      (''bandwidth'', bound_of float32_int (sc_bandwidth cfg))] @
     (case (sc_gpu_min cfg, sc_gpu_max cfg) of
        (Some mn, Some mx) \<Rightarrow> [(''gpu'', \<lparr>cb_Min = float32_int mn,
            cb_Step = (case sc_gpu_step cfg of None \<Rightarrow> 0 | Some st \<Rightarrow> float32_int st), cb_Max = float32_int mx\<rparr>)]
      | _ \<Rightarrow> [])"

definition configuratorEntries :: "servers_configurator list \<Rightarrow> configurator_entry list" where
  "configuratorEntries cfgs = map (\<lambda>cfg. \<lparr>ce_UpstreamID = float32_int (sc_id cfg),
     ce_Filters = [(''location'', AStr (sc_location cfg)), (''disk_type'', AStr (sc_disk_type cfg)),
       (''is_allowed_local_network'', ABool (sc_is_allowed_local_network cfg)),
       (''cpu_frequency'', AStr (sc_cpu_frequency cfg))],
     ce_Bounds = configurator_bounds cfg,
     ce_Tags = (case sc_tags cfg of None \<Rightarrow> [] | Some ts \<Rightarrow> ts)\<rparr>) cfgs"

definition fetchServerConfigurators :: "'w fetcher" where
  "fetchServerConfigurators =
     catalog_get GetConfigurators (\<lambda>b. case b of ServerConfigurators l \<Rightarrow> Some l | _ \<Rightarrow> None)
       (\<lambda>l. ConfiguratorPayload (configuratorEntries l))"

definition k8sMasterConfiguratorTag :: string where
  "k8sMasterConfiguratorTag = ''k8s_master_configurator''"

definition isMaster :: "servers_configurator \<Rightarrow> bool" where
  "isMaster cfg = (case sc_tags cfg of None \<Rightarrow> False | Some ts \<Rightarrow> k8sMasterConfiguratorTag \<in> set ts)"

definition fetchK8sConfiguratorsByRole :: "bool \<Rightarrow> 'w fetcher" where
  "fetchK8sConfiguratorsByRole master =
     catalog_get GetK8sConfigurators (\<lambda>b. case b of K8sConfigurators l \<Rightarrow> Some l | _ \<Rightarrow> None)
       (\<lambda>l. ConfiguratorPayload (configuratorEntries (filter (\<lambda>cfg. isMaster cfg = master) l)))"

definition fetchK8sMasterConfigurators :: "'w fetcher" where
  "fetchK8sMasterConfigurators = fetchK8sConfiguratorsByRole True"

definition fetchK8sWorkerConfigurators :: "'w fetcher" where
  "fetchK8sWorkerConfigurators = fetchK8sConfiguratorsByRole False"

definition fetchRouterPresets :: "'w fetcher" where
  "fetchRouterPresets =
     catalog_get GetRouterPresets (\<lambda>b. case b of RouterPresets l \<Rightarrow> Some l | _ \<Rightarrow> None)
       (\<lambda>l. PresetPayload (map (\<lambda>p. \<lparr>pe_UpstreamID = rt_id p,
          pe_DescShort = ''router-'' @ Itoa (rt_node_count p) @ ''x'' @ Itoa (rt_cpu p) @ ''-'' @ Itoa (rt_ram p) @ ''gb'',
          pe_Location = rt_location p, pe_DiskGB = 0, pe_StorageClass = [], pe_Zone = rt_location p\<rparr>) l))"

definition fetchUnwired :: "'w fetcher" where
  "fetchUnwired client w = (Inl ErrDimensionFetcherUnwired, w)"

section \<open>The registry\<close>

record 'w dimension_def =
  def_kind :: dimension_kind
  def_fetch :: "'w fetcher"

definition defaultRegistry :: "(string \<times> 'w dimension_def) list" where
  "defaultRegistry =
     [(''ContainerRegistryPreset'', \<lparr>def_kind = DimensionPreset, def_fetch = fetchContainerRegistryPresets\<rparr>),
      (''S3BucketPreset'', \<lparr>def_kind = DimensionPreset, def_fetch = fetchS3BucketPresets\<rparr>),
      (''ServerPreset'', \<lparr>def_kind = DimensionPreset, def_fetch = fetchServerPresets\<rparr>),
      (''ServerOSImage'', \<lparr>def_kind = DimensionPreset, def_fetch = fetchServerOSImages\<rparr>),
      (''KubernetesMasterPreset'', \<lparr>def_kind = DimensionPreset, def_fetch = fetchK8sMasterPresets\<rparr>),
      (''KubernetesWorkerPreset'', \<lparr>def_kind = DimensionPreset, def_fetch = fetchK8sWorkerPresets\<rparr>),
      (''KubernetesVersion'', \<lparr>def_kind = DimensionEnum, def_fetch = fetchK8sVersions\<rparr>),
      (''ServerConfigurator'', \<lparr>def_kind = DimensionConfigurator, def_fetch = fetchServerConfigurators\<rparr>),
      (''KubernetesMasterConfigurator'', \<lparr>def_kind = DimensionConfigurator, def_fetch = fetchK8sMasterConfigurators\<rparr>),
      (''KubernetesWorkerConfigurator'', \<lparr>def_kind = DimensionConfigurator, def_fetch = fetchK8sWorkerConfigurators\<rparr>),
      (''RouterPreset'', \<lparr>def_kind = DimensionPreset, def_fetch = fetchRouterPresets\<rparr>),
      (''KubernetesNetworkDriver'', \<lparr>def_kind = DimensionEnum, def_fetch = fetchUnwired\<rparr>),
      (''AvailabilityZone'', \<lparr>def_kind = DimensionEnum, def_fetch = fetchUnwired\<rparr>)]"

section \<open>\<^verbatim>\<open>Resolve\<close>\<close>

record preset_input =
  pi_Slug :: string
  pi_Zone :: string
  pi_Location :: string

datatype resolve_input =
    PresetInput preset_input
  | PresetBySizeInput preset_by_size_input
  | ConfiguratorInput configurator_input
  | EnumInput string

datatype resolve_output =
    PresetOutput int
  | ConfiguratorOutput configurator_output
  | EnumOutput bool "string list"

definition zone_filter :: "string \<Rightarrow> preset_entry list \<Rightarrow> preset_entry list" where
  "zone_filter zone entries =
     (if zone \<noteq> [] then filter (\<lambda>e. pe_Zone e = [] \<or> pe_Zone e = zone) entries else entries)"

definition location_filter :: "string \<Rightarrow> preset_entry list \<Rightarrow> preset_entry list" where
  "location_filter loc entries =
     (if loc \<noteq> [] then filter (\<lambda>e. pe_Location e = [] \<or> pe_Location e = loc) entries else entries)"

text \<open>\<^verbatim>\<open>errors.As(err, &pnf)\<close> and the stamp of the operator's location\<close>

definition stamp_location :: "string \<Rightarrow> go_error \<Rightarrow> go_error" where
  "stamp_location loc err = (case err of
     PresetNotFoundError s v d _ \<Rightarrow> if loc \<noteq> [] then PresetNotFoundError s v d loc else err | _ \<Rightarrow> err)"

definition resolve_preset :: "preset_input \<Rightarrow> preset_entry list \<Rightarrow> string \<Rightarrow> go_error + resolve_output" where
  "resolve_preset inp entries dimName =
     map_sum (stamp_location (pi_Location inp)) PresetOutput
       (MatchPresetSlug (pi_Slug inp) (location_filter (pi_Location inp) (zone_filter (pi_Zone inp) entries)) dimName)"

definition resolve_payload :: "dimension \<Rightarrow> payload \<Rightarrow> resolve_input \<Rightarrow> go_error + resolve_output" where
  "resolve_payload dim payload input = (case dim_Kind dim of
     DimensionPreset \<Rightarrow> (case payload of
         PresetPayload entries \<Rightarrow> (case input of
             PresetInput inp \<Rightarrow> resolve_preset inp entries (dim_Name dim)
           | PresetBySizeInput inp \<Rightarrow> map_sum (\<lambda>e. e) PresetOutput (MatchPresetBySize inp entries (dim_Name dim))
           | _ \<Rightarrow> Inl ErrInvalidInput)
       | _ \<Rightarrow> Inl ErrInvalidInput)
   | DimensionConfigurator \<Rightarrow> (case input of
         ConfiguratorInput inp \<Rightarrow> (case payload of
             ConfiguratorPayload entries \<Rightarrow> map_sum (\<lambda>e. e) ConfiguratorOutput (SelectConfigurator inp entries (dim_Name dim))
           | _ \<Rightarrow> Inl ErrInvalidInput)
       | _ \<Rightarrow> Inl ErrInvalidInput)
   | DimensionEnum \<Rightarrow> (case input of
         EnumInput v \<Rightarrow> (case payload of
             StringPayload values \<Rightarrow>
               if v \<in> set values then Inr (EnumOutput True [])
               else Inl (DimensionValueNotFoundError v values (dim_Name dim))
           | _ \<Rightarrow> Inl ErrInvalidInput)
       | _ \<Rightarrow> Inl ErrInvalidInput))"

definition Resolve :: "'w catalog_client \<Rightarrow> int \<Rightarrow> int \<Rightarrow> int \<Rightarrow> pc_ref \<Rightarrow> dimension \<Rightarrow> resolve_input \<Rightarrow>
    cache \<Rightarrow> 'w \<Rightarrow> (go_error + resolve_output) \<times> cache \<times> 'w" where
  "Resolve client t1 t2 t3 pcRef dim input c w =
     (case map_of defaultRegistry (dim_Name dim) of
        None \<Rightarrow> (Inl (ErrUnknownDimension (dim_Name dim)), c, w)
      | Some def \<Rightarrow>
          if def_kind def \<noteq> dim_Kind dim then (Inl ErrInvalidInput, c, w)
          else (case getOrFetch t1 t2 t3 (pcRef, dim) (def_fetch def client) c w of
                  (Inl err, c', w') \<Rightarrow> (Inl err, c', w')
                | (Inr payload, c', w') \<Rightarrow> (resolve_payload dim payload input, c', w')))"

definition resolver_Invalidate :: "pc_ref \<Rightarrow> dimension \<Rightarrow> cache \<Rightarrow> cache" where
  "resolver_Invalidate pcRef dim c = invalidate (pcRef, dim) c"

section \<open>Lemmas\<close>

lemmas fetch_defs = fetchK8sPresetsByType_def fetchK8sMasterPresets_def fetchK8sWorkerPresets_def
  fetchK8sVersions_def fetchContainerRegistryPresets_def fetchS3BucketPresets_def fetchServerPresets_def
  fetchServerOSImages_def fetchServerConfigurators_def fetchK8sConfiguratorsByRole_def
  fetchK8sMasterConfigurators_def fetchK8sWorkerConfigurators_def fetchRouterPresets_def fetchUnwired_def

fun payload_kind :: "payload \<Rightarrow> dimension_kind" where
  "payload_kind (PresetPayload _) = DimensionPreset"
| "payload_kind (ConfiguratorPayload _) = DimensionConfigurator"
| "payload_kind (StringPayload _) = DimensionEnum"

fun input_kind :: "resolve_input \<Rightarrow> dimension_kind" where
  "input_kind (PresetInput _) = DimensionPreset"
| "input_kind (PresetBySizeInput _) = DimensionPreset"
| "input_kind (ConfiguratorInput _) = DimensionConfigurator"
| "input_kind (EnumInput _) = DimensionEnum"

definition cache_typed :: "cache \<Rightarrow> bool" where
  "cache_typed c \<longleftrightarrow> (\<forall>pc dim e. cache_entries c (pc, dim) = Some e \<longrightarrow>
     (case ent_result e of Inr p \<Rightarrow> payload_kind p = dim_Kind dim | Inl err \<Rightarrow> is_unauthorized err))"

lemma catalog_get_kind:
  assumes "catalog_get c sel build client w = (Inr p, w')"
  shows "\<exists>l. p = build l"
  using assms by (auto simp: catalog_get_def split: prod.splits catalog_reply.splits option.splits)

lemma registry_typed:
  assumes "map_of defaultRegistry name = Some def" "def_fetch def client w = (Inr p, w')"
  shows "payload_kind p = def_kind def"
proof -
  have "(name, def) \<in> set defaultRegistry" using assms(1) by (rule map_of_SomeD)
  with assms(2) show ?thesis
    by (auto simp: defaultRegistry_def fetch_defs dest!: catalog_get_kind)
qed

lemma catalog_get_err:
  "catalog_get c sel build client w = (Inl e, w') \<Longrightarrow> e \<noteq> ErrInvalidInput"
  by (auto simp: catalog_get_def classifyUpstream_def split: prod.splits catalog_reply.splits option.splits if_splits)

lemma registry_err:
  assumes "map_of defaultRegistry name = Some def" "def_fetch def client w = (Inl e, w')"
  shows "e \<noteq> ErrInvalidInput"
proof -
  have "(name, def) \<in> set defaultRegistry" using assms(1) by (rule map_of_SomeD)
  with assms(2) show ?thesis by (auto simp: defaultRegistry_def fetch_defs dest: catalog_get_err)
qed

definition typed_result :: "dimension \<Rightarrow> go_error + payload \<Rightarrow> bool" where
  "typed_result dim r = (case r of Inr p \<Rightarrow> payload_kind p = dim_Kind dim | Inl e \<Rightarrow> e \<noteq> ErrInvalidInput)"

lemma getOrFetch_typed:
  assumes "cache_typed c" "getOrFetch t1 t2 t3 (pc, dim) f c w = (r, c', w')" "typed_result dim (fst (f w))"
  shows "cache_typed c' \<and> typed_result dim r"
proof -
  have hit: "cached c t (pc, dim) = Some v \<Longrightarrow> typed_result dim v" for t v
    using assms(1) by (fastforce simp: cached_def cache_typed_def typed_result_def is_unauthorized_def
      split: option.splits if_splits sum.splits)
  obtain r1 w1 where f: "f w = (r1, w1)" by (cases "f w")
  have "cache_typed (snd (store_result (pc, dim) t3 r1 c))"
    using assms(1) assms(3) f unfolding cache_typed_def
    by (auto simp: store_result_entries cacheable_def typed_result_def split: if_splits sum.splits)
  moreover have "typed_result dim (fst (store_result (pc, dim) t3 r1 c))"
    using assms(3) f by (auto simp: store_result_def typed_result_def split: sum.splits if_splits)
  ultimately show ?thesis
    using assms(1,2) hit f by (auto simp: getOrFetch_def split: option.splits prod.splits)
qed

lemma registry_typed_result:
  "map_of defaultRegistry (dim_Name dim) = Some def \<Longrightarrow> def_kind def = dim_Kind dim \<Longrightarrow>
   typed_result dim (fst (def_fetch def client w))"
  using registry_typed[of "dim_Name dim" def client w] registry_err[of "dim_Name dim" def client w]
  by (cases "def_fetch def client w") (auto simp: typed_result_def split: sum.splits)

lemma filter_pass_err: "filter_pass f d es = Inl e \<Longrightarrow> e \<noteq> ErrInvalidInput"
  by (auto simp: filter_pass_def Let_def split: list.splits)

lemma SelectConfigurator_err: "SelectConfigurator inp es d \<noteq> Inl ErrInvalidInput"
  unfolding SelectConfigurator_def Let_def
  by (auto dest: filter_pass_err split: list.split sum.split)

lemma MatchPresetSlug_err: "MatchPresetSlug sl es d = Inl e \<Longrightarrow> e \<noteq> ErrInvalidInput \<and> stamp_location l e \<noteq> ErrInvalidInput"
  by (auto simp: MatchPresetSlug_def Let_def stamp_location_def split: option.splits list.splits if_splits)

lemma MatchPresetBySize_err: "MatchPresetBySize inp es d \<noteq> Inl ErrInvalidInput"
  by (auto simp: MatchPresetBySize_def Let_def split: list.splits)

lemma resolve_payload_typed:
  assumes "payload_kind p = dim_Kind dim" "input_kind input = dim_Kind dim"
  shows "resolve_payload dim p input \<noteq> Inl ErrInvalidInput"
  using assms SelectConfigurator_err MatchPresetSlug_err MatchPresetBySize_err
  by (cases p; cases input)
     (auto simp: resolve_payload_def resolve_preset_def map_sum_def split: sum.splits)

lemma Resolve_Inr:
  assumes "Resolve client t1 t2 t3 pcRef dim input c w = (Inr out, c', w')"
  obtains def p where "map_of defaultRegistry (dim_Name dim) = Some def" "def_kind def = dim_Kind dim"
    "getOrFetch t1 t2 t3 (pcRef, dim) (def_fetch def client) c w = (Inr p, c', w')"
    "resolve_payload dim p input = Inr out"
  using assms by (auto simp: Resolve_def split: option.splits if_splits prod.splits sum.splits)

section \<open>Properties\<close>

text \<open>
  A slug never resolves outside the requested placement: the id \<^verbatim>\<open>Resolve\<close> returns for a preset
  request is the id of a catalog entry whose zone and location are unset or the requested ones, taken
  from the payload the cache answered with.
\<close>

theorem Resolve_preset_in_zone:
  assumes "Resolve client t1 t2 t3 pcRef dim (PresetInput inp) c w = (Inr out, c', w')"
  shows "\<exists>def entries e. map_of defaultRegistry (dim_Name dim) = Some def \<and>
    getOrFetch t1 t2 t3 (pcRef, dim) (def_fetch def client) c w = (Inr (PresetPayload entries), c', w') \<and>
    e \<in> set entries \<and> out = PresetOutput (pe_UpstreamID e) \<and>
    (pi_Zone inp = [] \<or> pe_Zone e = [] \<or> pe_Zone e = pi_Zone inp) \<and>
    (pi_Location inp = [] \<or> pe_Location e = [] \<or> pe_Location e = pi_Location inp)"
proof -
  from Resolve_Inr[OF assms] obtain def p where d: "map_of defaultRegistry (dim_Name dim) = Some def"
      "getOrFetch t1 t2 t3 (pcRef, dim) (def_fetch def client) c w = (Inr p, c', w')"
      "resolve_payload dim p (PresetInput inp) = Inr out" by metis
  from d(3) obtain entries n where p: "p = PresetPayload entries" "out = PresetOutput n"
      and m: "MatchPresetSlug (pi_Slug inp) (location_filter (pi_Location inp) (zone_filter (pi_Zone inp) entries))
        (dim_Name dim) = Inr n"
    by (auto simp: resolve_payload_def resolve_preset_def map_sum_def
        split: dimension_kind.splits payload.splits sum.splits)
  from match_slug_sound[OF m] obtain e where
    "e \<in> set (location_filter (pi_Location inp) (zone_filter (pi_Zone inp) entries))" "pe_UpstreamID e = n" by blast
  then show ?thesis using d p by (auto simp: location_filter_def zone_filter_def split: if_splits)
qed

definition wit_dim :: dimension where
  "wit_dim = \<lparr>dim_Name = ''KubernetesMasterPreset'', dim_Kind = DimensionPreset\<rparr>"

definition wit_pc :: pc_ref where
  "wit_pc = \<lparr>pc_Kind = ''ProviderConfig'', pc_Name = ''default'', pc_Namespace = ''ns''\<rparr>"

text \<open>A catalog with the same tier in two zones, and a client that answers it and counts its calls.\<close>

definition wit_catalog :: "nat catalog_client" where
  "wit_catalog w q = (case q of
     GetKubernetesPresets \<Rightarrow> (CatalogResp 200 (Some (K8sPresets
       [\<lparr>kp_Id = Some 403, kp_Type = Some ''master'', kp_DescriptionShort = Some ''base'', kp_Disk = Some 20480, kp_AvailabilityZone = Some ''ams-1''\<rparr>,
        \<lparr>kp_Id = Some 401, kp_Type = Some ''master'', kp_DescriptionShort = Some ''base'', kp_Disk = Some 20480, kp_AvailabilityZone = Some ''msk-1''\<rparr>])), Suc w)
   | GetK8sConfigurators \<Rightarrow> (CatalogResp 200 (Some (K8sConfigurators
       (map (\<lambda>(n, l, t). \<lparr>sc_id = n, sc_location = l, sc_disk_type = ''nvme'', sc_is_allowed_local_network = True,
          sc_cpu_frequency = ''3.3'', sc_cpu = \<lparr>rq_min = 2, rq_step = 1, rq_max = 8\<rparr>, sc_ram = \<lparr>rq_min = 1024, rq_step = 1024, rq_max = 65536\<rparr>,
          sc_disk = \<lparr>rq_min = 10240, rq_step = 10240, rq_max = 102400\<rparr>, sc_bandwidth = \<lparr>rq_min = 100, rq_step = 100, rq_max = 1000\<rparr>,
          sc_gpu_min = None, sc_gpu_step = None, sc_gpu_max = None, sc_tags = t\<rparr>)
        [(41, ''ru-1'', Some [''k8s_configurator_general'']), (57, ''ru-1'', Some [k8sMasterConfiguratorTag]),
         (58, ''nl-1'', Some [k8sMasterConfiguratorTag])]))), Suc w)
   | _ \<Rightarrow> (CatalogNetErr, Suc w))"

definition wit_preset_input :: preset_input where
  "wit_preset_input = \<lparr>pi_Slug = ''Base'', pi_Zone = ''msk-1'', pi_Location = []\<rparr>"

lemma Resolve_newCache:
  assumes "map_of defaultRegistry (dim_Name dim) = Some def" "def_kind def = dim_Kind dim"
    "fst (def_fetch def client w) = Inr p" "\<not> isEmptySlice p"
  shows "fst (Resolve client t1 t2 t3 pcRef dim input (newCache ttl) w) = resolve_payload dim p input"
  using assms by (auto simp: Resolve_def getOrFetch_def cached_def newCache_def store_result_def split: prod.splits)

lemma wit_dim_registered:
  "map_of defaultRegistry (dim_Name wit_dim) = Some \<lparr>def_kind = DimensionPreset, def_fetch = fetchK8sMasterPresets\<rparr>"
  by (simp add: wit_dim_def defaultRegistry_def)

definition wit_presets :: "preset_entry list" where
  "wit_presets =
     [\<lparr>pe_UpstreamID = 403, pe_DescShort = ''base'', pe_Location = [], pe_DiskGB = 20, pe_StorageClass = [], pe_Zone = ''ams-1''\<rparr>,
      \<lparr>pe_UpstreamID = 401, pe_DescShort = ''base'', pe_Location = [], pe_DiskGB = 20, pe_StorageClass = [], pe_Zone = ''msk-1''\<rparr>]"

lemma wit_preset_resolves:
  "fst (Resolve wit_catalog 0 0 0 wit_pc wit_dim (PresetInput wit_preset_input) (newCache 0) 0) = Inr (PresetOutput 401)"
proof -
  have f: "fst (fetchK8sMasterPresets wit_catalog 0) = Inr (PresetPayload wit_presets)"
    by (simp add: fetch_defs catalog_get_def wit_catalog_def k8s_preset_entry_def opt_string_def wit_presets_def go_div_def)
  have "resolve_payload wit_dim (PresetPayload wit_presets) (PresetInput wit_preset_input) = Inr (PresetOutput 401)"
    by code_simp
  with Resolve_newCache[OF wit_dim_registered, of wit_catalog 0 "PresetPayload wit_presets"] f show ?thesis
    by (simp add: wit_dim_def wit_presets_def isEmptySlice_def)
qed

theorem Resolve_preset_in_zone_witness:
  "fst (Resolve wit_catalog 0 0 0 wit_pc wit_dim (PresetInput wit_preset_input) (newCache 0) 0) = Inr (PresetOutput 401)
   \<and> (\<exists>e :: preset_entry. pe_UpstreamID e = 401 \<and> (pe_Zone e = [] \<or> pe_Zone e = ''msk-1''))"
proof -
  let ?r = "Resolve wit_catalog 0 0 0 wit_pc wit_dim (PresetInput wit_preset_input) (newCache 0) 0"
  obtain c' w' where h: "?r = (Inr (PresetOutput 401), c', w')"
    using wit_preset_resolves by (cases ?r) auto
  from Resolve_preset_in_zone[OF h] h show ?thesis by (auto simp: wit_preset_input_def)
qed

text \<open>
  C6. The registry is well typed: on a cache filled by the resolver itself, a request whose input
  type fits the dimension's kind is never refused as invalid input, and the cache stays well typed.
\<close>

theorem Resolve_typed:
  assumes "cache_typed c" "map_of defaultRegistry (dim_Name dim) = Some (def :: 'w dimension_def)"
    "def_kind def = dim_Kind dim" "input_kind input = dim_Kind dim"
    and "Resolve (client :: 'w catalog_client) t1 t2 t3 pcRef dim input c w = (r, c', w')"
  shows "r \<noteq> Inl ErrInvalidInput \<and> cache_typed c'"
proof -
  obtain v c1 w1 where g: "getOrFetch t1 t2 t3 (pcRef, dim) (def_fetch def client) c w = (v, c1, w1)"
    by (metis prod_cases3)
  have t: "cache_typed c1 \<and> typed_result dim v"
    by (rule getOrFetch_typed[OF assms(1) g registry_typed_result[OF assms(2,3)]])
  show ?thesis
  proof (cases v)
    case (Inl e)
    with t g assms(2,3,5) show ?thesis by (auto simp: Resolve_def typed_result_def)
  next
    case (Inr p)
    with t have "payload_kind p = dim_Kind dim" by (simp add: typed_result_def)
    from resolve_payload_typed[OF this assms(4)] Inr t g assms(2,3,5) show ?thesis
      by (auto simp: Resolve_def)
  qed
qed

theorem Resolve_typed_witness:
  "cache_typed (fst (snd (Resolve wit_catalog 0 0 0 wit_pc wit_dim (PresetInput wit_preset_input) (newCache 0) 0)))
   \<and> fst (Resolve wit_catalog 0 0 0 wit_pc wit_dim (PresetInput wit_preset_input) (newCache 0) 0) \<noteq> Inl ErrInvalidInput"
proof -
  let ?r = "Resolve wit_catalog 0 0 0 wit_pc wit_dim (PresetInput wit_preset_input) (newCache 0) 0"
  obtain r c' w' where h: "?r = (r, c', w')" by (metis prod_cases3)
  have c: "cache_typed (newCache 0)" by (simp add: cache_typed_def newCache_def)
  have k: "dim_Kind wit_dim = DimensionPreset" by (simp add: wit_dim_def)
  show ?thesis using Resolve_typed[OF c wit_dim_registered _ _ h] by (simp add: h k)
qed

text \<open>
  The Kubernetes configurator families never mix: with a fresh cache, the configurator chosen for
  a cluster's control plane carries the master tag, the one chosen for a node group does not, and a
  requested location is the location of the chosen configurator.
\<close>

theorem Resolve_configurator_family:
  assumes "client w GetK8sConfigurators = (CatalogResp 200 (Some (K8sConfigurators l)), w1)"
    and "dim_Name dim = (if master then ''KubernetesMasterConfigurator'' else ''KubernetesWorkerConfigurator'')"
    and "Resolve client t1 t2 t3 pcRef dim (ConfiguratorInput inp) (newCache ttl) w = (Inr out, c', w')"
  shows "\<exists>cfg \<in> set l. isMaster cfg = master \<and> out = ConfiguratorOutput
      \<lparr>co_UpstreamID = float32_int (sc_id cfg), co_LockedSizing = ci_Sizing inp\<rparr> \<and>
    (\<forall>loc. (''location'', AStr loc) \<in> set (ci_Filters inp) \<longrightarrow> sc_location cfg = loc)"
proof -
  from Resolve_Inr[OF assms(3)] obtain def p where d: "map_of defaultRegistry (dim_Name dim) = Some def"
      "getOrFetch t1 t2 t3 (pcRef, dim) (def_fetch def client) (newCache ttl) w = (Inr p, c', w')"
      "resolve_payload dim p (ConfiguratorInput inp) = Inr out" by metis
  have df: "def_fetch def = fetchK8sConfiguratorsByRole master"
    using d(1) assms(2) by (cases master) (auto simp: defaultRegistry_def fetchK8sMasterConfigurators_def fetchK8sWorkerConfigurators_def)
  have "fst (store_result (pcRef, dim) t3 (fst (def_fetch def client w)) (newCache ttl)) = Inr p"
    using d(2) by (auto simp: getOrFetch_def cached_def newCache_def split: prod.splits)
  then have p: "p = ConfiguratorPayload (configuratorEntries (filter (\<lambda>cfg. isMaster cfg = master) l))"
    using assms(1) by (auto simp: df fetchK8sConfiguratorsByRole_def catalog_get_def store_result_def split: if_splits)
  with d(3) obtain co where sel: "SelectConfigurator inp (configuratorEntries (filter (\<lambda>cfg. isMaster cfg = master) l)) (dim_Name dim) = Inr co"
      and out: "out = ConfiguratorOutput co"
    by (auto simp: resolve_payload_def map_sum_def split: dimension_kind.splits sum.splits)
  from select_tightest[OF sel] obtain e where e: "e \<in> set (configuratorEntries (filter (\<lambda>cfg. isMaster cfg = master) l))"
      "offered inp e" "co_UpstreamID co = ce_UpstreamID e" "co_LockedSizing co = ci_Sizing inp" by blast
  from e(1) obtain cfg where cfg: "cfg \<in> set l" "isMaster cfg = master" "ce_UpstreamID e = float32_int (sc_id cfg)"
      "ce_Filters e = [(''location'', AStr (sc_location cfg)), (''disk_type'', AStr (sc_disk_type cfg)),
         (''is_allowed_local_network'', ABool (sc_is_allowed_local_network cfg)), (''cpu_frequency'', AStr (sc_cpu_frequency cfg))]"
    by (auto simp: configuratorEntries_def)
  have "sc_location cfg = loc" if "(''location'', AStr loc) \<in> set (ci_Filters inp)" for loc
    using e(2) that cfg(4) by (fastforce simp: offered_def eligible_def)
  moreover have "co = \<lparr>co_UpstreamID = float32_int (sc_id cfg), co_LockedSizing = ci_Sizing inp\<rparr>"
    using e(3,4) cfg(3) by (cases co) simp
  ultimately show ?thesis using cfg(1,2) out by blast
qed

definition wit_master_dim :: dimension where
  "wit_master_dim = \<lparr>dim_Name = ''KubernetesMasterConfigurator'', dim_Kind = DimensionConfigurator\<rparr>"

definition wit_master_input :: configurator_input where
  "wit_master_input = \<lparr>ci_Filters = [(''location'', AStr ''ru-1'')],
     ci_Sizing = [(''cpu'', 4), (''ramMB'', 8192), (''diskGB'', 40)], ci_RequireTags = []\<rparr>"

lemma wit_master_resolves:
  "fst (Resolve wit_catalog 0 0 0 wit_pc wit_master_dim (ConfiguratorInput wit_master_input) (newCache 0) 0)
     = Inr (ConfiguratorOutput \<lparr>co_UpstreamID = 57, co_LockedSizing = ci_Sizing wit_master_input\<rparr>)"
proof -
  let ?e = "\<lambda>n l. \<lparr>ce_UpstreamID = n, ce_Filters = [(''location'', AStr l), (''disk_type'', AStr ''nvme''),
       (''is_allowed_local_network'', ABool True), (''cpu_frequency'', AStr ''3.3'')],
     ce_Bounds = [(''cpu'', \<lparr>cb_Min = 2, cb_Step = 1, cb_Max = 8\<rparr>), (''ramMB'', \<lparr>cb_Min = 1024, cb_Step = 1024, cb_Max = 65536\<rparr>),
       (''diskGB'', \<lparr>cb_Min = 10, cb_Step = 10, cb_Max = 100\<rparr>), (''bandwidth'', \<lparr>cb_Min = 100, cb_Step = 100, cb_Max = 1000\<rparr>)],
     ce_Tags = [''k8s_master_configurator'']\<rparr>"
  let ?p = "ConfiguratorPayload [?e 57 ''ru-1'', ?e 58 ''nl-1'']"
  have d: "map_of defaultRegistry (dim_Name wit_master_dim)
      = Some \<lparr>def_kind = DimensionConfigurator, def_fetch = fetchK8sMasterConfigurators\<rparr>"
    by (simp add: wit_master_dim_def defaultRegistry_def)
  have f: "fst (fetchK8sMasterConfigurators wit_catalog 0) = Inr ?p"
    by (simp add: fetch_defs catalog_get_def wit_catalog_def configuratorEntries_def configurator_bounds_def
        bound_of_def float32_int_exact go_div_def isMaster_def k8sMasterConfiguratorTag_def)
  have "resolve_payload wit_master_dim ?p (ConfiguratorInput wit_master_input)
      = Inr (ConfiguratorOutput \<lparr>co_UpstreamID = 57, co_LockedSizing = ci_Sizing wit_master_input\<rparr>)"
    by code_simp
  with Resolve_newCache[OF d, of wit_catalog 0 ?p] f show ?thesis
    by (simp add: wit_master_dim_def isEmptySlice_def)
qed

theorem Resolve_configurator_family_witness:
  "fst (Resolve wit_catalog 0 0 0 wit_pc wit_master_dim (ConfiguratorInput wit_master_input) (newCache 0) 0)
     = Inr (ConfiguratorOutput \<lparr>co_UpstreamID = 57, co_LockedSizing = ci_Sizing wit_master_input\<rparr>)
   \<and> (\<exists>cfg. isMaster cfg \<and> float32_int (sc_id cfg) = 57 \<and> sc_location cfg = ''ru-1'')"
proof -
  let ?r = "Resolve wit_catalog 0 0 0 wit_pc wit_master_dim (ConfiguratorInput wit_master_input) (newCache 0) 0"
  obtain c' w' where h: "?r = (Inr (ConfiguratorOutput \<lparr>co_UpstreamID = 57, co_LockedSizing = ci_Sizing wit_master_input\<rparr>), c', w')"
    using wit_master_resolves by (cases ?r) auto
  obtain l where l: "wit_catalog 0 GetK8sConfigurators = (CatalogResp 200 (Some (K8sConfigurators l)), Suc 0)"
    by (simp add: wit_catalog_def)
  have d: "dim_Name wit_master_dim = (if True then ''KubernetesMasterConfigurator'' else ''KubernetesWorkerConfigurator'')"
    by (simp add: wit_master_dim_def)
  from Resolve_configurator_family[OF l d h] h show ?thesis by (auto simp: wit_master_input_def)
qed

end
