(* ===== verification/ResolverClient.thy ===== *)
theory ResolverClient
  imports Resolver ExternalClient
begin

text \<open>
  How the external clients use the \<^verbatim>\<open>resolver.Resolver\<close> interface: \<open>rslv\<close> is the interface value a handler
  holds, a parameter of the handlers that \<open>Resolve\<close> implements, and an error of the resolver becomes a
  condition of the resource before it is returned.
\<close>

type_synonym 'w resolver_iface = "pc_ref \<Rightarrow> dimension \<Rightarrow> resolve_input \<Rightarrow> 'w \<Rightarrow> (go_error + resolve_output) \<times> 'w"

definition run_resolver :: "'w resolver_iface \<Rightarrow> pc_ref \<Rightarrow> dimension \<Rightarrow> resolve_input \<Rightarrow> ('w, 'q, 's, 'o, resolve_output) act" where
  "run_resolver rslv pc dim inp = (\<lambda>s. case rslv pc dim inp (world s) of (r, w) \<Rightarrow> (r, s\<lparr>world := w\<rparr>))"

text \<open>A resolver error is mapped to a condition and returned.\<close>

definition map_resolver_error :: "('w, 'q, 's, 'o, 'a) act \<Rightarrow> ('w, 'q, 's, 'o, 'a) act" where
  "map_resolver_error m = bindE (attempt m) (\<lambda>r. case r of
     Inl err \<Rightarrow> bindE (record_and_set (MapResolverErrorToCondition err)) (\<lambda>_. throwError err)
   | Inr x \<Rightarrow> returnOk x)"

lemma emits_run_resolver [emits_rules]: "emits P (run_resolver rslv pc dim inp)"
  by (auto simp: emits_def run_resolver_def split: prod.splits)

lemma emits_map_resolver_error [emits_rules]: "emits P m \<Longrightarrow> emits P (map_resolver_error m)"
  unfolding map_resolver_error_def by (intro emits_rules)

lemma bindE_Inr: "bindE m f s = (Inr y, s') \<longleftrightarrow> (\<exists>x s1. m s = (Inr x, s1) \<and> f x s1 = (Inr y, s'))"
  by (auto simp: bindE_def split: prod.splits sum.splits)

lemma map_resolver_error_Inr: "map_resolver_error m s = (Inr x, s') \<longleftrightarrow> m s = (Inr x, s')"
  unfolding map_resolver_error_def attempt_def bindE_def returnOk_def throwError_def
  by (auto split: prod.splits sum.splits simp: record_and_set_run)

lemma if_apply: "(if b then f else g) x = (if b then f x else g x)"
  by simp

end
