(* ===== verification/Budget.thy ===== *)
theory Budget
  imports ExternalClient
begin

text \<open>
  Counting the requests of a handler, and the discipline of the paced handlers: a pass threads a
  counter \<^verbatim>\<open>ops\<close>, checks it against a cap before each mutation, and returns early (\<open>None\<close>) when the
  cap is reached. The second part watches a run: \<open>monitor\<close> records whether every request was allowed in
  the world it was issued in.
\<close>

section \<open>Counting\<close>

definition counts :: "('q \<Rightarrow> bool) \<Rightarrow> nat \<Rightarrow> ('w, 'q, 's, 'o, 'a) act \<Rightarrow> bool" where
  "counts P k m \<longleftrightarrow> (\<forall>s r s'. m s = (r, s') \<longrightarrow> (\<exists>qs. reqs s' = reqs s @ qs \<and> length (filter P qs) \<le> k))"

lemma counts_emits: "emits (\<lambda>q. \<not> P q) m \<Longrightarrow> counts P k m"
  unfolding emits_def counts_def by (metis filter_False le0 length_0_conv list_all_iff)

lemma counts_mono: "counts P k m \<Longrightarrow> k \<le> l \<Longrightarrow> counts P l m"
  unfolding counts_def by (meson le_trans)

lemma counts_bindE:
  assumes m: "counts P k m" and f: "\<And>x. counts P l (f x)"
  shows "counts P (k + l) (bindE m f)"
  unfolding counts_def
proof (intro allI impI)
  fix s r s' assume run: "bindE m f s = (r, s')"
  obtain r1 s1 where m1: "m s = (r1, s1)" by (cases "m s")
  with m obtain qs1 where qs1: "reqs s1 = reqs s @ qs1" "length (filter P qs1) \<le> k" unfolding counts_def by blast
  show "\<exists>qs. reqs s' = reqs s @ qs \<and> length (filter P qs) \<le> k + l"
  proof (cases r1)
    case (Inl e)
    with run m1 qs1 show ?thesis by (auto simp: bindE_def intro: trans_le_add1)
  next
    case (Inr x)
    with run m1 have "f x s1 = (r, s')" by (simp add: bindE_def)
    with f obtain qs2 where "reqs s' = reqs s1 @ qs2" "length (filter P qs2) \<le> l" unfolding counts_def by blast
    with qs1 show ?thesis by (intro exI[of _ "qs1 @ qs2"]) simp
  qed
qed

lemma counts_read_bind: "emits (\<lambda>q. \<not> P q) m \<Longrightarrow> (\<And>x. counts P k (f x)) \<Longrightarrow> counts P k (bindE m f)"
  using counts_bindE[of P 0 m k f, OF counts_emits] by simp

lemma counts_bind_quiet: "counts P k m \<Longrightarrow> (\<And>x. emits (\<lambda>q. \<not> P q) (f x)) \<Longrightarrow> counts P k (bindE m f)"
  using counts_bindE[of P k m 0 f, OF _ counts_emits] by simp

lemma counts_write: "counts P 1 (write_call api q)"
  unfolding counts_def by (auto simp: write_call_def bindE_def call_classify_run split: sum.splits prod.splits)

lemma counts_attempt: "counts P k m \<Longrightarrow> counts P k (attempt m)"
  unfolding counts_def attempt_def by (fastforce split: prod.splits)

lemma counts_cases:
  "(b \<Longrightarrow> counts P k m) \<Longrightarrow> (\<not> b \<Longrightarrow> counts P k n) \<Longrightarrow> counts P k (if b then m else n)"
  "(\<And>y. x = Inl y \<Longrightarrow> counts P k (f y)) \<Longrightarrow> (\<And>y. x = Inr y \<Longrightarrow> counts P k (g y)) \<Longrightarrow>
   counts P k (case x of Inl y \<Rightarrow> f y | Inr y \<Rightarrow> g y)"
  "(\<And>a b. z = (a, b) \<Longrightarrow> counts P k (h a b)) \<Longrightarrow> counts P k (case z of (a, b) \<Rightarrow> h a b)"
  by (auto split: sum.split prod.split)

text \<open>A write leaves a trace, whatever the answer.\<close>

lemma write_call_as_reqs: "write_call_as msg api q s = (r, s') \<Longrightarrow> reqs s' = reqs s @ [q]"
  by (auto simp: write_call_as_def call_classify_as_def bindE_def call_def returnOk_def throwError_def
      split: prod.splits sum.splits http_result.splits option.splits)

lemma write_call_reqs: "write_call api q s = (r, s') \<Longrightarrow> reqs s' = reqs s @ [q]"
  by (auto simp: write_call_def bindE_def call_classify_run returnOk_def split: sum.splits)

section \<open>Passes within a budget\<close>

definition within :: "('q \<Rightarrow> bool) \<Rightarrow> nat \<Rightarrow> nat \<Rightarrow> ('w, 'q, 's, 'o, nat option) act \<Rightarrow> bool" where
  "within P cap ops m \<longleftrightarrow> (\<forall>s r s'. m s = (r, s') \<longrightarrow> (\<exists>qs. reqs s' = reqs s @ qs \<and>
     (case r of Inr (Some ops') \<Rightarrow> ops + length (filter P qs) \<le> ops' \<and> (ops \<le> cap \<longrightarrow> ops' \<le> cap)
      | _ \<Rightarrow> ops \<le> cap \<longrightarrow> ops + length (filter P qs) \<le> cap)))"

definition paced :: "nat \<Rightarrow> nat \<Rightarrow> ('w, 'q, 's, 'o, nat option) act \<Rightarrow> ('w, 'q, 's, 'o, nat option) act" where
  "paced cap ops m = (if ops \<ge> cap then returnOk None else m)"

definition and_then :: "('w, 'q, 's, 'o, nat option) act \<Rightarrow> (nat \<Rightarrow> ('w, 'q, 's, 'o, nat option) act) \<Rightarrow>
    ('w, 'q, 's, 'o, nat option) act" where
  "and_then m f = bindE m (\<lambda>x. case x of None \<Rightarrow> returnOk None | Some ops \<Rightarrow> f ops)"

lemma emits_paced [emits_rules]: "emits P m \<Longrightarrow> emits P (paced cap ops m)"
  by (simp add: paced_def)

lemma emits_and_then [emits_rules]: "emits P m \<Longrightarrow> (\<And>ops. emits P (f ops)) \<Longrightarrow> emits P (and_then m f)"
  unfolding and_then_def by (intro emits_rules)

lemma within_returnOk [simp]: "within P cap ops (returnOk None)" "within P cap ops (returnOk (Some ops))"
  by (auto simp: within_def)

lemma within_returnOk_ge:
  "ops \<le> ops' \<Longrightarrow> (ops \<le> cap \<Longrightarrow> ops' \<le> cap) \<Longrightarrow> within P cap ops (returnOk (Some ops'))"
  by (auto simp: within_def)

lemma within_paced: "(ops < cap \<Longrightarrow> within P cap ops m) \<Longrightarrow> within P cap ops (paced cap ops m)"
  by (simp add: paced_def)

lemma within_read:
  assumes "emits (\<lambda>q. \<not> P q) m" and "\<And>x. within P cap ops (f x)"
  shows "within P cap ops (bindE m f)"
  unfolding within_def
proof (intro allI impI)
  fix s r s' assume run: "bindE m f s = (r, s')"
  obtain r1 s1 where m1: "m s = (r1, s1)" by (cases "m s")
  from emitsD[OF assms(1) m1] obtain qs1 where qs1: "reqs s1 = reqs s @ qs1" "filter P qs1 = []"
    by (auto simp: list_all_iff)
  show "\<exists>qs. reqs s' = reqs s @ qs \<and> (case r of Inr (Some ops') \<Rightarrow> ops + length (filter P qs) \<le> ops' \<and> (ops \<le> cap \<longrightarrow> ops' \<le> cap)
      | _ \<Rightarrow> ops \<le> cap \<longrightarrow> ops + length (filter P qs) \<le> cap)"
  proof (cases r1)
    case (Inl e)
    with run m1 qs1 show ?thesis by (auto simp: bindE_def)
  next
    case (Inr x)
    with run m1 have "f x s1 = (r, s')" by (simp add: bindE_def)
    with assms(2)[of x] obtain qs2 where "reqs s' = reqs s1 @ qs2"
        "case r of Inr (Some ops') \<Rightarrow> ops + length (filter P qs2) \<le> ops' \<and> (ops \<le> cap \<longrightarrow> ops' \<le> cap)
          | _ \<Rightarrow> ops \<le> cap \<longrightarrow> ops + length (filter P qs2) \<le> cap" unfolding within_def by blast
    with qs1 show ?thesis by (intro exI[of _ "qs1 @ qs2"]) (auto split: sum.splits option.splits)
  qed
qed

text \<open>A step that issues at most one counted request, behind a budget check, and then counts it.\<close>

lemma within_step:
  assumes "ops < cap" "counts P 1 m" "\<And>x. within P cap (ops + 1) (f x)"
  shows "within P cap ops (bindE m f)"
  unfolding within_def
proof (intro allI impI)
  fix s r s' assume run: "bindE m f s = (r, s')"
  obtain r1 s1 where m1: "m s = (r1, s1)" by (cases "m s")
  with assms(2) obtain qs1 where qs1: "reqs s1 = reqs s @ qs1" "length (filter P qs1) \<le> 1" unfolding counts_def by blast
  show "\<exists>qs. reqs s' = reqs s @ qs \<and> (case r of Inr (Some ops') \<Rightarrow> ops + length (filter P qs) \<le> ops' \<and> (ops \<le> cap \<longrightarrow> ops' \<le> cap)
      | _ \<Rightarrow> ops \<le> cap \<longrightarrow> ops + length (filter P qs) \<le> cap)"
  proof (cases r1)
    case (Inl e)
    with run m1 qs1 assms(1) show ?thesis by (auto simp: bindE_def)
  next
    case (Inr x)
    with run m1 have "f x s1 = (r, s')" by (simp add: bindE_def)
    with assms(3)[of x] obtain qs2 where "reqs s' = reqs s1 @ qs2"
        "case r of Inr (Some ops') \<Rightarrow> ops + 1 + length (filter P qs2) \<le> ops' \<and> (ops + 1 \<le> cap \<longrightarrow> ops' \<le> cap)
          | _ \<Rightarrow> ops + 1 \<le> cap \<longrightarrow> ops + 1 + length (filter P qs2) \<le> cap" unfolding within_def by blast
    with qs1 assms(1) show ?thesis
      by (intro exI[of _ "qs1 @ qs2"]) (auto split: sum.splits option.splits)
  qed
qed

lemma within_and_then:
  assumes m: "within P cap ops m" and f: "\<And>ops'. within P cap ops' (f ops')"
  shows "within P cap ops (and_then m f)"
  unfolding within_def
proof (intro allI impI)
  fix s r s' assume run: "and_then m f s = (r, s')"
  obtain r1 s1 where m1: "m s = (r1, s1)" by (cases "m s")
  from m m1 obtain qs1 where qs1: "reqs s1 = reqs s @ qs1"
    "case r1 of Inr (Some ops') \<Rightarrow> ops + length (filter P qs1) \<le> ops' \<and> (ops \<le> cap \<longrightarrow> ops' \<le> cap)
      | _ \<Rightarrow> ops \<le> cap \<longrightarrow> ops + length (filter P qs1) \<le> cap" unfolding within_def by blast
  show "\<exists>qs. reqs s' = reqs s @ qs \<and> (case r of Inr (Some ops') \<Rightarrow> ops + length (filter P qs) \<le> ops' \<and> (ops \<le> cap \<longrightarrow> ops' \<le> cap)
      | _ \<Rightarrow> ops \<le> cap \<longrightarrow> ops + length (filter P qs) \<le> cap)"
  proof (cases "\<exists>ops1. r1 = Inr (Some ops1)")
    case True
    then obtain ops1 where r1: "r1 = Inr (Some ops1)" by blast
    with run m1 have "f ops1 s1 = (r, s')" by (simp add: and_then_def bindE_def)
    with f[of ops1] obtain qs2 where "reqs s' = reqs s1 @ qs2"
        "case r of Inr (Some ops') \<Rightarrow> ops1 + length (filter P qs2) \<le> ops' \<and> (ops1 \<le> cap \<longrightarrow> ops' \<le> cap)
          | _ \<Rightarrow> ops1 \<le> cap \<longrightarrow> ops1 + length (filter P qs2) \<le> cap" unfolding within_def by blast
    with qs1 r1 show ?thesis
      by (intro exI[of _ "qs1 @ qs2"]) (auto split: sum.splits option.splits)
  next
    case False
    with run m1 have "r = r1 \<and> s' = s1" by (auto simp: and_then_def bindE_def split: sum.splits option.splits)
    with qs1 show ?thesis by auto
  qed
qed

text \<open>What a whole pass may issue.\<close>

lemma within_total:
  assumes "within P cap 0 m"
  shows "counts P cap m"
  using assms unfolding within_def counts_def
  by (fastforce split: sum.splits option.splits)

section \<open>Watching a run\<close>

definition monitor :: "('w \<Rightarrow> 'q \<Rightarrow> bool) \<Rightarrow> ('w, 'q, 'p) api \<Rightarrow> ('w \<times> bool, 'q, 'p) api" where
  "monitor ok api wb q = (case api (fst wb) q of (r, w) \<Rightarrow> (r, (w, snd wb \<and> ok (fst wb) q)))"

text \<open>A handler over a monitored service that never makes a disallowed request.\<close>

definition safe :: "('w \<times> bool, 'q, 's, 'o, 'a) act \<Rightarrow> bool" where
  "safe m \<longleftrightarrow> (\<forall>s r s'. m s = (r, s') \<longrightarrow> snd (world s) \<longrightarrow> snd (world s'))"

lemma safe_bindE:
  assumes "safe m" "\<And>s x s'. m s = (Inr x, s') \<Longrightarrow> safe (f x)"
  shows "safe (bindE m f)"
  using assms unfolding safe_def bindE_def by (fastforce split: prod.splits sum.splits)

lemma safe_simple [simp]:
  "safe (returnOk x)" "safe (throwError e)" "safe (gets f)" "safe (modify_cr g)" "safe (emit_event t r)" "safe (lift_sum z)"
  "safe (record_and_set c)"
  by (auto simp: safe_def modify_cr_def emit_event_def lift_sum_def)

lemma safe_attempt: "safe m \<Longrightarrow> safe (attempt m)"
  by (auto simp: safe_def attempt_def split: prod.splits)

lemma safe_call_classify: "(\<And>w. ok w q) \<Longrightarrow> safe (call_classify (monitor ok api) q)"
  by (auto simp: safe_def call_classify_run monitor_def split: prod.splits)

lemma safe_decode [simp]: "safe (decode pfx sel resp)"
  by (auto simp: decode_def split: option.split)

lemma safe_fetch: "(\<And>w. ok w q) \<Longrightarrow> safe (fetch (monitor ok api) pfx sel q)"
  unfolding fetch_def by (intro safe_bindE safe_call_classify safe_decode)

lemma safe_write: "(\<And>w. ok w q) \<Longrightarrow> safe (write_call (monitor ok api) q)"
  unfolding write_call_def by (intro safe_bindE safe_call_classify) simp_all

text \<open>A write that is allowed in the current world.\<close>

lemma safe_write_at:
  "write_call (monitor ok api) q s = (r, s') \<Longrightarrow> ok (fst (world s)) q \<Longrightarrow> snd (world s) \<Longrightarrow> snd (world s')"
  by (auto simp: write_call_def bindE_def call_classify_run monitor_def split: prod.splits sum.splits)

lemma safe_cases:
  "(b \<Longrightarrow> safe m) \<Longrightarrow> (\<not> b \<Longrightarrow> safe n) \<Longrightarrow> safe (if b then m else n)"
  "(x = None \<Longrightarrow> safe m) \<Longrightarrow> (\<And>y. x = Some y \<Longrightarrow> safe (f y)) \<Longrightarrow> safe (case x of None \<Rightarrow> m | Some y \<Rightarrow> f y)"
  "(\<And>y. z = Inl y \<Longrightarrow> safe (g y)) \<Longrightarrow> (\<And>y. z = Inr y \<Longrightarrow> safe (h y)) \<Longrightarrow> safe (case z of Inl y \<Rightarrow> g y | Inr y \<Rightarrow> h y)"
  "(\<And>a b. p = (a, b) \<Longrightarrow> safe (k a b)) \<Longrightarrow> safe (case p of (a, b) \<Rightarrow> k a b)"
  by (auto split: option.split sum.split prod.split)

lemma safe_paced: "safe m \<Longrightarrow> safe (paced cap ops m)"
  by (simp add: paced_def)

lemma safe_and_then: "safe m \<Longrightarrow> (\<And>ops. safe (f ops)) \<Longrightarrow> safe (and_then m f)"
  unfolding and_then_def by (intro safe_bindE safe_cases) simp_all

end
