(* ===== verification/RouterExternal.thy ===== *)
theory RouterExternal
  imports RouterRefs ResolverClient Budget
begin

text \<open>
  The Router kind: \<^verbatim>\<open>internal/controller/network/router_external.go\<close>. The struct \<^verbatim>\<open>routerExternal\<close> is
  \<open>router_ext\<close>: the references resolved at Connect time. \<open>api\<close> stands for the generated client and the
  service, \<open>rslv\<close> for the \<^verbatim>\<open>resolver.Resolver\<close> interface, which \<open>Resolve\<close> implements.

  The loops of \<^verbatim>\<open>Update\<close> are recursive functions that return the new value of \<^verbatim>\<open>ops\<close>, or \<open>None\<close> where the
  source returns early because the mutation budget is used up (\<open>paced\<close>, \<open>and_then\<close>).
\<close>

section \<open>Data\<close>

record router_ip =
  rip_Ip :: string
  rip_Nat :: "string option"

record router_out =
  rt_Id :: string
  rt_Name :: string
  rt_Comment :: "string option"
  rt_Status :: string
  rt_Zone :: string
  rt_PresetId :: int
  rt_ProjectId :: "int option"
  rt_Ips :: "router_ip list"
  rt_ParentServices :: "(int \<times> string) list"

record network_out =
  nw_Id :: string
  nw_Name :: string
  nw_Gateway :: "string option"
  nw_NatIp :: "string option"
  nw_DhcpEnabled :: bool
  nw_ReservedIps :: "string list"

record static_route_out =
  sro_Id :: string
  sro_Subnet :: string
  sro_Nexthop :: string

record network_in =
  ni_Id :: string
  ni_Gateway :: "string option"
  ni_ReservedIps :: "string list option"

record router_in =
  rin_Name :: string
  rin_PresetId :: int
  rin_Comment :: "string option"
  rin_Networks :: "network_in list"
  rin_Ips :: "string list option"
  rin_ProjectId :: "int option"

datatype router_req =
    GetRouter string | GetNetworks string | GetRouters | GetStaticRoutes string | GetFloatingIps | GetDnat string
  | CreateRouter router_in
  | UpdateRouter string "string option" "string option"
  | AddNetworks string "network_in list"
  | DeleteRouterNetwork string string
  | PatchNetwork string string bool
  | UpdateRouterNat string string string
  | DeleteRouterNat string string
  | DeleteStaticRoute string string
  | PostStaticRoute string string string
  | DeleteRouter string
  | BindFloatingIp string string
  | UnbindFloatingIp string

datatype router_payload =
    PRouter router_out | PRouters "router_out list" | PNetworks "network_out list"
  | PRoutes "static_route_out list" | PFips "floating_ip list" | PDnat "string list"

fun as_router :: "router_payload \<Rightarrow> router_out option" where
  "as_router (PRouter r) = Some r" | "as_router _ = None"
fun as_routers :: "router_payload \<Rightarrow> router_out list option" where
  "as_routers (PRouters r) = Some r" | "as_routers _ = None"
fun as_networks :: "router_payload \<Rightarrow> network_out list option" where
  "as_networks (PNetworks r) = Some r" | "as_networks _ = None"
fun as_routes :: "router_payload \<Rightarrow> static_route_out list option" where
  "as_routes (PRoutes r) = Some r" | "as_routes _ = None"
fun as_fips :: "router_payload \<Rightarrow> floating_ip list option" where
  "as_fips (PFips r) = Some r" | "as_fips _ = None"
text \<open>Of a DNAT rule only the public address is read.\<close>

fun as_dnat :: "router_payload \<Rightarrow> string list option" where
  "as_dnat (PDnat r) = Some r" | "as_dnat _ = None"

record router_ext =
  re_pcRef :: pc_ref
  re_resolvedNetworks :: "resolved_attachment list"
  re_resolvedProjectID :: "int option"
  re_resolvedRoutes :: "resolved_route list"

type_synonym ('w, 'l, 'a) router_act = "('w, router_req, 'l router_parameters, router_observation, 'a) act"
type_synonym 'w router_api = "('w, router_req, router_payload) api"

definition maxRouterMutationsPerReconcile :: nat where
  "maxRouterMutationsPerReconcile = 8"

section \<open>Reads\<close>

definition getRouter :: "'w router_api \<Rightarrow> string \<Rightarrow> ('w, 'l, router_out \<times> network_out list) router_act" where
  "getRouter api n =
     bindE (fetch api ''network/router'' as_router (GetRouter n)) (\<lambda>r.
     bindE (fetch api ''network/router'' as_networks (GetNetworks n)) (\<lambda>nets.
     returnOk (r, nets)))"

definition getStaticRoutes :: "'w router_api \<Rightarrow> string \<Rightarrow> ('w, 'l, static_route_out list) router_act" where
  "getStaticRoutes api n = fetch api ''network/router: static-routes'' as_routes (GetStaticRoutes n)"

definition getDnatRules :: "'w router_api \<Rightarrow> string \<Rightarrow> ('w, 'l, string list) router_act" where
  "getDnatRules api n = fetch api ''network/router: dnat-rules'' as_dnat (GetDnat n)"

definition findRoutersByName :: "'w router_api \<Rightarrow> string \<Rightarrow> ('w, 'l, router_out list) router_act" where
  "findRoutersByName api name =
     bindE (fetch api ''network/router: list routers'' as_routers GetRouters) (\<lambda>rs.
     returnOk (filter (\<lambda>r. rt_Name r = name) rs))"

datatype natIPState = natIPFree | natIPBoundToRouter | natIPBoundElsewhere | natIPMissing

definition resource_id_text :: "resource_id option \<Rightarrow> string" where
  "resource_id_text rid = (case rid of None \<Rightarrow> []
     | Some r \<Rightarrow> (case AsFloatingIpResourceId1 r of
         Some s \<Rightarrow> if s \<noteq> [] then s else []
       | None \<Rightarrow> (case AsFloatingIpResourceId0 r of Some n \<Rightarrow> Itoa n | None \<Rightarrow> [])))"

text \<open>The loop of \<^verbatim>\<open>natIPBindability\<close> over the listed addresses.\<close>

fun nat_ip_state :: "string \<Rightarrow> string \<Rightarrow> floating_ip list \<Rightarrow> string \<times> natIPState" where
  "nat_ip_state routerID addr [] = ([], natIPMissing)"
| "nat_ip_state routerID addr (f # fs) =
     (if DerefString (ip_Ip f) \<noteq> addr then nat_ip_state routerID addr fs
      else (case ip_ResourceType f of
              None \<Rightarrow> (ip_Id f, natIPFree)
            | Some rtype \<Rightarrow>
                if rtype = ''router'' \<and> resource_id_text (ip_ResourceId f) = routerID
                then (ip_Id f, natIPBoundToRouter)
                else (ip_Id f, natIPBoundElsewhere)))"

definition natIPBindability :: "'w router_api \<Rightarrow> string \<Rightarrow> string \<Rightarrow> ('w, 'l, string \<times> natIPState) router_act" where
  "natIPBindability api routerID addr =
     bindE (fetch api ''network/router: floating-ips list'' as_fips GetFloatingIps) (\<lambda>fs.
     returnOk (nat_ip_state routerID addr fs))"

text \<open>\<^verbatim>\<open>routerOwnedIPs\<close> and the maps from network id to the observed network (the last one wins).\<close>

definition routerOwnedIPs :: "router_out \<Rightarrow> string set" where
  "routerOwnedIPs r = set (map rip_Ip (rt_Ips r))"

definition observed_map :: "network_out list \<Rightarrow> string \<rightharpoonup> network_out" where
  "observed_map nets = map_of (rev (map (\<lambda>n. (nw_Id n, n)) nets))"

text \<open>The network ids whose declared NAT address is neither owned nor bindable.\<close>

fun blockedNATRows :: "'w router_api \<Rightarrow> router_out \<Rightarrow> network_out list \<Rightarrow> resolved_attachment list \<Rightarrow> ('w, 'l, string list) router_act" where
  "blockedNATRows api r nets [] = returnOk []"
| "blockedNATRows api r nets (a # as) = (case observed_map nets (ra_NetworkID a) of
     None \<Rightarrow> blockedNATRows api r nets as
   | Some n \<Rightarrow>
       if ra_NATIP a = [] \<or> ra_NATIP a \<in> routerOwnedIPs r \<or> ra_NATIP a = DerefString (nw_NatIp n)
       then blockedNATRows api r nets as
       else bindE (natIPBindability api (rt_Id r) (ra_NATIP a)) (\<lambda>(_, state).
            bindE (blockedNATRows api r nets as) (\<lambda>bs.
            returnOk (if state = natIPBoundElsewhere \<or> state = natIPMissing then ra_NetworkID a # bs else bs))))"

definition router_dim :: dimension where
  "router_dim = \<lparr>dim_Name = ''RouterPreset'', dim_Kind = DimensionPreset\<rparr>"

definition resolveTier :: "'w resolver_iface \<Rightarrow> pc_ref \<Rightarrow> string \<Rightarrow> string \<Rightarrow> ('w, 'l, int) router_act" where
  "resolveTier rslv pc slug resolvedZone = (case AZToLocation resolvedZone of
     Inl e \<Rightarrow> throwError (Wrap ''network/router'' e)
   | Inr location \<Rightarrow>
       bindE (run_resolver rslv pc router_dim (PresetInput \<lparr>pi_Slug = slug, pi_Zone = location, pi_Location = location\<rparr>)) (\<lambda>out.
       case out of PresetOutput n \<Rightarrow> returnOk n | _ \<Rightarrow> throwError (Errorf ''network/router: resolver returned a wrong type'')))"

definition blockNoNetworks :: "('w, 'l, 'a) router_act" where
  "blockNoNetworks = bindE (record_and_set (SyncedFalse ''NoNetworksResolved'')) (\<lambda>_.
     throwError (Errorf ''network/router: no networks resolved''))"

section \<open>Status and comparison\<close>

definition populateRouterStatus :: "router_out \<Rightarrow> network_out list \<Rightarrow> 'l router_mr \<Rightarrow> 'l router_mr" where
  "populateRouterStatus r nets m = m\<lparr>at_provider := (at_provider m)\<lparr>
     ro_UpstreamID := Some (rt_Id r), ro_State := Some (rt_Status r),
     ro_LockedPresetID := (if rt_PresetId r \<noteq> 0 then Some (rt_PresetId r) else ro_LockedPresetID (at_provider m)),
     ro_ResolvedProjectID := (case rt_ProjectId r of None \<Rightarrow> ro_ResolvedProjectID (at_provider m)
        | Some p \<Rightarrow> if p \<noteq> 0 then Some p else ro_ResolvedProjectID (at_provider m)),
     ro_Networks := map (\<lambda>n. \<lparr>rns_ID = nw_Id n, rns_Name = Some (nw_Name n), rns_Gateway = nw_Gateway n,
        rns_NATIP = nw_NatIp n, rns_DHCPEnabled = Some (nw_DhcpEnabled n), rns_ReservedIPs = nw_ReservedIps n\<rparr>) nets,
     ro_IPs := map (\<lambda>ip. (rip_Ip ip, case rip_Nat ip of None \<Rightarrow> None | Some x \<Rightarrow> if x \<noteq> [] then Some x else None)) (rt_Ips r),
     ro_ParentServices := map (\<lambda>(n, t). \<lparr>ps_ID = Itoa n, ps_Type = t\<rparr>) (rt_ParentServices r)\<rparr>\<rparr>"

definition router_ready_condition :: "string \<Rightarrow> condition" where
  "router_ready_condition state = (let s = ToLower state in
     if s = ''no_paid'' then ReadyFalse ''PaymentRequired''
     else if Contains s ''started'' \<or> Contains s ''active'' \<or> Contains s ''running'' then Available
     else if Contains s ''error'' \<or> Contains s ''fail'' then ReadyFalse ''UpstreamFailed''
     else Creating)"

definition setRouterReadyCondition :: "string \<Rightarrow> ('w, 'l, unit) router_act" where
  "setRouterReadyCondition state = record_and_set (router_ready_condition state)"

definition staticRoutesUpToDate :: "resolved_route list \<Rightarrow> static_route_out list \<Rightarrow> bool" where
  "staticRoutesUpToDate declared observed \<longleftrightarrow>
     (if length declared \<noteq> length observed then False
      else list_all (\<lambda>d. map_of (rev (map (\<lambda>r. (sro_Subnet r, sro_Nexthop r)) observed)) (rr_Subnet d) = Some (rr_Nexthop d)) declared)"

definition attachment_current :: "string list \<Rightarrow> network_out list \<Rightarrow> resolved_attachment \<Rightarrow> bool" where
  "attachment_current natBlocked nets a = (case observed_map nets (ra_NetworkID a) of
     None \<Rightarrow> False
   | Some n \<Rightarrow> if nw_DhcpEnabled n \<noteq> ra_DHCP a then False
       else ra_NATIP a = DerefString (nw_NatIp n) \<or> ra_NetworkID a \<in> set natBlocked)"

definition isRouterUpToDate :: "'w resolver_iface \<Rightarrow> router_ext \<Rightarrow> router_out \<Rightarrow> network_out list \<Rightarrow> string list \<Rightarrow>
    ('w, 'l, bool) router_act" where
  "isRouterUpToDate rslv e r nets natBlocked =
     bindE (gets (\<lambda>m. m)) (\<lambda>m. let fp = for_provider m in
     if rp_Name fp \<noteq> rt_Name r then returnOk False
     else if DerefString (rp_Comment fp) \<noteq> DerefString (rt_Comment r) then returnOk False
     else if length (re_resolvedNetworks e) \<noteq> length nets then returnOk False
     else if \<not> list_all (attachment_current natBlocked nets) (re_resolvedNetworks e) then returnOk False
     else (case ResolvePlacement (rp_Location fp) (rp_AvailabilityZone fp) of
             Inl err \<Rightarrow> throwError (Wrap ''network/router'' err)
           | Inr (_, zone) \<Rightarrow>
               bindE (resolveTier rslv (re_pcRef e) (rp_PresetName fp) zone) (\<lambda>tierID.
               returnOk (case ro_LockedPresetID (at_provider m) of None \<Rightarrow> True | Some lp \<Rightarrow> lp = tierID))))"

section \<open>\<^verbatim>\<open>Observe\<close>\<close>

definition observe_routes :: "'w router_api \<Rightarrow> 'w resolver_iface \<Rightarrow> router_ext \<Rightarrow> string \<Rightarrow> router_out \<Rightarrow> network_out list \<Rightarrow> string list \<Rightarrow>
    ('w, 'l, observation) router_act" where
  "observe_routes api rslv e n r nets blocked =
     bindE (getStaticRoutes api n) (\<lambda>routes.
     bindE (modify_cr (\<lambda>m. m\<lparr>at_provider := (at_provider m)\<lparr>ro_StaticRoutes :=
        map (\<lambda>x. \<lparr>srs_ID = sro_Id x, srs_Subnet = sro_Subnet x, srs_Nexthop = sro_Nexthop x\<rparr>) routes\<rparr>\<rparr>)) (\<lambda>_.
     bindE (map_resolver_error (isRouterUpToDate rslv e r nets blocked)) (\<lambda>upToDate.
     returnOk (present (upToDate \<and> staticRoutesUpToDate (re_resolvedRoutes e) routes)))))"

definition observe_router :: "'w router_api \<Rightarrow> 'w resolver_iface \<Rightarrow> router_ext \<Rightarrow> string \<Rightarrow> router_out \<Rightarrow> network_out list \<Rightarrow>
    ('w, 'l, observation) router_act" where
  "observe_router api rslv e n r nets =
     bindE (modify_cr (populateRouterStatus r nets)) (\<lambda>_.
     bindE (gets for_provider) (\<lambda>fp.
     case ResolvePlacement (rp_Location fp) (rp_AvailabilityZone fp) of
       Inl err \<Rightarrow> bindE (record_and_set (ReadyFalse ''UpstreamFailed'')) (\<lambda>_. returnOk (present True))
     | Inr (_, resolvedZone) \<Rightarrow>
         if rt_Zone r \<noteq> [] \<and> rt_Zone r \<noteq> resolvedZone
         then bindE (record_and_set (ReadyFalse ''UpstreamFailed'')) (\<lambda>_. returnOk (present True))
         else
           bindE (setRouterReadyCondition (rt_Status r)) (\<lambda>_.
           if EqualFold (rt_Status r) ''starting'' then returnOk (present True)
           else
             bindE (blockedNATRows api r nets (re_resolvedNetworks e)) (\<lambda>blocked.
             bindE (if blocked \<noteq> [] then record_and_set (ReadyFalse ''NATIPUnavailable'') else returnOk ()) (\<lambda>_.
             observe_routes api rslv e n r nets blocked)))))"

definition router_Observe :: "'w router_api \<Rightarrow> 'w resolver_iface \<Rightarrow> router_ext \<Rightarrow> ('w, 'l, observation) router_act" where
  "router_Observe api rslv e =
     bindE (gets external_name) (\<lambda>n.
     if n = [] then returnOk absent
     else bindE (attempt (getRouter api n)) (on_not_found (returnOk absent) (\<lambda>(r, nets).
       observe_router api rslv e n r nets)))"

section \<open>\<^verbatim>\<open>Create\<close>\<close>

definition network_in_of :: "resolved_attachment \<Rightarrow> network_in" where
  "network_in_of a = \<lparr>ni_Id = ra_NetworkID a, ni_Gateway = ra_Gateway a,
     ni_ReservedIps = (if ra_ReservedIPs a \<noteq> [] then Some (ra_ReservedIPs a) else None)\<rparr>"

fun dedup_ips :: "string set \<Rightarrow> resolved_attachment list \<Rightarrow> string list" where
  "dedup_ips seen [] = []"
| "dedup_ips seen (a # as) =
     (if ra_NATIP a \<noteq> [] \<and> ra_NATIP a \<notin> seen then ra_NATIP a # dedup_ips (insert (ra_NATIP a) seen) as
      else dedup_ips seen as)"

definition buildCreateRouterBody :: "'l router_parameters \<Rightarrow> int \<Rightarrow> resolved_attachment list \<Rightarrow> int option \<Rightarrow> router_in" where
  "buildCreateRouterBody fp tierID atts projectID = (let ips = dedup_ips {} atts in
     \<lparr>rin_Name = rp_Name fp, rin_PresetId = tierID, rin_Comment = rp_Comment fp, rin_Networks = map network_in_of atts,
      rin_Ips = (if ips \<noteq> [] then Some ips else None), rin_ProjectId = projectID\<rparr>)"

definition post_router :: "'w router_api \<Rightarrow> 'w resolver_iface \<Rightarrow> router_ext \<Rightarrow> ('w, 'l, unit) router_act" where
  "post_router api rslv e =
     (if re_resolvedNetworks e = [] then blockNoNetworks
      else bindE (gets for_provider) (\<lambda>fp.
        case ResolvePlacement (rp_Location fp) (rp_AvailabilityZone fp) of
          Inl err \<Rightarrow> throwError (Wrap ''network/router'' err)
        | Inr (_, zone) \<Rightarrow>
            bindE (map_resolver_error (resolveTier rslv (re_pcRef e) (rp_PresetName fp) zone)) (\<lambda>tierID.
            bindE (fetch api ''network/router'' as_router
              (CreateRouter (buildCreateRouterBody fp tierID (re_resolvedNetworks e) (re_resolvedProjectID e)))) (\<lambda>r.
            bindE (modify_cr (\<lambda>m. m\<lparr>external_name := rt_Id r\<rparr>)) (\<lambda>_.
            record_and_set Creating)))))"

definition router_Create :: "'w router_api \<Rightarrow> 'w resolver_iface \<Rightarrow> router_ext \<Rightarrow> ('w, 'l, unit) router_act" where
  "router_Create api rslv e =
     bindE (gets (\<lambda>m. m)) (\<lambda>m.
     if create_incomplete m \<or> create_failed m \<noteq> [] then
       bindE (findRoutersByName api (rp_Name (for_provider m))) (\<lambda>matches.
       case matches of
         [] \<Rightarrow> post_router api rslv e
       | [r] \<Rightarrow> modify_cr (\<lambda>m. m\<lparr>external_name := rt_Id r\<rparr>)
       | _ \<Rightarrow> throwError (Errorf ''network/router: several upstream routers with this name''))
     else post_router api rslv e)"

section \<open>\<^verbatim>\<open>Update\<close>\<close>

text \<open>\<^verbatim>\<open>releaseNATIP\<close>: the result says whether an unbind succeeded. Failures become events.\<close>

definition release_warning :: "('w, 'l, bool) router_act" where
  "release_warning = bindE (emit_event EventTypeWarning ''RetainedNATFloatingIP'') (\<lambda>_. returnOk False)"

definition releaseNATIP :: "'w router_api \<Rightarrow> router_ext \<Rightarrow> string \<Rightarrow> string \<Rightarrow> ('w, 'l, bool) router_act" where
  "releaseNATIP api e routerID addr =
     (if addr \<in> set (map ra_NATIP (re_resolvedNetworks e)) then returnOk False
      else bindE (attempt (getDnatRules api routerID)) (\<lambda>g. case g of
        Inl err \<Rightarrow> release_warning
      | Inr rules \<Rightarrow>
          if addr \<in> set rules then bindE (emit_event EventTypeNormal ''RetainedNATFloatingIP'') (\<lambda>_. returnOk False)
          else bindE (attempt (natIPBindability api routerID addr)) (\<lambda>b. case b of
            Inl err \<Rightarrow> release_warning
          | Inr (fipID, state) \<Rightarrow>
              if state \<noteq> natIPBoundToRouter then returnOk False
              else bindE (attempt (write_call api (UnbindFloatingIp fipID))) (\<lambda>u. case u of
                Inl err \<Rightarrow> release_warning
              | Inr _ \<Rightarrow> bindE (emit_event EventTypeNormal ''ReleasedNATFloatingIP'') (\<lambda>_. returnOk True)))))"

definition bindNATIP :: "'w router_api \<Rightarrow> string \<Rightarrow> string \<Rightarrow> ('w, 'l, unit) router_act" where
  "bindNATIP api fipID routerID =
     bindE (write_call api (BindFloatingIp fipID routerID)) (\<lambda>_. emit_event EventTypeNormal ''BoundNATFloatingIP'')"

text \<open>The release that follows a NAT change, when the budget still allows it.\<close>

definition release_after :: "'w router_api \<Rightarrow> router_ext \<Rightarrow> string \<Rightarrow> string \<Rightarrow> nat \<Rightarrow> ('w, 'l, nat option) router_act" where
  "release_after api e n observedNAT ops =
     (if observedNAT \<noteq> [] \<and> ops < maxRouterMutationsPerReconcile
      then bindE (releaseNATIP api e n observedNAT) (\<lambda>released. returnOk (Some (if released then ops + 1 else ops)))
      else returnOk (Some ops))"

definition converge_dhcp :: "'w router_api \<Rightarrow> string \<Rightarrow> resolved_attachment \<Rightarrow> network_out \<Rightarrow> nat \<Rightarrow> ('w, 'l, nat option) router_act" where
  "converge_dhcp api n a nw ops =
     (if nw_DhcpEnabled nw \<noteq> ra_DHCP a
      then paced maxRouterMutationsPerReconcile ops (bindE (write_call api (PatchNetwork n (ra_NetworkID a) (ra_DHCP a))) (\<lambda>_. returnOk (Some (ops + 1))))
      else returnOk (Some ops))"

definition converge_nat :: "'w router_api \<Rightarrow> router_ext \<Rightarrow> string \<Rightarrow> string set \<Rightarrow> resolved_attachment \<Rightarrow> network_out \<Rightarrow> nat \<Rightarrow>
    ('w, 'l, nat option) router_act" where
  "converge_nat api e n owned a nw ops =
     (let observedNAT = DerefString (nw_NatIp nw) in
      if ra_NATIP a \<noteq> [] \<and> ra_NATIP a \<noteq> observedNAT then
        (if ra_NATIP a \<notin> owned then
           bindE (natIPBindability api n (ra_NATIP a)) (\<lambda>(fipID, state).
           if state \<noteq> natIPFree then returnOk (Some ops)
           else paced maxRouterMutationsPerReconcile ops (bindE (bindNATIP api fipID n) (\<lambda>_. returnOk (Some (ops + 1)))))
         else paced maxRouterMutationsPerReconcile ops (bindE (write_call api (UpdateRouterNat n (ra_NetworkID a) (ra_NATIP a))) (\<lambda>_.
           release_after api e n observedNAT (ops + 1))))
      else if ra_NATIP a = [] \<and> observedNAT \<noteq> [] then
        paced maxRouterMutationsPerReconcile ops (bindE (write_call api (DeleteRouterNat n (ra_NetworkID a))) (\<lambda>_.
          release_after api e n observedNAT (ops + 1)))
      else returnOk (Some ops))"

fun converge_attachments :: "'w router_api \<Rightarrow> router_ext \<Rightarrow> string \<Rightarrow> string set \<Rightarrow> network_out list \<Rightarrow> resolved_attachment list \<Rightarrow> nat \<Rightarrow>
    ('w, 'l, nat option) router_act" where
  "converge_attachments api e n owned nets [] ops = returnOk (Some ops)"
| "converge_attachments api e n owned nets (a # as) ops = (case observed_map nets (ra_NetworkID a) of
     None \<Rightarrow> converge_attachments api e n owned nets as ops
   | Some nw \<Rightarrow>
       and_then (converge_dhcp api n a nw ops) (\<lambda>ops1.
       and_then (converge_nat api e n owned a nw ops1) (\<lambda>ops2.
       converge_attachments api e n owned nets as ops2)))"

definition missing_networks :: "network_out list \<Rightarrow> resolved_attachment list \<Rightarrow> network_in list" where
  "missing_networks nets atts = map network_in_of (filter (\<lambda>a. observed_map nets (ra_NetworkID a) = None) atts)"

fun attached_events :: "network_in list \<Rightarrow> ('w, 'l, unit) router_act" where
  "attached_events [] = returnOk ()"
| "attached_events (m # ms) = bindE (emit_event EventTypeNormal ''AttachedNetwork'') (\<lambda>_. attached_events ms)"

definition attach_missing :: "'w router_api \<Rightarrow> string \<Rightarrow> network_in list \<Rightarrow> nat \<Rightarrow> ('w, 'l, nat option) router_act" where
  "attach_missing api n missing ops =
     (if missing \<noteq> [] then
        bindE (write_call api (AddNetworks n missing)) (\<lambda>_.
        bindE (attached_events missing) (\<lambda>_. returnOk (Some (ops + 1))))
      else returnOk (Some ops))"

text \<open>The detach loop; the third case is the \<^verbatim>\<open>break\<close> of the never-detach-last backstop.\<close>

fun detach_extra :: "'w router_api \<Rightarrow> string \<Rightarrow> string set \<Rightarrow> nat \<Rightarrow> network_out list \<Rightarrow> nat \<Rightarrow> ('w, 'l, nat option) router_act" where
  "detach_extra api n declared cnt [] ops = returnOk (Some ops)"
| "detach_extra api n declared cnt (x # xs) ops =
     (if nw_Id x \<in> declared then detach_extra api n declared cnt xs ops
      else paced maxRouterMutationsPerReconcile ops
        (if cnt \<le> 1 then returnOk (Some ops)
         else bindE (write_call api (DeleteRouterNetwork n (nw_Id x))) (\<lambda>_.
              bindE (emit_event EventTypeNormal ''DetachedNetwork'') (\<lambda>_.
              detach_extra api n declared (cnt - 1) xs (ops + 1)))))"

text \<open>Both loops over static routes. The first returns the remaining \<^verbatim>\<open>observedRoutes\<close> map with \<^verbatim>\<open>ops\<close>; its early
  return is \<open>None\<close>.\<close>

definition declared_routes :: "resolved_route list \<Rightarrow> string \<rightharpoonup> string" where
  "declared_routes ds = map_of (rev (map (\<lambda>d. (rr_Subnet d, rr_Nexthop d)) ds))"

definition observed_routes :: "static_route_out list \<Rightarrow> string \<rightharpoonup> string" where
  "observed_routes rs = map_of (rev (map (\<lambda>r. (sro_Subnet r, sro_Nexthop r)) rs))"

fun delete_routes :: "'w router_api \<Rightarrow> string \<Rightarrow> (string \<rightharpoonup> string) \<Rightarrow> static_route_out list \<Rightarrow> (string \<rightharpoonup> string) \<Rightarrow> nat \<Rightarrow>
    ('w, 'l, ((string \<rightharpoonup> string) \<times> nat) option) router_act" where
  "delete_routes api n decl [] obs ops = returnOk (Some (obs, ops))"
| "delete_routes api n decl (r # rs) obs ops =
     (if decl (sro_Subnet r) = Some (sro_Nexthop r) then delete_routes api n decl rs obs ops
      else if ops \<ge> maxRouterMutationsPerReconcile then returnOk None
      else bindE (write_call api (DeleteStaticRoute n (sro_Id r))) (\<lambda>_.
           delete_routes api n decl rs (obs(sro_Subnet r := None)) (ops + 1)))"

fun create_routes :: "'w router_api \<Rightarrow> string \<Rightarrow> (string \<rightharpoonup> string) \<Rightarrow> resolved_route list \<Rightarrow> nat \<Rightarrow> ('w, 'l, nat option) router_act" where
  "create_routes api n obs [] ops = returnOk (Some ops)"
| "create_routes api n obs (d # ds) ops =
     (if obs (rr_Subnet d) = Some (rr_Nexthop d) then create_routes api n obs ds ops
      else paced maxRouterMutationsPerReconcile ops (bindE (write_call api (PostStaticRoute n (rr_Subnet d) (rr_Nexthop d))) (\<lambda>_.
           create_routes api n obs ds (ops + 1))))"

definition converge_routes :: "'w router_api \<Rightarrow> router_ext \<Rightarrow> string \<Rightarrow> nat \<Rightarrow> ('w, 'l, nat option) router_act" where
  "converge_routes api e n ops =
     bindE (getStaticRoutes api n) (\<lambda>routes.
     bindE (delete_routes api n (declared_routes (re_resolvedRoutes e)) routes (observed_routes routes) ops) (\<lambda>x.
     case x of None \<Rightarrow> returnOk None
     | Some (obs, ops1) \<Rightarrow> create_routes api n obs (re_resolvedRoutes e) ops1))"

definition patch_router :: "'w router_api \<Rightarrow> string \<Rightarrow> 'l router_parameters \<Rightarrow> router_out \<Rightarrow> ('w, 'l, unit) router_act" where
  "patch_router api n fp r =
     (let name = (if rp_Name fp \<noteq> rt_Name r then Some (rp_Name fp) else None);
          comment = (if DerefString (rp_Comment fp) \<noteq> DerefString (rt_Comment r) then Some (DerefString (rp_Comment fp)) else None)
      in if name \<noteq> None \<or> comment \<noteq> None then write_call api (UpdateRouter n name comment) else returnOk ())"

text \<open>The one-pass diff behind the guards.\<close>

definition converge_router :: "'w router_api \<Rightarrow> router_ext \<Rightarrow> string \<Rightarrow> router_out \<Rightarrow> network_out list \<Rightarrow> ('w, 'l, nat option) router_act" where
  "converge_router api e n r nets =
     (let missing = missing_networks nets (re_resolvedNetworks e);
          declared = set (map ra_NetworkID (re_resolvedNetworks e)) in
      and_then (attach_missing api n missing 0) (\<lambda>ops.
      and_then (detach_extra api n declared (length nets + length missing) nets ops) (\<lambda>ops.
      and_then (converge_attachments api e n (routerOwnedIPs r) nets (re_resolvedNetworks e) ops) (\<lambda>ops.
      converge_routes api e n ops))))"

definition router_pass :: "'w router_api \<Rightarrow> router_ext \<Rightarrow> string \<Rightarrow> 'l router_parameters \<Rightarrow> router_out \<Rightarrow> network_out list \<Rightarrow>
    ('w, 'l, unit) router_act" where
  "router_pass api e n fp r nets =
     bindE (patch_router api n fp r) (\<lambda>_. bindE (converge_router api e n r nets) (\<lambda>_. returnOk ()))"

definition router_Update :: "'w router_api \<Rightarrow> 'w resolver_iface \<Rightarrow> router_ext \<Rightarrow> ('w, 'l, unit) router_act" where
  "router_Update api rslv e =
     bindE (gets external_name) (\<lambda>n.
     if n = [] then throwError (Errorf ''network/router: empty external-name on Update'')
     else bindE (getRouter api n) (\<lambda>(r, nets).
       if EqualFold (rt_Status r) ''starting'' then returnOk ()
       else if re_resolvedNetworks e = [] then blockNoNetworks
       else bindE (gets for_provider) (\<lambda>fp.
         case ResolvePlacement (rp_Location fp) (rp_AvailabilityZone fp) of
           Inl err \<Rightarrow> throwError (Wrap ''network/router'' err)
         | Inr (_, zone) \<Rightarrow>
             bindE (map_resolver_error (resolveTier rslv (re_pcRef e) (rp_PresetName fp) zone)) (\<lambda>tierID.
             if rt_PresetId r \<noteq> 0 \<and> tierID \<noteq> rt_PresetId r then RejectImmutableChange ''presetName''
             else router_pass api e n fp r nets))))"

section \<open>\<^verbatim>\<open>Delete\<close>\<close>

definition router_Delete :: "'w router_api \<Rightarrow> ('w, 'l, unit) router_act" where
  "router_Delete api =
     bindE (gets (\<lambda>m. m)) (\<lambda>m.
     if ro_ParentServices (at_provider m) \<noteq> [] then
       bindE (emit_event EventTypeWarning ''DeletionBlocked'') (\<lambda>_. throwError (Errorf ''network/router: router serves bound services''))
     else if external_name m = [] then returnOk ()
     else delete_or_gone api (DeleteRouter (external_name m)) (record_and_set Deleting))"

end
