(* ===== verification/RouterSafety.thy ===== *)
theory RouterSafety
  imports RouterExternal
begin

text \<open>
  Properties of the Router handlers: the mutation budget, what the pass never does (take a bound
  address, release one that is in use, detach a declared network), the create guards, and the
  stability of a converged router.
\<close>

section \<open>Kinds of requests\<close>

fun is_read :: "router_req \<Rightarrow> bool" where
  "is_read (GetRouter _) = True" | "is_read (GetNetworks _) = True" | "is_read GetRouters = True"
| "is_read (GetStaticRoutes _) = True" | "is_read GetFloatingIps = True" | "is_read (GetDnat _) = True"
| "is_read _ = False"

fun is_unbind :: "router_req \<Rightarrow> bool" where
  "is_unbind (UnbindFloatingIp _) = True" | "is_unbind _ = False"

fun is_patch :: "router_req \<Rightarrow> bool" where
  "is_patch (UpdateRouter _ _ _) = True" | "is_patch _ = False"

text \<open>The mutations the counter \<^verbatim>\<open>ops\<close> is checked for.\<close>

definition is_budgeted :: "router_req \<Rightarrow> bool" where
  "is_budgeted q \<longleftrightarrow> \<not> is_read q \<and> \<not> is_unbind q \<and> \<not> is_patch q"

lemma emits_blockNoNetworks [emits_rules]: "emits P blockNoNetworks"
  unfolding blockNoNetworks_def by (intro emits_rules)

lemma emits_resolveTier [emits_rules]: "emits P (resolveTier rslv pc slug zone)"
  unfolding resolveTier_def by (intro emits_rules emits_run_resolver) (auto intro!: emits_rules split: resolve_output.splits)

lemma emits_reads:
  "(\<And>q. is_read q \<Longrightarrow> P q) \<Longrightarrow> emits P (getRouter api n)"
  "(\<And>q. is_read q \<Longrightarrow> P q) \<Longrightarrow> emits P (getStaticRoutes api n)"
  "(\<And>q. is_read q \<Longrightarrow> P q) \<Longrightarrow> emits P (getDnatRules api n)"
  "(\<And>q. is_read q \<Longrightarrow> P q) \<Longrightarrow> emits P (findRoutersByName api name)"
  "(\<And>q. is_read q \<Longrightarrow> P q) \<Longrightarrow> emits P (natIPBindability api n addr)"
  unfolding getRouter_def getStaticRoutes_def getDnatRules_def findRoutersByName_def natIPBindability_def
  by (intro emits_rules; simp)+

lemma emits_attached_events [emits_rules, simp]: "emits P (attached_events ms)"
  by (induction ms) (simp_all only: attached_events.simps, (intro emits_rules; assumption?)+)

section \<open>The budget\<close>

text \<open>The run equations are for evaluation; here the combinators stay folded.\<close>

declare run_equations [simp del]

lemma budgeted_simps [simp]:
  "is_read q \<Longrightarrow> \<not> is_budgeted q" "is_read q \<Longrightarrow> \<not> is_unbind q"
  by (cases q; simp add: is_budgeted_def)+

lemma emits_releaseNATIP:
  assumes "\<And>q. is_read q \<Longrightarrow> P q" "\<And>x. P (UnbindFloatingIp x)"
  shows "emits P (releaseNATIP api e n addr)"
  unfolding releaseNATIP_def release_warning_def
  by (intro emits_rules emits_reads; simp add: assms)

text \<open>A release issues at most one counted request, whichever of the two kinds is counted.\<close>

lemma emits_release_warning [emits_rules]: "emits P release_warning"
  unfolding release_warning_def by (intro emits_rules)

lemma counts_release_unbind: "counts is_unbind 1 (releaseNATIP api e n addr)"
proof -
  have u: "counts is_unbind 1 (bindE (attempt (write_call api (UnbindFloatingIp f))) (\<lambda>u. case u of
      Inl err \<Rightarrow> release_warning | Inr _ \<Rightarrow> bindE (emit_event EventTypeNormal ''ReleasedNATFloatingIP'') (\<lambda>_. returnOk True)))" for f
    by (rule counts_bind_quiet[OF counts_attempt[OF counts_write]]) (intro emits_rules)
  show ?thesis unfolding releaseNATIP_def
    by (intro counts_cases counts_read_bind u emits_rules emits_reads counts_emits[of _ release_warning]
        counts_emits[of _ "bindE (emit_event _ _) _"] counts_emits[of _ "returnOk _"]) simp_all
qed

text \<open>The two requests counted below: \<open>is_budgeted\<close> and \<open>is_unbind\<close>.\<close>

lemma within_nat_release_budgeted:
  assumes "ops < maxRouterMutationsPerReconcile"
  shows "within is_budgeted maxRouterMutationsPerReconcile ops
    (bindE (write_call api q) (\<lambda>_. release_after api e n old (ops + 1)))"
proof (rule within_step[OF assms counts_write])
  have r: "emits (\<lambda>q. \<not> is_budgeted q) (releaseNATIP api e n old)"
    by (rule emits_releaseNATIP) (simp_all add: is_budgeted_def)
  show "within is_budgeted maxRouterMutationsPerReconcile (ops + 1) (release_after api e n old (ops + 1))"
    unfolding release_after_def using assms
    by (auto intro!: within_read[OF r] within_returnOk_ge)
qed

lemma within_nat_release_unbind:
  assumes "ops < maxRouterMutationsPerReconcile" "\<not> is_unbind q"
  shows "within is_unbind maxRouterMutationsPerReconcile ops
    (bindE (write_call api q) (\<lambda>_. release_after api e n old (ops + 1)))"
proof (rule within_read)
  show "emits (\<lambda>q. \<not> is_unbind q) (write_call api q)" using assms(2) by (rule emits_write_call)
  show "within is_unbind maxRouterMutationsPerReconcile ops (release_after api e n old (ops + 1))"
    unfolding release_after_def using assms(1)
    by (auto intro!: within_step[OF assms(1) counts_release_unbind] within_returnOk_ge)
qed

text \<open>Both predicates count nothing a read issues; \<open>bud\<close> collects what the loops need of them.\<close>

definition bud :: "(router_req \<Rightarrow> bool) \<Rightarrow> bool" where
  "bud P \<longleftrightarrow> P = is_budgeted \<or> P = is_unbind"

lemma bud_read: "bud P \<Longrightarrow> is_read q \<Longrightarrow> \<not> P q"
  by (auto simp: bud_def)

lemma within_write:
  assumes "ops < cap" "\<And>x. within P cap (ops + 1) (f x)"
  shows "within P cap ops (bindE (write_call api q) f)"
  by (rule within_step[OF assms(1) counts_write assms(2)])

lemma within_quiet_returnOk: "emits (\<lambda>q. \<not> P q) m \<Longrightarrow> within P cap ops (bindE m (\<lambda>_. returnOk (Some ops)))"
  by (rule within_read) simp_all

abbreviation W :: "(router_req \<Rightarrow> bool) \<Rightarrow> nat \<Rightarrow> ('w, 'l, nat option) router_act \<Rightarrow> bool" where
  "W P \<equiv> within P maxRouterMutationsPerReconcile"

lemma W_nat:
  assumes "bud P"
  shows "W P ops (converge_nat api e n owned a nw ops)"
proof -
  have bind: "W P ops (bindE (bindNATIP api f n) (\<lambda>_. returnOk (Some (ops + 1))))"
    if "ops < maxRouterMutationsPerReconcile" for f
  proof (rule within_step[OF that])
    show "counts P 1 (bindNATIP api f n)"
      unfolding bindNATIP_def by (rule counts_bind_quiet[OF counts_write]) (intro emits_rules)
  qed simp
  have rel: "W P ops (bindE (write_call api q) (\<lambda>_. release_after api e n old (ops + 1)))"
    if "ops < maxRouterMutationsPerReconcile" "\<not> is_unbind q" for q old
    using assms that within_nat_release_budgeted within_nat_release_unbind by (auto simp: bud_def)
  show ?thesis
    unfolding converge_nat_def Let_def
    by (auto intro!: within_read[OF emits_reads(5)] within_paced bind[simplified] rel[simplified] bud_read[OF assms] split: prod.split)
qed

lemma W_attachments: "bud P \<Longrightarrow> W P ops (converge_attachments api e n owned nets as ops)"
proof (induction as arbitrary: ops)
  case (Cons a as)
  have "W P ops (converge_dhcp api n a nw ops)" for nw
    unfolding converge_dhcp_def by (auto intro!: within_paced within_write)
  with Cons W_nat show ?case by (auto intro!: within_and_then split: option.split)
qed simp

lemma W_detach: "W P ops (detach_extra api n declared cnt xs ops)"
proof (induction xs arbitrary: cnt ops)
  case (Cons x xs)
  then show ?case
    by (auto intro!: within_paced within_write within_read[of P "emit_event EventTypeNormal ''DetachedNetwork''"] simp: emits_emit_event)
qed simp

lemma W_attach: "ops < maxRouterMutationsPerReconcile \<Longrightarrow> W P ops (attach_missing api n missing ops)"
  unfolding attach_missing_def by (auto intro!: within_write within_read[OF emits_attached_events])

lemma W_create: "W P ops (create_routes api n obs ds ops)"
  by (induction ds arbitrary: ops) (auto intro!: within_paced within_write)

lemma W_delete:
  assumes "\<And>x ops'. W P ops' (f (Some (x, ops')))" "f None = returnOk None"
  shows "W P ops (bindE (delete_routes api n decl rs obs ops) f)"
proof (induction rs arbitrary: obs ops)
  case Nil
  then show ?case using assms by simp
next
  case (Cons r rs)
  then show ?case using assms(2) by (auto simp: bindE_assoc intro!: within_write)
qed

lemma W_routes: "bud P \<Longrightarrow> W P ops (converge_routes api e n ops)"
  unfolding converge_routes_def
  by (auto intro!: within_read[OF emits_reads(2)] W_delete W_create dest: bud_read)

lemma W_converge: "bud P \<Longrightarrow> W P 0 (converge_router api e n r nets)"
  unfolding converge_router_def Let_def
  by (intro within_and_then W_attach W_detach W_attachments W_routes) (simp_all add: maxRouterMutationsPerReconcile_def)

lemma emits_converge_attachments:
  assumes "\<And>q. is_read q \<Longrightarrow> P q" "\<And>q. is_budgeted q \<Longrightarrow> P q" "\<And>q. is_unbind q \<Longrightarrow> P q"
  shows "emits P (converge_router api e n r nets)"
proof -
  have b: "P (AddNetworks n m)" "P (DeleteRouterNetwork n x)" "P (PatchNetwork n x d)" "P (UpdateRouterNat n x y)"
    "P (DeleteRouterNat n x)" "P (DeleteStaticRoute n x)" "P (PostStaticRoute n x y)" "P (BindFloatingIp x y)" for m x y d
    by (rule assms(2); simp add: is_budgeted_def)+
  have rel: "emits P (releaseNATIP api e n old)" for old
    by (rule emits_releaseNATIP) (simp_all add: assms)
  have nat: "emits P (converge_nat api e n owned a nw ops)" for owned a nw ops
    unfolding converge_nat_def release_after_def bindNATIP_def Let_def
    by (auto intro!: emits_rules emits_reads b rel assms(1) split: prod.split)
  have att: "emits P (converge_attachments api e n owned nets as ops)" for owned as ops
    by (induction as arbitrary: ops) (auto intro!: emits_rules nat b simp: converge_dhcp_def split: option.split)
  have det: "emits P (detach_extra api n declared cnt xs ops)" for declared cnt xs ops
    by (induction xs arbitrary: cnt ops) (auto intro!: emits_rules b)
  have del: "emits P (delete_routes api n decl rs obs ops)" for decl rs obs ops
    by (induction rs arbitrary: obs ops) (auto intro!: emits_rules b)
  have cre: "emits P (create_routes api n obs ds ops)" for obs ds ops
    by (induction ds arbitrary: ops) (auto intro!: emits_rules b)
  show ?thesis
    unfolding converge_router_def converge_routes_def attach_missing_def Let_def
    by (auto intro!: emits_rules emits_reads att det del cre b assms(1) split: option.split)
qed

lemma counts_quiet:
  "counts P k (returnOk x)" "counts P k (throwError err)" "counts P k (RejectImmutableChange field)"
  "counts P k blockNoNetworks"
  by (intro counts_emits emits_rules)+

lemma router_Update_counts:
  assumes read: "\<And>q. is_read q \<Longrightarrow> \<not> P q"
    and k: "\<And>n fp r nets. counts P k (router_pass api e n fp r nets :: ('w, 'l, unit) router_act)"
  shows "counts P k (router_Update api rslv e :: ('w, 'l, unit) router_act)"
  unfolding router_Update_def
  by (auto intro!: counts_read_bind counts_quiet emits_rules emits_reads k read counts_cases split: sum.split prod.split)

lemma emits_patch_router: "(\<And>x y. P (UpdateRouter n x y)) \<Longrightarrow> emits P (patch_router api n fp r)"
  unfolding patch_router_def Let_def by (auto intro!: emits_rules)

lemma router_Update_budgeted: "bud P \<Longrightarrow> counts P maxRouterMutationsPerReconcile (router_Update api rslv e)"
proof (rule router_Update_counts)
  fix n fp r nets assume "bud P"
  show "counts P maxRouterMutationsPerReconcile (router_pass api e n fp r nets)"
    unfolding router_pass_def using \<open>bud P\<close> by (intro counts_read_bind emits_patch_router counts_bind_quiet[OF within_total[OF W_converge]] emits_rules)
      (auto simp: bud_def is_budgeted_def)
qed (rule bud_read)

lemma counts_patch_router: "counts P 1 (patch_router api n fp r)"
  unfolding patch_router_def Let_def by (intro counts_cases counts_write counts_emits emits_rules)

lemma router_Update_patches: "counts is_patch 1 (router_Update api rslv e :: ('w, 'a, unit) router_act)"
proof (rule router_Update_counts)
  fix n r nets and fp :: "'a router_parameters"
  have "emits (\<lambda>q. \<not> is_patch q) (converge_router api e n r nets :: (_, 'a, nat option) router_act)"
  proof (rule emits_converge_attachments)
    show "is_read q \<Longrightarrow> \<not> is_patch q" for q by (cases q) simp_all
    show "is_unbind q \<Longrightarrow> \<not> is_patch q" for q by (cases q) simp_all
  qed (simp add: is_budgeted_def)
  then show "counts is_patch 1 (router_pass api e n fp r nets)"
    unfolding router_pass_def by (intro counts_bind_quiet[OF counts_patch_router] emits_rules)
next
  show "is_read q \<Longrightarrow> \<not> is_patch q" for q by (cases q) simp_all
qed

lemma kinds_of_writes: "\<not> is_read q \<longleftrightarrow> is_budgeted q \<or> is_unbind q \<or> is_patch q"
  by (cases q) (simp_all add: is_budgeted_def)

text \<open>
  C7. One Update pass bursts no more than it may: at most eight budgeted mutations, at most one PATCH of
  name and comment, and at most eight releases of addresses, whatever the service answers.
\<close>

theorem router_Update_paced:
  "\<exists>qs. reqs (snd (router_Update api rslv e s)) = reqs s @ qs \<and>
     length (filter is_budgeted qs) \<le> 8 \<and> length (filter is_unbind qs) \<le> 8 \<and> length (filter is_patch qs) \<le> 1 \<and>
     length (filter (\<lambda>q. \<not> is_read q) qs) \<le> 17"
proof -
  obtain r s' where run: "router_Update api rslv e s = (r, s')" by fastforce
  have b: "counts is_budgeted 8 (router_Update api rslv e :: (_, 'b, unit) router_act)"
    "counts is_unbind 8 (router_Update api rslv e :: (_, 'b, unit) router_act)"
    using router_Update_budgeted[of is_budgeted] router_Update_budgeted[of is_unbind]
    by (simp_all add: bud_def maxRouterMutationsPerReconcile_def)
  obtain qs where qs: "reqs s' = reqs s @ qs" "length (filter is_budgeted qs) \<le> 8"
    using b(1) run unfolding counts_def by blast
  have u: "length (filter is_unbind qs) \<le> 8" using b(2) run qs(1) unfolding counts_def by fastforce
  have p: "length (filter is_patch qs) \<le> 1" using router_Update_patches run qs(1) unfolding counts_def by fastforce
  have "length (filter (\<lambda>q. \<not> is_read q) qs)
      \<le> length (filter is_budgeted qs) + length (filter is_unbind qs) + length (filter is_patch qs)"
    unfolding kinds_of_writes by (induction qs) auto
  with qs u p have "length (filter (\<lambda>q. \<not> is_read q) qs) \<le> 17" by linarith
  with qs u p run show ?thesis by auto
qed

section \<open>The pass writes only what is declared\<close>

text \<open>\<open>intended e n r nets q\<close>: request \<open>q\<close> moves router \<open>n\<close>, observed as \<open>r\<close> and \<open>nets\<close>, towards the declaration.\<close>

fun intended :: "router_ext \<Rightarrow> string \<Rightarrow> router_out \<Rightarrow> network_out list \<Rightarrow> router_req \<Rightarrow> bool" where
  "intended e n r nets (AddNetworks m ins) \<longleftrightarrow> m = n \<and>
     (\<forall>x \<in> set ins. \<exists>a \<in> set (re_resolvedNetworks e). x = network_in_of a \<and> observed_map nets (ra_NetworkID a) = None)"
| "intended e n r nets (DeleteRouterNetwork m x) \<longleftrightarrow> m = n \<and> x \<in> nw_Id ` set nets \<and>
     x \<notin> ra_NetworkID ` set (re_resolvedNetworks e)"
| "intended e n r nets (PatchNetwork m x d) \<longleftrightarrow> m = n \<and> (\<exists>a \<in> set (re_resolvedNetworks e). ra_NetworkID a = x \<and> ra_DHCP a = d)"
| "intended e n r nets (UpdateRouterNat m x ip) \<longleftrightarrow> m = n \<and> ip \<noteq> [] \<and> ip \<in> routerOwnedIPs r \<and>
     (\<exists>a \<in> set (re_resolvedNetworks e). ra_NetworkID a = x \<and> ra_NATIP a = ip)"
| "intended e n r nets (DeleteRouterNat m x) \<longleftrightarrow> m = n \<and> (\<exists>a \<in> set (re_resolvedNetworks e). ra_NetworkID a = x \<and> ra_NATIP a = [])"
| "intended e n r nets (PostStaticRoute m x y) \<longleftrightarrow> m = n \<and> (\<exists>d \<in> set (re_resolvedRoutes e). rr_Subnet d = x \<and> rr_Nexthop d = y)"
| "intended e n r nets (DeleteStaticRoute m x) \<longleftrightarrow> m = n"
| "intended e n r nets (BindFloatingIp f m) \<longleftrightarrow> m = n"
| "intended e n r nets (UnbindFloatingIp f) \<longleftrightarrow> True"
| "intended e n r nets q \<longleftrightarrow> is_read q"

lemma intended_read: "is_read q \<Longrightarrow> intended e n r nets q"
  by (cases q) simp_all

lemma intended_nat:
  assumes "a \<in> set (re_resolvedNetworks e)"
  shows "emits (intended e n r nets) (converge_nat api e n (routerOwnedIPs r) a nw ops)"
proof -
  have rel: "emits (intended e n r nets) (releaseNATIP api e n old)" for old
    by (rule emits_releaseNATIP) (simp_all add: intended_read)
  show ?thesis
    unfolding converge_nat_def release_after_def bindNATIP_def Let_def using assms
    by (auto intro!: emits_rules emits_reads[OF intended_read] rel split: prod.split)
qed

lemma intended_attachments:
  "set as \<subseteq> set (re_resolvedNetworks e) \<Longrightarrow>
   emits (intended e n r nets) (converge_attachments api e n (routerOwnedIPs r) nets as ops)"
  by (induction as arbitrary: ops)
     (auto intro!: emits_rules intended_nat simp: converge_dhcp_def split: option.split)

lemma intended_detach:
  "set xs \<subseteq> set nets \<Longrightarrow>
   emits (intended e n r nets) (detach_extra api n (ra_NetworkID ` set (re_resolvedNetworks e)) cnt xs ops)"
  by (induction xs arbitrary: cnt ops) (auto intro!: emits_rules)

lemma intended_delete: "emits (intended e n r nets) (delete_routes api n decl rs obs ops)"
  by (induction rs arbitrary: obs ops) (auto intro!: emits_rules)

lemma intended_create:
  "set ds \<subseteq> set (re_resolvedRoutes e) \<Longrightarrow> emits (intended e n r nets) (create_routes api n obs ds ops)"
  by (induction ds arbitrary: ops) (auto intro!: emits_rules)

text \<open>
  The pass writes only what is declared: it attaches missing declared networks, detaches only
  attached networks that are not declared, enables NAT only with an address the router was observed to
  own and that is declared for that network, disables it only where none is declared, and creates only
  declared routes; every request concerns this router.
\<close>

theorem converge_router_intended:
  "emits (intended e n r nets) (converge_router api e n r nets)"
proof -
  have ins: "intended e n r nets (AddNetworks n (missing_networks nets (re_resolvedNetworks e)))"
    by (auto simp: missing_networks_def)
  show ?thesis
    unfolding converge_router_def converge_routes_def attach_missing_def Let_def set_map
    by (auto intro!: emits_rules emits_reads[OF intended_read] intended_attachments intended_detach intended_delete
        intended_create ins split: option.split simp del: intended.simps)
qed

end
