(* ===== verification/Monitored.thy ===== *)
theory Monitored
  imports Budget ResolverClient
begin

text \<open>
  Reasoning about handlers over a watched service (\<open>monitor\<close>): \<open>safe m\<close> says that \<open>m\<close> makes no disallowed
  request from any state, \<open>safe_at s m\<close> from the state \<open>s\<close>, which is what a request guarded by a preceding
  read needs. The resolver does not touch the watch.
\<close>

section \<open>Handlers that are safe in a state\<close>

declare run_equations [simp del]

definition safe_at :: "('w \<times> bool, 'q, 's, 'o) rstate \<Rightarrow> ('w \<times> bool, 'q, 's, 'o, 'a) act \<Rightarrow> bool" where
  "safe_at s m \<longleftrightarrow> (\<forall>r s'. m s = (r, s') \<longrightarrow> snd (world s) \<longrightarrow> snd (world s'))"

lemma safe_at_safe: "safe m \<longleftrightarrow> (\<forall>s. safe_at s m)"
  by (auto simp: safe_def safe_at_def)

lemma safe_at_bindE:
  assumes "safe_at s m" "\<And>x s'. m s = (Inr x, s') \<Longrightarrow> safe_at s' (f x)"
  shows "safe_at s (bindE m f)"
  unfolding safe_at_def
proof (intro allI impI)
  fix r s' assume run: "bindE m f s = (r, s')" and w: "snd (world s)"
  obtain r1 s1 where m1: "m s = (r1, s1)" by (cases "m s")
  with assms(1) w have w1: "snd (world s1)" by (simp add: safe_at_def)
  show "snd (world s')"
  proof (cases r1)
    case (Inl err)
    with run m1 w1 show ?thesis by (simp add: bindE_def)
  next
    case (Inr x)
    with assms(2) m1 have "safe_at s1 (f x)" by simp
    moreover from run m1 Inr have "f x s1 = (r, s')" by (simp add: bindE_def)
    ultimately show ?thesis using w1 by (simp add: safe_at_def)
  qed
qed

lemma safe_at_write:
  assumes "ok (fst (world s)) q"
  shows "safe_at s (write_call (monitor ok api) q)"
  unfolding safe_at_def by (intro allI impI) (rule safe_write_at[where ok = ok and q = q, OF _ assms])

lemma safe_at_call_classify:
  assumes "ok (fst (world s)) q"
  shows "safe_at s (call_classify (monitor ok api) q)"
  unfolding safe_at_def using assms by (auto simp: call_classify_run monitor_def split: prod.splits)

lemma safe_at_attempt: "safe_at s m \<Longrightarrow> safe_at s (attempt m)"
  by (auto simp: safe_at_def attempt_def split: prod.splits)

lemma safe_atI: "safe m \<Longrightarrow> safe_at s m"
  by (simp add: safe_at_safe)

lemma safe_at_simple [simp]: "safe_at s (returnOk x)" "safe_at s (modify_cr f)" "safe_at s (gets g)" "safe_at s (throwError err)"
  by (simp_all add: safe_at_safe[THEN iffD1, rule_format])

lemma safe_at_write_then:
  assumes "ok (fst (world s)) q" "safe (f ())"
  shows "safe_at s (bindE (write_call (monitor ok api) q) f)"
  using assms by (intro safe_at_bindE safe_at_write) (simp_all add: safe_atI)

lemma gets_eq: "gets f s = (Inr x, s') \<Longrightarrow> x = f (cr s) \<and> s' = s"
  by (auto simp: gets_def)

text \<open>Running the first step of a sequence.\<close>

lemma bindE_step:
  "m s = (Inr x, s1) \<Longrightarrow> bindE m f s = f x s1"
  "m s = (r, s1) \<Longrightarrow> bindE (attempt m) g s = g r s1"
  by (simp_all add: bindE_def attempt_def)

section \<open>What a read told\<close>

lemma fetch_Inr:
  assumes "fetch api pfx sel q s = (Inr x, s')"
  shows "\<exists>resp p. fst (api (world s) q) = Resp resp \<and> resp_payload resp = Some p \<and> sel p = Some x \<and> s' = after_call api q s"
proof (cases "classify_result (fst (api (world s) q))")
  case (Inl err)
  with assms show ?thesis by (simp add: fetch_def bindE_def call_classify_run)
next
  case (Inr resp)
  with assms have d: "decode pfx sel resp (after_call api q s) = (Inr x, s')"
    by (simp add: fetch_def bindE_def call_classify_run)
  from classify_result_ok[OF Inr] have "fst (api (world s) q) = Resp resp" by simp
  with d show ?thesis
    by (cases "Option.bind (resp_payload resp) sel") (auto simp: decode_def returnOk_def throwError_def bind_eq_Some_conv)
qed

lemma monitor_world: "fst (snd (monitor ok api wb q)) = snd (api (fst wb) q)" "fst (monitor ok api wb q) = fst (api (fst wb) q)"
  by (simp_all add: monitor_def split: prod.split)

text \<open>The refusals of a change make no request.\<close>

lemma Reject_runs:
  "RejectSizingSwitch s = (r, s') \<Longrightarrow> r = Inl ErrSizingSwitchRequiresRecreate \<and> reqs s' = reqs s \<and> world s' = world s"
  "RejectImmutableChange f s = (r, s') \<Longrightarrow> r = Inl ErrImmutableFieldChange \<and> reqs s' = reqs s \<and> world s' = world s"
  by (auto simp: RejectSizingSwitch_def RejectImmutableChange_def run_equations split: if_splits)

lemma safe_reject: "safe RejectSizingSwitch" "safe (RejectImmutableChange f)"
  by (auto simp: safe_def dest: Reject_runs)

lemma decode_Inr: "decode pfx sel resp s = (Inr x, s') \<Longrightarrow> \<exists>p. resp_payload resp = Some p \<and> sel p = Some x \<and> s' = s"
  by (cases "Option.bind (resp_payload resp) sel")
     (auto simp: decode_def returnOk_def throwError_def bind_eq_Some_conv)

lemma fetch_or_absent_Inr:
  assumes "fetch_or_absent api pfx sel q k s = (Inr ob, s')" "ResourceExists ob"
  shows "\<exists>resp p x. fst (api (world s) q) = Resp resp \<and> resp_payload resp = Some p \<and> sel p = Some x \<and>
    k x (after_call api q s) = (Inr ob, s')"
proof (cases "classify_result (fst (api (world s) q))")
  case (Inl err)
  with assms show ?thesis by (auto simp: fetch_or_absent_error absent_def split: if_splits)
next
  case (Inr resp)
  with assms have "bindE (decode pfx sel resp) k (after_call api q s) = (Inr ob, s')"
    by (simp add: fetch_or_absent_def on_not_found_def attempt_call_run)
  then obtain x s1 where "decode pfx sel resp (after_call api q s) = (Inr x, s1)" "k x s1 = (Inr ob, s')"
    by (auto simp: bindE_def split: prod.splits sum.splits)
  with decode_Inr[OF this(1)] classify_result_ok[OF Inr] show ?thesis by blast
qed

section \<open>What a handler leaves alone\<close>

definition keeps :: "(('s, 'o) mr \<Rightarrow> 'b) \<Rightarrow> ('w, 'q, 's, 'o, 'a) act \<Rightarrow> bool" where
  "keeps f m \<longleftrightarrow> (\<forall>s r s'. m s = (r, s') \<longrightarrow> f (cr s') = f (cr s))"

lemma keepsD: "keeps f m \<Longrightarrow> m s = (r, s') \<Longrightarrow> f (cr s') = f (cr s)"
  by (simp add: keeps_def)

lemma keeps_bindE: "keeps f m \<Longrightarrow> (\<And>x. keeps f (g x)) \<Longrightarrow> keeps f (bindE m g)"
  unfolding keeps_def bindE_def by (auto split: prod.splits sum.splits)

lemma keeps_simple: "keeps f (returnOk x)" "keeps f (throwError err)" "keeps f (gets g)" "keeps f (emit_event t c)"
  by (auto simp: keeps_def run_equations emit_event_def)

lemma keeps_attempt: "keeps f m \<Longrightarrow> keeps f (attempt m)"
  by (auto simp: keeps_def attempt_def split: prod.splits)

lemma keeps_modify: "(\<And>m. f (h m) = f m) \<Longrightarrow> keeps f (modify_cr h)"
  by (simp add: keeps_def run_equations)

lemma keeps_record_and_set: "(\<And>m. f (SetConditions c m) = f m) \<Longrightarrow> keeps f (record_and_set c)"
  by (simp add: keeps_def run_equations)

lemma keeps_call_classify: "keeps f (call_classify api q)"
  by (simp add: keeps_def call_classify_run)

lemma keeps_decode: "keeps f (decode pfx sel resp)"
  unfolding decode_def by (auto simp: keeps_simple split: option.split)

lemma keeps_fetch: "keeps f (fetch api pfx sel q)"
  unfolding fetch_def by (intro keeps_bindE keeps_call_classify keeps_decode)

lemma keeps_write_call: "keeps f (write_call api q)"
  unfolding write_call_def by (intro keeps_bindE keeps_call_classify keeps_simple)

lemma keeps_cases:
  "keeps f m \<Longrightarrow> keeps f n \<Longrightarrow> keeps f (if b then m else n)"
  "keeps f m \<Longrightarrow> (\<And>y. keeps f (g y)) \<Longrightarrow> keeps f (case x of None \<Rightarrow> m | Some y \<Rightarrow> g y)"
  "(\<And>y. keeps f (h y)) \<Longrightarrow> (\<And>y. keeps f (k y)) \<Longrightarrow> keeps f (case z of Inl y \<Rightarrow> h y | Inr y \<Rightarrow> k y)"
  "(\<And>a b. keeps f (l a b)) \<Longrightarrow> keeps f (case p of (a, b) \<Rightarrow> l a b)"
  by (auto split: option.split sum.split prod.split)

lemma keeps_resolver: "keeps f (run_resolver rslv pc dim inp)"
  by (auto simp: keeps_def run_resolver_def split: prod.splits)

lemma keeps_map_resolver_error: "keeps f m \<Longrightarrow> (\<And>c m. f (SetConditions c m) = f m) \<Longrightarrow> keeps f (map_resolver_error m)"
  unfolding map_resolver_error_def by (intro keeps_bindE keeps_attempt keeps_cases keeps_record_and_set keeps_simple)

lemmas keeps_rules = keeps_bindE keeps_simple keeps_attempt keeps_modify keeps_record_and_set keeps_fetch keeps_write_call keeps_cases
  keeps_resolver keeps_map_resolver_error

text \<open>The same for the world.\<close>

definition keeps_world :: "('w \<Rightarrow> 'b) \<Rightarrow> ('w, 'q, 's, 'o, 'a) act \<Rightarrow> bool" where
  "keeps_world f m \<longleftrightarrow> (\<forall>s r s'. m s = (r, s') \<longrightarrow> f (world s') = f (world s))"

lemma keeps_worldD: "keeps_world f m \<Longrightarrow> m s = (r, s') \<Longrightarrow> f (world s') = f (world s)"
  by (simp add: keeps_world_def)

lemma keeps_world_bindE: "keeps_world f m \<Longrightarrow> (\<And>x. keeps_world f (g x)) \<Longrightarrow> keeps_world f (bindE m g)"
  unfolding keeps_world_def bindE_def by (auto split: prod.splits sum.splits)

lemma keeps_world_simple:
  "keeps_world f (returnOk x)" "keeps_world f (throwError err)" "keeps_world f (gets g)" "keeps_world f (modify_cr h)"
  "keeps_world f (emit_event t c)" "keeps_world f (record_and_set k)"
  by (auto simp: keeps_world_def run_equations emit_event_def)

lemma keeps_world_attempt: "keeps_world f m \<Longrightarrow> keeps_world f (attempt m)"
  by (auto simp: keeps_world_def attempt_def split: prod.splits)

lemma keeps_world_cases:
  "keeps_world f m \<Longrightarrow> keeps_world f n \<Longrightarrow> keeps_world f (if b then m else n)"
  "keeps_world f m \<Longrightarrow> (\<And>y. keeps_world f (g y)) \<Longrightarrow> keeps_world f (case x of None \<Rightarrow> m | Some y \<Rightarrow> g y)"
  "(\<And>y. keeps_world f (h y)) \<Longrightarrow> (\<And>y. keeps_world f (k y)) \<Longrightarrow> keeps_world f (case z of Inl y \<Rightarrow> h y | Inr y \<Rightarrow> k y)"
  by (auto split: option.split sum.split)

lemma keeps_world_resolver:
  "(\<And>w. f (snd (rslv pc dim inp w)) = f w) \<Longrightarrow> keeps_world f (run_resolver rslv pc dim inp)"
  by (auto simp: keeps_world_def run_resolver_def split: prod.splits) (metis snd_conv)

lemma keeps_world_map_resolver_error: "keeps_world f m \<Longrightarrow> keeps_world f (map_resolver_error m)"
  unfolding map_resolver_error_def by (intro keeps_world_bindE keeps_world_attempt keeps_world_cases keeps_world_simple)

lemmas keeps_world_rules = keeps_world_bindE keeps_world_simple keeps_world_attempt keeps_world_cases keeps_world_map_resolver_error

section \<open>The resolver beside a watched service\<close>

text \<open>The handler over a monitored service; the resolver does not touch the monitor's flag.\<close>

definition lift_resolver :: "'w resolver_iface \<Rightarrow> ('w \<times> bool) resolver_iface" where
  "lift_resolver rslv pc dim inp wb = (case rslv pc dim inp (fst wb) of (r, w) \<Rightarrow> (r, (w, snd wb)))"

lemma safe_lift_resolver: "safe (run_resolver (lift_resolver rslv) pc dim inp)"
  by (auto simp: safe_def run_resolver_def lift_resolver_def split: prod.splits)

lemma safe_map_resolver_error: "safe m \<Longrightarrow> safe (map_resolver_error m)"
  unfolding map_resolver_error_def by (auto intro!: safe_bindE safe_attempt split: sum.split)

end
