(* ===== verification/RouterAddresses.thy ===== *)
theory RouterAddresses
  imports RouterSafety Monitored
begin

text \<open>
  Ownership of floating addresses: in every world in which \<^verbatim>\<open>Update\<close> issues a bind, the address is
  unbound; in every world in which it issues an unbind, the address is bound to this very router, no
  longer declared, and not the target of a DNAT rule.
\<close>

text \<open>What is relied on of the service: listing addresses and DNAT rules changes nothing and, when the body
  decodes, tells the truth.\<close>

definition reads_truthful :: "'w router_api \<Rightarrow> ('w \<Rightarrow> floating_ip list) \<Rightarrow> ('w \<Rightarrow> string \<Rightarrow> string list) \<Rightarrow> bool" where
  "reads_truthful api fips dnat \<longleftrightarrow>
     (\<forall>w r w'. api w GetFloatingIps = (r, w') \<longrightarrow> w' = w \<and>
        (\<forall>resp fs. r = Resp resp \<longrightarrow> resp_payload resp = Some (PFips fs) \<longrightarrow> fs = fips w)) \<and>
     (\<forall>w n r w'. api w (GetDnat n) = (r, w') \<longrightarrow> w' = w \<and>
        (\<forall>resp ds. r = Resp resp \<longrightarrow> resp_payload resp = Some (PDnat ds) \<longrightarrow> ds = dnat w n))"

definition address_ok :: "router_ext \<Rightarrow> string \<Rightarrow> ('w \<Rightarrow> floating_ip list) \<Rightarrow> ('w \<Rightarrow> string \<Rightarrow> string list) \<Rightarrow> 'w \<Rightarrow> router_req \<Rightarrow> bool" where
  "address_ok e n fips dnat w q = (case q of
     BindFloatingIp f m \<Rightarrow> m = n \<and> (\<exists>x \<in> set (fips w). ip_Id x = f \<and> ip_ResourceType x = None)
   | UnbindFloatingIp f \<Rightarrow> (\<exists>x \<in> set (fips w). ip_Id x = f \<and> ip_ResourceType x = Some ''router'' \<and>
         resource_id_text (ip_ResourceId x) = n \<and>
         DerefString (ip_Ip x) \<notin> set (map ra_NATIP (re_resolvedNetworks e)) \<and>
         DerefString (ip_Ip x) \<notin> set (dnat w n))
   | _ \<Rightarrow> True)"

lemma nat_ip_state_free:
  "nat_ip_state n addr fs = (f, natIPFree) \<Longrightarrow> \<exists>x \<in> set fs. ip_Id x = f \<and> ip_ResourceType x = None \<and> DerefString (ip_Ip x) = addr"
  by (induction n addr fs rule: nat_ip_state.induct) (auto split: if_splits option.splits)

lemma nat_ip_state_bound:
  "nat_ip_state n addr fs = (f, natIPBoundToRouter) \<Longrightarrow>
   \<exists>x \<in> set fs. ip_Id x = f \<and> ip_ResourceType x = Some ''router'' \<and> resource_id_text (ip_ResourceId x) = n \<and> DerefString (ip_Ip x) = addr"
  by (induction n addr fs rule: nat_ip_state.induct) (auto split: if_splits option.splits)

lemma fips_read:
  assumes "reads_truthful api fips dnat" "natIPBindability (monitor ok api) n addr s = (Inr x, s')"
  shows "fst (world s') = fst (world s) \<and> x = nat_ip_state n addr (fips (fst (world s)))"
proof -
  from assms(2) obtain fs where f: "fetch (monitor ok api) ''network/router: floating-ips list'' as_fips GetFloatingIps s = (Inr fs, s')"
      and x: "x = nat_ip_state n addr fs"
    by (auto simp: natIPBindability_def bindE_def returnOk_def split: prod.splits sum.splits)
  from fetch_Inr[OF f] obtain resp p where r: "fst (api (fst (world s)) GetFloatingIps) = Resp resp" "resp_payload resp = Some p"
      "as_fips p = Some fs" "s' = after_call (monitor ok api) GetFloatingIps s" by (auto simp: monitor_world)
  obtain r1 w1 where a: "api (fst (world s)) GetFloatingIps = (r1, w1)" by fastforce
  from r(3) have "p = PFips fs" by (cases p) simp_all
  with assms(1) a r have "w1 = fst (world s) \<and> fs = fips (fst (world s))"
    unfolding reads_truthful_def by (metis fst_conv)
  with r(4) a x show ?thesis by (simp add: monitor_world)
qed

lemma dnat_read:
  assumes "reads_truthful api fips dnat" "getDnatRules (monitor ok api) n s = (Inr ds, s')"
  shows "fst (world s') = fst (world s) \<and> ds = dnat (fst (world s)) n"
proof -
  from fetch_Inr[OF assms(2)[unfolded getDnatRules_def]]
  obtain resp p where r: "fst (api (fst (world s)) (GetDnat n)) = Resp resp" "resp_payload resp = Some p"
      "as_dnat p = Some ds" "s' = after_call (monitor ok api) (GetDnat n) s" by (auto simp: monitor_world)
  obtain r1 w1 where a: "api (fst (world s)) (GetDnat n) = (r1, w1)" by fastforce
  from r(3) have "p = PDnat ds" by (cases p) simp_all
  with assms(1) a r have "w1 = fst (world s) \<and> ds = dnat (fst (world s)) n"
    unfolding reads_truthful_def by (metis fst_conv)
  with r(4) a show ?thesis by (simp add: monitor_world)
qed

text \<open>Everything else is allowed in every world.\<close>

lemma safe_all:
  assumes "\<And>q w. is_read q \<Longrightarrow> ok w q"
  shows "safe (getRouter (monitor ok api) n)" "safe (getStaticRoutes (monitor ok api) n)"
    "safe (getDnatRules (monitor ok api) n)" "safe (natIPBindability (monitor ok api) n addr)"
  unfolding getRouter_def getStaticRoutes_def getDnatRules_def natIPBindability_def
  by (intro safe_bindE safe_fetch safe_simple assms; simp)+

lemma address_ok_quiet: "\<not> is_unbind q \<Longrightarrow> (\<forall>f m. q \<noteq> BindFloatingIp f m) \<Longrightarrow> address_ok e n fips dnat w q"
  by (cases q) (simp_all add: address_ok_def)

lemma address_ok_read: "is_read q \<Longrightarrow> address_ok e n fips dnat w q"
  by (cases q) (simp_all add: address_ok_def)

lemma safe_release_warning: "safe release_warning"
  unfolding release_warning_def by (intro safe_bindE safe_simple)

section \<open>Releasing and binding\<close>

abbreviation watched :: "router_ext \<Rightarrow> string \<Rightarrow> ('w \<Rightarrow> floating_ip list) \<Rightarrow> ('w \<Rightarrow> string \<Rightarrow> string list) \<Rightarrow> 'w router_api \<Rightarrow>
    ('w \<times> bool) router_api" where
  "watched e n fips dnat api \<equiv> monitor (address_ok e n fips dnat) api"

lemma safe_unbind:
  assumes truth: "reads_truthful api fips dnat" and undeclared: "addr \<notin> set (map ra_NATIP (re_resolvedNetworks e))"
    and dn: "addr \<notin> set (dnat (fst (world s)) n)"
  shows "safe_at s (bindE (attempt (natIPBindability (watched e n fips dnat api) n addr)) (\<lambda>b. case b of
      Inl err \<Rightarrow> release_warning
    | Inr (fipID, state) \<Rightarrow>
        if state \<noteq> natIPBoundToRouter then returnOk False
        else bindE (attempt (write_call (watched e n fips dnat api) (UnbindFloatingIp fipID))) (\<lambda>u. case u of
          Inl err \<Rightarrow> release_warning
        | Inr _ \<Rightarrow> bindE (emit_event EventTypeNormal ''ReleasedNATFloatingIP'') (\<lambda>_. returnOk True))))"
    (is "safe_at s (bindE _ ?k)")
proof (rule safe_at_bindE)
  show "safe_at s (attempt (natIPBindability (watched e n fips dnat api) n addr))"
    by (intro safe_at_attempt safe_atI safe_all address_ok_read)
next
  fix b s1 assume b: "attempt (natIPBindability (watched e n fips dnat api) n addr) s = (Inr b, s1)"
  show "safe_at s1 (?k b)"
  proof (cases "\<exists>f. b = Inr (f, natIPBoundToRouter)")
    case True
    then obtain f where f: "b = Inr (f, natIPBoundToRouter)" by blast
    with b have "natIPBindability (watched e n fips dnat api) n addr s = (Inr (f, natIPBoundToRouter), s1)"
      by (auto simp: attempt_def split: prod.splits)
    from fips_read[OF truth this] have w: "fst (world s1) = fst (world s)"
      and "nat_ip_state n addr (fips (fst (world s))) = (f, natIPBoundToRouter)" by auto
    from nat_ip_state_bound[OF this(2)] have "address_ok e n fips dnat (fst (world s1)) (UnbindFloatingIp f)"
      using undeclared dn w by (auto simp: address_ok_def)
    then have u: "safe_at s1 (attempt (write_call (watched e n fips dnat api) (UnbindFloatingIp f)))"
      by (intro safe_at_attempt safe_at_write)
    show ?thesis unfolding f sum.case prod.case
      by (simp, rule safe_at_bindE[OF u], rule safe_atI)
         (auto intro!: safe_bindE safe_release_warning split: sum.split)
  next
    case False
    then show ?thesis by (auto intro!: safe_atI safe_release_warning split: sum.split prod.split)
  qed
qed

lemma safe_release:
  fixes api :: "'w router_api"
  assumes truth: "reads_truthful api fips dnat"
  shows "safe (releaseNATIP (watched e n fips dnat api) e n addr :: ('w \<times> bool, 'l, bool) router_act)"
proof (cases "addr \<in> set (map ra_NATIP (re_resolvedNetworks e))")
  case True
  then show ?thesis by (simp add: releaseNATIP_def)
next
  case False
  show ?thesis
    unfolding safe_at_safe releaseNATIP_def if_not_P[OF False]
  proof (intro allI safe_at_bindE)
    fix s :: "('w \<times> bool, router_req, 'l router_parameters, router_observation) rstate"
    show "safe_at s (attempt (getDnatRules (watched e n fips dnat api) n))"
      by (intro safe_at_attempt safe_atI safe_all address_ok_read)
  next
    fix s s1 :: "('w \<times> bool, router_req, 'l router_parameters, router_observation) rstate" and g
    assume g: "attempt (getDnatRules (watched e n fips dnat api) n) s = (Inr g, s1)"
    show "safe_at s1 (case g of Inl err \<Rightarrow> release_warning
      | Inr rules \<Rightarrow>
          if addr \<in> set rules then bindE (emit_event EventTypeNormal ''RetainedNATFloatingIP'') (\<lambda>_. returnOk False)
          else bindE (attempt (natIPBindability (watched e n fips dnat api) n addr)) (\<lambda>b. case b of
            Inl err \<Rightarrow> release_warning
          | Inr (fipID, state) \<Rightarrow>
              if state \<noteq> natIPBoundToRouter then returnOk False
              else bindE (attempt (write_call (watched e n fips dnat api) (UnbindFloatingIp fipID))) (\<lambda>u. case u of
                Inl err \<Rightarrow> release_warning
              | Inr _ \<Rightarrow> bindE (emit_event EventTypeNormal ''ReleasedNATFloatingIP'') (\<lambda>_. returnOk True))))"
    proof (cases g)
      case (Inl err)
      then show ?thesis by (simp add: safe_atI safe_release_warning)
    next
      case (Inr rules)
      with g have "getDnatRules (watched e n fips dnat api) n s = (Inr rules, s1)"
        by (auto simp: attempt_def split: prod.splits)
      from dnat_read[OF truth this] have "rules = dnat (fst (world s1)) n" by simp
      with Inr safe_unbind[OF truth False, of s1 n] show ?thesis
        by (auto intro!: safe_atI safe_bindE)
    qed
  qed
qed

lemma safe_bind:
  fixes api :: "'w router_api"
  assumes truth: "reads_truthful api fips dnat"
  shows "safe (bindE (natIPBindability (watched e n fips dnat api) n addr) (\<lambda>(fipID, state).
           if state \<noteq> natIPFree then returnOk (Some ops)
           else paced cap ops (bindE (bindNATIP (watched e n fips dnat api) fipID n) (\<lambda>_. returnOk (Some (ops + 1))))) :: ('w \<times> bool, 'l, nat option) router_act)"
  unfolding safe_at_safe
proof (intro allI safe_at_bindE)
  fix s :: "('w \<times> bool, router_req, 'l router_parameters, router_observation) rstate"
  show "safe_at s (natIPBindability (watched e n fips dnat api) n addr)"
    by (intro safe_atI safe_all address_ok_read)
next
  fix s s1 :: "('w \<times> bool, router_req, 'l router_parameters, router_observation) rstate" and x
  assume x: "natIPBindability (watched e n fips dnat api) n addr s = (Inr x, s1)"
  obtain f st where fs: "x = (f, st)" by (cases x)
  have "address_ok e n fips dnat (fst (world s1)) (BindFloatingIp f n)" if "st = natIPFree"
    using fips_read[OF truth x] fs that nat_ip_state_free[of n addr "fips (fst (world s))" f] by (auto simp: address_ok_def)
  then show "safe_at s1 (case x of (fipID, state) \<Rightarrow>
      if state \<noteq> natIPFree then returnOk (Some ops)
      else paced cap ops (bindE (bindNATIP (watched e n fips dnat api) fipID n) (\<lambda>_. returnOk (Some (ops + 1)))))"
    unfolding fs bindNATIP_def paced_def
    by (auto intro!: safe_at_bindE safe_at_write intro: safe_atI safe_simple)
qed

section \<open>The whole pass\<close>

lemma safe_quiet:
  "(\<And>w. address_ok e n fips dnat w q) \<Longrightarrow> safe (write_call (watched e n fips dnat api) q)"
  by (rule safe_write)

lemma safe_release_after:
  "reads_truthful api fips dnat \<Longrightarrow> safe (release_after (watched e n fips dnat api) e n old ops)"
  unfolding release_after_def by (intro safe_cases safe_bindE safe_release safe_simple)

lemma safe_nat:
  assumes "reads_truthful api fips dnat"
  shows "safe (converge_nat (watched e n fips dnat api) e n owned a nw ops)"
proof -
  have q: "safe (write_call (watched e n fips dnat api) (UpdateRouterNat n x y))"
    "safe (write_call (watched e n fips dnat api) (DeleteRouterNat n x))" for x y
    by (intro safe_quiet address_ok_quiet; simp)+
  show ?thesis
    unfolding converge_nat_def Let_def
    by (intro safe_cases(1) safe_bind[OF assms] safe_paced safe_bindE q safe_release_after[OF assms] safe_simple)
qed

lemma safe_attachments:
  assumes "reads_truthful api fips dnat"
  shows "safe (converge_attachments (watched e n fips dnat api) e n owned nets as ops)"
proof (induction as arbitrary: ops)
  case (Cons a as)
  have "safe (converge_dhcp (watched e n fips dnat api) n a nw ops)" for nw
    unfolding converge_dhcp_def by (intro safe_cases safe_paced safe_bindE safe_quiet address_ok_quiet safe_simple) simp_all
  with Cons safe_nat[OF assms] show ?case by (auto intro!: safe_and_then split: option.split)
qed simp

lemma safe_detach: "safe (detach_extra (watched e n fips dnat api) n declared cnt xs ops)"
  by (induction xs arbitrary: cnt ops)
     (auto intro!: safe_paced safe_bindE safe_quiet address_ok_quiet)

lemma safe_routes:
  "safe (delete_routes (watched e n fips dnat api) n decl rs obs ops)"
  "safe (create_routes (watched e n fips dnat api) n obs ds ops)"
  by (induction rs arbitrary: obs ops, auto intro!: safe_bindE safe_quiet address_ok_quiet)
     (induction ds arbitrary: ops, auto intro!: safe_paced safe_bindE safe_quiet address_ok_quiet)

lemma safe_attached_events: "safe (attached_events ms)"
  by (induction ms) (auto intro!: safe_bindE)

lemma safe_converge:
  assumes "reads_truthful api fips dnat"
  shows "safe (converge_router (watched e n fips dnat api) e n r nets)"
  unfolding converge_router_def converge_routes_def attach_missing_def Let_def
  by (intro safe_and_then safe_attachments[OF assms] safe_detach safe_bindE safe_cases safe_routes safe_all safe_simple
      safe_quiet address_ok_quiet address_ok_read safe_attached_events; simp)

lemma safe_resolveTier: "safe (resolveTier (lift_resolver rslv) pc slug zone)"
  unfolding resolveTier_def
  by (auto intro!: safe_bindE safe_lift_resolver split: sum.split resolve_output.split)

lemma safe_blockNoNetworks: "safe blockNoNetworks"
  unfolding blockNoNetworks_def by (auto intro!: safe_bindE)

lemma safe_router_pass:
  assumes "reads_truthful api fips dnat"
  shows "safe (router_pass (watched e n fips dnat api) e n fp r nets)"
  unfolding router_pass_def patch_router_def Let_def
  by (intro safe_bindE safe_converge[OF assms] safe_cases safe_quiet address_ok_quiet safe_simple; simp)

lemma safe_router_Update:
  fixes api :: "'w router_api"
  assumes "reads_truthful api fips dnat"
  shows "safe_at s (router_Update (watched e (external_name (cr s)) fips dnat api) (lift_resolver rslv) e :: ('w \<times> bool, 'l, unit) router_act)"
  unfolding router_Update_def
  by (rule safe_at_bindE[OF safe_atI[OF safe_simple(3)]], drule gets_eq, elim conjE, hypsubst, rule safe_atI)
     (intro safe_cases safe_bindE safe_all address_ok_read safe_simple safe_reject safe_blockNoNetworks safe_map_resolver_error safe_resolveTier
        safe_router_pass[OF assms])

section \<open>Properties\<close>

text \<open>
  C8. When the service's listings of floating addresses and of DNAT rules are truthful, every address
  \<^verbatim>\<open>Update\<close> binds is unbound at the moment of the request and goes to this router, and every address it
  unbinds is bound to this router, declared for none of its networks, and not the target of one of its
  DNAT rules.
\<close>

theorem router_Update_addresses:
  fixes api :: "'w router_api"
  assumes "reads_truthful api fips dnat" "n = external_name (cr s)" "snd (world s)"
    and "router_Update (monitor (address_ok e n fips dnat) api) (lift_resolver rslv) e s = (r, s')"
  shows "snd (world s')"
  using safe_router_Update[OF assms(1), of s e rslv] assms(2-4) by (simp add: safe_at_def)

text \<open>A service that keeps a list of floating addresses, and a router whose declared NAT address is free.\<close>

definition wit_router_api :: "floating_ip list router_api" where
  "wit_router_api w q = (case q of
     GetRouter n \<Rightarrow> (Resp (ok_response (PRouter \<lparr>rt_Id = n, rt_Name = ''gw'', rt_Comment = None, rt_Status = ''started'', rt_Zone = ''msk-1'',
        rt_PresetId = 7, rt_ProjectId = None, rt_Ips = [], rt_ParentServices = []\<rparr>)), w)
   | GetNetworks n \<Rightarrow> (Resp (ok_response (PNetworks [\<lparr>nw_Id = ''network-a'', nw_Name = ''a'', nw_Gateway = None, nw_NatIp = None,
        nw_DhcpEnabled = True, nw_ReservedIps = []\<rparr>, \<lparr>nw_Id = ''network-b'', nw_Name = ''b'', nw_Gateway = None,
        nw_NatIp = Some ''203.0.113.7'', nw_DhcpEnabled = False, nw_ReservedIps = []\<rparr>])), w)
   | GetStaticRoutes n \<Rightarrow> (Resp (ok_response (PRoutes [])), w)
   | GetFloatingIps \<Rightarrow> (Resp (ok_response (PFips w)), w)
   | GetDnat n \<Rightarrow> (Resp (ok_response (PDnat [])), w)
   | BindFloatingIp f m \<Rightarrow> (Resp (ok_response (PFips [])), map (\<lambda>x. if ip_Id x = f
        then x\<lparr>ip_ResourceType := Some ''router'', ip_ResourceId := Some (RidString m)\<rparr> else x) w)
   | UnbindFloatingIp f \<Rightarrow> (Resp (ok_response (PFips [])), map (\<lambda>x. if ip_Id x = f
        then x\<lparr>ip_ResourceType := None, ip_ResourceId := None\<rparr> else x) w)
   | _ \<Rightarrow> (Resp (ok_response (PFips [])), w))"

definition wit_fips :: "floating_ip list" where
  "wit_fips = [\<lparr>ip_Id = ''fip-9'', ip_Ip = Some ''203.0.113.9'', ip_AvailabilityZone = ''msk-1'', ip_IsDdosGuard = False,
       ip_Comment = None, ip_ResourceType = None, ip_ResourceId = None\<rparr>,
     \<lparr>ip_Id = ''fip-7'', ip_Ip = Some ''203.0.113.7'', ip_AvailabilityZone = ''msk-1'', ip_IsDdosGuard = False,
       ip_Comment = None, ip_ResourceType = Some ''router'', ip_ResourceId = Some (RidString ''r-1'')\<rparr>]"

definition wit_resolver :: "'w resolver_iface" where
  "wit_resolver pc dim inp w = (Inr (PresetOutput 7), w)"

definition wit_router_ext :: router_ext where
  "wit_router_ext = \<lparr>re_pcRef = wit_pc, re_resolvedNetworks = wit_attachments, re_resolvedProjectID = None, re_resolvedRoutes = []\<rparr>"

definition wit_router_mr :: "unit router_mr" where
  "wit_router_mr = \<lparr>external_name = ''r-1'', create_incomplete = False, create_failed = [], for_provider = wit_router_fp,
     at_provider = \<lparr>ro_UpstreamID = None, ro_State = None, ro_LockedPresetID = None, ro_Networks = [], ro_IPs = [],
       ro_ParentServices = [], ro_StaticRoutes = [], ro_ResolvedProjectID = None\<rparr>, conditions = Map.empty\<rparr>"

definition wit_router_run :: "(go_error + unit) \<times> (floating_ip list \<times> bool, router_req, unit router_parameters, router_observation) rstate" where
  "wit_router_run = router_Update (monitor (address_ok wit_router_ext ''r-1'' (\<lambda>w. w) (\<lambda>_ _. [])) wit_router_api)
     (lift_resolver wit_resolver) wit_router_ext (wit_state (wit_fips, True) wit_router_mr)"

theorem router_Update_addresses_witness:
  "snd (world (snd wit_router_run)) \<and> BindFloatingIp ''fip-9'' ''r-1'' \<in> set (reqs (snd wit_router_run)) \<and>
   UnbindFloatingIp ''fip-7'' \<in> set (reqs (snd wit_router_run))"
proof (intro conjI)
  have t: "reads_truthful wit_router_api (\<lambda>w. w) (\<lambda>_ _. [])"
    by (simp add: reads_truthful_def wit_router_api_def ok_response_def)
  obtain r s' where run: "wit_router_run = (r, s')" by fastforce
  have "snd (world s')"
    by (rule router_Update_addresses[OF t _ _ run[unfolded wit_router_run_def]])
       (simp_all add: wit_state_def wit_router_mr_def)
  then show "snd (world (snd wit_router_run))" unfolding run snd_conv .
  show "BindFloatingIp ''fip-9'' ''r-1'' \<in> set (reqs (snd wit_router_run))" by code_simp
  show "UnbindFloatingIp ''fip-7'' \<in> set (reqs (snd wit_router_run))" by code_simp
qed

end
