(* ===== verification/RouterStable.thy ===== *)
theory RouterStable
  imports RouterLifecycle
begin

text \<open>
  A converged router is left alone: when \<^verbatim>\<open>Observe\<close> reports the router up to date and nothing moves in the
  meantime, \<^verbatim>\<open>Update\<close> only reads. The first section is a small theory of readers: actions whose result
  depends on the outside world only and that issue nothing but reads.
\<close>

section \<open>Readers\<close>

definition reads_as :: "'w \<Rightarrow> ('w, 'l, 'a) router_act \<Rightarrow> go_error + 'a \<Rightarrow> bool" where
  "reads_as w m r \<longleftrightarrow> (\<forall>s. world s = w \<longrightarrow> (\<exists>qs. list_all is_read qs \<and> m s = (r, s\<lparr>reqs := reqs s @ qs\<rparr>)))"

definition reader :: "'w \<Rightarrow> ('w, 'l, 'a) router_act \<Rightarrow> bool" where
  "reader w m \<longleftrightarrow> (\<exists>r. reads_as w m r)"

text \<open>In world \<open>w\<close> neither a read of the service nor the resolver changes anything.\<close>

definition still :: "'w router_api \<Rightarrow> 'w resolver_iface \<Rightarrow> 'w \<Rightarrow> bool" where
  "still api rslv w \<longleftrightarrow> (\<forall>q. is_read q \<longrightarrow> snd (api w q) = w) \<and> (\<forall>pc dim inp. snd (rslv pc dim inp w) = w)"

lemma reads_as_returnOk [simp]: "reads_as w (returnOk x) (Inr x)"
  by (auto simp: reads_as_def returnOk_def intro!: exI[of _ "[]"])

lemma reads_as_throwError [simp]: "reads_as w (throwError err) (Inl err)"
  by (auto simp: reads_as_def throwError_def intro!: exI[of _ "[]"])

lemma reads_as_bind:
  fixes m :: "('w, 'l, 'a) router_act"
  assumes "reads_as w m (Inr x)" "reads_as w (f x) r"
  shows "reads_as w (bindE m f) r"
  unfolding reads_as_def
proof (intro allI impI)
  fix s :: "('w, router_req, 'l router_parameters, router_observation) rstate" assume "world s = w"
  with assms(1) obtain qs where qs: "list_all is_read qs" "m s = (Inr x, s\<lparr>reqs := reqs s @ qs\<rparr>)"
    unfolding reads_as_def by blast
  from \<open>world s = w\<close> have "world (s\<lparr>reqs := reqs s @ qs\<rparr>) = w" by simp
  with assms(2) obtain ps where "list_all is_read ps" "f x (s\<lparr>reqs := reqs s @ qs\<rparr>) = (r, s\<lparr>reqs := (reqs s @ qs) @ ps\<rparr>)"
    unfolding reads_as_def by fastforce
  with qs show "\<exists>qs. list_all is_read qs \<and> bindE m f s = (r, s\<lparr>reqs := reqs s @ qs\<rparr>)"
    by (intro exI[of _ "qs @ ps"]) (simp add: bindE_def)
qed

lemma reads_as_bind_error: "reads_as w m (Inl err) \<Longrightarrow> reads_as w (bindE m f) (Inl err)"
  unfolding reads_as_def bindE_def by fastforce

lemma reads_as_unique:
  fixes m :: "('w, 'l, 'a) router_act" and s :: "('w, router_req, 'l router_parameters, router_observation) rstate"
  assumes "reads_as w m r" "m s = (r', s')" "world s = w"
  shows "r = r' \<and> world s' = w \<and> cr s' = cr s"
  using assms unfolding reads_as_def by fastforce

lemma readerD:
  "reader w m \<Longrightarrow> m s = (r, s') \<Longrightarrow> world s = w \<Longrightarrow> reads_as w m r \<and> world s' = w \<and> cr s' = cr s"
  using reads_as_unique unfolding reader_def by metis

lemma reader_simple [simp]: "reader w (returnOk x)" "reader w (throwError err)"
  by (auto simp: reader_def intro: reads_as_returnOk reads_as_throwError)

lemma reader_bind:
  assumes "reader w m" "\<And>x. reader w (f x)"
  shows "reader w (bindE m f)"
proof -
  from assms(1) obtain r where r: "reads_as w m r" by (auto simp: reader_def)
  show ?thesis
  proof (cases r)
    case (Inl err)
    with r have "reads_as w (bindE m f) (Inl err)" by (intro reads_as_bind_error) simp
    then show ?thesis unfolding reader_def by blast
  next
    case (Inr x)
    from assms(2) obtain r2 where "reads_as w (f x) r2" unfolding reader_def by blast
    with r Inr have "reads_as w (bindE m f) r2" by (intro reads_as_bind[of w m x f r2]) simp_all
    then show ?thesis unfolding reader_def by blast
  qed
qed

lemma reader_case [intro]:
  "(b \<Longrightarrow> reader w m) \<Longrightarrow> (\<not> b \<Longrightarrow> reader w k) \<Longrightarrow> reader w (if b then m else k)"
  by simp

lemma reader_fetch:
  assumes "still api rslv w" "is_read q"
  shows "reader w (fetch api pfx sel q)"
  unfolding reader_def
proof (rule exI)
  show "reads_as w (fetch api pfx sel q) (case classify_result (fst (api w q)) of Inl err \<Rightarrow> Inl err
      | Inr resp \<Rightarrow> (case Option.bind (resp_payload resp) sel of Some x \<Rightarrow> Inr x | None \<Rightarrow> Inl (Wrap pfx DecodeBodyError)))"
    using assms unfolding reads_as_def
    by (auto simp: still_def fetch_def bindE_def call_classify_run decode_def returnOk_def throwError_def
        intro!: exI[of _ "[q]"] split: sum.split option.split)
qed

lemma reader_resolver:
  assumes "still api rslv w"
  shows "reader w (run_resolver rslv pc dim inp)"
proof -
  obtain r where r: "rslv pc dim inp w = (r, w)"
    using assms unfolding still_def by (metis prod.collapse)
  have "reads_as w (run_resolver rslv pc dim inp) r"
    unfolding reads_as_def run_resolver_def using r by (auto intro!: exI[of _ "[]"])
  then show ?thesis by (auto simp: reader_def)
qed

lemma reader_resolveTier: "still api rslv w \<Longrightarrow> reader w (resolveTier rslv pc slug zone)"
  unfolding resolveTier_def
  by (auto intro!: reader_bind reader_resolver split: sum.split resolve_output.split)

lemma reader_reads:
  assumes "still api rslv w"
  shows "reader w (getRouter api n)" "reader w (getStaticRoutes api n)" "reader w (natIPBindability api n addr)"
  unfolding getRouter_def getStaticRoutes_def natIPBindability_def
  by (intro reader_bind reader_fetch[OF assms] reader_simple; simp)+

lemma reader_blocked: "still api rslv w \<Longrightarrow> reader w (blockedNATRows api r nets as)"
  by (induction as) (auto intro!: reader_bind reader_reads split: option.split)

lemma reads_as_fun:
  assumes "reads_as w (m :: ('w, 'l, 'a) router_act) r" "reads_as w m r'"
  shows "r = r'"
proof -
  let ?s = "undefined\<lparr>world := w\<rparr> :: ('w, router_req, 'l router_parameters, router_observation) rstate"
  obtain r1 s1 where "m ?s = (r1, s1)" by fastforce
  with reads_as_unique[OF assms(1)] reads_as_unique[OF assms(2)] show ?thesis by force
qed

lemma reads_as_returnOkD:
  assumes "reads_as w (returnOk x :: ('w, 'l, 'a) router_act) (Inr y)"
  shows "y = x"
  using reads_as_fun[OF assms reads_as_returnOk] by simp

lemma reads_as_bind_Inr:
  assumes "reads_as w (bindE m f) (Inr y)" "reader w m" "\<And>x. reader w (f x)"
  obtains x where "reads_as w m (Inr x)" "reads_as w (f x) (Inr y)"
proof -
  from assms(2) obtain r where r: "reads_as w m r" by (auto simp: reader_def)
  show thesis
  proof (cases r)
    case (Inl err)
    with r have "reads_as w (bindE m f) (Inl err)" by (intro reads_as_bind_error) simp
    with reads_as_fun[OF assms(1)] show thesis by blast
  next
    case (Inr x)
    from assms(3) obtain r2 where r2: "reads_as w (f x) r2" unfolding reader_def by blast
    with r Inr have "reads_as w (bindE m f) r2" by (intro reads_as_bind[of w m x f r2]) simp_all
    with reads_as_fun[OF assms(1)] have "r2 = Inr y" by blast
    with r r2 Inr that show thesis by blast
  qed
qed

section \<open>Blocked NAT rows\<close>

text \<open>Whether an address is free does not depend on the router that asks.\<close>

lemma nat_ip_state_free_indep: "snd (nat_ip_state n addr fs) = natIPFree \<longleftrightarrow> snd (nat_ip_state m addr fs) = natIPFree"
  by (induction n addr fs rule: nat_ip_state.induct) (auto split: option.split)

definition unbindable :: "'w router_api \<Rightarrow> 'w \<Rightarrow> string \<Rightarrow> 'l itself \<Rightarrow> bool" where
  "unbindable api w addr l \<longleftrightarrow> (\<forall>n. \<exists>f st. st \<noteq> natIPFree \<and>
     reads_as w (natIPBindability api n addr :: ('w, 'l, string \<times> natIPState) router_act) (Inr (f, st)))"

lemma unbindableI:
  assumes "still api rslv w" "st \<noteq> natIPFree"
    and "reads_as w (natIPBindability api m addr :: ('w, 'l, string \<times> natIPState) router_act) (Inr (f, st))"
  shows "unbindable api w addr TYPE('l)"
proof -
  let ?r = "fetch api ''network/router: floating-ips list'' as_fips GetFloatingIps :: ('w, 'l, floating_ip list) router_act"
  have "reader w ?r" by (rule reader_fetch[OF assms(1)]) simp
  with assms(3) obtain fs where fs: "reads_as w ?r (Inr fs)" "reads_as w (returnOk (nat_ip_state m addr fs) :: ('w, 'l, string \<times> natIPState) router_act) (Inr (f, st))"
    unfolding natIPBindability_def by (elim reads_as_bind_Inr) simp_all
  from reads_as_returnOkD[OF fs(2)] have st: "nat_ip_state m addr fs = (f, st)" by simp
  show ?thesis
    unfolding unbindable_def natIPBindability_def
  proof (intro allI exI conjI)
    fix n
    show "snd (nat_ip_state n addr fs) \<noteq> natIPFree"
      using assms(2) st nat_ip_state_free_indep[of n addr fs m] by simp
    show "reads_as w (bindE ?r (\<lambda>fs. returnOk (nat_ip_state n addr fs)))
        (Inr (fst (nat_ip_state n addr fs), snd (nat_ip_state n addr fs)))"
      by (rule reads_as_bind[OF fs(1)]) simp
  qed
qed

lemma blocked_spec:
  assumes "still api rslv w" "distinct (map ra_NetworkID as)"
    and "reads_as w (blockedNATRows api r nets as :: ('w, 'l, string list) router_act) (Inr bs)"
  shows "set bs \<subseteq> set (map ra_NetworkID as) \<and>
    (\<forall>a \<in> set as. ra_NetworkID a \<in> set bs \<longrightarrow> ra_NATIP a \<noteq> [] \<and> ra_NATIP a \<notin> routerOwnedIPs r \<and> unbindable api w (ra_NATIP a) TYPE('l))"
  using assms(2,3)
proof (induction as arbitrary: bs)
  case Nil
  then show ?case using reads_as_returnOkD[of w "[]" bs] by simp
next
  case (Cons a as)
  have rest: ?case if "reads_as w (blockedNATRows api r nets as :: ('w, 'l, string list) router_act) (Inr bs)"
    using Cons.IH[OF _ that] Cons.prems(1) by auto
  show ?case
  proof (cases "observed_map nets (ra_NetworkID a)")
    case None
    with Cons.prems(2) rest show ?thesis by simp
  next
    case (Some x)
    show ?thesis
    proof (cases "ra_NATIP a = [] \<or> ra_NATIP a \<in> routerOwnedIPs r \<or> ra_NATIP a = DerefString (nw_NatIp x)")
      case True
      with Cons.prems(2) Some rest show ?thesis by simp
    next
      case False
      let ?blk = "\<lambda>st bs. if st = natIPBoundElsewhere \<or> st = natIPMissing then ra_NetworkID a # bs else bs"
      let ?rest = "blockedNATRows api r nets as :: ('w, 'l, string list) router_act"
      let ?k = "\<lambda>(f, st). bindE ?rest (\<lambda>bs. returnOk (?blk st bs))"
      have rk: "reader w (?k z)" for z
        by (cases z) (auto intro!: reader_bind reader_blocked[OF assms(1)])
      from Cons.prems(2) False Some
      have "reads_as w (bindE (natIPBindability api (rt_Id r) (ra_NATIP a)) ?k) (Inr bs)" by simp
      then obtain z where z: "reads_as w (natIPBindability api (rt_Id r) (ra_NATIP a) :: ('w, 'l, string \<times> natIPState) router_act) (Inr z)"
          "reads_as w (?k z) (Inr bs)"
        using reader_reads(3)[OF assms(1)] rk by (rule reads_as_bind_Inr)
      obtain f st where fst: "z = (f, st)" by (cases z)
      from z(2) have "reads_as w (bindE ?rest (\<lambda>bs. returnOk (?blk st bs))) (Inr bs)" by (simp add: fst)
      then obtain bs1 where bs1: "reads_as w ?rest (Inr bs1)" "reads_as w (returnOk (?blk st bs1) :: ('w, 'l, string list) router_act) (Inr bs)"
        using reader_blocked[OF assms(1)] reader_simple(1) by (rule reads_as_bind_Inr)
      from reads_as_returnOkD[OF bs1(2)] have bs: "bs = ?blk st bs1" by simp
      have "unbindable api w (ra_NATIP a) TYPE('l)" if "st = natIPBoundElsewhere \<or> st = natIPMissing"
        using unbindableI[OF assms(1) _ z(1)[unfolded fst]] that by auto
      moreover have "ra_NetworkID b \<noteq> ra_NetworkID a" if "b \<in> set as" for b
        using Cons.prems(1) that by (simp, metis image_eqI)
      ultimately show ?thesis using Cons.IH[OF _ bs1(1)] Cons.prems(1) False by (auto simp: bs)
    qed
  qed
qed

section \<open>The pass over a converged router\<close>

lemma reads_as_and_then:
  "reads_as w m (Inr (Some ops)) \<Longrightarrow> reads_as w (f ops) r \<Longrightarrow> reads_as w (and_then m f) r"
  unfolding and_then_def by (erule reads_as_bind) simp

lemma quiet_nat:
  assumes "ra_NATIP a = DerefString (nw_NatIp x) \<or>
      ra_NATIP a \<noteq> [] \<and> ra_NATIP a \<notin> owned \<and> unbindable api w (ra_NATIP a) TYPE('l)"
  shows "reads_as w (converge_nat api e n owned a x ops :: ('w, 'l, nat option) router_act) (Inr (Some ops))"
proof (cases "ra_NATIP a = DerefString (nw_NatIp x)")
  case True
  then show ?thesis by (simp add: converge_nat_def Let_def)
next
  case False
  with assms obtain f st where "st \<noteq> natIPFree"
      "reads_as w (natIPBindability api n (ra_NATIP a) :: ('w, 'l, string \<times> natIPState) router_act) (Inr (f, st))"
    unfolding unbindable_def by metis
  with False assms show ?thesis
    by (auto simp: converge_nat_def Let_def intro!: reads_as_bind)
qed

lemma quiet_attachments:
  assumes "\<And>a. a \<in> set as \<Longrightarrow> \<exists>x. observed_map nets (ra_NetworkID a) = Some x \<and> nw_DhcpEnabled x = ra_DHCP a \<and>
      (ra_NATIP a = DerefString (nw_NatIp x) \<or>
       ra_NATIP a \<noteq> [] \<and> ra_NATIP a \<notin> owned \<and> unbindable api w (ra_NATIP a) TYPE('l))"
  shows "reads_as w (converge_attachments api e n owned nets as ops :: ('w, 'l, nat option) router_act) (Inr (Some ops))"
  using assms
proof (induction as)
  case (Cons a as)
  from Cons.prems[of a] obtain x where x: "observed_map nets (ra_NetworkID a) = Some x" "nw_DhcpEnabled x = ra_DHCP a"
      "ra_NATIP a = DerefString (nw_NatIp x) \<or>
       ra_NATIP a \<noteq> [] \<and> ra_NATIP a \<notin> owned \<and> unbindable api w (ra_NATIP a) TYPE('l)" by auto
  from Cons quiet_nat[OF x(3)] x(1,2) show ?case
    by (auto simp: converge_dhcp_def intro!: reads_as_and_then)
qed simp

lemma quiet_detach:
  "nw_Id ` set xs \<subseteq> declared \<Longrightarrow> reads_as w (detach_extra api n declared cnt xs ops) (Inr (Some ops))"
  by (induction xs) auto

lemma quiet_delete:
  "(\<And>r. r \<in> set rs \<Longrightarrow> decl (sro_Subnet r) = Some (sro_Nexthop r)) \<Longrightarrow>
   reads_as w (delete_routes api n decl rs obs ops) (Inr (Some (obs, ops)))"
  by (induction rs) auto

lemma quiet_create:
  "(\<And>d. d \<in> set ds \<Longrightarrow> obs (rr_Subnet d) = Some (rr_Nexthop d)) \<Longrightarrow>
   reads_as w (create_routes api n obs ds ops) (Inr (Some ops))"
  by (induction ds) auto

lemma observed_map_Some: "observed_map nets i = Some x \<Longrightarrow> x \<in> set nets \<and> nw_Id x = i"
  unfolding observed_map_def by (auto dest!: map_of_SomeD)

lemma map_of_rev_pairs:
  "distinct (map f xs) \<Longrightarrow> x \<in> set xs \<Longrightarrow> map_of (rev (map (\<lambda>x. (f x, g x)) xs)) (f x) = Some (g x)"
  by (intro map_of_is_SomeI) (auto simp: rev_map[symmetric] o_def)

lemma same_keys:
  assumes "distinct (map f xs)" "length xs = length ys" "f ` set xs \<subseteq> g ` set ys"
  shows "g ` set ys = f ` set xs \<and> distinct (map g ys)"
proof -
  have c: "card (f ` set xs) = length ys" using distinct_card[OF assms(1)] assms(2) by simp
  have le: "card (g ` set ys) \<le> length ys" using card_length[of "map g ys"] by simp
  have eq: "f ` set xs = g ` set ys"
    using c le by (intro card_seteq[OF _ assms(3)]) simp_all
  with c have "distinct (map g ys)" by (intro card_distinct) simp
  with eq show ?thesis by simp
qed

lemma routes_match:
  assumes "distinct (map rr_Subnet ds)" "staticRoutesUpToDate ds rs"
  shows "\<forall>d \<in> set ds. observed_routes rs (rr_Subnet d) = Some (rr_Nexthop d)"
    and "\<forall>r \<in> set rs. declared_routes ds (sro_Subnet r) = Some (sro_Nexthop r)"
proof -
  from assms(2) have len: "length ds = length rs"
    and obs: "\<forall>d \<in> set ds. observed_routes rs (rr_Subnet d) = Some (rr_Nexthop d)"
    by (auto simp: staticRoutesUpToDate_def observed_routes_def list_all_iff split: if_splits)
  show "\<forall>d \<in> set ds. observed_routes rs (rr_Subnet d) = Some (rr_Nexthop d)" by (rule obs)
  have "rr_Subnet ` set ds \<subseteq> sro_Subnet ` set rs"
    using obs unfolding observed_routes_def by (force dest!: map_of_SomeD)
  note keys = same_keys[OF assms(1) len this]
  show "\<forall>r \<in> set rs. declared_routes ds (sro_Subnet r) = Some (sro_Nexthop r)"
  proof
    fix r assume r: "r \<in> set rs"
    with keys obtain d where d: "d \<in> set ds" "rr_Subnet d = sro_Subnet r" by (metis imageE imageI)
    have "observed_routes rs (sro_Subnet r) = Some (sro_Nexthop r)"
      unfolding observed_routes_def using keys r by (intro map_of_rev_pairs) simp_all
    with obs d have "rr_Nexthop d = sro_Nexthop r" by auto
    moreover have "declared_routes ds (rr_Subnet d) = Some (rr_Nexthop d)"
      unfolding declared_routes_def using assms(1) d(1) by (intro map_of_rev_pairs)
    ultimately show "declared_routes ds (sro_Subnet r) = Some (sro_Nexthop r)" using d(2) by simp
  qed
qed

lemma quiet_converge:
  assumes still: "still api rslv w"
    and ids: "distinct (map ra_NetworkID (re_resolvedNetworks e))" and subnets: "distinct (map rr_Subnet (re_resolvedRoutes e))"
    and blocked: "reads_as w (blockedNATRows api r nets (re_resolvedNetworks e) :: ('w, 'l, string list) router_act) (Inr bs)"
    and routes: "reads_as w (getStaticRoutes api n :: ('w, 'l, static_route_out list) router_act) (Inr rs)"
    and len: "length (re_resolvedNetworks e) = length nets"
    and cur: "list_all (attachment_current bs nets) (re_resolvedNetworks e)"
    and rts: "staticRoutesUpToDate (re_resolvedRoutes e) rs"
  shows "reads_as w (converge_router api e n r nets :: ('w, 'l, nat option) router_act) (Inr (Some 0))"
proof -
  let ?as = "re_resolvedNetworks e"
  have att: "\<exists>x. observed_map nets (ra_NetworkID a) = Some x \<and> nw_DhcpEnabled x = ra_DHCP a \<and>
      (ra_NATIP a = DerefString (nw_NatIp x) \<or>
       ra_NATIP a \<noteq> [] \<and> ra_NATIP a \<notin> routerOwnedIPs r \<and> unbindable api w (ra_NATIP a) TYPE('l))" if "a \<in> set ?as" for a
  proof -
    from cur that have "attachment_current bs nets a" by (simp add: list_all_iff)
    then obtain x where "observed_map nets (ra_NetworkID a) = Some x" "nw_DhcpEnabled x = ra_DHCP a"
        "ra_NATIP a = DerefString (nw_NatIp x) \<or> ra_NetworkID a \<in> set bs"
      by (auto simp: attachment_current_def split: option.splits if_splits)
    with blocked_spec[OF still ids blocked] that show ?thesis by blast
  qed
  then have "ra_NetworkID ` set ?as \<subseteq> nw_Id ` set nets"
    by (force dest: observed_map_Some)
  from same_keys[OF ids len this] have ids_eq: "nw_Id ` set nets = ra_NetworkID ` set ?as" by simp
  have none: "missing_networks nets ?as = []"
    using att by (auto simp: missing_networks_def filter_empty_conv)
  have conv: "reads_as w (converge_routes api e n 0 :: ('w, 'l, nat option) router_act) (Inr (Some 0))"
    unfolding converge_routes_def
    by (rule reads_as_bind[OF routes], rule reads_as_bind[OF quiet_delete])
       (use routes_match[OF subnets rts] in \<open>auto intro!: quiet_create\<close>)
  show ?thesis
    unfolding converge_router_def Let_def none attach_missing_def
    using ids_eq by (auto intro!: reads_as_and_then quiet_detach quiet_attachments att conv)
qed

section \<open>What \<^verbatim>\<open>Observe\<close> established\<close>

text \<open>The readings behind the verdict "up to date", as facts about the world it was given in.\<close>

definition current_at :: "'w resolver_iface \<Rightarrow> router_ext \<Rightarrow> 'l router_parameters \<Rightarrow> int option \<Rightarrow> 'w \<Rightarrow> router_out \<Rightarrow>
    network_out list \<Rightarrow> string list \<Rightarrow> bool" where
  "current_at rslv e fp locked w r nets bs \<longleftrightarrow> (\<exists>loc zone tier.
     ResolvePlacement (rp_Location fp) (rp_AvailabilityZone fp) = Inr (loc, zone) \<and>
     reads_as w (resolveTier rslv (re_pcRef e) (rp_PresetName fp) zone :: ('w, 'l, int) router_act) (Inr tier) \<and>
     rp_Name fp = rt_Name r \<and> DerefString (rp_Comment fp) = DerefString (rt_Comment r) \<and>
     length (re_resolvedNetworks e) = length nets \<and> list_all (attachment_current bs nets) (re_resolvedNetworks e) \<and>
     (\<forall>lp. locked = Some lp \<longrightarrow> lp = tier))"

lemma isRouterUpToDate_True:
  assumes "still api rslv w" "world s = w" "isRouterUpToDate rslv e r nets bs s = (Inr True, s')"
  shows "cr s' = cr s \<and> world s' = w \<and> current_at rslv e (for_provider (cr s)) (ro_LockedPresetID (at_provider (cr s))) w r nets bs"
proof -
  from assms(3) obtain loc zone tier where z: "ResolvePlacement (rp_Location (for_provider (cr s))) (rp_AvailabilityZone (for_provider (cr s))) = Inr (loc, zone)"
    and t: "resolveTier rslv (re_pcRef e) (rp_PresetName (for_provider (cr s))) zone s = (Inr tier, s')"
    and rest: "rp_Name (for_provider (cr s)) = rt_Name r" "DerefString (rp_Comment (for_provider (cr s))) = DerefString (rt_Comment r)"
     "length (re_resolvedNetworks e) = length nets" "list_all (attachment_current bs nets) (re_resolvedNetworks e)"
     "\<forall>lp. ro_LockedPresetID (at_provider (cr s)) = Some lp \<longrightarrow> lp = tier"
    unfolding isRouterUpToDate_def bindE_Inr gets_def Let_def
    by (auto simp: returnOk_def throwError_def bindE_Inr split: if_splits sum.splits option.splits prod.splits)
  from readerD[OF reader_resolveTier[OF assms(1)] t assms(2)] z rest show ?thesis
    unfolding current_at_def by blast
qed

definition routes_at :: "'w router_api \<Rightarrow> router_ext \<Rightarrow> string \<Rightarrow> 'w \<Rightarrow> 'l itself \<Rightarrow> bool" where
  "routes_at api e n w l \<longleftrightarrow> (\<exists>rs. reads_as w (getStaticRoutes api n :: ('w, 'l, static_route_out list) router_act) (Inr rs) \<and>
     staticRoutesUpToDate (re_resolvedRoutes e) rs)"

lemma observe_routes_True:
  fixes s s' :: "('w, router_req, 'l router_parameters, router_observation) rstate"
  assumes "still api rslv w" "world s = w" "observe_routes api rslv e n r nets bs s = (Inr ob, s')" "ResourceUpToDate ob"
  shows "world s' = w \<and> for_provider (cr s') = for_provider (cr s) \<and> external_name (cr s') = external_name (cr s) \<and>
    conditions (cr s') = conditions (cr s) \<and> routes_at api e n w TYPE('l) \<and>
    current_at rslv e (for_provider (cr s)) (ro_LockedPresetID (at_provider (cr s))) w r nets bs"
proof -
  from assms(3) obtain rs s1 s2 utd where g: "getStaticRoutes api n s = (Inr rs, s1)"
    and s2: "s2 = s1\<lparr>cr := (cr s1)\<lparr>at_provider := (at_provider (cr s1))\<lparr>ro_StaticRoutes :=
        map (\<lambda>x. \<lparr>srs_ID = sro_Id x, srs_Subnet = sro_Subnet x, srs_Nexthop = sro_Nexthop x\<rparr>) rs\<rparr>\<rparr>\<rparr>"
    and u: "isRouterUpToDate rslv e r nets bs s2 = (Inr utd, s')"
    and ob: "ob = present (utd \<and> staticRoutesUpToDate (re_resolvedRoutes e) rs)"
    unfolding observe_routes_def bindE_Inr map_resolver_error_Inr modify_cr_def returnOk_def by auto
  from ob assms(4) have utd: "utd = True" and rts: "staticRoutesUpToDate (re_resolvedRoutes e) rs" by simp_all
  from readerD[OF reader_reads(2)[OF assms(1)] g assms(2)]
  have g1: "reads_as w (getStaticRoutes api n :: ('w, 'l, static_route_out list) router_act) (Inr rs)" "world s1 = w" "cr s1 = cr s" by auto
  then have "world s2 = w" by (simp add: s2)
  from isRouterUpToDate_True[OF assms(1) this u[unfolded utd]] g1 rts show ?thesis
    unfolding routes_at_def by (auto simp: s2)
qed

lemma observe_router_True:
  fixes s s' :: "('w, router_req, 'l router_parameters, router_observation) rstate"
  assumes still: "still api rslv w" and w: "world s = w" and run: "observe_router api rslv e n r nets s = (Inr ob, s')"
    and utd: "ResourceUpToDate ob" and ready: "conditions (cr s') TypeReady \<noteq> Some (ReadyFalse ''UpstreamFailed'')"
  shows "world s' = w \<and> for_provider (cr s') = for_provider (cr s) \<and> external_name (cr s') = external_name (cr s) \<and>
    (EqualFold (rt_Status r) ''starting'' \<or>
     (\<exists>bs. reads_as w (blockedNATRows api r nets (re_resolvedNetworks e) :: ('w, 'l, string list) router_act) (Inr bs) \<and>
       routes_at api e n w TYPE('l) \<and>
       current_at rslv e (for_provider (cr s)) (ro_LockedPresetID (at_provider (populateRouterStatus r nets (cr s)))) w r nets bs))"
proof (cases "EqualFold (rt_Status r) ''starting''")
  case True
  with run w show ?thesis
    by (auto simp: observe_router_def bindE_Inr modify_cr_def gets_def setRouterReadyCondition_def record_and_set_run returnOk_def
        populateRouterStatus_def split: sum.splits if_splits)
next
  case False
  define p where "p = populateRouterStatus r nets (cr s)"
  let ?s0 = "s\<lparr>cr := p\<rparr>" and ?fp = "for_provider p"
  define m1 where "m1 = SetConditions (router_ready_condition (rt_Status r)) (cr ?s0)"
  define s1 where "s1 = ?s0\<lparr>events := events_after (router_ready_condition (rt_Status r)) ?s0, cr := m1\<rparr>"
  have no_fail: "bindE (record_and_set (ReadyFalse ''UpstreamFailed'')) (\<lambda>_. returnOk (present True)) ?s0 \<noteq> (Inr ob, s')"
    using ready by (auto simp: bindE_record_and_set returnOk_def SetConditions_def ReadyFalse_def)
  have run0: "(case ResolvePlacement (rp_Location ?fp) (rp_AvailabilityZone ?fp) of
       Inl err \<Rightarrow> bindE (record_and_set (ReadyFalse ''UpstreamFailed'')) (\<lambda>_. returnOk (present True))
     | Inr (_, resolvedZone) \<Rightarrow>
         if rt_Zone r \<noteq> [] \<and> rt_Zone r \<noteq> resolvedZone
         then bindE (record_and_set (ReadyFalse ''UpstreamFailed'')) (\<lambda>_. returnOk (present True))
         else
           bindE (setRouterReadyCondition (rt_Status r)) (\<lambda>_.
           if EqualFold (rt_Status r) ''starting'' then returnOk (present True)
           else
             bindE (blockedNATRows api r nets (re_resolvedNetworks e)) (\<lambda>blocked.
             bindE (if blocked \<noteq> [] then record_and_set (ReadyFalse ''NATIPUnavailable'') else returnOk ()) (\<lambda>_.
             observe_routes api rslv e n r nets blocked)))) ?s0 = (Inr ob, s')"
    using run by (simp add: observe_router_def bindE_modify_cr bindE_gets p_def)
  let ?after = "bindE (blockedNATRows api r nets (re_resolvedNetworks e)) (\<lambda>blocked.
      bindE (if blocked \<noteq> [] then record_and_set (ReadyFalse ''NATIPUnavailable'') else returnOk ()) (\<lambda>_.
      observe_routes api rslv e n r nets blocked))"
  have run1: "?after s1 = (Inr ob, s')"
  proof (cases "ResolvePlacement (rp_Location ?fp) (rp_AvailabilityZone ?fp)")
    case (Inl err)
    with run0 no_fail show ?thesis by simp
  next
    case (Inr lz)
    obtain loc zone where lz: "lz = (loc, zone)" by (cases lz)
    show ?thesis
    proof (cases "rt_Zone r \<noteq> [] \<and> rt_Zone r \<noteq> zone")
      case True
      from run0[unfolded Inr lz sum.case prod.case if_P[OF True]] no_fail show ?thesis by blast
    next
      case bad: False
      from run0[unfolded Inr lz sum.case prod.case if_not_P[OF bad] if_not_P[OF False]]
      show ?thesis unfolding setRouterReadyCondition_def bindE_record_and_set s1_def m1_def .
    qed
  qed
  have s1: "world s1 = w" "cr s1 = m1" using w by (simp_all add: s1_def)
  from run1[unfolded bindE_Inr[of "blockedNATRows _ _ _ _"]] obtain bs s2 where
    b: "blockedNATRows api r nets (re_resolvedNetworks e) s1 = (Inr bs, s2)"
    and r2: "bindE (if bs \<noteq> [] then record_and_set (ReadyFalse ''NATIPUnavailable'') else returnOk ()) (\<lambda>_.
      observe_routes api rslv e n r nets bs) s2 = (Inr ob, s')" by blast
  from r2[unfolded bindE_Inr[of "if _ then _ else _"]] obtain u s3 where
    s23: "(if bs \<noteq> [] then record_and_set (ReadyFalse ''NATIPUnavailable'') else returnOk ()) s2 = (Inr u, s3)"
    and o: "observe_routes api rslv e n r nets bs s3 = (Inr ob, s')" by blast
  from s23 have s3: "world s3 = world s2" "cr s3 = cr s2 \<or> cr s3 = SetConditions (ReadyFalse ''NATIPUnavailable'') (cr s2)"
    by (auto simp: record_and_set_run returnOk_def split: if_splits)
  from readerD[OF reader_blocked[OF still] b s1(1)] s3(1)
  have b1: "reads_as w (blockedNATRows api r nets (re_resolvedNetworks e) :: ('w, 'l, string list) router_act) (Inr bs)"
    and s2: "cr s2 = cr s1" "world s3 = w" by auto
  from s3(2) s2 s1(2) have m: "for_provider (cr s3) = for_provider (cr s)" "external_name (cr s3) = external_name (cr s)"
    "at_provider (cr s3) = at_provider (populateRouterStatus r nets (cr s))"
    by (auto simp: m1_def p_def populateRouterStatus_def)
  from observe_routes_True[OF still s2(2) o utd] b1 m show ?thesis by auto
qed

section \<open>Stability\<close>

lemma quiet_pass:
  fixes fp :: "'l router_parameters"
  assumes "reads_as w (converge_router api e n r nets :: ('w, 'l, nat option) router_act) (Inr x)"
    and "rp_Name fp = rt_Name r" "DerefString (rp_Comment fp) = DerefString (rt_Comment r)"
  shows "reads_as w (router_pass api e n fp r nets) (Inr ())"
  using assms by (auto simp: router_pass_def patch_router_def intro!: reads_as_bind)

lemma reads_as_map_resolver_error:
  "reads_as w m (Inr x) \<Longrightarrow> reads_as w (map_resolver_error m) (Inr x)"
  unfolding reads_as_def map_resolver_error_def attempt_def bindE_def returnOk_def by fastforce

text \<open>What Update does once it has read the router and its networks.\<close>

definition update_read :: "'w router_api \<Rightarrow> 'w resolver_iface \<Rightarrow> router_ext \<Rightarrow> string \<Rightarrow> 'l router_parameters \<Rightarrow> router_out \<times> network_out list \<Rightarrow> ('w, 'l, unit) router_act" where
  "update_read api rslv e n fp = (\<lambda>(r, nets). if EqualFold (rt_Status r) ''starting'' then returnOk ()
     else if re_resolvedNetworks e = [] then blockNoNetworks
     else (case ResolvePlacement (rp_Location fp) (rp_AvailabilityZone fp) of
         Inl err \<Rightarrow> throwError (Wrap ''network/router'' err)
       | Inr (_, zone) \<Rightarrow>
           bindE (map_resolver_error (resolveTier rslv (re_pcRef e) (rp_PresetName fp) zone)) (\<lambda>tierID.
           if rt_PresetId r \<noteq> 0 \<and> tierID \<noteq> rt_PresetId r then RejectImmutableChange ''presetName''
           else router_pass api e n fp r nets)))"

lemma update_read_quiet:
  fixes s s1 :: "('w, router_req, 'l router_parameters, router_observation) rstate"
  assumes still: "still api rslv (world s)"
    and distinct: "distinct (map ra_NetworkID (re_resolvedNetworks e))" "distinct (map rr_Subnet (re_resolvedRoutes e))"
    and nets: "re_resolvedNetworks e \<noteq> []"
    and o: "observe_router api rslv e n rt nw s = (Inr ob, s1)" "ResourceUpToDate ob"
    and ready: "conditions (cr s1) TypeReady \<noteq> Some (ReadyFalse ''UpstreamFailed'')"
  shows "reads_as (world s) (update_read api rslv e n (for_provider (cr s)) (rt, nw)) (Inr ())"
proof (cases "EqualFold (rt_Status rt) ''starting''")
  case True
  then show ?thesis by (simp add: update_read_def)
next
  case False
  let ?w = "world s"
  define fp where "fp = for_provider (cr s)"
  note facts = observe_router_True[OF still refl o ready]
  with False obtain bs where bs: "reads_as ?w (blockedNATRows api rt nw (re_resolvedNetworks e) :: ('w, 'l, string list) router_act) (Inr bs)"
    and rts: "routes_at api e n ?w TYPE('l)"
    and c: "current_at rslv e fp (ro_LockedPresetID (at_provider (populateRouterStatus rt nw (cr s)))) ?w rt nw bs"
    by (auto simp: fp_def)
  from c obtain loc zone tier where z: "ResolvePlacement (rp_Location fp) (rp_AvailabilityZone fp) = Inr (loc, zone)"
    and t: "reads_as ?w (resolveTier rslv (re_pcRef e) (rp_PresetName fp) zone :: ('w, 'l, int) router_act) (Inr tier)"
    and cur: "rp_Name fp = rt_Name rt" "DerefString (rp_Comment fp) = DerefString (rt_Comment rt)"
      "length (re_resolvedNetworks e) = length nw" "list_all (attachment_current bs nw) (re_resolvedNetworks e)"
    and lp: "rt_PresetId rt \<noteq> 0 \<longrightarrow> rt_PresetId rt = tier"
    unfolding current_at_def by (auto simp: populateRouterStatus_def)
  from rts obtain rs where rs: "reads_as ?w (getStaticRoutes api n :: ('w, 'l, static_route_out list) router_act) (Inr rs)"
      "staticRoutesUpToDate (re_resolvedRoutes e) rs" unfolding routes_at_def by blast
  note pass = quiet_pass[OF quiet_converge[OF still distinct bs rs(1) cur(3,4) rs(2)] cur(1,2)]
  show ?thesis
    using False nets z lp by (auto simp: update_read_def fp_def[symmetric] intro!: reads_as_bind[OF reads_as_map_resolver_error[OF t]] pass)
qed


text \<open>The service of \<open>wit_router_api\<close>, settled: its networks are as declared.\<close>

definition wit_settled_api :: "floating_ip list router_api" where
  "wit_settled_api w q = (case q of
     GetNetworks n \<Rightarrow> (Resp (ok_response (PNetworks [\<lparr>nw_Id = ''network-a'', nw_Name = ''a'', nw_Gateway = None,
        nw_NatIp = Some ''203.0.113.9'', nw_DhcpEnabled = True, nw_ReservedIps = []\<rparr>, \<lparr>nw_Id = ''network-b'', nw_Name = ''b'',
        nw_Gateway = None, nw_NatIp = None, nw_DhcpEnabled = False, nw_ReservedIps = []\<rparr>])), w)
   | _ \<Rightarrow> wit_router_api w q)"

definition wit_settled_state :: "(floating_ip list, router_req, unit router_parameters, router_observation) rstate" where
  "wit_settled_state = wit_state wit_fips wit_router_mr"

definition wit_observed :: "(go_error + observation) \<times> (floating_ip list, router_req, unit router_parameters, router_observation) rstate" where
  "wit_observed = router_Observe wit_settled_api wit_resolver wit_router_ext wit_settled_state"


end
