(* ===== verification/RouterTier.thy ===== *)
theory RouterTier
  imports RouterLifecycle
begin

text \<open>
  The Router handlers with the resolver of the program instead of a parameter: the process keeps the catalog
  cache beside the outside world, \<open>resolver_of\<close> is \<open>Resolve\<close> on that cache, and requests of the handler do not
  touch the cache.
\<close>

section \<open>One process: the cache beside the outside world\<close>

definition resolver_of :: "'w catalog_client \<Rightarrow> int \<Rightarrow> int \<Rightarrow> int \<Rightarrow> (cache \<times> 'w) resolver_iface" where
  "resolver_of client t1 t2 t3 pc dim inp cw =
     (case Resolve client t1 t2 t3 pc dim inp (fst cw) (snd cw) of (r, c', w') \<Rightarrow> (r, (c', w')))"

definition beside_cache :: "('w, 'q, 'p) api \<Rightarrow> (cache \<times> 'w, 'q, 'p) api" where
  "beside_cache api cw q = (case api (snd cw) q of (r, w') \<Rightarrow> (r, (fst cw, w')))"

lemma beside_cache_fst [simp]: "fst (snd (beside_cache api cw q)) = fst cw"
  by (simp add: beside_cache_def split: prod.split)

text \<open>On a cold cache, a preset that \<^verbatim>\<open>Resolve\<close> returns for a router is in the catalog the API answered.\<close>

lemma resolve_router_preset:
  assumes client: "\<And>w. fst (client w GetRouterPresets) = CatalogResp 200 (Some (RouterPresets l))"
    and res: "Resolve client t1 t2 t3 pc router_dim (PresetInput inp) (newCache ttl) w = (Inr out, c', w')"
    and loc: "pi_Location inp \<noteq> []"
  shows "\<exists>p \<in> set l. out = PresetOutput (rt_id p) \<and> (rt_location p = [] \<or> rt_location p = pi_Location inp)"
proof -
  from Resolve_Inr[OF res] obtain def p where d: "map_of defaultRegistry (dim_Name router_dim) = Some def"
      "getOrFetch t1 t2 t3 (pc, router_dim) (def_fetch def client) (newCache ttl) w = (Inr p, c', w')"
      "resolve_payload router_dim p (PresetInput inp) = Inr out" by metis
  have df: "def_fetch def = fetchRouterPresets" using d(1) by (simp add: router_dim_def defaultRegistry_def) auto
  have "fst (store_result (pc, router_dim) t3 (fst (def_fetch def client w)) (newCache ttl)) = Inr p"
    using d(2) by (auto simp: getOrFetch_def cached_def newCache_def split: prod.splits)
  then have p: "p = PresetPayload (map (\<lambda>p. \<lparr>pe_UpstreamID = rt_id p,
      pe_DescShort = ''router-'' @ Itoa (rt_node_count p) @ ''x'' @ Itoa (rt_cpu p) @ ''-'' @ Itoa (rt_ram p) @ ''gb'',
      pe_Location = rt_location p, pe_DiskGB = 0, pe_StorageClass = [], pe_Zone = rt_location p\<rparr>) l)"
    using client[of w] by (auto simp: df fetchRouterPresets_def catalog_get_def store_result_def split: if_splits prod.splits)
  from d(3) obtain n where out: "out = PresetOutput n"
    and m: "MatchPresetSlug (pi_Slug inp) (location_filter (pi_Location inp) (zone_filter (pi_Zone inp)
        (case p of PresetPayload es \<Rightarrow> es | _ \<Rightarrow> []))) (dim_Name router_dim) = Inr n"
    by (auto simp: resolve_payload_def resolve_preset_def map_sum_def p router_dim_def split: sum.splits)
  from match_slug_sound[OF m] obtain e where
    "e \<in> set (location_filter (pi_Location inp) (zone_filter (pi_Zone inp) (case p of PresetPayload es \<Rightarrow> es | _ \<Rightarrow> [])))"
    "pe_UpstreamID e = n" by blast
  then show ?thesis using loc out by (auto simp: p location_filter_def zone_filter_def split: if_splits)
qed

lemma post_router_tier:
  assumes "post_router api rslv e s = (r, s')" "CreateRouter b \<in> set (reqs s')" "CreateRouter b \<notin> set (reqs s)"
  shows "\<exists>loc zone tier s1. ResolvePlacement (rp_Location (for_provider (cr s))) (rp_AvailabilityZone (for_provider (cr s))) = Inr (loc, zone) \<and>
    resolveTier rslv (re_pcRef e) (rp_PresetName (for_provider (cr s))) zone s = (Inr tier, s1) \<and> rin_PresetId b = tier"
proof -
  let ?fp = "for_provider (cr s)"
  have no: "m s = (q, t) \<Longrightarrow> emits (\<lambda>_. False) m \<Longrightarrow> CreateRouter b \<notin> set (reqs t)" for q t and m :: "('a, 'b, 'x) router_act"
    using assms(3) by (auto simp: emits_False_iff)
  have ne: "re_resolvedNetworks e \<noteq> []"
  proof
    assume "re_resolvedNetworks e = []"
    with assms(1) have "blockNoNetworks s = (r, s')" by (simp add: post_router_def)
    from no[OF this emits_blockNoNetworks] assms(2) show False by blast
  qed
  then obtain loc zone where pl: "ResolvePlacement (rp_Location ?fp) (rp_AvailabilityZone ?fp) = Inr (loc, zone)"
    using assms by (auto simp: post_router_def bindE_gets throwError_run split: sum.splits)
  let ?t = "map_resolver_error (resolveTier rslv (re_pcRef e) (rp_PresetName ?fp) zone)"
  obtain q1 s1 where t: "?t s = (q1, s1)" by (cases "?t s")
  have "emits (\<lambda>_. False) ?t" by (intro emits_rules)
  with no t have n1: "CreateRouter b \<notin> set (reqs s1)" by blast
  from assms ne pl t n1 obtain tier where tier: "q1 = Inr tier"
    by (cases q1) (auto simp: post_router_def bindE_def gets_run)
  let ?B = "buildCreateRouterBody ?fp tier (re_resolvedNetworks e) (re_resolvedProjectID e)"
  have rest: "bindE (fetch api ''network/router'' as_router (CreateRouter ?B)) (\<lambda>r. bindE (modify_cr (\<lambda>m. m\<lparr>external_name := rt_Id r\<rparr>))
      (\<lambda>_. record_and_set Creating)) s1 = (r, s')"
    using assms(1) ne pl t tier by (simp add: post_router_def bindE_def gets_run)
  have "emits (\<lambda>q. q = CreateRouter ?B) (bindE (fetch api ''network/router'' as_router (CreateRouter ?B))
      (\<lambda>r. bindE (modify_cr (\<lambda>m. m\<lparr>external_name := rt_Id r\<rparr>)) (\<lambda>_. record_and_set Creating :: ('a, 'b, unit) router_act)))"
    by (intro emits_rules refl)
  from emitsD[OF this rest] n1 assms(2) have "b = ?B" by (auto simp: list_all_iff)
  with pl t tier show ?thesis by (auto simp: map_resolver_error_Inr buildCreateRouterBody_def Let_def)
qed

text \<open>
  C9. The tier \<^verbatim>\<open>Create\<close> posts is a tier of the router catalog in the location of the declared placement: with
  the resolver of the program and a cold cache, every POST of a router carries the id of a catalog preset whose
  location is the one of the resolved zone (or unset).
\<close>

theorem router_Create_tier_in_location:
  assumes client: "\<And>w. fst (client w GetRouterPresets) = CatalogResp 200 (Some (RouterPresets l))"
    and cold: "fst (world s) = newCache ttl" and fresh: "reqs s = []"
    and run: "router_Create (beside_cache api) (resolver_of client t1 t2 t3) e s = (r, s')" "CreateRouter b \<in> set (reqs s')"
  shows "\<exists>loc zone location. \<exists>p \<in> set l.
    ResolvePlacement (rp_Location (for_provider (cr s))) (rp_AvailabilityZone (for_provider (cr s))) = Inr (loc, zone) \<and>
    AZToLocation zone = Inr location \<and> rin_PresetId b = rt_id p \<and> (rt_location p = [] \<or> rt_location p = location)"
proof -
  let ?rslv = "resolver_of client t1 t2 t3"
  obtain s0 where s0: "post_router (beside_cache api) ?rslv e s0 = (r, s')" "fst (world s0) = newCache ttl" "cr s0 = cr s"
    "CreateRouter b \<notin> set (reqs s0)"
  proof (cases "create_incomplete (cr s) \<or> create_failed (cr s) \<noteq> []")
    case False
    with run cold fresh show ?thesis by (intro that[of s]) (auto simp: router_Create_def bindE_gets)
  next
    case True
    let ?f = "findRoutersByName (beside_cache api) (rp_Name (for_provider (cr s))) :: (_, _, _) router_act"
    obtain q s1 where f: "?f s = (q, s1)" by (cases "?f s")
    then have s1: "reqs s1 = [GetRouters]" "cr s1 = cr s" "fst (world s1) = newCache ttl"
      using cold fresh
      by (auto simp: findRoutersByName_def fetch_def bindE_def call_classify_run decode_def returnOk_run throwError_run
          split: sum.splits option.splits)
    with run f True show ?thesis
      by (intro that[of s1]) (auto simp: router_Create_def gets_run bindE_def throwError_run modify_cr_run split: sum.splits list.splits)
  qed
  from post_router_tier[OF s0(1) run(2) s0(4)] s0(3) obtain loc zone tier s1 where
    pl: "ResolvePlacement (rp_Location (for_provider (cr s))) (rp_AvailabilityZone (for_provider (cr s))) = Inr (loc, zone)"
    and t: "resolveTier ?rslv (re_pcRef e) (rp_PresetName (for_provider (cr s))) zone s0 = (Inr tier, s1)" and b: "rin_PresetId b = tier"
    by auto
  from t obtain location out c' w' where location: "AZToLocation zone = Inr location" "out = PresetOutput tier"
    "Resolve client t1 t2 t3 (re_pcRef e) router_dim (PresetInput \<lparr>pi_Slug = rp_PresetName (for_provider (cr s)), pi_Zone = location,
       pi_Location = location\<rparr>) (newCache ttl) (snd (world s0)) = (Inr out, c', w')"
    using s0(2) by (auto simp: resolveTier_def bindE_def run_resolver_def resolver_of_def throwError_run returnOk_run
        split: sum.splits prod.splits resolve_output.splits)
  have "location \<noteq> []" using location(1) by (auto simp: AZToLocation_iff LocationZones_empty_location)
  with resolve_router_preset[OF client location(3)] location(1,2) pl b show ?thesis by auto
qed

text \<open>A catalog with the tier in two locations, and a service that creates what it is asked.\<close>

definition wit_tiers :: "router_preset list" where
  "wit_tiers = map (\<lambda>(n, loc). \<lparr>rt_id = n, rt_node_count = 1, rt_cpu = 1, rt_ram = 1, rt_location = loc\<rparr>) [(8, ''nl-1''), (7, ''ru-3'')]"

definition wit_tier_client :: "unit catalog_client" where
  "wit_tier_client w q = (CatalogResp 200 (Some (RouterPresets wit_tiers)), w)"

definition wit_tier_api :: "unit router_api" where
  "wit_tier_api w q = (Resp (ok_response (PRouter wit_found)), w)"

definition wit_tier_state :: "(cache \<times> unit, router_req, unit router_parameters, router_observation) rstate" where
  "wit_tier_state = wit_state (newCache 300, ()) (wit_router_mr\<lparr>external_name := [], create_incomplete := False, create_failed := [],
     for_provider := (for_provider wit_router_mr)\<lparr>rp_PresetName := ''router-1x1-1gb'', rp_Location := ''ru-3'', rp_AvailabilityZone := Some ''msk-1''\<rparr>\<rparr>)"

definition wit_tier_run :: "(go_error + unit) \<times> (cache \<times> unit, router_req, unit router_parameters, router_observation) rstate" where
  "wit_tier_run = router_Create (beside_cache wit_tier_api) (resolver_of wit_tier_client 0 0 0) wit_router_ext wit_tier_state"

lemma wit_tier_resolves:
  "fst (resolver_of wit_tier_client 0 0 0 wit_pc router_dim
     (PresetInput \<lparr>pi_Slug = ''router-1x1-1gb'', pi_Zone = ''ru-3'', pi_Location = ''ru-3''\<rparr>) (newCache 300, ())) = Inr (PresetOutput 7)"
    (is "fst (resolver_of _ _ _ _ _ _ ?inp _) = _")
proof -
  let ?p = "PresetPayload (map (\<lambda>p. \<lparr>pe_UpstreamID = rt_id p,
          pe_DescShort = ''router-'' @ Itoa (rt_node_count p) @ ''x'' @ Itoa (rt_cpu p) @ ''-'' @ Itoa (rt_ram p) @ ''gb'',
          pe_Location = rt_location p, pe_DiskGB = 0, pe_StorageClass = [], pe_Zone = rt_location p\<rparr>) wit_tiers)"
  have d: "map_of defaultRegistry (dim_Name router_dim) = Some \<lparr>def_kind = DimensionPreset, def_fetch = fetchRouterPresets\<rparr>"
    by (simp add: router_dim_def defaultRegistry_def)
  have k: "def_kind \<lparr>def_kind = DimensionPreset, def_fetch = fetchRouterPresets\<rparr> = dim_Kind router_dim" by (simp add: router_dim_def)
  have f: "fst (def_fetch \<lparr>def_kind = DimensionPreset, def_fetch = fetchRouterPresets\<rparr> wit_tier_client ()) = Inr ?p"
    by (simp add: fetchRouterPresets_def catalog_get_def wit_tier_client_def)
  have ne: "\<not> isEmptySlice ?p" by (simp add: isEmptySlice_def wit_tiers_def)
  have "resolve_payload router_dim ?p ?inp = Inr (PresetOutput 7)" by code_simp
  then have "fst (Resolve wit_tier_client 0 0 0 wit_pc router_dim ?inp (newCache 300) ()) = Inr (PresetOutput 7)"
    unfolding Resolve_newCache[OF d k f ne] .
  then show ?thesis by (simp add: resolver_of_def case_prod_beta)
qed

theorem router_Create_tier_in_location_witness:
  "\<exists>b. reqs (snd wit_tier_run) = [CreateRouter b] \<and> rin_PresetId b = 7"
proof -
  let ?rslv = "resolver_of wit_tier_client 0 0 0" and ?api = "beside_cache wit_tier_api"
  let ?inp = "PresetInput \<lparr>pi_Slug = ''router-1x1-1gb'', pi_Zone = ''ru-3'', pi_Location = ''ru-3''\<rparr>"
  obtain r s' where run: "router_Create ?api ?rslv wit_router_ext wit_tier_state = (r, s')"
    by fastforce
  have az: "AZToLocation ''msk-1'' = Inr ''ru-3''" "ResolvePlacement ''ru-3'' (Some ''msk-1'') = Inr (''ru-3'', ''msk-1'')"
    by code_simp+
  have st: "world wit_tier_state = (newCache 300, ())" "reqs wit_tier_state = []" "create_failed (cr wit_tier_state) = []"
    "\<not> create_incomplete (cr wit_tier_state)" "rp_PresetName (for_provider (cr wit_tier_state)) = ''router-1x1-1gb''"
    "rp_Location (for_provider (cr wit_tier_state)) = ''ru-3''" "rp_AvailabilityZone (for_provider (cr wit_tier_state)) = Some ''msk-1''"
    by (simp_all add: wit_tier_state_def wit_state_def wit_router_mr_def)
  obtain cw where "?rslv wit_pc router_dim ?inp (newCache 300, ()) = (Inr (PresetOutput 7), cw)"
    using wit_tier_resolves by (metis prod.collapse)
  then have t: "resolveTier ?rslv (re_pcRef wit_router_ext) ''router-1x1-1gb'' ''msk-1'' wit_tier_state = (Inr 7, wit_tier_state\<lparr>world := cw\<rparr>)"
    by (simp add: resolveTier_def az bindE_def run_resolver_def st wit_router_ext_def returnOk_run)
  have ne: "re_resolvedNetworks wit_router_ext \<noteq> []" by (simp add: wit_router_ext_def wit_attachments_def)
  have api: "classify_result (fst (?api w q)) = Inr (ok_response (PRouter wit_found))" for w q
    by (simp add: beside_cache_def wit_tier_api_def classify_result_def Classify_def ok_response_def split: prod.split)
  have "\<exists>b. reqs s' = [CreateRouter b]"
    using run st ne t
    by (auto simp: router_Create_def bindE_gets post_router_def az bindE_def gets_run map_resolver_error_def attempt_def returnOk_run
        fetch_def call_classify_run api decode_def ok_response_def modify_cr_run record_and_set_run)
  then obtain b where b: "reqs s' = [CreateRouter b]" by blast
  have client: "fst (wit_tier_client w GetRouterPresets) = CatalogResp 200 (Some (RouterPresets wit_tiers))" for w
    by (simp add: wit_tier_client_def)
  have "fst (world wit_tier_state) = newCache 300" by (simp add: st)
  from router_Create_tier_in_location[OF client this st(2) run, of b] b az st show ?thesis
    by (auto simp: wit_tiers_def wit_tier_run_def run)
qed

end
