(* ===== verification/SSHKeyExternal.thy ===== *)
theory SSHKeyExternal
  imports ExternalClient
begin

text \<open>
  The SSHKey kind: \<^verbatim>\<open>internal/controller/sshkey/external.go\<close>. Name and body are immutable, only the
  default flag is patched.
\<close>

record sshkey_parameters =
  kp_Name :: string
  kp_Body :: string
  kp_IsDefault :: "bool option"

record sshkey_observation =
  ko_ID :: "int option"
  ko_CreatedAt :: "string option"
  ko_UsedBy :: "(int \<times> string) list"

text \<open>\<open>sk_CreatedAt\<close> is the creation time as \<^verbatim>\<open>populateStatus\<close> formats it.\<close>

record ssh_key =
  sk_Id :: int
  sk_Name :: string
  sk_Body :: string
  sk_IsDefault :: "bool option"
  sk_CreatedAt :: string
  sk_UsedBy :: "(int \<times> string) list"

datatype sshkey_req = GetKey int | CreateKey string string bool | UpdateKey int "bool option" | DeleteKey int

type_synonym sshkey_mr = "(sshkey_parameters, sshkey_observation) mr"
type_synonym ('w, 'a) sshkey_act = "('w, sshkey_req, sshkey_parameters, sshkey_observation, 'a) act"
type_synonym 'w sshkey_api = "('w, sshkey_req, ssh_key) api"

definition sshkey_populateStatus :: "ssh_key \<Rightarrow> sshkey_mr \<Rightarrow> sshkey_mr" where
  "sshkey_populateStatus k m = m\<lparr>at_provider := \<lparr>ko_ID = Some (float32_int (sk_Id k)), ko_CreatedAt = Some (sk_CreatedAt k),
     ko_UsedBy = map (\<lambda>(n, name). (float32_int n, name)) (sk_UsedBy k)\<rparr>\<rparr>"

definition sshkey_isUpToDate :: "sshkey_parameters \<Rightarrow> ssh_key \<Rightarrow> bool" where
  "sshkey_isUpToDate spec k \<longleftrightarrow>
     (if DerefBool (kp_IsDefault spec) \<noteq> DerefBool (sk_IsDefault k) then False
      else if kp_Name spec \<noteq> sk_Name k \<or> kp_Body spec \<noteq> sk_Body k then False else True)"

definition sshkey_observed :: "ssh_key \<Rightarrow> ('w, observation) sshkey_act" where
  "sshkey_observed k =
     bindE (modify_cr (sshkey_populateStatus k)) (\<lambda>_.
     bindE (record_and_set Available) (\<lambda>_.
     bindE (gets for_provider) (\<lambda>fp. returnOk (present (sshkey_isUpToDate fp k)))))"

definition sshkey_Observe :: "'w sshkey_api \<Rightarrow> ('w, observation) sshkey_act" where
  "sshkey_Observe api =
     bindE (gets external_name) (\<lambda>extName.
     if extName = [] then returnOk absent
     else (case DecodeID extName of
             None \<Rightarrow> returnOk absent
           | Some n \<Rightarrow> fetch_or_absent api ''sshkey'' Some (GetKey n) sshkey_observed))"

definition sshkey_Create :: "'w sshkey_api \<Rightarrow> ('w, unit) sshkey_act" where
  "sshkey_Create api =
     bindE (gets for_provider) (\<lambda>fp.
     bindE (fetch api ''sshkey'' Some (CreateKey (kp_Name fp) (kp_Body fp) (DerefBool (kp_IsDefault fp)))) (\<lambda>k.
     bindE (modify_cr (\<lambda>m. m\<lparr>external_name := EncodeID (float32_int (sk_Id k))\<rparr>)) (\<lambda>_.
     bindE (modify_cr (sshkey_populateStatus k)) (\<lambda>_.
     record_and_set Creating))))"

definition sshkey_Update :: "'w sshkey_api \<Rightarrow> ('w, unit) sshkey_act" where
  "sshkey_Update api =
     bindE (gets external_name) (\<lambda>extName.
     case DecodeID extName of
       None \<Rightarrow> throwError (Errorf ''sshkey: decode external-name'')
     | Some n \<Rightarrow>
         bindE (fetch api ''sshkey'' Some (GetKey n)) (\<lambda>k.
         bindE (gets for_provider) (\<lambda>fp.
         case FirstImmutableDiff [imm ''body'' (kp_Body fp) (sk_Body k), imm ''name'' (kp_Name fp) (sk_Name k)] of
           Some field \<Rightarrow> RejectImmutableChange field
         | None \<Rightarrow> write_call api (UpdateKey n (kp_IsDefault fp)))))"

definition sshkey_Delete :: "'w sshkey_api \<Rightarrow> ('w, unit) sshkey_act" where
  "sshkey_Delete api =
     bindE (gets external_name) (\<lambda>extName.
     case DecodeID extName of
       None \<Rightarrow> returnOk ()
     | Some n \<Rightarrow> delete_or_gone api (DeleteKey n) (modify_cr (SetConditions Deleting)))"

definition sshkey_get_req :: "sshkey_mr \<Rightarrow> sshkey_req option" where
  "sshkey_get_req m = map_option GetKey (DecodeID (external_name m))"

definition sshkey_del_req :: "sshkey_mr \<Rightarrow> sshkey_req option" where
  "sshkey_del_req m = map_option DeleteKey (DecodeID (external_name m))"

interpretation sshkey: external_client api "sshkey_Observe api" "sshkey_Delete api" sshkey_get_req sshkey_del_req for api
  by (rule external_clientI[where pfx = "''sshkey''" and sel = Some and d = "modify_cr (SetConditions Deleting)"
        and k = sshkey_observed])
     (auto simp: sshkey_Observe_def sshkey_Delete_def sshkey_get_req_def sshkey_del_req_def sshkey_observed_def
       split: option.splits intro!: reports_present_bindE)

section \<open>Properties\<close>

text \<open>
  Deleting an SSHKey (and so dropping its finalizer) succeeds only when the service accepted the
  DELETE of exactly the recorded key or confirmed that it is gone; a key whose deletion failed is kept.
\<close>

theorem sshkey_Delete_sound:
  assumes "sshkey_Delete api s = (Inr (), s')" "DecodeID (external_name (cr s)) = Some n"
  shows "\<exists>resp. fst (api (world s) (DeleteKey n)) = Resp resp \<and>
    (resp_status resp \<in> {200..<300} \<or> resp_status resp = 404 \<and> canonical_envelope (resp_body resp))"
  using sshkey.delete_means_gone[OF assms(1)] assms(2) by (simp add: sshkey_del_req_def)

definition wit_key_mr :: sshkey_mr where
  "wit_key_mr = \<lparr>external_name = ''5'', create_incomplete = False, create_failed = [],
     for_provider = \<lparr>kp_Name = ''laptop'', kp_Body = ''ssh-ed25519 AAAA'', kp_IsDefault = None\<rparr>,
     at_provider = \<lparr>ko_ID = None, ko_CreatedAt = None, ko_UsedBy = []\<rparr>, conditions = Map.empty\<rparr>"

theorem sshkey_Delete_sound_witness:
  "fst (sshkey_Delete (\<lambda>w q. (Resp gone_response, w)) (wit_state () wit_key_mr)) = Inr () \<and>
   canonical_envelope (resp_body (gone_response :: ssh_key http_response))"
proof -
  let ?d = "sshkey_Delete (\<lambda>w q. (Resp gone_response, w)) (wit_state () wit_key_mr)"
  have h: "fst ?d = Inr ()" by code_simp
  then obtain s' where d: "?d = (Inr (), s')" by (cases ?d) auto
  have "DecodeID (external_name (cr (wit_state () wit_key_mr))) = Some 5" by code_simp
  from sshkey_Delete_sound[OF d this] h show ?thesis by (auto simp: gone_response_def)
qed

text \<open>
  A key whose default flag is set upstream but not declared is reported as drifted, and the PATCH that
  follows omits the flag.
\<close>

lemma sshkey_nil_default_omitted:
  assumes "DecodeID (external_name (cr s)) = Some n" "answers api (world s) (GetKey n) k w'"
    and "kp_Name fp = sk_Name k" "kp_Body fp = sk_Body k" "kp_IsDefault fp = None" "sk_IsDefault k = Some True"
    and "fp = for_provider (cr s)"
  shows "\<not> sshkey_isUpToDate fp k \<and>
    sshkey_Update api s = write_call api (UpdateKey n None) (s\<lparr>world := w', reqs := reqs s @ [GetKey n]\<rparr>)"
  using assms by (simp add: sshkey_isUpToDate_def sshkey_Update_def fetch_run[OF assms(2)])

end
