(* ===== verification/K8sSizing.thy ===== *)
theory K8sSizing
  imports ResolverClient
begin

text \<open>
  Sizing shared by clusters and node groups: \<^verbatim>\<open>internal/controller/kubernetes/configurator.go\<close>.
\<close>

definition workerFlavorTags :: "string \<Rightarrow> string list" where
  "workerFlavorTags flavor =
     (if flavor = ''dedicated-cpu'' then [''k8s_configurator_dedicated_cpu''] else [''k8s_configurator_general''])"

definition resolveK8sConfigurator :: "'w resolver_iface \<Rightarrow> pc_ref \<Rightarrow> string \<Rightarrow> string \<Rightarrow> int \<Rightarrow> int \<Rightarrow> int \<Rightarrow> int option \<Rightarrow> string list \<Rightarrow>
    ('w, 'q, 's, 'o, int) act" where
  "resolveK8sConfigurator rslv pc dim location cpu ramGB diskGB gpu requireTags =
     bindE (run_resolver rslv pc \<lparr>dim_Name = dim, dim_Kind = DimensionConfigurator\<rparr>
       (ConfiguratorInput \<lparr>ci_Filters = [(''location'', AStr location)],
          ci_Sizing = [(''cpu'', cpu), (''ramMB'', wrap64 (ramGB * 1024)), (''diskGB'', diskGB)] @
            (case gpu of None \<Rightarrow> [] | Some n \<Rightarrow> [(''gpu'', n)]),
          ci_RequireTags = requireTags\<rparr>)) (\<lambda>out.
     case out of ConfiguratorOutput co \<Rightarrow> returnOk (co_UpstreamID co)
     | _ \<Rightarrow> throwError (Errorf ''kubernetes: resolver returned a wrong type''))"

text \<open>Dereferencing a missing \<^verbatim>\<open>PresetName\<close> is Go's nil-pointer panic.\<close>

definition nil_dereference :: go_error where
  "nil_dereference = Errorf ''runtime error: invalid memory address or nil pointer dereference''"

end
