(* ===== verification/NodepoolExternal.thy ===== *)
theory NodepoolExternal
  imports K8sSizing Placement
begin

text \<open>
  The KubernetesClusterNodepool kind: \<^verbatim>\<open>internal/controller/kubernetes/nodepool_external.go\<close>, with the sizing
  helpers of \<^verbatim>\<open>configurator.go\<close> and \<^verbatim>\<open>explainRouterIntegration\<close> of \<^verbatim>\<open>router_integration.go\<close>. The struct
  \<^verbatim>\<open>nodepoolExternal\<close> is \<open>nodepool_ext\<close>. A Go map from label keys to values is an association list with
  distinct keys (\<open>labels_wf\<close>); Go's \<^verbatim>\<open>int\<close> is \<open>int\<close>, with \<open>wrap64\<close> where arithmetic could leave the range.
\<close>

section \<open>Data\<close>

record np_resources =
  nr_CPU :: int
  nr_RAMGB :: int
  nr_DiskGB :: int
  nr_GPU :: "int option"
  nr_Flavor :: string

record np_taint =
  tn_Key :: string
  tn_Value :: "string option"
  tn_Effect :: string

record np_autoscaling =
  as_Enabled :: bool
  as_MinSize :: int
  as_MaxSize :: int

record nodepool_parameters =
  npp_Name :: string
  npp_PresetName :: "string option"
  npp_Resources :: "np_resources option"
  npp_NodeCount :: int
  npp_PublicIP :: "bool option"
  npp_Labels :: "(string \<times> string) list"
  npp_Taints :: "np_taint list"
  npp_Autoscaling :: "np_autoscaling option"
  npp_Autohealing :: "bool option"

text \<open>\<^verbatim>\<open>nodeGroupBody\<close>, \<^verbatim>\<open>nodeGroupKV\<close>, \<^verbatim>\<open>nodeGroupTaint\<close> (key, value, effect) and \<^verbatim>\<open>groupNodeBody\<close>.\<close>

type_synonym node_group_kv = "string \<times> string"
type_synonym node_group_taint = "string \<times> string \<times> string"

record node_group =
  ng_ID :: int
  ng_Name :: string
  ng_PresetID :: int
  ng_ConfiguratorID :: int
  ng_NodeCount :: int
  ng_Labels :: "node_group_kv list"
  ng_Taints :: "node_group_taint list"
  ng_IsAutoscaling :: bool
  ng_MinSize :: "int option"
  ng_MaxSize :: "int option"

record group_node =
  gn_ID :: int
  gn_Status :: string
  gn_NodeIP :: "string option"
  gn_CreatedAt :: "string option"

record np_autoscaling_status =
  ass_Enabled :: bool
  ass_MinSize :: "int option"
  ass_MaxSize :: "int option"

record nodepool_observation =
  npo_UpstreamID :: "string option"
  npo_ClusterID :: "string option"
  npo_ObservedNodeCount :: "int option"
  npo_LockedPresetID :: "int option"
  npo_LockedConfiguratorID :: "int option"
  npo_Nodes :: "group_node list"
  npo_Sizing :: "string option"
  npo_Labels :: "string \<rightharpoonup> string"
  npo_Taints :: "np_taint list"
  npo_Autoscaling :: "np_autoscaling_status option"

text \<open>The bodies of the group requests; \<open>None\<close> is a field left out of the JSON.\<close>

record group_configuration =
  gc_ConfiguratorId :: int
  gc_Cpu :: int
  gc_Disk :: int
  gc_Gpu :: "int option"
  gc_Ram :: int

record create_group_body =
  cg_Name :: string
  cg_NodeCount :: int
  cg_PublicIpEnabled :: "bool option"
  cg_Configuration :: "group_configuration option"
  cg_PresetId :: "int option"
  cg_Labels :: "node_group_kv list option"
  cg_Taints :: "node_group_taint list option"
  cg_IsAutoscaling :: "bool option"
  cg_MinSize :: "int option"
  cg_MaxSize :: "int option"
  cg_IsAutohealing :: "bool option"

record update_group_body =
  ug_Name :: "string option"
  ug_Labels :: "node_group_kv list option"
  ug_Taints :: "node_group_taint list option"
  ug_IsAutoscaling :: "bool option"
  ug_MinSize :: "int option"
  ug_MaxSize :: "int option"

definition no_update :: update_group_body where
  "no_update = \<lparr>ug_Name = None, ug_Labels = None, ug_Taints = None, ug_IsAutoscaling = None, ug_MinSize = None, ug_MaxSize = None\<rparr>"

datatype nodepool_req =
    NpGetCluster int | GetClusterNodeGroup int int | GetClusterNodeGroups int | GetClusterNodesFromGroup int int
  | CreateClusterNodeGroup int create_group_body
  | UpdateClusterNodeGroup int int update_group_body
  | IncreaseCountOfNodesInGroup int int int
  | ReduceCountOfNodesInGroup int int int
  | DeleteClusterNodeGroup int int

text \<open>Of the parent cluster only the availability zone is read.\<close>

datatype nodepool_payload = PGroup node_group | PGroups "node_group list" | PNodes "group_node list" | PClusterAZ string

fun as_group :: "nodepool_payload \<Rightarrow> node_group option" where
  "as_group (PGroup g) = Some g" | "as_group _ = None"
fun as_groups :: "nodepool_payload \<Rightarrow> node_group list option" where
  "as_groups (PGroups g) = Some g" | "as_groups _ = None"
fun as_nodes :: "nodepool_payload \<Rightarrow> group_node list option" where
  "as_nodes (PNodes g) = Some g" | "as_nodes _ = None"
fun as_cluster_az :: "nodepool_payload \<Rightarrow> string option" where
  "as_cluster_az (PClusterAZ z) = Some z" | "as_cluster_az _ = None"

record nodepool_ext =
  ne_pcRef :: pc_ref
  ne_resolvedClusterID :: string

type_synonym nodepool_mr = "(nodepool_parameters, nodepool_observation) mr"
type_synonym ('w, 'a) nodepool_act = "('w, nodepool_req, nodepool_parameters, nodepool_observation, 'a) act"
type_synonym 'w nodepool_api = "('w, nodepool_req, nodepool_payload) api"

section \<open>Declared metadata\<close>

text \<open>The keys of a Go map are distinct.\<close>

definition labels_wf :: "(string \<times> string) list \<Rightarrow> bool" where
  "labels_wf ls \<longleftrightarrow> distinct (map fst ls)"

definition declaredLabels :: "(string \<times> string) list \<Rightarrow> node_group_kv list" where
  "declaredLabels ls = map (\<lambda>k. (k, the (map_of ls k))) (sort (map fst ls))"

definition taint_triple :: "np_taint \<Rightarrow> node_group_taint" where
  "taint_triple t = (tn_Key t, DerefString (tn_Value t), tn_Effect t)"

definition declaredTaints :: "np_taint list \<Rightarrow> node_group_taint list" where
  "declaredTaints ts = map taint_triple ts"

definition nodepoolMetadataUpToDate :: "nodepool_parameters \<Rightarrow> node_group \<Rightarrow> bool" where
  "nodepoolMetadataUpToDate spec g \<longleftrightarrow>
     (if length (npp_Labels spec) \<noteq> length (ng_Labels g) then False
      else if \<not> list_all (\<lambda>(k, v). map_of (npp_Labels spec) k = Some v) (ng_Labels g) then False
      else if length (npp_Taints spec) \<noteq> length (ng_Taints g) then False
      else list_all (\<lambda>t. t \<in> set (map taint_triple (npp_Taints spec))) (ng_Taints g))"

definition bounds_drift :: "np_autoscaling \<Rightarrow> node_group \<Rightarrow> bool" where
  "bounds_drift a g \<longleftrightarrow> ng_MinSize g \<noteq> Some (as_MinSize a) \<or> ng_MaxSize g \<noteq> Some (as_MaxSize a)"

definition declared_on :: "nodepool_parameters \<Rightarrow> bool" where
  "declared_on fp \<longleftrightarrow> (case npp_Autoscaling fp of None \<Rightarrow> False | Some a \<Rightarrow> as_Enabled a)"

definition isNodepoolUpToDate :: "nodepool_parameters \<Rightarrow> nodepool_observation \<Rightarrow> node_group \<Rightarrow> bool" where
  "isNodepoolUpToDate spec status g \<longleftrightarrow>
     (if npp_PresetName spec \<noteq> None \<and> npo_LockedConfiguratorID status \<noteq> None then False
      else if npp_Resources spec \<noteq> None \<and> npo_LockedPresetID status \<noteq> None then False
      else if \<not> nodepoolMetadataUpToDate spec g then False
      else (case npp_Autoscaling spec of
          Some a \<Rightarrow> if as_Enabled a then ng_IsAutoscaling g \<and> \<not> bounds_drift a g
                    else if ng_IsAutoscaling g then False else npp_NodeCount spec = ng_NodeCount g
        | None \<Rightarrow> if ng_IsAutoscaling g then False else npp_NodeCount spec = ng_NodeCount g))"

section \<open>Status\<close>

definition np_taint_of :: "node_group_taint \<Rightarrow> np_taint" where
  "np_taint_of t = (case t of (k, v, e) \<Rightarrow> \<lparr>tn_Key = k, tn_Value = (if v \<noteq> [] then Some v else None), tn_Effect = e\<rparr>)"

definition nodepool_sizing_column :: "nodepool_parameters \<Rightarrow> string option \<Rightarrow> string option" where
  "nodepool_sizing_column fp old = (case npp_PresetName fp of
     Some p \<Rightarrow> Some (''preset:'' @ p)
   | None \<Rightarrow> (case npp_Resources fp of
       Some r \<Rightarrow> Some (Itoa (nr_CPU r) @ ''cpu/'' @ Itoa (nr_RAMGB r) @ ''gb/'' @ Itoa (nr_DiskGB r) @ ''gb'')
     | None \<Rightarrow> old))"

definition populateNodepoolStatus :: "node_group \<Rightarrow> nodepool_mr \<Rightarrow> nodepool_mr" where
  "populateNodepoolStatus g m = m\<lparr>at_provider := (at_provider m)\<lparr>
     npo_UpstreamID := Some (EncodeID (ng_ID g)), npo_ObservedNodeCount := Some (ng_NodeCount g),
     npo_LockedPresetID := (if ng_PresetID g \<noteq> 0 then Some (ng_PresetID g) else npo_LockedPresetID (at_provider m)),
     npo_Labels := map_of (rev (ng_Labels g)), npo_Taints := map np_taint_of (ng_Taints g),
     npo_Autoscaling := Some \<lparr>ass_Enabled = ng_IsAutoscaling g, ass_MinSize = ng_MinSize g, ass_MaxSize = ng_MaxSize g\<rparr>,
     npo_Sizing := nodepool_sizing_column (for_provider m) (npo_Sizing (at_provider m))\<rparr>\<rparr>"

definition set_cluster_id :: "int \<Rightarrow> nodepool_mr \<Rightarrow> nodepool_mr" where
  "set_cluster_id c m = m\<lparr>at_provider := (at_provider m)\<lparr>npo_ClusterID := Some (EncodeID c)\<rparr>\<rparr>"

definition publishNodeList :: "group_node list \<Rightarrow> nodepool_mr \<Rightarrow> nodepool_mr" where
  "publishNodeList nodes m = m\<lparr>at_provider := (at_provider m)\<lparr>npo_Nodes := nodes\<rparr>\<rparr>"

section \<open>Readiness\<close>

definition nodeIsActive :: "string \<Rightarrow> bool" where
  "nodeIsActive status = (let s = ToLower status in
     Contains s ''active'' \<or> Contains s ''started'' \<or> Contains s ''running'' \<or> Contains s ''ready'' \<or> s = ''on'')"

definition node_failed :: "group_node \<Rightarrow> bool" where
  "node_failed n \<longleftrightarrow> (let s = ToLower (gn_Status n) in Contains s ''error'' \<or> Contains s ''fail'')"

definition setNodepoolReadyCondition :: "bool \<Rightarrow> bool \<Rightarrow> int \<Rightarrow> group_node list \<Rightarrow> ('w, unit) nodepool_act" where
  "setNodepoolReadyCondition upToDate zeroOK declared nodes =
     (if list_ex node_failed nodes then record_and_set (ReadyFalse ''UpstreamFailed'')
      else if \<not> upToDate then modify_cr (SetConditions (ReadyFalse ''Reconciling''))
      else if declared = 0 \<and> nodes = [] then
        record_and_set (if zeroOK then Available else Creating)
      else if int (length (filter (\<lambda>n. nodeIsActive (gn_Status n)) nodes)) < declared
        then modify_cr (SetConditions (ReadyFalse ''Reconciling''))
      else record_and_set Available)"

section \<open>Shared reads\<close>

definition nodepool_clusterID :: "nodepool_ext \<Rightarrow> nodepool_mr \<Rightarrow> int option" where
  "nodepool_clusterID e m = DecodeID
     (case npo_ClusterID (at_provider m) of Some s \<Rightarrow> if s \<noteq> [] then s else ne_resolvedClusterID e | None \<Rightarrow> ne_resolvedClusterID e)"

definition parentClusterAZ :: "'w nodepool_api \<Rightarrow> int \<Rightarrow> ('w, string) nodepool_act" where
  "parentClusterAZ api clusterID = fetch_as ''kubernetes/nodepool: get parent cluster'' api ''kubernetes/nodepool: parent cluster'' as_cluster_az (NpGetCluster clusterID)"

definition parentClusterLocation :: "'w nodepool_api \<Rightarrow> int \<Rightarrow> ('w, string) nodepool_act" where
  "parentClusterLocation api clusterID = bindE (parentClusterAZ api clusterID) (\<lambda>az. lift_sum (AZToLocation az))"

definition observeGroupNodes :: "'w nodepool_api \<Rightarrow> int \<Rightarrow> int \<Rightarrow> ('w, group_node list) nodepool_act" where
  "observeGroupNodes api clusterID groupID = fetch_as ''kubernetes/nodepool: list group nodes'' api ''kubernetes/nodepool: group nodes'' as_nodes (GetClusterNodesFromGroup clusterID groupID)"

definition identity_match :: "string \<Rightarrow> int \<Rightarrow> int \<Rightarrow> node_group \<Rightarrow> bool" where
  "identity_match name presetID configuratorID g \<longleftrightarrow>
     (if ng_Name g \<noteq> name then False
      else if presetID \<noteq> 0 \<and> ng_PresetID g \<noteq> presetID then False
      else if configuratorID \<noteq> 0 \<and> ng_ConfiguratorID g \<noteq> 0 \<and> ng_ConfiguratorID g \<noteq> configuratorID then False
      else True)"

definition findGroupsByIdentity :: "'w nodepool_api \<Rightarrow> int \<Rightarrow> string \<Rightarrow> int \<Rightarrow> int \<Rightarrow> ('w, node_group list) nodepool_act" where
  "findGroupsByIdentity api clusterID name presetID configuratorID =
     bindE (fetch api ''kubernetes/nodepool: node-groups list'' as_groups (GetClusterNodeGroups clusterID)) (\<lambda>gs.
     returnOk (filter (identity_match name presetID configuratorID) gs))"

section \<open>\<^verbatim>\<open>Observe\<close>\<close>

definition parkExternalNameConflict :: "('w, observation) nodepool_act" where
  "parkExternalNameConflict = bindE (record_and_set (ReadyFalse ''ExternalNameConflict'')) (\<lambda>_. returnOk (present True))"

text \<open>What \<^verbatim>\<open>Observe\<close> does with the group it was given.\<close>

definition observe_group :: "'w nodepool_api \<Rightarrow> int \<Rightarrow> int \<Rightarrow> node_group \<Rightarrow> ('w, observation) nodepool_act" where
  "observe_group api clusterID groupID g =
     bindE (modify_cr (populateNodepoolStatus g)) (\<lambda>_.
     bindE (modify_cr (set_cluster_id clusterID)) (\<lambda>_.
     bindE (gets (\<lambda>m. m)) (\<lambda>m. let fp = for_provider m; upToDate = isNodepoolUpToDate fp (at_provider m) g in
     bindE (observeGroupNodes api clusterID groupID) (\<lambda>nodes.
     bindE (modify_cr (publishNodeList nodes)) (\<lambda>_.
     let zeroOK = (upToDate \<and> (case npp_Autoscaling fp of None \<Rightarrow> False | Some a \<Rightarrow> as_Enabled a \<and> as_MinSize a = 0)) in
     bindE (setNodepoolReadyCondition upToDate zeroOK (ng_NodeCount g) nodes) (\<lambda>_.
     returnOk (present upToDate)))))))"

definition nodepool_Observe :: "'w nodepool_api \<Rightarrow> nodepool_ext \<Rightarrow> ('w, observation) nodepool_act" where
  "nodepool_Observe api e =
     bindE (gets (\<lambda>m. m)) (\<lambda>m. let remembered = DerefString (npo_UpstreamID (at_provider m)) in
     case DecodeID (external_name m) of
       None \<Rightarrow> if remembered \<noteq> [] then parkExternalNameConflict else returnOk absent
     | Some groupID \<Rightarrow> (case nodepool_clusterID e m of
         None \<Rightarrow> returnOk absent
       | Some clusterID \<Rightarrow>
           bindE (attempt (call_classify api (GetClusterNodeGroup clusterID groupID)))
             (on_not_found
               (if remembered \<noteq> [] \<and> remembered \<noteq> EncodeID groupID then parkExternalNameConflict else returnOk absent)
               (\<lambda>resp. bindE (decode ''kubernetes/nodepool'' as_group resp) (observe_group api clusterID groupID)))))"

section \<open>\<^verbatim>\<open>Create\<close>\<close>

definition resolveWorkerPreset :: "'w resolver_iface \<Rightarrow> pc_ref \<Rightarrow> string \<Rightarrow> string \<Rightarrow> string \<Rightarrow> ('w, int) nodepool_act" where
  "resolveWorkerPreset rslv pc slug zone location =
     bindE (run_resolver rslv pc \<lparr>dim_Name = ''KubernetesWorkerPreset'', dim_Kind = DimensionPreset\<rparr>
       (PresetInput \<lparr>pi_Slug = slug, pi_Zone = zone, pi_Location = location\<rparr>)) (\<lambda>out.
     case out of PresetOutput n \<Rightarrow> returnOk n
     | _ \<Rightarrow> throwError (Errorf ''kubernetes/nodepool: resolver returned a wrong type''))"

text \<open>The sizing part of \<^verbatim>\<open>Create\<close>: the preset id and the configurator id, one of them 0. A missing
  \<^verbatim>\<open>PresetName\<close> panics, which no condition reports.\<close>

definition nodepool_sizing :: "'w nodepool_api \<Rightarrow> 'w resolver_iface \<Rightarrow> nodepool_ext \<Rightarrow> int \<Rightarrow> nodepool_parameters \<Rightarrow>
    ('w, int \<times> int) nodepool_act" where
  "nodepool_sizing api rslv e clusterID fp = (case npp_Resources fp of
     Some r \<Rightarrow> map_resolver_error (
       bindE (parentClusterLocation api clusterID) (\<lambda>location.
       bindE (resolveK8sConfigurator rslv (ne_pcRef e) ''KubernetesWorkerConfigurator'' location (nr_CPU r) (nr_RAMGB r)
         (nr_DiskGB r) (nr_GPU r) (workerFlavorTags (nr_Flavor r))) (\<lambda>c.
       returnOk (0, c))))
   | None \<Rightarrow>
       bindE (map_resolver_error (
         bindE (parentClusterAZ api clusterID) (\<lambda>az.
         bindE (lift_sum (AZToLocation az)) (\<lambda>loc.
         returnOk (az, loc))))) (\<lambda>(az, loc).
       case npp_PresetName fp of
         None \<Rightarrow> throwError nil_dereference
       | Some slug \<Rightarrow> map_resolver_error (bindE (resolveWorkerPreset rslv (ne_pcRef e) slug az loc) (\<lambda>p. returnOk (p, 0)))))"

definition buildCreateNodeGroupBody :: "nodepool_parameters \<Rightarrow> int \<Rightarrow> int \<Rightarrow> create_group_body" where
  "buildCreateNodeGroupBody fp presetID configuratorID = \<lparr>
     cg_Name = npp_Name fp, cg_NodeCount = npp_NodeCount fp, cg_PublicIpEnabled = npp_PublicIP fp,
     cg_Configuration = (case npp_Resources fp of None \<Rightarrow> None | Some r \<Rightarrow> Some \<lparr>gc_ConfiguratorId = configuratorID,
        gc_Cpu = nr_CPU r, gc_Disk = wrap64 (nr_DiskGB r * 1024),
        gc_Gpu = (case nr_GPU r of None \<Rightarrow> None | Some n \<Rightarrow> if n > 0 then Some n else None), gc_Ram = wrap64 (nr_RAMGB r * 1024)\<rparr>),
     cg_PresetId = (case npp_Resources fp of None \<Rightarrow> Some presetID | Some _ \<Rightarrow> None),
     cg_Labels = (if npp_Labels fp \<noteq> [] then Some (declaredLabels (npp_Labels fp)) else None),
     cg_Taints = (if npp_Taints fp \<noteq> [] then Some (declaredTaints (npp_Taints fp)) else None),
     cg_IsAutoscaling = (if declared_on fp then Some True else None),
     cg_MinSize = (if declared_on fp then map_option as_MinSize (npp_Autoscaling fp) else None),
     cg_MaxSize = (if declared_on fp then map_option as_MaxSize (npp_Autoscaling fp) else None),
     cg_IsAutohealing = npp_Autohealing fp\<rparr>"

definition routerRequiredCodes :: "string list" where
  "routerRequiredCodes = [''router_required_for_worker_groups_without_public_ip'',
     ''router_must_have_nat_ip_for_cluster_network'', ''router_must_have_dhcp_enabled_for_cluster_network'']"

definition explainRouterIntegration :: "go_error \<Rightarrow> ('w, 'a) nodepool_act" where
  "explainRouterIntegration err = (case root err of
     APIError status code msg \<Rightarrow>
       if code \<in> set routerRequiredCodes
       then bindE (record_and_set (SyncedFalse ''RouterNATRequired'')) (\<lambda>_.
         throwError (Wrap ''kubernetes/nodepool: private worker pools need the cluster integrated with a router'' err))
       else throwError err
   | _ \<Rightarrow> throwError err)"

definition nodepool_locks :: "nodepool_parameters \<Rightarrow> int \<Rightarrow> int \<Rightarrow> nodepool_mr \<Rightarrow> nodepool_mr" where
  "nodepool_locks fp presetID configuratorID m = m\<lparr>at_provider :=
     (if npp_Resources fp \<noteq> None then (at_provider m)\<lparr>npo_LockedConfiguratorID := Some configuratorID\<rparr>
      else (at_provider m)\<lparr>npo_LockedPresetID := Some presetID\<rparr>)\<rparr>"

definition post_group :: "'w nodepool_api \<Rightarrow> int \<Rightarrow> nodepool_parameters \<Rightarrow> int \<Rightarrow> int \<Rightarrow> ('w, unit) nodepool_act" where
  "post_group api clusterID fp presetID configuratorID =
     bindE (attempt (call_classify api (CreateClusterNodeGroup clusterID (buildCreateNodeGroupBody fp presetID configuratorID)))) (\<lambda>r.
     case r of
       Inl err \<Rightarrow> explainRouterIntegration err
     | Inr resp \<Rightarrow>
         bindE (decode ''kubernetes/nodepool'' as_group resp) (\<lambda>g.
         bindE (modify_cr (\<lambda>m. m\<lparr>external_name := EncodeID (ng_ID g)\<rparr>)) (\<lambda>_.
         bindE (modify_cr (set_cluster_id clusterID)) (\<lambda>_.
         bindE (modify_cr (populateNodepoolStatus g)) (\<lambda>_.
         bindE (modify_cr (nodepool_locks fp presetID configuratorID)) (\<lambda>_.
         modify_cr (SetConditions Creating)))))))"

text \<open>The switch over the groups that match the declared identity.\<close>

definition adopt_or_post :: "'w nodepool_api \<Rightarrow> int \<Rightarrow> nodepool_parameters \<Rightarrow> int \<Rightarrow> int \<Rightarrow> node_group list \<Rightarrow> ('w, unit) nodepool_act" where
  "adopt_or_post api clusterID fp presetID configuratorID matches = (case matches of
     [] \<Rightarrow> post_group api clusterID fp presetID configuratorID
   | [g] \<Rightarrow> bindE (modify_cr (\<lambda>m. m\<lparr>external_name := EncodeID (ng_ID g)\<rparr>)) (\<lambda>_. modify_cr (set_cluster_id clusterID))
   | _ \<Rightarrow> bindE (record_and_set (SyncedFalse ''AdoptionAmbiguous'')) (\<lambda>_.
       throwError (Errorf ''kubernetes/nodepool: previous create ended ambiguously'')))"

definition nodepool_Create :: "'w nodepool_api \<Rightarrow> 'w resolver_iface \<Rightarrow> nodepool_ext \<Rightarrow> ('w, unit) nodepool_act" where
  "nodepool_Create api rslv e =
     bindE (gets (\<lambda>m. m)) (\<lambda>m. let fp = for_provider m in
     case DecodeID (ne_resolvedClusterID e) of
       None \<Rightarrow> throwError (Errorf ''kubernetes/nodepool: parent cluster not resolved'')
     | Some clusterID \<Rightarrow>
         bindE (nodepool_sizing api rslv e clusterID fp) (\<lambda>(presetID, configuratorID).
         if create_incomplete m \<or> create_failed m \<noteq> [] then
           bindE (findGroupsByIdentity api clusterID (npp_Name fp) presetID configuratorID)
             (adopt_or_post api clusterID fp presetID configuratorID)
         else post_group api clusterID fp presetID configuratorID))"

section \<open>\<^verbatim>\<open>Update\<close> and \<^verbatim>\<open>Delete\<close>\<close>

definition patchNodeGroup :: "'w nodepool_api \<Rightarrow> int \<Rightarrow> int \<Rightarrow> update_group_body \<Rightarrow> ('w, unit) nodepool_act" where
  "patchNodeGroup api clusterID groupID b = write_call_as ''kubernetes/nodepool: group patch'' api (UpdateClusterNodeGroup clusterID groupID b)"

definition metadata_body :: "nodepool_parameters \<Rightarrow> update_group_body" where
  "metadata_body fp = no_update\<lparr>ug_Name := Some (npp_Name fp), ug_Labels := Some (declaredLabels (npp_Labels fp)),
     ug_Taints := Some (declaredTaints (npp_Taints fp))\<rparr>"

definition autoscaling_body :: "np_autoscaling \<Rightarrow> update_group_body" where
  "autoscaling_body a = no_update\<lparr>ug_IsAutoscaling := Some True, ug_MinSize := Some (as_MinSize a), ug_MaxSize := Some (as_MaxSize a)\<rparr>"

definition converge_count :: "'w nodepool_api \<Rightarrow> int \<Rightarrow> int \<Rightarrow> nodepool_parameters \<Rightarrow> node_group \<Rightarrow> ('w, unit) nodepool_act" where
  "converge_count api clusterID groupID fp observed = (let delta = wrap64 (npp_NodeCount fp - ng_NodeCount observed) in
     if delta > 0 then write_call api (IncreaseCountOfNodesInGroup clusterID groupID delta)
     else if delta < 0 then write_call api (ReduceCountOfNodesInGroup clusterID groupID (wrap64 (- delta)))
     else returnOk ())"

definition converge_group :: "'w nodepool_api \<Rightarrow> int \<Rightarrow> int \<Rightarrow> nodepool_parameters \<Rightarrow> node_group \<Rightarrow> ('w, unit) nodepool_act" where
  "converge_group api clusterID groupID fp observed =
     bindE (if nodepoolMetadataUpToDate fp observed then returnOk ()
            else write_call_as ''kubernetes/nodepool: update labels/taints'' api
              (UpdateClusterNodeGroup clusterID groupID (metadata_body fp))) (\<lambda>_.
     case npp_Autoscaling fp of
       Some a \<Rightarrow>
         if as_Enabled a then
           (if \<not> ng_IsAutoscaling observed \<or> bounds_drift a observed
            then patchNodeGroup api clusterID groupID (autoscaling_body a) else returnOk ())
         else if ng_IsAutoscaling observed then patchNodeGroup api clusterID groupID (no_update\<lparr>ug_IsAutoscaling := Some False\<rparr>)
         else converge_count api clusterID groupID fp observed
     | None \<Rightarrow>
         if ng_IsAutoscaling observed then patchNodeGroup api clusterID groupID (no_update\<lparr>ug_IsAutoscaling := Some False\<rparr>)
         else converge_count api clusterID groupID fp observed)"

text \<open>\<^verbatim>\<open>Update\<close> after its GET: the immutable-field guards, then convergence.\<close>

definition update_group :: "'w nodepool_api \<Rightarrow> int \<Rightarrow> int \<Rightarrow> nodepool_parameters \<Rightarrow> nodepool_observation \<Rightarrow> node_group \<Rightarrow> ('w, unit) nodepool_act" where
  "update_group api clusterID groupID fp st observed =
     (if npp_Resources fp \<noteq> None \<and> npo_LockedPresetID st \<noteq> None \<or>
         npp_Resources fp = None \<and> npo_LockedConfiguratorID st \<noteq> None
      then RejectSizingSwitch
      else if npo_LockedPresetID st \<noteq> None \<and> ng_PresetID observed \<noteq> 0 \<and> npo_LockedPresetID st \<noteq> Some (ng_PresetID observed)
      then RejectImmutableChange ''presetName''
      else converge_group api clusterID groupID fp observed)"

definition nodepool_Update :: "'w nodepool_api \<Rightarrow> nodepool_ext \<Rightarrow> ('w, unit) nodepool_act" where
  "nodepool_Update api e =
     bindE (gets (\<lambda>m. m)) (\<lambda>m.
     case DecodeID (external_name m) of
       None \<Rightarrow> throwError (Errorf ''kubernetes/nodepool: decode external-name'')
     | Some groupID \<Rightarrow> (case nodepool_clusterID e m of
         None \<Rightarrow> throwError (Errorf ''kubernetes/nodepool: parent cluster id unknown'')
       | Some clusterID \<Rightarrow>
           bindE (fetch api ''kubernetes/nodepool'' as_group (GetClusterNodeGroup clusterID groupID))
             (update_group api clusterID groupID (for_provider m) (at_provider m))))"

definition nodepool_Delete :: "'w nodepool_api \<Rightarrow> nodepool_ext \<Rightarrow> ('w, unit) nodepool_act" where
  "nodepool_Delete api e =
     bindE (gets (\<lambda>m. m)) (\<lambda>m. case DecodeID (external_name m) of
       None \<Rightarrow> returnOk ()
     | Some groupID \<Rightarrow> (case nodepool_clusterID e m of
         None \<Rightarrow> returnOk ()
       | Some clusterID \<Rightarrow> delete_or_gone api (DeleteClusterNodeGroup clusterID groupID) (modify_cr (SetConditions Deleting))))"

end
