(* ===== verification/NodepoolSafety.thy ===== *)
theory NodepoolSafety
  imports NodepoolExternal Budget
begin

text \<open>
  Properties of the nodepool handlers: identity (a pool is never created twice, and a stomped external name
  parks it), the agreement of \<^verbatim>\<open>Observe\<close> and \<^verbatim>\<open>Update\<close> on what drift is, convergence, and readiness.
\<close>

section \<open>Identity\<close>

lemma observe_group_present: "reports_present (observe_group api clusterID groupID g)"
  unfolding observe_group_def Let_def by (intro reports_present_bindE) simp

lemma park_run:
  "parkExternalNameConflict s = (Inr (present True),
     s\<lparr>events := events_after (ReadyFalse ''ExternalNameConflict'') s, cr := SetConditions (ReadyFalse ''ExternalNameConflict'') (cr s)\<rparr>)"
  by (simp add: parkExternalNameConflict_def)


definition wit_pool_fp :: nodepool_parameters where
  "wit_pool_fp = \<lparr>npp_Name = ''workers'', npp_PresetName = Some ''k8s-2x4'', npp_Resources = None, npp_NodeCount = 3, npp_PublicIP = None,
     npp_Labels = [(''tier'', ''web''), (''env'', ''prod'')],
     npp_Taints = [\<lparr>tn_Key = ''gpu'', tn_Value = None, tn_Effect = ''NoSchedule''\<rparr>], npp_Autoscaling = None, npp_Autohealing = None\<rparr>"

definition wit_pool_mr :: nodepool_mr where
  "wit_pool_mr = \<lparr>external_name = ''17'', create_incomplete = False, create_failed = [], for_provider = wit_pool_fp,
     at_provider = \<lparr>npo_UpstreamID = Some ''17'', npo_ClusterID = Some ''5'', npo_ObservedNodeCount = None,
       npo_LockedPresetID = Some 9, npo_LockedConfiguratorID = None, npo_Nodes = [], npo_Sizing = None, npo_Labels = Map.empty,
       npo_Taints = [], npo_Autoscaling = None\<rparr>, conditions = Map.empty\<rparr>"

definition wit_pool_ext :: nodepool_ext where
  "wit_pool_ext = \<lparr>ne_pcRef = wit_pc, ne_resolvedClusterID = ''5''\<rparr>"

definition wit_gone_api :: "unit nodepool_api" where
  "wit_gone_api w q = (Resp gone_response, w)"

definition wit_pool_state :: "'w \<Rightarrow> ('w, nodepool_req, nodepool_parameters, nodepool_observation) rstate" where
  "wit_pool_state w = wit_state w wit_pool_mr"


section \<open>Drift\<close>

text \<open>The sizing of the specification is declared in exactly one of its two forms, and counts are machine integers.\<close>

definition pool_spec_ok :: "nodepool_parameters \<Rightarrow> bool" where
  "pool_spec_ok fp \<longleftrightarrow> (npp_PresetName fp = None \<longleftrightarrow> npp_Resources fp \<noteq> None) \<and> labels_wf (npp_Labels fp) \<and>
     0 \<le> npp_NodeCount fp \<and> npp_NodeCount fp < 2 ^ 63"

definition group_ok :: "node_group \<Rightarrow> bool" where
  "group_ok g \<longleftrightarrow> 0 \<le> ng_NodeCount g \<and> ng_NodeCount g < 2 ^ 63"

text \<open>What \<^verbatim>\<open>Update\<close> rejects: a switch of the sizing form, or a preset other than the locked one.\<close>

definition sizing_rejected :: "nodepool_parameters \<Rightarrow> nodepool_observation \<Rightarrow> node_group \<Rightarrow> bool" where
  "sizing_rejected fp st g \<longleftrightarrow>
     npp_Resources fp \<noteq> None \<and> npo_LockedPresetID st \<noteq> None \<or> npp_Resources fp = None \<and> npo_LockedConfiguratorID st \<noteq> None \<or>
     npo_LockedPresetID st \<noteq> None \<and> ng_PresetID g \<noteq> 0 \<and> npo_LockedPresetID st \<noteq> Some (ng_PresetID g)"

lemma wrap64_diff:
  assumes "pool_spec_ok fp" "group_ok g"
  shows "wrap64 (npp_NodeCount fp - ng_NodeCount g) = npp_NodeCount fp - ng_NodeCount g"
    "wrap64 (ng_NodeCount g - npp_NodeCount fp) = ng_NodeCount g - npp_NodeCount fp"
  using assms by (auto simp: pool_spec_ok_def group_ok_def int64_def intro!: wrap64_id)

lemma nodepool_Update_run:
  assumes "DecodeID (external_name (cr s)) = Some gid" "nodepool_clusterID e (cr s) = Some c"
    and "answers api (world s) (GetClusterNodeGroup c gid) (PGroup g) w'"
  shows "nodepool_Update api e s =
    update_group api c gid (for_provider (cr s)) (at_provider (cr s)) g (s\<lparr>world := w', reqs := reqs s @ [GetClusterNodeGroup c gid]\<rparr>)"
  using assms by (simp add: nodepool_Update_def bindE_def[of "fetch _ _ _ _"] fetch_sel_run)

lemma reject_runD:
  "RejectSizingSwitch s = (r, s') \<Longrightarrow> r = Inl ErrSizingSwitchRequiresRecreate \<and> reqs s' = reqs s"
  "RejectImmutableChange f s = (r, s') \<Longrightarrow> r = Inl ErrImmutableFieldChange \<and> reqs s' = reqs s"
  by (auto simp: RejectSizingSwitch_def RejectImmutableChange_def split: if_splits)

lemma converge_group_quiet:
  assumes "isNodepoolUpToDate fp st g"
  shows "converge_group api c gid fp g = returnOk ()"
  using assms by (auto simp: converge_group_def isNodepoolUpToDate_def converge_count_def wrap64_def Let_def
      split: option.splits if_splits)

text \<open>\<open>converge_group\<close> is the metadata step followed by what concerns autoscaling and the count.\<close>

definition converge_scale :: "'w nodepool_api \<Rightarrow> int \<Rightarrow> int \<Rightarrow> nodepool_parameters \<Rightarrow> node_group \<Rightarrow> ('w, unit) nodepool_act" where
  "converge_scale api c gid fp g =
     (if declared_on fp then
        (if \<not> ng_IsAutoscaling g \<or> bounds_drift (the (npp_Autoscaling fp)) g
         then patchNodeGroup api c gid (autoscaling_body (the (npp_Autoscaling fp))) else returnOk ())
      else if ng_IsAutoscaling g then patchNodeGroup api c gid (no_update\<lparr>ug_IsAutoscaling := Some False\<rparr>)
      else converge_count api c gid fp g)"

lemma converge_group_eq:
  "converge_group api c gid fp g = bindE (if nodepoolMetadataUpToDate fp g then returnOk ()
      else write_call_as ''kubernetes/nodepool: update labels/taints'' api (UpdateClusterNodeGroup c gid (metadata_body fp)))
    (\<lambda>_. converge_scale api c gid fp g)"
  unfolding converge_group_def converge_scale_def declared_on_def
  by (rule arg_cong[where f = "bindE _"]) (auto split: option.split)

text \<open>The same split of the verdict.\<close>

definition scale_ok :: "nodepool_parameters \<Rightarrow> node_group \<Rightarrow> bool" where
  "scale_ok fp g \<longleftrightarrow> (if declared_on fp then ng_IsAutoscaling g \<and> \<not> bounds_drift (the (npp_Autoscaling fp)) g
     else \<not> ng_IsAutoscaling g \<and> npp_NodeCount fp = ng_NodeCount g)"

lemma isNodepoolUpToDate_iff:
  assumes "npp_PresetName fp = None \<longleftrightarrow> npp_Resources fp \<noteq> None"
    "npp_Resources fp \<noteq> None \<longrightarrow> npo_LockedPresetID st = None" "npp_Resources fp = None \<longrightarrow> npo_LockedConfiguratorID st = None"
  shows "isNodepoolUpToDate fp st g \<longleftrightarrow> nodepoolMetadataUpToDate fp g \<and> scale_ok fp g"
  using assms by (auto simp: isNodepoolUpToDate_def scale_ok_def declared_on_def split: option.split)

lemma emits_converge_scale: "emits (\<lambda>_. True) (converge_scale api c gid fp g)"
  unfolding converge_scale_def converge_count_def patchNodeGroup_def Let_def by (intro emits_rules) simp_all

lemma converge_scale_quiet: "scale_ok fp g \<Longrightarrow> converge_scale api c gid fp g = returnOk ()"
  by (auto simp: scale_ok_def converge_scale_def converge_count_def wrap64_def split: if_splits)

lemma converge_scale_acts:
  assumes "\<not> scale_ok fp g" "pool_spec_ok fp" "group_ok g" "converge_scale api c gid fp g s = (r, s')"
  shows "\<exists>q. reqs s' = reqs s @ [q]"
  using assms(1,4) wrap64_diff[OF assms(2,3)]
  by (auto simp: scale_ok_def converge_scale_def converge_count_def patchNodeGroup_def Let_def
      dest!: write_call_as_reqs write_call_reqs split: if_splits)

lemma converge_group_acts:
  assumes drift: "\<not> (nodepoolMetadataUpToDate fp g \<and> scale_ok fp g)" and ok: "pool_spec_ok fp" "group_ok g"
    and run: "converge_group api c gid fp g s = (r, s')"
  shows "\<exists>q qs. reqs s' = reqs s @ q # qs"
proof (cases "nodepoolMetadataUpToDate fp g")
  case True
  with run converge_scale_acts[OF _ ok] drift show ?thesis by (fastforce simp: converge_group_eq)
next
  case False
  let ?q = "UpdateClusterNodeGroup c gid (metadata_body fp)"
  obtain r1 s1 where w: "write_call_as ''kubernetes/nodepool: update labels/taints'' api ?q s = (r1, s1)" by fastforce
  note trace = write_call_as_reqs[OF w]
  from False run w have "r1 \<noteq> Inr () \<and> s' = s1 \<or> converge_scale api c gid fp g s1 = (r, s')"
    by (auto simp: converge_group_eq bindE_def split: sum.splits)
  with trace emitsD[OF emits_converge_scale] show ?thesis by fastforce
qed


section \<open>Convergence\<close>

text \<open>
  What is relied on of the service: \<open>store w c i\<close> is group \<open>i\<close> of cluster \<open>c\<close>. Reading changes nothing, a PATCH
  replaces the fields it carries and leaves the others (turning autoscaling off clears its bounds), and the
  two count operations add and remove nodes.
\<close>

definition apply_update :: "update_group_body \<Rightarrow> node_group \<Rightarrow> node_group" where
  "apply_update b g = g\<lparr>
     ng_Name := (case ug_Name b of None \<Rightarrow> ng_Name g | Some x \<Rightarrow> x),
     ng_Labels := (case ug_Labels b of None \<Rightarrow> ng_Labels g | Some x \<Rightarrow> x),
     ng_Taints := (case ug_Taints b of None \<Rightarrow> ng_Taints g | Some x \<Rightarrow> x),
     ng_IsAutoscaling := (case ug_IsAutoscaling b of None \<Rightarrow> ng_IsAutoscaling g | Some x \<Rightarrow> x),
     ng_MinSize := (if ug_IsAutoscaling b = Some False then None else case ug_MinSize b of None \<Rightarrow> ng_MinSize g | Some x \<Rightarrow> Some x),
     ng_MaxSize := (if ug_IsAutoscaling b = Some False then None else case ug_MaxSize b of None \<Rightarrow> ng_MaxSize g | Some x \<Rightarrow> Some x)\<rparr>"

definition group_service :: "'w nodepool_api \<Rightarrow> ('w \<Rightarrow> int \<Rightarrow> int \<Rightarrow> node_group option) \<Rightarrow> bool" where
  "group_service api store \<longleftrightarrow> (\<forall>w c i g. store w c i = Some g \<longrightarrow>
     answers api w (GetClusterNodeGroup c i) (PGroup g) w \<and>
     (\<forall>b. \<exists>p w'. answers api w (UpdateClusterNodeGroup c i b) p w' \<and> store w' c i = Some (apply_update b g)) \<and>
     (\<forall>n>0. \<exists>p w'. answers api w (IncreaseCountOfNodesInGroup c i n) p w' \<and> store w' c i = Some (g\<lparr>ng_NodeCount := ng_NodeCount g + n\<rparr>)) \<and>
     (\<forall>n>0. n \<le> ng_NodeCount g \<longrightarrow> (\<exists>p w'. answers api w (ReduceCountOfNodesInGroup c i n) p w' \<and>
        store w' c i = Some (g\<lparr>ng_NodeCount := ng_NodeCount g - n\<rparr>))))"

lemma apply_update_sels:
  "ng_PresetID (apply_update b g) = ng_PresetID g" "ng_NodeCount (apply_update b g) = ng_NodeCount g"
  "ng_IsAutoscaling (apply_update b g) = (case ug_IsAutoscaling b of None \<Rightarrow> ng_IsAutoscaling g | Some x \<Rightarrow> x)"
  "ng_MinSize (apply_update b g) = (if ug_IsAutoscaling b = Some False then None else case ug_MinSize b of None \<Rightarrow> ng_MinSize g | Some x \<Rightarrow> Some x)"
  "ng_MaxSize (apply_update b g) = (if ug_IsAutoscaling b = Some False then None else case ug_MaxSize b of None \<Rightarrow> ng_MaxSize g | Some x \<Rightarrow> Some x)"
  by (simp_all add: apply_update_def)

lemma metadata_applied:
  assumes "labels_wf (npp_Labels fp)"
  shows "nodepoolMetadataUpToDate fp (apply_update (metadata_body fp) g)"
proof -
  have "map_of (npp_Labels fp) k = Some (the (map_of (npp_Labels fp) k))" if "k \<in> set (map fst (npp_Labels fp))" for k
    using that by (metis map_of_eq_None_iff option.collapse set_map)
  then show ?thesis
    by (auto simp: nodepoolMetadataUpToDate_def apply_update_def metadata_body_def no_update_def declaredLabels_def
        declaredTaints_def list_all_iff)
qed

definition same_scale :: "node_group \<Rightarrow> node_group \<Rightarrow> bool" where
  "same_scale g h \<longleftrightarrow> ng_IsAutoscaling g = ng_IsAutoscaling h \<and> ng_MinSize g = ng_MinSize h \<and> ng_MaxSize g = ng_MaxSize h \<and>
     ng_NodeCount g = ng_NodeCount h \<and> ng_PresetID g = ng_PresetID h"

text \<open>The outcome of a handler that ends with a group in the store.\<close>

definition leaves :: "('w \<Rightarrow> int \<Rightarrow> int \<Rightarrow> node_group option) \<Rightarrow> int \<Rightarrow> int \<Rightarrow> (node_group \<Rightarrow> bool) \<Rightarrow>
    (go_error + unit) \<times> ('w, nodepool_req, nodepool_parameters, nodepool_observation) rstate \<Rightarrow>
    ('w, nodepool_req, nodepool_parameters, nodepool_observation) rstate \<Rightarrow> bool" where
  "leaves store c i P out s \<longleftrightarrow> fst out = Inr () \<and> cr (snd out) = cr s \<and> (\<exists>g. store (world (snd out)) c i = Some g \<and> P g)"

lemma leaves_update:
  assumes "group_service api store" "store (world s) c i = Some g" "P (apply_update b g)"
  shows "leaves store c i P (write_call_as msg api (UpdateClusterNodeGroup c i b) s) s"
proof -
  from assms(1,2) obtain p w' where "answers api (world s) (UpdateClusterNodeGroup c i b) p w'" "store w' c i = Some (apply_update b g)"
    unfolding group_service_def by blast
  with assms(3) show ?thesis by (simp add: leaves_def write_call_as_run)
qed

lemma scale_step:
  assumes srv: "group_service api store" and st: "store (world s) c i = Some h" and same: "same_scale g h"
    and ok: "pool_spec_ok fp" "group_ok g" and meta: "nodepoolMetadataUpToDate fp h"
  shows "leaves store c i (\<lambda>h'. nodepoolMetadataUpToDate fp h' \<and> ng_PresetID h' = ng_PresetID g \<and>
      (if \<not> declared_on fp \<and> ng_IsAutoscaling g then \<not> ng_IsAutoscaling h' \<and> ng_NodeCount h' = ng_NodeCount g else scale_ok fp h'))
    (converge_scale api c i fp g s) s" (is "leaves store c i ?P _ _")
proof -
  have keep: "nodepoolMetadataUpToDate fp (apply_update b h)" if "ug_Labels b = None" "ug_Taints b = None" for b
    using meta that by (auto simp: nodepoolMetadataUpToDate_def apply_update_def split: if_splits)
  have count: "nodepoolMetadataUpToDate fp (h\<lparr>ng_NodeCount := n\<rparr>)" for n
    using meta by (auto simp: nodepoolMetadataUpToDate_def split: if_splits)
  let ?d = "npp_NodeCount fp - ng_NodeCount g"
  consider (on) "declared_on fp" "\<not> ng_IsAutoscaling g \<or> bounds_drift (the (npp_Autoscaling fp)) g"
    | (off) "\<not> declared_on fp" "ng_IsAutoscaling g"
    | (up) "\<not> declared_on fp" "\<not> ng_IsAutoscaling g" "?d > 0"
    | (down) "\<not> declared_on fp" "\<not> ng_IsAutoscaling g" "?d < 0"
    | (quiet) "scale_ok fp g" "declared_on fp \<or> \<not> ng_IsAutoscaling g"
    unfolding scale_ok_def
    by (cases "declared_on fp"; cases "ng_IsAutoscaling g"; cases "npp_NodeCount fp" "ng_NodeCount g" rule: linorder_cases) auto
  then show ?thesis
  proof cases
    case on
    then obtain a where a: "npp_Autoscaling fp = Some a" by (auto simp: declared_on_def split: option.splits)
    have "?P (apply_update (autoscaling_body a) h)"
      using on(1) a same keep[of "autoscaling_body a"]
      by (simp add: scale_ok_def bounds_drift_def apply_update_sels autoscaling_body_def no_update_def same_scale_def)
    then have "leaves store c i ?P (patchNodeGroup api c i (autoscaling_body a) s) s"
      unfolding patchNodeGroup_def by (rule leaves_update[where P = ?P, OF srv st])
    with on a show ?thesis by (simp add: converge_scale_def)
  next
    case off
    have "?P (apply_update (no_update\<lparr>ug_IsAutoscaling := Some False\<rparr>) h)"
      using off same keep[of "no_update\<lparr>ug_IsAutoscaling := Some False\<rparr>"]
      by (simp add: apply_update_sels no_update_def same_scale_def)
    then have "leaves store c i ?P (patchNodeGroup api c i (no_update\<lparr>ug_IsAutoscaling := Some False\<rparr>) s) s"
      unfolding patchNodeGroup_def by (rule leaves_update[where P = ?P, OF srv st])
    with off show ?thesis by (simp add: converge_scale_def)
  next
    case up
    then have act: "converge_scale api c i fp g = write_call api (IncreaseCountOfNodesInGroup c i ?d)"
      by (simp add: converge_scale_def converge_count_def Let_def wrap64_diff[OF ok])
    from up srv st obtain p w' where a: "answers api (world s) (IncreaseCountOfNodesInGroup c i ?d) p w'"
        and s': "store w' c i = Some (h\<lparr>ng_NodeCount := ng_NodeCount h + ?d\<rparr>)" unfolding group_service_def by metis
    from up same count[of "ng_NodeCount h + ?d"] s' show ?thesis
      unfolding act write_call_run[OF a] by (simp add: leaves_def scale_ok_def same_scale_def)
  next
    case down
    then have act: "converge_scale api c i fp g = write_call api (ReduceCountOfNodesInGroup c i (- ?d))"
      by (simp add: converge_scale_def converge_count_def Let_def wrap64_diff[OF ok])
    from down ok same have "0 < - ?d" "- ?d \<le> ng_NodeCount h" by (auto simp: pool_spec_ok_def same_scale_def)
    with srv st obtain p w' where a: "answers api (world s) (ReduceCountOfNodesInGroup c i (- ?d)) p w'"
        and s': "store w' c i = Some (h\<lparr>ng_NodeCount := ng_NodeCount h - - ?d\<rparr>)" unfolding group_service_def by metis
    from down same count[of "ng_NodeCount h - - ?d"] s' show ?thesis
      unfolding act write_call_run[OF a] by (simp add: leaves_def scale_ok_def same_scale_def)
  next
    case quiet
    then show ?thesis using st meta same
      by (auto simp: converge_scale_quiet leaves_def scale_ok_def bounds_drift_def same_scale_def)
  qed
qed

lemma group_step:
  assumes srv: "group_service api store" and st: "store (world s) c i = Some g" and ok: "pool_spec_ok fp" "group_ok g"
  shows "leaves store c i (\<lambda>h'. nodepoolMetadataUpToDate fp h' \<and> ng_PresetID h' = ng_PresetID g \<and>
      (if \<not> declared_on fp \<and> ng_IsAutoscaling g then \<not> ng_IsAutoscaling h' \<and> ng_NodeCount h' = ng_NodeCount g else scale_ok fp h'))
    (converge_group api c i fp g s) s" (is "leaves store c i ?P _ _")
proof (cases "nodepoolMetadataUpToDate fp g")
  case True
  with scale_step[OF srv st _ ok True] show ?thesis by (simp add: converge_group_eq same_scale_def)
next
  case False
  let ?m = "metadata_body fp"
  from srv st obtain p w' where a: "answers api (world s) (UpdateClusterNodeGroup c i ?m) p w'" "store w' c i = Some (apply_update ?m g)"
    unfolding group_service_def by blast
  let ?s = "s\<lparr>world := w', reqs := reqs s @ [UpdateClusterNodeGroup c i ?m]\<rparr>"
  have "same_scale g (apply_update ?m g)"
    by (simp add: same_scale_def apply_update_def metadata_body_def no_update_def)
  with a(2) metadata_applied[of fp g] ok have "leaves store c i ?P (converge_scale api c i fp g ?s) ?s"
    by (intro scale_step[OF srv]) (simp_all add: pool_spec_ok_def)
  with False show ?thesis
    by (simp add: converge_group_eq bindE_def write_call_as_run[OF a(1)] leaves_def)
qed

lemma nodepool_Update_step:
  assumes srv: "group_service api store" and st: "store (world s) c i = Some g"
    and id: "DecodeID (external_name (cr s)) = Some i" "nodepool_clusterID e (cr s) = Some c"
    and ok: "pool_spec_ok (for_provider (cr s))" "group_ok g" "\<not> sizing_rejected (for_provider (cr s)) (at_provider (cr s)) g"
  shows "leaves store c i (\<lambda>h'. nodepoolMetadataUpToDate (for_provider (cr s)) h' \<and> ng_PresetID h' = ng_PresetID g \<and>
      (if \<not> declared_on (for_provider (cr s)) \<and> ng_IsAutoscaling g then \<not> ng_IsAutoscaling h' \<and> ng_NodeCount h' = ng_NodeCount g
       else scale_ok (for_provider (cr s)) h'))
    (nodepool_Update api e s) s"
proof -
  let ?s = "s\<lparr>world := world s, reqs := reqs s @ [GetClusterNodeGroup c i]\<rparr>"
  have get: "answers api (world s) (GetClusterNodeGroup c i) (PGroup g) (world s)"
    using srv st unfolding group_service_def by blast
  have "update_group api c i (for_provider (cr s)) (at_provider (cr s)) g = converge_group api c i (for_provider (cr s)) g"
    using ok(3) by (auto simp: update_group_def sizing_rejected_def)
  with nodepool_Update_run[OF id get] group_step[OF srv _ ok(1,2), of ?s c i] st show ?thesis
    by (simp add: leaves_def)
qed

text \<open>
  C14. Two \<^verbatim>\<open>Update\<close> passes converge a pool. Whatever labels, taints, autoscaling and count the group has, when
  the sizing is not refused and the service does what it is asked, both passes succeed and then the group is
  up to date, the resource being otherwise untouched.
\<close>

theorem nodepool_Update_converges:
  assumes "group_service api store" "store (world s) c i = Some g"
    and "DecodeID (external_name (cr s)) = Some i" "nodepool_clusterID e (cr s) = Some c"
    and "pool_spec_ok (for_provider (cr s))" "group_ok g" "\<not> sizing_rejected (for_provider (cr s)) (at_provider (cr s)) g"
    and "nodepool_Update api e s = (r1, s1)" "nodepool_Update api e s1 = (r2, s2)"
  shows "r1 = Inr () \<and> r2 = Inr () \<and> cr s2 = cr s \<and>
    (\<exists>g'. store (world s2) c i = Some g' \<and> isNodepoolUpToDate (for_provider (cr s)) (at_provider (cr s)) g')"
proof -
  let ?fp = "for_provider (cr s)" and ?st = "at_provider (cr s)"
  from nodepool_Update_step[OF assms(1-7)] assms(8) obtain h where h: "r1 = Inr ()" "cr s1 = cr s" "store (world s1) c i = Some h"
      "nodepoolMetadataUpToDate ?fp h" "ng_PresetID h = ng_PresetID g"
      "if \<not> declared_on ?fp \<and> ng_IsAutoscaling g then \<not> ng_IsAutoscaling h \<and> ng_NodeCount h = ng_NodeCount g else scale_ok ?fp h"
    by (auto simp: leaves_def)
  have "npp_Resources ?fp \<noteq> None \<longrightarrow> npo_LockedPresetID ?st = None" "npp_Resources ?fp = None \<longrightarrow> npo_LockedConfiguratorID ?st = None"
    "npp_PresetName ?fp = None \<longleftrightarrow> npp_Resources ?fp \<noteq> None"
    using assms(5,7) by (auto simp: sizing_rejected_def pool_spec_ok_def)
  then have utd: "isNodepoolUpToDate ?fp ?st x \<longleftrightarrow> nodepoolMetadataUpToDate ?fp x \<and> scale_ok ?fp x" for x
    by (intro isNodepoolUpToDate_iff)
  show ?thesis
  proof (cases "scale_ok ?fp h")
    case True
    have get: "answers api (world s1) (GetClusterNodeGroup c i) (PGroup h) (world s1)"
      using assms(1) h(3) unfolding group_service_def by blast
    have "update_group api c i ?fp ?st h = returnOk ()"
      using assms(7) h(4,5) True by (auto simp: update_group_def sizing_rejected_def converge_group_eq converge_scale_quiet)
    with nodepool_Update_run[of s1 i e c api h "world s1"] get assms(3,4,9) h utd True show ?thesis by auto
  next
    case False
    with h(6) have "\<not> declared_on ?fp" "\<not> ng_IsAutoscaling h" "ng_NodeCount h = ng_NodeCount g" by (auto split: if_splits)
    with nodepool_Update_step[of api store s1 c i h e] assms h utd show ?thesis
      by (auto simp: leaves_def sizing_rejected_def group_ok_def)
  qed
qed

text \<open>A service that keeps one group; the world is the group.\<close>

definition wit_group :: node_group where
  "wit_group = \<lparr>ng_ID = 17, ng_Name = ''workers'', ng_PresetID = 9, ng_ConfiguratorID = 0, ng_NodeCount = 5, ng_Labels = [(''env'', ''dev'')],
     ng_Taints = [], ng_IsAutoscaling = True, ng_MinSize = Some 1, ng_MaxSize = Some 9\<rparr>"

definition wit_group_api :: "node_group nodepool_api" where
  "wit_group_api g q = (case q of
     GetClusterNodeGroup c i \<Rightarrow> (Resp (ok_response (PGroup g)), g)
   | UpdateClusterNodeGroup c i b \<Rightarrow> (Resp (ok_response (PGroup (apply_update b g))), apply_update b g)
   | IncreaseCountOfNodesInGroup c i n \<Rightarrow> (Resp (ok_response (PGroup g)), g\<lparr>ng_NodeCount := ng_NodeCount g + n\<rparr>)
   | ReduceCountOfNodesInGroup c i n \<Rightarrow> (Resp (ok_response (PGroup g)), g\<lparr>ng_NodeCount := ng_NodeCount g - n\<rparr>)
   | _ \<Rightarrow> (Resp (ok_response (PNodes [])), g))"

lemma wit_group_service: "group_service wit_group_api (\<lambda>g _ _. Some g)"
  unfolding group_service_def by (auto intro!: exI answers_ok simp: wit_group_api_def)

lemma wit_pool_facts:
  "DecodeID (external_name (cr (wit_pool_state w))) = Some 17" "nodepool_clusterID wit_pool_ext (cr (wit_pool_state w)) = Some 5"
  "pool_spec_ok (for_provider (cr (wit_pool_state w)))" "group_ok wit_group"
  "\<not> sizing_rejected (for_provider (cr (wit_pool_state w))) (at_provider (cr (wit_pool_state w))) wit_group"
  by (simp_all add: wit_pool_state_def wit_state_def) code_simp+

theorem nodepool_Update_converges_witness:
  "let out = nodepool_Update wit_group_api wit_pool_ext (wit_pool_state wit_group);
       out2 = nodepool_Update wit_group_api wit_pool_ext (snd out) in
   isNodepoolUpToDate wit_pool_fp (at_provider wit_pool_mr) (world (snd out2))"
proof -
  let ?s = "wit_pool_state wit_group"
  obtain r1 s1 where u1: "nodepool_Update wit_group_api wit_pool_ext ?s = (r1, s1)" by fastforce
  obtain r2 s2 where u2: "nodepool_Update wit_group_api wit_pool_ext s1 = (r2, s2)" by fastforce
  have "Some (world ?s) = Some wit_group" by (simp add: wit_pool_state_def wit_state_def)
  from nodepool_Update_converges[OF wit_group_service this wit_pool_facts u1 u2] u1 u2 show ?thesis
    by (simp add: wit_pool_state_def wit_state_def wit_pool_mr_def)
qed


end
