(* ===== verification/NodepoolCreate.thy ===== *)
theory NodepoolCreate
  imports NodepoolSafety Monitored
begin

text \<open>
  Readiness of a nodepool, and the adoption guard of \<^verbatim>\<open>Create\<close>: after a create whose outcome is unknown, a
  group is posted only in a world that holds no group of the declared identity.
\<close>

section \<open>Readiness\<close>

text \<open>When a pool counts as available.\<close>

definition pool_available :: "bool \<Rightarrow> bool \<Rightarrow> int \<Rightarrow> group_node list \<Rightarrow> bool" where
  "pool_available upToDate zeroOK declared nodes \<longleftrightarrow> upToDate \<and> (\<forall>n \<in> set nodes. \<not> node_failed n) \<and>
     (if declared = 0 \<and> nodes = [] then zeroOK
      else declared \<le> int (card {i. i < length nodes \<and> nodeIsActive (gn_Status (nodes ! i))}))"

lemma ready_conditions_differ [simp]:
  "ReadyFalse r \<noteq> Available" "Creating \<noteq> Available" "c_type (ReadyFalse r) = TypeReady" "c_type Available = TypeReady" "c_type Creating = TypeReady"
  by (simp_all add: ReadyFalse_def Available_def Creating_def)

lemma setNodepoolReadyCondition_run:
  assumes "setNodepoolReadyCondition u z d nodes s = (r, s')"
  shows "r = Inr () \<and> (conditions (cr s') TypeReady = Some Available \<longleftrightarrow> pool_available u z d nodes)"
proof -
  have "length (filter (\<lambda>n. nodeIsActive (gn_Status n)) nodes) = card {i. i < length nodes \<and> nodeIsActive (gn_Status (nodes ! i))}"
    by (rule length_filter_conv_card)
  with assms show ?thesis
    by (auto simp: setNodepoolReadyCondition_def pool_available_def list_ex_iff SetConditions_def record_and_set_run modify_cr_run
        split: if_splits)
qed

text \<open>
  A pool is reported Ready exactly when its group is up to date, no node has failed, and as many nodes as
  requested are active; with nothing requested and no node, only when the pool is declared to scale to zero.
\<close>

theorem nodepool_ready_iff:
  assumes "DecodeID (external_name (cr s)) = Some i" "nodepool_clusterID e (cr s) = Some c"
    and "answers api (world s) (GetClusterNodeGroup c i) (PGroup g) w1"
    and "answers api w1 (GetClusterNodesFromGroup c i) (PNodes nodes) w2"
    and "fp = for_provider (cr s)" "nodepool_Observe api e s = (Inr ob, s')"
  shows "ResourceExists ob \<and> (conditions (cr s') TypeReady = Some Available \<longleftrightarrow>
    pool_available (ResourceUpToDate ob)
      (ResourceUpToDate ob \<and> declared_on fp \<and> as_MinSize (the (npp_Autoscaling fp)) = 0) (ng_NodeCount g) nodes)"
proof -
  from answers_classify[OF assms(3)] obtain resp where resp: "classify_result (fst (api (world s) (GetClusterNodeGroup c i))) = Inr resp"
      "resp_payload resp = Some (PGroup g)" "snd (api (world s) (GetClusterNodeGroup c i)) = w1" by blast
  let ?s1 = "s\<lparr>world := w1, reqs := reqs s @ [GetClusterNodeGroup c i]\<rparr>"
  have "nodepool_Observe api e s = observe_group api c i g ?s1"
    using assms(1,2) resp
    by (simp add: nodepool_Observe_def Let_def bindE_gets attempt_call_run on_not_found_def decode_def)
  with assms(6) have run: "observe_group api c i g ?s1 = (Inr ob, s')" by simp
  let ?m = "set_cluster_id c (populateNodepoolStatus g (cr s))"
  define u where "u = isNodepoolUpToDate fp (at_provider ?m) g"
  define z where "z \<longleftrightarrow> u \<and> declared_on fp \<and> as_MinSize (the (npp_Autoscaling fp)) = 0"
  let ?s2 = "?s1\<lparr>cr := ?m\<rparr>"
  let ?s3 = "?s2\<lparr>world := w2, reqs := reqs ?s1 @ [GetClusterNodesFromGroup c i], cr := publishNodeList nodes ?m\<rparr>"
  have fp: "for_provider ?m = fp" using assms(5) by (simp add: set_cluster_id_def populateNodepoolStatus_def)
  have nodes: "observeGroupNodes api c i ?s2 = (Inr nodes, ?s2\<lparr>world := w2, reqs := reqs ?s1 @ [GetClusterNodesFromGroup c i]\<rparr>)"
    using fetch_as_run[of api ?s2 "GetClusterNodesFromGroup c i" "PNodes nodes" w2 as_nodes nodes] assms(4)
    by (simp add: observeGroupNodes_def)
  have z': "(u \<and> (case npp_Autoscaling fp of None \<Rightarrow> False | Some a \<Rightarrow> as_Enabled a \<and> as_MinSize a = 0)) = z"
    by (auto simp: z_def declared_on_def split: option.split)
  have "observe_group api c i g ?s1 = bindE (setNodepoolReadyCondition u z (ng_NodeCount g) nodes) (\<lambda>_. returnOk (present u)) ?s3"
    unfolding observe_group_def Let_def bindE_modify_cr bindE_gets
    by (simp add: bindE_def[of "observeGroupNodes _ _ _"] nodes bindE_modify_cr fp u_def[symmetric] z')
  with run obtain s4 where "setNodepoolReadyCondition u z (ng_NodeCount g) nodes ?s3 = (Inr (), s4)" "s' = s4" "ob = present u"
    by (auto simp: bindE_Inr returnOk_def)
  with setNodepoolReadyCondition_run[of u z "ng_NodeCount g" nodes ?s3] show ?thesis by (auto simp: z_def)
qed

definition wit_nodes_api :: "bool \<Rightarrow> unit nodepool_api" where
  "wit_nodes_api up w q = (case q of
     GetClusterNodesFromGroup c i \<Rightarrow> (Resp (ok_response (PNodes (replicate 3 \<lparr>gn_ID = 1, gn_Status = (if up then ''active'' else ''installing''),
        gn_NodeIP = None, gn_CreatedAt = None\<rparr>))), w)
   | _ \<Rightarrow> (Resp (ok_response (PGroup (wit_group\<lparr>ng_NodeCount := 3, ng_IsAutoscaling := False, ng_Labels := npp_Labels wit_pool_fp,
        ng_Taints := declaredTaints (npp_Taints wit_pool_fp)\<rparr>))), w))"

definition wit_pool_run :: "bool \<Rightarrow> (go_error + observation) \<times> (unit, nodepool_req, nodepool_parameters, nodepool_observation) rstate" where
  "wit_pool_run up = nodepool_Observe (wit_nodes_api up) wit_pool_ext (wit_pool_state ())"

definition ready_in :: "(go_error + observation) \<times> (unit, nodepool_req, nodepool_parameters, nodepool_observation) rstate \<Rightarrow> bool" where
  "ready_in out \<longleftrightarrow> conditions (cr (snd out)) TypeReady = Some Available"

theorem nodepool_ready_iff_witness:
  "fst (wit_pool_run True) = Inr (present True) \<and> ready_in (wit_pool_run True) \<and> \<not> ready_in (wit_pool_run False)"
proof -
  have "fst (wit_pool_run True) = Inr (present True)" "fst (wit_pool_run False) = Inr (present True)" by code_simp+
  then have o: "fst (wit_pool_run up) = Inr (present True)" for up by (cases up) simp_all
  define nodes where "nodes up = replicate 3 \<lparr>gn_ID = 1, gn_Status = (if up then ''active'' else ''installing''),
      gn_NodeIP = None, gn_CreatedAt = None\<rparr>" for up
  have "ready_in (wit_pool_run up) \<longleftrightarrow> up" for up
  proof -
    let ?s = "wit_pool_state ()"
    let ?g = "wit_group\<lparr>ng_NodeCount := 3, ng_IsAutoscaling := False, ng_Labels := npp_Labels wit_pool_fp,
        ng_Taints := declaredTaints (npp_Taints wit_pool_fp)\<rparr>"
    obtain r s' where run: "nodepool_Observe (wit_nodes_api up) wit_pool_ext ?s = (r, s')" by fastforce
    with o[of up] have r: "r = Inr (present True)" by (simp add: wit_pool_run_def)
    have a: "answers (wit_nodes_api up) (world ?s) (GetClusterNodeGroup 5 17) (PGroup ?g) ()"
      "answers (wit_nodes_api up) () (GetClusterNodesFromGroup 5 17) (PNodes (nodes up)) ()"
      by (rule answers_ok; simp add: wit_nodes_api_def nodes_def)+
    have "ready_in (wit_pool_run up) \<longleftrightarrow> pool_available True False 3 (nodes up)"
      using nodepool_ready_iff[OF wit_pool_facts(1,2) a refl run[unfolded r]] run
      by (simp add: ready_in_def wit_pool_run_def wit_pool_state_def wit_state_def wit_pool_mr_def wit_pool_fp_def declared_on_def)
    moreover have "nodeIsActive ''active''" "\<not> nodeIsActive ''installing''" by code_simp+
    moreover have "\<not> node_failed \<lparr>gn_ID = 1, gn_Status = ''active'', gn_NodeIP = None, gn_CreatedAt = None\<rparr>" by code_simp
    moreover have "card {i. i < 3 \<and> nodeIsActive (gn_Status (nodes up ! i))} = (if up then 3 else 0)"
      using calculation(2,3) by (auto simp: nodes_def cong: conj_cong)
    ultimately show ?thesis by (auto simp: pool_available_def nodes_def)
  qed
  with o show ?thesis by blast
qed

section \<open>Adoption\<close>

definition body_preset :: "create_group_body \<Rightarrow> int" where
  "body_preset b = (case cg_PresetId b of None \<Rightarrow> 0 | Some p \<Rightarrow> p)"

definition body_configurator :: "create_group_body \<Rightarrow> int" where
  "body_configurator b = (case cg_Configuration b of None \<Rightarrow> 0 | Some x \<Rightarrow> gc_ConfiguratorId x)"

text \<open>A POST is fresh when no group of the cluster has its identity.\<close>

definition fresh_create :: "('w \<Rightarrow> int \<Rightarrow> node_group list) \<Rightarrow> 'w \<Rightarrow> nodepool_req \<Rightarrow> bool" where
  "fresh_create groups w q = (case q of
     CreateClusterNodeGroup c b \<Rightarrow> \<not> list_ex (identity_match (cg_Name b) (body_preset b) (body_configurator b)) (groups w c)
   | _ \<Rightarrow> True)"

definition listing_truthful :: "'w nodepool_api \<Rightarrow> ('w \<Rightarrow> int \<Rightarrow> node_group list) \<Rightarrow> bool" where
  "listing_truthful api groups \<longleftrightarrow> (\<forall>w c r w'. api w (GetClusterNodeGroups c) = (r, w') \<longrightarrow> w' = w \<and>
     (\<forall>resp gs. r = Resp resp \<longrightarrow> resp_payload resp = Some (PGroups gs) \<longrightarrow> gs = groups w c))"

lemma listing_read:
  assumes "listing_truthful api groups" "findGroupsByIdentity (monitor ok api) c name p k s = (Inr ms, s')"
  shows "fst (world s') = fst (world s) \<and> ms = filter (identity_match name p k) (groups (fst (world s)) c)"
proof -
  from assms(2) obtain gs where f: "fetch (monitor ok api) ''kubernetes/nodepool: node-groups list'' as_groups (GetClusterNodeGroups c) s = (Inr gs, s')"
    and ms: "ms = filter (identity_match name p k) gs"
    by (auto simp: findGroupsByIdentity_def bindE_Inr returnOk_def)
  from fetch_Inr[OF f] obtain resp q where r: "fst (api (fst (world s)) (GetClusterNodeGroups c)) = Resp resp"
      "resp_payload resp = Some q" "as_groups q = Some gs" "s' = after_call (monitor ok api) (GetClusterNodeGroups c) s"
    by (auto simp: monitor_world)
  obtain r1 w1 where a: "api (fst (world s)) (GetClusterNodeGroups c) = (r1, w1)" by fastforce
  from r(3) have "q = PGroups gs" by (cases q) simp_all
  with assms(1) a r have "w1 = fst (world s) \<and> gs = groups (fst (world s)) c"
    unfolding listing_truthful_def by (metis fst_conv)
  with r(4) a ms show ?thesis by (simp add: monitor_world)
qed

abbreviation watched_pool :: "('w \<Rightarrow> int \<Rightarrow> node_group list) \<Rightarrow> 'w nodepool_api \<Rightarrow> ('w \<times> bool) nodepool_api" where
  "watched_pool groups api \<equiv> monitor (fresh_create groups) api"

lemma fresh_quiet: "(\<forall>c b. q \<noteq> CreateClusterNodeGroup c b) \<Longrightarrow> fresh_create groups w q"
  by (cases q) (simp_all add: fresh_create_def)

lemma safe_fetch_as: "(\<And>w. ok w q) \<Longrightarrow> safe (fetch_as msg (monitor ok api) pfx sel q)"
  unfolding fetch_as_def call_classify_as_def
  by (intro safe_bindE safe_decode; auto simp: safe_def call_def monitor_def returnOk_def throwError_def
      split: prod.splits http_result.splits option.splits)

lemma safe_sizing: "safe (nodepool_sizing (watched_pool groups api) (lift_resolver rslv) e c fp)"
proof -
  have az: "safe (parentClusterAZ (watched_pool groups api) c)"
    unfolding parentClusterAZ_def by (intro safe_fetch_as fresh_quiet) simp
  have cfg: "safe (resolveK8sConfigurator (lift_resolver rslv) pc dim l x y z g t)" for pc dim l x y z g t
    unfolding resolveK8sConfigurator_def by (auto intro!: safe_bindE safe_lift_resolver split: resolve_output.split)
  have pre: "safe (resolveWorkerPreset (lift_resolver rslv) pc sl z l)" for pc sl z l
    unfolding resolveWorkerPreset_def by (auto intro!: safe_bindE safe_lift_resolver split: resolve_output.split)
  show ?thesis
    unfolding nodepool_sizing_def parentClusterLocation_def
    by (intro safe_cases safe_bindE safe_map_resolver_error az cfg pre safe_simple)
qed

lemma sizing_result:
  assumes "nodepool_sizing api rslv e c fp s = (Inr (p, k), s')"
  shows "cg_Name (buildCreateNodeGroupBody fp p k) = npp_Name fp \<and>
    body_preset (buildCreateNodeGroupBody fp p k) = p \<and> body_configurator (buildCreateNodeGroupBody fp p k) = k"
  using assms
  by (auto simp: nodepool_sizing_def bindE_Inr map_resolver_error_Inr returnOk_def throwError_def body_preset_def body_configurator_def
      buildCreateNodeGroupBody_def split: option.splits prod.splits)

lemma safe_explain: "safe (explainRouterIntegration err)"
  unfolding explainRouterIntegration_def by (auto intro!: safe_bindE split: go_error.split)

lemma safe_at_post:
  assumes "fresh_create groups (fst (world s)) (CreateClusterNodeGroup c (buildCreateNodeGroupBody fp p k))"
  shows "safe_at s (post_group (watched_pool groups api) c fp p k)"
  unfolding post_group_def
  by (rule safe_at_bindE[OF safe_at_attempt[OF safe_at_call_classify]], rule assms, rule safe_atI)
     (intro safe_cases safe_bindE safe_explain safe_decode safe_simple)

text \<open>The adoption guard: the POST follows only an empty listing of the declared identity.\<close>

lemma safe_at_guarded_post:
  assumes truthful: "listing_truthful api groups"
    and sizing: "nodepool_sizing (watched_pool groups api) (lift_resolver rslv) e c fp s0 = (Inr (p, k), s1)"
  shows "safe_at s1 (bindE (findGroupsByIdentity (watched_pool groups api) c (npp_Name fp) p k)
    (adopt_or_post (watched_pool groups api) c fp p k))"
proof (rule safe_at_bindE)
  show "safe_at s1 (findGroupsByIdentity (watched_pool groups api) c (npp_Name fp) p k)"
    unfolding findGroupsByIdentity_def by (intro safe_atI safe_bindE safe_fetch fresh_quiet safe_simple) simp
next
  fix ms s2 assume "findGroupsByIdentity (watched_pool groups api) c (npp_Name fp) p k s1 = (Inr ms, s2)"
  note l = listing_read[OF truthful this]
  show "safe_at s2 (adopt_or_post (watched_pool groups api) c fp p k ms)"
  proof (cases ms)
    case Nil
    with l sizing_result[OF sizing] have "fresh_create groups (fst (world s2)) (CreateClusterNodeGroup c (buildCreateNodeGroupBody fp p k))"
      by (auto simp: fresh_create_def empty_filter_conv list_ex_iff)
    with Nil show ?thesis by (simp add: adopt_or_post_def safe_at_post)
  next
    case (Cons g gs)
    then show ?thesis by (auto simp: adopt_or_post_def intro!: safe_atI safe_bindE split: list.split)
  qed
qed

text \<open>
  C15. After a create whose outcome is unknown, \<^verbatim>\<open>Create\<close> posts a group only in a world in which the parent
  cluster has no group of the declared identity (name, preset or configurator): a lost result is adopted or
  refused, never duplicated.
\<close>

theorem nodepool_Create_fresh:
  fixes api :: "'w nodepool_api"
  assumes "listing_truthful api groups" "create_incomplete (cr s) \<or> create_failed (cr s) \<noteq> []" "snd (world s)"
    and "nodepool_Create (monitor (fresh_create groups) api) (lift_resolver rslv) e s = (r, s')"
  shows "snd (world s')"
proof (cases "DecodeID (ne_resolvedClusterID e)")
  case None
  with assms(3,4) show ?thesis by (simp add: nodepool_Create_def bindE_gets throwError_def Let_def)
next
  case (Some c)
  let ?fp = "for_provider (cr s)"
  let ?tail = "adopt_or_post (watched_pool groups api) c ?fp"
  have run: "bindE (nodepool_sizing (watched_pool groups api) (lift_resolver rslv) e c ?fp) (\<lambda>(p, k).
      bindE (findGroupsByIdentity (watched_pool groups api) c (npp_Name ?fp) p k) (?tail p k)) s = (r, s')"
    using assms(2,4) Some by (simp add: nodepool_Create_def bindE_gets Let_def)
  have "safe_at s (bindE (nodepool_sizing (watched_pool groups api) (lift_resolver rslv) e c ?fp) (\<lambda>(p, k).
      bindE (findGroupsByIdentity (watched_pool groups api) c (npp_Name ?fp) p k) (?tail p k)))"
    by (rule safe_at_bindE[OF safe_atI[OF safe_sizing]]) (auto intro: safe_at_guarded_post[OF assms(1)])
  with run assms(3) show ?thesis by (simp add: safe_at_def)
qed

definition wit_fresh_api :: "node_group list nodepool_api" where
  "wit_fresh_api w q = (case q of
     NpGetCluster c \<Rightarrow> (Resp (ok_response (PClusterAZ ''msk-1'')), w)
   | GetClusterNodeGroups c \<Rightarrow> (Resp (ok_response (PGroups w)), w)
   | CreateClusterNodeGroup c b \<Rightarrow> (Resp (ok_response (PGroup wit_group)), wit_group # w)
   | _ \<Rightarrow> (Resp (ok_response (PGroups w)), w))"

definition wit_create_run :: "node_group list \<Rightarrow> (go_error + unit) \<times> (node_group list \<times> bool, nodepool_req, nodepool_parameters, nodepool_observation) rstate" where
  "wit_create_run gs = nodepool_Create (monitor (fresh_create (\<lambda>w _. w)) wit_fresh_api) (lift_resolver (\<lambda>_ _ _ w. (Inr (PresetOutput 9), w)))
     wit_pool_ext (wit_state (gs, True) (wit_pool_mr\<lparr>external_name := [], create_incomplete := True\<rparr>))"

theorem nodepool_Create_fresh_witness:
  "snd (world (snd (wit_create_run [wit_group]))) \<and> external_name (cr (snd (wit_create_run [wit_group]))) = ''17'' \<and>
   length (fst (world (snd (wit_create_run [wit_group])))) = 1 \<and> length (fst (world (snd (wit_create_run [])))) = 1"
proof (intro conjI)
  have t: "listing_truthful wit_fresh_api (\<lambda>w _. w)"
    by (simp add: listing_truthful_def wit_fresh_api_def ok_response_def)
  obtain r s' where run: "wit_create_run [wit_group] = (r, s')" by fastforce
  have "snd (world s')"
    by (rule nodepool_Create_fresh[OF t _ _ run[unfolded wit_create_run_def]]) (simp_all add: wit_state_def)
  then show "snd (world (snd (wit_create_run [wit_group])))" unfolding run snd_conv .
qed code_simp+

end
