(* ===== verification/FirewallExternal.thy ===== *)
theory FirewallExternal
  imports ExternalClient
begin

text \<open>
  The Firewall kind: \<^verbatim>\<open>internal/controller/network/firewall_external.go\<close> over the hand-written client
  \<^verbatim>\<open>internal/clients/timeweb/firewall.go\<close>, whose methods are the requests \<open>firewall_req\<close>.

  The maps from keys to desired rules and attachments are association lists with distinct keys. The two
  passes of \<^verbatim>\<open>reconcileRules\<close> and \<^verbatim>\<open>reconcileAttachments\<close> have the same shape, \<open>prune\<close> and \<open>fill\<close>; the budget
  is the number of writes left.
\<close>

section \<open>Data\<close>

record firewall_rule =
  fr_Direction :: string
  fr_Protocol :: string
  fr_Port :: "string option"
  fr_CIDR :: string
  fr_Description :: "string option"

record service_attachment =
  sa_ServiceID :: string
  sa_ServiceType :: string

record firewall_parameters =
  ff_Name :: string
  ff_Description :: "string option"
  ff_Policy :: string
  ff_Rules :: "firewall_rule list"
  ff_AttachedServices :: "service_attachment list"

record firewall_group =
  fg_ID :: string
  fg_Name :: string
  fg_Description :: string
  fg_Policy :: string
  fg_CreatedAt :: string
  fg_UpdatedAt :: string

record rule_payload =
  ru_ID :: string
  ru_Direction :: string
  ru_Protocol :: string
  ru_Port :: "string option"
  ru_CIDR :: string
  ru_Description :: "string option"
  ru_GroupID :: string

text \<open>\<^verbatim>\<open>FlexID\<close> decodes a JSON string or a bare number to the same string.\<close>

record firewall_resource =
  fs_ID :: string
  fs_Type :: string

record firewall_rule_status =
  frs_ID :: string
  frs_Direction :: string
  frs_Protocol :: string
  frs_Port :: "string option"
  frs_CIDR :: string
  frs_Description :: "string option"

record firewall_observation =
  fo_ID :: "string option"
  fo_Policy :: "string option"
  fo_RuleCount :: "nat option"
  fo_AttachedCount :: "nat option"
  fo_Rules :: "firewall_rule_status list"
  fo_AttachedServices :: "service_attachment list"
  fo_CreatedAt :: "string option"
  fo_UpdatedAt :: "string option"

datatype firewall_req =
    CreateFirewallGroup string string string
  | GetFirewallGroup string
  | ListFirewallGroups
  | PatchFirewallGroup string string string
  | DeleteFirewallGroup string
  | ListFirewallRules string
  | CreateFirewallRule string rule_payload
  | DeleteFirewallRule string string
  | ListFirewallResources string
  | LinkFirewallResource string string string
  | UnlinkFirewallResource string string string
  | GetServiceFirewallGroups string string

datatype firewall_payload =
    PGroupFw firewall_group | PGroupsFw "firewall_group list" | PRules "rule_payload list" | PResources "firewall_resource list"
  | PServiceGroups "string list"

fun as_fw_group :: "firewall_payload \<Rightarrow> firewall_group option" where
  "as_fw_group (PGroupFw g) = Some g" | "as_fw_group _ = None"
fun as_fw_groups :: "firewall_payload \<Rightarrow> firewall_group list option" where
  "as_fw_groups (PGroupsFw g) = Some g" | "as_fw_groups _ = None"
fun as_rules :: "firewall_payload \<Rightarrow> rule_payload list option" where
  "as_rules (PRules g) = Some g" | "as_rules _ = None"
fun as_resources :: "firewall_payload \<Rightarrow> firewall_resource list option" where
  "as_resources (PResources g) = Some g" | "as_resources _ = None"
fun as_service_groups :: "firewall_payload \<Rightarrow> string list option" where
  "as_service_groups (PServiceGroups g) = Some g" | "as_service_groups _ = None"

type_synonym firewall_mr = "(firewall_parameters, firewall_observation) mr"
type_synonym ('w, 'a) firewall_act = "('w, firewall_req, firewall_parameters, firewall_observation, 'a) act"
type_synonym 'w firewall_api = "('w, firewall_req, firewall_payload) api"

definition maxFirewallMutationsPerReconcile :: nat where
  "maxFirewallMutationsPerReconcile = 8"

section \<open>Desired state\<close>

definition effectivePolicy :: "firewall_parameters \<Rightarrow> string" where
  "effectivePolicy fp = (if ff_Policy fp = [] then ''DROP'' else ff_Policy fp)"

definition ruleKey :: "string \<Rightarrow> string \<Rightarrow> string option \<Rightarrow> string \<Rightarrow> string" where
  "ruleKey direction protocol port cidr =
     (let p = (if ToLower protocol \<noteq> ''icmp'' then DerefString port else []) in
      ToLower direction @ ''|'' @ ToLower protocol @ ''|'' @ p @ ''|'' @ cidr)"

definition rule_key :: "rule_payload \<Rightarrow> string" where
  "rule_key r = ruleKey (ru_Direction r) (ru_Protocol r) (ru_Port r) (ru_CIDR r)"

definition payload_of :: "firewall_rule \<Rightarrow> rule_payload" where
  "payload_of r = \<lparr>ru_ID = [], ru_Direction = fr_Direction r, ru_Protocol = fr_Protocol r,
     ru_Port = (if ToLower (fr_Protocol r) = ''icmp'' then None else fr_Port r), ru_CIDR = fr_CIDR r,
     ru_Description = fr_Description r, ru_GroupID = []\<rparr>"

text \<open>The loop of \<^verbatim>\<open>desiredRuleSet\<close>: the first rule of a key is kept, a second one sets \<^verbatim>\<open>dup\<close>.\<close>

fun collect_rules :: "firewall_rule list \<Rightarrow> (string \<times> rule_payload) list \<Rightarrow> bool \<Rightarrow> (string \<times> rule_payload) list \<times> bool" where
  "collect_rules [] out dup = (out, dup)"
| "collect_rules (r # rs) out dup =
     (let p = payload_of r; key = rule_key p in
      if map_of out key \<noteq> None then collect_rules rs out True
      else collect_rules rs (out @ [(key, p)]) dup)"

definition desiredRuleSet :: "firewall_parameters \<Rightarrow> (string \<times> rule_payload) list \<times> bool" where
  "desiredRuleSet fp = collect_rules (ff_Rules fp) [] False"

definition normalizeType :: "string \<Rightarrow> string" where
  "normalizeType t = (if t = [] then ''balancer'' else t)"

definition attachKey :: "service_attachment \<Rightarrow> string" where
  "attachKey a = normalizeType (sa_ServiceType a) @ ''|'' @ sa_ServiceID a"

definition desiredAttachSet :: "firewall_parameters \<Rightarrow> (string \<times> service_attachment) list" where
  "desiredAttachSet fp = map_build (map (\<lambda>a. (attachKey a, a)) (ff_AttachedServices fp))"

definition attachment_of :: "firewall_resource \<Rightarrow> service_attachment" where
  "attachment_of r = \<lparr>sa_ServiceID = fs_ID r, sa_ServiceType = fs_Type r\<rparr>"

text \<open>\<^verbatim>\<open>sortedRulePayloads\<close> and \<^verbatim>\<open>sortedAttachments\<close>\<close>

definition sorted_values :: "(string \<times> 'v) list \<Rightarrow> 'v list" where
  "sorted_values m = map (\<lambda>k. the (map_of m k)) (sort (map fst m))"

definition rulesConverged :: "(string \<times> rule_payload) list \<Rightarrow> rule_payload list \<Rightarrow> bool" where
  "rulesConverged desired observed \<longleftrightarrow>
     (if length desired \<noteq> length observed then False else list_all (\<lambda>r. map_of desired (rule_key r) \<noteq> None) observed)"

definition attachConverged :: "(string \<times> service_attachment) list \<Rightarrow> firewall_resource list \<Rightarrow> bool" where
  "attachConverged desired observed \<longleftrightarrow>
     (if length desired \<noteq> length observed then False
      else list_all (\<lambda>r. map_of desired (attachKey (attachment_of r)) \<noteq> None) observed)"

section \<open>Calls\<close>

definition doJSON :: "'w firewall_api \<Rightarrow> (firewall_payload \<Rightarrow> 'a option) \<Rightarrow> firewall_req \<Rightarrow> ('w, 'a) firewall_act" where
  "doJSON api sel q = bindE (call_classify api q) (\<lambda>resp. case Option.bind (resp_payload resp) sel of
     Some x \<Rightarrow> returnOk x | None \<Rightarrow> throwError DecodeBodyError)"

definition getGroup :: "'w firewall_api \<Rightarrow> string \<Rightarrow> ('w, firewall_group) firewall_act" where
  "getGroup api n = doJSON api as_fw_group (GetFirewallGroup n)"

definition listRules :: "'w firewall_api \<Rightarrow> string \<Rightarrow> ('w, rule_payload list) firewall_act" where
  "listRules api n = doJSON api as_rules (ListFirewallRules n)"

definition listResources :: "'w firewall_api \<Rightarrow> string \<Rightarrow> ('w, firewall_resource list) firewall_act" where
  "listResources api n = doJSON api as_resources (ListFirewallResources n)"

definition createGroup :: "'w firewall_api \<Rightarrow> firewall_parameters \<Rightarrow> ('w, firewall_group) firewall_act" where
  "createGroup api fp = doJSON api as_fw_group (CreateFirewallGroup (ff_Name fp) (DerefString (ff_Description fp)) (effectivePolicy fp))"

definition findGroupByName :: "'w firewall_api \<Rightarrow> string \<Rightarrow> ('w, firewall_group option) firewall_act" where
  "findGroupByName api name = bindE (doJSON api as_fw_groups ListFirewallGroups) (\<lambda>gs.
     returnOk (find (\<lambda>g. fg_Name g = name) gs))"

definition boundElsewhere :: "'w firewall_api \<Rightarrow> string \<Rightarrow> string \<Rightarrow> string \<Rightarrow> ('w, string option) firewall_act" where
  "boundElsewhere api groupID serviceID serviceType =
     bindE (attempt (doJSON api as_service_groups (GetServiceFirewallGroups serviceType serviceID))) (\<lambda>r. case r of
       Inl err \<Rightarrow> returnOk None
     | Inr gs \<Rightarrow> returnOk (find (\<lambda>g. g \<noteq> groupID) gs))"

definition attach :: "'w firewall_api \<Rightarrow> string \<Rightarrow> service_attachment \<Rightarrow> ('w, unit) firewall_act" where
  "attach api groupID a = (let svcType = normalizeType (sa_ServiceType a) in
     bindE (boundElsewhere api groupID (sa_ServiceID a) svcType) (\<lambda>other. case other of
       Some g \<Rightarrow>
         bindE (modify_cr (SetConditions (SyncedFalse ''ServiceConflict''))) (\<lambda>_.
         bindE (emit_event EventTypeWarning ''ServiceConflict'') (\<lambda>_.
         throwError (Errorf ''firewall: service is already attached to another group'')))
     | None \<Rightarrow> write_call api (LinkFirewallResource groupID (sa_ServiceID a) svcType)))"

definition rejectDuplicate :: "('w, 'a) firewall_act" where
  "rejectDuplicate =
     bindE (modify_cr (SetConditions (SyncedFalse ''InvalidConfiguration''))) (\<lambda>_.
     bindE (emit_event EventTypeWarning ''InvalidConfiguration'') (\<lambda>_.
     throwError ErrDuplicateRule))"

section \<open>Reconciliation\<close>

text \<open>The first loop of both passes: delete what is not wanted. \<open>None\<close> is the return for an empty budget.\<close>

fun prune :: "('o \<Rightarrow> bool) \<Rightarrow> ('o \<Rightarrow> ('w, unit) firewall_act) \<Rightarrow> 'o list \<Rightarrow> nat \<Rightarrow> ('w, nat option) firewall_act" where
  "prune wanted del [] budget = returnOk (Some budget)"
| "prune wanted del (x # xs) budget =
     (if budget = 0 then returnOk None
      else if wanted x then prune wanted del xs budget
      else bindE (del x) (\<lambda>_. prune wanted del xs (budget - 1)))"

text \<open>The second loop: create what is missing.\<close>

fun fill :: "('d \<Rightarrow> bool) \<Rightarrow> ('d \<Rightarrow> ('w, unit) firewall_act) \<Rightarrow> 'd list \<Rightarrow> nat \<Rightarrow> ('w, nat) firewall_act" where
  "fill have mk [] budget = returnOk budget"
| "fill have mk (d # ds) budget =
     (if budget = 0 then returnOk budget
      else if have d then fill have mk ds budget
      else bindE (mk d) (\<lambda>_. fill have mk ds (budget - 1)))"

definition reconcileRules :: "'w firewall_api \<Rightarrow> firewall_parameters \<Rightarrow> string \<Rightarrow> nat \<Rightarrow> ('w, nat) firewall_act" where
  "reconcileRules api fp n budget = (let desired = fst (desiredRuleSet fp) in
     bindE (listRules api n) (\<lambda>observed.
     bindE (prune (\<lambda>r. map_of desired (rule_key r) \<noteq> None) (\<lambda>r. write_call api (DeleteFirewallRule n (ru_ID r))) observed budget) (\<lambda>x.
     case x of None \<Rightarrow> returnOk 0
     | Some b \<Rightarrow> fill (\<lambda>d. rule_key d \<in> set (map rule_key observed)) (\<lambda>d. write_call api (CreateFirewallRule n d)) (sorted_values desired) b)))"

definition reconcileAttachments :: "'w firewall_api \<Rightarrow> firewall_parameters \<Rightarrow> string \<Rightarrow> nat \<Rightarrow> ('w, nat) firewall_act" where
  "reconcileAttachments api fp n budget = (let desired = desiredAttachSet fp; key = (\<lambda>r. attachKey (attachment_of r)) in
     bindE (listResources api n) (\<lambda>observed.
     bindE (prune (\<lambda>r. map_of desired (key r) \<noteq> None)
       (\<lambda>r. write_call api (UnlinkFirewallResource n (fs_ID r) (normalizeType (fs_Type r)))) observed budget) (\<lambda>x.
     case x of None \<Rightarrow> returnOk 0
     | Some b \<Rightarrow> fill (\<lambda>a. attachKey a \<in> set (map key observed)) (attach api n) (sorted_values desired) b)))"

section \<open>The handlers\<close>

definition rule_status :: "rule_payload \<Rightarrow> firewall_rule_status" where
  "rule_status r = \<lparr>frs_ID = ru_ID r, frs_Direction = ru_Direction r, frs_Protocol = ru_Protocol r, frs_Port = ru_Port r,
     frs_CIDR = ru_CIDR r, frs_Description = ru_Description r\<rparr>"

definition populateFirewallStatus :: "firewall_group \<Rightarrow> rule_payload list \<Rightarrow> firewall_resource list \<Rightarrow> firewall_mr \<Rightarrow> firewall_mr" where
  "populateFirewallStatus g rules resources m = m\<lparr>at_provider := (at_provider m)\<lparr>
     fo_ID := Some (fg_ID g), fo_Policy := Some (fg_Policy g),
     fo_RuleCount := Some (length rules), fo_AttachedCount := Some (length resources),
     fo_CreatedAt := (if fg_CreatedAt g \<noteq> [] then Some (fg_CreatedAt g) else fo_CreatedAt (at_provider m)),
     fo_UpdatedAt := (if fg_UpdatedAt g \<noteq> [] then Some (fg_UpdatedAt g) else fo_UpdatedAt (at_provider m)),
     fo_Rules := map rule_status rules, fo_AttachedServices := map attachment_of resources\<rparr>\<rparr>"

definition isFirewallUpToDate :: "firewall_parameters \<Rightarrow> firewall_group \<Rightarrow> rule_payload list \<Rightarrow> firewall_resource list \<Rightarrow> bool" where
  "isFirewallUpToDate fp g rules resources \<longleftrightarrow>
     (case desiredRuleSet fp of (desiredRules, dup) \<Rightarrow>
      \<not> dup \<and> fg_Name g = ff_Name fp \<and> fg_Description g = DerefString (ff_Description fp) \<and> fg_Policy g = effectivePolicy fp \<and>
      rulesConverged desiredRules rules \<and> attachConverged (desiredAttachSet fp) resources)"

definition firewall_Observe :: "'w firewall_api \<Rightarrow> ('w, observation) firewall_act" where
  "firewall_Observe api =
     bindE (gets external_name) (\<lambda>n.
     if n = [] then returnOk absent
     else bindE (attempt (getGroup api n)) (on_not_found (returnOk absent) (\<lambda>group.
       bindE (listRules api n) (\<lambda>rules.
       bindE (listResources api n) (\<lambda>resources.
       bindE (modify_cr (populateFirewallStatus group rules resources)) (\<lambda>_.
       bindE (modify_cr (SetConditions Available)) (\<lambda>_.
       bindE (gets for_provider) (\<lambda>fp.
       returnOk (present (isFirewallUpToDate fp group rules resources))))))))))"

fun each :: "('a \<Rightarrow> ('w, unit) firewall_act) \<Rightarrow> 'a list \<Rightarrow> ('w, unit) firewall_act" where
  "each f [] = returnOk ()"
| "each f (x # xs) = bindE (f x) (\<lambda>_. each f xs)"

definition firewall_Create :: "'w firewall_api \<Rightarrow> ('w, unit) firewall_act" where
  "firewall_Create api =
     bindE (gets for_provider) (\<lambda>fp.
     if snd (desiredRuleSet fp) then rejectDuplicate
     else bindE (findGroupByName api (ff_Name fp)) (\<lambda>found. case found of
       Some g \<Rightarrow> bindE (modify_cr (\<lambda>m. m\<lparr>external_name := fg_ID g\<rparr>)) (\<lambda>_. modify_cr (SetConditions Creating))
     | None \<Rightarrow>
         bindE (createGroup api fp) (\<lambda>g.
         bindE (modify_cr (\<lambda>m. m\<lparr>external_name := fg_ID g\<rparr>)) (\<lambda>_.
         bindE (each (\<lambda>r. write_call api (CreateFirewallRule (fg_ID g) r)) (sorted_values (fst (desiredRuleSet fp)))) (\<lambda>_.
         bindE (each (attach api (fg_ID g)) (sorted_values (desiredAttachSet fp))) (\<lambda>_.
         modify_cr (SetConditions Creating)))))))"

text \<open>\<^verbatim>\<open>Update\<close> after its GET.\<close>

definition converge_firewall :: "'w firewall_api \<Rightarrow> firewall_parameters \<Rightarrow> string \<Rightarrow> firewall_group \<Rightarrow> ('w, unit) firewall_act" where
  "converge_firewall api fp n g =
     (case FirstImmutableDiff [imm ''policy'' (effectivePolicy fp) (fg_Policy g)] of
        Some field \<Rightarrow> RejectImmutableChange field
      | None \<Rightarrow>
          bindE (if fg_Name g \<noteq> ff_Name fp \<or> fg_Description g \<noteq> DerefString (ff_Description fp)
                 then write_call api (PatchFirewallGroup n (ff_Name fp) (DerefString (ff_Description fp))) else returnOk ()) (\<lambda>_.
          bindE (reconcileRules api fp n maxFirewallMutationsPerReconcile) (\<lambda>budget.
          bindE (reconcileAttachments api fp n budget) (\<lambda>_. returnOk ()))))"

definition firewall_Update :: "'w firewall_api \<Rightarrow> ('w, unit) firewall_act" where
  "firewall_Update api =
     bindE (gets (\<lambda>m. m)) (\<lambda>m. let fp = for_provider m; n = external_name m in
     if snd (desiredRuleSet fp) then rejectDuplicate
     else bindE (getGroup api n) (converge_firewall api fp n))"

definition firewall_Delete :: "'w firewall_api \<Rightarrow> ('w, unit) firewall_act" where
  "firewall_Delete api =
     bindE (gets external_name) (\<lambda>n.
     if n = [] then returnOk ()
     else delete_or_gone api (DeleteFirewallGroup n) (modify_cr (SetConditions Deleting)))"

end
