(* ===== verification/FirewallService.thy ===== *)
theory FirewallService
  imports FirewallExternal Monitored
begin

text \<open>
  The firewall API as the code relies on it: \<open>firewall_service\<close> says, over a view of the service's state, what
  each of the requests of \<^verbatim>\<open>clients/timeweb/firewall.go\<close> answers and changes. A concrete service that keeps one
  group shows that the contract can be met.
\<close>

section \<open>The contract of the service\<close>

record 'w fw_view =
  fv_api :: "'w firewall_api"
  fv_group :: "'w \<Rightarrow> string \<Rightarrow> firewall_group option"
  fv_rules :: "'w \<Rightarrow> string \<Rightarrow> rule_payload list"
  fv_resources :: "'w \<Rightarrow> string \<Rightarrow> firewall_resource list"
  fv_bound :: "'w \<Rightarrow> string \<Rightarrow> string \<Rightarrow> string list"

definition settings :: "firewall_group \<Rightarrow> string \<times> string \<times> string" where
  "settings g = (fg_Name g, fg_Description g, fg_Policy g)"

text \<open>What a write on one group leaves alone; timestamps may change.\<close>

definition same_settings :: "'w fw_view \<Rightarrow> string \<Rightarrow> 'w \<Rightarrow> 'w \<Rightarrow> bool" where
  "same_settings v n w w' \<longleftrightarrow> map_option settings (fv_group v w' n) = map_option settings (fv_group v w n)"

definition same_rules :: "'w fw_view \<Rightarrow> string \<Rightarrow> 'w \<Rightarrow> 'w \<Rightarrow> bool" where
  "same_rules v n w w' \<longleftrightarrow> fv_rules v w' n = fv_rules v w n"

definition same_resources :: "'w fw_view \<Rightarrow> string \<Rightarrow> 'w \<Rightarrow> 'w \<Rightarrow> bool" where
  "same_resources v n w w' \<longleftrightarrow> fv_resources v w' n = fv_resources v w n"

definition no_new_group :: "'w fw_view \<Rightarrow> string \<Rightarrow> 'w \<Rightarrow> 'w \<Rightarrow> bool" where
  "no_new_group v n w w' \<longleftrightarrow> (\<forall>t i. set (fv_bound v w' t i) \<subseteq> insert n (set (fv_bound v w t i)))"

definition reads_ok :: "'w fw_view \<Rightarrow> bool" where
  "reads_ok v \<longleftrightarrow> (\<forall>w n.
     (\<forall>g. fv_group v w n = Some g \<longrightarrow> answers (fv_api v) w (GetFirewallGroup n) (PGroupFw g) w) \<and>
     answers (fv_api v) w (ListFirewallRules n) (PRules (fv_rules v w n)) w \<and>
     answers (fv_api v) w (ListFirewallResources n) (PResources (fv_resources v w n)) w \<and>
     (\<forall>t i. answers (fv_api v) w (GetServiceFirewallGroups t i) (PServiceGroups (fv_bound v w t i)) w))"

definition patch_ok :: "'w fw_view \<Rightarrow> bool" where
  "patch_ok v \<longleftrightarrow> (\<forall>w n nm d g. fv_group v w n = Some g \<longrightarrow> (\<exists>p w'.
     answers (fv_api v) w (PatchFirewallGroup n nm d) p w' \<and>
     map_option settings (fv_group v w' n) = Some (nm, d, fg_Policy g) \<and>
     same_rules v n w w' \<and> same_resources v n w w' \<and> no_new_group v n w w'))"

definition rule_writes_ok :: "'w fw_view \<Rightarrow> bool" where
  "rule_writes_ok v \<longleftrightarrow> (\<forall>w n.
     (\<forall>d. \<exists>p w' i. answers (fv_api v) w (CreateFirewallRule n d) p w' \<and> i \<notin> ru_ID ` set (fv_rules v w n) \<and>
        fv_rules v w' n = fv_rules v w n @ [d\<lparr>ru_ID := i, ru_GroupID := n\<rparr>] \<and>
        same_settings v n w w' \<and> same_resources v n w w' \<and> no_new_group v n w w') \<and>
     (\<forall>i. \<exists>p w'. answers (fv_api v) w (DeleteFirewallRule n i) p w' \<and>
        fv_rules v w' n = filter (\<lambda>r. ru_ID r \<noteq> i) (fv_rules v w n) \<and>
        same_settings v n w w' \<and> same_resources v n w w' \<and> no_new_group v n w w'))"

definition attachment_writes_ok :: "'w fw_view \<Rightarrow> bool" where
  "attachment_writes_ok v \<longleftrightarrow> (\<forall>w n i t.
     (\<exists>p w'. answers (fv_api v) w (LinkFirewallResource n i t) p w' \<and>
        fv_resources v w' n = fv_resources v w n @ [\<lparr>fs_ID = i, fs_Type = t\<rparr>] \<and>
        same_settings v n w w' \<and> same_rules v n w w' \<and> no_new_group v n w w') \<and>
     (\<exists>p w'. answers (fv_api v) w (UnlinkFirewallResource n i t) p w' \<and>
        fv_resources v w' n = filter (\<lambda>r. \<not> (fs_ID r = i \<and> normalizeType (fs_Type r) = t)) (fv_resources v w n) \<and>
        same_settings v n w w' \<and> same_rules v n w w' \<and> no_new_group v n w w'))"

definition firewall_service :: "'w fw_view \<Rightarrow> bool" where
  "firewall_service v \<longleftrightarrow> reads_ok v \<and> patch_ok v \<and> rule_writes_ok v \<and> attachment_writes_ok v"

text \<open>The contract, request by request.\<close>

lemma service_create_rule:
  assumes "firewall_service v"
  obtains p w' i where "answers (fv_api v) w (CreateFirewallRule n d) p w'" "i \<notin> ru_ID ` set (fv_rules v w n)"
    "fv_rules v w' n = fv_rules v w n @ [d\<lparr>ru_ID := i, ru_GroupID := n\<rparr>]"
    "same_settings v n w w'" "same_resources v n w w'" "no_new_group v n w w'"
  using assms unfolding firewall_service_def rule_writes_ok_def by blast

lemma service_delete_rule:
  assumes "firewall_service v"
  obtains p w' where "answers (fv_api v) w (DeleteFirewallRule n i) p w'"
    "fv_rules v w' n = filter (\<lambda>r. ru_ID r \<noteq> i) (fv_rules v w n)"
    "same_settings v n w w'" "same_resources v n w w'" "no_new_group v n w w'"
  using assms unfolding firewall_service_def rule_writes_ok_def by blast

lemma service_link:
  assumes "firewall_service v"
  obtains p w' where "answers (fv_api v) w (LinkFirewallResource n i t) p w'"
    "fv_resources v w' n = fv_resources v w n @ [\<lparr>fs_ID = i, fs_Type = t\<rparr>]"
    "same_settings v n w w'" "same_rules v n w w'" "no_new_group v n w w'"
  using assms unfolding firewall_service_def attachment_writes_ok_def by blast

lemma service_unlink:
  assumes "firewall_service v"
  obtains p w' where "answers (fv_api v) w (UnlinkFirewallResource n i t) p w'"
    "fv_resources v w' n = filter (\<lambda>r. \<not> (fs_ID r = i \<and> normalizeType (fs_Type r) = t)) (fv_resources v w n)"
    "same_settings v n w w'" "same_rules v n w w'" "no_new_group v n w w'"
  using assms unfolding firewall_service_def attachment_writes_ok_def by blast

lemma service_reads:
  assumes "firewall_service v"
  shows "fv_group v w n = Some g \<Longrightarrow> answers (fv_api v) w (GetFirewallGroup n) (PGroupFw g) w"
    "answers (fv_api v) w (ListFirewallRules n) (PRules (fv_rules v w n)) w"
    "answers (fv_api v) w (ListFirewallResources n) (PResources (fv_resources v w n)) w"
    "answers (fv_api v) w (GetServiceFirewallGroups t i) (PServiceGroups (fv_bound v w t i)) w"
  using assms unfolding firewall_service_def reads_ok_def by blast+

section \<open>A service with one group\<close>

record one_group =
  og_group :: firewall_group
  og_rules :: "rule_payload list"
  og_resources :: "firewall_resource list"

definition fresh_rule_id :: "rule_payload list \<Rightarrow> string" where
  "fresh_rule_id rs = concat (map ru_ID rs) @ ''r''"

lemma fresh_rule_id: "r \<in> set rs \<Longrightarrow> ru_ID r \<noteq> fresh_rule_id rs"
proof -
  assume "r \<in> set rs"
  then obtain ys zs where "rs = ys @ r # zs" by (blast dest: split_list)
  then have "length (ru_ID r) < length (fresh_rule_id rs)" by (simp add: fresh_rule_id_def)
  then show ?thesis by auto
qed

definition one_group_api :: "one_group firewall_api" where
  "one_group_api w q = (let ok = (\<lambda>p w'. (Resp (ok_response p), w')) in case q of
     GetFirewallGroup _ \<Rightarrow> ok (PGroupFw (og_group w)) w
   | ListFirewallGroups \<Rightarrow> ok (PGroupsFw []) w
   | CreateFirewallGroup nm d p \<Rightarrow> ok (PGroupFw (og_group w)) w
   | PatchFirewallGroup _ nm d \<Rightarrow> ok (PRules []) (w\<lparr>og_group := (og_group w)\<lparr>fg_Name := nm, fg_Description := d\<rparr>\<rparr>)
   | DeleteFirewallGroup _ \<Rightarrow> ok (PRules []) (w\<lparr>og_rules := [], og_resources := []\<rparr>)
   | ListFirewallRules _ \<Rightarrow> ok (PRules (og_rules w)) w
   | CreateFirewallRule n d \<Rightarrow>
       ok (PRules []) (w\<lparr>og_rules := og_rules w @ [d\<lparr>ru_ID := fresh_rule_id (og_rules w), ru_GroupID := n\<rparr>]\<rparr>)
   | DeleteFirewallRule _ i \<Rightarrow> ok (PRules []) (w\<lparr>og_rules := filter (\<lambda>r. ru_ID r \<noteq> i) (og_rules w)\<rparr>)
   | ListFirewallResources _ \<Rightarrow> ok (PResources (og_resources w)) w
   | LinkFirewallResource _ i t \<Rightarrow> ok (PRules []) (w\<lparr>og_resources := og_resources w @ [\<lparr>fs_ID = i, fs_Type = t\<rparr>]\<rparr>)
   | UnlinkFirewallResource _ i t \<Rightarrow>
       ok (PRules []) (w\<lparr>og_resources := filter (\<lambda>r. \<not> (fs_ID r = i \<and> normalizeType (fs_Type r) = t)) (og_resources w)\<rparr>)
   | GetServiceFirewallGroups _ _ \<Rightarrow> ok (PServiceGroups []) w)"

definition one_group_view :: "one_group fw_view" where
  "one_group_view = \<lparr>fv_api = one_group_api, fv_group = (\<lambda>w _. Some (og_group w)), fv_rules = (\<lambda>w _. og_rules w),
     fv_resources = (\<lambda>w _. og_resources w), fv_bound = (\<lambda>_ _ _. [])\<rparr>"

lemma one_group_service: "firewall_service one_group_view"
  unfolding firewall_service_def reads_ok_def patch_ok_def rule_writes_ok_def attachment_writes_ok_def
    one_group_view_def same_rules_def same_resources_def same_settings_def no_new_group_def
  by (auto intro!: exI answers_ok simp: one_group_api_def settings_def fresh_rule_id[symmetric] dest: fresh_rule_id)

text \<open>A firewall to be brought from one stray rule and one stray attachment to a rule for each network in \<open>cs\<close> and one attachment.\<close>

definition wit_fw_fp :: "string \<Rightarrow> firewall_parameters" where
  "wit_fw_fp cs = \<lparr>ff_Name = ''web'', ff_Description = Some ''front'', ff_Policy = [],
     ff_Rules = map (\<lambda>c. \<lparr>fr_Direction = ''ingress'', fr_Protocol = ''TCP'', fr_Port = Some ''443'', fr_CIDR = [c], fr_Description = None\<rparr>) cs,
     ff_AttachedServices = [\<lparr>sa_ServiceID = ''31'', sa_ServiceType = []\<rparr>]\<rparr>"

definition wit_fw_world :: one_group where
  "wit_fw_world = \<lparr>og_group = \<lparr>fg_ID = ''g1'', fg_Name = ''web'', fg_Description = [], fg_Policy = ''DROP'', fg_CreatedAt = [], fg_UpdatedAt = []\<rparr>,
     og_rules = [\<lparr>ru_ID = ''r0'', ru_Direction = ''egress'', ru_Protocol = ''icmp'', ru_Port = None, ru_CIDR = ''z'', ru_Description = None,
       ru_GroupID = ''g1''\<rparr>],
     og_resources = [\<lparr>fs_ID = ''30'', fs_Type = ''server''\<rparr>]\<rparr>"

definition wit_fw_mr :: "string \<Rightarrow> firewall_mr" where
  "wit_fw_mr cs = \<lparr>external_name = ''g1'', create_incomplete = False, create_failed = [], for_provider = wit_fw_fp cs,
     at_provider = \<lparr>fo_ID = None, fo_Policy = None, fo_RuleCount = None, fo_AttachedCount = None, fo_Rules = [],
       fo_AttachedServices = [], fo_CreatedAt = None, fo_UpdatedAt = None\<rparr>, conditions = Map.empty\<rparr>"

definition wit_fw_state :: "string \<Rightarrow> 'w \<Rightarrow> ('w, firewall_req, firewall_parameters, firewall_observation) rstate" where
  "wit_fw_state cs w = wit_state w (wit_fw_mr cs)"

end
