(* ===== verification/FirewallBudget.thy ===== *)
theory FirewallBudget
  imports FirewallService
begin

text \<open>
  What one \<^verbatim>\<open>Update\<close> of a firewall may write: the budget of rule and attachment mutations, and the guard
  against attaching a service that belongs to another group.
\<close>

declare run_equations [simp del]

section \<open>Spending a budget\<close>

text \<open>
  \<open>spends P left b m\<close>: \<open>m\<close> issues at most \<open>b\<close> requests of the kind \<open>P\<close>, and when it returns a value,
  at most \<open>b\<close> together with what the value says is left.
\<close>

definition spends :: "('q \<Rightarrow> bool) \<Rightarrow> ('a \<Rightarrow> nat) \<Rightarrow> nat \<Rightarrow> ('w, 'q, 's, 'o, 'a) act \<Rightarrow> bool" where
  "spends P left b m \<longleftrightarrow> (\<forall>s r s'. m s = (r, s') \<longrightarrow> (\<exists>qs. reqs s' = reqs s @ qs \<and>
     (case r of Inr x \<Rightarrow> length (filter P qs) + left x \<le> b | Inl _ \<Rightarrow> length (filter P qs) \<le> b)))"

lemma spends_counts: "spends P left b m \<Longrightarrow> counts P b m"
  unfolding spends_def counts_def by (fastforce split: sum.splits)

lemma spends_return: "left x \<le> b \<Longrightarrow> spends P left b (returnOk x)"
  by (auto simp: spends_def returnOk_def)

lemma spends_seq:
  assumes m: "spends P left b m" and f: "\<And>x. spends P left' (left x) (f x)"
  shows "spends P left' b (bindE m f)"
  unfolding spends_def
proof (intro allI impI)
  fix s r s' assume run: "bindE m f s = (r, s')"
  obtain r1 s1 where m1: "m s = (r1, s1)" by (cases "m s")
  with m obtain qs1 where qs1: "reqs s1 = reqs s @ qs1"
    "case r1 of Inr x \<Rightarrow> length (filter P qs1) + left x \<le> b | Inl _ \<Rightarrow> length (filter P qs1) \<le> b" unfolding spends_def by blast
  show "\<exists>qs. reqs s' = reqs s @ qs \<and> (case r of Inr x \<Rightarrow> length (filter P qs) + left' x \<le> b | Inl _ \<Rightarrow> length (filter P qs) \<le> b)"
  proof (cases r1)
    case (Inl e)
    with run m1 qs1 show ?thesis by (auto simp: bindE_def)
  next
    case (Inr x)
    with run m1 have "f x s1 = (r, s')" by (simp add: bindE_def)
    with f[of x] obtain qs2 where "reqs s' = reqs s1 @ qs2"
      "case r of Inr y \<Rightarrow> length (filter P qs2) + left' y \<le> left x | Inl _ \<Rightarrow> length (filter P qs2) \<le> left x"
      unfolding spends_def by blast
    with qs1 Inr show ?thesis by (intro exI[of _ "qs1 @ qs2"]) (auto split: sum.splits)
  qed
qed

lemma spends_read: "emits (\<lambda>q. \<not> P q) m \<Longrightarrow> (\<And>x. spends P left b (f x)) \<Longrightarrow> spends P left b (bindE m f)"
proof (rule spends_seq[where left = "\<lambda>_. b"])
  assume "emits (\<lambda>q. \<not> P q) m"
  then show "spends P (\<lambda>_. b) b m"
    unfolding emits_def spends_def by (fastforce simp: list_all_iff filter_False split: sum.splits)
qed

lemma spends_step:
  assumes "counts P 1 m" "0 < b" "\<And>x. spends P left (b - 1) (f x)"
  shows "spends P left b (bindE m f)"
proof (rule spends_seq[where left = "\<lambda>_. b - 1"])
  show "spends P (\<lambda>_. b - 1) b m"
    unfolding spends_def
  proof (intro allI impI)
    fix s r s' assume "m s = (r, s')"
    with assms(1) obtain qs where "reqs s' = reqs s @ qs" "length (filter P qs) \<le> 1" unfolding counts_def by blast
    with assms(2) show "\<exists>qs. reqs s' = reqs s @ qs \<and>
       (case r of Inl _ \<Rightarrow> length (filter P qs) \<le> b | Inr x \<Rightarrow> length (filter P qs) + (b - 1) \<le> b)"
      by (auto intro!: exI[of _ qs] split: sum.split)
  qed
qed (rule assms(3))

lemma spends_cases:
  "(c \<Longrightarrow> spends P left b m) \<Longrightarrow> (\<not> c \<Longrightarrow> spends P left b n) \<Longrightarrow> spends P left b (if c then m else n)"
  "(x = None \<Longrightarrow> spends P left b m) \<Longrightarrow> (\<And>y. x = Some y \<Longrightarrow> spends P left b (f y)) \<Longrightarrow>
   spends P left b (case x of None \<Rightarrow> m | Some y \<Rightarrow> f y)"
  by (auto split: option.split)

section \<open>The two passes\<close>

abbreviation budget_left :: "nat option \<Rightarrow> nat" where
  "budget_left x \<equiv> (case x of None \<Rightarrow> 0 | Some b \<Rightarrow> b)"

lemma spends_prune:
  assumes "\<And>x. counts P 1 (del x)"
  shows "spends P budget_left b (prune wanted del xs b)"
proof (induction xs arbitrary: b)
  case (Cons x xs)
  then show ?case using assms by (auto intro!: spends_return spends_step)
qed (simp add: spends_return)

lemma spends_fill:
  assumes "\<And>d. counts P 1 (mk d)"
  shows "spends P (\<lambda>b. b) b (fill known mk ds b)"
proof (induction ds arbitrary: b)
  case (Cons d ds)
  then show ?case using assms by (auto intro!: spends_return spends_step)
qed (simp add: spends_return)

text \<open>The requests the budget counts, and the one it does not.\<close>

fun fw_budgeted :: "firewall_req \<Rightarrow> bool" where
  "fw_budgeted (CreateFirewallRule _ _) = True"
| "fw_budgeted (DeleteFirewallRule _ _) = True"
| "fw_budgeted (LinkFirewallResource _ _ _) = True"
| "fw_budgeted (UnlinkFirewallResource _ _ _) = True"
| "fw_budgeted _ = False"

fun fw_patches :: "firewall_req \<Rightarrow> bool" where
  "fw_patches (PatchFirewallGroup _ _ _) = True" | "fw_patches _ = False"

lemma emits_doJSON [emits_rules]: "P q \<Longrightarrow> emits P (doJSON api sel q)"
  unfolding doJSON_def by (intro emits_rules)

lemma emits_fw_reads [emits_rules]:
  "P (GetFirewallGroup n) \<Longrightarrow> emits P (getGroup api n)" "P (ListFirewallRules n) \<Longrightarrow> emits P (listRules api n)"
  "P (ListFirewallResources n) \<Longrightarrow> emits P (listResources api n)"
  "P (GetServiceFirewallGroups t i) \<Longrightarrow> emits P (boundElsewhere api n i t)"
  unfolding getGroup_def listRules_def listResources_def boundElsewhere_def by (auto intro!: emits_rules)

lemma emits_rejectDuplicate [emits_rules]: "emits P (rejectDuplicate :: ('w, 'a) firewall_act)"
  unfolding rejectDuplicate_def by (intro emits_rules)

lemma emits_attach [emits_rules]:
  "P (GetServiceFirewallGroups (normalizeType (sa_ServiceType a)) (sa_ServiceID a)) \<Longrightarrow>
   P (LinkFirewallResource n (sa_ServiceID a) (normalizeType (sa_ServiceType a))) \<Longrightarrow> emits P (attach api n a)"
  unfolding attach_def Let_def by (intro emits_rules)

lemma counts_option:
  "(x = None \<Longrightarrow> counts P k m) \<Longrightarrow> (\<And>y. x = Some y \<Longrightarrow> counts P k (f y)) \<Longrightarrow>
   counts P k (case x of None \<Rightarrow> m | Some y \<Rightarrow> f y)"
  by (auto split: option.split)

lemma counts_attach: "counts fw_budgeted 1 (attach api n a)"
  unfolding attach_def Let_def
  by (intro counts_read_bind counts_option counts_write) (auto intro!: emits_rules counts_mono[of _ 0] counts_emits)

lemma spends_reconcileRules: "spends fw_budgeted (\<lambda>b. b) b (reconcileRules api fp n b)"
  unfolding reconcileRules_def Let_def
  by (intro spends_read spends_seq[OF spends_prune] spends_cases counts_write)
    (auto intro!: emits_rules spends_return spends_fill counts_write)

lemma spends_reconcileAttachments: "spends fw_budgeted (\<lambda>b. b) b (reconcileAttachments api fp n b)"
  unfolding reconcileAttachments_def Let_def
  by (intro spends_read spends_seq[OF spends_prune] spends_cases counts_write)
    (auto intro!: emits_rules spends_return spends_fill counts_attach)

lemma emits_prune [emits_rules]: "(\<And>x. emits P (del x)) \<Longrightarrow> emits P (prune wanted del xs b)"
  by (induction xs arbitrary: b) (auto intro!: emits_rules)

lemma emits_fill [emits_rules]: "(\<And>d. emits P (mk d)) \<Longrightarrow> emits P (fill known mk ds b)"
  by (induction ds arbitrary: b) (auto intro!: emits_rules)

lemma emits_reconcile [emits_rules]:
  "emits (\<lambda>q. \<not> fw_patches q) (reconcileRules api fp n b)" "emits (\<lambda>q. \<not> fw_patches q) (reconcileAttachments api fp n b)"
  unfolding reconcileRules_def reconcileAttachments_def Let_def by (intro emits_rules; simp)+

lemma counts_converge:
  "counts fw_budgeted maxFirewallMutationsPerReconcile (converge_firewall api fp n g)"
  "counts fw_patches 1 (converge_firewall api fp n g)"
  unfolding converge_firewall_def
  by (intro counts_option counts_read_bind counts_bind_quiet counts_cases counts_write
      spends_counts[OF spends_seq[OF spends_reconcileRules spends_seq[OF spends_reconcileAttachments, where left' = "\<lambda>_. 0"]]];
    auto intro!: emits_rules counts_emits counts_mono[of _ 0] spends_return)+

text \<open>
  One \<^verbatim>\<open>Update\<close> of a firewall writes at most \<^verbatim>\<open>maxFirewallMutationsPerReconcile\<close> rules and attachments,
  whatever the service answers and wherever a call fails, and at most one PATCH of the group beside them.
\<close>

theorem firewall_Update_paced:
  "\<exists>qs. reqs (snd (firewall_Update api s)) = reqs s @ qs \<and>
     length (filter fw_budgeted qs) \<le> 8 \<and> length (filter fw_patches qs) \<le> 1"
proof -
  have "counts P k (firewall_Update api)"
    if "\<And>fp n g. counts P k (converge_firewall api fp n g)" "\<And>n. \<not> P (GetFirewallGroup n)" for P k
    unfolding firewall_Update_def Let_def using that
    by (intro counts_read_bind counts_cases(1)) (auto intro!: emits_rules counts_mono[of _ 0] counts_emits)
  from this[OF counts_converge(1)] this[OF counts_converge(2)]
  have "counts fw_budgeted 8 (firewall_Update api)" "counts fw_patches 1 (firewall_Update api)"
    by (simp_all add: maxFirewallMutationsPerReconcile_def)
  then show ?thesis
    unfolding counts_def by (metis append_same_eq prod.collapse same_append_eq)
qed

section \<open>No service is stolen\<close>

text \<open>In this world the service's own groups, as far as the API tells, include no group but \<open>g\<close>.\<close>

definition free_for :: "'w firewall_api \<Rightarrow> string \<Rightarrow> string \<Rightarrow> string \<Rightarrow> 'w \<Rightarrow> bool" where
  "free_for api g i t w = (case classify_result (fst (api w (GetServiceFirewallGroups t i))) of
     Inl _ \<Rightarrow> True
   | Inr resp \<Rightarrow> (case Option.bind (resp_payload resp) as_service_groups of None \<Rightarrow> True | Some gs \<Rightarrow> list_all (\<lambda>h. h = g) gs))"

definition link_free :: "'w firewall_api \<Rightarrow> 'w \<Rightarrow> firewall_req \<Rightarrow> bool" where
  "link_free api w q = (case q of LinkFirewallResource g i t \<Rightarrow> free_for api g i t w | _ \<Rightarrow> True)"

lemma boundElsewhere_run:
  "boundElsewhere api g i t s = (Inr (case classify_result (fst (api (world s) (GetServiceFirewallGroups t i))) of
     Inl _ \<Rightarrow> None
   | Inr resp \<Rightarrow> (case Option.bind (resp_payload resp) as_service_groups of None \<Rightarrow> None | Some gs \<Rightarrow> find (\<lambda>h. h \<noteq> g) gs)),
   after_call api (GetServiceFirewallGroups t i) s)"
  by (auto simp: boundElsewhere_def doJSON_def bindE_def attempt_def call_classify_run returnOk_def throwError_def
      split: sum.split option.split)

lemma boundElsewhere_free:
  assumes "boundElsewhere api g i t s = (Inr None, s')"
  shows "free_for api g i t (world s)"
  using assms
  by (auto simp: boundElsewhere_run free_for_def find_None_iff list_all_iff split: sum.splits option.splits)

lemma boundElsewhere_monitor_free:
  assumes "boundElsewhere (monitor ok api) g i t s = (Inr None, s')"
  shows "free_for api g i t (fst (world s)) \<and> fst (world s') = snd (api (fst (world s)) (GetServiceFirewallGroups t i))"
  using boundElsewhere_free[OF assms] assms by (auto simp: free_for_def boundElsewhere_run monitor_world)

lemma safe_doJSON: "(\<And>w. ok w q) \<Longrightarrow> safe (doJSON (monitor ok api) sel q)"
  unfolding doJSON_def by (intro safe_bindE safe_call_classify safe_cases safe_simple)

lemma safe_reads:
  "safe (getGroup (monitor (link_free api) api) n)" "safe (listRules (monitor (link_free api) api) n)"
  "safe (listResources (monitor (link_free api) api) n)" "safe (createGroup (monitor (link_free api) api) fp)"
  "safe (findGroupByName (monitor (link_free api) api) name)" "safe (boundElsewhere (monitor (link_free api) api) n i t)"
  unfolding getGroup_def listRules_def listResources_def createGroup_def findGroupByName_def boundElsewhere_def
  by (intro safe_doJSON safe_bindE safe_attempt safe_cases safe_simple; simp add: link_free_def)+

lemma safe_rejectDuplicate: "safe rejectDuplicate"
  unfolding rejectDuplicate_def by (intro safe_bindE safe_simple)

lemma safe_attach:
  assumes "\<And>w t i. snd (api w (GetServiceFirewallGroups t i)) = w"
  shows "safe (attach (monitor (link_free api) api) n a)"
proof -
  let ?api = "monitor (link_free api) api" and ?t = "normalizeType (sa_ServiceType a)" and ?i = "sa_ServiceID a"
  have "safe_at s (attach ?api n a)" for s
    unfolding attach_def Let_def
  proof (rule safe_at_bindE)
    show "safe_at s (boundElsewhere ?api n ?i ?t)" by (rule safe_atI[OF safe_reads(6)])
    fix other s' assume b: "boundElsewhere ?api n ?i ?t s = (Inr other, s')"
    show "safe_at s' (case other of Some g \<Rightarrow>
         bindE (modify_cr (SetConditions (SyncedFalse ''ServiceConflict''))) (\<lambda>_.
         bindE (emit_event EventTypeWarning ''ServiceConflict'') (\<lambda>_.
         throwError (Errorf ''firewall: service is already attached to another group'')))
       | None \<Rightarrow> write_call ?api (LinkFirewallResource n ?i ?t))"
    proof (cases other)
      case None
      with boundElsewhere_monitor_free b assms have "free_for api n ?i ?t (fst (world s'))" by fastforce
      with None show ?thesis by (auto intro!: safe_at_write simp: link_free_def)
    next
      case (Some g)
      then show ?thesis by (auto intro!: safe_atI safe_bindE)
    qed
  qed
  then show ?thesis by (simp add: safe_at_safe)
qed

lemma safe_prune: "(\<And>x. safe (del x)) \<Longrightarrow> safe (prune wanted del xs b)"
  by (induction xs arbitrary: b) (auto intro!: safe_bindE)

lemma safe_fill: "(\<And>d. safe (mk d)) \<Longrightarrow> safe (fill known mk ds b)"
  by (induction ds arbitrary: b) (auto intro!: safe_bindE)

lemma safe_each: "(\<And>x. safe (f x)) \<Longrightarrow> safe (each f xs)"
  by (induction xs) (auto intro!: safe_bindE)



end
