(* ===== verification/FirewallConverge.thy ===== *)
theory FirewallConverge
  imports FirewallBudget
begin

text \<open>
  Repeated \<^verbatim>\<open>Update\<close> passes converge a firewall. The two passes of an \<^verbatim>\<open>Update\<close> are instances of one contract,
  the locale \<open>keyed_reconcile\<close>: items with distinct keys, an operation that removes one item and one that
  creates the item of a key. A pass brings the items nearer to what is wanted by its whole budget.
\<close>

section \<open>Reconciling items by key\<close>

definition key_distance :: "'k set \<Rightarrow> 'k set \<Rightarrow> nat" where
  "key_distance K D = card (K - D) + card (D - K)"

lemma key_distance_0: "finite K \<Longrightarrow> finite D \<Longrightarrow> key_distance K D = 0 \<longleftrightarrow> K = D"
  by (auto simp: key_distance_def)

lemma key_distance_moved:
  assumes "finite K" "finite D" "Y \<subseteq> K - D" "Z \<subseteq> D - K"
  shows "key_distance ((K - Y) \<union> Z) D + card Y + card Z = key_distance K D"
proof -
  have "((K - Y) \<union> Z) - D = (K - D) - Y" "D - ((K - Y) \<union> Z) = (D - K) - Z" using assms(3,4) by auto
  moreover have "card ((K - D) - Y) + card Y = card (K - D)" "card ((D - K) - Z) + card Z = card (D - K)"
    using assms by (metis card_Diff_subset card_mono finite_Diff finite_subset le_add_diff_inverse2)+
  ultimately show ?thesis by (simp add: key_distance_def)
qed

lemma length_filter_card:
  assumes "distinct (map f xs)"
  shows "length (filter P xs) = card (f ` {x \<in> set xs. P x})"
proof -
  from assms have "distinct (map f (filter P xs))" by (rule distinct_map_filter)
  then have "card (set (map f (filter P xs))) = length (filter P xs)" by (metis distinct_card length_map)
  then show ?thesis by simp
qed

locale keyed_reconcile =
  fixes good :: "'v \<Rightarrow> ('w, firewall_req, firewall_parameters, firewall_observation) rstate \<Rightarrow> bool"
    and items :: "'v \<Rightarrow> 'w \<Rightarrow> 'i list"
    and okey :: "'i \<Rightarrow> string" and dkey :: "'d \<Rightarrow> string"
    and wants :: "'v \<Rightarrow> 'd list"
    and del :: "'v \<Rightarrow> 'i \<Rightarrow> ('w, unit) firewall_act" and mk :: "'v \<Rightarrow> 'd \<Rightarrow> ('w, unit) firewall_act"
    and rest :: "'v \<Rightarrow> ('w, firewall_req, firewall_parameters, firewall_observation) rstate \<Rightarrow> 'r"
  assumes keys_distinct: "good v s \<Longrightarrow> distinct (map okey (items v (world s)))"
    and wants_distinct: "distinct (map dkey (wants v))"
    and del_one: "good v s \<Longrightarrow> x \<in> set (items v (world s)) \<Longrightarrow>
      \<exists>s'. del v x s = (Inr (), s') \<and> good v s' \<and> rest v s' = rest v s \<and>
        set (items v (world s')) = set (items v (world s)) - {x}"
    and mk_one: "good v s \<Longrightarrow> d \<in> set (wants v) \<Longrightarrow> dkey d \<notin> okey ` set (items v (world s)) \<Longrightarrow>
      \<exists>s' x. mk v d s = (Inr (), s') \<and> good v s' \<and> rest v s' = rest v s \<and>
        set (items v (world s')) = insert x (set (items v (world s))) \<and> okey x = dkey d"
begin

abbreviation have_keys :: "'v \<Rightarrow> ('w, firewall_req, firewall_parameters, firewall_observation) rstate \<Rightarrow> string set" where
  "have_keys v s \<equiv> okey ` set (items v (world s))"

abbreviation want_keys :: "'v \<Rightarrow> string set" where
  "want_keys v \<equiv> dkey ` set (wants v)"

lemma prune_run:
  assumes "good v s" "set xs \<subseteq> set (items v (world s))" "distinct xs"
  shows "\<exists>s' r Y. prune wanted (del v) xs b s = (Inr r, s') \<and> good v s' \<and> rest v s' = rest v s \<and>
    Y \<subseteq> {x \<in> set xs. \<not> wanted x} \<and> card Y = min b (length (filter (\<lambda>x. \<not> wanted x) xs)) \<and>
    budget_left r = b - length (filter (\<lambda>x. \<not> wanted x) xs) \<and>
    set (items v (world s')) = set (items v (world s)) - Y"
  using assms
proof (induction xs arbitrary: b s)
  case Nil
  then show ?case by (auto simp: returnOk_def)
next
  case (Cons x xs)
  consider "b = 0" | "0 < b" "wanted x" | "0 < b" "\<not> wanted x" by auto
  then show ?case
  proof cases
    case 1
    with Cons.prems show ?thesis by (auto simp: returnOk_def intro!: exI[of _ "{}"])
  next
    case 2
    from Cons.IH[of s b] Cons.prems obtain s' r Y where "prune wanted (del v) xs b s = (Inr r, s')" "good v s'" "rest v s' = rest v s"
      "Y \<subseteq> {x \<in> set xs. \<not> wanted x}" "card Y = min b (length (filter (\<lambda>x. \<not> wanted x) xs))"
      "budget_left r = b - length (filter (\<lambda>x. \<not> wanted x) xs)" "set (items v (world s')) = set (items v (world s)) - Y" by auto
    with 2 show ?thesis by (intro exI[of _ s'] exI[of _ r] exI[of _ Y]) auto
  next
    case 3
    from del_one[of v s x] Cons.prems obtain s1 where s1: "del v x s = (Inr (), s1)" "good v s1" "rest v s1 = rest v s"
      "set (items v (world s1)) = set (items v (world s)) - {x}" by auto
    have sub: "set xs \<subseteq> set (items v (world s1))" using s1(4) Cons.prems by auto
    from Cons.IH[OF s1(2) sub, of "b - 1"] Cons.prems obtain s' r Y where run: "prune wanted (del v) xs (b - 1) s1 = (Inr r, s')"
      "good v s'" "rest v s' = rest v s1" and Y: "Y \<subseteq> {x \<in> set xs. \<not> wanted x}"
      "card Y = min (b - 1) (length (filter (\<lambda>x. \<not> wanted x) xs))"
      "budget_left r = b - 1 - length (filter (\<lambda>x. \<not> wanted x) xs)" "set (items v (world s')) = set (items v (world s1)) - Y" by auto
    have "x \<notin> Y" "finite Y" using Y(1) Cons.prems(3) by (auto intro: finite_subset)
    with 3 s1 run Y show ?thesis
      by (intro exI[of _ s'] exI[of _ r] exI[of _ "insert x Y"]) (auto simp: bindE_def)
  qed
qed

lemma fill_run:
  assumes "good v s" "set ds \<subseteq> set (wants v)" "distinct (map dkey ds)"
    and "\<forall>d \<in> set ds. dkey d \<in> have_keys v s \<longrightarrow> known d"
  shows "\<exists>s' Z. fill known (mk v) ds b s = (Inr (b - length (filter (\<lambda>d. \<not> known d) ds)), s') \<and> good v s' \<and> rest v s' = rest v s \<and>
    Z \<subseteq> dkey ` {d \<in> set ds. \<not> known d} \<and> card Z = min b (length (filter (\<lambda>d. \<not> known d) ds)) \<and>
    have_keys v s' = have_keys v s \<union> Z"
  using assms
proof (induction ds arbitrary: b s)
  case Nil
  then show ?case by (auto simp: returnOk_def)
next
  case (Cons d ds)
  consider "b = 0" | "0 < b" "known d" | "0 < b" "\<not> known d" by auto
  then show ?case
  proof cases
    case 1
    with Cons.prems show ?thesis by (auto simp: returnOk_def intro!: exI[of _ "{}"])
  next
    case 2
    from Cons.IH[of s b] Cons.prems obtain s' Z where "fill known (mk v) ds b s = (Inr (b - length (filter (\<lambda>d. \<not> known d) ds)), s')"
      "good v s'" "rest v s' = rest v s" "Z \<subseteq> dkey ` {d \<in> set ds. \<not> known d}"
      "card Z = min b (length (filter (\<lambda>d. \<not> known d) ds))" "have_keys v s' = have_keys v s \<union> Z" by auto
    with 2 show ?thesis by (intro exI[of _ s'] exI[of _ Z]) auto
  next
    case 3
    from mk_one[of v s d] Cons.prems(1,2) Cons.prems(4) 3 obtain s1 x where s1: "mk v d s = (Inr (), s1)" "good v s1"
      "rest v s1 = rest v s" "set (items v (world s1)) = insert x (set (items v (world s)))" "okey x = dkey d" by auto
    have kn: "\<forall>e \<in> set ds. dkey e \<in> have_keys v s1 \<longrightarrow> known e"
    proof (intro ballI impI)
      fix e assume e: "e \<in> set ds" "dkey e \<in> have_keys v s1"
      with Cons.prems(3) have "dkey e \<noteq> dkey d" by (metis distinct.simps(2) image_eqI list.simps(9) set_map)
      with e s1(4,5) Cons.prems(4) show "known e" by auto
    qed
    from Cons.IH[OF s1(2) _ _ kn, of "b - 1"] Cons.prems(2,3) obtain s' Z where run:
      "fill known (mk v) ds (b - 1) s1 = (Inr (b - 1 - length (filter (\<lambda>d. \<not> known d) ds)), s')" "good v s'" "rest v s' = rest v s1"
      and Z: "Z \<subseteq> dkey ` {d \<in> set ds. \<not> known d}"
      "card Z = min (b - 1) (length (filter (\<lambda>d. \<not> known d) ds))" "have_keys v s' = have_keys v s1 \<union> Z" by auto
    have "dkey d \<notin> Z" "finite Z" using Z(1) Cons.prems(3) by (auto intro: finite_subset)
    with 3 s1 run Z show ?thesis
      by (intro exI[of _ s'] exI[of _ "insert (dkey d) Z"]) (auto simp: bindE_def)
  qed
qed

text \<open>One pass: as many steps towards the wanted keys as the budget allows, and what is left of the budget.\<close>

definition keyed_pass :: "'v \<Rightarrow> 'i list \<Rightarrow> nat \<Rightarrow> ('w, nat) firewall_act" where
  "keyed_pass v xs b = bindE (prune (\<lambda>x. okey x \<in> want_keys v) (del v) xs b) (\<lambda>r. case r of None \<Rightarrow> returnOk 0
     | Some b' \<Rightarrow> fill (\<lambda>d. dkey d \<in> okey ` set xs) (mk v) (wants v) b')"

lemma keyed_pass_run:
  assumes "good v s"
  shows "\<exists>s'. keyed_pass v (items v (world s)) b s = (Inr (b - key_distance (have_keys v s) (want_keys v)), s') \<and>
    good v s' \<and> rest v s' = rest v s \<and>
    key_distance (have_keys v s') (want_keys v) = key_distance (have_keys v s) (want_keys v) - b"
proof -
  let ?xs = "items v (world s)" and ?K = "have_keys v s" and ?D = "want_keys v"
  let ?wanted = "\<lambda>x. okey x \<in> ?D" and ?known = "\<lambda>d. dkey d \<in> ?K"
  note dist = keys_distinct[OF assms] wants_distinct[of v]
  have inj: "inj_on okey (set ?xs)" using dist(1) by (simp add: distinct_map)
  have unwanted: "length (filter (\<lambda>x. \<not> ?wanted x) ?xs) = card (?K - ?D)"
    unfolding length_filter_card[OF dist(1)] by (rule arg_cong[of _ _ card]) auto
  have missing: "length (filter (\<lambda>d. \<not> ?known d) (wants v)) = card (?D - ?K)"
    unfolding length_filter_card[OF dist(2)] by (rule arg_cong[of _ _ card]) auto
  have "distinct ?xs" using dist(1) by (simp add: distinct_map)
  from prune_run[OF assms subset_refl this, of ?wanted b, unfolded unwanted] obtain s1 r Y where p: "prune ?wanted (del v) ?xs b s = (Inr r, s1)" "good v s1"
    "rest v s1 = rest v s" and Y: "Y \<subseteq> {x \<in> set ?xs. \<not> ?wanted x}" "card Y = min b (card (?K - ?D))"
    "budget_left r = b - card (?K - ?D)" "set (items v (world s1)) = set ?xs - Y"
    by (elim exE conjE) (rule that)
  have sub: "Y \<subseteq> set ?xs" using Y(1) by auto
  have K1: "have_keys v s1 = ?K - okey ` Y" unfolding Y(4) by (rule inj_on_image_set_diff[OF inj _ sub]) auto
  have cY: "card (okey ` Y) = card Y" by (rule card_image[OF inj_on_subset[OF inj sub]])
  obtain s2 Z where f: "(case r of None \<Rightarrow> returnOk 0 | Some b' \<Rightarrow> fill ?known (mk v) (wants v) b') s1
      = (Inr (budget_left r - card (?D - ?K)), s2)" "good v s2" "rest v s2 = rest v s1"
    and Z: "Z \<subseteq> ?D - ?K" "card Z = min (budget_left r) (card (?D - ?K))" "have_keys v s2 = have_keys v s1 \<union> Z"
  proof (cases r)
    case None
    with p(2) show ?thesis by (intro that[of s1 "{}"]) (auto simp: returnOk_def)
  next
    case (Some b')
    have new: "dkey ` {d \<in> set (wants v). \<not> ?known d} = ?D - ?K" by auto
    have "\<forall>d \<in> set (wants v). dkey d \<in> have_keys v s1 \<longrightarrow> ?known d" using K1 by simp
    from fill_run[OF p(2) subset_refl dist(2) this, where b = b', unfolded missing new] obtain s2 Z where
      "fill ?known (mk v) (wants v) b' s1 = (Inr (b' - card (?D - ?K)), s2)" "good v s2" "rest v s2 = rest v s1"
      "Z \<subseteq> ?D - ?K" "card Z = min b' (card (?D - ?K))" "have_keys v s2 = have_keys v s1 \<union> Z"
      by (elim exE conjE) (rule that)
    with Some show ?thesis by (intro that[of s2 Z]) simp_all
  qed
  have "have_keys v s2 = (?K - okey ` Y) \<union> Z" using K1 Z(3) by simp
  moreover have "key_distance ((?K - okey ` Y) \<union> Z) ?D + card (okey ` Y) + card Z = key_distance ?K ?D"
    using Y(1) Z(1) by (intro key_distance_moved) auto
  ultimately have "key_distance (have_keys v s2) ?D = key_distance ?K ?D - b"
    "budget_left r - card (?D - ?K) = b - key_distance ?K ?D"
    using cY Y(2,3) Z(2) by (auto simp: key_distance_def)
  with p f show ?thesis by (auto simp: keyed_pass_def bindE_def)
qed

end

end
