(* ===== verification/FirewallPasses.thy ===== *)
theory FirewallPasses
  imports FirewallConverge
begin

text \<open>
  The rule pass and the attachment pass of a firewall's \<^verbatim>\<open>Update\<close> as instances of \<open>keyed_reconcile\<close>, and what
  follows: the number of \<^verbatim>\<open>Update\<close>s after which \<^verbatim>\<open>Observe\<close> reports the firewall up to date.
\<close>

declare run_equations [simp del]

section \<open>The desired sets are keyed by their values\<close>

definition keyed_by :: "('v \<Rightarrow> string) \<Rightarrow> (string \<times> 'v) list \<Rightarrow> bool" where
  "keyed_by f m \<longleftrightarrow> go_map m \<and> (\<forall>(k, v) \<in> set m. f v = k)"

lemma keyed_collect_rules:
  "keyed_by rule_key out \<Longrightarrow> keyed_by rule_key (fst (collect_rules rs out dup))"
proof (induction rs out dup rule: collect_rules.induct)
  case (2 r rs out dup)
  have "keyed_by rule_key (out @ [(rule_key (payload_of r), payload_of r)])" if "map_of out (rule_key (payload_of r)) = None"
    using that 2(3) by (auto simp: keyed_by_def map_of_eq_None_iff)
  with 2 show ?case by (simp add: Let_def)
qed simp

lemma keyed_desiredRuleSet: "keyed_by rule_key (fst (desiredRuleSet fp))"
  unfolding desiredRuleSet_def by (rule keyed_collect_rules) (simp add: keyed_by_def)

lemma keyed_desiredAttachSet: "keyed_by attachKey (desiredAttachSet fp)"
proof -
  have "map_of (desiredAttachSet fp) k = Some a \<Longrightarrow> attachKey a = k" for k a
    unfolding desiredAttachSet_def map_of_map_build by (auto dest!: map_of_SomeD)
  then show ?thesis by (auto simp: keyed_by_def desiredAttachSet_def intro: map_of_is_SomeI)
qed

lemma sorted_values_keys:
  assumes "keyed_by f m"
  shows "map f (sorted_values m) = sort (map fst m)"
proof -
  have "f (the (map_of m k)) = k" if k: "k \<in> fst ` set m" for k
  proof -
    from k obtain v where "(k, v) \<in> set m" by force
    with assms show ?thesis by (auto simp: keyed_by_def)
  qed
  then have "map (f \<circ> (\<lambda>k. the (map_of m k))) (sort (map fst m)) = sort (map fst m)"
    by (intro map_idI) simp
  then show ?thesis by (simp add: sorted_values_def)
qed

lemma keyed_wants:
  assumes "keyed_by f m"
  shows "distinct (map f (sorted_values m))" "f ` set (sorted_values m) = fst ` set m"
    "map_of m k \<noteq> None \<longleftrightarrow> k \<in> f ` set (sorted_values m)"
proof -
  show d: "distinct (map f (sorted_values m))" using assms by (simp add: sorted_values_keys keyed_by_def)
  show k: "f ` set (sorted_values m) = fst ` set m"
    using arg_cong[OF sorted_values_keys[OF assms], of set] by simp
  show "map_of m k \<noteq> None \<longleftrightarrow> k \<in> f ` set (sorted_values m)" by (simp add: k map_of_eq_None_iff)
qed

section \<open>The passes over a service that meets its contract\<close>

type_synonym 'w fw_case = "'w fw_view \<times> firewall_parameters \<times> string"

abbreviation resource_key :: "firewall_resource \<Rightarrow> string" where
  "resource_key r \<equiv> attachKey (attachment_of r)"

definition free_services :: "'w fw_view \<Rightarrow> firewall_parameters \<Rightarrow> string \<Rightarrow> 'w \<Rightarrow> bool" where
  "free_services v fp n w \<longleftrightarrow>
     (\<forall>a \<in> set (ff_AttachedServices fp). set (fv_bound v w (normalizeType (sa_ServiceType a)) (sa_ServiceID a)) \<subseteq> {n})"

lemma free_services_kept: "no_new_group v n w w' \<Longrightarrow> free_services v fp n w \<Longrightarrow> free_services v fp n w'"
  unfolding no_new_group_def free_services_def by fastforce

text \<open>The service meets its contract, no two rules and no two attachments of the group share a key, and no
  wanted service belongs to another group.\<close>

fun fw_good :: "'w fw_case \<Rightarrow> ('w, firewall_req, firewall_parameters, firewall_observation) rstate \<Rightarrow> bool" where
  "fw_good (v, fp, n) s \<longleftrightarrow> firewall_service v \<and> distinct (map ru_ID (fv_rules v (world s) n)) \<and>
     distinct (map rule_key (fv_rules v (world s) n)) \<and> distinct (map resource_key (fv_resources v (world s) n)) \<and>
     free_services v fp n (world s)"

fun rule_items :: "'w fw_case \<Rightarrow> 'w \<Rightarrow> rule_payload list" where
  "rule_items (v, fp, n) w = fv_rules v w n"
fun rule_wants :: "'w fw_case \<Rightarrow> rule_payload list" where
  "rule_wants (v, fp, n) = sorted_values (fst (desiredRuleSet fp))"
fun rule_del :: "'w fw_case \<Rightarrow> rule_payload \<Rightarrow> ('w, unit) firewall_act" where
  "rule_del (v, fp, n) r = write_call (fv_api v) (DeleteFirewallRule n (ru_ID r))"
fun rule_mk :: "'w fw_case \<Rightarrow> rule_payload \<Rightarrow> ('w, unit) firewall_act" where
  "rule_mk (v, fp, n) d = write_call (fv_api v) (CreateFirewallRule n d)"
fun rule_rest :: "'w fw_case \<Rightarrow> ('w, firewall_req, firewall_parameters, firewall_observation) rstate \<Rightarrow>
    firewall_mr \<times> (string \<times> string \<times> string) option \<times> firewall_resource list" where
  "rule_rest (v, fp, n) s = (cr s, map_option settings (fv_group v (world s) n), fv_resources v (world s) n)"

fun res_items :: "'w fw_case \<Rightarrow> 'w \<Rightarrow> firewall_resource list" where
  "res_items (v, fp, n) w = fv_resources v w n"
fun res_wants :: "'w fw_case \<Rightarrow> service_attachment list" where
  "res_wants (v, fp, n) = sorted_values (desiredAttachSet fp)"
fun res_del :: "'w fw_case \<Rightarrow> firewall_resource \<Rightarrow> ('w, unit) firewall_act" where
  "res_del (v, fp, n) r = write_call (fv_api v) (UnlinkFirewallResource n (fs_ID r) (normalizeType (fs_Type r)))"
fun res_mk :: "'w fw_case \<Rightarrow> service_attachment \<Rightarrow> ('w, unit) firewall_act" where
  "res_mk (v, fp, n) a = attach (fv_api v) n a"
fun res_rest :: "'w fw_case \<Rightarrow> ('w, firewall_req, firewall_parameters, firewall_observation) rstate \<Rightarrow>
    firewall_mr \<times> (string \<times> string \<times> string) option \<times> rule_payload list" where
  "res_rest (v, fp, n) s = (cr s, map_option settings (fv_group v (world s) n), fv_rules v (world s) n)"

lemma distinct_filter_map: "distinct (map f xs) \<Longrightarrow> distinct (map f (filter P xs))"
  by (rule distinct_map_filter)

lemma rule_del_one:
  assumes good: "fw_good c s" and x: "x \<in> set (rule_items c (world s))"
  shows "\<exists>s'. rule_del c x s = (Inr (), s') \<and> fw_good c s' \<and> rule_rest c s' = rule_rest c s \<and>
    set (rule_items c (world s')) = set (rule_items c (world s)) - {x}"
proof -
  obtain v fp n where c: "c = (v, fp, n)" by (cases c)
  with good have srv: "firewall_service v" by simp
  obtain p w' where a: "answers (fv_api v) (world s) (DeleteFirewallRule n (ru_ID x)) p w'"
    and w': "fv_rules v w' n = filter (\<lambda>r. ru_ID r \<noteq> ru_ID x) (fv_rules v (world s) n)" "same_settings v n (world s) w'"
      "same_resources v n (world s) w'" and nb: "no_new_group v n (world s) w'"
    by (rule service_delete_rule[OF srv])
  have "ru_ID r = ru_ID x \<Longrightarrow> r \<in> set (fv_rules v (world s) n) \<Longrightarrow> r = x" for r
    using good x c by (auto simp: distinct_map dest: inj_onD)
  then show ?thesis using good c w' x free_services_kept[OF nb]
    by (auto simp: write_call_run[OF a] same_settings_def same_resources_def distinct_filter_map)
qed

lemma rule_mk_one:
  assumes good: "fw_good c s" and d: "rule_key d \<notin> rule_key ` set (rule_items c (world s))"
  shows "\<exists>s' x. rule_mk c d s = (Inr (), s') \<and> fw_good c s' \<and> rule_rest c s' = rule_rest c s \<and>
    set (rule_items c (world s')) = insert x (set (rule_items c (world s))) \<and> rule_key x = rule_key d"
proof -
  obtain v fp n where c: "c = (v, fp, n)" by (cases c)
  with good have srv: "firewall_service v" by simp
  obtain p w' i where a: "answers (fv_api v) (world s) (CreateFirewallRule n d) p w'"
    and w': "i \<notin> ru_ID ` set (fv_rules v (world s) n)" "fv_rules v w' n = fv_rules v (world s) n @ [d\<lparr>ru_ID := i, ru_GroupID := n\<rparr>]"
      "same_settings v n (world s) w'" "same_resources v n (world s) w'" and nb: "no_new_group v n (world s) w'"
    by (rule service_create_rule[OF srv])
  have "rule_key (d\<lparr>ru_ID := i, ru_GroupID := n\<rparr>) = rule_key d" by (simp add: rule_key_def)
  with good c w' d free_services_kept[OF nb] show ?thesis
    by (intro exI[of _ "s\<lparr>world := w', reqs := reqs s @ [CreateFirewallRule n d]\<rparr>"] exI[of _ "d\<lparr>ru_ID := i, ru_GroupID := n\<rparr>"])
      (auto simp: write_call_run[OF a] same_settings_def same_resources_def)
qed

interpretation rules: keyed_reconcile fw_good rule_items rule_key rule_key rule_wants rule_del rule_mk rule_rest
proof unfold_locales
  fix c s assume "fw_good c s"
  then show "distinct (map rule_key (rule_items c (world s)))" by (cases c) auto
next
  fix c show "distinct (map rule_key (rule_wants c))"
    by (cases c) (simp add: keyed_wants[OF keyed_desiredRuleSet])
next
  fix c :: "'a fw_case" and s x assume "fw_good c s" "x \<in> set (rule_items c (world s))"
  then show "\<exists>s'. rule_del c x s = (Inr (), s') \<and> fw_good c s' \<and> rule_rest c s' = rule_rest c s \<and>
    set (rule_items c (world s')) = set (rule_items c (world s)) - {x}" by (rule rule_del_one)
next
  fix c :: "'a fw_case" and s d assume "fw_good c s" "rule_key d \<notin> rule_key ` set (rule_items c (world s))"
  then show "\<exists>s' x. rule_mk c d s = (Inr (), s') \<and> fw_good c s' \<and> rule_rest c s' = rule_rest c s \<and>
    set (rule_items c (world s')) = insert x (set (rule_items c (world s))) \<and> rule_key x = rule_key d" by (rule rule_mk_one)
qed

lemma res_del_one:
  assumes good: "fw_good c s" and x: "x \<in> set (res_items c (world s))"
  shows "\<exists>s'. res_del c x s = (Inr (), s') \<and> fw_good c s' \<and> res_rest c s' = res_rest c s \<and>
    set (res_items c (world s')) = set (res_items c (world s)) - {x}"
proof -
  obtain v fp n where c: "c = (v, fp, n)" by (cases c)
  let ?t = "normalizeType (fs_Type x)" and ?i = "fs_ID x"
  from good c have srv: "firewall_service v" by simp
  obtain p w' where a: "answers (fv_api v) (world s) (UnlinkFirewallResource n ?i ?t) p w'"
    and w': "fv_resources v w' n = filter (\<lambda>r. \<not> (fs_ID r = ?i \<and> normalizeType (fs_Type r) = ?t)) (fv_resources v (world s) n)"
      "same_settings v n (world s) w'" "same_rules v n (world s) w'" and nb: "no_new_group v n (world s) w'"
    by (rule service_unlink[OF srv])
  have "r = x" if "fs_ID r = ?i" "normalizeType (fs_Type r) = ?t" "r \<in> set (fv_resources v (world s) n)" for r
  proof -
    from that have "resource_key r = resource_key x" by (simp add: attachKey_def attachment_of_def)
    with that(3) good x c show ?thesis by (auto simp: distinct_map dest: inj_onD)
  qed
  then show ?thesis using good c w' x free_services_kept[OF nb]
    by (auto simp: write_call_run[OF a] same_settings_def same_rules_def distinct_filter_map)
qed

lemma attach_run:
  assumes srv: "firewall_service v" and free: "set (fv_bound v (world s) (normalizeType (sa_ServiceType a)) (sa_ServiceID a)) \<subseteq> {n}"
  shows "\<exists>s'. attach (fv_api v) n a s = (Inr (), s') \<and> cr s' = cr s \<and>
    fv_resources v (world s') n = fv_resources v (world s) n @ [\<lparr>fs_ID = sa_ServiceID a, fs_Type = normalizeType (sa_ServiceType a)\<rparr>] \<and>
    same_settings v n (world s) (world s') \<and> same_rules v n (world s) (world s') \<and> no_new_group v n (world s) (world s')"
proof -
  let ?t = "normalizeType (sa_ServiceType a)" and ?i = "sa_ServiceID a"
  note look = service_reads(4)[OF srv, of "world s" ?t ?i]
  let ?s = "after_call (fv_api v) (GetServiceFirewallGroups ?t ?i) s"
  from answers_classify[OF look] free have b: "boundElsewhere (fv_api v) n ?i ?t s = (Inr None, ?s)" and w: "world ?s = world s"
    by (auto simp: boundElsewhere_run find_None_iff)
  obtain p w' where l: "answers (fv_api v) (world ?s) (LinkFirewallResource n ?i ?t) p w'"
    and w': "fv_resources v w' n = fv_resources v (world s) n @ [\<lparr>fs_ID = ?i, fs_Type = ?t\<rparr>]"
      "same_settings v n (world s) w'" "same_rules v n (world s) w'" "no_new_group v n (world s) w'"
    unfolding w by (rule service_link[OF srv])
  have "attach (fv_api v) n a s = write_call (fv_api v) (LinkFirewallResource n ?i ?t) ?s"
    by (simp add: attach_def Let_def bindE_def b)
  with write_call_run[OF l] w' show ?thesis by simp
qed

lemma normalizeType_idem [simp]: "normalizeType (normalizeType t) = normalizeType t"
  by (simp add: normalizeType_def)

lemma res_mk_one:
  assumes good: "fw_good c s" and d: "d \<in> set (res_wants c)" "attachKey d \<notin> resource_key ` set (res_items c (world s))"
  shows "\<exists>s' x. res_mk c d s = (Inr (), s') \<and> fw_good c s' \<and> res_rest c s' = res_rest c s \<and>
    set (res_items c (world s')) = insert x (set (res_items c (world s))) \<and> resource_key x = attachKey d"
proof -
  obtain v fp n where c: "c = (v, fp, n)" by (cases c)
  let ?x = "\<lparr>fs_ID = sa_ServiceID d, fs_Type = normalizeType (sa_ServiceType d)\<rparr>"
  have "d \<in> set (ff_AttachedServices fp)"
  proof -
    from d(1) c obtain k where "k \<in> fst ` set (desiredAttachSet fp)" "d = the (map_of (desiredAttachSet fp) k)"
      by (auto simp: sorted_values_def)
    then have "map_of (desiredAttachSet fp) k = Some d" by (metis map_of_eq_None_iff option.exhaust_sel)
    then show ?thesis by (auto simp: desiredAttachSet_def map_of_map_build dest!: map_of_SomeD)
  qed
  with good c have "set (fv_bound v (world s) (normalizeType (sa_ServiceType d)) (sa_ServiceID d)) \<subseteq> {n}" by (auto simp: free_services_def)
  with attach_run[of v s d n] good c obtain s' where s': "attach (fv_api v) n d s = (Inr (), s')" "cr s' = cr s"
    "fv_resources v (world s') n = fv_resources v (world s) n @ [?x]" "same_settings v n (world s) (world s')"
    "same_rules v n (world s) (world s')" and nb: "no_new_group v n (world s) (world s')" by auto
  have "resource_key ?x = attachKey d" by (simp add: attachKey_def attachment_of_def)
  with good c s' d free_services_kept[OF nb] show ?thesis
    by (intro exI[of _ s'] exI[of _ ?x]) (auto simp: same_settings_def same_rules_def)
qed

interpretation resources: keyed_reconcile fw_good res_items resource_key attachKey res_wants res_del res_mk res_rest
proof unfold_locales
  fix c s assume "fw_good c s"
  then show "distinct (map resource_key (res_items c (world s)))" by (cases c) auto
next
  fix c show "distinct (map attachKey (res_wants c))"
    by (cases c) (simp add: keyed_wants[OF keyed_desiredAttachSet])
next
  fix c :: "'a fw_case" and s x assume "fw_good c s" "x \<in> set (res_items c (world s))"
  then show "\<exists>s'. res_del c x s = (Inr (), s') \<and> fw_good c s' \<and> res_rest c s' = res_rest c s \<and>
    set (res_items c (world s')) = set (res_items c (world s)) - {x}" by (rule res_del_one)
next
  fix c :: "'a fw_case" and s d assume "fw_good c s" "d \<in> set (res_wants c)" "attachKey d \<notin> resource_key ` set (res_items c (world s))"
  then show "\<exists>s' x. res_mk c d s = (Inr (), s') \<and> fw_good c s' \<and> res_rest c s' = res_rest c s \<and>
    set (res_items c (world s')) = insert x (set (res_items c (world s))) \<and> resource_key x = attachKey d" by (rule res_mk_one)
qed

section \<open>Repeated updates\<close>

text \<open>How far the group is from its spec: the rules and attachments to remove and to create.\<close>

definition fw_distance :: "'w fw_view \<Rightarrow> firewall_parameters \<Rightarrow> string \<Rightarrow> 'w \<Rightarrow> nat" where
  "fw_distance v fp n w =
     key_distance (rule_key ` set (fv_rules v w n)) (fst ` set (fst (desiredRuleSet fp))) +
     key_distance (resource_key ` set (fv_resources v w n)) (fst ` set (desiredAttachSet fp))"

lemma doJSON_run:
  "answers api (world s) q p w' \<Longrightarrow> sel p = Some x \<Longrightarrow> doJSON api sel q s = (Inr x, s\<lparr>world := w', reqs := reqs s @ [q]\<rparr>)"
  by (auto dest!: answers_classify simp: doJSON_def bindE_def call_classify_run returnOk_def)

lemma reconcileRules_run:
  assumes "fw_good (v, fp, n) s"
  shows "\<exists>s'. reconcileRules (fv_api v) fp n b s =
      (Inr (b - key_distance (rule_key ` set (fv_rules v (world s) n)) (fst ` set (fst (desiredRuleSet fp)))), s') \<and>
    fw_good (v, fp, n) s' \<and> rule_rest (v, fp, n) s' = rule_rest (v, fp, n) s \<and>
    key_distance (rule_key ` set (fv_rules v (world s') n)) (fst ` set (fst (desiredRuleSet fp))) =
    key_distance (rule_key ` set (fv_rules v (world s) n)) (fst ` set (fst (desiredRuleSet fp))) - b"
proof -
  let ?c = "(v, fp, n)" and ?q = "ListFirewallRules n"
  have srv: "firewall_service v" using assms by simp
  let ?s = "s\<lparr>world := world s, reqs := reqs s @ [?q]\<rparr>"
  have l: "listRules (fv_api v) n s = (Inr (fv_rules v (world s) n), ?s)"
    unfolding listRules_def by (rule doJSON_run[OF service_reads(2)[OF srv]]) simp
  have w: "rule_key ` set (rule_wants ?c) = fst ` set (fst (desiredRuleSet fp))"
    by (simp add: keyed_wants(2)[OF keyed_desiredRuleSet])
  have del: "(\<lambda>r. write_call (fv_api v) (DeleteFirewallRule n (ru_ID r))) = rule_del ?c"
    and mk: "(\<lambda>d. write_call (fv_api v) (CreateFirewallRule n d)) = rule_mk ?c"
    and wants: "(\<lambda>r. map_of (fst (desiredRuleSet fp)) (rule_key r) \<noteq> None) = (\<lambda>r. rule_key r \<in> rule_key ` set (rule_wants ?c))"
    and ds: "sorted_values (fst (desiredRuleSet fp)) = rule_wants ?c"
    by (simp_all add: fun_eq_iff keyed_wants(2)[OF keyed_desiredRuleSet] map_of_eq_None_iff del: not_None_eq)
  have "reconcileRules (fv_api v) fp n b s = rules.keyed_pass ?c (rule_items ?c (world ?s)) b ?s"
    unfolding reconcileRules_def Let_def rules.keyed_pass_def del mk wants ds set_map
    by (simp add: bindE_def[of "listRules _ _"] l)
  with rules.keyed_pass_run[of ?c ?s b] assms w show ?thesis by simp
qed

lemma reconcileAttachments_run:
  assumes "fw_good (v, fp, n) s"
  shows "\<exists>s'. reconcileAttachments (fv_api v) fp n b s =
      (Inr (b - key_distance (resource_key ` set (fv_resources v (world s) n)) (fst ` set (desiredAttachSet fp))), s') \<and>
    fw_good (v, fp, n) s' \<and> res_rest (v, fp, n) s' = res_rest (v, fp, n) s \<and>
    key_distance (resource_key ` set (fv_resources v (world s') n)) (fst ` set (desiredAttachSet fp)) =
    key_distance (resource_key ` set (fv_resources v (world s) n)) (fst ` set (desiredAttachSet fp)) - b"
proof -
  let ?c = "(v, fp, n)" and ?q = "ListFirewallResources n"
  have srv: "firewall_service v" using assms by simp
  let ?s = "s\<lparr>world := world s, reqs := reqs s @ [?q]\<rparr>"
  have l: "listResources (fv_api v) n s = (Inr (fv_resources v (world s) n), ?s)"
    unfolding listResources_def by (rule doJSON_run[OF service_reads(3)[OF srv]]) simp
  have w: "attachKey ` set (res_wants ?c) = fst ` set (desiredAttachSet fp)"
    by (simp add: keyed_wants(2)[OF keyed_desiredAttachSet])
  have del: "(\<lambda>r. write_call (fv_api v) (UnlinkFirewallResource n (fs_ID r) (normalizeType (fs_Type r)))) = res_del ?c"
    and mk: "attach (fv_api v) n = res_mk ?c"
    and wants: "(\<lambda>r. map_of (desiredAttachSet fp) (resource_key r) \<noteq> None) = (\<lambda>r. resource_key r \<in> attachKey ` set (res_wants ?c))"
    and ds: "sorted_values (desiredAttachSet fp) = res_wants ?c"
    by (simp_all add: fun_eq_iff keyed_wants(2)[OF keyed_desiredAttachSet] map_of_eq_None_iff del: not_None_eq)
  have "reconcileAttachments (fv_api v) fp n b s = resources.keyed_pass ?c (res_items ?c (world ?s)) b ?s"
    unfolding reconcileAttachments_def Let_def resources.keyed_pass_def del mk wants ds set_map
    by (simp add: bindE_def[of "listResources _ _"] l)
  with resources.keyed_pass_run[of ?c ?s b] assms w show ?thesis by simp
qed

text \<open>The firewall's identity and settings, as one \<^verbatim>\<open>Update\<close> assumes and keeps them.\<close>

definition fw_ready :: "'w fw_view \<Rightarrow> firewall_parameters \<Rightarrow> string \<Rightarrow>
    ('w, firewall_req, firewall_parameters, firewall_observation) rstate \<Rightarrow> bool" where
  "fw_ready v fp n s \<longleftrightarrow> fw_good (v, fp, n) s \<and> for_provider (cr s) = fp \<and> external_name (cr s) = n \<and> n \<noteq> [] \<and>
     \<not> snd (desiredRuleSet fp) \<and> (\<exists>g. fv_group v (world s) n = Some g \<and> fg_Policy g = effectivePolicy fp)"

text \<open>The PATCH of \<^verbatim>\<open>Update\<close>, when the name or the description differs.\<close>

definition patch_group :: "'w firewall_api \<Rightarrow> firewall_parameters \<Rightarrow> string \<Rightarrow> firewall_group \<Rightarrow> ('w, unit) firewall_act" where
  "patch_group api fp n g = (if fg_Name g \<noteq> ff_Name fp \<or> fg_Description g \<noteq> DerefString (ff_Description fp)
     then write_call api (PatchFirewallGroup n (ff_Name fp) (DerefString (ff_Description fp))) else returnOk ())"

lemma patch_group_run:
  assumes good: "fw_good (v, fp, n) s" and g: "fv_group v (world s) n = Some g" "fg_Policy g = effectivePolicy fp"
  shows "\<exists>s'. patch_group (fv_api v) fp n g s = (Inr (), s') \<and> fw_good (v, fp, n) s' \<and> cr s' = cr s \<and>
    map_option settings (fv_group v (world s') n) = Some (ff_Name fp, DerefString (ff_Description fp), effectivePolicy fp) \<and>
    fw_distance v fp n (world s') = fw_distance v fp n (world s)"
proof (cases "fg_Name g \<noteq> ff_Name fp \<or> fg_Description g \<noteq> DerefString (ff_Description fp)")
  case True
  from good have "patch_ok v" by (simp add: firewall_service_def)
  with g(1) obtain p w' where a: "answers (fv_api v) (world s) (PatchFirewallGroup n (ff_Name fp) (DerefString (ff_Description fp))) p w'"
    and w': "map_option settings (fv_group v w' n) = Some (ff_Name fp, DerefString (ff_Description fp), fg_Policy g)"
      "same_rules v n (world s) w'" "same_resources v n (world s) w'" and nb: "no_new_group v n (world s) w'"
    unfolding patch_ok_def by blast
  with True good g(2) free_services_kept[OF nb] show ?thesis
    by (simp add: patch_group_def write_call_run[OF a] same_rules_def same_resources_def fw_distance_def)
next
  case False
  with assms show ?thesis by (simp add: patch_group_def returnOk_run settings_def)
qed

lemma converge_firewall_eq:
  "fg_Policy g = effectivePolicy fp \<Longrightarrow> converge_firewall api fp n g =
   bindE (patch_group api fp n g) (\<lambda>_. bindE (reconcileRules api fp n 8) (\<lambda>b. bindE (reconcileAttachments api fp n b) (\<lambda>_. returnOk ())))"
  by (simp add: converge_firewall_def patch_group_def maxFirewallMutationsPerReconcile_def)

text \<open>One \<^verbatim>\<open>Update\<close> settles name and description and moves the whole budget nearer.\<close>

lemma firewall_Update_step:
  assumes "fw_ready v fp n s"
  shows "\<exists>s'. firewall_Update (fv_api v) s = (Inr (), s') \<and> fw_ready v fp n s' \<and>
    map_option settings (fv_group v (world s') n) = Some (ff_Name fp, DerefString (ff_Description fp), effectivePolicy fp) \<and>
    fw_distance v fp n (world s') = fw_distance v fp n (world s) - 8"
proof -
  from assms have good: "fw_good (v, fp, n) s" and id: "for_provider (cr s) = fp" "external_name (cr s) = n"
    and nd: "\<not> snd (desiredRuleSet fp)" by (simp_all add: fw_ready_def)
  from assms obtain g where g: "fv_group v (world s) n = Some g" "fg_Policy g = effectivePolicy fp" by (auto simp: fw_ready_def)
  let ?s = "s\<lparr>world := world s, reqs := reqs s @ [GetFirewallGroup n]\<rparr>"
  have srv: "firewall_service v" using good by simp
  have get: "getGroup (fv_api v) n s = (Inr g, ?s)"
    unfolding getGroup_def by (rule doJSON_run[OF service_reads(1)[OF srv g(1)]]) simp
  have good0: "fw_good (v, fp, n) ?s" using good by simp
  from patch_group_run[OF good0] g obtain s1 where p: "patch_group (fv_api v) fp n g ?s = (Inr (), s1)" "fw_good (v, fp, n) s1" "cr s1 = cr s"
    "map_option settings (fv_group v (world s1) n) = Some (ff_Name fp, DerefString (ff_Description fp), effectivePolicy fp)"
    "fw_distance v fp n (world s1) = fw_distance v fp n (world s)" by auto
  from reconcileRules_run[OF p(2), of 8] obtain s2 b where r: "reconcileRules (fv_api v) fp n 8 s1 = (Inr b, s2)" "fw_good (v, fp, n) s2"
    "cr s2 = cr s" "map_option settings (fv_group v (world s2) n) = map_option settings (fv_group v (world s1) n)"
    "fv_resources v (world s2) n = fv_resources v (world s1) n"
    "b = 8 - key_distance (rule_key ` set (fv_rules v (world s1) n)) (fst ` set (fst (desiredRuleSet fp)))"
    "key_distance (rule_key ` set (fv_rules v (world s2) n)) (fst ` set (fst (desiredRuleSet fp))) =
     key_distance (rule_key ` set (fv_rules v (world s1) n)) (fst ` set (fst (desiredRuleSet fp))) - 8"
    using p(3) by auto
  from reconcileAttachments_run[OF r(2), of b] obtain s3 b' where t: "reconcileAttachments (fv_api v) fp n b s2 = (Inr b', s3)"
    "fw_good (v, fp, n) s3" "cr s3 = cr s" "map_option settings (fv_group v (world s3) n) = map_option settings (fv_group v (world s2) n)"
    "fv_rules v (world s3) n = fv_rules v (world s2) n"
    "key_distance (resource_key ` set (fv_resources v (world s3) n)) (fst ` set (desiredAttachSet fp)) =
     key_distance (resource_key ` set (fv_resources v (world s2) n)) (fst ` set (desiredAttachSet fp)) - b"
    using r(3) by auto
  have "firewall_Update (fv_api v) s = (Inr (), s3)"
    using id nd get p(1) r(1) t(1) g(2)
    by (simp add: firewall_Update_def gets_run Let_def converge_firewall_eq bindE_def returnOk_run)
  moreover have "fw_ready v fp n s3"
    using t(2,3,4) r(4) p(4) id assms by (auto simp: fw_ready_def settings_def)
  moreover have "fw_distance v fp n (world s3) = fw_distance v fp n (world s) - 8"
    using p(5) r(5,6,7) t(5,6) by (simp add: fw_distance_def)
  ultimately show ?thesis using t(4) r(4) p(4) by auto
qed

lemma firewall_converged:
  assumes "fw_ready v fp n s" "fw_distance v fp n (world s) = 0"
    and "map_option settings (fv_group v (world s) n) = Some (ff_Name fp, DerefString (ff_Description fp), effectivePolicy fp)"
  shows "fst (firewall_Observe (fv_api v) s) = Inr (present True)"
proof -
  from assms(1) have good: "fw_good (v, fp, n) s" and id: "for_provider (cr s) = fp" "external_name (cr s) = n" "n \<noteq> []"
    and nd: "\<not> snd (desiredRuleSet fp)" and srv: "firewall_service v" by (simp_all add: fw_ready_def)
  from assms(3) obtain g where g: "fv_group v (world s) n = Some g"
    "fg_Name g = ff_Name fp" "fg_Description g = DerefString (ff_Description fp)" "fg_Policy g = effectivePolicy fp"
    by (auto simp: settings_def)
  have len: "length (m :: (string \<times> 'v) list) = length (xs :: 'x list) \<and> f ` set xs = fst ` set m"
    if "keyed_by k m" "distinct (map f xs)" "f ` set xs = fst ` set m" for k :: "'v \<Rightarrow> string" and m f xs
    using that length_go_map[of m] distinct_card[of "map f xs"] by (simp add: keyed_by_def)
  have K: "rule_key ` set (fv_rules v (world s) n) = fst ` set (fst (desiredRuleSet fp))"
    "resource_key ` set (fv_resources v (world s) n) = fst ` set (desiredAttachSet fp)"
    using assms(2) by (simp_all add: fw_distance_def key_distance_0)
  have "rulesConverged (fst (desiredRuleSet fp)) (fv_rules v (world s) n)"
    using len[OF keyed_desiredRuleSet _ K(1)] good K(1)
    by (auto simp: rulesConverged_def list_all_iff map_of_eq_None_iff simp del: not_None_eq)
  moreover have "attachConverged (desiredAttachSet fp) (fv_resources v (world s) n)"
    using len[OF keyed_desiredAttachSet _ K(2)] good K(2)
    by (auto simp: attachConverged_def list_all_iff map_of_eq_None_iff simp del: not_None_eq)
  ultimately have utd: "isFirewallUpToDate fp g (fv_rules v (world s) n) (fv_resources v (world s) n)"
    using g nd by (simp add: isFirewallUpToDate_def case_prod_beta)
  have get: "getGroup (fv_api v) n t = (Inr g, t\<lparr>world := world t, reqs := reqs t @ [GetFirewallGroup n]\<rparr>)"
    "listRules (fv_api v) n t = (Inr (fv_rules v (world t) n), t\<lparr>world := world t, reqs := reqs t @ [ListFirewallRules n]\<rparr>)"
    "listResources (fv_api v) n t = (Inr (fv_resources v (world t) n), t\<lparr>world := world t, reqs := reqs t @ [ListFirewallResources n]\<rparr>)"
    if "world t = world s" for t
    unfolding getGroup_def listRules_def listResources_def
    using doJSON_run[OF service_reads(1)[OF srv], of t n g as_fw_group g] g(1) that
    by (simp_all add: doJSON_run[OF service_reads(2)[OF srv]] doJSON_run[OF service_reads(3)[OF srv]])
  show ?thesis
    using id utd by (simp add: firewall_Observe_def bindE_def attempt_def get on_not_found_def run_equations populateFirewallStatus_def)
qed

fun update_passes :: "nat \<Rightarrow> 'w firewall_api \<Rightarrow> ('w, firewall_req, firewall_parameters, firewall_observation) rstate \<Rightarrow>
    ('w, firewall_req, firewall_parameters, firewall_observation) rstate option" where
  "update_passes 0 api s = Some s"
| "update_passes (Suc k) api s = (case firewall_Update api s of (Inl _, _) \<Rightarrow> None | (Inr _, s') \<Rightarrow> update_passes k api s')"

text \<open>
  C11. Repeated \<^verbatim>\<open>Update\<close>s converge, in a bounded number of passes. Of a service that does what it is asked,
  with no duplicate keys in the spec or upstream and no wanted service held by another group, \<open>k\<close> passes
  all succeed and then \<^verbatim>\<open>Observe\<close> reports the firewall up to date, as soon as \<open>k\<close> budgets of 8 cover the rules
  and attachments that are missing or too many.
\<close>

theorem firewall_passes_converge:
  assumes "fw_ready v fp n s" "0 < k" "fw_distance v fp n (world s) \<le> 8 * k"
  shows "\<exists>s'. update_passes k (fv_api v) s = Some s' \<and> fst (firewall_Observe (fv_api v) s') = Inr (present True)"
  using assms
proof (induction k arbitrary: s)
  case (Suc k)
  from firewall_Update_step[OF Suc.prems(1)] obtain s1 where u: "firewall_Update (fv_api v) s = (Inr (), s1)" "fw_ready v fp n s1"
    "map_option settings (fv_group v (world s1) n) = Some (ff_Name fp, DerefString (ff_Description fp), effectivePolicy fp)"
    "fw_distance v fp n (world s1) = fw_distance v fp n (world s) - 8" by blast
  show ?case
  proof (cases "k = 0")
    case True
    with Suc.prems(3) u(4) have "fw_distance v fp n (world s1) = 0" by simp
    from firewall_converged[OF u(2) this u(3)] u(1) True show ?thesis by simp
  next
    case False
    with Suc.IH[OF u(2)] Suc.prems(3) u(1,4) show ?thesis by simp
  qed
qed simp

theorem firewall_passes_converge_witness:
  "fw_distance one_group_view (wit_fw_fp ''abcdefgh'') ''g1'' wit_fw_world = 11 \<and>
   (\<exists>s'. update_passes 2 one_group_api (wit_fw_state ''abcdefgh'' wit_fw_world) = Some s' \<and>
      fst (firewall_Observe one_group_api s') = Inr (present True))"
proof -
  have d: "fw_distance one_group_view (wit_fw_fp ''abcdefgh'') ''g1'' wit_fw_world = 11" by code_simp
  have w: "world (wit_fw_state ''abcdefgh'' wit_fw_world) = wit_fw_world" "cr (wit_fw_state ''abcdefgh'' wit_fw_world) = wit_fw_mr ''abcdefgh''"
    by (simp_all add: wit_fw_state_def wit_state_def)
  have "distinct (map ru_ID (og_rules wit_fw_world))" "distinct (map rule_key (og_rules wit_fw_world))"
    "distinct (map resource_key (og_resources wit_fw_world))" "\<not> snd (desiredRuleSet (wit_fw_fp ''abcdefgh''))"
    "fg_Policy (og_group wit_fw_world) = effectivePolicy (wit_fw_fp ''abcdefgh'')"
    by code_simp+
  then have "fw_ready one_group_view (wit_fw_fp ''abcdefgh'') ''g1'' (wit_fw_state ''abcdefgh'' wit_fw_world)"
    using one_group_service by (simp add: fw_ready_def w free_services_def) (simp add: one_group_view_def wit_fw_mr_def)
  from firewall_passes_converge[OF this, of 2] d show ?thesis by (simp add: w) (simp add: one_group_view_def)
qed

section \<open>Rules with the same key\<close>

text \<open>
  The distinctness that convergence asks for is needed: rules upstream that share a key (the API creates what it
  is asked, and a failed create that is retried may leave two) are drift for \<^verbatim>\<open>Observe\<close>, but \<^verbatim>\<open>Update\<close> deletes
  only unwanted keys, so it writes nothing and the drift remains.
\<close>

lemma prune_wanted: "list_all wanted xs \<Longrightarrow> 0 < b \<Longrightarrow> prune wanted del xs b = returnOk (Some b)"
  by (induction xs) auto

lemma fill_known: "list_all known ds \<Longrightarrow> fill known mk ds b = returnOk b"
  by (induction ds) auto

lemma firewall_duplicate_rules_stuck:
  assumes srv: "firewall_service v" and keys: "rule_key ` set (fv_rules v (world s) n) = fst ` set (fst (desiredRuleSet fp))"
    and dup: "\<not> distinct (map rule_key (fv_rules v (world s) n))" and b: "0 < b"
  shows "\<not> rulesConverged (fst (desiredRuleSet fp)) (fv_rules v (world s) n)"
    and "reconcileRules (fv_api v) fp n b s = (Inr b, s\<lparr>reqs := reqs s @ [ListFirewallRules n]\<rparr>)"
proof -
  have "length (fst (desiredRuleSet fp)) = card (rule_key ` set (fv_rules v (world s) n))"
    using keyed_desiredRuleSet[of fp] by (simp add: keyed_by_def keys length_go_map)
  moreover have "card (rule_key ` set (fv_rules v (world s) n)) < length (fv_rules v (world s) n)"
    using dup card_distinct[of "map rule_key (fv_rules v (world s) n)"] card_length[of "map rule_key (fv_rules v (world s) n)"]
    by (metis le_neq_implies_less length_map set_map)
  ultimately show "\<not> rulesConverged (fst (desiredRuleSet fp)) (fv_rules v (world s) n)" by (simp add: rulesConverged_def)
  have l: "listRules (fv_api v) n s = (Inr (fv_rules v (world s) n), s\<lparr>world := world s, reqs := reqs s @ [ListFirewallRules n]\<rparr>)"
    unfolding listRules_def by (rule doJSON_run[OF service_reads(2)[OF srv]]) simp
  have "list_all (\<lambda>r. map_of (fst (desiredRuleSet fp)) (rule_key r) \<noteq> None) (fv_rules v (world s) n)"
    using keys by (auto simp: list_all_iff map_of_eq_None_iff simp del: not_None_eq)
  moreover have "list_all (\<lambda>d. rule_key d \<in> set (map rule_key (fv_rules v (world s) n))) (sorted_values (fst (desiredRuleSet fp)))"
    using keyed_wants(2)[OF keyed_desiredRuleSet[of fp]] keys by (auto simp: list_all_iff)
  ultimately show "reconcileRules (fv_api v) fp n b s = (Inr b, s\<lparr>reqs := reqs s @ [ListFirewallRules n]\<rparr>)"
    using b by (simp add: reconcileRules_def Let_def bindE_def l prune_wanted fill_known returnOk_run del: set_map)
qed

end
