(* ===== verification/ClusterVersion.thy ===== *)
theory ClusterVersion
  imports Prelude
begin

text \<open>
  Kubernetes versions: the pure part of \<^verbatim>\<open>internal/controller/kubernetes/cluster_upgrade.go\<close>. A version string is
  split into numeric components, and two versions are compared component by component, missing ones counting
  as 0.
\<close>

section \<open>The code\<close>

text \<open>\<^verbatim>\<open>strings.TrimPrefix\<close>\<close>

definition TrimPrefix :: "string \<Rightarrow> string \<Rightarrow> string" where
  "TrimPrefix s p = (if HasPrefix s p then drop (length p) s else s)"

definition is_digit :: "char \<Rightarrow> bool" where
  "is_digit c \<longleftrightarrow> digit_val c \<noteq> None"

text \<open>\<^verbatim>\<open>strconv.Atoi\<close> of a run of digits returns the largest int when the value is out of range.\<close>

definition leadingInt :: "string \<Rightarrow> int" where
  "leadingInt s = (let ds = takeWhile is_digit s in
     if ds = [] then 0
     else case parse_digits 0 ds of None \<Rightarrow> 0 | Some n \<Rightarrow> min (int n) (2 ^ 63 - 1))"

definition splitVersion :: "string \<Rightarrow> int list" where
  "splitVersion v0 = (let v = TrimPrefix v0 ''v'';
       w = (case IndexByte v (CHR ''+'') of Some i \<Rightarrow> take i v | None \<Rightarrow> v) in
     map leadingInt (Split w (CHR ''.'')))"

definition allZero :: "int list \<Rightarrow> bool" where
  "allZero v = list_all (\<lambda>x. x = 0) v"

text \<open>The loop of \<^verbatim>\<open>versionNewer\<close>.\<close>

fun newer_loop :: "int list \<Rightarrow> int list \<Rightarrow> bool" where
  "newer_loop [] [] = False"
| "newer_loop (x # xs) [] = (if x \<noteq> 0 then x > 0 else newer_loop xs [])"
| "newer_loop [] (y # ys) = (if 0 \<noteq> y then 0 > y else newer_loop [] ys)"
| "newer_loop (x # xs) (y # ys) = (if x \<noteq> y then x > y else newer_loop xs ys)"

definition versionNewer :: "string \<Rightarrow> string \<Rightarrow> bool" where
  "versionNewer a b = newer_loop (splitVersion a) (splitVersion b)"

section \<open>The order of versions\<close>

definition component :: "int list \<Rightarrow> nat \<Rightarrow> int" where
  "component v i = (if i < length v then v ! i else 0)"

lemma component_simps [simp]:
  "component [] i = 0" "component (x # xs) 0 = x" "component (x # xs) (Suc i) = component xs i"
  by (simp_all add: component_def)

lemma ex_nat_cases: "(\<exists>i. P i) \<longleftrightarrow> P 0 \<or> (\<exists>i. P (Suc i))"
  by (metis not0_implies_Suc)

lemma all_less_Suc_cases: "(\<forall>j < Suc i. Q j) \<longleftrightarrow> Q 0 \<and> (\<forall>j < i. Q (Suc j))"
  using less_Suc_eq_0_disj by auto

text \<open>The first component that differs decides.\<close>

lemma newer_loop_iff:
  "newer_loop a b \<longleftrightarrow> (\<exists>i. component b i < component a i \<and> (\<forall>j < i. component a j = component b j))"
proof (induction a b rule: newer_loop.induct)
  case 1
  then show ?case by simp
next
  case (2 x xs)
  then show ?case by (subst ex_nat_cases) (auto simp: all_less_Suc_cases)
next
  case (3 y ys)
  then show ?case by (subst ex_nat_cases) (auto simp: all_less_Suc_cases)
next
  case (4 x xs y ys)
  then show ?case by (subst ex_nat_cases) (auto simp: all_less_Suc_cases)
qed

lemma newer_loop_asym: "newer_loop a b \<Longrightarrow> \<not> newer_loop b a"
  unfolding newer_loop_iff by (metis less_asym nat_neq_iff)

lemma newer_loop_trans: "newer_loop a b \<Longrightarrow> newer_loop b c \<Longrightarrow> newer_loop a c"
  unfolding newer_loop_iff
proof (elim exE conjE)
  fix i k assume i: "component b i < component a i" "\<forall>j<i. component a j = component b j"
    and k: "component c k < component b k" "\<forall>j<k. component b j = component c j"
  show "\<exists>i. component c i < component a i \<and> (\<forall>j<i. component a j = component c j)"
    using i k by (intro exI[of _ "min i k"]) (cases i k rule: linorder_cases; auto simp: min_def)
qed

lemma newer_loop_total: "newer_loop a b \<or> newer_loop b a \<or> component a = component b"
proof (rule ccontr)
  assume "\<not> ?thesis"
  then have n: "\<not> newer_loop a b" "\<not> newer_loop b a" "component a \<noteq> component b" by auto
  then obtain i where "component a i \<noteq> component b i" by auto
  define m where "m = (LEAST i. component a i \<noteq> component b i)"
  have "component a m \<noteq> component b m" unfolding m_def by (rule LeastI) fact
  moreover have "\<forall>j < m. component a j = component b j" unfolding m_def using not_less_Least by blast
  ultimately show False using n(1,2) unfolding newer_loop_iff by (metis linorder_neqE)
qed

text \<open>A version without a number is newer than none.\<close>

lemma splitVersion_nonempty: "splitVersion v \<noteq> []"
  by (simp add: splitVersion_def Split_nonempty Let_def)

lemma leadingInt_nonneg: "0 \<le> leadingInt s"
  by (simp add: leadingInt_def Let_def split: option.split)

lemma newer_not_allZero:
  assumes "versionNewer a b"
  shows "\<not> allZero (splitVersion a)"
proof
  assume z: "allZero (splitVersion a)"
  have nonneg: "0 \<le> component (splitVersion b) i" for i
    by (auto simp: component_def splitVersion_def Let_def leadingInt_nonneg)
  from z have "component (splitVersion a) i = 0" for i
    by (auto simp: component_def allZero_def list_all_iff)
  with assms nonneg show False by (auto simp: versionNewer_def newer_loop_iff not_less[symmetric])
qed

section \<open>Reading a version\<close>

text \<open>A version as the catalog prints it: an optional \<^verbatim>\<open>v\<close>, dotted numbers, optional build metadata.\<close>

definition version_string :: "bool \<Rightarrow> nat list \<Rightarrow> string option \<Rightarrow> string" where
  "version_string v ns build = (if v then ''v'' else []) @ Join (map nat_digits ns) ''.'' @
     (case build of None \<Rightarrow> [] | Some b \<Rightarrow> ''+'' @ b)"

lemma digits_are_digits: "c \<in> set (nat_digits n) \<Longrightarrow> is_digit c"
  using nat_digits_set by (force simp: is_digit_def)

lemma not_digit: "\<not> is_digit (CHR ''.'')" "\<not> is_digit (CHR ''+'')" "\<not> is_digit (CHR ''v'')"
  by (simp_all add: is_digit_def digit_val_def)

lemma leadingInt_digits: "int64 (int n) \<Longrightarrow> leadingInt (nat_digits n) = int n"
proof -
  assume n: "int64 (int n)"
  have t: "takeWhile is_digit (nat_digits n) = nat_digits n"
    unfolding takeWhile_eq_all_conv by (blast intro: digits_are_digits)
  have "leadingInt (nat_digits n) = min (int n) (2 ^ 63 - 1)" unfolding leadingInt_def t by simp
  with n show ?thesis by (simp add: int64_def)
qed

lemma Split_Join_digits: "ns \<noteq> [] \<Longrightarrow> Split (Join (map nat_digits ns) ''.'') (CHR ''.'') = map nat_digits ns"
  using not_digit by (intro Split_Join) (auto dest: digits_are_digits)

lemma Join_digits: "c \<in> set (Join (map nat_digits ns) ''.'') \<Longrightarrow> is_digit c \<or> c = CHR ''.''"
  by (induction ns rule: induct_list012) (auto dest: digits_are_digits)

lemma splitVersion_string:
  assumes "ns \<noteq> []" "\<forall>n \<in> set ns. int64 (int n)"
  shows "splitVersion (version_string v ns build) = map int ns"
proof -
  let ?d = "Join (map nat_digits ns) ''.''"
  have hd: "\<not> HasPrefix (?d @ s) ''v''" for s
  proof -
    obtain c cs where d: "?d = c # cs"
      using assms(1) nat_digits_nonempty by (cases ns rule: list.exhaust; cases "tl ns"; cases "nat_digits (hd ns)") auto
    with Join_digits[of c ns] not_digit(3) have "c \<noteq> CHR ''v''" by auto
    with d show ?thesis by simp
  qed
  have plus: "CHR ''+'' \<notin> set ?d" using Join_digits[of "CHR ''+''" ns] not_digit(2) by auto
  let ?w = "?d @ (case build of None \<Rightarrow> [] | Some b \<Rightarrow> ''+'' @ b)"
  have "TrimPrefix (version_string v ns build) ''v'' = ?w"
    using hd by (cases v) (simp_all add: version_string_def TrimPrefix_def)
  moreover have "(case IndexByte ?w (CHR ''+'') of Some i \<Rightarrow> take i ?w | None \<Rightarrow> ?w) = ?d"
  proof (cases build)
    case None
    with plus show ?thesis by (simp add: IndexByte_None_iff[THEN iffD2])
  next
    case (Some b)
    have "IndexByte ?w (CHR ''+'') = Some (length ?d)"
      unfolding IndexByte_Some_iff using Some plus by (intro exI[of _ ?d] exI[of _ b]) simp
    with Some show ?thesis by simp
  qed
  ultimately show ?thesis
    using assms by (simp add: splitVersion_def Let_def Split_Join_digits leadingInt_digits)
qed

text \<open>
  C16. The order by which upgrades are admitted is the order of version numbers: of two versions as the catalog
  prints them, with or without \<^verbatim>\<open>v\<close> and whatever the build metadata, the first is newer exactly when, at the
  first component in which they differ, it has the larger number (a missing component is 0).
\<close>

theorem versionNewer_order:
  assumes "ns \<noteq> []" "ms \<noteq> []" "\<forall>n \<in> set ns \<union> set ms. n < 2 ^ 63"
  shows "versionNewer (version_string v ns b) (version_string v' ms b') \<longleftrightarrow>
    (\<exists>i. component (map int ms) i < component (map int ns) i \<and> (\<forall>j < i. component (map int ns) j = component (map int ms) j))"
proof -
  have "\<forall>n \<in> set ns. int64 (int n)" "\<forall>n \<in> set ms. int64 (int n)" using assms(3) by (auto simp: int64_def)
  with assms(1,2) show ?thesis by (simp add: versionNewer_def splitVersion_string newer_loop_iff)
qed

theorem versionNewer_order_witness:
  "versionNewer (version_string True [1, 31, 14] (Some ''k0s.0'')) (version_string False [1, 31, 9] None) \<and>
   version_string True [1, 31, 14] (Some ''k0s.0'') = ''v1.31.14+k0s.0''"
proof -
  have "versionNewer (version_string True [1, 31, 14] (Some ''k0s.0'')) (version_string False [1, 31, 9] None)"
  proof (subst versionNewer_order)
    show "\<exists>i. component (map int [1, 31, 9]) i < component (map int [1, 31, 14]) i \<and>
      (\<forall>j < i. component (map int [1, 31, 14]) j = component (map int [1, 31, 9]) j)"
      by (intro exI[of _ 2]) (auto simp: less_Suc_eq numeral_2_eq_2)
  qed simp_all
  moreover have "version_string True [1, 31, 14] (Some ''k0s.0'') = ''v1.31.14+k0s.0''" by code_simp
  ultimately show ?thesis by simp
qed

end
