(* ===== verification/ClusterExternal.thy ===== *)
theory ClusterExternal
  imports ClusterVersion K8sSizing Placement
begin

text \<open>
  The KubernetesCluster kind: \<^verbatim>\<open>internal/controller/kubernetes/cluster_external.go\<close>, with the version upgrade of
  \<^verbatim>\<open>cluster_upgrade.go\<close> and the cluster side of \<^verbatim>\<open>router_integration.go\<close>. The struct \<^verbatim>\<open>clusterExternal\<close> is \<open>cluster_ext\<close>.
  References and selectors of the spec are resolved when the client connects; here only their presence matters.
\<close>

section \<open>Data\<close>

record kubernetes_resources =
  kr_CPU :: int
  kr_RAMGB :: int
  kr_DiskGB :: int

record cluster_parameters =
  kcp_Name :: string
  kcp_K8sVersion :: string
  kcp_NetworkDriver :: string
  kcp_ClusterNetworkCIDR :: "(string \<times> string) option"
  kcp_Location :: string
  kcp_AvailabilityZone :: "string option"
  kcp_PresetName :: "string option"
  kcp_Resources :: "kubernetes_resources option"
  kcp_Description :: "string option"
  kcp_MasterNodesCount :: "int option"
  kcp_NetworkRef :: "string option"
  kcp_NetworkSelector :: "unit option"
  kcp_NetworkID :: "string option"
  kcp_RouterRef :: "string option"
  kcp_RouterID :: "string option"
  kcp_ProjectRef :: "string option"
  kcp_ProjectSelector :: "unit option"
  kcp_ProjectID :: "int option"

record cluster_observation =
  kco_UpstreamID :: "string option"
  kco_State :: "string option"
  kco_K8sVersion :: "string option"
  kco_LockedPresetID :: "int option"
  kco_LockedConfiguratorID :: "int option"
  kco_ResolvedNetworkID :: "string option"
  kco_ClusterNetworkCIDR :: "(string \<times> string) option"
  kco_RouterIntegrated :: "bool option"
  kco_IntegratedRouterID :: "string option"
  kco_AutoCreatedNetworkID :: "string option"
  kco_ResolvedProjectID :: "int option"
  kco_CPU :: "int option"
  kco_RAM :: "int option"
  kco_Disk :: "int option"
  kco_Sizing :: "string option"

text \<open>\<^verbatim>\<open>clusterBody\<close>\<close>

record cluster_body =
  cb_ID :: int
  cb_Name :: string
  cb_Status :: string
  cb_Description :: string
  cb_K8sVersion :: string
  cb_NetworkDriver :: string
  cb_PresetID :: int
  cb_ConfiguratorID :: int
  cb_CPU :: int
  cb_RAM :: int
  cb_Disk :: int
  cb_AvailabilityZone :: string
  cb_ProjectID :: int
  cb_NetworkID :: string
  cb_NetworkCidr :: "(string \<times> string) option"

record cluster_configuration =
  ccf_ConfiguratorId :: int
  ccf_Cpu :: int
  ccf_Disk :: int
  ccf_Ram :: int

text \<open>The body of the create request; \<open>None\<close> is a field left out. The configuration's \<^verbatim>\<open>gpu\<close> is always null.\<close>

record cluster_in =
  ckc_Name :: string
  ckc_K8sVersion :: string
  ckc_NetworkDriver :: string
  ckc_AvailabilityZone :: string
  ckc_ClusterNetworkCidr :: "(string \<times> string) option"
  ckc_Configuration :: "cluster_configuration option"
  ckc_PresetId :: "int option"
  ckc_Description :: "string option"
  ckc_MasterNodesCount :: "int option"
  ckc_NetworkId :: "string option"
  ckc_ProjectId :: "int option"

text \<open>What the integration reads of a router: its id, parent services (id and type) and networks (id and NAT address).\<close>

record integration_router =
  ir_Id :: string
  ir_ParentServices :: "(int \<times> string) list"
  ir_Networks :: "(string \<times> string option) list"

datatype cluster_req =
    GetCluster int | GetClusters | GetClusterKubeconfig int | ListRouters
  | CreateCluster cluster_in
  | UpdateClusterVersion int string
  | IntegrateRouter int "string option"
  | UpdateCluster int "string option" "string option"
  | DeleteCluster int

datatype cluster_payload = PCluster cluster_body | PClusters "cluster_body list" | PIntegrationRouters "integration_router list"

fun as_cluster :: "cluster_payload \<Rightarrow> cluster_body option" where
  "as_cluster (PCluster c) = Some c" | "as_cluster _ = None"
fun as_clusters :: "cluster_payload \<Rightarrow> cluster_body list option" where
  "as_clusters (PClusters c) = Some c" | "as_clusters _ = None"
fun as_integration_routers :: "cluster_payload \<Rightarrow> integration_router list option" where
  "as_integration_routers (PIntegrationRouters r) = Some r" | "as_integration_routers _ = None"

record cluster_ext =
  ce_pcRef :: pc_ref
  ce_resolvedNetworkID :: string
  ce_resolvedProjectID :: "int option"
  ce_resolvedRouterID :: string

type_synonym cluster_mr = "(cluster_parameters, cluster_observation) mr"
type_synonym ('w, 'a) cluster_act = "('w, cluster_req, cluster_parameters, cluster_observation, 'a) act"
type_synonym 'w cluster_api = "('w, cluster_req, cluster_payload) api"

section \<open>Resolver helpers\<close>

definition resolveMasterPreset :: "'w resolver_iface \<Rightarrow> pc_ref \<Rightarrow> string \<Rightarrow> string \<Rightarrow> string \<Rightarrow> ('w, int) cluster_act" where
  "resolveMasterPreset rslv pc slug zone location =
     bindE (run_resolver rslv pc \<lparr>dim_Name = ''KubernetesMasterPreset'', dim_Kind = DimensionPreset\<rparr>
       (PresetInput \<lparr>pi_Slug = slug, pi_Zone = zone, pi_Location = location\<rparr>)) (\<lambda>out.
     case out of PresetOutput n \<Rightarrow> returnOk n
     | _ \<Rightarrow> throwError (Errorf ''kubernetes/cluster: resolver returned a wrong type''))"

definition validateVersion :: "'w resolver_iface \<Rightarrow> pc_ref \<Rightarrow> string \<Rightarrow> ('w, unit) cluster_act" where
  "validateVersion rslv pc version =
     bindE (run_resolver rslv pc \<lparr>dim_Name = ''KubernetesVersion'', dim_Kind = DimensionEnum\<rparr> (EnumInput version)) (\<lambda>_. returnOk ())"

section \<open>Status and drift\<close>

definition cluster_sizing_column :: "cluster_parameters \<Rightarrow> string option \<Rightarrow> string option" where
  "cluster_sizing_column fp old = (case kcp_PresetName fp of
     Some slug \<Rightarrow> Some (''preset:'' @ slug)
   | None \<Rightarrow> (case kcp_Resources fp of
       Some r \<Rightarrow> Some (Itoa (kr_CPU r) @ ''cpu/'' @ Itoa (kr_RAMGB r) @ ''gb/'' @ Itoa (kr_DiskGB r) @ ''gb'')
     | None \<Rightarrow> old))"

definition nonzero :: "int \<Rightarrow> int option \<Rightarrow> int option" where
  "nonzero n old = (if n \<noteq> 0 then Some n else old)"

definition cluster_status :: "cluster_parameters \<Rightarrow> cluster_body \<Rightarrow> cluster_observation \<Rightarrow> cluster_observation" where
  "cluster_status fp c st = st\<lparr>
     kco_UpstreamID := Some (EncodeID (cb_ID c)),
     kco_State := Some (cb_Status c),
     kco_K8sVersion := (if cb_K8sVersion c \<noteq> [] then Some (cb_K8sVersion c) else kco_K8sVersion st),
     kco_ClusterNetworkCIDR := (case cb_NetworkCidr c of Some n \<Rightarrow> Some n | None \<Rightarrow> kco_ClusterNetworkCIDR st),
     kco_CPU := nonzero (cb_CPU c) (kco_CPU st), kco_RAM := nonzero (cb_RAM c) (kco_RAM st), kco_Disk := nonzero (cb_Disk c) (kco_Disk st),
     kco_ResolvedProjectID := nonzero (cb_ProjectID c) (kco_ResolvedProjectID st),
     kco_LockedPresetID := nonzero (cb_PresetID c) (kco_LockedPresetID st),
     kco_LockedConfiguratorID := nonzero (cb_ConfiguratorID c) (kco_LockedConfiguratorID st),
     kco_AutoCreatedNetworkID :=
       (if cb_NetworkID c \<noteq> [] \<and> kcp_NetworkRef fp = None \<and> kcp_NetworkSelector fp = None \<and> kcp_NetworkID fp = None
        then Some (cb_NetworkID c) else kco_AutoCreatedNetworkID st),
     kco_Sizing := cluster_sizing_column fp (kco_Sizing st)\<rparr>"

definition populateClusterStatus :: "cluster_body \<Rightarrow> cluster_mr \<Rightarrow> cluster_mr" where
  "populateClusterStatus c m = m\<lparr>at_provider := cluster_status (for_provider m) c (at_provider m)\<rparr>"

definition cluster_active :: "string \<Rightarrow> bool" where
  "cluster_active state = (let s = ToLower state in
     s \<noteq> ''no_paid'' \<and> (Contains s ''active'' \<or> Contains s ''started'' \<or> Contains s ''running'' \<or> s = ''on''))"

definition cluster_ready_condition :: "string \<Rightarrow> condition" where
  "cluster_ready_condition state = (let s = ToLower state in
     if s = ''no_paid'' then ReadyFalse ''PaymentRequired''
     else if Contains s ''active'' \<or> Contains s ''started'' \<or> Contains s ''running'' \<or> s = ''on'' then Available
     else if Contains s ''error'' \<or> Contains s ''fail'' then ReadyFalse ''UpstreamFailed''
     else Creating)"

definition setClusterReadyCondition :: "string \<Rightarrow> ('w, bool) cluster_act" where
  "setClusterReadyCondition state =
     bindE (record_and_set (cluster_ready_condition state)) (\<lambda>_. returnOk (cluster_active state))"

definition isClusterUpToDate :: "cluster_parameters \<Rightarrow> cluster_observation \<Rightarrow> cluster_body \<Rightarrow> bool" where
  "isClusterUpToDate spec status c \<longleftrightarrow>
     (if kcp_PresetName spec \<noteq> None \<and> kco_LockedConfiguratorID status \<noteq> None then False
      else if kcp_Resources spec \<noteq> None \<and> kco_LockedPresetID status \<noteq> None then False
      else if kcp_Name spec \<noteq> cb_Name c then False
      else if kcp_Description spec \<noteq> None \<and> kcp_Description spec \<noteq> Some (cb_Description c) then False
      else if cb_K8sVersion c \<noteq> [] \<and> kcp_K8sVersion spec \<noteq> cb_K8sVersion c then False
      else True)"

definition kubeconfigConnectionDetails :: "'w cluster_api \<Rightarrow> int \<Rightarrow> ('w, (string \<times> string) list) cluster_act" where
  "kubeconfigConnectionDetails api n =
     bindE (attempt (call_classify api (GetClusterKubeconfig n))) (on_not_found (returnOk []) (\<lambda>resp.
       case resp_body resp of
         ReadError \<Rightarrow> throwError (Errorf ''kubernetes/cluster: read kubeconfig'')
       | Bytes raw _ \<Rightarrow> (let body = take (2 ^ 20) raw in returnOk (if body = [] then [] else [(''kubeconfig'', body)]))))"

section \<open>Integration with a router\<close>

record integration_state =
  is_integratedWith :: string
  is_declaredFound :: bool
  is_declaredHasNet :: bool
  is_declaredHasNAT :: bool
  is_declaredNetSeen :: bool

text \<open>The loops of \<^verbatim>\<open>readIntegrationState\<close>.\<close>

definition integration_network :: "string \<Rightarrow> string \<times> string option \<Rightarrow> integration_state \<Rightarrow> integration_state" where
  "integration_network networkID n st =
     (if fst n = networkID then st\<lparr>is_declaredHasNet := True, is_declaredHasNAT := (DerefString (snd n) \<noteq> [])\<rparr> else st)"

definition serves_cluster :: "int \<Rightarrow> integration_router \<Rightarrow> bool" where
  "serves_cluster clusterID r \<longleftrightarrow> list_ex (\<lambda>(n, t). t = ''k8s'' \<and> n = clusterID) (ir_ParentServices r)"

definition integration_router_step :: "int \<Rightarrow> string \<Rightarrow> string \<Rightarrow> integration_router \<Rightarrow> integration_state \<Rightarrow> integration_state" where
  "integration_router_step clusterID declared networkID r st =
     (let st1 = (if serves_cluster clusterID r then st\<lparr>is_integratedWith := ir_Id r\<rparr> else st) in
      if declared \<noteq> [] \<and> ir_Id r = declared
      then fold (integration_network networkID) (ir_Networks r) (st1\<lparr>is_declaredFound := True\<rparr>)
      else st1)"

definition integration_of :: "int \<Rightarrow> string \<Rightarrow> string \<Rightarrow> integration_router list \<Rightarrow> integration_state" where
  "integration_of clusterID declared networkID routers =
     fold (integration_router_step clusterID declared networkID) routers
       \<lparr>is_integratedWith = [], is_declaredFound = False, is_declaredHasNet = False, is_declaredHasNAT = False,
        is_declaredNetSeen = (networkID \<noteq> [])\<rparr>"

text \<open>The network the declared router is checked against.\<close>

definition integration_network_id :: "cluster_ext \<Rightarrow> cluster_mr \<Rightarrow> string" where
  "integration_network_id e m = (if ce_resolvedNetworkID e = [] \<and> kco_ResolvedNetworkID (at_provider m) \<noteq> None
     then DerefString (kco_ResolvedNetworkID (at_provider m)) else ce_resolvedNetworkID e)"

definition readIntegrationState :: "'w cluster_api \<Rightarrow> cluster_ext \<Rightarrow> int \<Rightarrow> ('w, integration_state) cluster_act" where
  "readIntegrationState api e clusterID =
     bindE (fetch api ''kubernetes/cluster: routers list'' as_integration_routers ListRouters) (\<lambda>routers.
     gets (\<lambda>m. integration_of clusterID (ce_resolvedRouterID e) (integration_network_id e m) routers))"

text \<open>\<^verbatim>\<open>integrationWaitMessage\<close>: a wait reason exists; the reason itself is a message.\<close>

definition integration_waits :: "integration_state \<Rightarrow> bool" where
  "integration_waits st \<longleftrightarrow> \<not> is_declaredFound st \<or>
     (is_declaredNetSeen st \<and> \<not> is_declaredHasNet st) \<or> (is_declaredNetSeen st \<and> \<not> is_declaredHasNAT st)"

definition integrationPatch :: "'w cluster_api \<Rightarrow> int \<Rightarrow> string option \<Rightarrow> ('w, unit) cluster_act" where
  "integrationPatch api clusterID router = write_call api (IntegrateRouter clusterID router)"

definition set_integrated :: "bool \<Rightarrow> cluster_mr \<Rightarrow> cluster_mr" where
  "set_integrated b m = m\<lparr>at_provider := (at_provider m)\<lparr>kco_RouterIntegrated := Some b\<rparr>\<rparr>"

definition set_router_record :: "string option \<Rightarrow> cluster_mr \<Rightarrow> cluster_mr" where
  "set_router_record r m = m\<lparr>at_provider := (at_provider m)\<lparr>kco_IntegratedRouterID := r\<rparr>\<rparr>"

definition observeRouterIntegration :: "'w cluster_api \<Rightarrow> cluster_ext \<Rightarrow> int \<Rightarrow> ('w, bool) cluster_act" where
  "observeRouterIntegration api e clusterID = (let declared = ce_resolvedRouterID e in
     bindE (gets (\<lambda>m. kco_IntegratedRouterID (at_provider m))) (\<lambda>rec.
     if declared = [] \<and> DerefString rec = [] then returnOk False
     else bindE (attempt (readIntegrationState api e clusterID)) (\<lambda>x. case x of
       Inl err \<Rightarrow> returnOk False
     | Inr st \<Rightarrow>
         if declared \<noteq> [] then
           bindE (modify_cr (set_integrated (is_integratedWith st = declared))) (\<lambda>_.
           if is_integratedWith st = declared then bindE (modify_cr (set_router_record (Some declared))) (\<lambda>_. returnOk False)
           else if integration_waits st then bindE (record_and_set (ReadyFalse ''RouterNATRequired'')) (\<lambda>_. returnOk False)
           else returnOk True)
         else
           bindE (modify_cr (set_integrated (is_integratedWith st \<noteq> []))) (\<lambda>_.
           if is_integratedWith st = [] then bindE (modify_cr (set_router_record None)) (\<lambda>_. returnOk False)
           else returnOk True))))"

text \<open>What the state asks for, and the pass around it.\<close>

definition integration_act :: "'w cluster_api \<Rightarrow> string \<Rightarrow> int \<Rightarrow> integration_state \<Rightarrow> ('w, unit) cluster_act" where
  "integration_act api declared clusterID st =
     (if declared \<noteq> [] \<and> is_integratedWith st \<noteq> declared then
        (if integration_waits st then returnOk ()
         else bindE (integrationPatch api clusterID (Some declared)) (\<lambda>_.
              bindE (modify_cr (set_router_record (Some declared))) (\<lambda>_.
              emit_event EventTypeNormal ''IntegratedRouter'')))
      else if declared = [] \<and> is_integratedWith st \<noteq> [] then
        bindE (integrationPatch api clusterID None) (\<lambda>_.
        bindE (modify_cr (\<lambda>m. set_integrated False (set_router_record None m))) (\<lambda>_.
        emit_event EventTypeNormal ''DetachedRouterIntegration''))
      else if declared = [] then modify_cr (set_router_record None)
      else returnOk ())"

definition convergeRouterIntegration :: "'w cluster_api \<Rightarrow> cluster_ext \<Rightarrow> int \<Rightarrow> ('w, unit) cluster_act" where
  "convergeRouterIntegration api e clusterID =
     bindE (gets (\<lambda>m. kco_IntegratedRouterID (at_provider m))) (\<lambda>rec.
     if ce_resolvedRouterID e = [] \<and> DerefString rec = [] then returnOk ()
     else bindE (readIntegrationState api e clusterID) (integration_act api (ce_resolvedRouterID e) clusterID))"

section \<open>Version upgrade\<close>

definition reject_version :: "string \<Rightarrow> go_error \<Rightarrow> ('w, 'a) cluster_act" where
  "reject_version reason err = bindE (record_and_set (SyncedFalse reason)) (\<lambda>_. throwError err)"

definition reconcileVersion :: "'w cluster_api \<Rightarrow> 'w resolver_iface \<Rightarrow> cluster_ext \<Rightarrow> int \<Rightarrow> string \<Rightarrow> ('w, bool) cluster_act" where
  "reconcileVersion api rslv e n observed =
     bindE (gets (\<lambda>m. kcp_K8sVersion (for_provider m))) (\<lambda>desired.
     if observed = [] \<or> desired = observed then returnOk False
     else if splitVersion desired = [] \<or> allZero (splitVersion desired)
       then reject_version ''DimensionValueNotFound'' (Errorf ''kubernetes/cluster: desired k8sVersion could not be parsed'')
     else if \<not> versionNewer desired observed then
       (if versionNewer observed desired
        then reject_version ''ImmutableFieldChange'' (Errorf ''kubernetes/cluster: k8s version downgrade is not supported'')
        else reject_version ''ImmutableFieldChange'' (Errorf ''kubernetes/cluster: lateral version change is not supported''))
     else bindE (map_resolver_error (validateVersion rslv (ce_pcRef e) desired)) (\<lambda>_.
          bindE (write_call api (UpdateClusterVersion n desired)) (\<lambda>_.
          bindE (record_and_set (ReadyFalse ''Upgrading'')) (\<lambda>_. returnOk True))))"

section \<open>The handlers\<close>

definition misplaced :: "('w, observation) cluster_act" where
  "misplaced = bindE (record_and_set (ReadyFalse ''UpstreamFailed'')) (\<lambda>_. returnOk (present True))"

definition observe_cluster :: "'w cluster_api \<Rightarrow> cluster_ext \<Rightarrow> int \<Rightarrow> cluster_body \<Rightarrow> ('w, observation) cluster_act" where
  "observe_cluster api e n c =
     bindE (modify_cr (populateClusterStatus c)) (\<lambda>_.
     bindE (gets for_provider) (\<lambda>fp.
     case ResolvePlacement (kcp_Location fp) (kcp_AvailabilityZone fp) of
       Inl err \<Rightarrow> misplaced
     | Inr (_, zone) \<Rightarrow>
         if cb_AvailabilityZone c \<noteq> [] \<and> cb_AvailabilityZone c \<noteq> zone then misplaced
         else
           bindE (gets (\<lambda>m. c_status (GetCondition m TypeReady))) (\<lambda>prevReady.
           bindE (setClusterReadyCondition (cb_Status c)) (\<lambda>ready.
           bindE (if ready \<and> prevReady \<noteq> ConditionTrue then kubeconfigConnectionDetails api n else returnOk []) (\<lambda>cd.
           bindE (observeRouterIntegration api e n) (\<lambda>drift.
           bindE (gets (\<lambda>m. isClusterUpToDate (for_provider m) (at_provider m) c)) (\<lambda>utd.
           returnOk ((present (utd \<and> \<not> drift))\<lparr>ConnectionDetails := cd\<rparr>))))))))"

definition cluster_Observe :: "'w cluster_api \<Rightarrow> cluster_ext \<Rightarrow> ('w, observation) cluster_act" where
  "cluster_Observe api e =
     bindE (gets (\<lambda>m. DecodeID (external_name m))) (\<lambda>x. case x of
       None \<Rightarrow> returnOk absent
     | Some n \<Rightarrow> fetch_or_absent api ''kubernetes/cluster'' as_cluster (GetCluster n) (observe_cluster api e n))"

definition cluster_matches :: "string \<Rightarrow> string \<Rightarrow> int option \<Rightarrow> cluster_body \<Rightarrow> bool" where
  "cluster_matches name az projectID c \<longleftrightarrow>
     (if cb_Name c \<noteq> name then False
      else if az \<noteq> [] \<and> cb_AvailabilityZone c \<noteq> [] \<and> cb_AvailabilityZone c \<noteq> az then False
      else if projectID \<noteq> None \<and> cb_ProjectID c \<noteq> 0 \<and> Some (cb_ProjectID c) \<noteq> projectID then False
      else True)"

definition findClustersByName :: "'w cluster_api \<Rightarrow> string \<Rightarrow> string \<Rightarrow> int option \<Rightarrow> ('w, cluster_body list) cluster_act" where
  "findClustersByName api name az projectID =
     bindE (fetch api ''kubernetes/cluster: list clusters'' as_clusters GetClusters) (\<lambda>cs.
     returnOk (filter (cluster_matches name az projectID) cs))"

definition buildCreateClusterBody :: "cluster_parameters \<Rightarrow> int \<Rightarrow> int \<Rightarrow> string \<Rightarrow> int option \<Rightarrow> string \<Rightarrow> cluster_in" where
  "buildCreateClusterBody fp presetID configuratorID networkID projectID zone = \<lparr>
     ckc_Name = kcp_Name fp, ckc_K8sVersion = kcp_K8sVersion fp, ckc_NetworkDriver = kcp_NetworkDriver fp, ckc_AvailabilityZone = zone,
     ckc_ClusterNetworkCidr = kcp_ClusterNetworkCIDR fp,
     ckc_Configuration = (case kcp_Resources fp of None \<Rightarrow> None | Some r \<Rightarrow> Some \<lparr>ccf_ConfiguratorId = configuratorID, ccf_Cpu = kr_CPU r,
        ccf_Disk = wrap64 (kr_DiskGB r * 1024), ccf_Ram = wrap64 (kr_RAMGB r * 1024)\<rparr>),
     ckc_PresetId = (case kcp_Resources fp of None \<Rightarrow> Some presetID | Some _ \<Rightarrow> None),
     ckc_Description = kcp_Description fp, ckc_MasterNodesCount = kcp_MasterNodesCount fp,
     ckc_NetworkId = (if networkID \<noteq> [] then Some networkID else None), ckc_ProjectId = projectID\<rparr>"

text \<open>The preset id and the configurator id, one of them 0.\<close>

definition cluster_sizing :: "'w resolver_iface \<Rightarrow> cluster_ext \<Rightarrow> cluster_parameters \<Rightarrow> string \<Rightarrow> string \<Rightarrow> ('w, int \<times> int) cluster_act" where
  "cluster_sizing rslv e fp location zone = (case kcp_Resources fp of
     Some r \<Rightarrow> map_resolver_error (bindE (resolveK8sConfigurator rslv (ce_pcRef e) ''KubernetesMasterConfigurator'' location
         (kr_CPU r) (kr_RAMGB r) (kr_DiskGB r) None []) (\<lambda>k. returnOk (0, k)))
   | None \<Rightarrow> (case kcp_PresetName fp of
       None \<Rightarrow> throwError nil_dereference
     | Some slug \<Rightarrow> map_resolver_error (bindE (resolveMasterPreset rslv (ce_pcRef e) slug zone location) (\<lambda>p. returnOk (p, 0)))))"

definition cluster_locks :: "cluster_ext \<Rightarrow> int \<Rightarrow> int \<Rightarrow> cluster_mr \<Rightarrow> cluster_mr" where
  "cluster_locks e presetID configuratorID m = (let st = at_provider m;
     st1 = (if ce_resolvedNetworkID e \<noteq> [] then st\<lparr>kco_ResolvedNetworkID := Some (ce_resolvedNetworkID e)\<rparr> else st);
     st2 = (if ce_resolvedProjectID e \<noteq> None then st1\<lparr>kco_ResolvedProjectID := ce_resolvedProjectID e\<rparr> else st1) in
     m\<lparr>at_provider := (if kcp_Resources (for_provider m) \<noteq> None then st2\<lparr>kco_LockedConfiguratorID := Some configuratorID\<rparr>
       else st2\<lparr>kco_LockedPresetID := Some presetID\<rparr>)\<rparr>)"

text \<open>\<^verbatim>\<open>Create\<close> behind the adoption guard: the request with what is recorded of its answer, and the steps before it.\<close>

definition request_cluster :: "'w cluster_api \<Rightarrow> cluster_ext \<Rightarrow> cluster_parameters \<Rightarrow> string \<Rightarrow> int \<times> int \<Rightarrow> ('w, unit) cluster_act" where
  "request_cluster api e fp zone ids = (case ids of (presetID, configuratorID) \<Rightarrow>
     bindE (fetch api ''kubernetes/cluster'' as_cluster (CreateCluster
       (buildCreateClusterBody fp presetID configuratorID (ce_resolvedNetworkID e) (ce_resolvedProjectID e) zone))) (\<lambda>c.
     bindE (modify_cr (\<lambda>m. m\<lparr>external_name := EncodeID (cb_ID c)\<rparr>)) (\<lambda>_.
     bindE (modify_cr (populateClusterStatus c)) (\<lambda>_.
     bindE (modify_cr (cluster_locks e presetID configuratorID)) (\<lambda>_.
     modify_cr (SetConditions Creating))))))"

definition post_cluster :: "'w cluster_api \<Rightarrow> 'w resolver_iface \<Rightarrow> cluster_ext \<Rightarrow> ('w, unit) cluster_act" where
  "post_cluster api rslv e =
     bindE (gets for_provider) (\<lambda>fp.
     bindE (validateVersion rslv (ce_pcRef e) (kcp_K8sVersion fp)) (\<lambda>_.
     case ResolvePlacement (kcp_Location fp) (kcp_AvailabilityZone fp) of
       Inl err \<Rightarrow> throwError (Wrap ''kubernetes/cluster'' err)
     | Inr (location, zone) \<Rightarrow> bindE (cluster_sizing rslv e fp location zone) (request_cluster api e fp zone)))"

definition cluster_Create :: "'w cluster_api \<Rightarrow> 'w resolver_iface \<Rightarrow> cluster_ext \<Rightarrow> ('w, unit) cluster_act" where
  "cluster_Create api rslv e =
     bindE (gets (\<lambda>m. m)) (\<lambda>m. let fp = for_provider m in
     if create_incomplete m \<or> create_failed m \<noteq> [] then
       (case ResolvePlacement (kcp_Location fp) (kcp_AvailabilityZone fp) of
          Inl err \<Rightarrow> throwError (Wrap ''kubernetes/cluster'' err)
        | Inr (_, zone) \<Rightarrow>
            bindE (findClustersByName api (kcp_Name fp) zone (ce_resolvedProjectID e)) (\<lambda>ms. case ms of
              [] \<Rightarrow> post_cluster api rslv e
            | [c] \<Rightarrow> modify_cr (\<lambda>m. m\<lparr>external_name := EncodeID (cb_ID c)\<rparr>)
            | _ \<Rightarrow> throwError (Errorf ''kubernetes/cluster: several upstream clusters with this name'')))
     else post_cluster api rslv e)"

text \<open>The guards of \<^verbatim>\<open>Update\<close> in their order: \<open>None\<close> passes, \<open>Some None\<close> is the sizing switch, \<open>Some (Some f)\<close> the field.\<close>

definition cluster_guards :: "cluster_parameters \<Rightarrow> cluster_observation \<Rightarrow> cluster_body \<Rightarrow> string option option" where
  "cluster_guards fp st c =
     (if (kcp_Resources fp \<noteq> None \<and> kco_LockedPresetID st \<noteq> None) \<or> (kcp_Resources fp = None \<and> kco_LockedConfiguratorID st \<noteq> None)
        then Some None
      else if cb_NetworkDriver c \<noteq> [] \<and> kcp_NetworkDriver fp \<noteq> cb_NetworkDriver c then Some (Some ''networkDriver'')
      else if cb_AvailabilityZone c \<noteq> [] \<and> DerefString (kcp_AvailabilityZone fp) \<noteq> cb_AvailabilityZone c
        then Some (Some ''availabilityZone'')
      else if kco_LockedPresetID st \<noteq> None \<and> cb_PresetID c \<noteq> 0 \<and> kco_LockedPresetID st \<noteq> Some (cb_PresetID c)
        then Some (Some ''presetName'')
      else None)"

definition patch_cluster :: "'w cluster_api \<Rightarrow> int \<Rightarrow> cluster_parameters \<Rightarrow> cluster_body \<Rightarrow> ('w, unit) cluster_act" where
  "patch_cluster api n fp c =
     (let name = (if kcp_Name fp \<noteq> cb_Name c then Some (kcp_Name fp) else None);
          descr = (if kcp_Description fp \<noteq> None \<and> kcp_Description fp \<noteq> Some (cb_Description c) then kcp_Description fp else None) in
      if name = None \<and> descr = None then returnOk () else write_call api (UpdateCluster n name descr))"

definition update_cluster :: "'w cluster_api \<Rightarrow> 'w resolver_iface \<Rightarrow> cluster_ext \<Rightarrow> int \<Rightarrow> cluster_body \<Rightarrow> ('w, unit) cluster_act" where
  "update_cluster api rslv e n c =
     bindE (gets (\<lambda>m. m)) (\<lambda>m. let fp = for_provider m in
     case cluster_guards fp (at_provider m) c of
       Some None \<Rightarrow> RejectSizingSwitch
     | Some (Some field) \<Rightarrow> RejectImmutableChange field
     | None \<Rightarrow>
         bindE (reconcileVersion api rslv e n (cb_K8sVersion c)) (\<lambda>_.
         bindE (convergeRouterIntegration api e n) (\<lambda>_.
         patch_cluster api n fp c)))"

definition cluster_Update :: "'w cluster_api \<Rightarrow> 'w resolver_iface \<Rightarrow> cluster_ext \<Rightarrow> ('w, unit) cluster_act" where
  "cluster_Update api rslv e =
     bindE (gets (\<lambda>m. DecodeID (external_name m))) (\<lambda>x. case x of
       None \<Rightarrow> throwError (Errorf ''kubernetes/cluster: decode external-name'')
     | Some n \<Rightarrow> bindE (fetch api ''kubernetes/cluster'' as_cluster (GetCluster n)) (update_cluster api rslv e n))"

definition cluster_Delete :: "'w cluster_api \<Rightarrow> ('w, unit) cluster_act" where
  "cluster_Delete api =
     bindE (gets (\<lambda>m. DecodeID (external_name m))) (\<lambda>x. case x of
       None \<Rightarrow> returnOk ()
     | Some n \<Rightarrow> delete_or_gone api (DeleteCluster n) (modify_cr (SetConditions Deleting)))"

section \<open>The contract of an external client\<close>

definition cluster_get_req :: "cluster_mr \<Rightarrow> cluster_req option" where
  "cluster_get_req m = map_option GetCluster (DecodeID (external_name m))"

definition cluster_del_req :: "cluster_mr \<Rightarrow> cluster_req option" where
  "cluster_del_req m = map_option DeleteCluster (DecodeID (external_name m))"

end
