(* ===== verification/ClusterSafety.thy ===== *)
theory ClusterSafety
  imports ClusterExternal Monitored
begin

text \<open>
  What the cluster handlers may do: upgrades go forward only, the router integration waits for a usable router,
  and a create that may have succeeded is never repeated.
\<close>

declare run_equations [simp del]

section \<open>The contract of an external client\<close>

lemma reports_present_observe_cluster: "reports_present (observe_cluster api e n c)"
proof -
  have p: "reports_present (misplaced :: ('w, observation) cluster_act)"
    unfolding misplaced_def by (intro reports_present_bindE) simp
  have q: "reports_present (bindE (gets (\<lambda>m. isClusterUpToDate (for_provider m) (at_provider m) c)) (\<lambda>utd.
      returnOk ((present (utd \<and> \<not> drift))\<lparr>ConnectionDetails := cd\<rparr>)))" for drift cd
    by (intro reports_present_bindE) simp
  show ?thesis unfolding observe_cluster_def
    by (intro reports_present_bindE) (auto intro!: p q reports_present_bindE split: sum.split prod.split)
qed

interpretation cluster: external_client api "cluster_Observe api e" "cluster_Delete api" cluster_get_req cluster_del_req for api e
  by (rule external_clientI_req[where pfx = "''kubernetes/cluster''" and sel = as_cluster and d = "modify_cr (SetConditions Deleting)"
        and k = "\<lambda>q. case q of GetCluster n \<Rightarrow> observe_cluster api e n | _ \<Rightarrow> (\<lambda>_. returnOk (present True))"])
     (auto simp: cluster_Observe_def cluster_Delete_def cluster_get_req_def cluster_del_req_def bindE_gets returnOk_run modify_cr_run
        reports_present_observe_cluster split: option.splits cluster_req.splits)

section \<open>Running an update\<close>

lemma cluster_Update_run:
  assumes "DecodeID (external_name (cr s)) = Some n" "answers api (world s) (GetCluster n) (PCluster c) w1"
  shows "cluster_Update api rslv e s = update_cluster api rslv e n c (s\<lparr>world := w1, reqs := reqs s @ [GetCluster n]\<rparr>)"
  using assms by (simp add: cluster_Update_def bindE_gets bindE_def[of "fetch _ _ _ _"] fetch_sel_run)

text \<open>What the guards refuse leaves no trace upstream.\<close>

lemma update_cluster_refused:
  assumes "cluster_guards (for_provider (cr s)) (at_provider (cr s)) c = Some x" "update_cluster api rslv e n c s = (r, s')"
  shows "(\<exists>err. r = Inl err) \<and> reqs s' = reqs s \<and> world s' = world s"
  using assms by (cases x) (auto simp: update_cluster_def bindE_gets Let_def dest: Reject_runs)

lemma update_cluster_passed:
  assumes "cluster_guards (for_provider (cr s)) (at_provider (cr s)) c = None"
  shows "update_cluster api rslv e n c s = bindE (reconcileVersion api rslv e n (cb_K8sVersion c)) (\<lambda>_.
    bindE (convergeRouterIntegration api e n) (\<lambda>_. patch_cluster api n (for_provider (cr s)) c)) s"
  using assms by (simp add: update_cluster_def bindE_gets Let_def)

section \<open>Upgrades\<close>

lemma version_call_run:
  "map_resolver_error (validateVersion rslv pc v) s = (case rslv pc \<lparr>dim_Name = ''KubernetesVersion'', dim_Kind = DimensionEnum\<rparr> (EnumInput v) (world s) of
     (Inl err, w) \<Rightarrow> (Inl err, snd (record_and_set (MapResolverErrorToCondition err) (s\<lparr>world := w\<rparr>)))
   | (Inr out, w) \<Rightarrow> (Inr (), s\<lparr>world := w\<rparr>))"
  by (auto simp: map_resolver_error_def validateVersion_def attempt_def bindE_def run_resolver_def run_equations split: prod.splits sum.splits)

abbreviation version_dim :: dimension where
  "version_dim \<equiv> \<lparr>dim_Name = ''KubernetesVersion'', dim_Kind = DimensionEnum\<rparr>"

lemma reconcileVersion_trace:
  assumes "reconcileVersion api rslv e n observed s = (r, s')" "desired = kcp_K8sVersion (for_provider (cr s))"
  shows "\<exists>qs. reqs s' = reqs s @ qs \<and>
    (observed = [] \<or> desired = observed \<longrightarrow> qs = [] \<and> s' = s) \<and>
    (observed \<noteq> [] \<longrightarrow> desired \<noteq> observed \<longrightarrow> \<not> versionNewer desired observed \<longrightarrow> qs = [] \<and> (\<exists>err. r = Inl err)) \<and>
    (qs \<noteq> [] \<longrightarrow> qs = [UpdateClusterVersion n desired] \<and> observed \<noteq> [] \<and> versionNewer desired observed \<and>
       (\<exists>out. fst (rslv (ce_pcRef e) version_dim (EnumInput desired) (world s)) = Inr out)) \<and>
    ((\<exists>b. r = Inr b) \<longrightarrow> observed \<noteq> [] \<longrightarrow> desired \<noteq> observed \<longrightarrow> qs = [UpdateClusterVersion n desired])"
proof (cases "observed = [] \<or> desired = observed \<or> splitVersion desired = [] \<or> allZero (splitVersion desired) \<or> \<not> versionNewer desired observed")
  case True
  with assms show ?thesis
    by (auto simp: reconcileVersion_def reject_version_def run_equations split: if_splits)
next
  case False
  with assms have run: "bindE (map_resolver_error (validateVersion rslv (ce_pcRef e) desired)) (\<lambda>_.
      bindE (write_call api (UpdateClusterVersion n desired)) (\<lambda>_.
      bindE (record_and_set (ReadyFalse ''Upgrading'')) (\<lambda>_. returnOk True))) s = (r, s')"
    by (simp add: reconcileVersion_def bindE_gets)
  obtain x w where x: "rslv (ce_pcRef e) version_dim (EnumInput desired) (world s) = (x, w)" by fastforce
  show ?thesis
  proof (cases x)
    case (Inl err)
    with run x False show ?thesis by (auto simp: bindE_def[of "map_resolver_error _"] version_call_run run_equations)
  next
    case (Inr out)
    with run x have w: "bindE (write_call api (UpdateClusterVersion n desired)) (\<lambda>_.
      bindE (record_and_set (ReadyFalse ''Upgrading'')) (\<lambda>_. returnOk True)) (s\<lparr>world := w\<rparr>) = (r, s')"
      by (simp add: bindE_def[of "map_resolver_error _"] version_call_run)
    obtain r1 s1 where r1: "write_call api (UpdateClusterVersion n desired) (s\<lparr>world := w\<rparr>) = (r1, s1)" by fastforce
    from write_call_reqs[OF r1] w r1 have "reqs s' = reqs s @ [UpdateClusterVersion n desired]"
      by (auto simp: bindE_def[of "write_call _ _"] run_equations split: sum.splits)
    with False x Inr show ?thesis by (intro exI[of _ "[UpdateClusterVersion n desired]"]) auto
  qed
qed

text \<open>Only \<^verbatim>\<open>reconcileVersion\<close> changes the version.\<close>

lemma emits_no_version:
  "emits (\<lambda>q. \<forall>k v. q \<noteq> UpdateClusterVersion k v) (convergeRouterIntegration api e n)"
  "emits (\<lambda>q. \<forall>k v. q \<noteq> UpdateClusterVersion k v) (patch_cluster api n fp c)"
  unfolding convergeRouterIntegration_def integration_act_def patch_cluster_def readIntegrationState_def integrationPatch_def Let_def
  by (intro emits_rules; simp)+

text \<open>What an Update issues after the version has been reconciled.\<close>

lemma update_cluster_after_version:
  assumes "cluster_guards (for_provider (cr s)) (at_provider (cr s)) c = None" "update_cluster api rslv e n c s = (r, s')"
    and "reconcileVersion api rslv e n (cb_K8sVersion c) s = (r1, s1)"
  shows "\<exists>ps. reqs s' = reqs s1 @ ps \<and> (\<forall>k v. UpdateClusterVersion k v \<notin> set ps) \<and> ((\<exists>err. r1 = Inl err) \<longrightarrow> ps = [] \<and> r \<noteq> Inr ())"
proof (cases r1)
  case (Inl err)
  with assms(2,3) show ?thesis
    unfolding update_cluster_passed[OF assms(1)] bindE_def[of "reconcileVersion _ _ _ _ _"] by auto
next
  case (Inr b)
  have e: "emits (\<lambda>q. \<forall>k v. q \<noteq> UpdateClusterVersion k v)
      (bindE (convergeRouterIntegration api e n) (\<lambda>_. patch_cluster api n (for_provider (cr s)) c))"
    by (intro emits_rules emits_no_version)
  have "bindE (convergeRouterIntegration api e n) (\<lambda>_. patch_cluster api n (for_provider (cr s)) c) s1 = (r, s')"
    using assms(2,3) Inr unfolding update_cluster_passed[OF assms(1)] bindE_def[of "reconcileVersion _ _ _ _ _"] by simp
  from emitsD[OF e this] Inr show ?thesis by (force simp: list_all_iff)
qed


definition wit_cluster :: cluster_body where
  "wit_cluster = \<lparr>cb_ID = 5, cb_Name = ''main'', cb_Status = ''started'', cb_Description = [], cb_K8sVersion = ''v1.31.2+k0s.0'',
     cb_NetworkDriver = ''calico'', cb_PresetID = 9, cb_ConfiguratorID = 0, cb_CPU = 2, cb_RAM = 4, cb_Disk = 60,
     cb_AvailabilityZone = ''msk-1'', cb_ProjectID = 1, cb_NetworkID = ''net-1'', cb_NetworkCidr = None\<rparr>"

definition wit_cluster_fp :: cluster_parameters where
  "wit_cluster_fp = \<lparr>kcp_Name = ''main'', kcp_K8sVersion = ''v1.31.10+k0s.0'', kcp_NetworkDriver = ''calico'', kcp_ClusterNetworkCIDR = None,
     kcp_Location = ''ru-3'', kcp_AvailabilityZone = Some ''msk-1'', kcp_PresetName = Some ''k8s-master'', kcp_Resources = None,
     kcp_Description = Some ''prod'', kcp_MasterNodesCount = None, kcp_NetworkRef = None, kcp_NetworkSelector = None,
     kcp_NetworkID = Some ''net-1'', kcp_RouterRef = None, kcp_RouterID = Some ''r-1'', kcp_ProjectRef = None,
     kcp_ProjectSelector = None, kcp_ProjectID = None\<rparr>"

definition wit_cluster_obs :: cluster_observation where
  "wit_cluster_obs = \<lparr>kco_UpstreamID = Some ''5'', kco_State = None, kco_K8sVersion = None, kco_LockedPresetID = Some 9,
     kco_LockedConfiguratorID = None, kco_ResolvedNetworkID = None, kco_ClusterNetworkCIDR = None, kco_RouterIntegrated = None,
     kco_IntegratedRouterID = None, kco_AutoCreatedNetworkID = None, kco_ResolvedProjectID = None, kco_CPU = None, kco_RAM = None,
     kco_Disk = None, kco_Sizing = None\<rparr>"

definition wit_cluster_mr :: cluster_mr where
  "wit_cluster_mr = \<lparr>external_name = ''5'', create_incomplete = False, create_failed = [], for_provider = wit_cluster_fp,
     at_provider = wit_cluster_obs, conditions = Map.empty\<rparr>"

definition wit_cluster_ext :: cluster_ext where
  "wit_cluster_ext = \<lparr>ce_pcRef = wit_pc, ce_resolvedNetworkID = ''net-1'', ce_resolvedProjectID = None, ce_resolvedRouterID = ''r-1''\<rparr>"

text \<open>A service that keeps one cluster, and a router integrated with it or not; the world is the two.\<close>

definition wit_cluster_api :: "(cluster_body \<times> bool) cluster_api" where
  "wit_cluster_api w q = (case q of
     GetCluster n \<Rightarrow> (Resp (ok_response (PCluster (fst w))), w)
   | GetClusters \<Rightarrow> (Resp (ok_response (PClusters [fst w])), w)
   | ListRouters \<Rightarrow> (Resp (ok_response (PIntegrationRouters [\<lparr>ir_Id = ''r-1'',
        ir_ParentServices = (if snd w then [(5, ''k8s'')] else []), ir_Networks = [(''net-1'', Some ''1.2.3.4'')]\<rparr>])), w)
   | UpdateClusterVersion n v \<Rightarrow> (Resp (ok_response (PCluster (fst w))), ((fst w)\<lparr>cb_K8sVersion := v\<rparr>, snd w))
   | IntegrateRouter n x \<Rightarrow> (Resp (ok_response (PCluster (fst w))), (fst w, x = Some ''r-1''))
   | UpdateCluster n x y \<Rightarrow> (Resp (ok_response (PCluster (fst w))),
       ((fst w)\<lparr>cb_Name := (case x of None \<Rightarrow> cb_Name (fst w) | Some z \<Rightarrow> z),
                cb_Description := (case y of None \<Rightarrow> cb_Description (fst w) | Some z \<Rightarrow> z)\<rparr>, snd w))
   | _ \<Rightarrow> (Resp (ok_response (PCluster (fst w))), w))"

definition wit_version_resolver :: "'w resolver_iface" where
  "wit_version_resolver pc dim inp w = (Inr (PresetOutput 9), w)"


section \<open>The router integration\<close>

text \<open>What the loop over the listed routers establishes.\<close>

lemma integration_networks:
  fixes net ns defines "F \<equiv> fold (integration_network net) ns"
  shows "is_integratedWith (F st) = is_integratedWith st \<and> is_declaredFound (F st) = is_declaredFound st \<and>
    is_declaredNetSeen (F st) = is_declaredNetSeen st \<and>
    (is_declaredHasNAT (F st) \<longrightarrow> is_declaredHasNAT st \<or> (\<exists>nat. (net, nat) \<in> set ns \<and> DerefString nat \<noteq> []))"
  unfolding F_def
proof (induction ns arbitrary: st)
  case (Cons x ns)
  from Cons.IH[of "integration_network net x st"] show ?case
    by (cases x) (auto simp: integration_network_def split: if_splits)
qed simp

lemma integration_step:
  fixes n declared net r defines "S \<equiv> integration_router_step n declared net r"
  shows "is_integratedWith (S st) = (if serves_cluster n r then ir_Id r else is_integratedWith st)"
    "is_declaredNetSeen (S st) = is_declaredNetSeen st"
    "is_declaredFound (S st) \<longleftrightarrow> is_declaredFound st \<or> declared \<noteq> [] \<and> ir_Id r = declared"
    "is_declaredHasNAT (S st) \<Longrightarrow> is_declaredHasNAT st \<or>
       ir_Id r = declared \<and> (\<exists>nat. (net, nat) \<in> set (ir_Networks r) \<and> DerefString nat \<noteq> [])"
proof -
  let ?st = "(if serves_cluster n r then st\<lparr>is_integratedWith := ir_Id r\<rparr> else st)\<lparr>is_declaredFound := True\<rparr>"
  note f = integration_networks[of net "ir_Networks r" ?st]
  show "is_integratedWith (S st) = (if serves_cluster n r then ir_Id r else is_integratedWith st)"
    "is_declaredNetSeen (S st) = is_declaredNetSeen st"
    "is_declaredFound (S st) \<longleftrightarrow> is_declaredFound st \<or> declared \<noteq> [] \<and> ir_Id r = declared"
    "is_declaredHasNAT (S st) \<Longrightarrow> is_declaredHasNAT st \<or>
       ir_Id r = declared \<and> (\<exists>nat. (net, nat) \<in> set (ir_Networks r) \<and> DerefString nat \<noteq> [])"
    using f by (auto simp: S_def integration_router_step_def Let_def split: if_splits)
qed

lemma integration_fold:
  fixes n declared net rs defines "F \<equiv> fold (integration_router_step n declared net) rs"
  shows "is_declaredNetSeen (F st) = is_declaredNetSeen st"
    and "is_declaredFound (F st) \<longleftrightarrow> is_declaredFound st \<or> declared \<noteq> [] \<and> (\<exists>r \<in> set rs. ir_Id r = declared)"
    and "is_declaredHasNAT (F st) \<longrightarrow> is_declaredHasNAT st \<or>
       (\<exists>r \<in> set rs. ir_Id r = declared \<and> (\<exists>nat. (net, nat) \<in> set (ir_Networks r) \<and> DerefString nat \<noteq> []))"
    and "is_integratedWith (F st) = is_integratedWith st \<or> (\<exists>r \<in> set rs. serves_cluster n r \<and> ir_Id r = is_integratedWith (F st))"
  unfolding F_def
proof (induction rs arbitrary: st)
  case (Cons r rs)
  {
    case (1 st)
    note step = integration_step[of n declared net r st]
    show ?case using Cons.IH(1) step(2) by simp
  next
    case (2 st)
    note step = integration_step[of n declared net r st]
    show ?case using Cons.IH(2) step(3) by (simp only: fold.simps o_apply list.set bex_simps) blast
  next
    case (3 st)
    note step = integration_step[of n declared net r st]
    show ?case using Cons.IH(3) step(4) by (simp only: fold.simps o_apply list.set bex_simps) blast
  next
    case (4 st)
    note step = integration_step[of n declared net r st]
    let ?G = "fold (integration_router_step n declared net) rs (integration_router_step n declared net r st)"
    from Cons.IH(4)[of "integration_router_step n declared net r st"]
    have "is_integratedWith ?G = is_integratedWith st \<or> (\<exists>r' \<in> set (r # rs). serves_cluster n r' \<and> ir_Id r' = is_integratedWith ?G)"
    proof (elim disjE)
      assume "is_integratedWith ?G = is_integratedWith (integration_router_step n declared net r st)"
      with step(1) show ?thesis by (cases "serves_cluster n r") simp_all
    qed simp
    then show ?case by simp
  }
qed simp_all

text \<open>A router the cluster may be integrated with: it attaches the cluster's network, where one is known, behind NAT.\<close>

definition router_ready_for :: "string \<Rightarrow> integration_router \<Rightarrow> bool" where
  "router_ready_for net r \<longleftrightarrow> net = [] \<or> list_ex (\<lambda>(i, nat). i = net \<and> DerefString nat \<noteq> []) (ir_Networks r)"

lemma integration_of_ready:
  assumes "\<not> integration_waits (integration_of n declared net rs)"
  shows "\<exists>r \<in> set rs. ir_Id r = declared \<and> router_ready_for net r"
proof -
  let ?i = "\<lparr>is_integratedWith = [], is_declaredFound = False, is_declaredHasNet = False, is_declaredHasNAT = False,
        is_declaredNetSeen = (net \<noteq> [])\<rparr>"
  note f = integration_fold[of n declared net rs ?i, folded integration_of_def]
  from assms f have found: "\<exists>r \<in> set rs. ir_Id r = declared" by (auto simp: integration_waits_def)
  show ?thesis
  proof (cases "net = []")
    case True
    with found show ?thesis by (auto simp: router_ready_for_def)
  next
    case False
    with assms f have "is_declaredHasNAT (integration_of n declared net rs)" by (auto simp: integration_waits_def)
    with f show ?thesis by (fastforce simp: router_ready_for_def list_ex_iff)
  qed
qed

lemma integration_of_serves:
  assumes "is_integratedWith (integration_of n declared net rs) \<noteq> []"
  shows "\<exists>r \<in> set rs. serves_cluster n r \<and> ir_Id r = is_integratedWith (integration_of n declared net rs)"
  using assms integration_fold[of n declared net rs "\<lparr>is_integratedWith = [], is_declaredFound = False, is_declaredHasNet = False,
    is_declaredHasNAT = False, is_declaredNetSeen = (net \<noteq> [])\<rparr>", folded integration_of_def] by auto

text \<open>The requests the declaration justifies in a world with the routers \<open>routers w\<close>.\<close>

definition integration_allowed :: "('w \<Rightarrow> integration_router list) \<Rightarrow> int \<Rightarrow> string \<Rightarrow> string \<Rightarrow> string \<Rightarrow> 'w \<Rightarrow> cluster_req \<Rightarrow> bool" where
  "integration_allowed routers n declared net record w q = (case q of
     IntegrateRouter k (Some r) \<Rightarrow> k = n \<and> r = declared \<and> declared \<noteq> [] \<and>
       list_ex (\<lambda>x. ir_Id x = declared \<and> router_ready_for net x) (routers w)
   | IntegrateRouter k None \<Rightarrow> k = n \<and> declared = [] \<and> record \<noteq> [] \<and> list_ex (serves_cluster n) (routers w)
   | _ \<Rightarrow> True)"

definition routers_truthful :: "'w cluster_api \<Rightarrow> ('w \<Rightarrow> integration_router list) \<Rightarrow> bool" where
  "routers_truthful api routers \<longleftrightarrow> (\<forall>w r w'. api w ListRouters = (r, w') \<longrightarrow> w' = w \<and>
     (\<forall>resp rs. r = Resp resp \<longrightarrow> resp_payload resp = Some (PIntegrationRouters rs) \<longrightarrow> rs = routers w))"

lemma routers_read:
  assumes "routers_truthful api routers" "readIntegrationState (monitor ok api) e n s = (Inr st, s')"
  shows "fst (world s') = fst (world s) \<and> cr s' = cr s \<and>
    st = integration_of n (ce_resolvedRouterID e) (integration_network_id e (cr s)) (routers (fst (world s)))"
proof -
  from assms(2) obtain rs where f: "fetch (monitor ok api) ''kubernetes/cluster: routers list'' as_integration_routers ListRouters s = (Inr rs, s')"
    and st: "st = integration_of n (ce_resolvedRouterID e) (integration_network_id e (cr s')) rs"
    by (auto simp: readIntegrationState_def bindE_Inr gets_run)
  from fetch_Inr[OF f] obtain resp p where r: "fst (api (fst (world s)) ListRouters) = Resp resp"
      "resp_payload resp = Some p" "as_integration_routers p = Some rs" "s' = after_call (monitor ok api) ListRouters s"
    by (auto simp: monitor_world)
  obtain r1 w1 where a: "api (fst (world s)) ListRouters = (r1, w1)" by fastforce
  from r(3) have "p = PIntegrationRouters rs" by (cases p) simp_all
  with assms(1) a r have "w1 = fst (world s) \<and> rs = routers (fst (world s))"
    unfolding routers_truthful_def by (metis fst_conv)
  with r(4) a st show ?thesis by (simp add: monitor_world)
qed

lemma allowed_quiet: "(\<forall>k x. q \<noteq> IntegrateRouter k x) \<Longrightarrow> integration_allowed routers n d net rec w q"
  by (cases q) (simp_all add: integration_allowed_def)

lemma safe_at_converge_integration:
  assumes "routers_truthful api routers" "declared = ce_resolvedRouterID e" "net = integration_network_id e (cr s)"
    and "record = DerefString (kco_IntegratedRouterID (at_provider (cr s)))"
  shows "safe_at s (convergeRouterIntegration (monitor (integration_allowed routers n declared net record) api) e n)"
    (is "safe_at s (convergeRouterIntegration ?api e n)")
proof -
  have read: "safe_at s (readIntegrationState ?api e n)"
    unfolding readIntegrationState_def by (intro safe_atI safe_bindE safe_fetch allowed_quiet safe_simple) simp
  have act: "safe_at s' (integration_act ?api declared n st)"
    if rd: "readIntegrationState ?api e n s = (Inr st, s')" and some: "\<not> (declared = [] \<and> record = [])" for st s'
  proof -
    note r = routers_read[OF assms(1) rd, folded assms(2,3)]
    have "integration_allowed routers n declared net record (fst (world s')) (IntegrateRouter n (Some declared))"
      if "declared \<noteq> []" "\<not> integration_waits st"
      using integration_of_ready[of n declared net "routers (fst (world s))"] that r by (auto simp: integration_allowed_def list_ex_iff)
    moreover have "integration_allowed routers n declared net record (fst (world s')) (IntegrateRouter n None)"
      if "declared = []" "is_integratedWith st \<noteq> []"
      using integration_of_serves[of n declared net "routers (fst (world s))"] that r some by (auto simp: integration_allowed_def list_ex_iff)
    ultimately show ?thesis
      unfolding integration_act_def integrationPatch_def by (auto intro!: safe_at_write_then safe_bindE)
  qed
  have "safe_at s (bindE (readIntegrationState ?api e n) (integration_act ?api declared n))"
    if "\<not> (declared = [] \<and> record = [])"
    by (rule safe_at_bindE[OF read]) (rule act[OF _ that])
  then show ?thesis
    unfolding convergeRouterIntegration_def assms(2)[symmetric]
    by (intro safe_at_bindE) (auto dest!: gets_eq simp: assms(4))
qed

lemma reconcileVersion_keeps: "keeps (\<lambda>m. (for_provider m, at_provider m)) (reconcileVersion api rslv e n v)"
  unfolding reconcileVersion_def reject_version_def validateVersion_def
  by (intro keeps_rules) simp_all



section \<open>What an update refuses\<close>

lemma ResolvePlacement_zone: "ResolvePlacement location az = Inr (l, z) \<Longrightarrow> z \<in> set (LocationZones l)"
  by (auto simp: ResolvePlacement_def Let_def DefaultZone_Inr AZToLocation_iff split: if_splits sum.splits)

text \<open>
  A cluster declared by its location alone cannot be updated. Where the zone is left to be derived from the
  location, the service reports the very zone that was derived, and \<^verbatim>\<open>Observe\<close> accepts the placement; but the
  immutability check of \<^verbatim>\<open>Update\<close> compares the reported zone with the empty declaration, so every \<^verbatim>\<open>Update\<close> of such a
  cluster, whatever it is for, fails with an immutable-field error and writes nothing.
\<close>

theorem cluster_location_only_refused:
  assumes "DecodeID (external_name (cr s)) = Some n" "answers api (world s) (GetCluster n) (PCluster c) w1"
    and "fp = for_provider (cr s)" "kcp_AvailabilityZone fp = None"
    and "ResolvePlacement (kcp_Location fp) None = Inr (l, cb_AvailabilityZone c)"
    and "cb_NetworkDriver c = kcp_NetworkDriver fp" "kcp_Resources fp \<noteq> None \<longleftrightarrow> kco_LockedPresetID (at_provider (cr s)) = None"
    and "kcp_Resources fp = None \<longrightarrow> kco_LockedConfiguratorID (at_provider (cr s)) = None"
    and "cluster_Update api rslv e s = (r, s')"
  shows "r = Inl ErrImmutableFieldChange \<and> reqs s' = reqs s @ [GetCluster n]"
proof -
  have "cb_AvailabilityZone c \<noteq> []"
    using ResolvePlacement_zone[OF assms(5)] LocationZones_nonempty_zone by metis
  with assms(3-8) have "cluster_guards (for_provider (cr s)) (at_provider (cr s)) c = Some (Some ''availabilityZone'')"
    by (auto simp: cluster_guards_def)
  with cluster_Update_run[OF assms(1,2), of rslv e] assms(9)
  have "RejectImmutableChange ''availabilityZone'' (s\<lparr>world := w1, reqs := reqs s @ [GetCluster n]\<rparr>) = (r, s')"
    by (simp add: update_cluster_def bindE_gets Let_def)
  from Reject_runs(2)[OF this] show ?thesis by simp
qed

theorem cluster_location_only_refused_witness:
  "fst (cluster_Update wit_cluster_api wit_version_resolver wit_cluster_ext
     (wit_state (wit_cluster, False) (wit_cluster_mr\<lparr>for_provider := wit_cluster_fp\<lparr>kcp_AvailabilityZone := None\<rparr>\<rparr>))) =
   Inl ErrImmutableFieldChange"
proof -
  let ?s = "wit_state (wit_cluster, False) (wit_cluster_mr\<lparr>for_provider := wit_cluster_fp\<lparr>kcp_AvailabilityZone := None\<rparr>\<rparr>)"
  obtain r s' where run: "cluster_Update wit_cluster_api wit_version_resolver wit_cluster_ext ?s = (r, s')" by fastforce
  have id: "DecodeID (external_name (cr ?s)) = Some 5" by code_simp
  have get: "answers wit_cluster_api (world ?s) (GetCluster 5) (PCluster wit_cluster) (wit_cluster, False)"
    by (rule answers_ok) (simp add: wit_cluster_api_def wit_state_def)
  have pl: "ResolvePlacement (kcp_Location (wit_cluster_fp\<lparr>kcp_AvailabilityZone := None\<rparr>)) None = Inr (''ru-3'', cb_AvailabilityZone wit_cluster)"
    by code_simp
  have "r = Inl ErrImmutableFieldChange \<and> reqs s' = reqs ?s @ [GetCluster 5]"
    by (rule cluster_location_only_refused[OF id get _ _ pl _ _ _ run])
       (simp_all add: wit_state_def wit_cluster_mr_def wit_cluster_obs_def wit_cluster_fp_def wit_cluster_def)
  with run show ?thesis by simp
qed

end
