(* ===== verification/ClusterConverge.thy ===== *)
theory ClusterConverge
  imports ClusterSafety
begin

text \<open>
  Convergence of the cluster handlers over a service that does what it is asked: one \<^verbatim>\<open>Update\<close> leaves the cluster in
  a state that \<^verbatim>\<open>Observe\<close> finds up to date, the version and the router integration included.
\<close>

declare run_equations [simp del]

section \<open>A service\<close>

text \<open>
  \<open>store w\<close> is cluster \<open>n\<close>, \<open>routers w\<close> the routers of the account. Reading changes nothing; a PATCH replaces the
  fields it carries; integrating with a router, or with none, ends every other integration of the cluster.
\<close>

definition patched :: "string option \<Rightarrow> string option \<Rightarrow> cluster_body \<Rightarrow> cluster_body" where
  "patched x y c = c\<lparr>cb_Name := (case x of None \<Rightarrow> cb_Name c | Some z \<Rightarrow> z),
     cb_Description := (case y of None \<Rightarrow> cb_Description c | Some z \<Rightarrow> z)\<rparr>"

definition set_serving :: "int \<Rightarrow> string option \<Rightarrow> integration_router \<Rightarrow> integration_router" where
  "set_serving n x r = r\<lparr>ir_ParentServices := filter (\<lambda>p. p \<noteq> (n, ''k8s'')) (ir_ParentServices r) @
     (if x = Some (ir_Id r) then [(n, ''k8s'')] else [])\<rparr>"

definition cluster_service :: "'w cluster_api \<Rightarrow> int \<Rightarrow> ('w \<Rightarrow> cluster_body option) \<Rightarrow> ('w \<Rightarrow> integration_router list) \<Rightarrow> bool" where
  "cluster_service api n store routers \<longleftrightarrow> (\<forall>w c. store w = Some c \<longrightarrow>
     answers api w (GetCluster n) (PCluster c) w \<and>
     answers api w ListRouters (PIntegrationRouters (routers w)) w \<and>
     (\<forall>v. \<exists>p w'. answers api w (UpdateClusterVersion n v) p w' \<and> store w' = Some (c\<lparr>cb_K8sVersion := v\<rparr>) \<and> routers w' = routers w) \<and>
     (\<forall>x y. \<exists>p w'. answers api w (UpdateCluster n x y) p w' \<and> store w' = Some (patched x y c) \<and> routers w' = routers w) \<and>
     (\<forall>x. \<exists>p w'. answers api w (IntegrateRouter n x) p w' \<and> store w' = Some c \<and> routers w' = map (set_serving n x) (routers w)))"

lemma serves_set_serving: "serves_cluster n (set_serving n x r) \<longleftrightarrow> x = Some (ir_Id r)"
  by (auto simp: serves_cluster_def set_serving_def list_ex_iff)

section \<open>The router integration settles\<close>

lemma integration_of_some:
  assumes "\<exists>r \<in> set rs. serves_cluster n r"
  shows "\<exists>r \<in> set rs. serves_cluster n r \<and> ir_Id r = is_integratedWith (integration_of n declared net rs)"
proof -
  have "\<exists>r \<in> set rs. serves_cluster n r \<Longrightarrow>
    \<exists>r \<in> set rs. serves_cluster n r \<and> ir_Id r = is_integratedWith (fold (integration_router_step n declared net) rs st)" for st
  proof (induction rs arbitrary: st)
    case (Cons r rs)
    show ?case
    proof (cases "\<exists>r \<in> set rs. serves_cluster n r")
      case True
      from Cons.IH[OF this] show ?thesis by simp
    next
      case False
      with Cons.prems have r: "serves_cluster n r" by simp
      from False integration_fold(4)[of n declared net rs "integration_router_step n declared net r st"]
      have "is_integratedWith (fold (integration_router_step n declared net) (r # rs) st) = ir_Id r"
        using integration_step(1)[of n declared net r st] r by auto
      with r show ?thesis by (intro bexI[of _ r]) simp_all
    qed
  qed simp
  with assms show ?thesis by (simp add: integration_of_def)
qed

text \<open>A state of the integration that needs no action: nothing declared nor recorded, integrated as declared, or waiting.\<close>

definition integration_settled :: "cluster_ext \<Rightarrow> int \<Rightarrow> integration_router list \<Rightarrow> cluster_mr \<Rightarrow> bool" where
  "integration_settled e n rs m \<longleftrightarrow> (let st = integration_of n (ce_resolvedRouterID e) (integration_network_id e m) rs in
     if ce_resolvedRouterID e = [] then DerefString (kco_IntegratedRouterID (at_provider m)) = []
     else is_integratedWith st = ce_resolvedRouterID e \<or> integration_waits st)"

lemma integrated_after:
  assumes "\<not> integration_waits (integration_of n d net rs)"
  shows "is_integratedWith (integration_of n d net (map (set_serving n (Some d)) rs)) = d"
proof -
  from integration_of_ready[OF assms] obtain r where "r \<in> set rs" "ir_Id r = d" by auto
  then have "\<exists>r \<in> set (map (set_serving n (Some d)) rs). serves_cluster n r"
    by (auto simp: serves_set_serving intro!: bexI[of _ r])
  from integration_of_some[OF this, of d net] show ?thesis
    by (auto simp: serves_set_serving) (simp add: set_serving_def)
qed

lemma readIntegrationState_run:
  assumes "answers api (world s) ListRouters (PIntegrationRouters rs) w'"
  shows "readIntegrationState api e n s = (Inr (integration_of n (ce_resolvedRouterID e) (integration_network_id e (cr s)) rs),
    s\<lparr>world := w', reqs := reqs s @ [ListRouters]\<rparr>)"
  using fetch_sel_run[OF assms, of as_integration_routers rs "''kubernetes/cluster: routers list''"]
  by (simp add: readIntegrationState_def bindE_def gets_run)

text \<open>What \<^verbatim>\<open>Observe\<close> makes of it: no drift.\<close>

lemma observe_settled:
  assumes "answers api (world s) ListRouters (PIntegrationRouters rs) w'" "integration_settled e n rs (cr s)"
  shows "fst (observeRouterIntegration api e n s) = Inr False"
proof (cases "ce_resolvedRouterID e = []")
  case True
  with assms(2) show ?thesis
    by (simp add: observeRouterIntegration_def integration_settled_def Let_def bindE_gets returnOk_run)
next
  case False
  then have "observeRouterIntegration api e n s = bindE (attempt (readIntegrationState api e n)) (\<lambda>x. case x of
       Inl err \<Rightarrow> returnOk False
     | Inr st \<Rightarrow> bindE (modify_cr (set_integrated (is_integratedWith st = ce_resolvedRouterID e))) (\<lambda>_.
           if is_integratedWith st = ce_resolvedRouterID e then bindE (modify_cr (set_router_record (Some (ce_resolvedRouterID e)))) (\<lambda>_. returnOk False)
           else if integration_waits st then bindE (record_and_set (ReadyFalse ''RouterNATRequired'')) (\<lambda>_. returnOk False)
           else returnOk True)) s"
    unfolding observeRouterIntegration_def Let_def bindE_gets by (simp cong: sum.case_cong)
  then show ?thesis
    unfolding bindE_step(2)[where m = "readIntegrationState api e n" and s = s, OF readIntegrationState_run[OF assms(1)]] using assms(2) False
    by (simp add: integration_settled_def Let_def bindE_modify_cr bindE_record_and_set returnOk_run if_apply)
      blast
qed
text \<open>\<^verbatim>\<open>Update\<close> reaches such a state.\<close>

lemma integration_network_id_record [simp]:
  "integration_network_id e (set_router_record x m) = integration_network_id e m"
  "integration_network_id e (set_integrated b m) = integration_network_id e m"
  by (simp_all add: integration_network_id_def set_router_record_def set_integrated_def)

definition same_locks :: "cluster_mr \<Rightarrow> cluster_mr \<Rightarrow> bool" where
  "same_locks m m' \<longleftrightarrow> for_provider m' = for_provider m \<and> external_name m' = external_name m \<and>
     kco_LockedPresetID (at_provider m') = kco_LockedPresetID (at_provider m) \<and>
     kco_LockedConfiguratorID (at_provider m') = kco_LockedConfiguratorID (at_provider m) \<and>
     kco_ResolvedNetworkID (at_provider m') = kco_ResolvedNetworkID (at_provider m)"

lemma same_locks_records [simp]:
  "same_locks m (set_router_record x m)" "same_locks m (set_integrated b (set_router_record x m))" "same_locks m m"
  by (simp_all add: same_locks_def set_router_record_def set_integrated_def)

lemma emit_event_run: "\<exists>s'. emit_event t x s = (Inr (), s') \<and> world s' = world s \<and> cr s' = cr s"
  by (auto simp: emit_event_def)

lemma converge_integration_settles:
  assumes srv: "cluster_service api n store routers" and st: "store (world s) = Some c"
  shows "\<exists>s'. convergeRouterIntegration api e n s = (Inr (), s') \<and> store (world s') = Some c \<and>
    same_locks (cr s) (cr s') \<and> integration_settled e n (routers (world s')) (cr s')"
proof -
  let ?d = "ce_resolvedRouterID e" and ?net = "integration_network_id e (cr s)"
  let ?i = "integration_of n ?d ?net (routers (world s))"
  let ?s = "s\<lparr>reqs := reqs s @ [ListRouters]\<rparr>"
  have read: "answers api (world s) ListRouters (PIntegrationRouters (routers (world s))) (world s)"
    using srv st unfolding cluster_service_def by blast
  have run: "convergeRouterIntegration api e n s = (if ?d = [] \<and> DerefString (kco_IntegratedRouterID (at_provider (cr s))) = [] then (Inr (), s)
      else integration_act api ?d n ?i ?s)"
    by (simp add: convergeRouterIntegration_def bindE_gets returnOk_run bindE_step(1)[where m = "readIntegrationState api e n" and s = s, OF readIntegrationState_run[OF read]])
  have patch: "\<exists>s1. integrationPatch api n x ?s = (Inr (), s1) \<and> cr s1 = cr s \<and> store (world s1) = Some c \<and>
      routers (world s1) = map (set_serving n x) (routers (world s))" for x
  proof -
    from srv st obtain p w' where a: "answers api (world s) (IntegrateRouter n x) p w'" "store w' = Some c"
        "routers w' = map (set_serving n x) (routers (world s))" unfolding cluster_service_def by metis
    have "answers api (world ?s) (IntegrateRouter n x) p w'" using a(1) by simp
    from write_call_run[OF this] a(2,3) show ?thesis by (simp add: integrationPatch_def)
  qed
  consider (none) "?d = []" "DerefString (kco_IntegratedRouterID (at_provider (cr s))) = []"
    | (ok) "?d \<noteq> []" "is_integratedWith ?i = ?d" | (wait) "?d \<noteq> []" "integration_waits ?i" "is_integratedWith ?i \<noteq> ?d"
    | (join) "?d \<noteq> []" "\<not> integration_waits ?i" "is_integratedWith ?i \<noteq> ?d"
    | (leave) "?d = []" "DerefString (kco_IntegratedRouterID (at_provider (cr s))) \<noteq> []" by blast
  then show ?thesis
  proof cases
    case join
    from patch[of "Some ?d"] obtain s1 where s1: "integrationPatch api n (Some ?d) ?s = (Inr (), s1)" "cr s1 = cr s"
        "store (world s1) = Some c" "routers (world s1) = map (set_serving n (Some ?d)) (routers (world s))" by blast
    obtain s2 where s2: "emit_event EventTypeNormal ''IntegratedRouter'' (s1\<lparr>cr := set_router_record (Some ?d) (cr s1)\<rparr>) = (Inr (), s2)"
        "world s2 = world s1" "cr s2 = set_router_record (Some ?d) (cr s1)" 
      using emit_event_run[of _ _ "s1\<lparr>cr := set_router_record (Some ?d) (cr s1)\<rparr>"] by force
    have "convergeRouterIntegration api e n s = (Inr (), s2)"
      using run join s1(1) s2(1) by (simp add: integration_act_def bindE_step(1)[where m = "integrationPatch api n _" and s = ?s, OF s1(1)] bindE_modify_cr)
    with join s1 s2 integrated_after[OF join(2)] show ?thesis by (simp add: integration_settled_def Let_def)
  next
    case leave
    show ?thesis
    proof (cases "is_integratedWith ?i = []")
      case True
      with run leave st show ?thesis
        by (simp add: integration_act_def modify_cr_run integration_settled_def) (simp add: set_router_record_def)
    next
      case False
      from patch[of None] obtain s1 where s1: "integrationPatch api n None ?s = (Inr (), s1)" "cr s1 = cr s"
          "store (world s1) = Some c" by blast
      let ?m = "set_integrated False (set_router_record None (cr s1))"
      obtain s2 where s2: "emit_event EventTypeNormal ''DetachedRouterIntegration'' (s1\<lparr>cr := ?m\<rparr>) = (Inr (), s2)"
          "world s2 = world s1" "cr s2 = ?m" 
        using emit_event_run[of _ _ "s1\<lparr>cr := ?m\<rparr>"] by force
      have "convergeRouterIntegration api e n s = (Inr (), s2)"
        using run leave False s1(1) s2(1) by (simp add: integration_act_def bindE_step(1)[where m = "integrationPatch api n _" and s = ?s, OF s1(1)] bindE_modify_cr)
      with leave s1 s2 show ?thesis
        by (simp add: integration_settled_def) (simp add: set_router_record_def set_integrated_def)
    qed
  qed (use run st in \<open>simp_all add: integration_act_def returnOk_run integration_settled_def Let_def\<close>)
qed

section \<open>An update converges\<close>

text \<open>A version the cluster can be brought to: the reported one, or a newer one of the catalog.\<close>

definition version_reachable :: "'w resolver_iface \<Rightarrow> cluster_ext \<Rightarrow> ('w \<Rightarrow> cluster_body option) \<Rightarrow> ('w \<Rightarrow> integration_router list) \<Rightarrow>
    string \<Rightarrow> string \<Rightarrow> bool" where
  "version_reachable rslv e store routers desired observed \<longleftrightarrow> observed = [] \<or> desired = observed \<or>
     (versionNewer desired observed \<and> (\<forall>w. \<exists>out w'. rslv (ce_pcRef e) version_dim (EnumInput desired) w = (Inr out, w') \<and>
        store w' = store w \<and> routers w' = routers w))"

lemma reconcileVersion_converges:
  assumes srv: "cluster_service api n store routers" and st: "store (world s) = Some c"
    and v: "version_reachable rslv e store routers (kcp_K8sVersion (for_provider (cr s))) (cb_K8sVersion c)"
  shows "\<exists>b s' c'. reconcileVersion api rslv e n (cb_K8sVersion c) s = (Inr b, s') \<and> store (world s') = Some c' \<and>
    c' = c\<lparr>cb_K8sVersion := cb_K8sVersion c'\<rparr> \<and> (cb_K8sVersion c' = [] \<or> cb_K8sVersion c' = kcp_K8sVersion (for_provider (cr s))) \<and>
    same_locks (cr s) (cr s')"
proof (cases "cb_K8sVersion c = [] \<or> kcp_K8sVersion (for_provider (cr s)) = cb_K8sVersion c")
  case True
  with st show ?thesis by (auto simp: reconcileVersion_def bindE_gets returnOk_run)
next
  case False
  let ?d = "kcp_K8sVersion (for_provider (cr s))"
  from False v obtain out w1 where newer: "versionNewer ?d (cb_K8sVersion c)"
    and r: "rslv (ce_pcRef e) version_dim (EnumInput ?d) (world s) = (Inr out, w1)" "store w1 = store (world s)"
    by (auto simp: version_reachable_def) metis
  from srv st r(2) obtain p w2 where w: "answers api w1 (UpdateClusterVersion n ?d) p w2" "store w2 = Some (c\<lparr>cb_K8sVersion := ?d\<rparr>)"
    unfolding cluster_service_def by metis
  have ver: "map_resolver_error (validateVersion rslv (ce_pcRef e) ?d) s = (Inr (), s\<lparr>world := w1\<rparr>)"
    by (simp add: version_call_run r(1))
  let ?s = "s\<lparr>world := w1\<rparr>"
  have "answers api (world ?s) (UpdateClusterVersion n ?d) p w2" using w(1) by simp
  note wr = write_call_run[OF this]
  have "reconcileVersion api rslv e n (cb_K8sVersion c) s = bindE (map_resolver_error (validateVersion rslv (ce_pcRef e) ?d)) (\<lambda>_.
      bindE (write_call api (UpdateClusterVersion n ?d)) (\<lambda>_. bindE (record_and_set (ReadyFalse ''Upgrading'')) (\<lambda>_. returnOk True))) s"
    using False newer newer_not_allZero[OF newer] splitVersion_nonempty by (simp add: reconcileVersion_def bindE_gets)
  also have "\<dots> = bindE (record_and_set (ReadyFalse ''Upgrading'')) (\<lambda>_. returnOk True) (?s\<lparr>world := w2, reqs := reqs ?s @ [UpdateClusterVersion n ?d]\<rparr>)"
    by (simp only: bindE_step(1)[where m = "map_resolver_error _" and s = s, OF ver] bindE_step(1)[where m = "write_call api _" and s = ?s, OF wr])
  finally show ?thesis
    using w(2) by (auto simp: bindE_record_and_set returnOk_run same_locks_def)
qed

lemma patch_cluster_converges:
  assumes srv: "cluster_service api n store routers" and st: "store (world s) = Some c'" and c': "cb_Name c' = cb_Name c" "cb_Description c' = cb_Description c"
  shows "\<exists>s' c''. patch_cluster api n fp c s = (Inr (), s') \<and> store (world s') = Some c'' \<and> routers (world s') = routers (world s) \<and>
    cr s' = cr s \<and> cb_K8sVersion c'' = cb_K8sVersion c' \<and> cb_Name c'' = kcp_Name fp \<and>
    (kcp_Description fp \<noteq> None \<longrightarrow> kcp_Description fp = Some (cb_Description c''))"
proof -
  let ?x = "if kcp_Name fp \<noteq> cb_Name c then Some (kcp_Name fp) else None"
  let ?y = "if kcp_Description fp \<noteq> None \<and> kcp_Description fp \<noteq> Some (cb_Description c) then kcp_Description fp else None"
  from srv st obtain p w' where a: "answers api (world s) (UpdateCluster n ?x ?y) p w'" "store w' = Some (patched ?x ?y c')"
      "routers w' = routers (world s)" unfolding cluster_service_def by metis
  show ?thesis
  proof (cases "?x = None \<and> ?y = None")
    case True
    then have "patch_cluster api n fp c s = (Inr (), s)" by (simp add: patch_cluster_def returnOk_run Let_def split: if_splits)
    with st c' True show ?thesis by (auto split: if_splits)
  next
    case False
    then have "patch_cluster api n fp c = write_call api (UpdateCluster n ?x ?y)" by (simp only: patch_cluster_def Let_def if_False)
    with write_call_run[OF a(1)] a(2,3) c' show ?thesis by (auto simp: patched_def)
  qed
qed

lemma isClusterUpToDate_iff:
  "isClusterUpToDate fp st c \<longleftrightarrow> \<not> (kcp_PresetName fp \<noteq> None \<and> kco_LockedConfiguratorID st \<noteq> None) \<and>
     \<not> (kcp_Resources fp \<noteq> None \<and> kco_LockedPresetID st \<noteq> None) \<and> kcp_Name fp = cb_Name c \<and>
     (kcp_Description fp \<noteq> None \<longrightarrow> kcp_Description fp = Some (cb_Description c)) \<and>
     (cb_K8sVersion c \<noteq> [] \<longrightarrow> kcp_K8sVersion fp = cb_K8sVersion c)"
  unfolding isClusterUpToDate_def by argo

lemma guards_locks:
  assumes "cluster_guards fp st c = None" "kcp_PresetName fp = None \<longleftrightarrow> kcp_Resources fp \<noteq> None"
  shows "\<not> (kcp_PresetName fp \<noteq> None \<and> kco_LockedConfiguratorID st \<noteq> None)" "\<not> (kcp_Resources fp \<noteq> None \<and> kco_LockedPresetID st \<noteq> None)"
  using assms unfolding cluster_guards_def by (metis option.distinct(1))+

text \<open>
  C19. One \<^verbatim>\<open>Update\<close> converges a cluster. When the immutable fields match, the declared version can be reached and
  the service does what it is asked, \<^verbatim>\<open>Update\<close> succeeds, and afterwards \<^verbatim>\<open>Observe\<close>'s two tests, on the cluster and
  on the router integration, both find it up to date: the cluster is integrated as declared, or not at all, or
  waits for its router.
\<close>

theorem cluster_Update_converges:
  assumes "cluster_service api n store routers" "store (world s) = Some c" "DecodeID (external_name (cr s)) = Some n"
    and "cluster_guards (for_provider (cr s)) (at_provider (cr s)) c = None"
    and "kcp_PresetName (for_provider (cr s)) = None \<longleftrightarrow> kcp_Resources (for_provider (cr s)) \<noteq> None"
    and "version_reachable rslv e store routers (kcp_K8sVersion (for_provider (cr s))) (cb_K8sVersion c)"
  shows "\<exists>s' c'. cluster_Update api rslv e s = (Inr (), s') \<and> store (world s') = Some c' \<and> for_provider (cr s') = for_provider (cr s) \<and>
    isClusterUpToDate (for_provider (cr s')) (at_provider (cr s')) c' \<and> fst (observeRouterIntegration api e n s') = Inr False"
proof -
  let ?fp = "for_provider (cr s)"
  have get: "answers api (world s) (GetCluster n) (PCluster c) (world s)"
    using assms(1,2) unfolding cluster_service_def by blast
  let ?s = "s\<lparr>world := world s, reqs := reqs s @ [GetCluster n]\<rparr>"
  have st: "store (world ?s) = Some c" using assms(2) by simp
  from reconcileVersion_converges[OF assms(1) st, of rslv e] assms(6) obtain b s1 c1 where s1:
      "reconcileVersion api rslv e n (cb_K8sVersion c) ?s = (Inr b, s1)" "store (world s1) = Some c1"
      "c1 = c\<lparr>cb_K8sVersion := cb_K8sVersion c1\<rparr>" "cb_K8sVersion c1 = [] \<or> cb_K8sVersion c1 = kcp_K8sVersion ?fp" "same_locks (cr s) (cr s1)"
    by auto
  from converge_integration_settles[OF assms(1) s1(2), of e] obtain s2 where s2:
      "convergeRouterIntegration api e n s1 = (Inr (), s2)" "store (world s2) = Some c1" "same_locks (cr s1) (cr s2)"
      "integration_settled e n (routers (world s2)) (cr s2)" by blast
  have "cb_Name c1 = cb_Name c" "cb_Description c1 = cb_Description c" by (subst s1(3); simp)+
  from patch_cluster_converges[OF assms(1) s2(2) this, of ?fp] obtain s3 c3 where s3:
      "patch_cluster api n ?fp c s2 = (Inr (), s3)" "store (world s3) = Some c3" "routers (world s3) = routers (world s2)" "cr s3 = cr s2"
      "cb_K8sVersion c3 = cb_K8sVersion c1" "cb_Name c3 = kcp_Name ?fp" "kcp_Description ?fp \<noteq> None \<longrightarrow> kcp_Description ?fp = Some (cb_Description c3)"
    by blast
  have g: "cluster_guards (for_provider (cr ?s)) (at_provider (cr ?s)) c = None" using assms(4) by simp
  have fp: "for_provider (cr ?s) = ?fp" by simp
  have run: "cluster_Update api rslv e s = (Inr (), s3)"
    unfolding cluster_Update_run[OF assms(3) get] update_cluster_passed[OF g] fp
    by (simp only: bindE_step(1)[where m = "reconcileVersion _ _ _ _ _" and s = ?s, OF s1(1)]
        bindE_step(1)[where m = "convergeRouterIntegration _ _ _" and s = s1, OF s2(1)] s3(1))
  have locks: "same_locks (cr s) (cr s3)" using s1(5) s2(3) s3(4) by (simp add: same_locks_def)
  have utd: "isClusterUpToDate (for_provider (cr s3)) (at_provider (cr s3)) c3"
    using guards_locks[OF assms(4,5)] locks s1(4) s3(5-7)
    unfolding isClusterUpToDate_iff same_locks_def by metis
  have read: "answers api (world s3) ListRouters (PIntegrationRouters (routers (world s3))) (world s3)"
    using assms(1) s3(2) unfolding cluster_service_def by blast
  have "integration_settled e n (routers (world s3)) (cr s3)" using s2(4) s3(3,4) by simp
  note quiet = observe_settled[OF read this]
  have "for_provider (cr s3) = ?fp" using locks by (simp add: same_locks_def)
  with run s3(2) utd quiet show ?thesis by (intro exI[of _ s3] exI[of _ c3] conjI)
qed

definition wit_cluster_routers :: "cluster_body \<times> bool \<Rightarrow> integration_router list" where
  "wit_cluster_routers w = [\<lparr>ir_Id = ''r-1'', ir_ParentServices = (if snd w then [(5, ''k8s'')] else []),
     ir_Networks = [(''net-1'', Some ''1.2.3.4'')]\<rparr>]"

lemma wit_cluster_service: "cluster_service wit_cluster_api 5 (\<lambda>w. Some (fst w)) wit_cluster_routers"
proof -
  have a: "answers wit_cluster_api w q (PCluster (fst w)) (snd (wit_cluster_api w q))"
    if "q \<noteq> GetClusters" "q \<noteq> ListRouters" for w q
    using that by (intro answers_ok) (cases q; simp add: wit_cluster_api_def)
  have l: "answers wit_cluster_api w ListRouters (PIntegrationRouters (wit_cluster_routers w)) w" for w
    by (intro answers_ok) (simp add: wit_cluster_api_def wit_cluster_routers_def)
  have w: "snd (wit_cluster_api w (GetCluster 5)) = w"
    "snd (wit_cluster_api w (UpdateClusterVersion 5 v)) = ((fst w)\<lparr>cb_K8sVersion := v\<rparr>, snd w)"
    "snd (wit_cluster_api w (UpdateCluster 5 x y)) = (patched x y (fst w), snd w)"
    "snd (wit_cluster_api w (IntegrateRouter 5 z)) = (fst w, z = Some ''r-1'')" for w v x y z
    by (simp_all add: wit_cluster_api_def patched_def)
  have "wit_cluster_routers (c, z = Some ''r-1'') = map (set_serving 5 z) (wit_cluster_routers w)" for c z w
    by (simp add: wit_cluster_routers_def set_serving_def)
  then have r: "wit_cluster_routers (snd (wit_cluster_api w (IntegrateRouter 5 z))) = map (set_serving 5 z) (wit_cluster_routers w)" for z w
    unfolding w .
  have keep: "wit_cluster_routers (x, snd w) = wit_cluster_routers w" for x w by (simp add: wit_cluster_routers_def)
  show ?thesis
    unfolding cluster_service_def
  proof (intro allI impI conjI)
    fix w :: "cluster_body \<times> bool" and c z v x y assume "Some (fst w) = Some c"
    then have c: "c = fst w" by simp
    show "answers wit_cluster_api w (GetCluster 5) (PCluster c) w" using a[of "GetCluster 5" w] by (simp add: w c)
    show "answers wit_cluster_api w ListRouters (PIntegrationRouters (wit_cluster_routers w)) w" by (rule l)
    show "\<exists>p w'. answers wit_cluster_api w (UpdateClusterVersion 5 v) p w' \<and> Some (fst w') = Some (c\<lparr>cb_K8sVersion := v\<rparr>) \<and>
        wit_cluster_routers w' = wit_cluster_routers w"
      by (intro exI conjI, rule a) (simp_all add: w c keep)
    show "\<exists>p w'. answers wit_cluster_api w (UpdateCluster 5 x y) p w' \<and> Some (fst w') = Some (patched x y c) \<and>
        wit_cluster_routers w' = wit_cluster_routers w"
      by (intro exI conjI, rule a) (simp_all add: w c keep)
    show "\<exists>p w'. answers wit_cluster_api w (IntegrateRouter 5 z) p w' \<and> Some (fst w') = Some c \<and>
        wit_cluster_routers w' = map (set_serving 5 z) (wit_cluster_routers w)"
      by (intro exI conjI, rule a) (simp_all add: r, simp add: w c)
  qed
qed

definition wit_cluster_state :: "(cluster_body \<times> bool, cluster_req, cluster_parameters, cluster_observation) rstate" where
  "wit_cluster_state = wit_state (wit_cluster, False) wit_cluster_mr"

theorem cluster_Update_converges_witness:
  "\<exists>s'. cluster_Update wit_cluster_api wit_version_resolver wit_cluster_ext wit_cluster_state = (Inr (), s') \<and>
     isClusterUpToDate wit_cluster_fp (at_provider (cr s')) (fst (world s'))"
proof -
  let ?s = wit_cluster_state
  have st: "Some (fst (world ?s)) = Some wit_cluster" by (simp add: wit_cluster_state_def wit_state_def)
  have id: "DecodeID (external_name (cr ?s)) = Some 5" by code_simp
  have g: "cluster_guards (for_provider (cr ?s)) (at_provider (cr ?s)) wit_cluster = None" by code_simp
  have fp: "for_provider (cr ?s) = wit_cluster_fp" by (simp add: wit_cluster_state_def wit_state_def wit_cluster_mr_def)
  then have x: "kcp_PresetName (for_provider (cr ?s)) = None \<longleftrightarrow> kcp_Resources (for_provider (cr ?s)) \<noteq> None"
    by (simp add: wit_cluster_fp_def)
  have "versionNewer (kcp_K8sVersion (for_provider (cr ?s))) (cb_K8sVersion wit_cluster)" by code_simp
  then have v: "version_reachable wit_version_resolver wit_cluster_ext (\<lambda>w. Some (fst w)) wit_cluster_routers
      (kcp_K8sVersion (for_provider (cr ?s))) (cb_K8sVersion wit_cluster)"
    by (simp add: version_reachable_def wit_version_resolver_def)
  from cluster_Update_converges[OF wit_cluster_service st id g x v] fp show ?thesis by auto
qed

end
