(* ===== verification/ClusterCreate.thy ===== *)
theory ClusterCreate
  imports ClusterSafety
begin

text \<open>
  The adoption guard of \<^verbatim>\<open>Create\<close> for clusters: after a create whose outcome is unknown, a cluster is posted only in
  a world that holds none of the declared name, zone and project.
\<close>

declare run_equations [simp del]

section \<open>Adoption\<close>

definition fresh_cluster :: "('w \<Rightarrow> cluster_body list) \<Rightarrow> 'w \<Rightarrow> cluster_req \<Rightarrow> bool" where
  "fresh_cluster clusters w q = (case q of
     CreateCluster b \<Rightarrow> \<not> list_ex (cluster_matches (ckc_Name b) (ckc_AvailabilityZone b) (ckc_ProjectId b)) (clusters w)
   | _ \<Rightarrow> True)"

definition clusters_truthful :: "'w cluster_api \<Rightarrow> ('w \<Rightarrow> cluster_body list) \<Rightarrow> bool" where
  "clusters_truthful api clusters \<longleftrightarrow> (\<forall>w r w'. api w GetClusters = (r, w') \<longrightarrow> w' = w \<and>
     (\<forall>resp cs. r = Resp resp \<longrightarrow> resp_payload resp = Some (PClusters cs) \<longrightarrow> cs = clusters w))"

text \<open>The resolver only reads the catalog: it creates no cluster.\<close>

definition resolver_reads :: "'w resolver_iface \<Rightarrow> ('w \<Rightarrow> cluster_body list) \<Rightarrow> bool" where
  "resolver_reads rslv clusters \<longleftrightarrow> (\<forall>pc dim inp w. clusters (snd (rslv pc dim inp w)) = clusters w)"

lemma clusters_read:
  assumes "clusters_truthful api clusters" "findClustersByName (monitor ok api) name az p s = (Inr ms, s')"
  shows "fst (world s') = fst (world s) \<and> cr s' = cr s \<and> ms = filter (cluster_matches name az p) (clusters (fst (world s)))"
proof -
  from assms(2) obtain cs where f: "fetch (monitor ok api) ''kubernetes/cluster: list clusters'' as_clusters GetClusters s = (Inr cs, s')"
    and ms: "ms = filter (cluster_matches name az p) cs"
    by (auto simp: findClustersByName_def bindE_Inr returnOk_def)
  from fetch_Inr[OF f] obtain resp x where r: "fst (api (fst (world s)) GetClusters) = Resp resp"
      "resp_payload resp = Some x" "as_clusters x = Some cs" "s' = after_call (monitor ok api) GetClusters s"
    by (auto simp: monitor_world)
  obtain r1 w1 where a: "api (fst (world s)) GetClusters = (r1, w1)" by fastforce
  from r(3) have "x = PClusters cs" by (cases x) simp_all
  with assms(1) a r have "w1 = fst (world s) \<and> cs = clusters (fst (world s))"
    unfolding clusters_truthful_def by (metis fst_conv)
  with r(4) a ms show ?thesis by (simp add: monitor_world)
qed

lemma fresh_cluster_quiet: "(\<forall>b. q \<noteq> CreateCluster b) \<Longrightarrow> fresh_cluster clusters w q"
  by (cases q) (simp_all add: fresh_cluster_def)

lemma steps_before_post:
  fixes rslv :: "'w resolver_iface" and clusters :: "'w \<Rightarrow> cluster_body list"
  assumes "resolver_reads rslv clusters"
  shows "keeps_world (\<lambda>w. clusters (fst w)) (validateVersion (lift_resolver rslv) pc v)"
    "keeps_world (\<lambda>w. clusters (fst w)) (cluster_sizing (lift_resolver rslv) e fp l z)"
    "safe (validateVersion (lift_resolver rslv) pc v)" "safe (cluster_sizing (lift_resolver rslv) e fp l z)"
proof -
  have r: "keeps_world (\<lambda>w. clusters (fst w)) (run_resolver (lift_resolver rslv) pc dim inp)" for pc dim inp
  proof (rule keeps_world_resolver)
    fix w :: "'w \<times> bool"
    from assms show "clusters (fst (snd (lift_resolver rslv pc dim inp w))) = clusters (fst w)"
      unfolding resolver_reads_def lift_resolver_def by (metis (no_types, lifting) case_prod_beta fst_conv snd_conv)
  qed
  have out: "keeps_world f (case out of PresetOutput n \<Rightarrow> returnOk n | _ \<Rightarrow> throwError err)"
    "keeps_world f (case out of ConfiguratorOutput co \<Rightarrow> returnOk (co_UpstreamID co) | _ \<Rightarrow> throwError err)"
    "safe (case out of PresetOutput n \<Rightarrow> returnOk n | _ \<Rightarrow> throwError err)"
    "safe (case out of ConfiguratorOutput co \<Rightarrow> returnOk (co_UpstreamID co) | _ \<Rightarrow> throwError err)" for f out err
    by (auto simp: keeps_world_simple split: resolve_output.split)
  show "keeps_world (\<lambda>w. clusters (fst w)) (validateVersion (lift_resolver rslv) pc v)"
    unfolding validateVersion_def by (intro keeps_world_bindE r keeps_world_simple)
  show "safe (validateVersion (lift_resolver rslv) pc v)"
    unfolding validateVersion_def by (intro safe_bindE safe_lift_resolver safe_simple)
  show "keeps_world (\<lambda>w. clusters (fst w)) (cluster_sizing (lift_resolver rslv) e fp l z)"
    unfolding cluster_sizing_def resolveK8sConfigurator_def resolveMasterPreset_def
    by (intro keeps_world_rules r out)
  show "safe (cluster_sizing (lift_resolver rslv) e fp l z)"
    unfolding cluster_sizing_def resolveK8sConfigurator_def resolveMasterPreset_def
    by (intro safe_cases safe_map_resolver_error safe_bindE safe_lift_resolver out safe_simple)
qed

text \<open>Behind the guard: posting is allowed where no cluster matches the declaration.\<close>

abbreviation watched_clusters :: "('w \<Rightarrow> cluster_body list) \<Rightarrow> 'w cluster_api \<Rightarrow> ('w \<times> bool) cluster_api" where
  "watched_clusters clusters api \<equiv> monitor (fresh_cluster clusters) api"

lemma safe_at_post_cluster:
  fixes api :: "'w cluster_api"
  assumes "resolver_reads rslv clusters" "ResolvePlacement (kcp_Location fp) (kcp_AvailabilityZone fp) = Inr (l, z)"
    and "for_provider (cr s) = fp" "\<forall>c \<in> set (clusters (fst (world s))). \<not> cluster_matches (kcp_Name fp) z (ce_resolvedProjectID e) c"
  shows "safe_at s (post_cluster (watched_clusters clusters api) (lift_resolver rslv) e)"
proof -
  let ?api = "watched_clusters clusters api"
  have none: "fresh_cluster clusters (fst (world s')) (CreateCluster (buildCreateClusterBody fp p k (ce_resolvedNetworkID e) (ce_resolvedProjectID e) z))"
    if "clusters (fst (world s')) = clusters (fst (world s))" for s' :: "('w \<times> bool, cluster_req, cluster_parameters, cluster_observation) rstate" and p k
    using assms(4) that by (simp add: fresh_cluster_def buildCreateClusterBody_def list_ex_iff)
  have post: "safe_at s' (request_cluster ?api e fp z pk)" if "clusters (fst (world s')) = clusters (fst (world s))" for s' pk
    unfolding request_cluster_def fetch_def
    by (cases pk, simp only: prod.case)
       (intro safe_at_bindE[OF safe_at_bindE] safe_at_call_classify none that safe_atI safe_bindE safe_decode safe_simple)
  have sized: "safe_at s' (bindE (cluster_sizing (lift_resolver rslv) e fp l z) (request_cluster ?api e fp z))"
    if "clusters (fst (world s')) = clusters (fst (world s))" for s'
    by (rule safe_at_bindE[OF safe_atI[OF steps_before_post(4)[OF assms(1)]]], rule post)
       (use that in \<open>auto dest: keeps_worldD[OF steps_before_post(2)[OF assms(1)]]\<close>)
  show ?thesis
    unfolding post_cluster_def
  proof (rule safe_at_bindE)
    fix f s1 assume "gets for_provider s = (Inr f, s1)"
    with assms(3) have f: "f = fp" "s1 = s" by (auto dest: gets_eq)
    show "safe_at s1 (bindE (validateVersion (lift_resolver rslv) (ce_pcRef e) (kcp_K8sVersion f)) (\<lambda>_.
      case ResolvePlacement (kcp_Location f) (kcp_AvailabilityZone f) of
        Inl err \<Rightarrow> throwError (Wrap ''kubernetes/cluster'' err)
      | Inr (location, zone) \<Rightarrow> bindE (cluster_sizing (lift_resolver rslv) e f location zone) (request_cluster ?api e f zone)))"
      unfolding f assms(2) sum.case prod.case
      by (rule safe_at_bindE[OF safe_atI[OF steps_before_post(3)[OF assms(1)]]])
         (rule sized, erule keeps_worldD[OF steps_before_post(1)[OF assms(1)]])
  qed simp
qed

text \<open>
  C20. After a create whose outcome is unknown, \<^verbatim>\<open>Create\<close> posts a cluster only in a world in which no cluster has
  the declared name in the placed zone and project (a cluster that does not tell its zone or project counts as a
  match): a lost result is adopted or refused, never repeated.
\<close>

theorem cluster_Create_no_duplicate:
  fixes api :: "'w cluster_api"
  assumes "clusters_truthful api clusters" "resolver_reads rslv clusters"
    and "create_incomplete (cr s) \<or> create_failed (cr s) \<noteq> []" "snd (world s)"
    and "cluster_Create (monitor (fresh_cluster clusters) api) (lift_resolver rslv) e s = (r, s')"
  shows "snd (world s')"
proof (cases "ResolvePlacement (kcp_Location (for_provider (cr s))) (kcp_AvailabilityZone (for_provider (cr s)))")
  case (Inl err)
  with assms(3-5) show ?thesis by (simp add: cluster_Create_def bindE_gets Let_def throwError_run)
next
  case (Inr lz)
  obtain l z where lz: "lz = (l, z)" by fastforce
  let ?fp = "for_provider (cr s)" and ?api = "watched_clusters clusters api"
  let ?find = "findClustersByName ?api (kcp_Name ?fp) z (ce_resolvedProjectID e)"
  let ?k = "\<lambda>ms. case ms of [] \<Rightarrow> post_cluster ?api (lift_resolver rslv) e
      | [c] \<Rightarrow> modify_cr (\<lambda>m. m\<lparr>external_name := EncodeID (cb_ID c)\<rparr>)
      | _ \<Rightarrow> throwError (Errorf ''kubernetes/cluster: several upstream clusters with this name'')"
  have run: "bindE ?find ?k s = (r, s')"
    using assms(3,5) Inr lz by (simp add: cluster_Create_def bindE_gets Let_def)
  have "safe_at s (bindE ?find ?k)"
  proof (rule safe_at_bindE)
    show "safe_at s ?find"
      unfolding findClustersByName_def by (intro safe_atI safe_bindE safe_fetch fresh_cluster_quiet safe_simple) simp
  next
    fix ms s1 assume "?find s = (Inr ms, s1)"
    note l = clusters_read[OF assms(1) this]
    show "safe_at s1 (?k ms)"
    proof (cases ms)
      case Nil
      with l have "\<forall>c \<in> set (clusters (fst (world s1))). \<not> cluster_matches (kcp_Name ?fp) z (ce_resolvedProjectID e) c"
        by (metis empty_filter_conv)
      with l Inr lz show ?thesis unfolding Nil list.case by (intro safe_at_post_cluster[OF assms(2), of ?fp l z]) auto
    next
      case (Cons c cs)
      then show ?thesis by (cases cs) simp_all
    qed
  qed
  with run assms(4) show ?thesis by (simp add: safe_at_def)
qed

definition wit_create_cluster_api :: "cluster_body list cluster_api" where
  "wit_create_cluster_api w q = (case q of
     GetClusters \<Rightarrow> (Resp (ok_response (PClusters w)), w)
   | CreateCluster b \<Rightarrow> (Resp (ok_response (PCluster wit_cluster)), wit_cluster # w)
   | _ \<Rightarrow> (Resp (ok_response (PClusters w)), w))"

definition wit_create_cluster_run :: "cluster_body list \<Rightarrow>
    (go_error + unit) \<times> (cluster_body list \<times> bool, cluster_req, cluster_parameters, cluster_observation) rstate" where
  "wit_create_cluster_run cs = cluster_Create (monitor (fresh_cluster (\<lambda>w. w)) wit_create_cluster_api) (lift_resolver wit_version_resolver)
     wit_cluster_ext (wit_state (cs, True) (wit_cluster_mr\<lparr>external_name := [], create_incomplete := True\<rparr>))"

theorem cluster_Create_no_duplicate_witness:
  "snd (world (snd (wit_create_cluster_run [wit_cluster]))) \<and> external_name (cr (snd (wit_create_cluster_run [wit_cluster]))) = ''5'' \<and>
   length (fst (world (snd (wit_create_cluster_run [wit_cluster])))) = 1 \<and> length (fst (world (snd (wit_create_cluster_run [])))) = 1"
proof (intro conjI)
  have t: "clusters_truthful wit_create_cluster_api (\<lambda>w. w)"
    by (simp add: clusters_truthful_def wit_create_cluster_api_def ok_response_def)
  have v: "resolver_reads wit_version_resolver (\<lambda>w :: cluster_body list. w)"
    by (simp add: resolver_reads_def wit_version_resolver_def)
  obtain r s' where run: "wit_create_cluster_run [wit_cluster] = (r, s')" by fastforce
  have "snd (world s')"
    by (rule cluster_Create_no_duplicate[OF t v _ _ run[unfolded wit_create_cluster_run_def]]) (simp_all add: wit_state_def)
  then show "snd (world (snd (wit_create_cluster_run [wit_cluster])))" unfolding run snd_conv .
qed code_simp+

end
