(* ===== verification/ServerExternal.thy ===== *)
theory ServerExternal
  imports NetworkExternal FloatingIPExternal ResolverClient
begin

text \<open>
  The Server kind: \<^verbatim>\<open>internal/controller/compute/server_external.go\<close> and \<^verbatim>\<open>floatingip_bind.go\<close>. A server owns the
  binding of the floating IPs it declares: \<^verbatim>\<open>Observe\<close> confirms which are bound to it, \<^verbatim>\<open>Update\<close> binds and unbinds.
  References are resolved when the client connects (\<open>ServerRefs\<close>) and arrive as \<open>resolved_refs\<close>. The generated
  client holds ids and sizes as \<^verbatim>\<open>float32\<close>; \<open>float32_int\<close> rounds them where the code converts them.
\<close>

section \<open>Data\<close>

record server_os =
  so_Image :: string
  so_Version :: string

record server_resources =
  sr_CPU :: int
  sr_RAMGB :: int
  sr_DiskGB :: int
  sr_DiskType :: "string option"
  sr_BandwidthMbps :: "int option"
  sr_GPU :: "int option"
  sr_CPUFrequencyTier :: "string option"
  sr_EnableLocalNetwork :: "bool option"

text \<open>References are given by name; a selector only by its presence.\<close>

record server_parameters =
  svp_Name :: string
  svp_PresetName :: "string option"
  svp_Resources :: "server_resources option"
  svp_Location :: string
  svp_OS :: server_os
  svp_Hostname :: "string option"
  svp_Comment :: "string option"
  svp_CloudInit :: "string option"
  svp_AvailabilityZone :: "string option"
  svp_SSHKeyRefs :: "string list"
  svp_SSHKeySelector :: "unit option"
  svp_SSHKeyIDs :: "int list"
  svp_NetworkRef :: "string option"
  svp_NetworkSelector :: "unit option"
  svp_NetworkID :: "string option"
  svp_ProjectRef :: "string option"
  svp_ProjectSelector :: "unit option"
  svp_ProjectID :: "int option"
  svp_FloatingIPRefs :: "string list"
  svp_FloatingIPSelector :: "unit option"
  svp_FloatingIPIDs :: "string list"

record server_observation =
  svo_UpstreamID :: "int option"
  svo_LockedPresetID :: "int option"
  svo_LockedOSID :: "int option"
  svo_LockedConfiguratorID :: "int option"
  svo_PublicIP :: "string option"
  svo_PublicIPv6 :: "string option"
  svo_PrivateIP :: "string option"
  svo_ResolvedNetworkID :: "string option"
  svo_ResolvedProjectID :: "int option"
  svo_ResolvedSSHKeyIDs :: "int list"
  svo_BoundFloatingIPs :: "string list"
  svo_State :: "string option"
  svo_AvailabilityZone :: "string option"

text \<open>What the code reads of \<^verbatim>\<open>twgen.Vds\<close>; a network is its type and its addresses with theirs.\<close>

record vds_network =
  vn_Type :: string
  vn_Ips :: "(string \<times> string) list option"

record vds =
  vds_Id :: int
  vds_Name :: string
  vds_Comment :: string
  vds_Status :: string
  vds_Location :: string
  vds_AvailabilityZone :: string
  vds_PresetId :: "int option"
  vds_ConfiguratorId :: "int option"
  vds_OsId :: int
  vds_CloudInit :: "string option"
  vds_Networks :: "vds_network list"

record server_configuration =
  svc_ConfiguratorId :: int
  svc_Cpu :: int
  svc_Disk :: int
  svc_Gpu :: "int option"
  svc_Ram :: int

record server_in =
  svi_Name :: string
  svi_OsId :: "int option"
  svi_Configuration :: "server_configuration option"
  svi_PresetId :: "int option"
  svi_Hostname :: "string option"
  svi_Comment :: "string option"
  svi_CloudInit :: "string option"
  svi_AvailabilityZone :: "string option"
  svi_ProjectId :: "int option"
  svi_SshKeysIds :: "int list option"
  svi_NetworkId :: "string option"

record server_patch =
  svu_Name :: "string option"
  svu_Comment :: "string option"
  svu_CloudInit :: "string option"

datatype server_req =
    GetServer int | SvGetVPC string | SvGetFloatingIp string
  | CreateServer server_in
  | UpdateServer int server_patch
  | DeleteServer int
  | SvBindFloatingIp string int
  | SvUnbindFloatingIp string

datatype server_payload = PServer vds | PServerVPC vpc | PServerFip floating_ip

fun as_server :: "server_payload \<Rightarrow> vds option" where
  "as_server (PServer v) = Some v" | "as_server _ = None"
fun as_server_vpc :: "server_payload \<Rightarrow> vpc option" where
  "as_server_vpc (PServerVPC v) = Some v" | "as_server_vpc _ = None"
fun as_server_fip :: "server_payload \<Rightarrow> floating_ip option" where
  "as_server_fip (PServerFip f) = Some f" | "as_server_fip _ = None"

record resolved_refs =
  rf_projectID :: "int option"
  rf_sshKeyIDs :: "int list"
  rf_networkID :: "string option"
  rf_floatingIPIDs :: "string list"

record server_ext =
  se_pcRef :: pc_ref
  se_resolved :: resolved_refs

type_synonym server_mr = "(server_parameters, server_observation) mr"
type_synonym ('w, 'a) server_act = "('w, server_req, server_parameters, server_observation, 'a) act"
type_synonym 'w server_api = "('w, server_req, server_payload) api"

definition Unavailable :: condition where
  "Unavailable = \<lparr>c_type = TypeReady, c_status = ConditionFalse, c_reason = ''Unavailable''\<rparr>"

definition ErrNetworkLocationMismatch :: go_error where
  "ErrNetworkLocationMismatch = Errorf ''compute/server: referenced Network location does not match Server location''"

section \<open>Floating IPs\<close>

fun dedupe :: "string set \<Rightarrow> string list \<Rightarrow> string list" where
  "dedupe seen [] = []"
| "dedupe seen (s # ss) = (if s \<in> seen then dedupe seen ss else s # dedupe (insert s seen) ss)"

definition dedupeStrings :: "string list \<Rightarrow> string list" where
  "dedupeStrings ss = dedupe {} ss"

definition stringSetsEqual :: "string list \<Rightarrow> string list \<Rightarrow> bool" where
  "stringSetsEqual a b \<longleftrightarrow> (if card (set a) \<noteq> card (set b) then False else list_all (\<lambda>k. k \<in> set b) a)"

definition floatingIPBoundServer :: "'w server_api \<Rightarrow> string \<Rightarrow> ('w, int option) server_act" where
  "floatingIPBoundServer api fipID =
     bindE (attempt (call_classify api (SvGetFloatingIp fipID))) (on_not_found (returnOk None) (\<lambda>resp.
     bindE (decode ''compute/server: floating-ip'' as_server_fip resp) (\<lambda>ip.
     returnOk (if ip_ResourceType ip \<noteq> Some ''server'' then None
       else case ip_ResourceId ip of None \<Rightarrow> None | Some rid \<Rightarrow> AsFloatingIpResourceId0 rid))))"

fun observe_bound :: "'w server_api \<Rightarrow> int \<Rightarrow> string list \<Rightarrow> string list \<Rightarrow> ('w, string list) server_act" where
  "observe_bound api serverID [] bound = returnOk bound"
| "observe_bound api serverID (fipID # ids) bound =
     bindE (floatingIPBoundServer api fipID) (\<lambda>boundTo.
     observe_bound api serverID ids (if boundTo = Some serverID then bound @ [fipID] else bound))"

definition observeBoundFloatingIPs :: "'w server_api \<Rightarrow> string list \<Rightarrow> int \<Rightarrow> ('w, string list) server_act" where
  "observeBoundFloatingIPs api candidates serverID = observe_bound api serverID (dedupeStrings candidates) []"

definition bindFloatingIP :: "'w server_api \<Rightarrow> string \<Rightarrow> int \<Rightarrow> ('w, unit) server_act" where
  "bindFloatingIP api fipID serverID = write_call api (SvBindFloatingIp fipID (float32_int serverID))"

definition unbindFloatingIP :: "'w server_api \<Rightarrow> string \<Rightarrow> ('w, unit) server_act" where
  "unbindFloatingIP api fipID = delete_or_gone api (SvUnbindFloatingIp fipID) (returnOk ())"

text \<open>The loop that unbinds, and the one that binds, which stops at the first address while the VM is not on.\<close>

fun unbind_all :: "'w server_api \<Rightarrow> string list \<Rightarrow> ('w, unit) server_act" where
  "unbind_all api [] = returnOk ()"
| "unbind_all api (fipID # ids) = bindE (unbindFloatingIP api fipID) (\<lambda>_. unbind_all api ids)"

fun bind_missing :: "'w server_api \<Rightarrow> int \<Rightarrow> string set \<Rightarrow> bool \<Rightarrow> string list \<Rightarrow> ('w, unit) server_act" where
  "bind_missing api serverID boundSet serverOn [] = returnOk ()"
| "bind_missing api serverID boundSet serverOn (fipID # ids) =
     (if fipID \<in> boundSet then bind_missing api serverID boundSet serverOn ids
      else if \<not> serverOn then returnOk ()
      else bindE (bindFloatingIP api fipID serverID) (\<lambda>_. bind_missing api serverID boundSet serverOn ids))"

definition reconcileFloatingIPBindings :: "'w server_api \<Rightarrow> int \<Rightarrow> string list \<Rightarrow> string list \<Rightarrow> bool \<Rightarrow> ('w, unit) server_act" where
  "reconcileFloatingIPBindings api serverID desired currentlyBound serverOn =
     bindE (unbind_all api (filter (\<lambda>f. f \<notin> set desired) (dedupeStrings currentlyBound))) (\<lambda>_.
     bind_missing api serverID (set currentlyBound) serverOn (dedupeStrings desired))"

section \<open>Resolver helpers\<close>

definition server_resolvePreset :: "'w resolver_iface \<Rightarrow> pc_ref \<Rightarrow> string \<Rightarrow> string \<Rightarrow> ('w, int) server_act" where
  "server_resolvePreset rslv pc slug location =
     bindE (run_resolver rslv pc \<lparr>dim_Name = ''ServerPreset'', dim_Kind = DimensionPreset\<rparr>
       (PresetInput \<lparr>pi_Slug = slug, pi_Zone = [], pi_Location = location\<rparr>)) (\<lambda>out.
     case out of PresetOutput n \<Rightarrow> returnOk (float32_int n)
     | _ \<Rightarrow> throwError (Errorf ''compute/server: resolver returned a wrong type''))"

definition configurator_request :: "string \<Rightarrow> server_resources \<Rightarrow> configurator_input" where
  "configurator_request location r = \<lparr>
     ci_Filters = [(''location'', AStr location)] @
       (case sr_DiskType r of None \<Rightarrow> [] | Some x \<Rightarrow> [(''disk_type'', AStr x)]) @
       (case sr_CPUFrequencyTier r of None \<Rightarrow> [] | Some x \<Rightarrow> [(''cpu_frequency'', AStr x)]) @
       (case sr_EnableLocalNetwork r of None \<Rightarrow> [] | Some b \<Rightarrow> [(''is_allowed_local_network'', ABool b)]),
     ci_Sizing = [(''cpu'', sr_CPU r), (''ramMB'', wrap64 (sr_RAMGB r * 1024)), (''diskGB'', sr_DiskGB r)] @
       (case sr_BandwidthMbps r of None \<Rightarrow> [] | Some n \<Rightarrow> [(''bandwidth'', n)]) @
       (case sr_GPU r of None \<Rightarrow> [] | Some n \<Rightarrow> [(''gpu'', n)]),
     ci_RequireTags = []\<rparr>"

definition server_resolveConfigurator :: "'w resolver_iface \<Rightarrow> pc_ref \<Rightarrow> string \<Rightarrow> server_resources \<Rightarrow> ('w, int) server_act" where
  "server_resolveConfigurator rslv pc location r =
     bindE (run_resolver rslv pc \<lparr>dim_Name = ''ServerConfigurator'', dim_Kind = DimensionConfigurator\<rparr>
       (ConfiguratorInput (configurator_request location r))) (\<lambda>out.
     case out of ConfiguratorOutput co \<Rightarrow> returnOk (float32_int (co_UpstreamID co))
     | _ \<Rightarrow> throwError (Errorf ''compute/server: resolver returned a wrong type''))"

definition resolveOSImage :: "'w resolver_iface \<Rightarrow> pc_ref \<Rightarrow> server_os \<Rightarrow> ('w, int) server_act" where
  "resolveOSImage rslv pc os =
     bindE (run_resolver rslv pc \<lparr>dim_Name = ''ServerOSImage'', dim_Kind = DimensionPreset\<rparr>
       (PresetInput \<lparr>pi_Slug = Slugify (so_Image os) (so_Version os), pi_Zone = [], pi_Location = []\<rparr>)) (\<lambda>out.
     case out of PresetOutput n \<Rightarrow> returnOk (float32_int n)
     | _ \<Rightarrow> throwError (Errorf ''compute/server: resolver returned a wrong type''))"

definition checkNetworkLocationByID :: "'w server_api \<Rightarrow> string \<Rightarrow> string \<Rightarrow> ('w, unit) server_act" where
  "checkNetworkLocationByID api vpcID serverLocation =
     bindE (attempt (call_classify api (SvGetVPC vpcID))) (on_not_found (throwError (ErrTargetNotFound vpcID)) (\<lambda>resp.
     bindE (decode ''compute/server: VPC'' as_server_vpc resp) (\<lambda>v.
     if vpc_Location v \<noteq> [] \<and> vpc_Location v \<noteq> serverLocation
     then throwError (Wrap ''VPC is in another location than the Server'' ErrNetworkLocationMismatch)
     else returnOk ())))"

section \<open>Status and drift\<close>

definition populateResolvedRefs :: "resolved_refs \<Rightarrow> server_mr \<Rightarrow> server_mr" where
  "populateResolvedRefs refs m = m\<lparr>at_provider := (at_provider m)\<lparr>
     svo_ResolvedNetworkID := (if rf_networkID refs \<noteq> None then rf_networkID refs else svo_ResolvedNetworkID (at_provider m)),
     svo_ResolvedProjectID := (if rf_projectID refs \<noteq> None then rf_projectID refs else svo_ResolvedProjectID (at_provider m)),
     svo_ResolvedSSHKeyIDs := (if rf_sshKeyIDs refs \<noteq> [] then rf_sshKeyIDs refs else svo_ResolvedSSHKeyIDs (at_provider m))\<rparr>\<rparr>"

definition buildCreateServerBody :: "server_parameters \<Rightarrow> int \<Rightarrow> int \<Rightarrow> int \<Rightarrow> resolved_refs \<Rightarrow> server_in" where
  "buildCreateServerBody fp presetID configuratorID osID refs = \<lparr>
     svi_Name = svp_Name fp, svi_OsId = Some osID,
     svi_Configuration = map_option (\<lambda>r. \<lparr>svc_ConfiguratorId = configuratorID, svc_Cpu = float32_int (sr_CPU r),
        svc_Disk = float32_int (wrap64 (sr_DiskGB r * 1024)),
        svc_Gpu = Some (case sr_GPU r of None \<Rightarrow> 0 | Some g \<Rightarrow> float32_int g),
        svc_Ram = float32_int (wrap64 (sr_RAMGB r * 1024))\<rparr>) (svp_Resources fp),
     svi_PresetId = (case svp_Resources fp of None \<Rightarrow> Some presetID | Some _ \<Rightarrow> None),
     svi_Hostname = svp_Hostname fp, svi_Comment = svp_Comment fp, svi_CloudInit = svp_CloudInit fp,
     svi_AvailabilityZone = svp_AvailabilityZone fp,
     svi_ProjectId = map_option float32_int (rf_projectID refs),
     svi_SshKeysIds = (if rf_sshKeyIDs refs \<noteq> [] then Some (map float32_int (rf_sshKeyIDs refs)) else None),
     svi_NetworkId = rf_networkID refs\<rparr>"

text \<open>The loop of \<^verbatim>\<open>extractIPs\<close>: the first public IPv4, public IPv6 and private address.\<close>

type_synonym ip_slots = "string \<times> string \<times> string"

definition is_private :: "string \<Rightarrow> bool" where
  "is_private t \<longleftrightarrow> Contains (ToLower t) ''local'' \<or> Contains (ToLower t) ''private''"

definition extract_ip :: "bool \<Rightarrow> string \<times> string \<Rightarrow> ip_slots \<Rightarrow> ip_slots" where
  "extract_ip isPrivate ip slots = (case slots of (pub4, pub6, priv) \<Rightarrow>
     if isPrivate \<and> priv = [] then (pub4, pub6, snd ip)
     else if \<not> isPrivate \<and> Contains (ToLower (fst ip)) ''v6'' \<and> pub6 = [] then (pub4, snd ip, priv)
     else if \<not> isPrivate \<and> pub4 = [] then (snd ip, pub6, priv)
     else (pub4, pub6, priv))"

definition extractIPs :: "vds \<Rightarrow> ip_slots" where
  "extractIPs v = fold (\<lambda>n. case vn_Ips n of None \<Rightarrow> (\<lambda>slots. slots) | Some ips \<Rightarrow> fold (extract_ip (is_private (vn_Type n))) ips)
     (vds_Networks v) ([], [], [])"

definition nonempty :: "string \<Rightarrow> string option \<Rightarrow> string option" where
  "nonempty s old = (if s \<noteq> [] then Some s else old)"

definition lock_id :: "int option \<Rightarrow> int option \<Rightarrow> int option" where
  "lock_id i old = (case i of Some n \<Rightarrow> if float32_int n \<noteq> 0 then Some (float32_int n) else old | None \<Rightarrow> old)"

definition server_status :: "vds \<Rightarrow> server_observation \<Rightarrow> server_observation" where
  "server_status v st = (case extractIPs v of (pub4, pub6, priv) \<Rightarrow> st\<lparr>
     svo_UpstreamID := Some (float32_int (vds_Id v)), svo_State := Some (vds_Status v),
     svo_AvailabilityZone := nonempty (vds_AvailabilityZone v) (svo_AvailabilityZone st),
     svo_LockedPresetID := lock_id (vds_PresetId v) (svo_LockedPresetID st),
     svo_LockedConfiguratorID := lock_id (vds_ConfiguratorId v) (svo_LockedConfiguratorID st),
     svo_PublicIP := nonempty pub4 (svo_PublicIP st), svo_PublicIPv6 := nonempty pub6 (svo_PublicIPv6 st),
     svo_PrivateIP := nonempty priv (svo_PrivateIP st)\<rparr>)"

definition populateServerStatus :: "vds \<Rightarrow> server_mr \<Rightarrow> server_mr" where
  "populateServerStatus v m = m\<lparr>at_provider := server_status v (at_provider m)\<rparr>"

definition server_ready_condition :: "string \<Rightarrow> condition" where
  "server_ready_condition state = (let s = ToLower state in
     if s = ''on'' then Available else if s = ''off'' then Unavailable
     else if s = ''no_paid'' then ReadyFalse ''PaymentRequired'' else Creating)"

definition isServerUpToDate :: "server_parameters \<Rightarrow> server_observation \<Rightarrow> vds \<Rightarrow> bool" where
  "isServerUpToDate spec status v \<longleftrightarrow>
     (if svp_PresetName spec \<noteq> None \<and> svo_LockedConfiguratorID status \<noteq> None then False
      else if svp_Resources spec \<noteq> None \<and> svo_LockedPresetID status \<noteq> None then False
      else if svp_Name spec \<noteq> vds_Name v then False
      else if svp_Comment spec \<noteq> None \<and> svp_Comment spec \<noteq> Some (vds_Comment v) then False
      else if svp_CloudInit spec \<noteq> None \<and> DerefString (svp_CloudInit spec) \<noteq> DerefString (vds_CloudInit v) then False
      else True)"

definition serverConnectionDetails :: "server_mr \<Rightarrow> (string \<times> string) list" where
  "serverConnectionDetails m = (let st = at_provider m;
     entry = (\<lambda>k x. case x of None \<Rightarrow> [] | Some v \<Rightarrow> [(k, v)]) in
     entry ''publicIP'' (svo_PublicIP st) @ entry ''publicIPv6'' (svo_PublicIPv6 st) @ entry ''privateIP'' (svo_PrivateIP st) @
     entry ''hostname'' (svp_Hostname (for_provider m)) @ entry ''upstreamID'' (map_option Itoa (svo_UpstreamID st)))"

section \<open>The handlers\<close>

text \<open>The addresses whose binding is checked: the declared ones and those last seen bound.\<close>

definition fip_candidates :: "server_ext \<Rightarrow> server_mr \<Rightarrow> string list" where
  "fip_candidates e m = rf_floatingIPIDs (se_resolved e) @ svo_BoundFloatingIPs (at_provider m)"

definition set_bound :: "string list \<Rightarrow> server_mr \<Rightarrow> server_mr" where
  "set_bound bound m = m\<lparr>at_provider := (at_provider m)\<lparr>svo_BoundFloatingIPs := bound\<rparr>\<rparr>"

definition observe_server :: "'w server_api \<Rightarrow> server_ext \<Rightarrow> vds \<Rightarrow> ('w, observation) server_act" where
  "observe_server api e v =
     bindE (modify_cr (populateServerStatus v)) (\<lambda>_.
     bindE (modify_cr (populateResolvedRefs (se_resolved e))) (\<lambda>_.
     bindE (record_and_set (server_ready_condition (vds_Status v))) (\<lambda>_.
     bindE (gets (fip_candidates e)) (\<lambda>candidates.
     bindE (observeBoundFloatingIPs api candidates (float32_int (vds_Id v))) (\<lambda>bound.
     bindE (modify_cr (set_bound bound)) (\<lambda>_.
     bindE (gets (\<lambda>m. m)) (\<lambda>m.
     returnOk ((present (isServerUpToDate (for_provider m) (at_provider m) v \<and> stringSetsEqual bound (rf_floatingIPIDs (se_resolved e))))
       \<lparr>ConnectionDetails := serverConnectionDetails m\<rparr>))))))))"

definition server_Observe :: "'w server_api \<Rightarrow> server_ext \<Rightarrow> ('w, observation) server_act" where
  "server_Observe api e =
     bindE (gets (\<lambda>m. DecodeID (external_name m))) (\<lambda>x. case x of
       None \<Rightarrow> returnOk absent
     | Some n \<Rightarrow> fetch_or_absent api ''compute/server'' as_server (GetServer n) (observe_server api e))"

text \<open>The preset id and the configurator id, one of them 0.\<close>

definition server_sizing :: "'w resolver_iface \<Rightarrow> server_ext \<Rightarrow> server_parameters \<Rightarrow> ('w, int \<times> int) server_act" where
  "server_sizing rslv e fp = (case svp_Resources fp of
     Some r \<Rightarrow> map_resolver_error (bindE (server_resolveConfigurator rslv (se_pcRef e) (svp_Location fp) r) (\<lambda>k. returnOk (0, k)))
   | None \<Rightarrow> (case svp_PresetName fp of
       None \<Rightarrow> throwError (Errorf ''runtime error: invalid memory address or nil pointer dereference'')
     | Some slug \<Rightarrow> map_resolver_error (bindE (server_resolvePreset rslv (se_pcRef e) slug (svp_Location fp)) (\<lambda>p. returnOk (p, 0)))))"

definition server_locks :: "int \<Rightarrow> int \<Rightarrow> int \<Rightarrow> server_mr \<Rightarrow> server_mr" where
  "server_locks presetID configuratorID osID m = (let st = at_provider m in
     m\<lparr>at_provider := (if svp_Resources (for_provider m) \<noteq> None then st\<lparr>svo_LockedConfiguratorID := Some configuratorID\<rparr>
       else st\<lparr>svo_LockedPresetID := Some presetID\<rparr>)\<lparr>svo_LockedOSID := Some osID\<rparr>\<rparr>)"

definition request_server :: "'w server_api \<Rightarrow> server_ext \<Rightarrow> server_parameters \<Rightarrow> int \<Rightarrow> int \<times> int \<Rightarrow> ('w, (string \<times> string) list) server_act" where
  "request_server api e fp osID ids = (case ids of (presetID, configuratorID) \<Rightarrow>
     bindE (fetch api ''compute/server'' as_server (CreateServer (buildCreateServerBody fp presetID configuratorID osID (se_resolved e)))) (\<lambda>v.
     bindE (modify_cr (\<lambda>m. m\<lparr>external_name := EncodeID (float32_int (vds_Id v))\<rparr>)) (\<lambda>_.
     bindE (modify_cr (populateServerStatus v)) (\<lambda>_.
     bindE (modify_cr (populateResolvedRefs (se_resolved e))) (\<lambda>_.
     bindE (modify_cr (server_locks presetID configuratorID osID)) (\<lambda>_.
     bindE (modify_cr (SetConditions Creating)) (\<lambda>_.
     gets serverConnectionDetails)))))))"

definition server_Create :: "'w server_api \<Rightarrow> 'w resolver_iface \<Rightarrow> server_ext \<Rightarrow> ('w, (string \<times> string) list) server_act" where
  "server_Create api rslv e =
     bindE (gets for_provider) (\<lambda>fp.
     bindE (if svp_NetworkRef fp = None \<and> svp_NetworkID fp \<noteq> None
            then checkNetworkLocationByID api (the (svp_NetworkID fp)) (svp_Location fp) else returnOk ()) (\<lambda>_.
     bindE (map_resolver_error (resolveOSImage rslv (se_pcRef e) (svp_OS fp))) (\<lambda>osID.
     bindE (server_sizing rslv e fp) (request_server api e fp osID))))"

text \<open>The guards of \<^verbatim>\<open>Update\<close> in their order: \<open>None\<close> passes, \<open>Some None\<close> is the sizing switch, \<open>Some (Some f)\<close> the field.\<close>

definition server_guards :: "server_parameters \<Rightarrow> server_observation \<Rightarrow> vds \<Rightarrow> string option option" where
  "server_guards fp st v =
     (if (svp_Resources fp \<noteq> None \<and> svo_LockedPresetID st \<noteq> None) \<or> (svp_Resources fp = None \<and> svo_LockedConfiguratorID st \<noteq> None)
        then Some None
      else if svo_LockedPresetID st \<noteq> None \<and> vds_PresetId v \<noteq> None \<and> svo_LockedPresetID st \<noteq> map_option float32_int (vds_PresetId v)
        then Some (Some ''presetName'')
      else if vds_Location v \<noteq> [] \<and> svp_Location fp \<noteq> vds_Location v then Some (Some ''location'')
      else if svo_LockedOSID st \<noteq> None \<and> svo_LockedOSID st \<noteq> Some (float32_int (vds_OsId v)) then Some (Some ''os'')
      else None)"

definition server_patch_of :: "server_parameters \<Rightarrow> vds \<Rightarrow> server_patch" where
  "server_patch_of fp v = \<lparr>
     svu_Name = (if svp_Name fp \<noteq> vds_Name v then Some (svp_Name fp) else None),
     svu_Comment = (if svp_Comment fp \<noteq> None \<and> svp_Comment fp \<noteq> Some (vds_Comment v) then svp_Comment fp else None),
     svu_CloudInit = (if svp_CloudInit fp \<noteq> None \<and> svp_CloudInit fp \<noteq> vds_CloudInit v then svp_CloudInit fp else None)\<rparr>"

definition patch_server :: "'w server_api \<Rightarrow> int \<Rightarrow> server_parameters \<Rightarrow> vds \<Rightarrow> ('w, unit) server_act" where
  "patch_server api n fp v = (let p = server_patch_of fp v in
     if svu_Name p = None \<and> svu_Comment p = None \<and> svu_CloudInit p = None then returnOk ()
     else write_call api (UpdateServer n p))"

definition update_server :: "'w server_api \<Rightarrow> server_ext \<Rightarrow> int \<Rightarrow> vds \<Rightarrow> ('w, unit) server_act" where
  "update_server api e n v =
     bindE (gets (\<lambda>m. m)) (\<lambda>m. let fp = for_provider m in
     case server_guards fp (at_provider m) v of
       Some None \<Rightarrow> RejectSizingSwitch
     | Some (Some field) \<Rightarrow> RejectImmutableChange field
     | None \<Rightarrow>
         bindE (observeBoundFloatingIPs api (fip_candidates e m) n) (\<lambda>bound.
         bindE (reconcileFloatingIPBindings api n (rf_floatingIPIDs (se_resolved e)) bound (EqualFold (vds_Status v) ''on'')) (\<lambda>_.
         patch_server api n fp v)))"

definition server_Update :: "'w server_api \<Rightarrow> server_ext \<Rightarrow> ('w, unit) server_act" where
  "server_Update api e =
     bindE (gets (\<lambda>m. DecodeID (external_name m))) (\<lambda>x. case x of
       None \<Rightarrow> throwError (Errorf ''compute/server: decode external-name'')
     | Some n \<Rightarrow> bindE (fetch api ''compute/server'' as_server (GetServer n)) (update_server api e n))"

definition server_Delete :: "'w server_api \<Rightarrow> ('w, unit) server_act" where
  "server_Delete api =
     bindE (gets (\<lambda>m. m)) (\<lambda>m. case DecodeID (external_name m) of
       None \<Rightarrow> returnOk ()
     | Some n \<Rightarrow> bindE (unbind_all api (svo_BoundFloatingIPs (at_provider m))) (\<lambda>_.
         delete_or_gone api (DeleteServer n) (modify_cr (SetConditions Deleting))))"

definition server_get_req :: "server_mr \<Rightarrow> server_req option" where
  "server_get_req m = map_option GetServer (DecodeID (external_name m))"

lemma reports_present_observe_server: "reports_present (observe_server api e v)"
  unfolding observe_server_def by (intro reports_present_bindE) simp

interpretation server: external_observer api "server_Observe api e" server_get_req for api e
  by (rule external_observerI[where pfx = "''compute/server''" and sel = as_server and k = "\<lambda>_. observe_server api e"])
     (auto simp: server_Observe_def server_get_req_def reports_present_observe_server split: option.splits)

end
