(* ===== verification/ServerSafety.thy ===== *)
theory ServerSafety
  imports ServerExternal Monitored
begin

text \<open>
  What the Server handlers do to floating IPs, against a service whose answers about bindings are truthful:
  \<^verbatim>\<open>Update\<close> releases only addresses it has confirmed on this server and that are no longer declared, binds
  only declared ones that are not there yet and only to a running server; \<^verbatim>\<open>Delete\<close> after \<^verbatim>\<open>Observe\<close> releases
  every confirmed address before the server goes.
\<close>

declare run_equations [simp del]

section \<open>Lists as sets\<close>

lemma dedupe_set: "set (dedupe seen ss) = set ss - seen" "distinct (dedupe seen ss)"
  by (induction seen ss rule: dedupe.induct) auto

lemma set_dedupeStrings [simp]: "set (dedupeStrings ss) = set ss"
  by (simp add: dedupeStrings_def dedupe_set)

lemma distinct_dedupeStrings [simp]: "distinct (dedupeStrings ss)"
  by (simp add: dedupeStrings_def dedupe_set)

lemma stringSetsEqual_iff: "stringSetsEqual a b \<longleftrightarrow> set a = set b"
  unfolding stringSetsEqual_def list_all_iff
  by (metis List.finite_set card_subset_eq subsetI)

section \<open>The service\<close>

text \<open>
  \<open>bound w f\<close> is the server address \<open>f\<close> is bound to, \<open>on w\<close> that server \<open>n\<close> runs. Answers about them are truthful
  whenever they are given; reads and the other writes leave bindings alone, a bind or an unbind touches its own
  address only, and an accepted unbind, or one of an address that is gone, leaves it free.
\<close>

definition fip_bound_of :: "floating_ip \<Rightarrow> int option" where
  "fip_bound_of ip = (if ip_ResourceType ip \<noteq> Some ''server'' then None
     else case ip_ResourceId ip of None \<Rightarrow> None | Some rid \<Rightarrow> AsFloatingIpResourceId0 rid)"

definition touches :: "server_req \<Rightarrow> string set" where
  "touches q = (case q of SvBindFloatingIp f k \<Rightarrow> {f} | SvUnbindFloatingIp f \<Rightarrow> {f} | _ \<Rightarrow> {})"

definition fip_service :: "'w server_api \<Rightarrow> int \<Rightarrow> ('w \<Rightarrow> string \<Rightarrow> int option) \<Rightarrow> ('w \<Rightarrow> bool) \<Rightarrow> bool" where
  "fip_service api n bound on \<longleftrightarrow> (\<forall>w.
     (\<forall>q g. g \<notin> touches q \<longrightarrow> bound (snd (api w q)) g = bound w g) \<and>
     (\<forall>q. on (snd (api w q)) = on w) \<and>
     (\<forall>f resp ip. fst (api w (SvGetFloatingIp f)) = Resp resp \<longrightarrow> resp_payload resp = Some (PServerFip ip) \<longrightarrow> fip_bound_of ip = bound w f) \<and>
     (\<forall>f e. classify_result (fst (api w (SvGetFloatingIp f))) = Inl e \<longrightarrow> is_not_found e \<longrightarrow> bound w f = None) \<and>
     (\<forall>f. (case classify_result (fst (api w (SvUnbindFloatingIp f))) of Inl e \<Rightarrow> is_not_found e | Inr resp \<Rightarrow> True) \<longrightarrow>
        bound (snd (api w (SvUnbindFloatingIp f))) f = None) \<and>
     (\<forall>resp v. fst (api w (GetServer n)) = Resp resp \<longrightarrow> resp_payload resp = Some (PServer v) \<longrightarrow>
        vds_Id v = n \<and> on w = EqualFold (vds_Status v) ''on''))"

lemma fip_serviceD:
  assumes "fip_service api n bound on"
  shows "g \<notin> touches q \<Longrightarrow> bound (snd (api w q)) g = bound w g"
    "on (snd (api w q)) = on w"
    "fst (api w (SvGetFloatingIp f)) = Resp resp \<Longrightarrow> resp_payload resp = Some (PServerFip ip) \<Longrightarrow> fip_bound_of ip = bound w f"
    "classify_result (fst (api w (SvGetFloatingIp f))) = Inl e \<Longrightarrow> is_not_found e \<Longrightarrow> bound w f = None"
    "(case classify_result (fst (api w (SvUnbindFloatingIp f))) of Inl e \<Rightarrow> is_not_found e | Inr resp \<Rightarrow> True) \<Longrightarrow>
      bound (snd (api w (SvUnbindFloatingIp f))) f = None"
    "fst (api w (GetServer n)) = Resp resp \<Longrightarrow> resp_payload resp = Some (PServer v) \<Longrightarrow>
      vds_Id v = n \<and> on w = EqualFold (vds_Status v) ''on''"
  using assms unfolding fip_service_def by metis+

lemma fip_service_monitor:
  assumes "fip_service api n bound on"
  shows "fip_service (monitor ok api) n (\<lambda>wb. bound (fst wb)) (\<lambda>wb. on (fst wb))"
  unfolding fip_service_def monitor_world by (intro allI assms[unfolded fip_service_def, THEN spec])

section \<open>What the helpers find and do\<close>

lemma as_server_fip_Some: "as_server_fip p = Some ip \<Longrightarrow> p = PServerFip ip"
  by (cases p) auto

lemma as_server_Some: "as_server p = Some v \<Longrightarrow> p = PServer v"
  by (cases p) auto

lemma touches_simps [simp]: "touches (SvGetFloatingIp f) = {}" "touches (GetServer n) = {}" "touches (UpdateServer n p) = {}"
  "touches (DeleteServer n) = {}" "touches (SvBindFloatingIp f k) = {f}" "touches (SvUnbindFloatingIp f) = {f}"
  by (simp_all add: touches_def)

lemma floatingIPBoundServer_Inr:
  assumes srv: "fip_service api n bound on" and run: "floatingIPBoundServer api f s = (Inr b, s')"
  shows "b = bound (world s) f \<and> world s' = snd (api (world s) (SvGetFloatingIp f)) \<and> cr s' = cr s"
proof (cases "classify_result (fst (api (world s) (SvGetFloatingIp f)))")
  case (Inl e)
  with run fip_serviceD(4)[OF srv Inl] show ?thesis
    by (auto simp: floatingIPBoundServer_def run_equations on_not_found_def split: if_splits)
next
  case (Inr resp)
  let ?s = "after_call api (SvGetFloatingIp f) s"
  from run Inr have r: "bindE (decode ''compute/server: floating-ip'' as_server_fip resp) (\<lambda>ip. returnOk (fip_bound_of ip)) ?s = (Inr b, s')"
    by (simp add: floatingIPBoundServer_def run_equations on_not_found_def fip_bound_of_def)
  then obtain ip where ip: "decode ''compute/server: floating-ip'' as_server_fip resp ?s = (Inr ip, s')" "b = fip_bound_of ip"
    by (auto simp: bindE_def returnOk_def split: prod.splits sum.splits)
  from decode_Inr[OF ip(1)] as_server_fip_Some have "resp_payload resp = Some (PServerFip ip)" "s' = ?s" by auto
  with classify_result_ok[OF Inr] ip(2) fip_serviceD(3)[OF srv] show ?thesis by auto
qed

lemma observe_bound_Inr:
  assumes srv: "fip_service api n bound on"
  shows "observe_bound api k ids acc s = (Inr b, s') \<Longrightarrow>
    b = acc @ filter (\<lambda>f. bound (world s) f = Some k) ids \<and> bound (world s') = bound (world s) \<and> on (world s') = on (world s) \<and> cr s' = cr s"
proof (induction ids arbitrary: acc s)
  case Nil
  then show ?case by (simp add: returnOk_def)
next
  case (Cons f ids)
  from Cons.prems obtain x s1 where x: "floatingIPBoundServer api f s = (Inr x, s1)"
      "observe_bound api k ids (if x = Some k then acc @ [f] else acc) s1 = (Inr b, s')"
    by (auto simp: bindE_def split: prod.splits sum.splits)
  from floatingIPBoundServer_Inr[OF srv x(1)] fip_serviceD(1)[OF srv, where q = "SvGetFloatingIp f" and w = "world s"]
    fip_serviceD(2)[OF srv, where q = "SvGetFloatingIp f" and w = "world s"]
  have s1: "x = bound (world s) f" "bound (world s1) = bound (world s)" "on (world s1) = on (world s)" "cr s1 = cr s"
    by (auto simp: fun_eq_iff)
  from Cons.IH[OF x(2)] s1 show ?case by (auto split: if_splits)
qed

lemma unbindFloatingIP_Inr:
  assumes srv: "fip_service api n bound on" and run: "unbindFloatingIP api f s = (Inr (), s')"
  shows "bound (world s') = (bound (world s))(f := None) \<and> on (world s') = on (world s) \<and> cr s' = cr s"
proof -
  from run have w: "world s' = snd (api (world s) (SvUnbindFloatingIp f))" "cr s' = cr s"
    and c: "case classify_result (fst (api (world s) (SvUnbindFloatingIp f))) of Inl e \<Rightarrow> is_not_found e | Inr resp \<Rightarrow> True"
    by (auto simp: unbindFloatingIP_def delete_or_gone_def on_not_found_def run_equations split: sum.splits if_splits)
  with fip_serviceD(5)[OF srv c] fip_serviceD(1)[OF srv, where q = "SvUnbindFloatingIp f" and w = "world s"]
    fip_serviceD(2)[OF srv, where q = "SvUnbindFloatingIp f" and w = "world s"] show ?thesis
    by (auto simp: fun_eq_iff)
qed

lemma unbind_all_Inr:
  assumes srv: "fip_service api n bound on"
  shows "unbind_all api ids s = (Inr (), s') \<Longrightarrow>
    bound (world s') = (\<lambda>f. if f \<in> set ids then None else bound (world s) f) \<and> on (world s') = on (world s) \<and> cr s' = cr s"
proof (induction ids arbitrary: s)
  case Nil
  then show ?case by (simp add: returnOk_def)
next
  case (Cons f ids)
  from Cons.prems obtain s1 where x: "unbindFloatingIP api f s = (Inr (), s1)" "unbind_all api ids s1 = (Inr (), s')"
    by (auto simp: bindE_def split: prod.splits sum.splits)
  from unbindFloatingIP_Inr[OF srv x(1)] Cons.IH[OF x(2)] show ?case by (auto simp: fun_eq_iff)
qed

section \<open>The loops are safe\<close>

lemma safe_at_unbindFloatingIP:
  assumes "ok (fst (world s)) (SvUnbindFloatingIp f)"
  shows "safe_at s (unbindFloatingIP (monitor ok api) f)"
  unfolding unbindFloatingIP_def delete_or_gone_def
  by (intro safe_at_bindE safe_at_attempt safe_at_call_classify assms)
     (auto simp: on_not_found_def split: sum.split)

lemma safe_at_unbind_all:
  assumes srv: "fip_service api n bound on"
    and ok: "\<And>w f. bound w f = Some n \<Longrightarrow> f \<notin> D \<Longrightarrow> ok w (SvUnbindFloatingIp f)"
  shows "\<forall>f \<in> set ids. bound (fst (world s)) f = Some n \<and> f \<notin> D \<Longrightarrow> distinct ids \<Longrightarrow> safe_at s (unbind_all (monitor ok api) ids)"
proof (induction ids arbitrary: s)
  case Nil
  then show ?case by simp
next
  case (Cons f ids)
  have "safe_at s' (unbind_all (monitor ok api) ids)" if "unbindFloatingIP (monitor ok api) f s = (Inr x, s')" for x s'
    using Cons unbindFloatingIP_Inr[OF fip_service_monitor[OF srv], of ok f s s'] that by (intro Cons.IH) auto
  then show ?case using Cons.prems by (auto intro!: safe_at_bindE safe_at_unbindFloatingIP ok)
qed

lemma safe_at_bind_missing:
  assumes srv: "fip_service api n bound on"
    and ok: "\<And>w f. bound w f \<noteq> Some n \<Longrightarrow> f \<in> D \<Longrightarrow> on w \<Longrightarrow> ok w (SvBindFloatingIp f (float32_int n))"
  shows "\<forall>f \<in> set ids. f \<in> D \<and> (f \<notin> B \<longrightarrow> bound (fst (world s)) f \<noteq> Some n) \<Longrightarrow> distinct ids \<Longrightarrow> on (fst (world s)) = running \<Longrightarrow>
    safe_at s (bind_missing (monitor ok api) n B running ids)"
proof (induction ids arbitrary: s)
  case Nil
  then show ?case by simp
next
  case (Cons f ids)
  show ?case
  proof (cases "f \<in> B \<or> \<not> running")
    case True
    with Cons.IH[of s] Cons.prems show ?thesis by auto
  next
    case False
    let ?q = "SvBindFloatingIp f (float32_int n)"
    have "safe_at s' (bind_missing (monitor ok api) n B running ids)" if run: "bindFloatingIP (monitor ok api) f n s = (Inr x, s')" for x s'
    proof (rule Cons.IH)
      from run have w: "world s' = snd (monitor ok api (world s) ?q)"
        by (auto simp: bindFloatingIP_def write_call_def bindE_def call_classify_run returnOk_def split: sum.splits)
      have "bound (fst (world s')) g = bound (fst (world s)) g" if "g \<noteq> f" for g
        using fip_serviceD(1)[OF fip_service_monitor[OF srv, of ok], where g = g and q = ?q and w = "world s"] that w by simp
      with Cons.prems(1,2) show "\<forall>g \<in> set ids. g \<in> D \<and> (g \<notin> B \<longrightarrow> bound (fst (world s')) g \<noteq> Some n)"
        by (metis distinct.simps(2) list.set_intros(2))
      show "distinct ids" using Cons.prems by simp
      show "on (fst (world s')) = running"
        using Cons.prems fip_serviceD(2)[OF fip_service_monitor[OF srv, of ok], where q = ?q and w = "world s"] w by simp
    qed
    with False Cons.prems show ?thesis
      by (auto simp: bindFloatingIP_def intro!: safe_at_bindE safe_at_write ok)
  qed
qed

section \<open>Update\<close>

definition update_allowed :: "int \<Rightarrow> string set \<Rightarrow> ('w \<Rightarrow> string \<Rightarrow> int option) \<Rightarrow> ('w \<Rightarrow> bool) \<Rightarrow> 'w \<Rightarrow> server_req \<Rightarrow> bool" where
  "update_allowed n declared bound on w q = (case q of
     SvBindFloatingIp f k \<Rightarrow> f \<in> declared \<and> k = float32_int n \<and> on w \<and> bound w f \<noteq> Some n
   | SvUnbindFloatingIp f \<Rightarrow> f \<notin> declared \<and> bound w f = Some n
   | UpdateServer k p \<Rightarrow> k = n | CreateServer body \<Rightarrow> False | DeleteServer k \<Rightarrow> False | _ \<Rightarrow> True)"

lemma update_allowed_simps [simp]:
  "update_allowed n D bound on w (SvBindFloatingIp f k) \<longleftrightarrow> f \<in> D \<and> k = float32_int n \<and> on w \<and> bound w f \<noteq> Some n"
  "update_allowed n D bound on w (SvUnbindFloatingIp f) \<longleftrightarrow> f \<notin> D \<and> bound w f = Some n"
  "update_allowed n D bound on w (UpdateServer k p) \<longleftrightarrow> k = n"
  "update_allowed n D bound on w (GetServer k)" "update_allowed n D bound on w (SvGetFloatingIp f)"
  by (simp_all add: update_allowed_def)

lemma safe_floatingIPBoundServer: "(\<And>w. ok w (SvGetFloatingIp f)) \<Longrightarrow> safe (floatingIPBoundServer (monitor ok api) f)"
  unfolding floatingIPBoundServer_def on_not_found_def
  by (intro safe_bindE safe_attempt safe_call_classify) (auto intro!: safe_bindE split: sum.split)

lemma safe_observe_bound: "(\<And>w f. ok w (SvGetFloatingIp f)) \<Longrightarrow> safe (observe_bound (monitor ok api) k ids acc)"
  by (induction ids arbitrary: acc) (auto intro!: safe_bindE safe_floatingIPBoundServer)

lemma safe_at_reconcile:
  assumes srv: "fip_service api n bound on" and "on (fst (world s)) = running"
    and have_all: "\<forall>f \<in> set B. bound (fst (world s)) f = Some n" "\<forall>f \<in> set D. f \<notin> set B \<longrightarrow> bound (fst (world s)) f \<noteq> Some n"
  shows "safe_at s (reconcileFloatingIPBindings (monitor (update_allowed n (set D) bound on) api) n D B running)"
  unfolding reconcileFloatingIPBindings_def
proof (rule safe_at_bindE)
  show "safe_at s (unbind_all (monitor (update_allowed n (set D) bound on) api) (filter (\<lambda>f. f \<notin> set D) (dedupeStrings B)))"
    using have_all(1) by (intro safe_at_unbind_all[OF srv, where D = "set D"]) auto
next
  fix x s' assume "unbind_all (monitor (update_allowed n (set D) bound on) api) (filter (\<lambda>f. f \<notin> set D) (dedupeStrings B)) s = (Inr x, s')"
  then have "bound (fst (world s')) = (\<lambda>f. if f \<in> set B - set D then None else bound (fst (world s)) f) \<and> on (fst (world s')) = on (fst (world s))"
    using unbind_all_Inr[OF fip_service_monitor[OF srv]] by fastforce
  then show "safe_at s' (bind_missing (monitor (update_allowed n (set D) bound on) api) n (set B) running (dedupeStrings D))"
    using assms by (intro safe_at_bind_missing[OF srv, where D = "set D"]) auto
qed

lemma fip_candidates_declared: "set (rf_floatingIPIDs (se_resolved e)) \<subseteq> set (fip_candidates e m)"
  by (simp add: fip_candidates_def)

lemma safe_at_update_server:
  assumes srv: "fip_service api n bound on" and run: "on (fst (world s)) = EqualFold (vds_Status v) ''on''"
  shows "safe_at s (update_server (monitor (update_allowed n (set (rf_floatingIPIDs (se_resolved e))) bound on) api) e n v)"
    (is "safe_at s (update_server ?api e n v)")
proof -
  let ?D = "rf_floatingIPIDs (se_resolved e)" and ?C = "fip_candidates e (cr s)"
  let ?reconcile = "bindE (observeBoundFloatingIPs ?api ?C n) (\<lambda>bound. bindE (reconcileFloatingIPBindings ?api n ?D bound
      (EqualFold (vds_Status v) ''on'')) (\<lambda>_. patch_server ?api n (for_provider (cr s)) v))"
  have patch: "safe (patch_server ?api n fp v)" for fp
    by (simp add: patch_server_def Let_def safe_write)
  have "safe_at s ?reconcile"
  proof (rule safe_at_bindE)
    show "safe_at s (observeBoundFloatingIPs ?api ?C n)"
      by (simp add: observeBoundFloatingIPs_def safe_observe_bound safe_atI)
  next
    fix B s' assume "observeBoundFloatingIPs ?api ?C n s = (Inr B, s')"
    from observe_bound_Inr[OF fip_service_monitor[OF srv] this[unfolded observeBoundFloatingIPs_def]] fip_candidates_declared[of e "cr s"] run
    have "safe_at s' (reconcileFloatingIPBindings ?api n ?D B (EqualFold (vds_Status v) ''on''))"
      by (intro safe_at_reconcile[OF srv]) auto
    then show "safe_at s' (bindE (reconcileFloatingIPBindings ?api n ?D B (EqualFold (vds_Status v) ''on''))
        (\<lambda>_. patch_server ?api n (for_provider (cr s)) v))"
      by (intro safe_at_bindE) (simp_all add: patch safe_atI)
  qed
  moreover have "update_server ?api e n v s = (case server_guards (for_provider (cr s)) (at_provider (cr s)) v of
      Some None \<Rightarrow> RejectSizingSwitch | Some (Some field) \<Rightarrow> RejectImmutableChange field | None \<Rightarrow> ?reconcile) s"
    by (simp add: update_server_def Let_def run_equations)
  ultimately show ?thesis
    by (auto simp: safe_at_def split: option.splits dest: Reject_runs)
qed

text \<open>
  C21. \<^verbatim>\<open>Update\<close> of a server with upstream id \<open>n\<close> releases only addresses that are bound to this server at that moment
  and no longer declared, binds only declared addresses that are not on it yet, to this server and only while it
  runs, patches only this server, and neither creates nor deletes one, whatever requests fail on the way.
\<close>

theorem server_Update_bindings:
  assumes "fip_service api n bound on"
    and "DecodeID (external_name (cr s)) = Some n"
    and "server_Update (monitor (update_allowed n (set (rf_floatingIPIDs (se_resolved e))) bound on) api) e s = (r, s')"
    and "snd (world s)"
  shows "snd (world s')"
proof -
  let ?api = "monitor (update_allowed n (set (rf_floatingIPIDs (se_resolved e))) bound on) api"
  note srv = fip_service_monitor[OF assms(1), of "update_allowed n (set (rf_floatingIPIDs (se_resolved e))) bound on"]
  have "safe_at s (bindE (fetch ?api ''compute/server'' as_server (GetServer n)) (update_server ?api e n))"
  proof (rule safe_at_bindE)
    show "safe_at s (fetch ?api ''compute/server'' as_server (GetServer n))"
      by (rule safe_atI[OF safe_fetch]) simp
  next
    fix v s1 assume "fetch ?api ''compute/server'' as_server (GetServer n) s = (Inr v, s1)"
    then have f: "fetch ?api ''compute/server'' as_server (GetServer n) s = (Inr v, s1)" .
    from fetch_Inr[OF f] obtain resp where "fst (?api (world s) (GetServer n)) = Resp resp" "resp_payload resp = Some (PServer v)"
        "world s1 = snd (?api (world s) (GetServer n))" using as_server_Some by auto
    with fip_serviceD(6)[OF srv] fip_serviceD(2)[OF srv] have "on (fst (world s1)) = EqualFold (vds_Status v) ''on''" by metis
    then show "safe_at s1 (update_server ?api e n v)" by (rule safe_at_update_server[OF assms(1)])
  qed
  with assms(2-4) show ?thesis by (simp add: server_Update_def bindE_gets safe_at_def)
qed

section \<open>Delete\<close>

text \<open>The managed resource once its status has been refreshed from the answer, and the rest of \<^verbatim>\<open>Observe\<close>.\<close>

definition refreshed :: "server_ext \<Rightarrow> vds \<Rightarrow> server_mr \<Rightarrow> server_mr" where
  "refreshed e v m = SetConditions (server_ready_condition (vds_Status v)) (populateResolvedRefs (se_resolved e) (populateServerStatus v m))"

lemma refreshed_simps [simp]:
  "external_name (refreshed e v m) = external_name m" "for_provider (refreshed e v m) = for_provider m"
  "fip_candidates e' (refreshed e v m) = fip_candidates e' m"
  "svo_LockedPresetID (at_provider (refreshed e v m)) = lock_id (vds_PresetId v) (svo_LockedPresetID (at_provider m))"
  "svo_LockedConfiguratorID (at_provider (refreshed e v m)) = lock_id (vds_ConfiguratorId v) (svo_LockedConfiguratorID (at_provider m))"
  "svo_LockedOSID (at_provider (refreshed e v m)) = svo_LockedOSID (at_provider m)"
  by (simp_all add: refreshed_def populateServerStatus_def populateResolvedRefs_def fip_candidates_def server_status_def split: prod.split)

lemma set_bound_simps [simp]:
  "external_name (set_bound b m) = external_name m" "for_provider (set_bound b m) = for_provider m"
  "svo_BoundFloatingIPs (at_provider (set_bound b m)) = b"
  "svo_LockedPresetID (at_provider (set_bound b m)) = svo_LockedPresetID (at_provider m)"
  "svo_LockedConfiguratorID (at_provider (set_bound b m)) = svo_LockedConfiguratorID (at_provider m)"
  "svo_LockedOSID (at_provider (set_bound b m)) = svo_LockedOSID (at_provider m)"
  by (simp_all add: set_bound_def)

definition refreshed_state :: "server_ext \<Rightarrow> vds \<Rightarrow> ('w, server_req, server_parameters, server_observation) rstate \<Rightarrow>
    ('w, server_req, server_parameters, server_observation) rstate" where
  "refreshed_state e v s = s\<lparr>events := events_after (server_ready_condition (vds_Status v))
     (s\<lparr>cr := populateResolvedRefs (se_resolved e) (populateServerStatus v (cr s))\<rparr>), cr := refreshed e v (cr s)\<rparr>"

lemma refreshed_state_simps [simp]: "world (refreshed_state e v s) = world s" "cr (refreshed_state e v s) = refreshed e v (cr s)"
  by (simp_all add: refreshed_state_def)

lemma observe_server_run:
  "observe_server api e v s = bindE (observeBoundFloatingIPs api (fip_candidates e (cr s)) (float32_int (vds_Id v))) (\<lambda>b.
     bindE (modify_cr (set_bound b)) (\<lambda>_. bindE (gets (\<lambda>m. m)) (\<lambda>m.
     returnOk ((present (isServerUpToDate (for_provider m) (at_provider m) v \<and> stringSetsEqual b (rf_floatingIPIDs (se_resolved e))))
       \<lparr>ConnectionDetails := serverConnectionDetails m\<rparr>)))) (refreshed_state e v s)"
proof -
  have c: "fip_candidates e (SetConditions (server_ready_condition (vds_Status v)) (populateResolvedRefs (se_resolved e) (populateServerStatus v (cr s))))
      = fip_candidates e (cr s)"
    using refreshed_simps(3) by (simp add: refreshed_def)
  show ?thesis
    unfolding observe_server_def bindE_modify_cr bindE_record_and_set bindE_gets refreshed_state_def refreshed_def
    by (simp add: c)
qed

lemma observe_server_Inr:
  assumes srv: "fip_service api n bound on" and id: "float32_int (vds_Id v) = n" and run: "observe_server api e v s = (Inr ob, s')"
  shows "cr s' = set_bound (filter (\<lambda>f. bound (world s) f = Some n) (dedupeStrings (fip_candidates e (cr s)))) (refreshed e v (cr s))"
    and "bound (world s') = bound (world s)" and "on (world s') = on (world s)"
proof -
  from run id obtain b s1 where b: "observe_bound api n (dedupeStrings (fip_candidates e (cr s))) [] (refreshed_state e v s) = (Inr b, s1)"
      "s' = s1\<lparr>cr := set_bound b (cr s1)\<rparr>"
    by (auto simp: observe_server_run observeBoundFloatingIPs_def bindE_def run_equations split: prod.splits sum.splits)
  from observe_bound_Inr[OF srv b(1)] b(2)
  show "cr s' = set_bound (filter (\<lambda>f. bound (world s) f = Some n) (dedupeStrings (fip_candidates e (cr s)))) (refreshed e v (cr s))"
    and "bound (world s') = bound (world s)" and "on (world s') = on (world s)" by simp_all
qed

text \<open>The runtime deletes what the preceding \<^verbatim>\<open>Observe\<close> has found.\<close>

definition observe_then_delete :: "'w server_api \<Rightarrow> server_ext \<Rightarrow> ('w, unit) server_act" where
  "observe_then_delete api e = bindE (server_Observe api e) (\<lambda>ob. if ResourceExists ob then server_Delete api else returnOk ())"

definition delete_allowed :: "int \<Rightarrow> string set \<Rightarrow> ('w \<Rightarrow> string \<Rightarrow> int option) \<Rightarrow> 'w \<Rightarrow> server_req \<Rightarrow> bool" where
  "delete_allowed n known bound w q = (case q of
     SvUnbindFloatingIp f \<Rightarrow> bound w f = Some n
   | DeleteServer k \<Rightarrow> k = n \<and> (\<forall>f \<in> known. bound w f \<noteq> Some n)
   | SvBindFloatingIp f k \<Rightarrow> False | UpdateServer k p \<Rightarrow> False | CreateServer body \<Rightarrow> False | _ \<Rightarrow> True)"

lemma delete_allowed_simps [simp]:
  "delete_allowed n K bound w (SvUnbindFloatingIp f) \<longleftrightarrow> bound w f = Some n"
  "delete_allowed n K bound w (DeleteServer k) \<longleftrightarrow> k = n \<and> (\<forall>f \<in> K. bound w f \<noteq> Some n)"
  "delete_allowed n K bound w (GetServer k)" "delete_allowed n K bound w (SvGetFloatingIp f)"
  by (simp_all add: delete_allowed_def)

lemma safe_at_server_Delete:
  assumes srv: "fip_service api n bound on" and id: "DecodeID (external_name (cr s)) = Some n"
    and B: "svo_BoundFloatingIPs (at_provider (cr s)) = B" "\<forall>f \<in> set B. bound (fst (world s)) f = Some n" "distinct B"
    and K: "\<forall>f \<in> K. f \<notin> set B \<longrightarrow> bound (fst (world s)) f \<noteq> Some n"
  shows "safe_at s (server_Delete (monitor (delete_allowed n K bound) api))"
proof -
  let ?api = "monitor (delete_allowed n K bound) api"
  have "safe_at s (bindE (unbind_all ?api B) (\<lambda>_. delete_or_gone ?api (DeleteServer n) (modify_cr (SetConditions Deleting))))"
  proof (rule safe_at_bindE)
    show "safe_at s (unbind_all ?api B)"
      using B by (intro safe_at_unbind_all[OF srv, where D = "{}"]) auto
  next
    fix x s' assume "unbind_all ?api B s = (Inr x, s')"
    with unbind_all_Inr[OF fip_service_monitor[OF srv]] K
    have "delete_allowed n K bound (fst (world s')) (DeleteServer n)" by fastforce
    then show "safe_at s' (delete_or_gone ?api (DeleteServer n) (modify_cr (SetConditions Deleting)))"
      unfolding delete_or_gone_def
      by (intro safe_at_bindE safe_at_attempt safe_at_call_classify) (auto simp: on_not_found_def split: sum.split)
  qed
  with id B(1) show ?thesis by (simp add: server_Delete_def bindE_gets safe_at_def)
qed

lemma server_Observe_run:
  assumes "DecodeID (external_name (cr s)) = Some n"
  shows "server_Observe api e s = fetch_or_absent api ''compute/server'' as_server (GetServer n) (observe_server api e) s"
  using assms by (simp add: server_Observe_def bindE_gets)

lemma server_Observe_present:
  assumes "DecodeID (external_name (cr s)) = Some n" "server_Observe api e s = (Inr ob, s')" "ResourceExists ob"
  obtains resp v s1 where "fst (api (world s) (GetServer n)) = Resp resp" "resp_payload resp = Some (PServer v)"
    "s1 = after_call api (GetServer n) s" "observe_server api e v s1 = (Inr ob, s')"
  using fetch_or_absent_Inr[OF assms(2)[unfolded server_Observe_run[OF assms(1)]] assms(3)] as_server_Some by blast

lemma safe_server_Observe:
  assumes "\<And>w k. ok w (GetServer k)" "\<And>w f. ok w (SvGetFloatingIp f)"
  shows "safe (server_Observe (monitor ok api) e)"
proof -
  have "safe (observe_server (monitor ok api) e v)" for v
    unfolding observe_server_def observeBoundFloatingIPs_def
    by (intro safe_bindE safe_simple safe_observe_bound assms)
  then show ?thesis
    unfolding server_Observe_def fetch_or_absent_def on_not_found_def
    by (auto intro!: safe_bindE safe_attempt safe_call_classify assms safe_decode split: option.split sum.split)
qed

text \<open>
  C22. Deleting a server that \<^verbatim>\<open>Observe\<close> has found releases only addresses bound to it, and sends the DELETE, for this
  server only, once none of the addresses it declares or was recorded with is bound to it any more.
\<close>

theorem server_Delete_releases:
  assumes "fip_service api n bound on"
    and "DecodeID (external_name (cr s)) = Some n" and "float32_int n = n"
    and "observe_then_delete (monitor (delete_allowed n (set (fip_candidates e (cr s))) bound) api) e s = (r, s')"
    and "snd (world s)"
  shows "snd (world s')"
proof -
  let ?ok = "delete_allowed n (set (fip_candidates e (cr s))) bound"
  let ?api = "monitor ?ok api"
  note srv = fip_service_monitor[OF assms(1), of ?ok]
  have "safe_at s (observe_then_delete ?api e)"
    unfolding observe_then_delete_def
  proof (rule safe_at_bindE)
    show "safe_at s (server_Observe ?api e)" by (rule safe_atI[OF safe_server_Observe]) simp_all
  next
    fix ob s1 assume ob: "server_Observe ?api e s = (Inr ob, s1)"
    show "safe_at s1 (if ResourceExists ob then server_Delete ?api else returnOk ())"
    proof (cases "ResourceExists ob")
      case True
      from server_Observe_present[OF assms(2) ob True] obtain resp v s0 where
        v: "fst (?api (world s) (GetServer n)) = Resp resp" "resp_payload resp = Some (PServer v)"
          "s0 = after_call ?api (GetServer n) s" "observe_server ?api e v s0 = (Inr ob, s1)" by blast
      have "float32_int (vds_Id v) = n" using fip_serviceD(6)[OF srv v(1,2)] assms(3) by simp
      from observe_server_Inr[OF srv this v(4)] v(3)
      have "safe_at s1 (server_Delete ?api)"
        using assms(2) by (intro safe_at_server_Delete[OF assms(1)]) auto
      with True show ?thesis by simp
    qed simp
  qed
  with assms(4,5) show ?thesis by (simp add: safe_at_def)
qed

section \<open>A concrete service\<close>

text \<open>What a PATCH does to a server.\<close>

definition patched_server :: "server_patch \<Rightarrow> vds \<Rightarrow> vds" where
  "patched_server u v = v\<lparr>
     vds_Name := (case svu_Name u of None \<Rightarrow> vds_Name v | Some x \<Rightarrow> x),
     vds_Comment := (case svu_Comment u of None \<Rightarrow> vds_Comment v | Some x \<Rightarrow> x),
     vds_CloudInit := (case svu_CloudInit u of None \<Rightarrow> vds_CloudInit v | Some x \<Rightarrow> Some x)\<rparr>"

text \<open>The service keeps one running server, number 7, and the bindings of the addresses.\<close>

definition wit_server :: "vds \<Rightarrow> vds" where
  "wit_server v = v\<lparr>vds_Id := 7, vds_Status := ''on''\<rparr>"

definition wit_fip_of :: "int option \<Rightarrow> floating_ip" where
  "wit_fip_of b = \<lparr>ip_Id = ''f'', ip_Ip = None, ip_AvailabilityZone = ''spb-3'', ip_IsDdosGuard = False, ip_Comment = None,
     ip_ResourceType = Some ''server'', ip_ResourceId = map_option RidNumber b\<rparr>"

definition wit_server_api :: "(vds \<times> (string \<Rightarrow> int option)) server_api" where
  "wit_server_api w q = (case w of (v, b) \<Rightarrow> let ok = Resp (ok_response (PServer (wit_server v))) in case q of
     SvGetFloatingIp f \<Rightarrow> (Resp (ok_response (PServerFip (wit_fip_of (b f)))), w)
   | SvBindFloatingIp f k \<Rightarrow> (ok, (v, b(f := Some k)))
   | SvUnbindFloatingIp f \<Rightarrow> (ok, (v, b(f := None)))
   | UpdateServer k u \<Rightarrow> (ok, (patched_server u v, b))
   | _ \<Rightarrow> (ok, w))"

definition wit_bound :: "vds \<times> (string \<Rightarrow> int option) \<Rightarrow> string \<Rightarrow> int option" where
  "wit_bound w f = map_option float32_int (snd w f)"

lemma wit_fip_bound [simp]: "fip_bound_of (wit_fip_of b) = map_option float32_int b"
  by (simp add: fip_bound_of_def wit_fip_of_def AsFloatingIpResourceId0_def split: option.split)

lemma wit_server_api_runs:
  "wit_server_api (v, b) (SvGetFloatingIp f) = (Resp (ok_response (PServerFip (wit_fip_of (b f)))), (v, b))"
  "wit_server_api (v, b) (SvBindFloatingIp f k) = (Resp (ok_response (PServer (wit_server v))), (v, b(f := Some k)))"
  "wit_server_api (v, b) (SvUnbindFloatingIp f) = (Resp (ok_response (PServer (wit_server v))), (v, b(f := None)))"
  "wit_server_api (v, b) (UpdateServer k u) = (Resp (ok_response (PServer (wit_server v))), (patched_server u v, b))"
  "wit_server_api (v, b) (GetServer k) = (Resp (ok_response (PServer (wit_server v))), (v, b))"
  "wit_server_api (v, b) (DeleteServer k) = (Resp (ok_response (PServer (wit_server v))), (v, b))"
  "wit_server_api (v, b) (CreateServer body) = (Resp (ok_response (PServer (wit_server v))), (v, b))"
  "wit_server_api (v, b) (SvGetVPC n) = (Resp (ok_response (PServer (wit_server v))), (v, b))"
  by (simp_all add: wit_server_api_def Let_def)

lemma EqualFold_on: "EqualFold ''on'' ''on''"
  by code_simp

lemma wit_fip_service: "fip_service wit_server_api 7 wit_bound (\<lambda>w. True)"
  unfolding fip_service_def
proof (intro allI conjI impI)
  fix w :: "vds \<times> (string \<Rightarrow> int option)" and q g
  assume "g \<notin> touches q"
  then show "wit_bound (snd (wit_server_api w q)) g = wit_bound w g"
    by (cases w; cases q) (auto simp: wit_server_api_runs wit_bound_def touches_def)
next
  fix w :: "vds \<times> (string \<Rightarrow> int option)" and f resp ip
  assume "fst (wit_server_api w (SvGetFloatingIp f)) = Resp resp" "resp_payload resp = Some (PServerFip ip)"
  then show "fip_bound_of ip = wit_bound w f"
    by (cases w) (auto simp: wit_server_api_runs ok_response_def wit_bound_def)
next
  fix w :: "vds \<times> (string \<Rightarrow> int option)" and f err
  assume "classify_result (fst (wit_server_api w (SvGetFloatingIp f))) = Inl err"
  then show "wit_bound w f = None"
    by (cases w) (simp add: wit_server_api_runs ok_response_def classify_result_def Classify_def)
next
  fix w :: "vds \<times> (string \<Rightarrow> int option)" and f
  show "wit_bound (snd (wit_server_api w (SvUnbindFloatingIp f))) f = None"
    by (cases w) (simp add: wit_server_api_runs wit_bound_def)
next
  fix w :: "vds \<times> (string \<Rightarrow> int option)" and resp v
  assume "fst (wit_server_api w (GetServer 7)) = Resp resp" "resp_payload resp = Some (PServer v)"
  then show "vds_Id v = 7" "True = EqualFold (vds_Status v) ''on''"
    by (cases w; auto simp: wit_server_api_runs ok_response_def wit_server_def EqualFold_on)+
qed simp_all

definition wit_vds :: vds where
  "wit_vds = \<lparr>vds_Id = 7, vds_Name = ''old'', vds_Comment = [], vds_Status = ''on'', vds_Location = ''ru-1'',
     vds_AvailabilityZone = ''spb-3'', vds_PresetId = Some 4, vds_ConfiguratorId = None, vds_OsId = 99, vds_CloudInit = None, vds_Networks = []\<rparr>"

definition wit_server_fp :: server_parameters where
  "wit_server_fp = \<lparr>svp_Name = ''web'', svp_PresetName = Some ''s'', svp_Resources = None, svp_Location = ''ru-1'',
     svp_OS = \<lparr>so_Image = ''ubuntu'', so_Version = ''24.04''\<rparr>, svp_Hostname = None, svp_Comment = None, svp_CloudInit = None,
     svp_AvailabilityZone = None, svp_SSHKeyRefs = [], svp_SSHKeySelector = None, svp_SSHKeyIDs = [], svp_NetworkRef = None,
     svp_NetworkSelector = None, svp_NetworkID = None, svp_ProjectRef = None, svp_ProjectSelector = None, svp_ProjectID = None,
     svp_FloatingIPRefs = [], svp_FloatingIPSelector = None, svp_FloatingIPIDs = [''a'']\<rparr>"

definition wit_server_mr :: server_mr where
  "wit_server_mr = \<lparr>external_name = ''7'', create_incomplete = False, create_failed = [], for_provider = wit_server_fp,
     at_provider = \<lparr>svo_UpstreamID = Some 7, svo_LockedPresetID = Some 4, svo_LockedOSID = None, svo_LockedConfiguratorID = None,
       svo_PublicIP = None, svo_PublicIPv6 = None, svo_PrivateIP = None, svo_ResolvedNetworkID = None, svo_ResolvedProjectID = None,
       svo_ResolvedSSHKeyIDs = [], svo_BoundFloatingIPs = [''b''], svo_State = None, svo_AvailabilityZone = None\<rparr>,
     conditions = (\<lambda>_. None)\<rparr>"

definition wit_server_ext :: server_ext where
  "wit_server_ext = \<lparr>se_pcRef = \<lparr>pc_Kind = ''ProviderConfig'', pc_Name = ''default'', pc_Namespace = ''ns''\<rparr>,
     se_resolved = \<lparr>rf_projectID = None, rf_sshKeyIDs = [], rf_networkID = None, rf_floatingIPIDs = [''a'']\<rparr>\<rparr>"

text \<open>Address \<open>b\<close> is bound to the server and no longer declared; \<open>a\<close> is declared and free.\<close>

definition wit_server_world :: "vds \<times> (string \<Rightarrow> int option)" where
  "wit_server_world = (wit_vds, (\<lambda>f. if f = ''b'' then Some 7 else None))"

definition wit_server_watched :: "((vds \<times> (string \<Rightarrow> int option)) \<times> bool, server_req, server_parameters, server_observation) rstate" where
  "wit_server_watched = wit_state (wit_server_world, True) wit_server_mr"

lemma wit_server_watched_simps [simp]: "external_name (cr wit_server_watched) = ''7''" "snd (world wit_server_watched)"
  by (simp_all add: wit_server_watched_def wit_state_def wit_server_mr_def)

theorem server_Update_bindings_witness:
  "snd (world (snd (server_Update (monitor (update_allowed 7 {''a''} wit_bound (\<lambda>w. True)) wit_server_api) wit_server_ext wit_server_watched)))"
proof -
  have id: "DecodeID (external_name (cr wit_server_watched)) = Some 7" unfolding wit_server_watched_simps by code_simp
  have D: "set (rf_floatingIPIDs (se_resolved wit_server_ext)) = {''a''}" by (simp add: wit_server_ext_def)
  show ?thesis
    by (rule server_Update_bindings[where e = wit_server_ext, unfolded D, OF wit_fip_service id prod.collapse[symmetric] wit_server_watched_simps(2)])
qed

theorem server_Delete_releases_witness:
  "snd (world (snd (observe_then_delete (monitor (delete_allowed 7 (set (fip_candidates wit_server_ext (cr wit_server_watched))) wit_bound)
     wit_server_api) wit_server_ext wit_server_watched)))"
proof -
  have id: "DecodeID (external_name (cr wit_server_watched)) = Some 7" unfolding wit_server_watched_simps by code_simp
  have f: "float32_int 7 = 7" by (rule float32_int_exact) simp
  show ?thesis
    by (rule server_Delete_releases[OF wit_fip_service id f prod.collapse[symmetric] wit_server_watched_simps(2)])
qed

end
