(* ===== verification/ServerConverge.thy ===== *)
theory ServerConverge
  imports ServerSafety
begin

text \<open>
  Convergence of the Server handlers over a service that does what it is asked: after one round of \<^verbatim>\<open>Observe\<close> and
  \<^verbatim>\<open>Update\<close> the next \<^verbatim>\<open>Observe\<close> finds the server as declared, its floating IPs included. The last part is about the
  addresses read from the answer.
\<close>

declare run_equations [simp del]

section \<open>A service\<close>

text \<open>
  \<open>store w\<close> is server \<open>n\<close>, \<open>bound w f\<close> the server address \<open>f\<close> is bound to. Reading changes nothing, a bind or an
  unbind sets the binding of its address, a PATCH replaces the fields it carries.
\<close>

definition server_service :: "'w server_api \<Rightarrow> int \<Rightarrow> ('w \<Rightarrow> vds option) \<Rightarrow> ('w \<Rightarrow> string \<Rightarrow> int option) \<Rightarrow> bool" where
  "server_service api n store bound \<longleftrightarrow> (\<forall>w v. store w = Some v \<longrightarrow> vds_Id v = n \<and>
     answers api w (GetServer n) (PServer v) w \<and>
     (\<forall>f. \<exists>ip. answers api w (SvGetFloatingIp f) (PServerFip ip) w \<and> fip_bound_of ip = bound w f) \<and>
     (\<forall>f. \<exists>p w'. answers api w (SvBindFloatingIp f n) p w' \<and> store w' = Some v \<and> bound w' = (bound w)(f := Some n)) \<and>
     (\<forall>f. \<exists>p w'. answers api w (SvUnbindFloatingIp f) p w' \<and> store w' = Some v \<and> bound w' = (bound w)(f := None)) \<and>
     (\<forall>u. \<exists>p w'. answers api w (UpdateServer n u) p w' \<and> store w' = Some (patched_server u v) \<and> bound w' = bound w))"

lemma server_serviceD:
  assumes "server_service api n store bound" "store w = Some v"
  shows "vds_Id v = n" "answers api w (GetServer n) (PServer v) w"
    "\<exists>ip. answers api w (SvGetFloatingIp f) (PServerFip ip) w \<and> fip_bound_of ip = bound w f"
    "\<exists>p w'. answers api w (SvBindFloatingIp f n) p w' \<and> store w' = Some v \<and> bound w' = (bound w)(f := Some n)"
    "\<exists>p w'. answers api w (SvUnbindFloatingIp f) p w' \<and> store w' = Some v \<and> bound w' = (bound w)(f := None)"
    "\<exists>p w'. answers api w (UpdateServer n u) p w' \<and> store w' = Some (patched_server u v) \<and> bound w' = bound w"
  using assms unfolding server_service_def by blast+

section \<open>The helpers run\<close>

lemma floatingIPBoundServer_runs:
  assumes srv: "server_service api n store bound" and st: "store (world s) = Some v"
  shows "floatingIPBoundServer api f s = (Inr (bound (world s) f), s\<lparr>reqs := reqs s @ [SvGetFloatingIp f]\<rparr>)"
proof -
  from server_serviceD(3)[OF srv st] obtain ip where ip: "answers api (world s) (SvGetFloatingIp f) (PServerFip ip) (world s)"
      "fip_bound_of ip = bound (world s) f" by blast
  from answers_classify[OF ip(1)] obtain resp where "classify_result (fst (api (world s) (SvGetFloatingIp f))) = Inr resp"
      "resp_payload resp = Some (PServerFip ip)" "snd (api (world s) (SvGetFloatingIp f)) = world s" by blast
  then show ?thesis
    using ip(2) by (simp add: floatingIPBoundServer_def run_equations on_not_found_def decode_def fip_bound_of_def bindE_returnOk)
qed

lemma observe_bound_runs:
  assumes srv: "server_service api n store bound"
  shows "store (world s) = Some v \<Longrightarrow> \<exists>s'. observe_bound api k ids acc s = (Inr (acc @ filter (\<lambda>f. bound (world s) f = Some k) ids), s') \<and>
    world s' = world s \<and> cr s' = cr s"
proof (induction ids arbitrary: acc s)
  case Nil
  then show ?case by (simp add: returnOk_run)
next
  case (Cons f ids)
  let ?s = "s\<lparr>reqs := reqs s @ [SvGetFloatingIp f]\<rparr>"
  from Cons.IH[of ?s "if bound (world s) f = Some k then acc @ [f] else acc"] Cons.prems show ?case
    by (auto simp: bindE_step(1)[where m = "floatingIPBoundServer api f" and s = s, OF floatingIPBoundServer_runs[OF srv Cons.prems]])
qed

lemma unbind_all_runs:
  assumes srv: "server_service api n store bound"
  shows "store (world s) = Some v \<Longrightarrow> \<exists>s'. unbind_all api ids s = (Inr (), s') \<and> cr s' = cr s \<and> store (world s') = Some v \<and>
    bound (world s') = (\<lambda>f. if f \<in> set ids then None else bound (world s) f)"
proof (induction ids arbitrary: s)
  case Nil
  then show ?case by (simp add: returnOk_run)
next
  case (Cons f ids)
  from server_serviceD(5)[OF srv Cons.prems] obtain p w' where w': "answers api (world s) (SvUnbindFloatingIp f) p w'"
      "store w' = Some v" "bound w' = (bound (world s))(f := None)" by blast
  let ?s = "s\<lparr>world := w', reqs := reqs s @ [SvUnbindFloatingIp f]\<rparr>"
  from answers_classify[OF w'(1)] have run: "unbindFloatingIP api f s = (Inr (), ?s)"
    by (auto simp: unbindFloatingIP_def delete_or_gone_def on_not_found_def run_equations)
  from Cons.IH[of ?s] w'(2) obtain s' where s': "unbind_all api ids ?s = (Inr (), s')" "cr s' = cr s" "store (world s') = Some v"
      "bound (world s') = (\<lambda>g. if g \<in> set ids then None else bound w' g)" by (auto cong: if_cong)
  with w'(3) show ?case
    by (auto simp: bindE_step(1)[where m = "unbindFloatingIP api f" and s = s, OF run] fun_eq_iff)
qed

lemma bind_missing_runs:
  assumes srv: "server_service api n store bound" and id: "float32_int n = n"
  shows "store (world s) = Some v \<Longrightarrow> \<exists>s'. bind_missing api n B True ids s = (Inr (), s') \<and> cr s' = cr s \<and> store (world s') = Some v \<and>
    bound (world s') = (\<lambda>f. if f \<in> set ids - B then Some n else bound (world s) f)"
proof (induction ids arbitrary: s)
  case Nil
  then show ?case by (simp add: returnOk_run)
next
  case (Cons f ids)
  show ?case
  proof (cases "f \<in> B")
    case True
    from Cons.IH[OF Cons.prems] True show ?thesis by (auto simp: fun_eq_iff)
  next
    case False
    from server_serviceD(4)[OF srv Cons.prems] obtain p w' where w': "answers api (world s) (SvBindFloatingIp f n) p w'"
        "store w' = Some v" "bound w' = (bound (world s))(f := Some n)" by blast
    let ?s = "s\<lparr>world := w', reqs := reqs s @ [SvBindFloatingIp f n]\<rparr>"
    have run: "bindFloatingIP api f n s = (Inr (), ?s)"
      using write_call_run[OF w'(1)] id by (simp add: bindFloatingIP_def)
    from Cons.IH[of ?s] w'(2) obtain s' where s': "bind_missing api n B True ids ?s = (Inr (), s')" "cr s' = cr s" "store (world s') = Some v"
        "bound (world s') = (\<lambda>g. if g \<in> set ids - B then Some n else bound w' g)" by (auto cong: if_cong)
    with w'(3) False show ?thesis
      by (auto simp: bindE_step(1)[where m = "bindFloatingIP api f n" and s = s, OF run] fun_eq_iff)
  qed
qed

lemma reconcile_runs:
  assumes srv: "server_service api n store bound" and id: "float32_int n = n" and st: "store (world s) = Some v"
    and B: "\<forall>f \<in> set B. bound (world s) f = Some n"
  shows "\<exists>s'. reconcileFloatingIPBindings api n D B True s = (Inr (), s') \<and> cr s' = cr s \<and> store (world s') = Some v \<and>
    bound (world s') = (\<lambda>f. if f \<in> set D then Some n else if f \<in> set B then None else bound (world s) f)"
proof -
  from unbind_all_runs[OF srv st, of "filter (\<lambda>f. f \<notin> set D) (dedupeStrings B)"] obtain s1 where
    s1: "unbind_all api (filter (\<lambda>f. f \<notin> set D) (dedupeStrings B)) s = (Inr (), s1)" "cr s1 = cr s" "store (world s1) = Some v"
      "bound (world s1) = (\<lambda>f. if f \<in> set B - set D then None else bound (world s) f)" by auto
  from bind_missing_runs[OF srv id s1(3), of "set B" "dedupeStrings D"] obtain s2 where
    s2: "bind_missing api n (set B) True (dedupeStrings D) s1 = (Inr (), s2)" "cr s2 = cr s1" "store (world s2) = Some v"
      "bound (world s2) = (\<lambda>f. if f \<in> set D - set B then Some n else bound (world s1) f)" by auto
  have "reconcileFloatingIPBindings api n D B True s = (Inr (), s2)"
    using s1(1) s2(1) by (simp add: reconcileFloatingIPBindings_def bindE_step(1))
  moreover have "bound (world s2) = (\<lambda>f. if f \<in> set D then Some n else if f \<in> set B then None else bound (world s) f)"
    using s1(4) s2(4) B by (auto simp: fun_eq_iff)
  ultimately show ?thesis using s1 s2 by simp
qed

section \<open>Observe and Update run\<close>

lemma server_Observe_runs:
  assumes srv: "server_service api n store bound" and id: "float32_int n = n" "DecodeID (external_name (cr s)) = Some n"
    and st: "store (world s) = Some v"
    and b: "b = filter (\<lambda>f. bound (world s) f = Some n) (dedupeStrings (fip_candidates e (cr s)))"
  shows "\<exists>ob s'. server_Observe api e s = (Inr ob, s') \<and> cr s' = set_bound b (refreshed e v (cr s)) \<and> world s' = world s \<and>
    ResourceExists ob \<and> (ResourceUpToDate ob \<longleftrightarrow>
      isServerUpToDate (for_provider (cr s)) (at_provider (cr s')) v \<and> set b = set (rf_floatingIPIDs (se_resolved e)))"
proof -
  let ?s = "s\<lparr>reqs := reqs s @ [GetServer n]\<rparr>"
  have v: "vds_Id v = n" "answers api (world s) (GetServer n) (PServer v) (world s)" by (rule server_serviceD[OF srv st])+
  from answers_classify[OF v(2)] have run: "server_Observe api e s = observe_server api e v ?s"
    by (auto simp: server_Observe_run[OF id(2)] fetch_or_absent_def on_not_found_def attempt_call_run decode_def)
  from observe_bound_runs[OF srv, of "refreshed_state e v ?s" v n "dedupeStrings (fip_candidates e (cr s))" "[]"] st obtain s1 where
    s1: "observe_bound api n (dedupeStrings (fip_candidates e (cr s))) [] (refreshed_state e v ?s) = (Inr b, s1)"
      "world s1 = world s" "cr s1 = refreshed e v (cr s)" using b by auto
  then show ?thesis
    by (simp add: run observe_server_run v(1) id observeBoundFloatingIPs_def bindE_step(1)[where m = "observe_bound api n _ _", OF s1(1)]
        bindE_modify_cr bindE_gets returnOk_run stringSetsEqual_iff present_def)
qed

lemma patched_server_none: "svu_Name u = None \<Longrightarrow> svu_Comment u = None \<Longrightarrow> svu_CloudInit u = None \<Longrightarrow> patched_server u v = v"
  by (simp add: patched_server_def)

lemma patch_server_runs:
  assumes srv: "server_service api n store bound" and st: "store (world s) = Some v"
  shows "\<exists>s'. patch_server api n fp v s = (Inr (), s') \<and> cr s' = cr s \<and> store (world s') = Some (patched_server (server_patch_of fp v) v) \<and>
    bound (world s') = bound (world s)"
proof (cases "svu_Name (server_patch_of fp v) = None \<and> svu_Comment (server_patch_of fp v) = None \<and> svu_CloudInit (server_patch_of fp v) = None")
  case True
  with st show ?thesis by (simp add: patch_server_def Let_def returnOk_run patched_server_none)
next
  case False
  from server_serviceD(6)[OF srv st] obtain p w' where w': "answers api (world s) (UpdateServer n (server_patch_of fp v)) p w'"
      "store w' = Some (patched_server (server_patch_of fp v) v)" "bound w' = bound (world s)" by blast
  have "patch_server api n fp v = write_call api (UpdateServer n (server_patch_of fp v))"
    using False by (auto simp: patch_server_def Let_def)
  with write_call_run[OF w'(1)] w'(2,3) show ?thesis by simp
qed

lemma server_Update_runs:
  assumes srv: "server_service api n store bound" and id: "float32_int n = n" "DecodeID (external_name (cr s)) = Some n"
    and st: "store (world s) = Some v" and running: "EqualFold (vds_Status v) ''on''"
    and guards: "server_guards (for_provider (cr s)) (at_provider (cr s)) v = None"
  shows "\<exists>s'. server_Update api e s = (Inr (), s') \<and> cr s' = cr s \<and>
    store (world s') = Some (patched_server (server_patch_of (for_provider (cr s)) v) v) \<and>
    (\<forall>f. f \<in> set (fip_candidates e (cr s)) \<longrightarrow> (bound (world s') f = Some n \<longleftrightarrow> f \<in> set (rf_floatingIPIDs (se_resolved e))))"
proof -
  let ?s = "s\<lparr>reqs := reqs s @ [GetServer n]\<rparr>" and ?D = "rf_floatingIPIDs (se_resolved e)"
  let ?B = "filter (\<lambda>f. bound (world s) f = Some n) (dedupeStrings (fip_candidates e (cr s)))"
  have get: "fetch api ''compute/server'' as_server (GetServer n) s = (Inr v, ?s)"
    using fetch_sel_run[OF server_serviceD(2)[OF srv st], of as_server v] by simp
  from observe_bound_runs[OF srv, of ?s v n "dedupeStrings (fip_candidates e (cr s))" "[]"] st obtain s1 where
    s1: "observeBoundFloatingIPs api (fip_candidates e (cr s)) n ?s = (Inr ?B, s1)" "world s1 = world s" "cr s1 = cr s"
    by (auto simp: observeBoundFloatingIPs_def)
  from reconcile_runs[OF srv id(1), of s1 v ?B ?D] s1 st obtain s2 where
    s2: "reconcileFloatingIPBindings api n ?D ?B True s1 = (Inr (), s2)" "cr s2 = cr s" "store (world s2) = Some v"
      "bound (world s2) = (\<lambda>f. if f \<in> set ?D then Some n else if f \<in> set ?B then None else bound (world s) f)"
    by (auto cong: if_cong)
  from patch_server_runs[OF srv s2(3), of "for_provider (cr s)"] obtain s3 where
    s3: "patch_server api n (for_provider (cr s)) v s2 = (Inr (), s3)" "cr s3 = cr s2"
      "store (world s3) = Some (patched_server (server_patch_of (for_provider (cr s)) v) v)" "bound (world s3) = bound (world s2)" by blast
  have "update_server api e n v ?s = (Inr (), s3)"
    using guards running s1(1) s2(1) s3(1)
    by (simp add: update_server_def Let_def bindE_gets bindE_step(1)[where m = "observeBoundFloatingIPs api _ n", OF s1(1)]
        bindE_step(1)[where m = "reconcileFloatingIPBindings api n _ _ _", OF s2(1)])
  then have "server_Update api e s = (Inr (), s3)"
    using id(2) by (simp add: server_Update_def bindE_gets bindE_step(1)[where m = "fetch api _ _ _", OF get])
  with s2 s3 show ?thesis by auto
qed

section \<open>Convergence\<close>

definition server_round :: "'w server_api \<Rightarrow> server_ext \<Rightarrow> ('w, observation) server_act" where
  "server_round api e = bindE (server_Observe api e) (\<lambda>_. bindE (server_Update api e) (\<lambda>_. server_Observe api e))"

lemma lock_id_idem [simp]: "lock_id p (lock_id p x) = lock_id p x"
  by (simp add: lock_id_def split: option.split)

lemma isServerUpToDate_iff:
  "isServerUpToDate fp st v \<longleftrightarrow> (svp_PresetName fp = None \<or> svo_LockedConfiguratorID st = None) \<and>
     (svp_Resources fp = None \<or> svo_LockedPresetID st = None) \<and> svp_Name fp = vds_Name v \<and>
     (svp_Comment fp = None \<or> svp_Comment fp = Some (vds_Comment v)) \<and>
     (svp_CloudInit fp = None \<or> DerefString (svp_CloudInit fp) = DerefString (vds_CloudInit v))"
  unfolding isServerUpToDate_def by meson

lemma server_guards_sizing:
  assumes "server_guards fp st v = None"
  shows "svp_Resources fp \<noteq> None \<Longrightarrow> svo_LockedPresetID st = None" "svp_Resources fp = None \<Longrightarrow> svo_LockedConfiguratorID st = None"
  using assms unfolding server_guards_def by (metis option.discI)+

lemma patched_server_fields:
  "vds_Name (patched_server (server_patch_of fp v) v) = svp_Name fp"
  "svp_Comment fp \<noteq> None \<Longrightarrow> svp_Comment fp = Some (vds_Comment (patched_server (server_patch_of fp v) v))"
  "svp_CloudInit fp \<noteq> None \<Longrightarrow> svp_CloudInit fp = vds_CloudInit (patched_server (server_patch_of fp v) v)"
  "vds_PresetId (patched_server u v) = vds_PresetId v" "vds_ConfiguratorId (patched_server u v) = vds_ConfiguratorId v"
  "vds_Id (patched_server u v) = vds_Id v"
  by (auto simp: patched_server_def server_patch_of_def split: option.split)

lemma patched_up_to_date:
  assumes "server_guards fp st v = None" "svp_PresetName fp = None \<or> svp_Resources fp = None"
    and "svo_LockedPresetID st' = svo_LockedPresetID st" "svo_LockedConfiguratorID st' = svo_LockedConfiguratorID st"
  shows "isServerUpToDate fp st' (patched_server (server_patch_of fp v) v)"
  unfolding isServerUpToDate_iff assms(3,4)
  using server_guards_sizing[OF assms(1)] assms(2) patched_server_fields(1-3)[where fp = fp and v = v] by metis

lemma server_guards_locks:
  assumes "svo_LockedPresetID st' = svo_LockedPresetID st" "svo_LockedConfiguratorID st' = svo_LockedConfiguratorID st"
    "svo_LockedOSID st' = svo_LockedOSID st"
  shows "server_guards fp st' v = server_guards fp st v"
  by (simp only: server_guards_def assms)

text \<open>
  C23. One round converges a running server. When \<^verbatim>\<open>Update\<close>'s guards pass and the service does what it is asked, \<^verbatim>\<open>Observe\<close>,
  \<^verbatim>\<open>Update\<close> and \<^verbatim>\<open>Observe\<close> again all succeed, and the last one reports the server as up to date, with exactly the declared
  floating IPs bound to it.
\<close>

theorem server_round_converges:
  assumes srv: "server_service api n store bound" and id: "float32_int n = n" "DecodeID (external_name (cr s)) = Some n"
    and st: "store (world s) = Some v" and running: "EqualFold (vds_Status v) ''on''"
    and sizing: "svp_PresetName (for_provider (cr s)) = None \<or> svp_Resources (for_provider (cr s)) = None"
    and guards: "server_guards (for_provider (cr s)) (at_provider (refreshed e v (cr s))) v = None"
  shows "\<exists>ob s'. server_round api e s = (Inr ob, s') \<and> ResourceExists ob \<and> ResourceUpToDate ob \<and>
    set (svo_BoundFloatingIPs (at_provider (cr s'))) = set (rf_floatingIPIDs (se_resolved e))"
proof -
  let ?D = "rf_floatingIPIDs (se_resolved e)" and ?fp = "for_provider (cr s)"
  let ?v = "patched_server (server_patch_of ?fp v) v"
  let ?b = "filter (\<lambda>f. bound (world s) f = Some n) (dedupeStrings (fip_candidates e (cr s)))"
  from server_Observe_runs[OF srv id st refl, of e] obtain ob1 s1 where
    o1: "server_Observe api e s = (Inr ob1, s1)" "cr s1 = set_bound ?b (refreshed e v (cr s))" "world s1 = world s" by blast
  have "DecodeID (external_name (cr s1)) = Some n" "store (world s1) = Some v"
      "server_guards (for_provider (cr s1)) (at_provider (cr s1)) v = None"
    using id st guards o1 server_guards_locks[of "at_provider (cr s1)" "at_provider (refreshed e v (cr s))"] by simp_all
  from server_Update_runs[OF srv id(1) this(1,2) running this(3), of e] o1(2) obtain s2 where
    u: "server_Update api e s1 = (Inr (), s2)" "cr s2 = cr s1" "store (world s2) = Some ?v"
      "\<forall>f \<in> set (fip_candidates e (cr s1)). bound (world s2) f = Some n \<longleftrightarrow> f \<in> set ?D" by auto
  let ?b2 = "filter (\<lambda>f. bound (world s2) f = Some n) (dedupeStrings (fip_candidates e (cr s2)))"
  have "DecodeID (external_name (cr s2)) = Some n" using id o1(2) u(2) by simp
  from server_Observe_runs[OF srv id(1) this u(3) refl, of e] obtain ob2 s3 where
    o2: "server_Observe api e s2 = (Inr ob2, s3)" "cr s3 = set_bound ?b2 (refreshed e ?v (cr s2))" "ResourceExists ob2"
      "ResourceUpToDate ob2 \<longleftrightarrow> isServerUpToDate (for_provider (cr s2)) (at_provider (cr s3)) ?v \<and> set ?b2 = set ?D" by blast
  have b2: "set ?b2 = set ?D"
    using u(2,4) fip_candidates_declared[of e "cr s1"] by auto
  have "isServerUpToDate ?fp (at_provider (cr s3)) ?v"
    using o2(2) u(2) o1(2) by (intro patched_up_to_date[OF guards sizing]) (simp_all add: patched_server_fields)
  with b2 o2 u(2) o1(2) have "ResourceUpToDate ob2" by simp
  moreover have "server_round api e s = (Inr ob2, s3)"
    by (simp add: server_round_def bindE_step(1)[where m = "server_Observe api e" and s = s, OF o1(1)] bindE_step(1)[where m = "server_Update api e", OF u(1)] o2(1))
  ultimately show ?thesis using o2(2,3) b2 by simp
qed

lemma wit_server_service: "server_service wit_server_api 7 (\<lambda>w. Some (wit_server (fst w))) wit_bound"
proof -
  have seven: "float32_int 7 = 7" by (rule float32_int_exact) simp
  have patched: "wit_server (patched_server u v) = patched_server u (wit_server v)" for u v
    by (cases "svu_Name u"; cases "svu_Comment u"; cases "svu_CloudInit u") (simp_all add: wit_server_def patched_server_def)
  have bound: "wit_bound (v, b(f := x)) = (wit_bound (v, b))(f := map_option float32_int x)" for v b f x
    by (auto simp: wit_bound_def fun_eq_iff)
  show ?thesis
    unfolding server_service_def
  proof (intro allI impI)
    fix w :: "vds \<times> (string \<Rightarrow> int option)" and x assume "Some (wit_server (fst w)) = Some x"
    then obtain v b where w: "w = (v, b)" "x = wit_server v" by (cases w) auto
    have "\<exists>ip. answers wit_server_api w (SvGetFloatingIp f) (PServerFip ip) w \<and> fip_bound_of ip = wit_bound w f" for f
      by (intro exI conjI answers_ok) (simp_all add: w wit_server_api_runs, simp add: wit_bound_def)
    moreover have "answers wit_server_api w (GetServer 7) (PServer x) w" "vds_Id x = 7"
      by (intro answers_ok, simp add: w wit_server_api_runs) (simp add: w wit_server_def)
    moreover have "\<exists>p w'. answers wit_server_api w (SvBindFloatingIp f 7) p w' \<and> Some (wit_server (fst w')) = Some x \<and> wit_bound w' = (wit_bound w)(f := Some 7)" for f
      by (intro exI conjI answers_ok, simp add: w wit_server_api_runs) (simp_all add: w bound seven)
    moreover have "\<exists>p w'. answers wit_server_api w (SvUnbindFloatingIp f) p w' \<and> Some (wit_server (fst w')) = Some x \<and> wit_bound w' = (wit_bound w)(f := None)" for f
      by (intro exI conjI answers_ok, simp add: w wit_server_api_runs) (simp_all add: w bound)
    moreover have "\<exists>p w'. answers wit_server_api w (UpdateServer 7 u) p w' \<and> Some (wit_server (fst w')) = Some (patched_server u x) \<and> wit_bound w' = wit_bound w" for u
      by (intro exI conjI answers_ok, simp add: w wit_server_api_runs) (simp_all add: w patched wit_bound_def fun_eq_iff)
    ultimately show "vds_Id x = 7 \<and> answers wit_server_api w (GetServer 7) (PServer x) w \<and>
       (\<forall>f. \<exists>ip. answers wit_server_api w (SvGetFloatingIp f) (PServerFip ip) w \<and> fip_bound_of ip = wit_bound w f) \<and>
       (\<forall>f. \<exists>p w'. answers wit_server_api w (SvBindFloatingIp f 7) p w' \<and> Some (wit_server (fst w')) = Some x \<and> wit_bound w' = (wit_bound w)(f := Some 7)) \<and>
       (\<forall>f. \<exists>p w'. answers wit_server_api w (SvUnbindFloatingIp f) p w' \<and> Some (wit_server (fst w')) = Some x \<and> wit_bound w' = (wit_bound w)(f := None)) \<and>
       (\<forall>u. \<exists>p w'. answers wit_server_api w (UpdateServer 7 u) p w' \<and> Some (wit_server (fst w')) = Some (patched_server u x) \<and> wit_bound w' = wit_bound w)"
      by blast
  qed
qed

definition wit_server_state :: "(vds \<times> (string \<Rightarrow> int option), server_req, server_parameters, server_observation) rstate" where
  "wit_server_state = wit_state wit_server_world wit_server_mr"

lemma wit_server_state_simps: "world wit_server_state = wit_server_world" "cr wit_server_state = wit_server_mr"
  by (simp_all add: wit_server_state_def wit_state_def)

theorem server_round_converges_witness:
  "\<exists>ob s'. server_round wit_server_api wit_server_ext wit_server_state = (Inr ob, s') \<and> ResourceUpToDate ob \<and>
     set (svo_BoundFloatingIPs (at_provider (cr s'))) = {''a''}"
proof -
  let ?s = wit_server_state
  have f: "float32_int 7 = 7" by (rule float32_int_exact) simp
  have id: "DecodeID (external_name (cr ?s)) = Some 7" by code_simp
  have st: "Some (wit_server (fst (world ?s))) = Some wit_vds"
    by (simp add: wit_server_state_simps wit_server_world_def wit_server_def wit_vds_def)
  have on: "EqualFold (vds_Status wit_vds) ''on''" by code_simp
  have sz: "svp_PresetName (for_provider (cr ?s)) = None \<or> svp_Resources (for_provider (cr ?s)) = None"
    by (simp add: wit_server_state_simps wit_server_mr_def wit_server_fp_def)
  have "float32_int 4 = 4" by (rule float32_int_exact) simp
  then have g: "server_guards (for_provider (cr ?s)) (at_provider (refreshed wit_server_ext wit_vds (cr ?s))) wit_vds = None"
    by (simp add: server_guards_def wit_server_state_simps) (simp add: wit_server_mr_def wit_server_fp_def wit_vds_def lock_id_def)
  have "set (rf_floatingIPIDs (se_resolved wit_server_ext)) = {''a''}" by (simp add: wit_server_ext_def)
  with server_round_converges[OF wit_server_service f id st on sz g] show ?thesis by auto
qed

section \<open>The addresses of a server\<close>

text \<open>Every address of the answer in order, with whether its network is private; the public and the private ones.\<close>

definition tagged_ips :: "vds \<Rightarrow> (bool \<times> string \<times> string) list" where
  "tagged_ips v = concat (map (\<lambda>n. case vn_Ips n of None \<Rightarrow> [] | Some ips \<Rightarrow> map (Pair (is_private (vn_Type n))) ips) (vds_Networks v))"

definition public_ips :: "vds \<Rightarrow> (string \<times> string) list" where
  "public_ips v = map snd (filter (\<lambda>t. \<not> fst t) (tagged_ips v))"

definition private_ips :: "vds \<Rightarrow> (string \<times> string) list" where
  "private_ips v = map snd (filter fst (tagged_ips v))"

definition is_v6 :: "string \<times> string \<Rightarrow> bool" where
  "is_v6 ip \<longleftrightarrow> Contains (ToLower (fst ip)) ''v6''"

definition first_ip :: "(string \<times> string) list \<Rightarrow> string" where
  "first_ip ips = (case ips of [] \<Rightarrow> [] | ip # _ \<Rightarrow> snd ip)"

lemma first_ip_simps [simp]: "first_ip [] = []" "first_ip (ip # ips) = snd ip"
  by (simp_all add: first_ip_def)

lemma extractIPs_fold: "extractIPs v = fold (\<lambda>(pr, ip). extract_ip pr ip) (tagged_ips v) ([], [], [])"
proof -
  have "fold (\<lambda>n. case vn_Ips n of None \<Rightarrow> (\<lambda>slots. slots) | Some ips \<Rightarrow> fold (extract_ip (is_private (vn_Type n))) ips) ns sl =
      fold (\<lambda>(pr, ip). extract_ip pr ip) (concat (map (\<lambda>n. case vn_Ips n of None \<Rightarrow> [] | Some ips \<Rightarrow> map (Pair (is_private (vn_Type n))) ips) ns)) sl" for ns sl
    by (induction ns arbitrary: sl) (simp_all add: fold_map comp_def split: option.split)
  then show ?thesis by (simp add: extractIPs_def tagged_ips_def)
qed

lemma extract_slots:
  assumes "\<forall>t \<in> set ts. snd (snd t) \<noteq> []"
    and "length (filter is_v6 (map snd (filter (\<lambda>t. \<not> fst t) ts))) \<le> (if p6 = [] then 1 else 0)"
  shows "fold (\<lambda>(pr, ip). extract_ip pr ip) ts (p4, p6, p) =
    (if p4 \<noteq> [] then p4 else first_ip (filter (\<lambda>ip. \<not> is_v6 ip) (map snd (filter (\<lambda>t. \<not> fst t) ts))),
     if p6 \<noteq> [] then p6 else first_ip (filter is_v6 (map snd (filter (\<lambda>t. \<not> fst t) ts))),
     if p \<noteq> [] then p else first_ip (map snd (filter fst ts)))"
  using assms
proof (induction ts arbitrary: p4 p6 p)
  case (Cons t ts)
  obtain pr ip where t: "t = (pr, ip)" by (cases t)
  have ip: "snd ip \<noteq> []" using Cons.prems(1) t by simp
  have rest: "\<forall>t \<in> set ts. snd (snd t) \<noteq> []" using Cons.prems(1) by simp
  consider (priv) pr | (six) "\<not> pr" "is_v6 ip" | (four) "\<not> pr" "\<not> is_v6 ip" by blast
  then show ?case
  proof cases
    case priv
    with Cons.IH[OF rest, of p6 p4 "if p = [] then snd ip else p"] Cons.prems(2) ip t
    show ?thesis by (cases "p = []") (simp_all add: extract_ip_def)
  next
    case six
    with Cons.prems(2) t have "p6 = []" by (simp split: if_splits)
    with six Cons.IH[OF rest, of "snd ip" p4 p] Cons.prems(2) ip t show ?thesis by (simp add: extract_ip_def is_v6_def)
  next
    case four
    with Cons.IH[OF rest, of p6 "if p4 = [] then snd ip else p4" p] Cons.prems(2) ip t
    show ?thesis by (cases "p4 = []") (simp_all add: extract_ip_def is_v6_def)
  qed
qed simp

text \<open>
  The reported addresses are the first public IPv4, the first public IPv6 and the first private one, in the order of
  the answer, for a server with at most one public IPv6 address; an empty text stands for none.
\<close>

theorem extractIPs_slots:
  assumes "\<forall>t \<in> set (tagged_ips v). snd (snd t) \<noteq> []" "length (filter is_v6 (public_ips v)) \<le> 1"
  shows "extractIPs v = (first_ip (filter (\<lambda>ip. \<not> is_v6 ip) (public_ips v)), first_ip (filter is_v6 (public_ips v)), first_ip (private_ips v))"
  using extract_slots[of "tagged_ips v" "[]" "[]" "[]"] assms by (simp add: extractIPs_fold public_ips_def private_ips_def)

text \<open>With a second public IPv6 address and no IPv4, it is reported as the IPv4 address.\<close>

lemma extractIPs_ipv6_as_ipv4:
  assumes "vds_Networks v = [\<lparr>vn_Type = ''public'', vn_Ips = Some [(''ipv6'', a), (''ipv6'', b)]\<rparr>]" "a \<noteq> []"
  shows "extractIPs v = (b, a, [])"
proof -
  have t: "\<not> is_private ''public''" "Contains (ToLower ''ipv6'') ''v6''" by code_simp+
  with assms show ?thesis by (simp add: extractIPs_def extract_ip_def)
qed

definition wit_addresses :: vds where
  "wit_addresses = wit_vds\<lparr>vds_Networks := [\<lparr>vn_Type = ''local'', vn_Ips = Some [(''ipv4'', ''10.0.0.4'')]\<rparr>,
     \<lparr>vn_Type = ''public'', vn_Ips = Some [(''ipv6'', ''2a03::1''), (''ipv4'', ''5.6.7.8'')]\<rparr>]\<rparr>"

theorem extractIPs_slots_witness: "extractIPs wit_addresses = (''5.6.7.8'', ''2a03::1'', ''10.0.0.4'')"
proof -
  have a: "\<forall>t \<in> set (tagged_ips wit_addresses). snd (snd t) \<noteq> []" by (simp add: tagged_ips_def wit_addresses_def)
  have b: "length (filter is_v6 (public_ips wit_addresses)) \<le> 1" by code_simp
  have c: "first_ip (filter (\<lambda>ip. \<not> is_v6 ip) (public_ips wit_addresses)) = ''5.6.7.8''"
    "first_ip (filter is_v6 (public_ips wit_addresses)) = ''2a03::1''" "first_ip (private_ips wit_addresses) = ''10.0.0.4''" by code_simp+
  show ?thesis by (simp only: extractIPs_slots[OF a b] c)
qed

end
