(* ===== verification/ServerRefs.thy ===== *)
theory ServerRefs
  imports ServerExternal SSHKeyExternal RouterRefs
begin

text \<open>
  References of a Server: \<^verbatim>\<open>internal/controller/compute/refs.go\<close>, and their place in \<^verbatim>\<open>Connect\<close> of
  \<^verbatim>\<open>compute/connector.go\<close>. The Kubernetes client is a parameter, a Get by namespace and name per kind.
\<close>

record compute_kube =
  ck_Network :: "string \<Rightarrow> string \<Rightarrow> network_mr kube_get"
  ck_FloatingIP :: "string \<Rightarrow> string \<Rightarrow> fip_mr kube_get"
  ck_Project :: "string \<Rightarrow> string \<Rightarrow> project_mr kube_get"
  ck_SSHKey :: "string \<Rightarrow> string \<Rightarrow> sshkey_mr kube_get"

section \<open>Single references\<close>

definition server_resolveProjectRef :: "compute_kube \<Rightarrow> string \<Rightarrow> string \<Rightarrow> go_error + int" where
  "server_resolveProjectRef kube ns name = get_ref (ck_Project kube ns name) name (\<lambda>t. po_ID (at_provider t))"

definition server_resolveNetworkRef :: "compute_kube \<Rightarrow> string \<Rightarrow> string \<Rightarrow> go_error + string \<times> string" where
  "server_resolveNetworkRef kube ns name = get_ref (ck_Network kube ns name) name
     (\<lambda>t. map_option (\<lambda>n. (n, np_Location (for_provider t))) (set_text (no_UpstreamID (at_provider t))))"

text \<open>The loops over several references keep their order and stop at the first that fails.\<close>

fun resolve_each :: "(string \<Rightarrow> go_error + 'a) \<Rightarrow> string list \<Rightarrow> go_error + 'a list" where
  "resolve_each f [] = Inr []"
| "resolve_each f (r # rs) = (case f r of Inl e \<Rightarrow> Inl e | Inr x \<Rightarrow> map_sum (\<lambda>e. e) ((#) x) (resolve_each f rs))"

definition resolveFloatingIPRefs :: "compute_kube \<Rightarrow> string \<Rightarrow> string list \<Rightarrow> go_error + string list" where
  "resolveFloatingIPRefs kube ns refs =
     resolve_each (\<lambda>name. get_ref (ck_FloatingIP kube ns name) name (\<lambda>t. set_text (fo_UpstreamID (at_provider t)))) refs"

definition resolveSSHKeyRefs :: "compute_kube \<Rightarrow> string \<Rightarrow> string list \<Rightarrow> go_error + int list" where
  "resolveSSHKeyRefs kube ns refs =
     resolve_each (\<lambda>name. get_ref (ck_SSHKey kube ns name) name (\<lambda>t. ko_ID (at_provider t))) refs"

lemma resolve_each_Inr: "resolve_each f rs = Inr xs \<longleftrightarrow> list_all2 (\<lambda>r x. f r = Inr x) rs xs"
proof (induction rs arbitrary: xs)
  case (Cons r rs)
  show ?case
  proof (cases "f r")
    case (Inr x)
    then have "resolve_each f (r # rs) = Inr xs \<longleftrightarrow> (\<exists>ys. resolve_each f rs = Inr ys \<and> xs = x # ys)"
      by (cases "resolve_each f rs") auto
    also have "\<dots> \<longleftrightarrow> list_all2 (\<lambda>r x. f r = Inr x) (r # rs) xs"
      using Cons.IH Inr by (cases xs) auto
    finally show ?thesis .
  qed (simp add: list_all2_Cons1)
qed auto

section \<open>resolveRefs\<close>

definition server_project :: "compute_kube \<Rightarrow> string \<Rightarrow> server_parameters \<Rightarrow> go_error + int option" where
  "server_project kube ns fp =
     (if svp_ProjectID fp \<noteq> None then Inr (svp_ProjectID fp)
      else case svp_ProjectRef fp of Some r \<Rightarrow> map_sum (\<lambda>e. e) Some (server_resolveProjectRef kube ns r)
      | None \<Rightarrow> if svp_ProjectSelector fp \<noteq> None then Inl (Errorf ''compute/server: projectSelector is not implemented'') else Inr None)"

definition server_ssh_keys :: "compute_kube \<Rightarrow> string \<Rightarrow> server_parameters \<Rightarrow> go_error + int list" where
  "server_ssh_keys kube ns fp =
     (if svp_SSHKeyIDs fp \<noteq> [] then Inr (svp_SSHKeyIDs fp)
      else if svp_SSHKeyRefs fp \<noteq> [] then resolveSSHKeyRefs kube ns (svp_SSHKeyRefs fp)
      else if svp_SSHKeySelector fp \<noteq> None then Inl (Errorf ''compute/server: sshKeySelector is not implemented'') else Inr [])"

definition server_network :: "compute_kube \<Rightarrow> string \<Rightarrow> server_parameters \<Rightarrow> go_error + string option" where
  "server_network kube ns fp =
     (if svp_NetworkID fp \<noteq> None then Inr (svp_NetworkID fp)
      else case svp_NetworkRef fp of
        Some r \<Rightarrow> (case server_resolveNetworkRef kube ns r of
            Inl e \<Rightarrow> Inl e
          | Inr (vid, loc) \<Rightarrow> if loc \<noteq> [] \<and> loc \<noteq> svp_Location fp then Inl (Wrap ''Network is in another location'' ErrNetworkLocationMismatch)
              else Inr (Some vid))
      | None \<Rightarrow> if svp_NetworkSelector fp \<noteq> None then Inl (Errorf ''compute/server: networkSelector is not implemented'') else Inr None)"

definition server_floating_ips :: "compute_kube \<Rightarrow> string \<Rightarrow> server_parameters \<Rightarrow> go_error + string list" where
  "server_floating_ips kube ns fp =
     (if svp_FloatingIPIDs fp \<noteq> [] then Inr (svp_FloatingIPIDs fp)
      else if svp_FloatingIPRefs fp \<noteq> [] then resolveFloatingIPRefs kube ns (svp_FloatingIPRefs fp)
      else if svp_FloatingIPSelector fp \<noteq> None then Inl (Errorf ''compute/server: floatingIPSelector is not implemented'') else Inr [])"

definition server_resolveRefs :: "compute_kube \<Rightarrow> string \<Rightarrow> server_parameters \<Rightarrow> go_error + resolved_refs" where
  "server_resolveRefs kube ns fp = (case server_project kube ns fp of Inl e \<Rightarrow> Inl e
   | Inr p \<Rightarrow> (case server_ssh_keys kube ns fp of Inl e \<Rightarrow> Inl e
   | Inr k \<Rightarrow> (case server_network kube ns fp of Inl e \<Rightarrow> Inl e
   | Inr n \<Rightarrow> (case server_floating_ips kube ns fp of Inl e \<Rightarrow> Inl e
   | Inr f \<Rightarrow> Inr \<lparr>rf_projectID = p, rf_sshKeyIDs = k, rf_networkID = n, rf_floatingIPIDs = f\<rparr>))))"

text \<open>\<^verbatim>\<open>Connect\<close>: a server that is being deleted needs no references, and a dangling one must not hold its finalizer.\<close>

definition server_Connect :: "compute_kube \<Rightarrow> pc_ref \<Rightarrow> string \<Rightarrow> bool \<Rightarrow> server_parameters \<Rightarrow> go_error + server_ext" where
  "server_Connect kube pc ns deleting fp =
     (if deleting then Inr \<lparr>se_pcRef = pc, se_resolved = \<lparr>rf_projectID = None, rf_sshKeyIDs = [], rf_networkID = None, rf_floatingIPIDs = []\<rparr>\<rparr>
      else case server_resolveRefs kube ns fp of
        Inl e \<Rightarrow> Inl (Wrap ''compute/server: resolve references'' e)
      | Inr r \<Rightarrow> Inr \<lparr>se_pcRef = pc, se_resolved = r\<rparr>)"

section \<open>What a connected client relies on\<close>

text \<open>Where a resolved value comes from: the spec, or the status of the target of a reference.\<close>

definition network_source :: "compute_kube \<Rightarrow> string \<Rightarrow> server_parameters \<Rightarrow> string \<Rightarrow> bool" where
  "network_source kube ns fp n \<longleftrightarrow> svp_NetworkID fp = Some n \<or>
     (\<exists>r t. svp_NetworkRef fp = Some r \<and> ck_Network kube ns r = KFound t \<and> no_UpstreamID (at_provider t) = Some n \<and> n \<noteq> [] \<and>
        (np_Location (for_provider t) = [] \<or> np_Location (for_provider t) = svp_Location fp))"

definition fip_sources :: "compute_kube \<Rightarrow> string \<Rightarrow> server_parameters \<Rightarrow> string list \<Rightarrow> bool" where
  "fip_sources kube ns fp fs \<longleftrightarrow> (if svp_FloatingIPIDs fp \<noteq> [] then fs = svp_FloatingIPIDs fp
     else list_all2 (\<lambda>r f. \<exists>t. ck_FloatingIP kube ns r = KFound t \<and> fo_UpstreamID (at_provider t) = Some f \<and> f \<noteq> []) (svp_FloatingIPRefs fp) fs)"

lemma server_network_Inr: "server_network kube ns fp = Inr (Some n) \<Longrightarrow> network_source kube ns fp n"
  by (auto simp: server_network_def server_resolveNetworkRef_def network_source_def get_ref_Inr split: if_splits option.splits sum.splits)

lemma server_floating_ips_Inr: "server_floating_ips kube ns fp = Inr fs \<Longrightarrow> fip_sources kube ns fp fs"
  by (auto simp: server_floating_ips_def fip_sources_def resolveFloatingIPRefs_def resolve_each_Inr get_ref_Inr split: if_splits
      elim!: list_all2_mono)

lemma server_resolveRefs_Inr:
  assumes "server_resolveRefs kube ns fp = Inr r"
  shows "server_project kube ns fp = Inr (rf_projectID r)" "server_ssh_keys kube ns fp = Inr (rf_sshKeyIDs r)"
    "server_network kube ns fp = Inr (rf_networkID r)" "server_floating_ips kube ns fp = Inr (rf_floatingIPIDs r)"
  using assms by (auto simp: server_resolveRefs_def split: sum.splits)

text \<open>
  A client that connects holds the network and the floating IPs the spec gives by id, or those of the referenced
  resources of the same namespace in the order of the references, each already provisioned, and a referenced
  network only in the server's location; while the server is being deleted it connects whatever the references are
  and holds none.
\<close>

theorem server_Connect_resolved:
  assumes "server_Connect kube pc ns deleting fp = Inr e"
  shows "se_pcRef e = pc \<and> (if deleting then rf_networkID (se_resolved e) = None \<and> rf_floatingIPIDs (se_resolved e) = []
    else fip_sources kube ns fp (rf_floatingIPIDs (se_resolved e)) \<and>
      (case rf_networkID (se_resolved e) of None \<Rightarrow> True | Some n \<Rightarrow> network_source kube ns fp n))"
proof (cases deleting)
  case True
  with assms show ?thesis by (auto simp: server_Connect_def)
next
  case False
  with assms obtain r where r: "server_resolveRefs kube ns fp = Inr r" "e = \<lparr>se_pcRef = pc, se_resolved = r\<rparr>"
    by (auto simp: server_Connect_def split: sum.splits)
  from server_resolveRefs_Inr(3,4)[OF r(1)] server_network_Inr server_floating_ips_Inr r(2) False
  show ?thesis by (auto split: option.split)
qed

definition wit_network_mr :: network_mr where
  "wit_network_mr = \<lparr>external_name = ''net-1'', create_incomplete = False, create_failed = [],
     for_provider = \<lparr>np_Name = ''n'', np_SubnetCIDR = ''10.0.0.0/24'', np_Location = ''ru-1'', np_AvailabilityZone = None, np_Description = None\<rparr>,
     at_provider = \<lparr>no_UpstreamID = Some ''net-1'', no_AssignedCIDR = None, no_State = None\<rparr>, conditions = (\<lambda>_. None)\<rparr>"

definition wit_compute_kube :: compute_kube where
  "wit_compute_kube = \<lparr>ck_Network = (\<lambda>ns name. if (ns, name) = (''ns'', ''n'') then KFound wit_network_mr else KNotFound),
     ck_FloatingIP = (\<lambda>ns name. KNotFound), ck_Project = (\<lambda>ns name. KNotFound), ck_SSHKey = (\<lambda>ns name. KNotFound)\<rparr>"

definition wit_refs_fp :: server_parameters where
  "wit_refs_fp = \<lparr>svp_Name = ''web'', svp_PresetName = Some ''s'', svp_Resources = None, svp_Location = ''ru-1'',
     svp_OS = \<lparr>so_Image = ''ubuntu'', so_Version = ''24.04''\<rparr>, svp_Hostname = None, svp_Comment = None, svp_CloudInit = None,
     svp_AvailabilityZone = None, svp_SSHKeyRefs = [], svp_SSHKeySelector = None, svp_SSHKeyIDs = [], svp_NetworkRef = Some ''n'',
     svp_NetworkSelector = None, svp_NetworkID = None, svp_ProjectRef = None, svp_ProjectSelector = None, svp_ProjectID = None,
     svp_FloatingIPRefs = [], svp_FloatingIPSelector = None, svp_FloatingIPIDs = [''a'']\<rparr>"

theorem server_Connect_resolved_witness:
  "\<exists>e. server_Connect wit_compute_kube wit_pc ''ns'' False wit_refs_fp = Inr e \<and> rf_networkID (se_resolved e) = Some ''net-1'' \<and>
     network_source wit_compute_kube ''ns'' wit_refs_fp ''net-1''"
proof -
  have "\<exists>e. server_Connect wit_compute_kube wit_pc ''ns'' False wit_refs_fp = Inr e \<and> rf_networkID (se_resolved e) = Some ''net-1''"
    by (simp add: server_Connect_def server_resolveRefs_def server_project_def server_ssh_keys_def server_network_def
        server_floating_ips_def server_resolveNetworkRef_def get_ref_def set_text_def wit_compute_kube_def wit_network_mr_def wit_refs_fp_def)
  then obtain e where e: "server_Connect wit_compute_kube wit_pc ''ns'' False wit_refs_fp = Inr e" "rf_networkID (se_resolved e) = Some ''net-1''"
    by blast
  with server_Connect_resolved[OF e(1)] show ?thesis by auto
qed

end
