(* ===== verification/AddonExternal.thy ===== *)
theory AddonExternal
  imports ClusterExternal RouterRefs Monitored
begin

text \<open>
  References of the Kubernetes kinds, \<^verbatim>\<open>internal/controller/kubernetes/refs.go\<close>, with their place in \<^verbatim>\<open>Connect\<close> of
  \<^verbatim>\<open>connector.go\<close>, and the KubernetesClusterAddon kind, \<^verbatim>\<open>addon_external.go\<close>. An addon is known by its type within
  its cluster; its upstream id is kept in the status for \<^verbatim>\<open>Delete\<close>.
\<close>

section \<open>References\<close>

record k8s_kube =
  kk_Cluster :: "string \<Rightarrow> string \<Rightarrow> cluster_mr kube_get"
  kk_Network :: "string \<Rightarrow> string \<Rightarrow> network_mr kube_get"
  kk_Project :: "string \<Rightarrow> string \<Rightarrow> project_mr kube_get"
  kk_Router :: "string \<Rightarrow> string \<Rightarrow> unit router_mr kube_get"

text \<open>The upstream id of a target that is provisioned and Ready.\<close>

definition ready_id :: "('o \<Rightarrow> string option) \<Rightarrow> ('s, 'o) mr \<Rightarrow> string option" where
  "ready_id f t = (case set_text (f (at_provider t)) of None \<Rightarrow> None | Some n \<Rightarrow> if is_ready t then Some n else None)"

definition resolveClusterRef :: "k8s_kube \<Rightarrow> string \<Rightarrow> string option \<Rightarrow> unit option \<Rightarrow> string option \<Rightarrow> go_error + string" where
  "resolveClusterRef kube ns ref sel i =
     (case set_text i of Some n \<Rightarrow> Inr n
      | None \<Rightarrow> (case ref of Some r \<Rightarrow> get_ref (kk_Cluster kube ns r) r (ready_id kco_UpstreamID)
        | None \<Rightarrow> Inl (Errorf (if sel \<noteq> None then ''kubernetes: clusterSelector is not implemented''
            else ''kubernetes: one of clusterRef, clusterSelector, clusterID must be set''))))"

definition k8s_resolveNetworkRef :: "k8s_kube \<Rightarrow> string \<Rightarrow> string \<Rightarrow> go_error + string" where
  "k8s_resolveNetworkRef kube ns name = get_ref (kk_Network kube ns name) name (\<lambda>t. set_text (no_UpstreamID (at_provider t)))"

definition k8s_resolveProjectRef :: "k8s_kube \<Rightarrow> string \<Rightarrow> string \<Rightarrow> go_error + int" where
  "k8s_resolveProjectRef kube ns name = get_ref (kk_Project kube ns name) name (\<lambda>t. po_ID (at_provider t))"

definition cluster_network :: "k8s_kube \<Rightarrow> string \<Rightarrow> cluster_parameters \<Rightarrow> go_error + string" where
  "cluster_network kube ns fp =
     (case set_text (kcp_NetworkID fp) of Some n \<Rightarrow> Inr n
      | None \<Rightarrow> (case kcp_NetworkRef fp of Some r \<Rightarrow> k8s_resolveNetworkRef kube ns r
        | None \<Rightarrow> if kcp_NetworkSelector fp \<noteq> None then Inl (Errorf ''kubernetes: networkSelector is not implemented'') else Inr []))"

definition cluster_project :: "k8s_kube \<Rightarrow> string \<Rightarrow> cluster_parameters \<Rightarrow> go_error + int option" where
  "cluster_project kube ns fp =
     (if kcp_ProjectID fp \<noteq> None then Inr (kcp_ProjectID fp)
      else case kcp_ProjectRef fp of Some r \<Rightarrow> map_sum (\<lambda>e. e) Some (k8s_resolveProjectRef kube ns r)
      | None \<Rightarrow> if kcp_ProjectSelector fp \<noteq> None then Inl (Errorf ''kubernetes: projectSelector is not implemented'') else Inr None)"

definition resolveClusterDeps :: "k8s_kube \<Rightarrow> string \<Rightarrow> cluster_parameters \<Rightarrow> go_error + string \<times> int option" where
  "resolveClusterDeps kube ns fp = (case cluster_network kube ns fp of Inl e \<Rightarrow> Inl e
     | Inr n \<Rightarrow> map_sum (\<lambda>e. e) (Pair n) (cluster_project kube ns fp))"

definition resolveClusterRouterDecl :: "k8s_kube \<Rightarrow> string \<Rightarrow> cluster_parameters \<Rightarrow> go_error + string" where
  "resolveClusterRouterDecl kube ns fp =
     (case set_text (kcp_RouterID fp) of Some n \<Rightarrow> Inr n
      | None \<Rightarrow> (case kcp_RouterRef fp of Some r \<Rightarrow> get_ref (kk_Router kube ns r) r (ready_id ro_UpstreamID)
        | None \<Rightarrow> Inr []))"

definition cluster_Connect :: "k8s_kube \<Rightarrow> pc_ref \<Rightarrow> string \<Rightarrow> bool \<Rightarrow> cluster_parameters \<Rightarrow> go_error + cluster_ext" where
  "cluster_Connect kube pc ns deleting fp =
     (if deleting then Inr \<lparr>ce_pcRef = pc, ce_resolvedNetworkID = [], ce_resolvedProjectID = None, ce_resolvedRouterID = []\<rparr>
      else case resolveClusterDeps kube ns fp of Inl e \<Rightarrow> Inl (Wrap ''kubernetes/cluster: resolve references'' e)
      | Inr (nid, pid) \<Rightarrow> (case resolveClusterRouterDecl kube ns fp of Inl e \<Rightarrow> Inl (Wrap ''kubernetes/cluster: resolve references'' e)
        | Inr rid \<Rightarrow> Inr \<lparr>ce_pcRef = pc, ce_resolvedNetworkID = nid, ce_resolvedProjectID = pid, ce_resolvedRouterID = rid\<rparr>))"

section \<open>The addon: data\<close>

record addon_parameters =
  adp_ClusterRef :: "string option"
  adp_ClusterSelector :: "unit option"
  adp_ClusterID :: "string option"
  adp_Type :: string
  adp_Version :: string
  adp_YAMLConfig :: "string option"
  adp_ConfigType :: "string option"

record addon_observation =
  ado_AddonID :: "string option"
  ado_ClusterID :: "string option"
  ado_Status :: "string option"
  ado_InstalledVersion :: "string option"

record addon_out =
  ao_ID :: int
  ao_Type :: string
  ao_Status :: string
  ao_Version :: string

record addon_in =
  ai_Type :: string
  ai_Version :: string
  ai_ConfigType :: string
  ai_YamlConfig :: string

text \<open>The catalog answers with types and versions.\<close>

datatype addon_req = GetAddons int | GetAddonsConfig int | InstallAddon int addon_in | DeleteAddon int int
datatype addon_payload = PAddons "addon_out list" | PAddonsConfig "(string \<times> string) list" | PAddonOther

fun as_addons :: "addon_payload \<Rightarrow> addon_out list option" where
  "as_addons (PAddons a) = Some a" | "as_addons _ = None"
fun as_addons_config :: "addon_payload \<Rightarrow> (string \<times> string) list option" where
  "as_addons_config (PAddonsConfig c) = Some c" | "as_addons_config _ = None"

type_synonym addon_mr = "(addon_parameters, addon_observation) mr"
type_synonym ('w, 'a) addon_act = "('w, addon_req, addon_parameters, addon_observation, 'a) act"
type_synonym 'w addon_api = "('w, addon_req, addon_payload) api"

text \<open>The external client is the resolved cluster id.\<close>

definition addon_Connect :: "k8s_kube \<Rightarrow> string \<Rightarrow> bool \<Rightarrow> addon_parameters \<Rightarrow> go_error + string" where
  "addon_Connect kube ns deleting fp =
     (if deleting then Inr []
      else case resolveClusterRef kube ns (adp_ClusterRef fp) (adp_ClusterSelector fp) (adp_ClusterID fp) of
        Inl e \<Rightarrow> Inl (Wrap ''kubernetes/addon: resolve cluster reference'' e) | Inr n \<Rightarrow> Inr n)"

section \<open>The addon: operations\<close>

definition addon_clusterID :: "string \<Rightarrow> addon_mr \<Rightarrow> int option" where
  "addon_clusterID resolved m = DecodeID (case set_text (ado_ClusterID (at_provider m)) of Some n \<Rightarrow> n | None \<Rightarrow> resolved)"

definition findAddon :: "addon_out list \<Rightarrow> string \<Rightarrow> addon_out option" where
  "findAddon addons ty = find (\<lambda>a. ao_Type a = ty) addons"

definition addonIsInstalling :: "string \<Rightarrow> bool" where
  "addonIsInstalling status = (let s = ToLower status in
     if s = ''installed'' \<or> Contains s ''active'' \<or> Contains s ''running'' then False
     else Contains s ''install'' \<or> Contains s ''pending'' \<or> Contains s ''creating'')"

definition addon_ready_condition :: "string \<Rightarrow> condition" where
  "addon_ready_condition status = (let s = ToLower status in
     if Contains s ''error'' \<or> Contains s ''fail'' then ReadyFalse ''UpstreamFailed''
     else if ClassifyUpstreamState status = StateUnfunded then ReadyFalse ''PaymentRequired''
     else if Contains s ''active'' \<or> Contains s ''running'' \<or> s = ''installed'' then Available
     else Creating)"

definition addon_status :: "int \<Rightarrow> addon_out \<Rightarrow> addon_mr \<Rightarrow> addon_mr" where
  "addon_status clusterID a m = m\<lparr>at_provider := (at_provider m)\<lparr>ado_AddonID := Some (EncodeID (ao_ID a)),
     ado_ClusterID := Some (EncodeID clusterID), ado_Status := Some (ao_Status a),
     ado_InstalledVersion := (if ao_Version a \<noteq> [] then Some (ao_Version a) else ado_InstalledVersion (at_provider m))\<rparr>\<rparr>"

definition addon_missing :: "('w, observation) addon_act" where
  "addon_missing = bindE (gets (\<lambda>m. ado_Status (at_provider m))) (\<lambda>st.
     if st \<noteq> None \<and> addonIsInstalling (the st) then bindE (record_and_set Creating) (\<lambda>_. returnOk (present True))
     else returnOk absent)"

definition addon_found :: "int \<Rightarrow> addon_out \<Rightarrow> ('w, observation) addon_act" where
  "addon_found clusterID a = bindE (modify_cr (addon_status clusterID a)) (\<lambda>_.
     bindE (record_and_set (addon_ready_condition (ao_Status a))) (\<lambda>_. returnOk (present True)))"

definition addon_Observe :: "'w addon_api \<Rightarrow> string \<Rightarrow> ('w, observation) addon_act" where
  "addon_Observe api resolved = bindE (gets (\<lambda>m. m)) (\<lambda>m.
     if external_name m = [] then returnOk absent
     else (case addon_clusterID resolved m of None \<Rightarrow> returnOk absent
     | Some n \<Rightarrow> bindE (fetch api ''kubernetes/addon'' as_addons (GetAddons n)) (\<lambda>addons.
         case findAddon addons (external_name m) of None \<Rightarrow> addon_missing | Some a \<Rightarrow> addon_found n a)))"

definition validateAddonCatalog :: "'w addon_api \<Rightarrow> int \<Rightarrow> string \<Rightarrow> string \<Rightarrow> ('w, unit) addon_act" where
  "validateAddonCatalog api n ty version =
     bindE (fetch api ''kubernetes/addon: catalog'' as_addons_config (GetAddonsConfig n)) (\<lambda>entries.
     if list_ex (\<lambda>c. c = (ty, version)) entries then returnOk ()
     else throwError (Errorf ''kubernetes/addon: not in the cluster addons catalog''))"

definition buildInstallAddonBody :: "addon_parameters \<Rightarrow> addon_in" where
  "buildInstallAddonBody fp = \<lparr>ai_Type = adp_Type fp, ai_Version = adp_Version fp,
     ai_ConfigType = (case set_text (adp_ConfigType fp) of Some c \<Rightarrow> c | None \<Rightarrow> ''custom''),
     ai_YamlConfig = (case adp_YAMLConfig fp of Some y \<Rightarrow> y | None \<Rightarrow> [])\<rparr>"

definition addon_Create :: "'w addon_api \<Rightarrow> string \<Rightarrow> ('w, unit) addon_act" where
  "addon_Create api resolved = (case DecodeID resolved of
     None \<Rightarrow> throwError (Errorf ''kubernetes/addon: parent cluster not resolved'')
   | Some n \<Rightarrow> bindE (gets for_provider) (\<lambda>fp.
     bindE (validateAddonCatalog api n (adp_Type fp) (adp_Version fp)) (\<lambda>_.
     bindE (write_call api (InstallAddon n (buildInstallAddonBody fp))) (\<lambda>_.
     bindE (modify_cr (\<lambda>m. m\<lparr>external_name := adp_Type fp\<rparr>)) (\<lambda>_.
     bindE (modify_cr (\<lambda>m. m\<lparr>at_provider := (at_provider m)\<lparr>ado_ClusterID := Some (EncodeID n)\<rparr>\<rparr>)) (\<lambda>_.
     modify_cr (SetConditions Creating)))))))"

definition addon_Update :: "('w, unit) addon_act" where
  "addon_Update = returnOk ()"

definition addon_Delete :: "'w addon_api \<Rightarrow> string \<Rightarrow> ('w, unit) addon_act" where
  "addon_Delete api resolved = bindE (gets (\<lambda>m. m)) (\<lambda>m.
     case addon_clusterID resolved m of None \<Rightarrow> returnOk ()
   | Some n \<Rightarrow> (case ado_AddonID (at_provider m) of None \<Rightarrow> returnOk ()
   | Some x \<Rightarrow> (case Atoi x of None \<Rightarrow> returnOk ()
   | Some a \<Rightarrow> delete_or_gone api (DeleteAddon n a) (modify_cr (SetConditions Deleting)))))"

section \<open>References gate on readiness\<close>

lemma ready_id_Some [simp]: "ready_id f t = Some n \<longleftrightarrow> f (at_provider t) = Some n \<and> n \<noteq> [] \<and> is_ready t"
  by (auto simp: ready_id_def set_text_def split: if_splits)

text \<open>
  A cluster connects with a router only if the spec names its upstream id, or the referenced Router of the same
  namespace is provisioned and Ready; so an empty router id, which makes \<^verbatim>\<open>Update\<close> detach, means that none is declared
  (or that the cluster is being deleted).
\<close>

theorem cluster_Connect_router:
  assumes "cluster_Connect kube pc ns deleting fp = Inr e" "\<not> deleting"
  shows "if ce_resolvedRouterID e = [] then kcp_RouterRef fp = None \<and> set_text (kcp_RouterID fp) = None
    else kcp_RouterID fp = Some (ce_resolvedRouterID e) \<or> (\<exists>r t. kcp_RouterRef fp = Some r \<and> kk_Router kube ns r = KFound t \<and>
      ro_UpstreamID (at_provider t) = Some (ce_resolvedRouterID e) \<and> is_ready t)"
proof -
  from assms have "resolveClusterRouterDecl kube ns fp = Inr (ce_resolvedRouterID e)"
    by (auto simp: cluster_Connect_def split: sum.splits)
  then show ?thesis
    by (cases "set_text (kcp_RouterID fp)"; cases "kcp_RouterRef fp") (auto simp: resolveClusterRouterDecl_def get_ref_Inr)
qed

section \<open>Presence of an addon\<close>

text \<open>
  \<^verbatim>\<open>Observe\<close> of an addon with a name and a cluster, when it returns, has the cluster's list, and reports the addon as
  existing exactly when the list has its type or its last recorded status is one of an installation under way.
\<close>

theorem addon_Observe_exists_iff:
  assumes "addon_Observe api resolved s = (Inr ob, s')" "external_name (cr s) \<noteq> []" "addon_clusterID resolved (cr s) = Some n"
  shows "\<exists>resp addons. fst (api (world s) (GetAddons n)) = Resp resp \<and> resp_payload resp = Some (PAddons addons) \<and>
    (ResourceExists ob \<longleftrightarrow> (\<exists>a \<in> set addons. ao_Type a = external_name (cr s)) \<or>
      (\<exists>st. ado_Status (at_provider (cr s)) = Some st \<and> addonIsInstalling st))"
proof -
  from assms obtain addons s1 where f: "fetch api ''kubernetes/addon'' as_addons (GetAddons n) s = (Inr addons, s1)"
      "(case findAddon addons (external_name (cr s)) of None \<Rightarrow> addon_missing | Some a \<Rightarrow> addon_found n a) s1 = (Inr ob, s')"
    by (auto simp: addon_Observe_def run_equations bindE_def split: prod.splits sum.splits)
  from fetch_Inr[OF f(1)] obtain resp p where r: "fst (api (world s) (GetAddons n)) = Resp resp" "resp_payload resp = Some p"
      "as_addons p = Some addons" "s1 = after_call api (GetAddons n) s" by blast
  then have p: "p = PAddons addons" by (cases p) auto
  have "ResourceExists ob \<longleftrightarrow> (\<exists>a \<in> set addons. ao_Type a = external_name (cr s)) \<or>
      (\<exists>st. ado_Status (at_provider (cr s)) = Some st \<and> addonIsInstalling st)"
  proof (cases "findAddon addons (external_name (cr s))")
    case None
    with f(2) r(4) have m: "addon_missing s1 = (Inr ob, s')" "cr s1 = cr s" by simp_all
    from None have "\<not> (\<exists>a \<in> set addons. ao_Type a = external_name (cr s))" by (auto simp: findAddon_def find_None_iff)
    with m show ?thesis by (auto simp: addon_missing_def run_equations absent_def present_def split: if_splits)
  next
    case (Some a)
    then have "\<exists>a \<in> set addons. ao_Type a = external_name (cr s)" by (auto simp: findAddon_def find_Some_iff)
    with Some f(2) show ?thesis by (auto simp: addon_found_def run_equations)
  qed
  with r p show ?thesis by blast
qed

section \<open>A deletion that does not end\<close>

text \<open>One reconcile of an addon that is being deleted: whether \<^verbatim>\<open>Observe\<close> still reports it, with the \<^verbatim>\<open>Delete\<close> that follows.\<close>

definition addon_delete_round :: "'w addon_api \<Rightarrow> string \<Rightarrow> ('w, bool) addon_act" where
  "addon_delete_round api resolved = bindE (addon_Observe api resolved) (\<lambda>ob.
     if ResourceExists ob then bindE (addon_Delete api resolved) (\<lambda>_. returnOk True) else returnOk False)"

fun delete_rounds :: "'w addon_api \<Rightarrow> string \<Rightarrow> nat \<Rightarrow> ('w, bool list) addon_act" where
  "delete_rounds api resolved 0 = returnOk []"
| "delete_rounds api resolved (Suc k) = bindE (addon_delete_round api resolved) (\<lambda>b.
     bindE (delete_rounds api resolved k) (\<lambda>bs. returnOk (b # bs)))"

text \<open>The addon is gone: the cluster's list does not have it and deleting it is a confirmed 404.\<close>

definition addon_gone :: "'w addon_api \<Rightarrow> int \<Rightarrow> string \<Rightarrow> 'w set \<Rightarrow> bool" where
  "addon_gone api n ty W \<longleftrightarrow> (\<forall>w \<in> W. \<exists>addons. answers api w (GetAddons n) (PAddons addons) w \<and> findAddon addons ty = None \<and>
     (\<forall>a. \<exists>err. classify_result (fst (api w (DeleteAddon n a))) = Inl err \<and> is_not_found err \<and> snd (api w (DeleteAddon n a)) \<in> W))"

lemma addon_delete_round_again:
  assumes gone: "addon_gone api n (external_name (cr s)) W" "world s \<in> W"
    and m: "external_name (cr s) \<noteq> []" "addon_clusterID resolved (cr s) = Some n" "ado_Status (at_provider (cr s)) = Some st" "addonIsInstalling st"
  shows "\<exists>s'. addon_delete_round api resolved s = (Inr True, s') \<and> world s' \<in> W \<and>
    external_name (cr s') = external_name (cr s) \<and> at_provider (cr s') = at_provider (cr s)"
proof -
  from gone obtain addons where a: "answers api (world s) (GetAddons n) (PAddons addons) (world s)" "findAddon addons (external_name (cr s)) = None"
    and d: "\<And>x. \<exists>err. classify_result (fst (api (world s) (DeleteAddon n x))) = Inl err \<and> is_not_found err \<and>
      snd (api (world s) (DeleteAddon n x)) \<in> W" unfolding addon_gone_def by blast
  from fetch_sel_run[OF a(1), of as_addons addons "''kubernetes/addon''"]
  have f: "fetch api ''kubernetes/addon'' as_addons (GetAddons n) s = (Inr addons, s\<lparr>reqs := reqs s @ [GetAddons n]\<rparr>)" by simp
  obtain s1 where s1: "addon_Observe api resolved s = (Inr (present True), s1)" "world s1 = world s" "external_name (cr s1) = external_name (cr s)"
      "at_provider (cr s1) = at_provider (cr s)"
    using m a(2) by (simp add: addon_Observe_def bindE_gets bindE_step(1)[where m = "fetch api _ _ _" and s = s, OF f] addon_missing_def
        bindE_record_and_set returnOk_run)
  have c: "addon_clusterID resolved (cr s1) = Some n" using m(2) s1(4) by (simp add: addon_clusterID_def)
  have "\<exists>s2. addon_Delete api resolved s1 = (Inr (), s2) \<and> world s2 \<in> W \<and> cr s2 = cr s1"
  proof (cases "Option.bind (ado_AddonID (at_provider (cr s1))) Atoi")
    case None
    with c gone(2) s1(2) show ?thesis by (auto simp: addon_Delete_def bindE_gets returnOk_run bind_eq_None_conv split: option.splits)
  next
    case (Some x)
    from d[of x] s1(2) obtain err where "classify_result (fst (api (world s1) (DeleteAddon n x))) = Inl err" "is_not_found err"
        "snd (api (world s1) (DeleteAddon n x)) \<in> W" by auto
    with Some c show ?thesis by (auto simp: addon_Delete_def bindE_gets delete_or_gone_error bind_eq_Some_conv)
  qed
  then obtain s2 where "addon_Delete api resolved s1 = (Inr (), s2)" "world s2 \<in> W" "cr s2 = cr s1" by blast
  with s1 show ?thesis
    by (simp add: addon_delete_round_def bindE_step(1)[where m = "addon_Observe api resolved" and s = s, OF s1(1)] bindE_step(1)[where m = "addon_Delete api resolved"]
        returnOk_run)
qed

text \<open>
  An addon deleted while its recorded status is one of an installation under way is never released: once the cluster
  does not list it any more, every reconcile reports it as existing and its deletion as started, for any number of them.
\<close>

theorem addon_delete_never_ends:
  assumes "addon_gone api n (external_name (cr s)) W" "world s \<in> W"
    and "external_name (cr s) \<noteq> []" "addon_clusterID resolved (cr s) = Some n" "ado_Status (at_provider (cr s)) = Some st" "addonIsInstalling st"
  shows "fst (delete_rounds api resolved k s) = Inr (replicate k True)"
  using assms
proof (induction k arbitrary: s)
  case 0
  then show ?case by (simp add: returnOk_run)
next
  case (Suc k)
  from addon_delete_round_again[OF Suc.prems] obtain s1 where s1: "addon_delete_round api resolved s = (Inr True, s1)" "world s1 \<in> W"
      "external_name (cr s1) = external_name (cr s)" "at_provider (cr s1) = at_provider (cr s)" by blast
  then have "fst (delete_rounds api resolved k s1) = Inr (replicate k True)"
    using Suc.prems by (intro Suc.IH) (simp_all add: addon_clusterID_def)
  then show ?case
    by (cases "delete_rounds api resolved k s1")
       (simp add: bindE_step(1)[where m = "addon_delete_round api resolved" and s = s, OF s1(1)] bindE_step(1)[where m = "delete_rounds api resolved k"] returnOk_run)
qed

section \<open>Witnesses\<close>

definition wit_router_target :: "unit router_mr" where
  "wit_router_target = \<lparr>external_name = ''r-1'', create_incomplete = False, create_failed = [],
     for_provider = \<lparr>rp_Name = ''r'', rp_Comment = None, rp_Location = ''ru-1'', rp_AvailabilityZone = None, rp_PresetName = ''s'',
       rp_Networks = [], rp_ProjectRef = None, rp_ProjectID = None, rp_StaticRoutes = []\<rparr>,
     at_provider = \<lparr>ro_UpstreamID = Some ''r-1'', ro_State = None, ro_LockedPresetID = None, ro_Networks = [], ro_IPs = [],
       ro_ParentServices = [], ro_StaticRoutes = [], ro_ResolvedProjectID = None\<rparr>, conditions = [TypeReady \<mapsto> Available]\<rparr>"

definition wit_k8s_kube :: k8s_kube where
  "wit_k8s_kube = \<lparr>kk_Cluster = (\<lambda>ns name. KNotFound), kk_Network = (\<lambda>ns name. KNotFound), kk_Project = (\<lambda>ns name. KNotFound),
     kk_Router = (\<lambda>ns name. if (ns, name) = (''ns'', ''r'') then KFound wit_router_target else KNotFound)\<rparr>"

definition wit_router_fp :: cluster_parameters where
  "wit_router_fp = \<lparr>kcp_Name = ''k'', kcp_K8sVersion = ''v1.30.0'', kcp_NetworkDriver = ''calico'', kcp_ClusterNetworkCIDR = None,
     kcp_Location = ''ru-1'', kcp_AvailabilityZone = None, kcp_PresetName = Some ''s'', kcp_Resources = None, kcp_Description = None,
     kcp_MasterNodesCount = None, kcp_NetworkRef = None, kcp_NetworkSelector = None, kcp_NetworkID = Some ''net-1'',
     kcp_RouterRef = Some ''r'', kcp_RouterID = None, kcp_ProjectRef = None, kcp_ProjectSelector = None, kcp_ProjectID = None\<rparr>"

theorem cluster_Connect_router_witness:
  "\<exists>e. cluster_Connect wit_k8s_kube wit_pc ''ns'' False wit_router_fp = Inr e \<and> ce_resolvedRouterID e = ''r-1'' \<and>
     (\<exists>r t. kcp_RouterRef wit_router_fp = Some r \<and> kk_Router wit_k8s_kube ''ns'' r = KFound t \<and> is_ready t)"
proof -
  have "\<exists>e. cluster_Connect wit_k8s_kube wit_pc ''ns'' False wit_router_fp = Inr e \<and> ce_resolvedRouterID e = ''r-1''"
    by (simp add: cluster_Connect_def resolveClusterDeps_def cluster_network_def cluster_project_def resolveClusterRouterDecl_def
        get_ref_def set_text_def ready_id_def is_ready_def GetCondition_def Available_def wit_k8s_kube_def wit_router_target_def wit_router_fp_def)
  then obtain e where e: "cluster_Connect wit_k8s_kube wit_pc ''ns'' False wit_router_fp = Inr e" "ce_resolvedRouterID e = ''r-1''" by blast
  have "kcp_RouterID wit_router_fp = None" by (simp add: wit_router_fp_def)
  with cluster_Connect_router[OF e(1)] e(2) have "\<exists>r t. kcp_RouterRef wit_router_fp = Some r \<and> kk_Router wit_k8s_kube ''ns'' r = KFound t \<and> is_ready t"
    by auto
  with e show ?thesis by blast
qed

definition wit_addon_mr :: addon_mr where
  "wit_addon_mr = \<lparr>external_name = ''nginx'', create_incomplete = False, create_failed = [],
     for_provider = \<lparr>adp_ClusterRef = None, adp_ClusterSelector = None, adp_ClusterID = Some ''5'', adp_Type = ''nginx'',
       adp_Version = ''1'', adp_YAMLConfig = None, adp_ConfigType = None\<rparr>,
     at_provider = \<lparr>ado_AddonID = Some ''3'', ado_ClusterID = Some ''5'', ado_Status = Some ''installing'', ado_InstalledVersion = None\<rparr>,
     conditions = (\<lambda>_. None)\<rparr>"

text \<open>A cluster with no addons.\<close>

definition wit_addon_api :: "unit addon_api" where
  "wit_addon_api w q = (case q of GetAddons n \<Rightarrow> (Resp (ok_response (PAddons [])), ()) | GetAddonsConfig n \<Rightarrow> (Resp (ok_response (PAddonsConfig [])), ())
     | InstallAddon n b \<Rightarrow> (Resp (ok_response PAddonOther), ()) | DeleteAddon n a \<Rightarrow> (Resp gone_response, ()))"

definition wit_addon_state :: "(unit, addon_req, addon_parameters, addon_observation) rstate" where
  "wit_addon_state = wit_state () wit_addon_mr"

lemma wit_addon_state_simps: "external_name (cr wit_addon_state) = ''nginx''" "external_name (cr wit_addon_state) \<noteq> []"
  "addon_clusterID [] (cr wit_addon_state) = Some 5"
  "ado_Status (at_provider (cr wit_addon_state)) = Some ''installing''" "addonIsInstalling ''installing''"
proof -
  show "addon_clusterID [] (cr wit_addon_state) = Some 5" by code_simp
  show "addonIsInstalling ''installing''" by code_simp
qed (simp_all add: wit_addon_state_def wit_state_def wit_addon_mr_def)

theorem addon_Observe_exists_iff_witness:
  "\<exists>ob s'. addon_Observe wit_addon_api [] wit_addon_state = (Inr ob, s') \<and> ResourceExists ob"
proof -
  have a: "answers wit_addon_api (world wit_addon_state) (GetAddons 5) (PAddons []) ()"
    by (rule answers_ok) (simp add: wit_addon_api_def)
  from fetch_sel_run[OF a, of as_addons "[]" "''kubernetes/addon''"]
  obtain s1 where f: "fetch wit_addon_api ''kubernetes/addon'' as_addons (GetAddons 5) wit_addon_state = (Inr [], s1)" "cr s1 = cr wit_addon_state"
    by simp
  have "\<exists>ob s'. addon_Observe wit_addon_api [] wit_addon_state = (Inr ob, s')"
    by (auto simp: addon_Observe_def run_equations wit_addon_state_simps bindE_step(1)[where m = "fetch _ _ _ _", OF f(1)] findAddon_def addon_missing_def f(2))
  then obtain ob s' where ob: "addon_Observe wit_addon_api [] wit_addon_state = (Inr ob, s')" by blast
  from addon_Observe_exists_iff[OF ob wit_addon_state_simps(2,3)] wit_addon_state_simps(4,5) ob show ?thesis by blast
qed

theorem addon_delete_never_ends_witness:
  "fst (delete_rounds wit_addon_api [] 100 wit_addon_state) = Inr (replicate 100 True)"
proof -
  have gone: "\<exists>err. classify_result (Resp gone_response :: addon_payload http_result) = Inl err \<and> is_not_found err"
    by (rule exI[of _ "ErrNotFound []"]) code_simp
  have l: "answers wit_addon_api w (GetAddons 5) (PAddons []) w" for w
    by (rule answers_ok) (simp add: wit_addon_api_def)
  have g: "addon_gone wit_addon_api 5 (external_name (cr wit_addon_state)) UNIV"
    unfolding addon_gone_def using l gone by (auto simp: findAddon_def wit_addon_api_def intro!: exI[of _ "[]"])
  show ?thesis
    by (rule addon_delete_never_ends[OF g UNIV_I wit_addon_state_simps(2-5)])
qed

end
