(* ===== verification/CdnTypes.thy ===== *)
theory CdnTypes
  imports ExternalClient RouterRefs Complex_Main
begin

text \<open>
  The data of the Cdn kind: the API types of \<^verbatim>\<open>apis/cdn/v1alpha1/cdn_types.go\<close>, the wire types of
  \<^verbatim>\<open>clients/timeweb/cdn.go\<close>, and the small helpers of \<^verbatim>\<open>controller/cdn/external.go\<close>. A pointer is an \<open>option\<close>; a field
  of a write body that can also be an explicit null is an \<open>option option\<close>, \<open>None\<close> when it is left out.
\<close>

section \<open>The API types\<close>

record cdn_origin =
  og_BucketRef :: "string option"
  og_Domain :: "string option"
  og_IP :: "string option"
  og_HTTPS :: "bool option"
  og_Port :: "int option"
  og_AWSAuthSecretRef :: "string option"

text \<open>A reference to a Secret is its name and, where a single value is needed, a key.\<close>

record cdn_ssl =
  ssl_Mode :: string
  ssl_CertificateSecretRef :: "string option"

record cdn_token =
  tk_SecretName :: string
  tk_SecretKey :: "string option"
  tk_RestrictByIP :: "bool option"

record cdn_cache =
  ca_EdgeTTLSeconds :: "int option"
  ca_BrowserTTLSeconds :: "int option"
  ca_AlwaysOnline :: "bool option"
  ca_QueryMode :: "string option"
  ca_QueryParams :: "string list"

record cdn_security =
  sy_ForceHTTPS :: "bool option"
  sy_SecureToken :: "cdn_token option"

record cdn_robots =
  rb_Mode :: string
  rb_Custom :: "string option"

record cdn_performance =
  pf_HTTP3 :: "bool option"
  pf_Gzip :: "bool option"
  pf_LargeFileSlicingMB :: "int option"
  pf_ContentOptimization :: "string option"
  pf_Robots :: "cdn_robots option"

record cdn_cors =
  cs_Origins :: "string list"
  cs_AlwaysAddHeader :: "bool option"

text \<open>\<^verbatim>\<open>Domains\<close> and \<^verbatim>\<open>RequestHeaders\<close> are tested for nil, so a declared empty list differs from none.\<close>

record cdn_parameters =
  cdp_Name :: "string option"
  cdp_Description :: "string option"
  cdp_ProjectID :: "int option"
  cdp_Origin :: cdn_origin
  cdp_Cache :: "cdn_cache option"
  cdp_Security :: "cdn_security option"
  cdp_Performance :: "cdn_performance option"
  cdp_Cors :: "cdn_cors option"
  cdp_Domains :: "string list option"
  cdp_SSL :: "cdn_ssl option"
  cdp_TrafficLimitGBPerMonth :: "int option"
  cdp_RequestHeaders :: "(string \<times> string) list option"

text \<open>What the handlers read of the object beside its status.\<close>

record cdn_object =
  cx_Name :: string
  cx_Namespace :: string
  cx_Deleting :: bool
  cx_Annotations :: "string \<rightharpoonup> string"
  cx_Params :: cdn_parameters

record cdn_certificate_status =
  ct_ID :: "int option"
  ct_Type :: "string option"
  ct_CN :: "string option"
  ct_ExpiresAt :: "string option"

text \<open>Times are instants in nanoseconds.\<close>

record cdn_ssl_status =
  st_State :: "string option"
  st_IssueAttempts :: "int option"
  st_LastIssueAttemptAt :: "int option"
  st_BudgetKey :: "string option"

record cdn_mirror =
  mi_Cache :: "cdn_cache option"
  mi_Security :: "cdn_security option"
  mi_Performance :: "cdn_performance option"
  mi_Cors :: "cdn_cors option"
  mi_RequestHeaderNames :: "string list"

record cdn_observation =
  cdo_ID :: "int option"
  cdo_TechnicalDomain :: "string option"
  cdo_State :: "string option"
  cdo_Source :: "string option"
  cdo_LockedPresetID :: "int option"
  cdo_LastPurgedAt :: "int option"
  cdo_Domains :: "string list"
  cdo_ObservedSettings :: "cdn_mirror option"
  cdo_TrafficUsage :: "(int \<times> int \<times> string) option"
  cdo_Certificate :: "cdn_certificate_status option"
  cdo_ManagedCertificate :: "cdn_certificate_status option"
  cdo_SSL :: "cdn_ssl_status option"
  cdo_TrafficLimitBytes :: "int option"

section \<open>The wire types\<close>

text \<open>The traffic counters are requests, outgoing bytes and the cache ratio as \<^verbatim>\<open>populateStatus\<close> formats it.\<close>

record cdn_resource =
  hr_ID :: int
  hr_Name :: string
  hr_Description :: string
  hr_Status :: string
  hr_Source :: string
  hr_CDNDomain :: string
  hr_PresetID :: int
  hr_ProjectID :: int
  hr_StorageID :: "int option"
  hr_TrafficLimitBytes :: "int option"
  hr_TrafficUsage :: "(int \<times> int \<times> string) option"

type_synonym cdn_server = "string \<times> int"
type_synonym cdn_aws = "string \<times> string"

record query_args =
  qa_Mode :: string
  qa_List :: "string list"

text \<open>TTLs per status class, the browser TTL, the stale conditions, and the query arguments.\<close>

record cache_config =
  cc_CDN :: "(string \<rightharpoonup> int) option"
  cc_Browser :: "int option"
  cc_AlwaysOnline :: "string list option"
  cc_QueryArgs :: "query_args option"

text \<open>\<^verbatim>\<open>packaging\<close> is whether its \<^verbatim>\<open>mp4\<close> is an object (\<^verbatim>\<open>MP4Enabled\<close>) rather than null.\<close>

record delivery_config =
  dc_HTTP3 :: "bool option"
  dc_Gzip :: "bool option"
  dc_LargeFiles :: "bool option"
  dc_SliceSize :: "int option"
  dc_ImageOptimization :: "bool option"
  dc_Packaging :: "bool option"

record cors_config =
  oc_Domains :: "string list"
  oc_Always :: "bool option"

text \<open>The request headers are a JSON object, in any order and with distinct names.\<close>

record headers_config =
  hc_Request :: "(string \<times> string) list"
  hc_Cors :: "cors_config option"

record robots_config =
  rc_Type :: "string option"
  rc_Content :: "string option"

record secure_token =
  sc_SecretKey :: string
  sc_RestrictByIP :: bool

record security_config =
  yc_Redirect :: "bool option"
  yc_CertificateID :: "int option"
  yc_SecureToken :: "secure_token option"

record security_patch =
  yp_Redirect :: "bool option"
  yp_CertificateID :: "int option option"
  yp_SecureToken :: "secure_token option option"

record origin_config =
  or_Servers :: "cdn_server list"
  or_UseHTTPS :: "bool option"
  or_AWS :: "cdn_aws option"

text \<open>The delivery domains are their aliases, the origin of a patch the pair of AWS keys.\<close>

record cdn_config =
  cf_Cache :: "cache_config option"
  cf_Delivery :: "delivery_config option"
  cf_HTTPHeaders :: "headers_config option"
  cf_Robots :: "robots_config option"
  cf_Security :: "security_config option"
  cf_Domains :: "string list option"
  cf_Origin :: "origin_config option"

record config_patch =
  cp_Cache :: "cache_config option"
  cp_Delivery :: "delivery_config option"
  cp_HTTPHeaders :: "headers_config option"
  cp_Robots :: "robots_config option"
  cp_Security :: "security_patch option"
  cp_Domains :: "string list option"
  cp_Origin :: "cdn_aws option"

record cdn_write =
  cw_Name :: "string option"
  cw_Description :: "string option"
  cw_ProjectID :: "int option"
  cw_PresetID :: "int option"
  cw_Server :: "cdn_server option"
  cw_StorageID :: "int option"
  cw_UseHTTPS :: "bool option"
  cw_TrafficLimitBytes :: "int option option"
  cw_Config :: "config_patch option"

record cdn_preset =
  ps_PresetID :: int
  ps_Cost :: rat

record cdn_certificate =
  ce_ID :: int
  ce_Type :: string
  ce_CN :: string
  ce_Domains :: "string list"
  ce_ExpiresAt :: string

record cert_task =
  ts_ID :: int
  ts_Status :: string

text \<open>\<^verbatim>\<open>cdnAPI\<close>; the upload carries the certificate and its key.\<close>

datatype cdn_req =
    ListCdns | GetCdn string | GetCdnConfiguration string
  | CreateCdn cdn_write | PatchCdn string cdn_write | DeleteCdn string
  | ClearCdnCache string string "string list"
  | ListCdnPresets
  | ListCertificates string | ListAllCertificates | ListCertificateTasks string
  | UploadCertificate string string | IssueCertificate int | DeleteCertificate string

datatype cdn_payload =
    PCdn cdn_resource | PCdns "cdn_resource list" | PCdnConfig cdn_config | PCdnPresets "cdn_preset list"
  | PCertificates "cdn_certificate list" | PTasks "cert_task list" | PCdnOther

fun as_cdn :: "cdn_payload \<Rightarrow> cdn_resource option" where
  "as_cdn (PCdn r) = Some r" | "as_cdn _ = None"
fun as_cdns :: "cdn_payload \<Rightarrow> cdn_resource list option" where
  "as_cdns (PCdns r) = Some r" | "as_cdns _ = None"
fun as_cdn_config :: "cdn_payload \<Rightarrow> cdn_config option" where
  "as_cdn_config (PCdnConfig c) = Some c" | "as_cdn_config _ = None"
fun as_cdn_presets :: "cdn_payload \<Rightarrow> cdn_preset list option" where
  "as_cdn_presets (PCdnPresets p) = Some p" | "as_cdn_presets _ = None"
fun as_certificates :: "cdn_payload \<Rightarrow> cdn_certificate list option" where
  "as_certificates (PCertificates c) = Some c" | "as_certificates _ = None"
fun as_tasks :: "cdn_payload \<Rightarrow> cert_task list option" where
  "as_tasks (PTasks t) = Some t" | "as_tasks _ = None"

type_synonym cdn_mr = "(cdn_object, cdn_observation) mr"
type_synonym ('w, 'a) cdn_act = "('w, cdn_req, cdn_object, cdn_observation, 'a) act"
type_synonym 'w cdn_api = "('w, cdn_req, cdn_payload) api"

section \<open>The cluster, the clock and the certificate parser\<close>

text \<open>
  What the handlers use beside the API: a Secret's data and an S3Bucket (whether it is Ready, and its id) by namespace
  and name, the patch that removes an annotation, the clock, and \<^verbatim>\<open>pem.Decode\<close> with \<^verbatim>\<open>x509.ParseCertificate\<close>, of which the
  code takes the common name, the DNS names and the day of expiry.
\<close>

record x509_certificate =
  x5_CommonName :: string
  x5_DNSNames :: "string list"
  x5_NotAfterDay :: string

record 'w cdn_env =
  en_secret :: "'w \<Rightarrow> string \<Rightarrow> string \<Rightarrow> (string \<rightharpoonup> string) kube_get"
  en_bucket :: "'w \<Rightarrow> string \<Rightarrow> string \<Rightarrow> (bool \<times> int option) kube_get"
  en_unannotate :: "'w \<Rightarrow> string \<Rightarrow> bool \<times> 'w"
  en_now :: "'w \<Rightarrow> int"
  en_x509 :: "string \<Rightarrow> x509_certificate option"

text \<open>Reading something of the world, and acting on it.\<close>

definition reading :: "('w \<Rightarrow> 'a) \<Rightarrow> ('w, 'q, 's, 'o, 'a) act" where
  "reading f = (\<lambda>s. (Inr (f (world s)), s))"

definition acting :: "('w \<Rightarrow> 'a \<times> 'w) \<Rightarrow> ('w, 'q, 's, 'o, 'a) act" where
  "acting f = (\<lambda>s. case f (world s) of (x, w) \<Rightarrow> (Inr x, s\<lparr>world := w\<rparr>))"

lemma emits_reading [emits_rules]: "emits P (reading f)" "emits P (acting g)"
  by (auto simp: emits_def reading_def acting_def split: prod.splits)

lemma bindE_reading: "bindE (reading f) g s = g (f (world s)) s"
  by (simp add: bindE_def reading_def)

lemma bindE_acting: "bindE (acting f) g s = g (fst (f (world s))) (s\<lparr>world := snd (f (world s))\<rparr>)"
  by (simp add: bindE_def acting_def split: prod.split)

section \<open>Small helpers\<close>

definition i64Deref :: "int option \<Rightarrow> int" where
  "i64Deref p = (case p of None \<Rightarrow> 0 | Some n \<Rightarrow> n)"

lemma i64Deref_simps [simp]: "i64Deref None = 0" "i64Deref (Some n) = n"
  by (simp_all add: i64Deref_def)

definition strDerefOr :: "string option \<Rightarrow> string \<Rightarrow> string" where
  "strDerefOr p d = (if p = None \<or> p = Some [] then d else the p)"

text \<open>Indexing a Go map of strings: the empty string when the key is not there.\<close>

definition at_key :: "(string \<times> string) list \<Rightarrow> string \<Rightarrow> string" where
  "at_key m k = (case map_of m k of None \<Rightarrow> [] | Some v \<Rightarrow> v)"

definition mapsEqual :: "(string \<times> string) list \<Rightarrow> (string \<times> string) list \<Rightarrow> bool" where
  "mapsEqual a b \<longleftrightarrow> (if length a \<noteq> length b then False else list_all (\<lambda>(k, v). at_key b k = v) a)"

definition ttlOf :: "(string \<rightharpoonup> int) option \<Rightarrow> int" where
  "ttlOf t = (case t of None \<Rightarrow> 0 | Some m \<Rightarrow> (case m ''2xx'' of None \<Rightarrow> 0 | Some n \<Rightarrow> n))"

definition desiredQueryArgs :: "cdn_cache \<Rightarrow> query_args option" where
  "desiredQueryArgs c = map_option (\<lambda>mode. \<lparr>qa_Mode = mode, qa_List = (if mode \<noteq> ''all'' then sort (ca_QueryParams c) else [])\<rparr>)
     (ca_QueryMode c)"

definition queryArgsEqual :: "query_args option \<Rightarrow> query_args option \<Rightarrow> bool" where
  "queryArgsEqual a b \<longleftrightarrow> (case (a, b) of (None, None) \<Rightarrow> True
     | (Some x, Some y) \<Rightarrow> (if qa_Mode x \<noteq> qa_Mode y then False else qa_List x = sort (qa_List y))
     | _ \<Rightarrow> False)"

definition defaultStaleConditions :: "string list" where
  "defaultStaleConditions = [''error'', ''timeout'']"

definition aliasesOf :: "cdn_config \<Rightarrow> string list" where
  "aliasesOf cfg = (case cf_Domains cfg of None \<Rightarrow> [] | Some a \<Rightarrow> a)"

definition HasSuffix :: "string \<Rightarrow> string \<Rightarrow> bool" where
  "HasSuffix s t \<longleftrightarrow> HasPrefix (rev s) (rev t)"

definition technicalAlias :: "cdn_config \<Rightarrow> string" where
  "technicalAlias cfg = (case find (\<lambda>a. HasSuffix a ''.cdn.twcstorage.ru'') (aliasesOf cfg) of None \<Rightarrow> [] | Some a \<Rightarrow> a)"

definition customAliases :: "cdn_config \<Rightarrow> string list" where
  "customAliases cfg = filter (\<lambda>a. a \<noteq> technicalAlias cfg) (aliasesOf cfg)"

definition domainsAttached :: "string list \<Rightarrow> cdn_config \<Rightarrow> bool" where
  "domainsAttached domains cfg \<longleftrightarrow> list_all (\<lambda>d. d \<in> set (aliasesOf cfg)) domains"

definition effectiveName :: "cdn_object \<Rightarrow> string" where
  "effectiveName x = strDerefOr (cdp_Name (cx_Params x)) (cx_Name x)"

definition originPort :: "cdn_origin \<Rightarrow> bool \<Rightarrow> int" where
  "originPort og https = (case og_Port og of Some p \<Rightarrow> p | None \<Rightarrow> if https then 443 else 80)"

definition isSuspendedState :: "string \<Rightarrow> bool" where
  "isSuspendedState s \<longleftrightarrow> ToLower s \<in> set [''suspended'', ''paused'', ''stopped'', ''blocked'', ''disabled'', ''no_paid'']"

definition cdn_connectionDetails :: "cdn_resource \<Rightarrow> (string \<times> string) list" where
  "cdn_connectionDetails r = (if hr_CDNDomain r = [] then []
     else [(''technical_domain'', hr_CDNDomain r), (''url'', ''https://'' @ hr_CDNDomain r)])"

text \<open>\<^verbatim>\<open>doJSON\<close> with a target, and \<^verbatim>\<open>do\<close>, which is \<open>write_call\<close>.\<close>

definition cdn_doJSON :: "'w cdn_api \<Rightarrow> (cdn_payload \<Rightarrow> 'a option) \<Rightarrow> cdn_req \<Rightarrow> ('w, 'a) cdn_act" where
  "cdn_doJSON api sel q = bindE (call_classify api q) (\<lambda>resp. case Option.bind (resp_payload resp) sel of
     Some x \<Rightarrow> returnOk x | None \<Rightarrow> throwError DecodeBodyError)"

lemma emits_cdn_doJSON [emits_rules]: "P q \<Longrightarrow> emits P (cdn_doJSON api sel q)"
  unfolding cdn_doJSON_def by (intro emits_rules)

end
