(* ===== verification/CdnSettings.thy ===== *)
theory CdnSettings
  imports CdnTypes
begin

text \<open>
  The settings of a Cdn: origins and secrets, the PATCH toward the declared state (\<^verbatim>\<open>buildDesiredWrite\<close> with its sections)
  and the status, of \<^verbatim>\<open>controller/cdn/external.go\<close>. A settings block that is not declared is not owned: it is neither
  compared nor written.
\<close>

section \<open>Secrets and origins\<close>

record cert_identity =
  id_cn :: string
  id_domains :: "string list"
  id_expiryDay :: string

record resolved_secrets =
  rs_secureTokenKey :: string
  rs_awsAccessKey :: string
  rs_awsSecretKey :: string
  rs_certPEM :: string
  rs_keyPEM :: string
  rs_certIdentity :: "cert_identity option"

definition secretValue :: "'w cdn_env \<Rightarrow> 'w \<Rightarrow> string \<Rightarrow> string \<Rightarrow> string \<Rightarrow> go_error + string" where
  "secretValue env w ns name key = (case en_secret env w ns name of
     KFound data \<Rightarrow> (case data key of
         None \<Rightarrow> Inl (Errorf ''secret: key missing or empty'')
       | Some v \<Rightarrow> if v = [] then Inl (Errorf ''secret: key missing or empty'') else Inr v)
   | _ \<Rightarrow> Inl (Errorf ''secret''))"

definition parseTLSCertificate :: "'w cdn_env \<Rightarrow> string \<Rightarrow> go_error + cert_identity" where
  "parseTLSCertificate env crt = (case en_x509 env crt of
     None \<Rightarrow> Inl (Errorf ''parse tls.crt'')
   | Some x \<Rightarrow> Inr \<lparr>id_cn = x5_CommonName x,
       id_domains = sort (if x5_DNSNames x = [] \<and> x5_CommonName x \<noteq> [] then [x5_CommonName x] else x5_DNSNames x),
       id_expiryDay = x5_NotAfterDay x\<rparr>)"

text \<open>The three parts of \<^verbatim>\<open>resolveSpecSecrets\<close>: the signing key, the AWS keys, and the certificate with its key.\<close>

definition token_secret :: "'w cdn_env \<Rightarrow> 'w \<Rightarrow> cdn_object \<Rightarrow> go_error + string" where
  "token_secret env w x = (case Option.bind (cdp_Security (cx_Params x)) sy_SecureToken of
     None \<Rightarrow> Inr []
   | Some t \<Rightarrow> secretValue env w (cx_Namespace x) (tk_SecretName t) (case tk_SecretKey t of Some k \<Rightarrow> k | None \<Rightarrow> ''secret''))"

definition aws_secrets :: "'w cdn_env \<Rightarrow> 'w \<Rightarrow> cdn_object \<Rightarrow> go_error + cdn_aws" where
  "aws_secrets env w x = (let og = cdp_Origin (cx_Params x) in case og_AWSAuthSecretRef og of
     None \<Rightarrow> Inr ([], [])
   | Some name \<Rightarrow> if og_BucketRef og \<noteq> None then Inr ([], [])
       else (case secretValue env w (cx_Namespace x) name ''access_key'' of Inl e \<Rightarrow> Inl e
         | Inr ak \<Rightarrow> map_sum (\<lambda>e. e) (Pair ak) (secretValue env w (cx_Namespace x) name ''secret_key'')))"

definition cert_secrets :: "'w cdn_env \<Rightarrow> 'w \<Rightarrow> cdn_object \<Rightarrow> go_error + string \<times> string \<times> cert_identity option" where
  "cert_secrets env w x = (case cdp_SSL (cx_Params x) of
     None \<Rightarrow> Inr ([], [], None)
   | Some ssl \<Rightarrow> (case ssl_CertificateSecretRef ssl of
       None \<Rightarrow> Inr ([], [], None)
     | Some name \<Rightarrow> if ssl_Mode ssl \<noteq> ''custom'' then Inr ([], [], None)
         else (case secretValue env w (cx_Namespace x) name ''tls.crt'' of Inl e \<Rightarrow> Inl e
           | Inr crt \<Rightarrow> (case secretValue env w (cx_Namespace x) name ''tls.key'' of Inl e \<Rightarrow> Inl e
             | Inr key \<Rightarrow> map_sum (\<lambda>e. e) (\<lambda>i. (crt, key, Some i)) (parseTLSCertificate env crt)))))"

definition resolveSpecSecrets :: "'w cdn_env \<Rightarrow> 'w \<Rightarrow> cdn_object \<Rightarrow> go_error + resolved_secrets" where
  "resolveSpecSecrets env w x = (case token_secret env w x of Inl e \<Rightarrow> Inl (Wrap ''secureToken'' e)
   | Inr tok \<Rightarrow> (case aws_secrets env w x of Inl e \<Rightarrow> Inl (Wrap ''awsAuth'' e)
   | Inr (ak, sk) \<Rightarrow> (case cert_secrets env w x of Inl e \<Rightarrow> Inl (Wrap ''ssl certificate'' e)
   | Inr (crt, key, i) \<Rightarrow> Inr \<lparr>rs_secureTokenKey = tok, rs_awsAccessKey = ak, rs_awsSecretKey = sk,
       rs_certPEM = crt, rs_keyPEM = key, rs_certIdentity = i\<rparr>)))"

text \<open>The write side of the origin: one of server and storage id.\<close>

record resolved_origin =
  ro_server :: "cdn_server option"
  ro_storageID :: "int option"
  ro_useHTTPS :: bool

definition errOriginNotReady :: go_error where
  "errOriginNotReady = Errorf ''cdn: origin is not resolvable yet''"

definition originNotReady :: "('w, 'a) cdn_act" where
  "originNotReady = bindE (modify_cr (SetConditions (ReadyFalse ''OriginNotReady''))) (\<lambda>_. throwError errOriginNotReady)"

definition use_https :: "cdn_origin \<Rightarrow> bool" where
  "use_https og \<longleftrightarrow> og_HTTPS og = None \<or> og_HTTPS og = Some True"

definition resolveOrigin :: "'w cdn_env \<Rightarrow> ('w, resolved_origin) cdn_act" where
  "resolveOrigin env = bindE (gets for_provider) (\<lambda>x. let og = cdp_Origin (cx_Params x);
     out = \<lparr>ro_server = None, ro_storageID = None, ro_useHTTPS = use_https og\<rparr> in
     case og_BucketRef og of
       Some name \<Rightarrow> bindE (reading (\<lambda>w. en_bucket env w (cx_Namespace x) name)) (\<lambda>got. case got of
           KFound (ready, bid) \<Rightarrow> if \<not> ready \<or> bid = None then originNotReady else returnOk (out\<lparr>ro_storageID := bid\<rparr>)
         | _ \<Rightarrow> originNotReady)
     | None \<Rightarrow> returnOk (case og_Domain og of
           Some d \<Rightarrow> out\<lparr>ro_server := Some (d, originPort og (use_https og))\<rparr>
         | None \<Rightarrow> (case og_IP og of
             Some ip \<Rightarrow> out\<lparr>ro_server := Some (ip, originPort og (use_https og))\<rparr>
           | None \<Rightarrow> out)))"

definition originDrifted :: "resolved_origin \<Rightarrow> cdn_resource \<Rightarrow> cdn_config \<Rightarrow> bool" where
  "originDrifted want res cfg \<longleftrightarrow>
     (let obsHTTPS = (case cf_Origin cfg of None \<Rightarrow> True | Some og \<Rightarrow> or_UseHTTPS og = None \<or> or_UseHTTPS og = Some True) in
      if ro_useHTTPS want \<noteq> obsHTTPS then True
      else if ro_storageID want \<noteq> None then hr_StorageID res \<noteq> ro_storageID want
      else (case ro_server want of
          None \<Rightarrow> False
        | Some srv \<Rightarrow> if hr_StorageID res \<noteq> None then True
            else (case cf_Origin cfg of None \<Rightarrow> True
              | Some og \<Rightarrow> (case or_Servers og of [] \<Rightarrow> True | s # _ \<Rightarrow> fst s \<noteq> fst srv \<or> snd s \<noteq> snd srv))))"

section \<open>The sections of the settings\<close>

text \<open>Each is \<open>None\<close> when there is nothing to write.\<close>

definition desired_domains :: "cdn_parameters \<Rightarrow> cdn_config \<Rightarrow> string list option" where
  "desired_domains p cfg = (case cdp_Domains p of None \<Rightarrow> None
     | Some ds \<Rightarrow> if sort ds \<noteq> sort (customAliases cfg) then Some (sort ds) else None)"

definition desired_aws :: "cdn_parameters \<Rightarrow> cdn_config \<Rightarrow> resolved_secrets \<Rightarrow> cdn_aws option" where
  "desired_aws p cfg sec =
     (if og_AWSAuthSecretRef (cdp_Origin p) \<noteq> None \<and> og_BucketRef (cdp_Origin p) = None then
        (let keys = (rs_awsAccessKey sec, rs_awsSecretKey sec) in
         if Option.bind (cf_Origin cfg) or_AWS = Some keys then None else Some keys)
      else None)"

definition desired_cache :: "cdn_parameters \<Rightarrow> cdn_config \<Rightarrow> cache_config option" where
  "desired_cache p cfg = (case cdp_Cache p of None \<Rightarrow> None
     | Some c \<Rightarrow> let wantEdge = i64Deref (ca_EdgeTTLSeconds c); wantBrowser = i64Deref (ca_BrowserTTLSeconds c);
         wantOnline = DerefBool (ca_AlwaysOnline c); wantQA = desiredQueryArgs c;
         (obsEdge, obsBrowser, obsOnline, obsQA) = (case cf_Cache cfg of None \<Rightarrow> (0, 0, False, None)
           | Some ob \<Rightarrow> (ttlOf (cc_CDN ob), i64Deref (cc_Browser ob), cc_AlwaysOnline ob \<noteq> None, cc_QueryArgs ob)) in
         if wantEdge \<noteq> obsEdge \<or> wantBrowser \<noteq> obsBrowser \<or> wantOnline \<noteq> obsOnline \<or> \<not> queryArgsEqual wantQA obsQA then Some \<lparr>
           cc_CDN = (if wantEdge > 0 then Some [''2xx'' \<mapsto> wantEdge] else None),
           cc_Browser = (if wantBrowser > 0 then Some wantBrowser else None),
           cc_AlwaysOnline = (if wantOnline then Some (case Option.bind (cf_Cache cfg) cc_AlwaysOnline of
               Some cond \<Rightarrow> cond | None \<Rightarrow> defaultStaleConditions) else None),
           cc_QueryArgs = wantQA\<rparr>
         else None)"

definition desired_redirect :: "cdn_security \<Rightarrow> cdn_config \<Rightarrow> bool option" where
  "desired_redirect s cfg = (let want = DerefBool (sy_ForceHTTPS s);
     obs = (case cf_Security cfg of None \<Rightarrow> False | Some ob \<Rightarrow> DerefBool (yc_Redirect ob)) in
     if want \<noteq> obs then Some want else None)"

definition desired_token :: "cdn_security \<Rightarrow> cdn_config \<Rightarrow> resolved_secrets \<Rightarrow> secure_token option option" where
  "desired_token s cfg sec = (let obsToken = Option.bind (cf_Security cfg) yc_SecureToken in case sy_SecureToken s of
     Some t \<Rightarrow> (let wantRestrict = DerefBool (tk_RestrictByIP t);
         matches = (case obsToken of None \<Rightarrow> False | Some ob \<Rightarrow> sc_RestrictByIP ob = wantRestrict \<and>
           (sc_SecretKey ob = [] \<or> sc_SecretKey ob = rs_secureTokenKey sec)) in
       if matches then None else Some (Some \<lparr>sc_SecretKey = rs_secureTokenKey sec, sc_RestrictByIP = wantRestrict\<rparr>))
   | None \<Rightarrow> if obsToken \<noteq> None then Some None else None)"

definition desired_security :: "cdn_parameters \<Rightarrow> cdn_config \<Rightarrow> resolved_secrets \<Rightarrow> security_patch option" where
  "desired_security p cfg sec = (case cdp_Security p of None \<Rightarrow> None
     | Some s \<Rightarrow> let r = desired_redirect s cfg; t = desired_token s cfg sec in
         if r = None \<and> t = None then None else Some \<lparr>yp_Redirect = r, yp_CertificateID = None, yp_SecureToken = t\<rparr>)"

definition desiredDelivery :: "cdn_performance \<Rightarrow> delivery_config option \<Rightarrow> delivery_config option" where
  "desiredDelivery perf obs = (let wantHTTP3 = DerefBool (pf_HTTP3 perf); wantGzip = DerefBool (pf_Gzip perf);
     wantLarge = (pf_LargeFileSlicingMB perf \<noteq> None); wantSlice = i64Deref (pf_LargeFileSlicingMB perf);
     mode = strDerefOr (pf_ContentOptimization perf) ''off''; wantImage = (mode = ''images''); wantMP4 = (mode = ''video'');
     (obsHTTP3, obsGzip, obsLarge, obsImage, obsSlice, obsMP4) = (case obs of None \<Rightarrow> (False, False, False, False, 0, False)
       | Some ob \<Rightarrow> (DerefBool (dc_HTTP3 ob), DerefBool (dc_Gzip ob), DerefBool (dc_LargeFiles ob), DerefBool (dc_ImageOptimization ob),
           i64Deref (dc_SliceSize ob), DerefBool (dc_Packaging ob))) in
     if wantHTTP3 = obsHTTP3 \<and> wantGzip = obsGzip \<and> wantLarge = obsLarge \<and> (\<not> wantLarge \<or> wantSlice = obsSlice) \<and>
        wantImage = obsImage \<and> wantMP4 = obsMP4 then None
     else Some \<lparr>dc_HTTP3 = Some wantHTTP3, dc_Gzip = Some wantGzip, dc_LargeFiles = Some wantLarge,
       dc_SliceSize = (if wantLarge then Some wantSlice else None), dc_ImageOptimization = Some wantImage,
       dc_Packaging = (if wantMP4 \<noteq> obsMP4 then Some wantMP4 else None)\<rparr>)"

definition desired_robots :: "cdn_performance \<Rightarrow> cdn_config \<Rightarrow> robots_config option" where
  "desired_robots perf cfg = (case pf_Robots perf of None \<Rightarrow> None
     | Some r \<Rightarrow> let (obsType, obsContent) = (case cf_Robots cfg of None \<Rightarrow> ([], [])
           | Some ob \<Rightarrow> (DerefString (rc_Type ob), DerefString (rc_Content ob))) in
         if rb_Mode r \<noteq> obsType \<or> DerefString (rb_Custom r) \<noteq> obsContent
         then Some \<lparr>rc_Type = Some (rb_Mode r), rc_Content = (if rb_Mode r = ''custom'' then Some (DerefString (rb_Custom r)) else None)\<rparr>
         else None)"

definition desired_request_headers :: "cdn_parameters \<Rightarrow> cdn_config \<Rightarrow> (string \<times> string) list option" where
  "desired_request_headers p cfg = (case cdp_RequestHeaders p of None \<Rightarrow> None
     | Some hs \<Rightarrow> let want = map_build hs; obs = (case cf_HTTPHeaders cfg of None \<Rightarrow> [] | Some h \<Rightarrow> hc_Request h) in
         if \<not> mapsEqual want obs then Some want else None)"

definition desired_cors :: "cdn_parameters \<Rightarrow> cdn_config \<Rightarrow> cors_config option" where
  "desired_cors p cfg = (case cdp_Cors p of None \<Rightarrow> None
     | Some c \<Rightarrow> let want = sort (cs_Origins c); wantAlways = DerefBool (cs_AlwaysAddHeader c);
         (obs, obsAlways) = (case Option.bind (cf_HTTPHeaders cfg) hc_Cors of None \<Rightarrow> ([], False)
           | Some ob \<Rightarrow> (sort (oc_Domains ob), DerefBool (oc_Always ob))) in
         if want \<noteq> obs \<or> wantAlways \<noteq> obsAlways then Some \<lparr>oc_Domains = want, oc_Always = Some wantAlways\<rparr> else None)"

definition desiredHTTPHeaders :: "cdn_parameters \<Rightarrow> cdn_config \<Rightarrow> headers_config option" where
  "desiredHTTPHeaders p cfg = (let r = desired_request_headers p cfg; c = desired_cors p cfg in
     if r = None \<and> c = None then None
     else Some \<lparr>hc_Request = (case r of None \<Rightarrow> [] | Some h \<Rightarrow> h), hc_Cors = c\<rparr>)"

definition desiredConfig :: "cdn_parameters \<Rightarrow> cdn_config \<Rightarrow> resolved_secrets \<Rightarrow> config_patch option" where
  "desiredConfig p cfg sec = (let out = \<lparr>
       cp_Cache = desired_cache p cfg,
       cp_Delivery = Option.bind (cdp_Performance p) (\<lambda>perf. desiredDelivery perf (cf_Delivery cfg)),
       cp_HTTPHeaders = desiredHTTPHeaders p cfg,
       cp_Robots = Option.bind (cdp_Performance p) (\<lambda>perf. desired_robots perf cfg),
       cp_Security = desired_security p cfg sec,
       cp_Domains = desired_domains p cfg,
       cp_Origin = desired_aws p cfg sec\<rparr> in
     if cp_Cache out = None \<and> cp_Delivery out = None \<and> cp_HTTPHeaders out = None \<and> cp_Robots out = None \<and>
        cp_Security out = None \<and> cp_Domains out = None \<and> cp_Origin out = None then None else Some out)"

section \<open>The PATCH\<close>

definition desired_limit :: "cdn_parameters \<Rightarrow> cdn_resource \<Rightarrow> int option option" where
  "desired_limit p res = (case cdp_TrafficLimitGBPerMonth p of None \<Rightarrow> None
     | Some n \<Rightarrow> if n = 0 then (if hr_TrafficLimitBytes res \<noteq> None then Some None else None)
         else (let want = wrap64 (n * 2 ^ 30) in if hr_TrafficLimitBytes res \<noteq> Some want then Some (Some want) else None))"

text \<open>The PATCH without the origin, and with the origin when that could be resolved.\<close>

definition desired_write :: "cdn_object \<Rightarrow> cdn_resource \<Rightarrow> cdn_config \<Rightarrow> resolved_secrets \<Rightarrow> resolved_origin option \<Rightarrow> cdn_write" where
  "desired_write x res cfg sec origin = (let p = cx_Params x;
       ob = (case origin of None \<Rightarrow> None | Some w \<Rightarrow> if originDrifted w res cfg then Some w else None) in \<lparr>
     cw_Name = (if hr_Name res \<noteq> effectiveName x then Some (effectiveName x) else None),
     cw_Description = (if hr_Description res \<noteq> DerefString (cdp_Description p) then Some (DerefString (cdp_Description p)) else None),
     cw_ProjectID = (if cdp_ProjectID p \<noteq> None \<and> cdp_ProjectID p \<noteq> Some (hr_ProjectID res) then cdp_ProjectID p else None),
     cw_PresetID = None,
     cw_Server = Option.bind ob ro_server, cw_StorageID = Option.bind ob ro_storageID, cw_UseHTTPS = map_option ro_useHTTPS ob,
     cw_TrafficLimitBytes = desired_limit p res,
     cw_Config = desiredConfig p cfg sec\<rparr>)"

text \<open>\<^verbatim>\<open>dirty\<close>: some field is written; a drifted origin always writes \<^verbatim>\<open>use_https\<close>.\<close>

definition write_dirty :: "cdn_write \<Rightarrow> bool" where
  "write_dirty w \<longleftrightarrow> cw_Name w \<noteq> None \<or> cw_Description w \<noteq> None \<or> cw_ProjectID w \<noteq> None \<or> cw_UseHTTPS w \<noteq> None \<or>
     cw_TrafficLimitBytes w \<noteq> None \<or> cw_Config w \<noteq> None"

definition buildDesiredWrite :: "'w cdn_env \<Rightarrow> cdn_resource \<Rightarrow> cdn_config \<Rightarrow> resolved_secrets \<Rightarrow> ('w, cdn_write \<times> bool) cdn_act" where
  "buildDesiredWrite env res cfg sec = bindE (gets for_provider) (\<lambda>x.
     bindE (if cx_Deleting x then returnOk None
            else bindE (attempt (resolveOrigin env)) (\<lambda>r. returnOk (case r of Inl e \<Rightarrow> None | Inr origin \<Rightarrow> Some origin))) (\<lambda>origin.
     let w = desired_write x res cfg sec origin in returnOk (w, write_dirty w)))"

section \<open>Status\<close>

definition settingsMirror :: "cdn_config \<Rightarrow> cdn_mirror" where
  "settingsMirror cfg = \<lparr>
     mi_Cache = map_option (\<lambda>c. \<lparr>ca_EdgeTTLSeconds = Some (ttlOf (cc_CDN c)), ca_BrowserTTLSeconds = Some (i64Deref (cc_Browser c)),
       ca_AlwaysOnline = Some (cc_AlwaysOnline c \<noteq> None), ca_QueryMode = map_option qa_Mode (cc_QueryArgs c),
       ca_QueryParams = (case cc_QueryArgs c of None \<Rightarrow> [] | Some q \<Rightarrow> qa_List q)\<rparr>) (cf_Cache cfg),
     mi_Security = map_option (\<lambda>s. \<lparr>sy_ForceHTTPS = yc_Redirect s, sy_SecureToken = None\<rparr>) (cf_Security cfg),
     mi_Performance = map_option (\<lambda>d. \<lparr>pf_HTTP3 = dc_HTTP3 d, pf_Gzip = dc_Gzip d,
       pf_LargeFileSlicingMB = (if DerefBool (dc_LargeFiles d) then dc_SliceSize d else None),
       pf_ContentOptimization = Some (if DerefBool (dc_ImageOptimization d) then ''images''
         else if DerefBool (dc_Packaging d) then ''video'' else ''off''),
       pf_Robots = Option.bind (cf_Robots cfg) (\<lambda>r. map_option (\<lambda>t. \<lparr>rb_Mode = t, rb_Custom = rc_Content r\<rparr>) (rc_Type r))\<rparr>) (cf_Delivery cfg),
     mi_Cors = map_option (\<lambda>c. \<lparr>cs_Origins = oc_Domains c, cs_AlwaysAddHeader = oc_Always c\<rparr>) (Option.bind (cf_HTTPHeaders cfg) hc_Cors),
     mi_RequestHeaderNames = (case cf_HTTPHeaders cfg of None \<Rightarrow> [] | Some h \<Rightarrow> sort (map fst (hc_Request h)))\<rparr>"

definition cdn_status :: "cdn_resource \<Rightarrow> cdn_config \<Rightarrow> cdn_observation \<Rightarrow> cdn_observation" where
  "cdn_status res cfg st = st\<lparr>cdo_ID := Some (hr_ID res), cdo_State := Some (hr_Status res), cdo_Source := Some (hr_Source res),
     cdo_TechnicalDomain := (if hr_CDNDomain res \<noteq> [] then Some (hr_CDNDomain res) else cdo_TechnicalDomain st),
     cdo_LockedPresetID := (if cdo_LockedPresetID st = None \<and> hr_PresetID res \<noteq> 0 then Some (hr_PresetID res) else cdo_LockedPresetID st),
     cdo_TrafficLimitBytes := hr_TrafficLimitBytes res,
     cdo_TrafficUsage := (if hr_TrafficUsage res \<noteq> None then hr_TrafficUsage res else cdo_TrafficUsage st),
     cdo_Domains := (case cf_Domains cfg of Some a \<Rightarrow> a | None \<Rightarrow> cdo_Domains st),
     cdo_ObservedSettings := Some (settingsMirror cfg)\<rparr>"

definition cdn_populateStatus :: "cdn_resource \<Rightarrow> cdn_config \<Rightarrow> cdn_mr \<Rightarrow> cdn_mr" where
  "cdn_populateStatus res cfg m = m\<lparr>at_provider := cdn_status res cfg (at_provider m)\<rparr>"

end
