(* ===== verification/CdnSsl.thy ===== *)
theory CdnSsl
  imports CdnSettings "HOL-Library.Word"
begin

text \<open>
  The certificate slot of a Cdn: \<^verbatim>\<open>controller/cdn/ssl.go\<close>. \<^verbatim>\<open>computeSSL\<close> chooses at most one action per reconcile from the
  declared mode and what was read, with a retry budget for issuing; \<^verbatim>\<open>executeSSLAction\<close> performs it.
\<close>

unbundle bit_operations_syntax

definition maxIssueAttempts :: int where "maxIssueAttempts = 4"

text \<open>Fifteen minutes in nanoseconds.\<close>

definition issueSpacing :: int where "issueSpacing = 15 * 60 * 1000000000"

section \<open>Certificates\<close>

definition identity_equal :: "cert_identity \<Rightarrow> cert_identity \<Rightarrow> bool" where
  "identity_equal a b \<longleftrightarrow> id_cn a = id_cn b \<and> id_expiryDay a = id_expiryDay b \<and> id_domains a = id_domains b"

definition identityOf :: "cdn_certificate \<Rightarrow> cert_identity" where
  "identityOf c = \<lparr>id_cn = ce_CN c, id_domains = sort (ce_Domains c),
     id_expiryDay = (if length (ce_ExpiresAt c) \<ge> 10 then take 10 (ce_ExpiresAt c) else ce_ExpiresAt c)\<rparr>"

definition managedMatches :: "cdn_certificate_status option \<Rightarrow> cdn_certificate \<Rightarrow> bool" where
  "managedMatches m c = (case m of None \<Rightarrow> False
     | Some k \<Rightarrow>
         if ct_ID k \<noteq> Some (ce_ID c) then False
         else if ct_Type k \<noteq> None \<and> ct_Type k \<noteq> Some (ce_Type c) then False
         else if ct_CN k \<noteq> None \<and> ct_CN k \<noteq> Some (ce_CN c) then False
         else (case ct_ExpiresAt k of
             Some t \<Rightarrow> \<not> (length t \<ge> 10 \<and> length (ce_ExpiresAt c) \<ge> 10 \<and> take 10 t \<noteq> take 10 (ce_ExpiresAt c))
           | None \<Rightarrow> True))"

definition markerFor :: "cdn_certificate \<Rightarrow> cdn_certificate_status" where
  "markerFor c = \<lparr>ct_ID = Some (ce_ID c), ct_Type = Some (ce_Type c), ct_CN = Some (ce_CN c), ct_ExpiresAt = Some (ce_ExpiresAt c)\<rparr>"

text \<open>The task with the greatest id, the first of equals.\<close>

fun latest_task :: "cert_task list \<Rightarrow> cert_task option \<Rightarrow> cert_task option" where
  "latest_task [] latest = latest"
| "latest_task (t # ts) latest = latest_task ts
     (case latest of None \<Rightarrow> Some t | Some l \<Rightarrow> if ts_ID t > ts_ID l then Some t else Some l)"

definition latestTask :: "cert_task list \<Rightarrow> cert_task option" where
  "latestTask tasks = latest_task tasks None"

section \<open>The budget key\<close>

text \<open>\<^verbatim>\<open>fnv.New64a\<close> over the bytes written, printed in base 16.\<close>

definition fnv64a :: "string \<Rightarrow> 64 word" where
  "fnv64a s = foldl (\<lambda>h c. (h XOR of_nat (of_char c)) * 1099511628211) 14695981039346656037 s"

definition hex_digit :: "nat \<Rightarrow> char" where
  "hex_digit d = (if d < 10 then digit_char d else char_of (87 + d))"

fun hex_digits :: "nat \<Rightarrow> string" where
  "hex_digits n = (if n < 16 then [hex_digit n] else hex_digits (n div 16) @ [hex_digit (n mod 16)])"

declare hex_digits.simps [simp del]

definition sslBudgetKey :: "string list \<Rightarrow> cdn_ssl option \<Rightarrow> cert_identity option \<Rightarrow> string" where
  "sslBudgetKey domains ssl desired = hex_digits (unat (fnv64a (Join (sort domains) '','' @
     (case ssl of None \<Rightarrow> [] | Some s \<Rightarrow> ''|'' @ ssl_Mode s) @
     (case desired of None \<Rightarrow> [] | Some d \<Rightarrow> ''|'' @ id_cn d @ ''|'' @ Join (id_domains d) '','' @ ''|'' @ id_expiryDay d))))"

section \<open>computeSSL\<close>

datatype ssl_action = SslNone | SslIssue | SslUpload | SslBind int | SslUnbind | SslDeleteOld int

record ssl_inputs =
  si_mode :: string
  si_desired :: "cert_identity option"
  si_boundID :: "int option"
  si_managed :: "cdn_certificate_status option"
  si_certificates :: "cdn_certificate list"
  si_tasks :: "cert_task list"
  si_domainsAttached :: bool
  si_prevState :: string
  si_budgetKey :: string
  si_prevBudgetKey :: string
  si_attempts :: int
  si_lastAttempt :: "int option"
  si_now :: int

record ssl_outcome =
  so_action :: ssl_action
  so_state :: string
  so_attempts :: int
  so_managed :: "cdn_certificate_status option"

definition budget_attempts :: "ssl_inputs \<Rightarrow> int" where
  "budget_attempts i = (if si_budgetKey i \<noteq> si_prevBudgetKey i then 0 else si_attempts i)"

abbreviation ssl_out :: "ssl_inputs \<Rightarrow> ssl_action \<Rightarrow> string \<Rightarrow> cdn_certificate_status option \<Rightarrow> ssl_outcome" where
  "ssl_out i a st m \<equiv> \<lparr>so_action = a, so_state = st, so_attempts = budget_attempts i, so_managed = m\<rparr>"

text \<open>Once the wanted certificate is bound: remove the old one of ours, then other copies of the same certificate.\<close>

definition ssl_cleanup :: "ssl_inputs \<Rightarrow> cert_identity \<Rightarrow> cdn_certificate \<Rightarrow> ssl_outcome" where
  "ssl_cleanup i desired c = (let managed = (case si_managed i of None \<Rightarrow> markerFor c | Some m \<Rightarrow> m);
     other = find (\<lambda>d. ce_ID d \<noteq> ce_ID c \<and> identity_equal (identityOf d) desired) (si_certificates i);
     finish = (\<lambda>m. case other of Some d \<Rightarrow> ssl_out i (SslDeleteOld (ce_ID d)) ''bound'' (Some m) | None \<Rightarrow> ssl_out i SslNone ''bound'' (Some m)) in
     if ct_ID managed \<noteq> None \<and> ct_ID managed \<noteq> Some (ce_ID c) then
       (case find (managedMatches (Some managed)) (si_certificates i) of
          Some d \<Rightarrow> ssl_out i (SslDeleteOld (ce_ID d)) ''bound'' (Some managed)
        | None \<Rightarrow> finish (markerFor c))
     else finish managed)"

definition ssl_custom :: "ssl_inputs \<Rightarrow> ssl_outcome" where
  "ssl_custom i = (case si_desired i of None \<Rightarrow> ssl_out i SslNone ''failed'' (si_managed i)
   | Some desired \<Rightarrow> (case find (\<lambda>c. identity_equal (identityOf c) desired) (si_certificates i) of
       None \<Rightarrow> if si_budgetKey i = si_prevBudgetKey i \<and> si_prevState i = ''failed'' then ssl_out i SslNone ''failed'' (si_managed i)
         else ssl_out i SslUpload ''pending'' (si_managed i)
     | Some c \<Rightarrow> if si_boundID i \<noteq> Some (ce_ID c) then ssl_out i (SslBind (ce_ID c)) ''pending'' (si_managed i)
         else ssl_cleanup i desired c))"

text \<open>What to do about a certificate of another kind in the slot: \<open>None\<close> goes on to issuing.\<close>

definition ssl_clear_slot :: "ssl_inputs \<Rightarrow> ssl_outcome option" where
  "ssl_clear_slot i = (case (if si_boundID i = None then None
       else find (\<lambda>c. Some (ce_ID c) = si_boundID i \<and> ce_Type c \<noteq> ''lets_encrypt'') (si_certificates i)) of
     Some c \<Rightarrow> Some (if managedMatches (si_managed i) c then ssl_out i SslUnbind ''pending'' (si_managed i)
       else ssl_out i SslNone ''failed'' (si_managed i))
   | None \<Rightarrow> map_option (\<lambda>c. ssl_out i (SslDeleteOld (ce_ID c)) ''pending'' (si_managed i))
       (find (\<lambda>c. managedMatches (si_managed i) c \<and> ce_Type c \<noteq> ''lets_encrypt'') (si_certificates i)))"

definition ssl_issue :: "ssl_inputs \<Rightarrow> ssl_outcome" where
  "ssl_issue i =
     (if (case latestTask (si_tasks i) of None \<Rightarrow> False | Some t \<Rightarrow> ts_Status t = ''in_progress'') then ssl_out i SslNone ''issuing'' (si_managed i)
      else if \<not> si_domainsAttached i then ssl_out i SslNone ''pending'' (si_managed i)
      else if budget_attempts i \<ge> maxIssueAttempts then ssl_out i SslNone ''exhausted'' (si_managed i)
      else if budget_attempts i > 0 \<and> (case si_lastAttempt i of None \<Rightarrow> False | Some t \<Rightarrow> si_now i - t < issueSpacing)
        then ssl_out i SslNone ''failed'' (si_managed i)
      else ssl_out i SslIssue ''pending'' (si_managed i))"

definition ssl_lets_encrypt :: "ssl_inputs \<Rightarrow> ssl_outcome" where
  "ssl_lets_encrypt i = (case find (\<lambda>c. ce_Type c = ''lets_encrypt'') (si_certificates i) of
     Some le \<Rightarrow> if si_boundID i \<noteq> Some (ce_ID le) then ssl_out i (SslBind (ce_ID le)) ''pending'' (si_managed i)
       else ssl_out i SslNone ''bound'' (case si_managed i of None \<Rightarrow> Some (markerFor le) | Some m \<Rightarrow> Some m)
   | None \<Rightarrow> (case ssl_clear_slot i of Some out \<Rightarrow> out | None \<Rightarrow> ssl_issue i))"

definition ssl_none :: "ssl_inputs \<Rightarrow> ssl_outcome" where
  "ssl_none i =
     (if si_boundID i \<noteq> None then ssl_out i SslUnbind ''pending'' (si_managed i)
      else (case find (managedMatches (si_managed i)) (si_certificates i) of
          Some c \<Rightarrow> ssl_out i (SslDeleteOld (ce_ID c)) ''pending'' (si_managed i)
        | None \<Rightarrow> ssl_out i SslNone [] None))"

definition computeSSL :: "ssl_inputs \<Rightarrow> ssl_outcome" where
  "computeSSL i = (if si_mode i = ''custom'' then ssl_custom i
     else if si_mode i = ''letsEncrypt'' then ssl_lets_encrypt i
     else if si_mode i = ''none'' then ssl_none i
     else ssl_out i SslNone [] (si_managed i))"

section \<open>Reading and acting\<close>

definition certificatesForMode :: "'w cdn_api \<Rightarrow> string \<Rightarrow> string \<Rightarrow> ('w, cdn_certificate list) cdn_act" where
  "certificatesForMode api rid mode = cdn_doJSON api as_certificates (if mode = ''custom'' then ListAllCertificates else ListCertificates rid)"

definition listCertificateTasks :: "'w cdn_api \<Rightarrow> string \<Rightarrow> ('w, cert_task list) cdn_act" where
  "listCertificateTasks api rid = cdn_doJSON api as_tasks (ListCertificateTasks rid)"

text \<open>\<^verbatim>\<open>err.Error()\<close> of the errors a classified response can give.\<close>

fun error_text :: "go_error \<Rightarrow> string" where
  "error_text (Wrap m e) = m @ '': '' @ error_text e"
| "error_text (TransientError c r) = ''timeweb transient ('' @ r @ '')''"
| "error_text (APIError c k m) = (if k \<noteq> [] then ''timeweb api: '' @ Itoa c @ '' '' @ k @ '': '' @ m else ''timeweb api: '' @ Itoa c @ '': '' @ m)"
| "error_text (ErrNotFound d) = ''timeweb: resource not found'' @ (if d \<noteq> [] then '': '' @ d else [])"
| "error_text _ = []"

definition the_ssl :: "cdn_observation \<Rightarrow> cdn_ssl_status" where
  "the_ssl o' = (case cdo_SSL o' of Some s \<Rightarrow> s
     | None \<Rightarrow> \<lparr>st_State = None, st_IssueAttempts = None, st_LastIssueAttemptAt = None, st_BudgetKey = None\<rparr>)"

text \<open>Changing the SSL status, which \<^verbatim>\<open>ensureSSLStatus\<close> creates when it is not there.\<close>

definition update_ssl :: "(cdn_ssl_status \<Rightarrow> cdn_ssl_status) \<Rightarrow> cdn_mr \<Rightarrow> cdn_mr" where
  "update_ssl f m = m\<lparr>at_provider := (at_provider m)\<lparr>cdo_SSL := Some (f (the_ssl (at_provider m)))\<rparr>\<rparr>"

definition set_managed :: "cdn_certificate_status option \<Rightarrow> cdn_mr \<Rightarrow> cdn_mr" where
  "set_managed c m = m\<lparr>at_provider := (at_provider m)\<lparr>cdo_ManagedCertificate := c\<rparr>\<rparr>"

definition ssl_bind_write :: "int option \<Rightarrow> cdn_write" where
  "ssl_bind_write c = \<lparr>cw_Name = None, cw_Description = None, cw_ProjectID = None, cw_PresetID = None, cw_Server = None, cw_StorageID = None,
     cw_UseHTTPS = None, cw_TrafficLimitBytes = None,
     cw_Config = Some \<lparr>cp_Cache = None, cp_Delivery = None, cp_HTTPHeaders = None, cp_Robots = None,
       cp_Security = Some \<lparr>yp_Redirect = None, yp_CertificateID = Some c, yp_SecureToken = None\<rparr>, cp_Domains = None, cp_Origin = None\<rparr>\<rparr>"

definition upload_certificate :: "'w cdn_api \<Rightarrow> string \<Rightarrow> string \<Rightarrow> ('w, unit) cdn_act" where
  "upload_certificate api crt key = bindE (attempt (write_call api (UploadCertificate crt key))) (\<lambda>r. case r of
     Inr _ \<Rightarrow> returnOk ()
   | Inl err \<Rightarrow> if is_transient err then throwError err
       else bindE (emit_event EventTypeWarning ''SSLUploadFailed'') (\<lambda>_. modify_cr (update_ssl (\<lambda>s. s\<lparr>st_State := Some ''failed''\<rparr>))))"

definition issue_failed :: "int \<Rightarrow> go_error \<Rightarrow> ('w, unit) cdn_act" where
  "issue_failed prev err =
     (if Contains (error_text err) ''cert_issue_task_already_exists''
      then bindE (modify_cr (update_ssl (\<lambda>s. s\<lparr>st_IssueAttempts := Some prev\<rparr>))) (\<lambda>_. emit_event EventTypeNormal ''SSLIssuanceFailed'')
      else bindE (emit_event EventTypeWarning ''SSLIssuanceFailed'') (\<lambda>_.
        if prev + 1 \<ge> maxIssueAttempts then emit_event EventTypeWarning ''SSLBudgetExhausted'' else returnOk ()))"

definition issue_certificate :: "'w cdn_env \<Rightarrow> 'w cdn_api \<Rightarrow> int \<Rightarrow> ('w, unit) cdn_act" where
  "issue_certificate env api rid = bindE (reading (en_now env)) (\<lambda>now.
     bindE (gets (\<lambda>m. i64Deref (st_IssueAttempts (the_ssl (at_provider m))))) (\<lambda>prev.
     bindE (modify_cr (update_ssl (\<lambda>s. s\<lparr>st_IssueAttempts := Some (prev + 1), st_LastIssueAttemptAt := Some now\<rparr>))) (\<lambda>_.
     bindE (attempt (write_call api (IssueCertificate rid))) (\<lambda>r. case r of Inr _ \<Rightarrow> returnOk () | Inl err \<Rightarrow> issue_failed prev err))))"

definition delete_certificate :: "'w cdn_api \<Rightarrow> int \<Rightarrow> ('w, unit) cdn_act" where
  "delete_certificate api c = bindE (write_call api (DeleteCertificate (Itoa c))) (\<lambda>_.
     bindE (emit_event EventTypeNormal ''CertificateRemoved'') (\<lambda>_.
     modify_cr (\<lambda>m. if Option.bind (cdo_ManagedCertificate (at_provider m)) ct_ID = Some c then set_managed None m else m)))"

definition executeSSLAction :: "'w cdn_env \<Rightarrow> 'w cdn_api \<Rightarrow> ssl_action \<Rightarrow> resolved_secrets \<Rightarrow> int \<Rightarrow> ('w, unit) cdn_act" where
  "executeSSLAction env api action sec rid = (case action of
     SslUpload \<Rightarrow> upload_certificate api (rs_certPEM sec) (rs_keyPEM sec)
   | SslIssue \<Rightarrow> issue_certificate env api rid
   | SslBind c \<Rightarrow> write_call api (PatchCdn (Itoa rid) (ssl_bind_write (Some c)))
   | SslUnbind \<Rightarrow> write_call api (PatchCdn (Itoa rid) (ssl_bind_write None))
   | SslDeleteOld c \<Rightarrow> delete_certificate api c
   | SslNone \<Rightarrow> returnOk ())"

end
