(* ===== verification/CdnExternal.thy ===== *)
theory CdnExternal
  imports CdnSsl
begin

text \<open>
  The external client of a Cdn: the handlers of \<^verbatim>\<open>controller/cdn/external.go\<close> with the purge annotation. The resource and
  its configuration are read in every reconcile; a settings PATCH goes before a certificate action.
\<close>

section \<open>Reads\<close>

definition getResource :: "'w cdn_api \<Rightarrow> string \<Rightarrow> ('w, cdn_resource) cdn_act" where
  "getResource api rid = cdn_doJSON api as_cdn (GetCdn rid)"

definition getConfiguration :: "'w cdn_api \<Rightarrow> string \<Rightarrow> ('w, cdn_config) cdn_act" where
  "getConfiguration api rid = cdn_doJSON api as_cdn_config (GetCdnConfiguration rid)"

definition findByName :: "'w cdn_api \<Rightarrow> string \<Rightarrow> ('w, cdn_resource option) cdn_act" where
  "findByName api name = bindE (cdn_doJSON api as_cdns ListCdns) (\<lambda>rs. returnOk (find (\<lambda>r. hr_Name r = name) rs))"

definition DefaultCDNPresetID :: int where "DefaultCDNPresetID = 3807"

text \<open>The cheapest preset, of equals the one with the smaller id.\<close>

definition better_preset :: "cdn_preset \<Rightarrow> cdn_preset \<Rightarrow> cdn_preset" where
  "better_preset p best = (if ps_Cost p < ps_Cost best \<or> ps_Cost p = ps_Cost best \<and> ps_PresetID p < ps_PresetID best then p else best)"

definition cheapest_preset :: "cdn_preset list \<Rightarrow> int" where
  "cheapest_preset ps = (case ps of [] \<Rightarrow> DefaultCDNPresetID | p # qs \<Rightarrow> ps_PresetID (fold better_preset qs p))"

definition resolvePresetID :: "'w cdn_api \<Rightarrow> ('w, int) cdn_act" where
  "resolvePresetID api = bindE (attempt (cdn_doJSON api as_cdn_presets ListCdnPresets)) (\<lambda>r. case r of
     Inl e \<Rightarrow> returnOk DefaultCDNPresetID | Inr ps \<Rightarrow> returnOk (cheapest_preset ps))"

section \<open>The purge annotation\<close>

definition PurgeAnnotation :: string where "PurgeAnnotation = ''cdn.timeweb.crossplane.io/purge''"
definition RetrySSLAnnotation :: string where "RetrySSLAnnotation = ''cdn.timeweb.crossplane.io/retry-ssl''"

text \<open>The kind of purge and its paths, or the reason why the value is refused.\<close>

definition parsePurge :: "string \<Rightarrow> go_error + string \<times> string list" where
  "parsePurge val =
     (if val = ''all'' then Inr (''full'', [])
      else if TrimSpace val = [] then Inl (Errorf ''purge annotation is empty'')
      else let ps = map TrimSpace (Split val (CHR '','')) in
        if list_all (\<lambda>p. HasPrefix p ''/'') ps then Inr (''partial'', ps) else Inl (Errorf ''purge entry must start with /''))"

text \<open>The merge patch: the annotation goes from the object at hand, and the status is kept; only the patch can fail.\<close>

definition drop_annotation :: "string \<Rightarrow> cdn_mr \<Rightarrow> cdn_mr" where
  "drop_annotation k m = m\<lparr>for_provider := (for_provider m)\<lparr>cx_Annotations := (cx_Annotations (for_provider m))(k := None)\<rparr>\<rparr>"

definition removeAnnotation :: "'w cdn_env \<Rightarrow> string \<Rightarrow> ('w, unit) cdn_act" where
  "removeAnnotation env k = bindE (modify_cr (drop_annotation k)) (\<lambda>_. bindE (acting (\<lambda>w. en_unannotate env w k)) (\<lambda>good.
     if good then returnOk () else throwError (Errorf ''cdn: remove annotation'')))"

definition set_purged :: "int \<Rightarrow> cdn_mr \<Rightarrow> cdn_mr" where
  "set_purged t m = m\<lparr>at_provider := (at_provider m)\<lparr>cdo_LastPurgedAt := Some t\<rparr>\<rparr>"

definition handlePurge :: "'w cdn_env \<Rightarrow> 'w cdn_api \<Rightarrow> cdn_resource \<Rightarrow> ('w, unit) cdn_act" where
  "handlePurge env api res = bindE (gets (\<lambda>m. (cx_Annotations (for_provider m) PurgeAnnotation, external_name m))) (\<lambda>(ann, rid).
     case ann of None \<Rightarrow> returnOk ()
     | Some val \<Rightarrow> (case parsePurge val of
         Inl e \<Rightarrow> bindE (emit_event EventTypeWarning ''PurgeInvalid'') (\<lambda>_. removeAnnotation env PurgeAnnotation)
       | Inr (kind, paths) \<Rightarrow>
           if isSuspendedState (hr_Status res) then emit_event EventTypeNormal ''PurgeDeferred''
           else bindE (attempt (write_call api (ClearCdnCache rid kind paths))) (\<lambda>r. case r of
               Inl e \<Rightarrow> emit_event EventTypeWarning ''PurgeFailed''
             | Inr _ \<Rightarrow> bindE (reading (en_now env)) (\<lambda>now. bindE (modify_cr (set_purged now)) (\<lambda>_.
                 bindE (emit_event EventTypeNormal ''CachePurged'') (\<lambda>_. removeAnnotation env PurgeAnnotation))))))"

section \<open>The certificate state\<close>

text \<open>The declared SSL block is an argument: both callers have tested it for nil.\<close>

definition declared_domains :: "cdn_parameters \<Rightarrow> string list" where
  "declared_domains p = (case cdp_Domains p of None \<Rightarrow> [] | Some ds \<Rightarrow> ds)"

definition sslInputsFor :: "cdn_ssl \<Rightarrow> cdn_mr \<Rightarrow> cdn_config \<Rightarrow> cdn_certificate list \<Rightarrow> cert_task list \<Rightarrow> resolved_secrets \<Rightarrow> int \<Rightarrow> ssl_inputs" where
  "sslInputsFor ssl m cfg certs tasks sec now = (let p = cx_Params (for_provider m); st = the_ssl (at_provider m) in \<lparr>
     si_mode = ssl_Mode ssl, si_desired = rs_certIdentity sec,
     si_boundID = Option.bind (cf_Security cfg) yc_CertificateID,
     si_managed = cdo_ManagedCertificate (at_provider m),
     si_certificates = certs, si_tasks = tasks,
     si_domainsAttached = domainsAttached (declared_domains p) cfg,
     si_prevState = DerefString (st_State st),
     si_budgetKey = sslBudgetKey (declared_domains p) (Some ssl) (rs_certIdentity sec),
     si_prevBudgetKey = DerefString (st_BudgetKey st),
     si_attempts = i64Deref (st_IssueAttempts st),
     si_lastAttempt = st_LastIssueAttemptAt st,
     si_now = now\<rparr>)"

definition mirror_status :: "ssl_inputs \<Rightarrow> ssl_outcome \<Rightarrow> cdn_observation \<Rightarrow> cdn_observation" where
  "mirror_status i out st = st\<lparr>
     cdo_SSL := Some ((the_ssl st)\<lparr>st_BudgetKey := Some (si_budgetKey i), st_State := (if so_state out = [] then None else Some (so_state out)),
       st_IssueAttempts := Some (so_attempts out)\<rparr>),
     cdo_ManagedCertificate := so_managed out,
     cdo_Certificate := map_option markerFor (find (\<lambda>c. Some (ce_ID c) = si_boundID i) (si_certificates i))\<rparr>"

definition mirrorSSL :: "ssl_inputs \<Rightarrow> ssl_outcome \<Rightarrow> cdn_mr \<Rightarrow> cdn_mr" where
  "mirrorSSL i out m = m\<lparr>at_provider := mirror_status i out (at_provider m)\<rparr>"

definition reset_budget :: "cdn_ssl_status \<Rightarrow> cdn_ssl_status" where
  "reset_budget s = s\<lparr>st_IssueAttempts := Some 0, st_LastIssueAttemptAt := None\<rparr>"

definition retry_ssl :: "'w cdn_env \<Rightarrow> ('w, unit) cdn_act" where
  "retry_ssl env = bindE (gets (\<lambda>m. cx_Annotations (for_provider m) RetrySSLAnnotation)) (\<lambda>ann.
     if ann = None then returnOk ()
     else bindE (modify_cr (update_ssl reset_budget)) (\<lambda>_. removeAnnotation env RetrySSLAnnotation))"

text \<open>Reading the certificates and tasks, and deciding.\<close>

definition read_ssl :: "'w cdn_env \<Rightarrow> 'w cdn_api \<Rightarrow> cdn_ssl \<Rightarrow> cdn_config \<Rightarrow> resolved_secrets \<Rightarrow> ('w, ssl_inputs) cdn_act" where
  "read_ssl env api ssl cfg sec = bindE (gets external_name) (\<lambda>rid.
     bindE (certificatesForMode api rid (ssl_Mode ssl)) (\<lambda>certs.
     bindE (listCertificateTasks api rid) (\<lambda>tasks.
     bindE (reading (en_now env)) (\<lambda>now. gets (\<lambda>m. sslInputsFor ssl m cfg certs tasks sec now)))))"

definition observeSSL :: "'w cdn_env \<Rightarrow> 'w cdn_api \<Rightarrow> cdn_config \<Rightarrow> resolved_secrets \<Rightarrow> ('w, bool) cdn_act" where
  "observeSSL env api cfg sec = bindE (gets (\<lambda>m. cdp_SSL (cx_Params (for_provider m)))) (\<lambda>decl. case decl of
     None \<Rightarrow> returnOk False
   | Some ssl \<Rightarrow> bindE (retry_ssl env) (\<lambda>_. bindE (read_ssl env api ssl cfg sec) (\<lambda>i.
       let out = computeSSL i in bindE (modify_cr (mirrorSSL i out)) (\<lambda>_. returnOk (so_action out \<noteq> SslNone)))))"

section \<open>The handlers\<close>

definition cdn_secrets :: "'w cdn_env \<Rightarrow> ('w, resolved_secrets) cdn_act" where
  "cdn_secrets env = bindE (gets for_provider) (\<lambda>x. bindE (reading (\<lambda>w. resolveSpecSecrets env w x)) (\<lambda>r. case r of
     Inr sec \<Rightarrow> returnOk sec
   | Inl e \<Rightarrow> bindE (modify_cr (SetConditions (SyncedFalse ''InvalidConfiguration''))) (\<lambda>_. throwError e)))"

definition cdn_observe_rest :: "'w cdn_env \<Rightarrow> 'w cdn_api \<Rightarrow> cdn_resource \<Rightarrow> cdn_config \<Rightarrow> ('w, observation) cdn_act" where
  "cdn_observe_rest env api res cfg = bindE (modify_cr (cdn_populateStatus res cfg)) (\<lambda>_.
     bindE (handlePurge env api res) (\<lambda>_.
     if isSuspendedState (hr_Status res)
     then bindE (modify_cr (SetConditions (ReadyFalse ''Suspended''))) (\<lambda>_.
       returnOk \<lparr>ResourceExists = True, ResourceUpToDate = True, ConnectionDetails = cdn_connectionDetails res\<rparr>)
     else bindE (modify_cr (SetConditions Available)) (\<lambda>_.
       bindE (cdn_secrets env) (\<lambda>sec.
       bindE (observeSSL env api cfg sec) (\<lambda>sslDirty.
       bindE (buildDesiredWrite env res cfg sec) (\<lambda>(w, dirty).
       returnOk \<lparr>ResourceExists = True, ResourceUpToDate = (\<not> dirty \<and> \<not> sslDirty), ConnectionDetails = cdn_connectionDetails res\<rparr>))))))"

definition cdn_Observe :: "'w cdn_env \<Rightarrow> 'w cdn_api \<Rightarrow> ('w, observation) cdn_act" where
  "cdn_Observe env api = bindE (gets external_name) (\<lambda>rid.
     if DecodeID rid = None then returnOk absent
     else bindE (attempt (getResource api rid)) (on_not_found (returnOk absent) (\<lambda>res.
       bindE (getConfiguration api rid) (cdn_observe_rest env api res))))"

definition create_body :: "cdn_object \<Rightarrow> resolved_origin \<Rightarrow> int \<Rightarrow> cdn_write" where
  "create_body x origin preset = (let p = cx_Params x in \<lparr>
     cw_Name = Some (effectiveName x), cw_Description = cdp_Description p, cw_ProjectID = cdp_ProjectID p,
     cw_PresetID = Some preset, cw_Server = ro_server origin, cw_StorageID = ro_storageID origin,
     cw_UseHTTPS = Some (ro_useHTTPS origin), cw_TrafficLimitBytes = None, cw_Config = None\<rparr>)"

definition cdn_created :: "cdn_resource \<Rightarrow> cdn_mr \<Rightarrow> cdn_mr" where
  "cdn_created r m = m\<lparr>external_name := EncodeID (hr_ID r), at_provider := (at_provider m)\<lparr>
     cdo_LockedPresetID := Some (hr_PresetID r),
     cdo_TechnicalDomain := (if hr_CDNDomain r \<noteq> [] then Some (hr_CDNDomain r) else cdo_TechnicalDomain (at_provider m))\<rparr>\<rparr>"

text \<open>The result is the connection details.\<close>

definition cdn_Create :: "'w cdn_env \<Rightarrow> 'w cdn_api \<Rightarrow> ('w, (string \<times> string) list) cdn_act" where
  "cdn_Create env api = bindE (resolveOrigin env) (\<lambda>origin. bindE (gets for_provider) (\<lambda>x.
     bindE (findByName api (effectiveName x)) (\<lambda>found. case found of
       Some r \<Rightarrow> bindE (modify_cr (\<lambda>m. m\<lparr>external_name := EncodeID (hr_ID r)\<rparr>)) (\<lambda>_.
         bindE (modify_cr (SetConditions Creating)) (\<lambda>_. returnOk []))
     | None \<Rightarrow> bindE (resolvePresetID api) (\<lambda>preset.
         bindE (cdn_doJSON api as_cdn (CreateCdn (create_body x origin preset))) (\<lambda>r.
         bindE (modify_cr (cdn_created r)) (\<lambda>_. bindE (modify_cr (SetConditions Creating)) (\<lambda>_.
         returnOk (cdn_connectionDetails r))))))))"

definition patch_settings :: "'w cdn_api \<Rightarrow> string \<Rightarrow> cdn_write \<Rightarrow> ('w, unit) cdn_act" where
  "patch_settings api rid w = bindE (attempt (write_call api (PatchCdn rid w))) (\<lambda>r. case r of
     Inr _ \<Rightarrow> returnOk ()
   | Inl e \<Rightarrow> bindE (modify_cr (SetConditions (SyncedFalse ''UpstreamFailed''))) (\<lambda>_. throwError e))"

definition update_ssl_slot :: "'w cdn_env \<Rightarrow> 'w cdn_api \<Rightarrow> cdn_config \<Rightarrow> resolved_secrets \<Rightarrow> ('w, unit) cdn_act" where
  "update_ssl_slot env api cfg sec = bindE (gets (\<lambda>m. (cdp_SSL (cx_Params (for_provider m)), external_name m))) (\<lambda>(decl, rid).
     case decl of None \<Rightarrow> returnOk ()
     | Some ssl \<Rightarrow> bindE (read_ssl env api ssl cfg sec) (\<lambda>i. let out = computeSSL i in
         if so_action out = SslNone then returnOk ()
         else executeSSLAction env api (so_action out) sec (case DecodeID rid of Some n \<Rightarrow> n | None \<Rightarrow> 0)))"

definition cdn_Update :: "'w cdn_env \<Rightarrow> 'w cdn_api \<Rightarrow> ('w, unit) cdn_act" where
  "cdn_Update env api = bindE (gets external_name) (\<lambda>rid. bindE (getResource api rid) (\<lambda>res.
     if isSuspendedState (hr_Status res) then returnOk ()
     else bindE (getConfiguration api rid) (\<lambda>cfg. bindE (cdn_secrets env) (\<lambda>sec.
       bindE (buildDesiredWrite env res cfg sec) (\<lambda>(w, dirty).
       if dirty then patch_settings api rid w else update_ssl_slot env api cfg sec)))))"

definition cdn_Delete :: "'w cdn_api \<Rightarrow> ('w, unit) cdn_act" where
  "cdn_Delete api = bindE (gets external_name) (\<lambda>rid.
     if DecodeID rid = None then returnOk ()
     else bindE (attempt (write_call api (DeleteCdn rid))) (on_not_found (returnOk ()) (\<lambda>_. modify_cr (SetConditions Deleting))))"

section \<open>The contract\<close>

definition cdn_get_req :: "cdn_mr \<Rightarrow> cdn_req option" where
  "cdn_get_req m = (if DecodeID (external_name m) = None then None else Some (GetCdn (external_name m)))"

definition cdn_del_req :: "cdn_mr \<Rightarrow> cdn_req option" where
  "cdn_del_req m = (if DecodeID (external_name m) = None then None else Some (DeleteCdn (external_name m)))"

lemma reports_present_rest: "reports_present (cdn_observe_rest env api res cfg)"
  unfolding cdn_observe_rest_def
  by (intro reports_present_bindE) (auto intro!: reports_present_bindE split: prod.split)

interpretation cdn: external_client api "cdn_Observe env api" "cdn_Delete api" cdn_get_req cdn_del_req for env api
proof unfold_locales
  fix s q resp ob s'
  assume q: "cdn_get_req (cr s) = Some q" "classify_result (fst (api (world s) q)) = Inr resp" "cdn_Observe env api s = (Inr ob, s')"
  then show "ResourceExists ob"
    by (auto simp: cdn_get_req_def cdn_Observe_def getResource_def cdn_doJSON_def on_not_found_def bindE_def attempt_def call_classify_run
        dest: reports_present_rest[unfolded reports_present_def, rule_format] split: if_splits option.splits sum.splits prod.splits)
qed (auto simp: cdn_get_req_def cdn_del_req_def cdn_Observe_def cdn_Delete_def getResource_def cdn_doJSON_def on_not_found_def bindE_def
    attempt_def write_call_def call_classify_run returnOk_def throwError_def modify_cr_def split: if_splits)

end
