(* ===== verification/CdnSettle.thy ===== *)
theory CdnSettle
  imports CdnExternal
begin

text \<open>
  What the API makes of a PATCH, as \<^verbatim>\<open>clients/timeweb/cdn.go\<close> documents it, and that a PATCH of \<open>desired_write\<close> leaves nothing
  to write. The body is partial: a field left out is kept, and so is an empty list, which \<^verbatim>\<open>omitempty\<close> leaves out; the
  cache section is replaced as a whole; the delivery domains written join the technical domain.
\<close>

section \<open>Applying a PATCH\<close>

definition over :: "'a option \<Rightarrow> 'a option \<Rightarrow> 'a option" where
  "over new old = (if new = None then old else new)"

definition over_list :: "'a list \<Rightarrow> 'a list \<Rightarrow> 'a list" where
  "over_list new old = (if new = [] then old else new)"

lemma over_simps [simp]: "over None x = x" "over (Some y) x = Some y"
  by (simp_all add: over_def)

definition apply_delivery :: "delivery_config \<Rightarrow> delivery_config option \<Rightarrow> delivery_config" where
  "apply_delivery d old = (case old of None \<Rightarrow> d | Some ob \<Rightarrow> \<lparr>dc_HTTP3 = over (dc_HTTP3 d) (dc_HTTP3 ob), dc_Gzip = over (dc_Gzip d) (dc_Gzip ob),
     dc_LargeFiles = over (dc_LargeFiles d) (dc_LargeFiles ob), dc_SliceSize = over (dc_SliceSize d) (dc_SliceSize ob),
     dc_ImageOptimization = over (dc_ImageOptimization d) (dc_ImageOptimization ob), dc_Packaging = over (dc_Packaging d) (dc_Packaging ob)\<rparr>)"

definition apply_cors :: "cors_config \<Rightarrow> cors_config option \<Rightarrow> cors_config" where
  "apply_cors k old = (case old of None \<Rightarrow> k
     | Some ob \<Rightarrow> \<lparr>oc_Domains = over_list (oc_Domains k) (oc_Domains ob), oc_Always = over (oc_Always k) (oc_Always ob)\<rparr>)"

definition apply_headers :: "headers_config \<Rightarrow> headers_config option \<Rightarrow> headers_config" where
  "apply_headers h old = (case old of None \<Rightarrow> h
     | Some ob \<Rightarrow> \<lparr>hc_Request = over_list (hc_Request h) (hc_Request ob),
         hc_Cors = (case hc_Cors h of None \<Rightarrow> hc_Cors ob | Some k \<Rightarrow> Some (apply_cors k (hc_Cors ob)))\<rparr>)"

definition apply_robots :: "robots_config \<Rightarrow> robots_config option \<Rightarrow> robots_config" where
  "apply_robots r old = (case old of None \<Rightarrow> r | Some ob \<Rightarrow> \<lparr>rc_Type = over (rc_Type r) (rc_Type ob), rc_Content = over (rc_Content r) (rc_Content ob)\<rparr>)"

text \<open>The signing key is read back, or left out (\<open>echo\<close>).\<close>

definition read_token :: "bool \<Rightarrow> secure_token \<Rightarrow> secure_token" where
  "read_token echo t = (if echo then t else t\<lparr>sc_SecretKey := []\<rparr>)"

definition no_security :: security_config where
  "no_security = \<lparr>yc_Redirect = None, yc_CertificateID = None, yc_SecureToken = None\<rparr>"

definition apply_security :: "bool \<Rightarrow> security_patch \<Rightarrow> security_config option \<Rightarrow> security_config" where
  "apply_security echo y old = (let ob = (case old of None \<Rightarrow> no_security | Some ob \<Rightarrow> ob) in
     \<lparr>yc_Redirect = over (yp_Redirect y) (yc_Redirect ob),
      yc_CertificateID = (case yp_CertificateID y of None \<Rightarrow> yc_CertificateID ob | Some c \<Rightarrow> c),
      yc_SecureToken = (case yp_SecureToken y of None \<Rightarrow> yc_SecureToken ob | Some t \<Rightarrow> map_option (read_token echo) t)\<rparr>)"

definition apply_domains :: "string list \<Rightarrow> cdn_config \<Rightarrow> string list option" where
  "apply_domains ds cfg = (if ds = [] then cf_Domains cfg
     else Some ((if technicalAlias cfg = [] then [] else [technicalAlias cfg]) @ ds))"

definition no_origin :: origin_config where
  "no_origin = \<lparr>or_Servers = [], or_UseHTTPS = None, or_AWS = None\<rparr>"

definition servers_of :: "cdn_config \<Rightarrow> cdn_server list" where
  "servers_of cfg = (case cf_Origin cfg of None \<Rightarrow> [] | Some og \<Rightarrow> or_Servers og)"

abbreviation origin_of_config :: "cdn_config \<Rightarrow> origin_config" where
  "origin_of_config cfg \<equiv> (case cf_Origin cfg of None \<Rightarrow> no_origin | Some og \<Rightarrow> og)"

definition apply_config :: "bool \<Rightarrow> config_patch \<Rightarrow> cdn_config \<Rightarrow> cdn_config" where
  "apply_config echo p cfg = \<lparr>
     cf_Cache = over (cp_Cache p) (cf_Cache cfg),
     cf_Delivery = (case cp_Delivery p of None \<Rightarrow> cf_Delivery cfg | Some d \<Rightarrow> Some (apply_delivery d (cf_Delivery cfg))),
     cf_HTTPHeaders = (case cp_HTTPHeaders p of None \<Rightarrow> cf_HTTPHeaders cfg | Some h \<Rightarrow> Some (apply_headers h (cf_HTTPHeaders cfg))),
     cf_Robots = (case cp_Robots p of None \<Rightarrow> cf_Robots cfg | Some r \<Rightarrow> Some (apply_robots r (cf_Robots cfg))),
     cf_Security = (case cp_Security p of None \<Rightarrow> cf_Security cfg | Some y \<Rightarrow> Some (apply_security echo y (cf_Security cfg))),
     cf_Domains = (case cp_Domains p of None \<Rightarrow> cf_Domains cfg | Some ds \<Rightarrow> apply_domains ds cfg),
     cf_Origin = (case cp_Origin p of None \<Rightarrow> cf_Origin cfg | Some k \<Rightarrow> Some ((origin_of_config cfg)\<lparr>or_AWS := Some k\<rparr>))\<rparr>"

text \<open>A server written takes the place of a bucket.\<close>

definition apply_resource :: "cdn_write \<Rightarrow> cdn_resource \<Rightarrow> cdn_resource" where
  "apply_resource w r = r\<lparr>
     hr_Name := (case cw_Name w of None \<Rightarrow> hr_Name r | Some n \<Rightarrow> n),
     hr_Description := (case cw_Description w of None \<Rightarrow> hr_Description r | Some d \<Rightarrow> d),
     hr_ProjectID := (case cw_ProjectID w of None \<Rightarrow> hr_ProjectID r | Some n \<Rightarrow> n),
     hr_StorageID := (case cw_StorageID w of Some n \<Rightarrow> Some n | None \<Rightarrow> if cw_Server w = None then hr_StorageID r else None),
     hr_TrafficLimitBytes := (case cw_TrafficLimitBytes w of None \<Rightarrow> hr_TrafficLimitBytes r | Some l \<Rightarrow> l)\<rparr>"

definition apply_origin :: "cdn_write \<Rightarrow> cdn_config \<Rightarrow> cdn_config" where
  "apply_origin w cfg = (if cw_Server w = None \<and> cw_UseHTTPS w = None then cfg
     else cfg\<lparr>cf_Origin := Some ((origin_of_config cfg)\<lparr>or_Servers := (case cw_Server w of None \<Rightarrow> or_Servers (origin_of_config cfg) | Some srv \<Rightarrow> [srv]),
       or_UseHTTPS := over (cw_UseHTTPS w) (or_UseHTTPS (origin_of_config cfg))\<rparr>)\<rparr>)"

definition apply_settings :: "bool \<Rightarrow> cdn_write \<Rightarrow> cdn_config \<Rightarrow> cdn_config" where
  "apply_settings echo w cfg = (let c = apply_origin w cfg in case cw_Config w of None \<Rightarrow> c | Some p \<Rightarrow> apply_config echo p c)"

section \<open>Declarations that settle\<close>

text \<open>
  The declarations whose PATCH can reach them: no empty list is declared, since that is left out of the body, no declared domain
  looks like the technical one, times to live are not negative, and a robots text goes with the mode \<^verbatim>\<open>custom\<close> or is there already.
\<close>

definition settles :: "cdn_parameters \<Rightarrow> cdn_config \<Rightarrow> bool" where
  "settles p cfg \<longleftrightarrow>
     (\<forall>ds. cdp_Domains p = Some ds \<longrightarrow> ds \<noteq> [] \<and> (\<forall>d \<in> set ds. d \<noteq> [] \<and> \<not> HasSuffix d ''.cdn.twcstorage.ru'')) \<and>
     (\<forall>c. cdp_Cache p = Some c \<longrightarrow> 0 \<le> i64Deref (ca_EdgeTTLSeconds c) \<and> 0 \<le> i64Deref (ca_BrowserTTLSeconds c)) \<and>
     (\<forall>f r. cdp_Performance p = Some f \<longrightarrow> pf_Robots f = Some r \<longrightarrow> rb_Mode r = ''custom'' \<or>
        DerefString (rb_Custom r) = DerefString (Option.bind (cf_Robots cfg) rc_Content)) \<and>
     (\<forall>hs. cdp_RequestHeaders p = Some hs \<longrightarrow> hs \<noteq> []) \<and>
     (\<forall>c. cdp_Cors p = Some c \<longrightarrow> cs_Origins c \<noteq> [])"

section \<open>Section by section\<close>

lemma sort_Nil_iff [simp]: "sort xs = [] \<longleftrightarrow> xs = []"
  by (metis length_0_conv length_sort)

lemma sort_sort [simp]: "sort (sort xs) = sort (xs :: 'a :: linorder list)"
  by (simp add: sorted_sort_id)

lemma desired_cache_None:
  "desired_cache p cfg = None \<longleftrightarrow> (\<forall>c. cdp_Cache p = Some c \<longrightarrow>
     i64Deref (ca_EdgeTTLSeconds c) = ttlOf (Option.bind (cf_Cache cfg) cc_CDN) \<and>
     i64Deref (ca_BrowserTTLSeconds c) = i64Deref (Option.bind (cf_Cache cfg) cc_Browser) \<and>
     DerefBool (ca_AlwaysOnline c) = (Option.bind (cf_Cache cfg) cc_AlwaysOnline \<noteq> None) \<and>
     queryArgsEqual (desiredQueryArgs c) (Option.bind (cf_Cache cfg) cc_QueryArgs))"
proof (cases "cdp_Cache p")
  case (Some c)
  then show ?thesis by (cases "cf_Cache cfg") (simp_all add: desired_cache_def Let_def ttlOf_def[of None])
qed (simp add: desired_cache_def)

lemma desired_cache_Some:
  assumes "desired_cache p cfg = Some k" "cdp_Cache p = Some c"
  shows "ttlOf (cc_CDN k) = max 0 (i64Deref (ca_EdgeTTLSeconds c))" "i64Deref (cc_Browser k) = max 0 (i64Deref (ca_BrowserTTLSeconds c))"
    "cc_AlwaysOnline k \<noteq> None \<longleftrightarrow> DerefBool (ca_AlwaysOnline c)" "cc_QueryArgs k = desiredQueryArgs c"
  using assms by (cases "cf_Cache cfg"; simp add: desired_cache_def Let_def split: if_splits; force simp: ttlOf_def)+

lemma cache_settles:
  assumes "\<And>c. cdp_Cache p = Some c \<Longrightarrow> 0 \<le> i64Deref (ca_EdgeTTLSeconds c) \<and> 0 \<le> i64Deref (ca_BrowserTTLSeconds c)"
    and "cf_Cache cfg' = over (desired_cache p cfg) (cf_Cache cfg)"
  shows "desired_cache p cfg' = None"
proof (cases "desired_cache p cfg")
  case None
  with assms(2) have "cf_Cache cfg' = cf_Cache cfg" by simp
  with None show ?thesis unfolding desired_cache_None by simp
next
  case (Some k)
  have q: "queryArgsEqual (desiredQueryArgs c) (desiredQueryArgs c)" for c
    by (cases "ca_QueryMode c") (simp_all add: queryArgsEqual_def desiredQueryArgs_def)
  from desired_cache_Some[OF Some] assms Some show ?thesis
    unfolding desired_cache_None by (simp add: q)
qed

text \<open>What \<^verbatim>\<open>desiredDelivery\<close> compares and writes, field by field.\<close>

definition wants_image :: "cdn_performance \<Rightarrow> bool" where
  "wants_image f \<longleftrightarrow> strDerefOr (pf_ContentOptimization f) ''off'' = ''images''"

definition wants_video :: "cdn_performance \<Rightarrow> bool" where
  "wants_video f \<longleftrightarrow> strDerefOr (pf_ContentOptimization f) ''off'' = ''video''"

lemma desiredDelivery_None:
  "desiredDelivery f ob = None \<longleftrightarrow> DerefBool (pf_HTTP3 f) = DerefBool (Option.bind ob dc_HTTP3) \<and>
     DerefBool (pf_Gzip f) = DerefBool (Option.bind ob dc_Gzip) \<and>
     (pf_LargeFileSlicingMB f \<noteq> None) = DerefBool (Option.bind ob dc_LargeFiles) \<and>
     (pf_LargeFileSlicingMB f \<noteq> None \<longrightarrow> i64Deref (pf_LargeFileSlicingMB f) = i64Deref (Option.bind ob dc_SliceSize)) \<and>
     wants_image f = DerefBool (Option.bind ob dc_ImageOptimization) \<and> wants_video f = DerefBool (Option.bind ob dc_Packaging)"
  by (cases ob) (simp_all add: desiredDelivery_def Let_def wants_image_def wants_video_def if_distrib)

lemma desiredDelivery_Some:
  assumes "desiredDelivery f ob = Some x"
  shows "dc_HTTP3 x = Some (DerefBool (pf_HTTP3 f))" "dc_Gzip x = Some (DerefBool (pf_Gzip f))"
    "dc_LargeFiles x = Some (pf_LargeFileSlicingMB f \<noteq> None)" "dc_ImageOptimization x = Some (wants_image f)"
    "pf_LargeFileSlicingMB f \<noteq> None \<Longrightarrow> dc_SliceSize x = Some (i64Deref (pf_LargeFileSlicingMB f))"
    "dc_Packaging x = (if wants_video f \<noteq> DerefBool (Option.bind ob dc_Packaging) then Some (wants_video f) else None)"
  using assms by (cases ob; simp add: desiredDelivery_def Let_def wants_image_def wants_video_def split: if_splits; force)+

lemma delivery_settles:
  assumes "d = Option.bind (cdp_Performance p) (\<lambda>f. desiredDelivery f old)"
    and "new = (case d of None \<Rightarrow> old | Some x \<Rightarrow> Some (apply_delivery x old))"
  shows "Option.bind (cdp_Performance p) (\<lambda>f. desiredDelivery f new) = None"
proof (cases "cdp_Performance p")
  case f: (Some f)
  show ?thesis
  proof (cases "desiredDelivery f old")
    case (Some x)
    with f assms have n: "new = Some (apply_delivery x old)" by simp
    from desiredDelivery_Some[OF Some] have "desiredDelivery f new = None"
      unfolding n desiredDelivery_None by (cases old) (auto simp: apply_delivery_def over_def)
    with f show ?thesis by simp
  qed (use f assms in simp)
qed simp

lemma robots_settles:
  assumes "\<And>f r. cdp_Performance p = Some f \<Longrightarrow> pf_Robots f = Some r \<Longrightarrow>
      rb_Mode r = ''custom'' \<or> DerefString (rb_Custom r) = DerefString (Option.bind (cf_Robots cfg) rc_Content)"
    and "d = Option.bind (cdp_Performance p) (\<lambda>f. desired_robots f cfg)"
    and "cf_Robots cfg' = (case d of None \<Rightarrow> cf_Robots cfg | Some x \<Rightarrow> Some (apply_robots x (cf_Robots cfg)))"
  shows "Option.bind (cdp_Performance p) (\<lambda>f. desired_robots f cfg') = None"
proof (cases "cdp_Performance p")
  case f: (Some f)
  show ?thesis
  proof (cases "pf_Robots f")
    case (Some r)
    from assms(1)[OF f Some] assms(2,3) f Some show ?thesis
      by (cases "cf_Robots cfg") (auto simp: desired_robots_def apply_robots_def over_def split: if_splits)
  qed (simp add: f desired_robots_def)
qed simp

lemma redirect_settles:
  assumes "cf_Security cfg' = (case y of None \<Rightarrow> cf_Security cfg | Some x \<Rightarrow> Some (apply_security echo x (cf_Security cfg)))"
    and "case y of None \<Rightarrow> desired_redirect s cfg = None | Some x \<Rightarrow> yp_Redirect x = desired_redirect s cfg"
  shows "desired_redirect s cfg' = None"
  using assms by (cases y; cases "cf_Security cfg")
    (auto simp: desired_redirect_def apply_security_def no_security_def Let_def split: if_splits)

lemma token_settles:
  assumes "cf_Security cfg' = (case y of None \<Rightarrow> cf_Security cfg | Some x \<Rightarrow> Some (apply_security echo x (cf_Security cfg)))"
    and "case y of None \<Rightarrow> desired_token s cfg sec = None | Some x \<Rightarrow> yp_SecureToken x = desired_token s cfg sec"
  shows "desired_token s cfg' sec = None"
  using assms by (cases y; cases "cf_Security cfg"; cases "sy_SecureToken s")
    (auto simp: desired_token_def apply_security_def no_security_def read_token_def Let_def split: if_splits option.splits)

lemma security_settles:
  assumes "cf_Security cfg' = (case desired_security p cfg sec of None \<Rightarrow> cf_Security cfg
      | Some x \<Rightarrow> Some (apply_security echo x (cf_Security cfg)))"
  shows "desired_security p cfg' sec = None"
proof (cases "cdp_Security p")
  case (Some s)
  let ?y = "desired_security p cfg sec"
  have "case ?y of None \<Rightarrow> desired_redirect s cfg = None | Some x \<Rightarrow> yp_Redirect x = desired_redirect s cfg"
    "case ?y of None \<Rightarrow> desired_token s cfg sec = None | Some x \<Rightarrow> yp_SecureToken x = desired_token s cfg sec"
    using Some by (auto simp: desired_security_def Let_def split: option.split)
  from redirect_settles[OF assms this(1)] token_settles[OF assms this(2)] Some show ?thesis
    by (simp add: desired_security_def)
qed (simp add: desired_security_def)

lemma mapsEqual_refl: "go_map m \<Longrightarrow> mapsEqual m m"
  by (auto simp: mapsEqual_def at_key_def list_all_iff)

lemma map_build_Nil [simp]: "map_build hs = [] \<longleftrightarrow> hs = []"
  using keys_map_build[of hs] by (cases hs; cases "map_build hs") auto

text \<open>A header block that is observed as written.\<close>

lemma request_headers_settles:
  assumes "\<And>hs. cdp_RequestHeaders p = Some hs \<Longrightarrow> hs \<noteq> []"
    and "cf_HTTPHeaders cfg' = (case desiredHTTPHeaders p cfg of None \<Rightarrow> cf_HTTPHeaders cfg
      | Some h \<Rightarrow> Some (apply_headers h (cf_HTTPHeaders cfg)))"
  shows "desired_request_headers p cfg' = None"
proof (cases "cdp_RequestHeaders p")
  case (Some hs)
  have "hs \<noteq> []" using assms(1) Some by simp
  with assms(2) Some show ?thesis
    by (cases "cf_HTTPHeaders cfg")
       (auto simp: desired_request_headers_def desiredHTTPHeaders_def apply_headers_def over_list_def Let_def mapsEqual_refl
         split: if_splits option.splits)
qed (simp add: desired_request_headers_def)

lemma cors_settles:
  assumes "\<And>c. cdp_Cors p = Some c \<Longrightarrow> cs_Origins c \<noteq> []"
    and "cf_HTTPHeaders cfg' = (case desiredHTTPHeaders p cfg of None \<Rightarrow> cf_HTTPHeaders cfg
      | Some h \<Rightarrow> Some (apply_headers h (cf_HTTPHeaders cfg)))"
  shows "desired_cors p cfg' = None"
proof (cases "cdp_Cors p")
  case (Some c)
  have "cs_Origins c \<noteq> []" using assms(1) Some by simp
  with assms(2) Some show ?thesis
    by (cases "cf_HTTPHeaders cfg")
       (auto simp: desired_cors_def desiredHTTPHeaders_def apply_headers_def apply_cors_def over_list_def Let_def
         split: if_splits option.splits)
qed (simp add: desired_cors_def)

lemma technical_suffix: "technicalAlias cfg \<noteq> [] \<Longrightarrow> HasSuffix (technicalAlias cfg) ''.cdn.twcstorage.ru''"
proof (cases "find (\<lambda>a. HasSuffix a ''.cdn.twcstorage.ru'') (aliasesOf cfg)")
  case (Some a)
  then have "HasSuffix a ''.cdn.twcstorage.ru''" by (auto simp: find_Some_iff)
  with Some show ?thesis by (simp add: technicalAlias_def)
qed (simp add: technicalAlias_def)

lemma domains_settles:
  assumes "\<And>ds. cdp_Domains p = Some ds \<Longrightarrow> ds \<noteq> [] \<and> (\<forall>d \<in> set ds. d \<noteq> [] \<and> \<not> HasSuffix d ''.cdn.twcstorage.ru'')"
    and "cf_Domains cfg' = (case desired_domains p cfg of None \<Rightarrow> cf_Domains cfg | Some ds \<Rightarrow> apply_domains ds cfg)"
  shows "desired_domains p cfg' = None"
proof (cases "desired_domains p cfg")
  case None
  with assms(2) show ?thesis
    by (auto simp: desired_domains_def customAliases_def technicalAlias_def aliasesOf_def split: option.splits)
next
  case (Some xs)
  then obtain ds where ds: "cdp_Domains p = Some ds" "xs = sort ds" by (auto simp: desired_domains_def split: option.splits if_splits)
  from assms(1)[OF ds(1)] have w: "ds \<noteq> []" "\<And>d. d \<in> set ds \<Longrightarrow> d \<noteq> [] \<and> \<not> HasSuffix d ''.cdn.twcstorage.ru''" by auto
  let ?t = "technicalAlias cfg"
  have al: "aliasesOf cfg' = (if ?t = [] then [] else [?t]) @ sort ds"
    using assms(2) Some ds w(1) by (simp add: aliasesOf_def apply_domains_def)
  have none: "find (\<lambda>a. HasSuffix a ''.cdn.twcstorage.ru'') (sort ds) = None" using w(2) by (simp add: find_None_iff)
  then have t: "technicalAlias cfg' = ?t"
    using technical_suffix[of cfg] by (auto simp: technicalAlias_def[of cfg'] al)
  have "filter (\<lambda>a. a \<noteq> ?t) (sort ds) = sort ds"
    using w(2) technical_suffix[of cfg] by (intro filter_True) (metis set_sort)
  then have "customAliases cfg' = sort ds" by (simp add: customAliases_def t al)
  with ds show ?thesis by (simp add: desired_domains_def)
qed

lemma aws_settles:
  assumes "Option.bind (cf_Origin cfg') or_AWS = (case desired_aws p cfg sec of None \<Rightarrow> Option.bind (cf_Origin cfg) or_AWS | Some k \<Rightarrow> Some k)"
  shows "desired_aws p cfg' sec = None"
  using assms by (auto simp: desired_aws_def Let_def split: if_splits)

lemma limit_settles:
  assumes "hr_TrafficLimitBytes r' = (case desired_limit p r of None \<Rightarrow> hr_TrafficLimitBytes r | Some l \<Rightarrow> l)"
  shows "desired_limit p r' = None"
  using assms by (auto simp: desired_limit_def Let_def split: option.splits if_splits)

section \<open>The whole PATCH\<close>

definition sections_of :: "cdn_parameters \<Rightarrow> cdn_config \<Rightarrow> resolved_secrets \<Rightarrow> config_patch" where
  "sections_of p cfg sec = \<lparr>
     cp_Cache = desired_cache p cfg,
     cp_Delivery = Option.bind (cdp_Performance p) (\<lambda>f. desiredDelivery f (cf_Delivery cfg)),
     cp_HTTPHeaders = desiredHTTPHeaders p cfg,
     cp_Robots = Option.bind (cdp_Performance p) (\<lambda>f. desired_robots f cfg),
     cp_Security = desired_security p cfg sec,
     cp_Domains = desired_domains p cfg,
     cp_Origin = desired_aws p cfg sec\<rparr>"

definition no_sections :: config_patch where
  "no_sections = \<lparr>cp_Cache = None, cp_Delivery = None, cp_HTTPHeaders = None, cp_Robots = None, cp_Security = None,
     cp_Domains = None, cp_Origin = None\<rparr>"

lemma desiredConfig_sections: "desiredConfig p cfg sec = (if sections_of p cfg sec = no_sections then None else Some (sections_of p cfg sec))"
  by (simp add: desiredConfig_def sections_of_def no_sections_def Let_def)

lemma apply_no_sections: "apply_config echo no_sections cfg = cfg"
  by (simp add: apply_config_def no_sections_def)

lemma apply_desired_config:
  "(case desiredConfig p cfg sec of None \<Rightarrow> c | Some k \<Rightarrow> apply_config echo k c) = apply_config echo (sections_of p cfg sec) c"
  by (simp add: desiredConfig_sections apply_no_sections)

text \<open>The origin part of a PATCH reaches the configuration whatever its sections.\<close>

lemma apply_origin_fields [simp]:
  "cf_Cache (apply_origin w cfg) = cf_Cache cfg" "cf_Delivery (apply_origin w cfg) = cf_Delivery cfg"
  "cf_HTTPHeaders (apply_origin w cfg) = cf_HTTPHeaders cfg" "cf_Robots (apply_origin w cfg) = cf_Robots cfg"
  "cf_Security (apply_origin w cfg) = cf_Security cfg" "cf_Domains (apply_origin w cfg) = cf_Domains cfg"
  "Option.bind (cf_Origin (apply_origin w cfg)) or_AWS = Option.bind (cf_Origin cfg) or_AWS"
  by (auto simp: apply_origin_def no_origin_def split: option.split)

lemma apply_settings_desired:
  "apply_settings echo (desired_write x res cfg sec origin) cfg' =
   apply_config echo (sections_of (cx_Params x) cfg sec) (apply_origin (desired_write x res cfg sec origin) cfg')"
  by (simp add: apply_settings_def apply_desired_config Let_def desired_write_def[of x res cfg sec origin])

lemma sections_settle:
  assumes "settles p cfg" and c: "cf_Domains c = cf_Domains cfg"
    and cfg': "cfg' = apply_config echo (sections_of p cfg sec) c"
    and eq: "cf_Cache c = cf_Cache cfg" "cf_Delivery c = cf_Delivery cfg" "cf_HTTPHeaders c = cf_HTTPHeaders cfg" "cf_Robots c = cf_Robots cfg"
      "cf_Security c = cf_Security cfg" "Option.bind (cf_Origin c) or_AWS = Option.bind (cf_Origin cfg) or_AWS"
  shows "sections_of p cfg' sec = no_sections"
proof -
  have dom: "apply_domains ds c = apply_domains ds cfg" for ds
    using c by (simp add: apply_domains_def technicalAlias_def aliasesOf_def)
  have "desired_cache p cfg' = None"
    using assms(1) by (intro cache_settles[of p cfg' cfg]) (auto simp: cfg' apply_config_def sections_of_def eq settles_def)
  moreover have "Option.bind (cdp_Performance p) (\<lambda>f. desiredDelivery f (cf_Delivery cfg')) = None"
    by (rule delivery_settles[where old = "cf_Delivery cfg", OF refl]) (simp add: cfg' apply_config_def sections_of_def eq split: option.split)
  moreover have "Option.bind (cdp_Performance p) (\<lambda>f. desired_robots f cfg') = None"
    using assms(1) by (intro robots_settles[where cfg = cfg, OF _ refl]) (auto simp: cfg' apply_config_def sections_of_def eq settles_def split: option.split)
  moreover have "desired_security p cfg' sec = None"
    by (rule security_settles[where cfg = cfg and echo = echo]) (simp add: cfg' apply_config_def sections_of_def eq split: option.split)
  moreover have "desired_domains p cfg' = None"
    using assms(1) c by (intro domains_settles[of p cfg' cfg]) (auto simp: cfg' apply_config_def sections_of_def dom settles_def split: option.split)
  moreover have h: "cf_HTTPHeaders cfg' = (case desiredHTTPHeaders p cfg of None \<Rightarrow> cf_HTTPHeaders cfg
      | Some h \<Rightarrow> Some (apply_headers h (cf_HTTPHeaders cfg)))" by (simp add: cfg' apply_config_def sections_of_def eq split: option.split)
  have "desiredHTTPHeaders p cfg' = None"
    using request_headers_settles[OF _ h] cors_settles[OF _ h] assms(1) by (simp add: desiredHTTPHeaders_def settles_def)
  moreover have "desired_aws p cfg' sec = None"
    using eq(6) by (intro aws_settles[where cfg = cfg]) (simp add: cfg' apply_config_def sections_of_def split: option.split)
  ultimately show ?thesis by (simp add: sections_of_def no_sections_def)
qed

text \<open>The comparison of origins looks at the bucket, the servers and the scheme.\<close>

lemma originDrifted_cong:
  assumes "hr_StorageID r = hr_StorageID r'" "servers_of c = servers_of c'"
    "Option.bind (cf_Origin c) or_UseHTTPS = Option.bind (cf_Origin c') or_UseHTTPS"
  shows "originDrifted o1 r c = originDrifted o1 r' c'"
proof -
  have h: "(case cf_Origin d of None \<Rightarrow> True | Some og \<Rightarrow> or_UseHTTPS og = None \<or> or_UseHTTPS og = Some True) \<longleftrightarrow>
      Option.bind (cf_Origin d) or_UseHTTPS \<noteq> Some False" for d
  proof (cases "cf_Origin d")
    case (Some og)
    then show ?thesis by (cases "or_UseHTTPS og") auto
  qed simp
  have v: "(case cf_Origin d of None \<Rightarrow> True | Some og \<Rightarrow> (case or_Servers og of [] \<Rightarrow> True | s # _ \<Rightarrow> P s)) \<longleftrightarrow>
      (case servers_of d of [] \<Rightarrow> True | s # _ \<Rightarrow> P s)" for d P
    by (cases "cf_Origin d") (simp_all add: servers_of_def)
  show ?thesis unfolding originDrifted_def h v by (cases "ro_server o1") (simp_all add: assms)
qed

text \<open>At most one of server and bucket is resolved.\<close>

lemma origin_settles:
  assumes "ro_server o1 = None \<or> ro_storageID o1 = None" and "w = desired_write x res cfg sec (Some o1)"
  shows "\<not> originDrifted o1 (apply_resource w res) (apply_origin w cfg)"
proof (cases "originDrifted o1 res cfg")
  case True
  then have "cw_Server w = ro_server o1" "cw_StorageID w = ro_storageID o1" "cw_UseHTTPS w = Some (ro_useHTTPS o1)"
    by (simp_all add: assms(2) desired_write_def Let_def)
  with assms(1) show ?thesis
    by (auto simp: originDrifted_def apply_resource_def apply_origin_def Let_def split: option.splits)
next
  case False
  then have "cw_Server w = None" "cw_StorageID w = None" "cw_UseHTTPS w = None"
    by (simp_all add: assms(2) desired_write_def Let_def)
  then have "originDrifted o1 (apply_resource w res) (apply_origin w cfg) = originDrifted o1 res cfg"
    by (intro originDrifted_cong) (simp_all add: apply_resource_def apply_origin_def)
  with False show ?thesis by simp
qed

lemma settings_settle:
  assumes "settles (cx_Params x) cfg" and "\<And>o1. origin = Some o1 \<Longrightarrow> ro_server o1 = None \<or> ro_storageID o1 = None"
    and w: "w = desired_write x res cfg sec origin"
  shows "\<not> write_dirty (desired_write x (apply_resource w res) (apply_settings echo w cfg) sec origin)"
proof -
  let ?c = "apply_settings echo w cfg" and ?r = "apply_resource w res" and ?p = "cx_Params x"
  have c: "?c = apply_config echo (sections_of ?p cfg sec) (apply_origin w cfg)" by (simp add: w apply_settings_desired)
  have "sections_of ?p ?c sec = no_sections" by (rule sections_settle[OF assms(1) _ c]) simp_all
  then have conf: "desiredConfig ?p ?c sec = None" by (simp add: desiredConfig_sections)
  have lim: "desired_limit ?p ?r = None"
    by (rule limit_settles[where r = res]) (simp add: apply_resource_def w desired_write_def Let_def)
  have "servers_of ?c = servers_of (apply_origin w cfg)"
      "Option.bind (cf_Origin ?c) or_UseHTTPS = Option.bind (cf_Origin (apply_origin w cfg)) or_UseHTTPS"
    by (simp_all add: c apply_config_def servers_of_def no_origin_def split: option.split)
  then have og: "\<not> originDrifted o1 ?r ?c" if "origin = Some o1" for o1
    using that origin_settles[OF assms(2) w[unfolded that]] originDrifted_cong[of ?r ?r ?c "apply_origin w cfg" o1] by simp
  have "hr_Name ?r = effectiveName x" "hr_Description ?r = DerefString (cdp_Description ?p)"
      "cdp_ProjectID ?p = None \<or> cdp_ProjectID ?p = Some (hr_ProjectID ?r)"
    by (auto simp: apply_resource_def w desired_write_def Let_def)
  with conf lim og show ?thesis
    by (cases origin) (auto simp: write_dirty_def desired_write_def Let_def)
qed

end
