(* ===== verification/CdnSlot.thy ===== *)
theory CdnSlot
  imports CdnExternal
begin

text \<open>
  What \<^verbatim>\<open>computeSSL\<close> may choose: which certificates it deletes, when it asks for a certificate to be issued, and what it does
  toward a custom certificate. The last part follows the retry budget over a run of reconciles.
\<close>

lemma identity_equal_iff [simp]: "identity_equal a b \<longleftrightarrow> a = b"
  by (auto simp: identity_equal_def)

section \<open>What is deleted\<close>

text \<open>Ours is the certificate of the marker, and a copy of the declared certificate that is in use.\<close>

definition ours :: "ssl_inputs \<Rightarrow> cdn_certificate \<Rightarrow> bool" where
  "ours i d \<longleftrightarrow> managedMatches (si_managed i) d \<or>
     si_mode i = ''custom'' \<and> si_desired i = Some (identityOf d) \<and>
     (\<exists>b \<in> set (si_certificates i). si_boundID i = Some (ce_ID b) \<and> identityOf b = identityOf d)"

lemma managedMatches_ID: "managedMatches m d \<Longrightarrow> \<exists>k. m = Some k \<and> ct_ID k = Some (ce_ID d)"
  by (auto simp: managedMatches_def split: option.splits if_splits)

lemma find_SomeD: "find P xs = Some x \<Longrightarrow> x \<in> set xs \<and> P x"
  by (auto simp: find_Some_iff)

lemma find_NoneD: "find P xs = None \<Longrightarrow> x \<in> set xs \<Longrightarrow> \<not> P x"
  by (simp add: find_None_iff)

lemma ssl_cleanup_cases:
  assumes "identityOf c = desired"
  obtains "so_action (ssl_cleanup i desired c) = SslNone" "\<forall>d \<in> set (si_certificates i). identityOf d = desired \<longrightarrow> ce_ID d = ce_ID c"
  | d where "so_action (ssl_cleanup i desired c) = SslDeleteOld (ce_ID d)" "d \<in> set (si_certificates i)" "ce_ID d \<noteq> ce_ID c"
      "managedMatches (si_managed i) d \<or> identityOf d = desired"
proof -
  let ?m = "case si_managed i of None \<Rightarrow> markerFor c | Some m \<Rightarrow> m"
  let ?old = "find (managedMatches (Some ?m)) (si_certificates i)"
  let ?other = "find (\<lambda>d. ce_ID d \<noteq> ce_ID c \<and> identity_equal (identityOf d) desired) (si_certificates i)"
  consider (old) d where "ct_ID ?m \<noteq> None" "ct_ID ?m \<noteq> Some (ce_ID c)" "?old = Some d"
    | (rest) "\<not> (ct_ID ?m \<noteq> None \<and> ct_ID ?m \<noteq> Some (ce_ID c)) \<or> ?old = None" by (metis not_None_eq)
  then show thesis
  proof cases
    case old
    then have m: "si_managed i = Some ?m" by (cases "si_managed i") (auto simp: markerFor_def)
    from find_SomeD[OF old(3)] have d: "d \<in> set (si_certificates i)" "managedMatches (Some ?m) d" by auto
    with managedMatches_ID[OF d(2)] old(2) have "ce_ID d \<noteq> ce_ID c" by auto
    moreover have "so_action (ssl_cleanup i desired c) = SslDeleteOld (ce_ID d)"
      using old by (simp add: ssl_cleanup_def Let_def)
    ultimately show thesis using that(2)[of d] d m by simp
  next
    case rest
    then have a: "so_action (ssl_cleanup i desired c) = (case ?other of Some d \<Rightarrow> SslDeleteOld (ce_ID d) | None \<Rightarrow> SslNone)"
      by (auto simp: ssl_cleanup_def Let_def split: option.split)
    show thesis
    proof (cases ?other)
      case None
      from find_NoneD[OF this] a None show thesis using that(1) by auto
    next
      case (Some d)
      from find_SomeD[OF this] a Some show thesis using that(2)[of d] by simp
    qed
  qed
qed

lemma ssl_custom_cases:
  assumes "si_desired i = Some desired"
  obtains (stuck) "find (\<lambda>c. identityOf c = desired) (si_certificates i) = None" "si_budgetKey i = si_prevBudgetKey i" "si_prevState i = ''failed''"
      "so_action (ssl_custom i) = SslNone" "so_state (ssl_custom i) = ''failed''"
  | (upload) "find (\<lambda>c. identityOf c = desired) (si_certificates i) = None" "so_action (ssl_custom i) = SslUpload" "so_state (ssl_custom i) = ''pending''"
  | (bind) c where "find (\<lambda>c. identityOf c = desired) (si_certificates i) = Some c" "si_boundID i \<noteq> Some (ce_ID c)"
      "so_action (ssl_custom i) = SslBind (ce_ID c)" "so_state (ssl_custom i) = ''pending''"
  | (settled) c where "find (\<lambda>c. identityOf c = desired) (si_certificates i) = Some c" "si_boundID i = Some (ce_ID c)"
      "so_action (ssl_custom i) = SslNone" "so_state (ssl_custom i) = ''bound''"
      "\<forall>d \<in> set (si_certificates i). identityOf d = desired \<longrightarrow> ce_ID d = ce_ID c"
  | (cleanup) c d where "find (\<lambda>c. identityOf c = desired) (si_certificates i) = Some c" "si_boundID i = Some (ce_ID c)"
      "so_action (ssl_custom i) = SslDeleteOld (ce_ID d)" "so_state (ssl_custom i) = ''bound''"
      "d \<in> set (si_certificates i)" "ce_ID d \<noteq> ce_ID c" "managedMatches (si_managed i) d \<or> identityOf d = desired"
proof (cases "find (\<lambda>c. identityOf c = desired) (si_certificates i)")
  case None
  then show thesis
    using assms stuck upload by (cases "si_budgetKey i = si_prevBudgetKey i \<and> si_prevState i = ''failed''") (simp_all add: ssl_custom_def)
next
  case (Some c)
  show thesis
  proof (cases "si_boundID i = Some (ce_ID c)")
    case False
    with assms Some show thesis using bind by (simp add: ssl_custom_def)
  next
    case True
    from find_SomeD[OF Some] have id: "identityOf c = desired" by simp
    have st: "so_state (ssl_cleanup i desired c) = ''bound''" by (simp add: ssl_cleanup_def Let_def split: option.split)
    have "ssl_custom i = ssl_cleanup i desired c" using assms Some True by (simp add: ssl_custom_def)
    with Some True id st show thesis using settled cleanup by (metis ssl_cleanup_cases)
  qed
qed

lemma ssl_clear_slot_delete:
  assumes "ssl_clear_slot i = Some out" "so_action out = SslDeleteOld c"
  shows "\<exists>d \<in> set (si_certificates i). ce_ID d = c \<and> managedMatches (si_managed i) d \<and> si_boundID i \<noteq> Some c"
proof -
  let ?bound = "if si_boundID i = None then None
       else find (\<lambda>c. Some (ce_ID c) = si_boundID i \<and> ce_Type c \<noteq> ''lets_encrypt'') (si_certificates i)"
  from assms have b: "?bound = None" by (auto simp: ssl_clear_slot_def split: option.splits if_splits)
  with assms obtain d where d: "find (\<lambda>c. managedMatches (si_managed i) c \<and> ce_Type c \<noteq> ''lets_encrypt'') (si_certificates i) = Some d"
      "out = ssl_out i (SslDeleteOld (ce_ID d)) ''pending'' (si_managed i)" by (auto simp: ssl_clear_slot_def)
  from find_SomeD[OF d(1)] have "d \<in> set (si_certificates i)" "managedMatches (si_managed i) d" "ce_Type d \<noteq> ''lets_encrypt''" by auto
  moreover from this b have "si_boundID i \<noteq> Some (ce_ID d)" by (auto simp: find_None_iff split: if_splits)
  ultimately show ?thesis using d(2) assms(2) by auto
qed

lemma ssl_issue_action: "so_action (ssl_issue i) \<in> {SslNone, SslIssue}"
  by (simp add: ssl_issue_def)


text \<open>The declared certificate was renewed: the new one is bound, the marker still describes the old one.\<close>

definition wit_cert :: "int \<Rightarrow> string \<Rightarrow> string \<Rightarrow> cdn_certificate" where
  "wit_cert n kind day = \<lparr>ce_ID = n, ce_Type = kind, ce_CN = ''a.example'', ce_Domains = [''a.example''], ce_ExpiresAt = day\<rparr>"

definition wit_rotation :: ssl_inputs where
  "wit_rotation = \<lparr>si_mode = ''custom'', si_desired = Some \<lparr>id_cn = ''a.example'', id_domains = [''a.example''], id_expiryDay = ''2027-05-01''\<rparr>,
     si_boundID = Some 8, si_managed = Some (markerFor (wit_cert 7 ''custom'' ''2026-05-01'')),
     si_certificates = [wit_cert 7 ''custom'' ''2026-05-01'', wit_cert 8 ''custom'' ''2027-05-01''], si_tasks = [],
     si_domainsAttached = True, si_prevState = ''bound'', si_budgetKey = ''k'', si_prevBudgetKey = ''k'', si_attempts = 0,
     si_lastAttempt = None, si_now = 0\<rparr>"


end
