(* ===== verification/CdnRun.thy ===== *)
theory CdnRun
  imports CdnSlot Monitored
begin

text \<open>
  Running the handlers of a Cdn when the answers are known: what \<^verbatim>\<open>Observe\<close> reports and mirrors, and which single request
  \<^verbatim>\<open>Update\<close> makes.
\<close>

section \<open>Steps\<close>

lemma cdn_doJSON_run:
  "answers api (world s) q p w' \<Longrightarrow> sel p = Some x \<Longrightarrow> cdn_doJSON api sel q s = (Inr x, s\<lparr>world := w', reqs := reqs s @ [q]\<rparr>)"
  by (auto dest!: answers_classify simp: bindE_def cdn_doJSON_def call_classify_run returnOk_def)

text \<open>The state apart from conditions, events and the log of requests.\<close>

definition alike :: "('w, 'q, 's, 'o) rstate \<Rightarrow> ('w, 'q, 's, 'o) rstate \<Rightarrow> bool" where
  "alike s s' \<longleftrightarrow> world s' = world s \<and> external_name (cr s') = external_name (cr s) \<and> for_provider (cr s') = for_provider (cr s) \<and>
     at_provider (cr s') = at_provider (cr s)"

lemma alike_refl [simp]: "alike s s"
  by (simp add: alike_def)

lemma alike_trans: "alike s t \<Longrightarrow> alike t u \<Longrightarrow> alike s u"
  by (simp add: alike_def)

definition origin_at :: "'w cdn_env \<Rightarrow> 'w \<Rightarrow> cdn_object \<Rightarrow> resolved_origin option" where
  "origin_at env w x = (let og = cdp_Origin (cx_Params x);
     out = \<lparr>ro_server = None, ro_storageID = None, ro_useHTTPS = use_https og\<rparr> in
     if cx_Deleting x then None
     else case og_BucketRef og of
       Some name \<Rightarrow> (case en_bucket env w (cx_Namespace x) name of
           KFound (ready, bid) \<Rightarrow> if \<not> ready \<or> bid = None then None else Some (out\<lparr>ro_storageID := bid\<rparr>)
         | _ \<Rightarrow> None)
     | None \<Rightarrow> Some (case og_Domain og of
           Some d \<Rightarrow> out\<lparr>ro_server := Some (d, originPort og (use_https og))\<rparr>
         | None \<Rightarrow> (case og_IP og of
             Some ip \<Rightarrow> out\<lparr>ro_server := Some (ip, originPort og (use_https og))\<rparr>
           | None \<Rightarrow> out)))"

lemma origin_at_one: "origin_at env w x = Some o1 \<Longrightarrow> ro_server o1 = None \<or> ro_storageID o1 = None"
  by (auto simp: origin_at_def Let_def split: if_splits option.splits kube_get.splits)

lemma resolveOrigin_runs:
  fixes s :: "('w, cdn_req, cdn_object, cdn_observation) rstate"
  assumes "\<not> cx_Deleting (for_provider (cr s))"
  obtains r s' where "resolveOrigin env s = (r, s')" "alike s s'" "(case r of Inl e \<Rightarrow> None | Inr g \<Rightarrow> Some g) = origin_at env (world s) (for_provider (cr s))"
proof (cases "og_BucketRef (cdp_Origin (cx_Params (for_provider (cr s))))")
  case None
  with assms that show ?thesis by (simp add: resolveOrigin_def origin_at_def Let_def run_equations)
next
  case (Some name)
  let ?got = "en_bucket env (world s) (cx_Namespace (for_provider (cr s))) name"
  obtain s0 where nr: "(originNotReady :: ('w, resolved_origin) cdn_act) s = (Inl errOriginNotReady, s0)" "alike s s0"
    by (simp add: originNotReady_def run_equations alike_def)
  have run: "resolveOrigin env s = (case ?got of
      KFound (ready, bid) \<Rightarrow> if \<not> ready \<or> bid = None then originNotReady s
        else (Inr \<lparr>ro_server = None, ro_storageID = bid, ro_useHTTPS = use_https (cdp_Origin (cx_Params (for_provider (cr s))))\<rparr>, s)
    | _ \<Rightarrow> originNotReady s)"
    using Some by (simp add: resolveOrigin_def Let_def run_equations bindE_reading split: kube_get.split prod.split)
  show ?thesis
  proof (cases "\<exists>bid. ?got = KFound (True, Some bid)")
    case True
    with run Some assms that show ?thesis by (auto simp: origin_at_def Let_def)
  next
    case False
    then have "resolveOrigin env s = originNotReady s" "origin_at env (world s) (for_provider (cr s)) = None"
      using run Some by (auto simp: origin_at_def Let_def split: kube_get.splits)
    with nr that[of "Inl errOriginNotReady" s0] show ?thesis by simp
  qed
qed

definition wanted :: "'w cdn_env \<Rightarrow> 'w \<Rightarrow> cdn_object \<Rightarrow> cdn_resource \<Rightarrow> cdn_config \<Rightarrow> resolved_secrets \<Rightarrow> cdn_write" where
  "wanted env w x res cfg sec = desired_write x res cfg sec (origin_at env w x)"

lemma buildDesiredWrite_runs:
  obtains s' where "buildDesiredWrite env res cfg sec s =
      (Inr (wanted env (world s) (for_provider (cr s)) res cfg sec, write_dirty (wanted env (world s) (for_provider (cr s)) res cfg sec)), s')" "alike s s'"
proof (cases "cx_Deleting (for_provider (cr s))")
  case True
  with that show ?thesis by (simp add: buildDesiredWrite_def run_equations Let_def wanted_def origin_at_def)
next
  case False
  from resolveOrigin_runs[OF this, of env] obtain r s' where r: "resolveOrigin env s = (r, s')" "alike s s'"
      "(case r of Inl e \<Rightarrow> None | Inr g \<Rightarrow> Some g) = origin_at env (world s) (for_provider (cr s))" .
  with False that[of s'] show ?thesis
    by (simp add: buildDesiredWrite_def run_equations Let_def wanted_def bindE_assoc bindE_step(2)[where m = "resolveOrigin env", OF r(1)])
qed

section \<open>The reads\<close>

definition cert_list_req :: "string \<Rightarrow> string \<Rightarrow> cdn_req" where
  "cert_list_req rid mode = (if mode = ''custom'' then ListAllCertificates else ListCertificates rid)"

text \<open>The answers of the read requests, which change nothing.\<close>

definition reads_as :: "'w cdn_api \<Rightarrow> string \<Rightarrow> string \<Rightarrow> 'w \<Rightarrow> cdn_resource \<Rightarrow> cdn_config \<Rightarrow> cdn_certificate list \<Rightarrow> cert_task list \<Rightarrow> bool" where
  "reads_as api rid mode w res cfg certs tasks \<longleftrightarrow> answers api w (GetCdn rid) (PCdn res) w \<and>
     answers api w (GetCdnConfiguration rid) (PCdnConfig cfg) w \<and>
     answers api w (cert_list_req rid mode) (PCertificates certs) w \<and> answers api w (ListCertificateTasks rid) (PTasks tasks) w"

abbreviation logged :: "cdn_req \<Rightarrow> ('w, cdn_req, cdn_object, cdn_observation) rstate \<Rightarrow> ('w, cdn_req, cdn_object, cdn_observation) rstate" where
  "logged q s \<equiv> s\<lparr>reqs := reqs s @ [q]\<rparr>"

lemma doJSON_read: "answers api (world s) q p (world s) \<Longrightarrow> sel p = Some x \<Longrightarrow> cdn_doJSON api sel q s = (Inr x, logged q s)"
  using cdn_doJSON_run[of api s q p "world s" sel x] by simp

lemma reads_run:
  assumes "reads_as api rid mode (world s) res cfg certs tasks"
  shows "getResource api rid s = (Inr res, logged (GetCdn rid) s)"
    "getConfiguration api rid s = (Inr cfg, logged (GetCdnConfiguration rid) s)"
    "certificatesForMode api rid mode s = (Inr certs, logged (cert_list_req rid mode) s)"
    "listCertificateTasks api rid s = (Inr tasks, logged (ListCertificateTasks rid) s)"
  using assms unfolding reads_as_def cert_list_req_def
  by (auto simp: getResource_def getConfiguration_def certificatesForMode_def listCertificateTasks_def intro!: doJSON_read split: if_splits)

lemma read_ssl_runs:
  assumes "reads_as api (external_name (cr s)) (ssl_Mode ssl) (world s) res cfg certs tasks"
  obtains s' where "read_ssl env api ssl cfg sec s = (Inr (sslInputsFor ssl (cr s) cfg certs tasks sec (en_now env (world s))), s')" "alike s s'"
proof -
  let ?rid = "external_name (cr s)" and ?s1 = "logged (cert_list_req (external_name (cr s)) (ssl_Mode ssl)) s"
  note s1 = reads_run(3)[OF assms]
  from assms have "reads_as api ?rid (ssl_Mode ssl) (world ?s1) res cfg certs tasks" by simp
  note s2 = reads_run(4)[OF this]
  from that[of "logged (ListCertificateTasks ?rid) ?s1"] show ?thesis
    by (simp add: read_ssl_def run_equations bindE_reading alike_def bindE_step(1)[where m = "certificatesForMode api ?rid _" and s = s, OF s1]
        bindE_step(1)[where m = "listCertificateTasks api ?rid" and s = ?s1, OF s2])
qed

section \<open>Observe and Update\<close>

definition quiet :: "cdn_object \<Rightarrow> bool" where
  "quiet x \<longleftrightarrow> cx_Annotations x PurgeAnnotation = None \<and> cx_Annotations x RetrySSLAnnotation = None"

lemma sslInputsFor_cong:
  "for_provider m' = for_provider m \<Longrightarrow> the_ssl (at_provider m') = the_ssl (at_provider m) \<Longrightarrow>
   cdo_ManagedCertificate (at_provider m') = cdo_ManagedCertificate (at_provider m) \<Longrightarrow>
   sslInputsFor ssl m' cfg certs tasks sec now = sslInputsFor ssl m cfg certs tasks sec now"
  by (simp add: sslInputsFor_def Let_def)

lemma cdn_status_fields [simp]:
  "the_ssl (cdn_status res cfg st) = the_ssl st" "cdo_ManagedCertificate (cdn_status res cfg st) = cdo_ManagedCertificate st"
  by (simp_all add: cdn_status_def the_ssl_def)

text \<open>What \<^verbatim>\<open>Observe\<close> does with an object without annotations and a resource that is not suspended.\<close>

lemma cdn_Observe_runs:
  assumes n: "DecodeID (external_name (cr s)) = Some n" and ssl: "cdp_SSL (cx_Params (for_provider (cr s))) = Some ssl"
    and rd: "reads_as api (external_name (cr s)) (ssl_Mode ssl) (world s) res cfg certs tasks"
    and q: "quiet (for_provider (cr s))" and run: "\<not> isSuspendedState (hr_Status res)"
    and sec: "resolveSpecSecrets env (world s) (for_provider (cr s)) = Inr sec"
    and i: "i = sslInputsFor ssl (cr s) cfg certs tasks sec (en_now env (world s))"
  obtains ob s' where "cdn_Observe env api s = (Inr ob, s')" "ResourceExists ob"
    "ResourceUpToDate ob \<longleftrightarrow> \<not> write_dirty (wanted env (world s) (for_provider (cr s)) res cfg sec) \<and> so_action (computeSSL i) = SslNone"
    "world s' = world s" "external_name (cr s') = external_name (cr s)" "for_provider (cr s') = for_provider (cr s)"
    "at_provider (cr s') = mirror_status i (computeSSL i) (cdn_status res cfg (at_provider (cr s)))"
proof -
  let ?rid = "external_name (cr s)"
  obtain s1 where g1: "getResource api ?rid s = (Inr res, s1)" "world s1 = world s" "cr s1 = cr s" using reads_run(1)[OF rd] by simp
  obtain s2 where g2: "getConfiguration api ?rid s1 = (Inr cfg, s2)" "world s2 = world s" "cr s2 = cr s"
    using reads_run(2)[of api ?rid "ssl_Mode ssl" s1] rd g1 by simp
  let ?s3 = "s2\<lparr>cr := SetConditions Available (cdn_populateStatus res cfg (cr s))\<rparr>"
  have at3: "at_provider (cr ?s3) = cdn_status res cfg (at_provider (cr s))" using g2 by (simp add: cdn_populateStatus_def SetConditions_def)
  have fp3: "for_provider (cr ?s3) = for_provider (cr s)" "external_name (cr ?s3) = ?rid" "world ?s3 = world s"
    using g2 by (simp_all add: cdn_populateStatus_def SetConditions_def)
  have hp: "handlePurge env api res (s2\<lparr>cr := cdn_populateStatus res cfg (cr s)\<rparr>) = (Inr (), s2\<lparr>cr := cdn_populateStatus res cfg (cr s)\<rparr>)"
    using q by (simp add: handlePurge_def run_equations quiet_def cdn_populateStatus_def)
  have obs: "cdn_Observe env api s = bindE (cdn_secrets env) (\<lambda>sec. bindE (observeSSL env api cfg sec) (\<lambda>d. bindE (buildDesiredWrite env res cfg sec) (\<lambda>(w, dirty).
       returnOk \<lparr>ResourceExists = True, ResourceUpToDate = (\<not> dirty \<and> \<not> d), ConnectionDetails = cdn_connectionDetails res\<rparr>))) ?s3"
    using n q run g2(3) by (simp add: cdn_Observe_def run_equations on_not_found_def cdn_observe_rest_def bindE_step(1)[where m = "handlePurge env api res", OF hp]
      bindE_step(2)[where m = "getResource api ?rid", OF g1(1)] bindE_step(1)[where m = "getConfiguration api ?rid", OF g2(1)])
  have sc: "cdn_secrets env ?s3 = (Inr sec, ?s3)"
    using sec fp3 by (simp add: cdn_secrets_def run_equations bindE_reading)
  have "reads_as api (external_name (cr ?s3)) (ssl_Mode ssl) (world ?s3) res cfg certs tasks" using rd fp3 by simp
  from read_ssl_runs[OF this, of env sec] obtain s4 where s4: "read_ssl env api ssl cfg sec ?s3 = (Inr i, s4)" "alike ?s3 s4"
    using sslInputsFor_cong[of "cr ?s3" "cr s"] at3 fp3 i by auto
  let ?s5 = "s4\<lparr>cr := mirrorSSL i (computeSSL i) (cr s4)\<rparr>"
  have rt: "retry_ssl env ?s3 = (Inr (), ?s3)"
    using q fp3(1) by (simp add: retry_ssl_def run_equations quiet_def)
  have os: "observeSSL env api cfg sec ?s3 = (Inr (so_action (computeSSL i) \<noteq> SslNone), ?s5)"
    using ssl fp3(1) by (simp add: observeSSL_def run_equations Let_def bindE_step(1)[where m = "retry_ssl env", OF rt] bindE_step(1)[where m = "read_ssl env api ssl cfg sec", OF s4(1)])
  from buildDesiredWrite_runs[of env res cfg sec ?s5] obtain s6 where s6: "buildDesiredWrite env res cfg sec ?s5 =
      (Inr (wanted env (world ?s5) (for_provider (cr ?s5)) res cfg sec, write_dirty (wanted env (world ?s5) (for_provider (cr ?s5)) res cfg sec)), s6)"
      "alike ?s5 s6" .
  have five: "world ?s5 = world s" "for_provider (cr ?s5) = for_provider (cr s)" "external_name (cr ?s5) = ?rid"
      "at_provider (cr ?s5) = mirror_status i (computeSSL i) (cdn_status res cfg (at_provider (cr s)))"
    using s4(2) at3 fp3 by (simp_all add: alike_def mirrorSSL_def)
  have "cdn_Observe env api s = (Inr \<lparr>ResourceExists = True, ResourceUpToDate =
      (\<not> write_dirty (wanted env (world s) (for_provider (cr s)) res cfg sec) \<and> so_action (computeSSL i) = SslNone),
      ConnectionDetails = cdn_connectionDetails res\<rparr>, s6)"
    unfolding obs using s6(1) five(1,2)
    by (simp add: bindE_step(1)[where m = "cdn_secrets env", OF sc] bindE_step(1)[where m = "observeSSL env api cfg sec", OF os]
        bindE_step(1)[where m = "buildDesiredWrite env res cfg sec", OF s6(1)] returnOk_def)
  with that s6(2) five show ?thesis by (simp add: alike_def)
qed

text \<open>What \<^verbatim>\<open>Update\<close> comes down to.\<close>

lemma cdn_Update_runs:
  assumes n: "DecodeID (external_name (cr s)) = Some n" and ssl: "cdp_SSL (cx_Params (for_provider (cr s))) = Some ssl"
    and rd: "reads_as api (external_name (cr s)) (ssl_Mode ssl) (world s) res cfg certs tasks"
    and run: "\<not> isSuspendedState (hr_Status res)"
    and sec: "resolveSpecSecrets env (world s) (for_provider (cr s)) = Inr sec"
    and i: "i = sslInputsFor ssl (cr s) cfg certs tasks sec (en_now env (world s))"
  obtains s' where "alike s s'" "cdn_Update env api s =
     (if write_dirty (wanted env (world s) (for_provider (cr s)) res cfg sec)
      then patch_settings api (external_name (cr s)) (wanted env (world s) (for_provider (cr s)) res cfg sec) s'
      else if so_action (computeSSL i) = SslNone then (Inr (), s') else executeSSLAction env api (so_action (computeSSL i)) sec n s')"
proof -
  let ?rid = "external_name (cr s)" and ?w = "wanted env (world s) (for_provider (cr s)) res cfg sec"
  obtain s1 where g1: "getResource api ?rid s = (Inr res, s1)" "world s1 = world s" "cr s1 = cr s" using reads_run(1)[OF rd] by simp
  obtain s2 where g2: "getConfiguration api ?rid s1 = (Inr cfg, s2)" "world s2 = world s" "cr s2 = cr s"
    using reads_run(2)[of api ?rid "ssl_Mode ssl" s1] rd g1 by simp
  have sc: "cdn_secrets env s2 = (Inr sec, s2)" using sec g2 by (simp add: cdn_secrets_def run_equations bindE_reading)
  from buildDesiredWrite_runs[of env res cfg sec s2] g2 obtain s3 where
    s3: "buildDesiredWrite env res cfg sec s2 = (Inr (?w, write_dirty ?w), s3)" "alike s2 s3" by auto
  have up: "cdn_Update env api s = (if write_dirty ?w then patch_settings api ?rid ?w else update_ssl_slot env api cfg sec) s3"
    using run by (simp add: cdn_Update_def run_equations bindE_step(1)[where m = "getResource api ?rid", OF g1(1)]
      bindE_step(1)[where m = "getConfiguration api ?rid", OF g2(1)] bindE_step(1)[where m = "cdn_secrets env", OF sc]
      bindE_step(1)[where m = "buildDesiredWrite env res cfg sec", OF s3(1)])
  have a3: "alike s s3" using s3(2) g2 by (simp add: alike_def)
  then have "reads_as api (external_name (cr s3)) (ssl_Mode ssl) (world s3) res cfg certs tasks" using rd by (simp add: alike_def)
  from read_ssl_runs[OF this, of env sec] obtain s4 where s4: "read_ssl env api ssl cfg sec s3 = (Inr i, s4)" "alike s3 s4"
    using a3 sslInputsFor_cong[of "cr s3" "cr s"] i by (auto simp: alike_def)
  have sl: "update_ssl_slot env api cfg sec s3 = (if so_action (computeSSL i) = SslNone then (Inr (), s4)
      else executeSSLAction env api (so_action (computeSSL i)) sec n s4)"
    using ssl n a3 by (simp add: update_ssl_slot_def run_equations alike_def Let_def bindE_step(1)[where m = "read_ssl env api ssl cfg sec", OF s4(1)])
  show ?thesis
  proof (cases "write_dirty ?w")
    case True
    then show ?thesis using that[OF a3] up by simp
  next
    case False
    then show ?thesis using that[OF alike_trans[OF a3 s4(2)]] up sl by simp
  qed
qed

end
