(* ===== verification/CdnBudget.thy ===== *)
theory CdnBudget
  imports CdnRun
begin

text \<open>
  The retry budget over a run of reconciles: \<open>ledger\<close> is what the budget is kept in, with the requests for a certificate
  counted. Most of a reconcile is \<open>calm\<close>, it leaves the ledger alone; what is left is the retry annotation, the mirror of
  \<^verbatim>\<open>Observe\<close> and the request of \<^verbatim>\<open>Update\<close>.
\<close>

section \<open>The ledger\<close>

definition is_issue :: "cdn_req \<Rightarrow> bool" where
  "is_issue q \<longleftrightarrow> (case q of IssueCertificate n \<Rightarrow> True | _ \<Rightarrow> False)"

record ledger =
  le_attempts :: int
  le_last :: "int option"
  le_key :: "string option"
  le_retry :: bool
  le_params :: cdn_parameters
  le_issues :: nat

definition ledger_of :: "cdn_mr \<Rightarrow> cdn_req list \<Rightarrow> ledger" where
  "ledger_of m qs = (let st = the_ssl (at_provider m) in \<lparr>le_attempts = i64Deref (st_IssueAttempts st), le_last = st_LastIssueAttemptAt st,
     le_key = st_BudgetKey st, le_retry = (cx_Annotations (for_provider m) RetrySSLAnnotation \<noteq> None), le_params = cx_Params (for_provider m), le_issues = length (filter is_issue qs)\<rparr>)"

definition ledger :: "('w, cdn_req, cdn_object, cdn_observation) rstate \<Rightarrow> ledger" where
  "ledger s = ledger_of (cr s) (reqs s)"

definition calm :: "('w, 'a) cdn_act \<Rightarrow> bool" where
  "calm m \<longleftrightarrow> (\<forall>s r s'. m s = (r, s') \<longrightarrow> ledger s' = ledger s)"

lemma calmD: "calm m \<Longrightarrow> m s = (r, s') \<Longrightarrow> ledger s' = ledger s"
  by (simp add: calm_def)

lemma calm_bindE: "calm m \<Longrightarrow> (\<And>x. calm (f x)) \<Longrightarrow> calm (bindE m f)"
  unfolding calm_def bindE_def by (auto split: prod.splits sum.splits)

lemma calm_simple: "calm (returnOk x)" "calm (throwError err)" "calm (gets g)" "calm (emit_event t c)" "calm (reading h)" "calm (acting k)"
  by (auto simp: calm_def run_equations emit_event_def reading_def acting_def ledger_def split: prod.splits)

lemma calm_attempt: "calm m \<Longrightarrow> calm (attempt m)"
  by (auto simp: calm_def attempt_def split: prod.splits)

lemma calm_modify: "(\<And>m qs. ledger_of (h m) qs = ledger_of m qs) \<Longrightarrow> calm (modify_cr h)"
  by (simp add: calm_def run_equations ledger_def)

lemma ledger_of_SetConditions [simp]: "ledger_of (SetConditions c m) qs = ledger_of m qs"
  by (simp add: ledger_of_def SetConditions_def)

lemma calm_call: "\<not> is_issue q \<Longrightarrow> calm (call_classify api q)"
  by (simp add: calm_def call_classify_run ledger_def ledger_of_def)

lemma calm_cases:
  "(b \<Longrightarrow> calm m) \<Longrightarrow> (\<not> b \<Longrightarrow> calm n) \<Longrightarrow> calm (if b then m else n)"
  "calm m \<Longrightarrow> (\<And>y. calm (g y)) \<Longrightarrow> calm (case x of None \<Rightarrow> m | Some y \<Rightarrow> g y)"
  "(\<And>y. calm (h y)) \<Longrightarrow> (\<And>y. calm (k y)) \<Longrightarrow> calm (case z of Inl y \<Rightarrow> h y | Inr y \<Rightarrow> k y)"
  "(\<And>a b. calm (l a b)) \<Longrightarrow> calm (case p of (a, b) \<Rightarrow> l a b)"
  "(\<And>y. calm (u y)) \<Longrightarrow> calm v \<Longrightarrow> (\<And>e. calm (w e)) \<Longrightarrow> calm (case got of KFound y \<Rightarrow> u y | KNotFound \<Rightarrow> v | KError e \<Rightarrow> w e)"
  by (auto split: option.split sum.split prod.split kube_get.split)

lemmas calm_rules = calm_bindE calm_simple calm_attempt calm_modify calm_call calm_cases

lemma calm_doJSON: "\<not> is_issue q \<Longrightarrow> calm (cdn_doJSON api sel q)"
  unfolding cdn_doJSON_def by (intro calm_rules)

lemma calm_write: "\<not> is_issue q \<Longrightarrow> calm (write_call api q)"
  unfolding write_call_def by (intro calm_rules)

lemma not_issue [simp]:
  "\<not> is_issue ListCdns" "\<not> is_issue (GetCdn x)" "\<not> is_issue (GetCdnConfiguration x)" "\<not> is_issue (PatchCdn x w)" "\<not> is_issue (DeleteCdn x)"
  "\<not> is_issue (ClearCdnCache x k ps)" "\<not> is_issue (ListCertificates x)" "\<not> is_issue ListAllCertificates" "\<not> is_issue (ListCertificateTasks x)"
  "\<not> is_issue (UploadCertificate c k)" "\<not> is_issue (DeleteCertificate x)" "is_issue (IssueCertificate n)"
  by (simp_all add: is_issue_def)

section \<open>What is calm\<close>

lemma calm_resolveOrigin: "calm (resolveOrigin env)"
  unfolding resolveOrigin_def originNotReady_def Let_def by (intro calm_rules) simp_all

lemma calm_buildDesiredWrite: "calm (buildDesiredWrite env res cfg sec)"
  unfolding buildDesiredWrite_def Let_def by (intro calm_rules calm_resolveOrigin)

lemma calm_secrets: "calm (cdn_secrets env)"
  unfolding cdn_secrets_def by (intro calm_rules) simp

lemma calm_removeAnnotation: "calm (removeAnnotation env PurgeAnnotation)"
  unfolding removeAnnotation_def
  by (intro calm_rules) (simp add: drop_annotation_def ledger_of_def PurgeAnnotation_def RetrySSLAnnotation_def)

lemma calm_handlePurge: "calm (handlePurge env api res)"
  unfolding handlePurge_def
  by (intro calm_rules calm_removeAnnotation calm_write) (simp_all add: set_purged_def ledger_of_def the_ssl_def)

lemma calm_reads: "calm (certificatesForMode api rid mode)" "calm (listCertificateTasks api rid)" "calm (getResource api rid)"
  "calm (getConfiguration api rid)" "calm (patch_settings api rid w)"
  unfolding certificatesForMode_def listCertificateTasks_def getResource_def getConfiguration_def patch_settings_def
  by (intro calm_rules calm_doJSON calm_write; simp)+

lemma calm_read_ssl: "calm (read_ssl env api ssl cfg sec)"
  unfolding read_ssl_def by (intro calm_rules calm_reads)

lemma calm_slot_actions: "calm (upload_certificate api crt key)" "calm (delete_certificate api c)"
  unfolding upload_certificate_def delete_certificate_def
  by (intro calm_rules calm_write; simp add: ledger_of_def update_ssl_def set_managed_def the_ssl_def Let_def)+

lemma calm_populate: "calm (modify_cr (cdn_populateStatus res cfg))"
  by (intro calm_rules) (simp add: ledger_of_def cdn_populateStatus_def cdn_status_def the_ssl_def)

section \<open>What Observe does to it\<close>

text \<open>The attempts are kept with their time and key, or start again, and then because of the annotation or of a new key.\<close>

definition renewed :: "ledger \<Rightarrow> ledger \<Rightarrow> bool" where
  "renewed a b \<longleftrightarrow> le_params b = le_params a \<and> le_issues b = le_issues a \<and>
     (le_attempts b = le_attempts a \<and> le_last b = le_last a \<and> le_key b = le_key a \<or>
      le_attempts b = 0 \<and> (le_retry a \<or> le_key b \<noteq> le_key a))"

definition keyed :: "ledger \<Rightarrow> bool" where
  "keyed a \<longleftrightarrow> (\<forall>ssl. cdp_SSL (le_params a) = Some ssl \<longrightarrow> ssl_Mode ssl \<noteq> ''custom'' \<longrightarrow>
     le_key a = Some (sslBudgetKey (declared_domains (le_params a)) (Some ssl) None))"

definition refreshing :: "('w, 'a) cdn_act \<Rightarrow> bool" where
  "refreshing m \<longleftrightarrow> (\<forall>s r s'. m s = (r, s') \<longrightarrow> renewed (ledger s) (ledger s'))"

lemma renewed_refl [simp]: "renewed a a"
  by (simp add: renewed_def)

lemma refreshing_calm: "calm m \<Longrightarrow> refreshing m"
  by (simp add: refreshing_def calm_def)

lemma refreshing_after: "calm m \<Longrightarrow> (\<And>x. refreshing (f x)) \<Longrightarrow> refreshing (bindE m f)"
  unfolding refreshing_def calm_def bindE_def by (auto split: prod.splits sum.splits) metis

lemma refreshing_before: "refreshing m \<Longrightarrow> (\<And>x. calm (f x)) \<Longrightarrow> refreshing (bindE m f)"
  unfolding refreshing_def calm_def bindE_def by (auto split: prod.splits sum.splits)

lemma refreshing_cases:
  "(b \<Longrightarrow> refreshing m) \<Longrightarrow> (\<not> b \<Longrightarrow> refreshing n) \<Longrightarrow> refreshing (if b then m else n)"
  "(\<And>a b. refreshing (l a b)) \<Longrightarrow> refreshing (case p of (a, b) \<Rightarrow> l a b)"
  by (auto split: prod.split)

lemma refreshing_on_not_found: "(\<And>x. refreshing (k x)) \<Longrightarrow> refreshing (on_not_found (returnOk absent) k r)"
  by (auto simp: on_not_found_def refreshing_calm calm_simple split: sum.split)

lemma retry_ledger:
  assumes "retry_ssl env s = (r, s')"
  shows "ledger s' = ledger s \<or> le_retry (ledger s) \<and> le_attempts (ledger s') = 0 \<and> le_params (ledger s') = le_params (ledger s) \<and>
    le_issues (ledger s') = le_issues (ledger s) \<and> le_key (ledger s') = le_key (ledger s)"
proof (cases "cx_Annotations (for_provider (cr s)) RetrySSLAnnotation")
  case None
  with assms show ?thesis by (simp add: retry_ssl_def run_equations)
next
  case (Some v)
  let ?m = "drop_annotation RetrySSLAnnotation (update_ssl reset_budget (cr s))"
  from assms Some have "cr s' = ?m" "reqs s' = reqs s"
    by (auto simp: retry_ssl_def removeAnnotation_def bindE_acting run_equations split: if_splits)
  with Some show ?thesis
    by (simp add: ledger_def ledger_of_def drop_annotation_def update_ssl_def reset_budget_def the_ssl_def Let_def)
qed

lemma sslBudgetKey_nonempty [simp]: "sslBudgetKey ds ssl d \<noteq> []"
  unfolding sslBudgetKey_def by (subst hex_digits.simps) simp

lemma so_attempts_computeSSL: "so_attempts (computeSSL i) = budget_attempts i"
proof -
  have "so_attempts (ssl_cleanup i d c) = budget_attempts i" for d c
    by (simp add: ssl_cleanup_def Let_def split: option.split)
  then have "so_attempts (ssl_custom i) = budget_attempts i" by (simp add: ssl_custom_def split: option.split)
  moreover have "so_attempts (ssl_issue i) = budget_attempts i" by (simp add: ssl_issue_def)
  moreover have "ssl_clear_slot i = Some out \<Longrightarrow> so_attempts out = budget_attempts i" for out
    by (auto simp: ssl_clear_slot_def split: option.splits if_splits)
  ultimately show ?thesis
    by (auto simp: computeSSL_def ssl_lets_encrypt_def ssl_none_def split: option.split)
qed

lemma read_ssl_Inr:
  assumes "read_ssl env api ssl cfg sec s = (Inr i, s')"
  shows "\<exists>certs tasks now. i = sslInputsFor ssl (cr s') cfg certs tasks sec now"
  using assms by (auto simp: read_ssl_def bindE_Inr bindE_reading run_equations reading_def)

lemma mirror_ledger:
  assumes "i = sslInputsFor ssl (cr s) cfg certs tasks sec now" "modify_cr (mirrorSSL i (computeSSL i)) s = (r, s')"
  shows "renewed (ledger s) (ledger s') \<and>
    le_key (ledger s') = Some (sslBudgetKey (declared_domains (le_params (ledger s'))) (Some ssl) (rs_certIdentity sec))"
proof -
  have a: "so_attempts (computeSSL i) = (if si_budgetKey i \<noteq> si_prevBudgetKey i then 0 else i64Deref (st_IssueAttempts (the_ssl (at_provider (cr s)))))"
    by (simp add: so_attempts_computeSSL budget_attempts_def assms(1) sslInputsFor_def Let_def)
  from assms(2) have s': "cr s' = mirrorSSL i (computeSSL i) (cr s)" "reqs s' = reqs s" by (auto simp: run_equations)
  show ?thesis
  proof -
    let ?st = "the_ssl (at_provider (cr s))" and ?K = "si_budgetKey i"
    have K: "?K = sslBudgetKey (declared_domains (cx_Params (for_provider (cr s)))) (Some ssl) (rs_certIdentity sec)"
        "si_prevBudgetKey i = DerefString (st_BudgetKey ?st)"
      by (simp_all add: assms(1) sslInputsFor_def Let_def)
    have after: "the_ssl (at_provider (cr s')) = ?st\<lparr>st_BudgetKey := Some ?K,
        st_State := (if so_state (computeSSL i) = [] then None else Some (so_state (computeSSL i))), st_IssueAttempts := Some (so_attempts (computeSSL i))\<rparr>"
      by (simp add: s' mirrorSSL_def mirror_status_def the_ssl_def)
    have same: "?K = DerefString (st_BudgetKey ?st) \<Longrightarrow> st_BudgetKey ?st = Some ?K"
      using sslBudgetKey_nonempty by (cases "st_BudgetKey ?st") (auto simp: K(1))
    have same': "Some ?K = st_BudgetKey ?st \<Longrightarrow> ?K = DerefString (st_BudgetKey ?st)"
      by (metis Deref_simps(2))
    have "for_provider (cr s') = for_provider (cr s)" by (simp add: s' mirrorSSL_def)
    then have "cx_Params (for_provider (cr s')) = cx_Params (for_provider (cr s))"
        "cx_Annotations (for_provider (cr s')) = cx_Annotations (for_provider (cr s))" by simp_all
    note led = ledger_def ledger_of_def Let_def this s'(2) after
    have key: "le_key (ledger s') = Some ?K" "le_params (ledger s') = cx_Params (for_provider (cr s))" by (simp_all add: led)
    have "renewed (ledger s) (ledger s')"
    proof (cases "?K = si_prevBudgetKey i")
      case True
      with same K(2) a show ?thesis by (simp add: renewed_def led)
    next
      case False
      with same' K(2) have "Some ?K \<noteq> st_BudgetKey ?st" by auto
      with False a show ?thesis by (simp add: renewed_def led)
    qed
    with key K(1) show ?thesis by simp
  qed
qed

lemma observeSSL_ledger:
  assumes "observeSSL env api cfg sec s = (r, s')"
  shows "renewed (ledger s) (ledger s') \<and> (\<forall>x ssl. r = Inr x \<longrightarrow> cdp_SSL (le_params (ledger s')) = Some ssl \<longrightarrow>
    le_key (ledger s') = Some (sslBudgetKey (declared_domains (le_params (ledger s'))) (Some ssl) (rs_certIdentity sec)))"
proof (cases "cdp_SSL (cx_Params (for_provider (cr s)))")
  case None
  with assms show ?thesis by (auto simp: observeSSL_def run_equations ledger_def ledger_of_def Let_def)
next
  case (Some ssl)
  with assms have run: "bindE (retry_ssl env) (\<lambda>_. bindE (read_ssl env api ssl cfg sec) (\<lambda>i.
       bindE (modify_cr (mirrorSSL i (computeSSL i))) (\<lambda>_. returnOk (so_action (computeSSL i) \<noteq> SslNone)))) s = (r, s')"
    by (simp add: observeSSL_def run_equations Let_def)
  obtain r1 s1 where retry: "retry_ssl env s = (r1, s1)" by (cases "retry_ssl env s")
  note f1 = retry_ledger[OF retry]
  then have f1': "renewed (ledger s) (ledger s1)" by (auto simp: renewed_def)
  show ?thesis
  proof (cases r1)
    case (Inl e)
    with run retry f1' show ?thesis by (auto simp: bindE_def)
  next
    case (Inr u)
    obtain r2 s2 where rd: "read_ssl env api ssl cfg sec s1 = (r2, s2)" by (cases "read_ssl env api ssl cfg sec s1")
    have f2: "ledger s2 = ledger s1" by (rule calmD[OF calm_read_ssl rd])
    show ?thesis
    proof (cases r2)
      case (Inl e)
      with run retry Inr rd f1' f2 show ?thesis by (auto simp: bindE_def)
    next
      case (Inr i)
      from read_ssl_Inr rd Inr obtain certs tasks now where i: "i = sslInputsFor ssl (cr s2) cfg certs tasks sec now" by blast
      obtain r3 s3 where md: "modify_cr (mirrorSSL i (computeSSL i)) s2 = (r3, s3)" by (cases "modify_cr (mirrorSSL i (computeSSL i)) s2")
      from run retry \<open>r1 = Inr u\<close> rd Inr md have s': "s' = s3" by (auto simp: bindE_def run_equations)
      have p: "cdp_SSL (le_params (ledger s)) = Some ssl" using Some by (simp add: ledger_def ledger_of_def Let_def)
      from mirror_ledger[OF i md] f1 f2 have "renewed (ledger s) (ledger s3)" by (auto simp: renewed_def)
      moreover from this p have "cdp_SSL (le_params (ledger s3)) = Some ssl" by (simp add: renewed_def)
      ultimately show ?thesis using mirror_ledger[OF i md] by (simp add: s')
    qed
  qed
qed

lemma secrets_custom_only:
  assumes "cdn_secrets env s = (Inr sec, s')" "cdp_SSL (cx_Params (for_provider (cr s))) = Some ssl" "ssl_Mode ssl \<noteq> ''custom''"
  shows "rs_certIdentity sec = None"
proof -
  from assms(1) have "resolveSpecSecrets env (world s) (for_provider (cr s)) = Inr sec"
    by (auto simp: cdn_secrets_def bindE_reading run_equations split: sum.splits)
  moreover from assms(2,3) have "cert_secrets env (world s) (for_provider (cr s)) = Inr ([], [], None)"
    by (simp add: cert_secrets_def split: option.split)
  ultimately show ?thesis by (auto simp: resolveSpecSecrets_def split: sum.splits)
qed

lemma refreshing_Observe: "refreshing (cdn_Observe env api)"
proof -
  have "refreshing (observeSSL env api cfg sec)" for cfg sec unfolding refreshing_def using observeSSL_ledger by blast
  then have "refreshing (cdn_observe_rest env api res cfg)" for res cfg
    unfolding cdn_observe_rest_def
    by (intro refreshing_after calm_populate calm_handlePurge refreshing_cases refreshing_before[where m = "observeSSL _ _ _ _"]
        calm_rules calm_buildDesiredWrite calm_secrets refreshing_calm[OF calm_simple(1)]) simp_all
  then show ?thesis
    unfolding cdn_Observe_def
    by (intro refreshing_after calm_attempt calm_reads calm_simple refreshing_cases refreshing_on_not_found refreshing_calm[OF calm_simple(1)])
qed

lemma observe_rest_keyed:
  assumes "cdn_observe_rest env api res cfg s = (Inr ob, s')" "\<not> ResourceUpToDate ob"
  shows "keyed (ledger s')"
proof -
  let ?k = "\<lambda>sec. bindE (observeSSL env api cfg sec) (\<lambda>sslDirty. bindE (buildDesiredWrite env res cfg sec) (\<lambda>(w, dirty).
       returnOk \<lparr>ResourceExists = True, ResourceUpToDate = (\<not> dirty \<and> \<not> sslDirty), ConnectionDetails = cdn_connectionDetails res\<rparr>))"
  from assms obtain s1 sec s2 where sec: "cdn_secrets env s1 = (Inr sec, s2)" "?k sec s2 = (Inr ob, s')"
    by (auto simp: cdn_observe_rest_def bindE_Inr run_equations split: if_splits)
  from sec(2) obtain d s3 where ob: "observeSSL env api cfg sec s2 = (Inr d, s3)" "ledger s' = ledger s3"
    by (auto simp: bindE_Inr run_equations dest: calmD[OF calm_buildDesiredWrite])
  have "le_params (ledger s') = cx_Params (for_provider (cr s1))"
    using observeSSL_ledger[OF ob(1)] ob(2) calmD[OF calm_secrets sec(1)] by (simp add: renewed_def ledger_def ledger_of_def Let_def)
  with observeSSL_ledger[OF ob(1)] ob(2) secrets_custom_only[OF sec(1)] show ?thesis by (auto simp: keyed_def)
qed

lemma observe_keyed:
  assumes "cdn_Observe env api s = (Inr ob, s')" "ResourceExists ob" "\<not> ResourceUpToDate ob"
  shows "keyed (ledger s')"
proof (cases "DecodeID (external_name (cr s))")
  case None
  with assms(1,2) show ?thesis by (auto simp: cdn_Observe_def run_equations)
next
  case (Some n)
  with assms(1) obtain r s1 where "on_not_found (returnOk absent) (\<lambda>res. bindE (getConfiguration api (external_name (cr s)))
      (cdn_observe_rest env api res)) r s1 = (Inr ob, s')"
    by (auto simp: cdn_Observe_def bindE_Inr run_equations)
  with assms(2) obtain res where "bindE (getConfiguration api (external_name (cr s))) (cdn_observe_rest env api res) s1 = (Inr ob, s')"
    by (cases r) (auto simp: on_not_found_def run_equations split: if_splits)
  then show ?thesis using assms(3) by (auto simp: bindE_Inr intro: observe_rest_keyed)
qed

section \<open>What Update does to it\<close>

text \<open>One request for a certificate: allowed by the budget and the spacing, and booked with its time; it is charged, or not when
the answer tells that a task is already there.\<close>

definition booked :: "ledger \<Rightarrow> ledger \<Rightarrow> bool" where
  "booked a b \<longleftrightarrow> le_issues b = le_issues a + 1 \<and> le_params b = le_params a \<and> le_attempts a < maxIssueAttempts \<and>
     (le_attempts b = le_attempts a \<or> le_attempts b = le_attempts a + 1) \<and>
     (\<exists>t. le_last b = Some t \<and> (\<forall>l. 0 < le_attempts a \<longrightarrow> le_last a = Some l \<longrightarrow> issueSpacing \<le> t - l))"

lemma computeSSL_issue:
  assumes "so_action (computeSSL i) = SslIssue"
  shows "si_mode i = ''letsEncrypt''" "si_domainsAttached i" "\<forall>c \<in> set (si_certificates i). ce_Type c \<noteq> ''lets_encrypt''"
    "budget_attempts i < maxIssueAttempts" "0 < budget_attempts i \<Longrightarrow> si_lastAttempt i = Some l \<Longrightarrow> issueSpacing \<le> si_now i - l"
proof -
  have c: "so_action (ssl_custom i) \<noteq> SslIssue"
  proof (cases "si_desired i")
    case None
    then show ?thesis by (simp add: ssl_custom_def)
  next
    case (Some d)
    then show ?thesis by (cases rule: ssl_custom_cases) simp_all
  qed
  have s: "ssl_clear_slot i = Some out \<Longrightarrow> so_action out \<noteq> SslIssue" for out
    by (auto simp: ssl_clear_slot_def split: option.splits if_splits)
  have n: "so_action (ssl_none i) \<noteq> SslIssue" by (simp add: ssl_none_def split: option.split)
  from assms c n have m: "si_mode i = ''letsEncrypt''" "so_action (ssl_lets_encrypt i) = SslIssue"
    by (auto simp: computeSSL_def split: if_splits)
  from m(2) s have e: "find (\<lambda>c. ce_Type c = ''lets_encrypt'') (si_certificates i) = None" "so_action (ssl_issue i) = SslIssue"
    by (auto simp: ssl_lets_encrypt_def split: option.splits if_splits)
  show "si_mode i = ''letsEncrypt''" by (rule m)
  show "\<forall>c \<in> set (si_certificates i). ce_Type c \<noteq> ''lets_encrypt''" using e(1) by (simp add: find_None_iff)
  show "si_domainsAttached i" "budget_attempts i < maxIssueAttempts"
    "0 < budget_attempts i \<Longrightarrow> si_lastAttempt i = Some l \<Longrightarrow> issueSpacing \<le> si_now i - l"
    using e(2) by (auto simp: ssl_issue_def split: if_splits)
qed

lemma read_ssl_now:
  assumes "read_ssl env api ssl cfg sec s = (Inr i, s')"
  shows "si_now i = en_now env (world s')"
  using assms by (auto simp: read_ssl_def bindE_Inr bindE_reading run_equations reading_def sslInputsFor_def Let_def)

lemma issue_ledger:
  assumes "issue_certificate env api n s = (r, s')"
  shows "le_issues (ledger s') = le_issues (ledger s) + 1 \<and> le_params (ledger s') = le_params (ledger s) \<and>
    (le_attempts (ledger s') = le_attempts (ledger s) \<or> le_attempts (ledger s') = le_attempts (ledger s) + 1) \<and>
    le_last (ledger s') = Some (en_now env (world s))"
proof -
  let ?prev = "le_attempts (ledger s)"
  let ?b = "\<lambda>st. st\<lparr>st_IssueAttempts := Some (?prev + 1), st_LastIssueAttemptAt := Some (en_now env (world s))\<rparr>"
  let ?s = "s\<lparr>cr := update_ssl ?b (cr s)\<rparr>"
  obtain r1 s1 where w: "write_call api (IssueCertificate n) ?s = (r1, s1)" by (cases "write_call api (IssueCertificate n) ?s")
  then have s1: "cr s1 = cr ?s" "reqs s1 = reqs s @ [IssueCertificate n]"
    by (auto simp: write_call_def bindE_def call_classify_run run_equations split: sum.splits)
  have "i64Deref (st_IssueAttempts (the_ssl (at_provider (cr s)))) = ?prev" by (simp add: ledger_def ledger_of_def Let_def)
  with w have run: "issue_certificate env api n s = (case r1 of Inr _ \<Rightarrow> (Inr (), s1) | Inl err \<Rightarrow> issue_failed ?prev err s1)"
    by (cases r1) (simp_all add: issue_certificate_def bindE_reading bindE_gets bindE_modify_cr bindE_step(2)[where m = "write_call api _", OF w] returnOk_def)
  show ?thesis
  proof (cases r1)
    case (Inr u)
    with run assms have "s' = s1" by simp
    then show ?thesis by (simp add: s1 ledger_def ledger_of_def update_ssl_def the_ssl_def Let_def)
  next
    case (Inl err)
    with run assms have "issue_failed ?prev err s1 = (r, s')" by simp
    then have "cr s' = cr s1 \<or> cr s' = update_ssl (\<lambda>st. st\<lparr>st_IssueAttempts := Some ?prev\<rparr>) (cr s1)" "reqs s' = reqs s1"
      by (auto simp: issue_failed_def act_defs split: if_splits)
    then show ?thesis by (auto simp: s1 ledger_def ledger_of_def update_ssl_def the_ssl_def Let_def)
  qed
qed

lemma calm_execute: "action \<noteq> SslIssue \<Longrightarrow> calm (executeSSLAction env api action sec n)"
  by (cases action) (simp_all add: executeSSLAction_def calm_slot_actions calm_write calm_simple)

lemma slot_ledger:
  assumes run: "update_ssl_slot env api cfg sec s = (r, s')" and k: "keyed (ledger s)"
    and sec: "\<And>ssl. cdp_SSL (le_params (ledger s)) = Some ssl \<Longrightarrow> ssl_Mode ssl \<noteq> ''custom'' \<Longrightarrow> rs_certIdentity sec = None"
  shows "ledger s' = ledger s \<or> booked (ledger s) (ledger s')"
proof (cases "cdp_SSL (cx_Params (for_provider (cr s)))")
  case None
  with run show ?thesis by (simp add: update_ssl_slot_def run_equations)
next
  case (Some ssl)
  let ?n = "case DecodeID (external_name (cr s)) of Some n \<Rightarrow> n | None \<Rightarrow> 0"
  obtain r1 s1 where rd: "read_ssl env api ssl cfg sec s = (r1, s1)" by (cases "read_ssl env api ssl cfg sec s")
  have c: "ledger s1 = ledger s" by (rule calmD[OF calm_read_ssl rd])
  show ?thesis
  proof (cases r1)
    case (Inl e)
    with run rd Some c show ?thesis by (auto simp: update_ssl_slot_def run_equations bindE_def)
  next
    case (Inr i)
    with run rd Some have x: "(if so_action (computeSSL i) = SslNone then returnOk () else
        executeSSLAction env api (so_action (computeSSL i)) sec ?n) s1 = (r, s')"
      by (simp add: update_ssl_slot_def run_equations bindE_def Let_def)
    show ?thesis
    proof (cases "so_action (computeSSL i) = SslIssue")
      case False
      then have "calm (if so_action (computeSSL i) = SslNone then returnOk () else executeSSLAction env api (so_action (computeSSL i)) sec ?n)"
        by (intro calm_cases(1) calm_simple calm_execute)
      with x c show ?thesis by (auto dest: calmD)
    next
      case True
      from read_ssl_Inr rd Inr obtain certs tasks now where i: "i = sslInputsFor ssl (cr s1) cfg certs tasks sec now" by blast
      have now: "si_now i = en_now env (world s1)" by (rule read_ssl_now) (use rd Inr in simp)
      have le: "ssl_Mode ssl = ''letsEncrypt''" using computeSSL_issue(1)[OF True] by (simp add: i sslInputsFor_def Let_def)
      have p: "cdp_SSL (le_params (ledger s)) = Some ssl" using Some by (simp add: ledger_def ledger_of_def Let_def)
      have "si_budgetKey i = si_prevBudgetKey i"
        using k p le sec[OF p] c unfolding keyed_def
        by (simp add: i sslInputsFor_def Let_def ledger_def ledger_of_def)
      then have b: "budget_attempts i = le_attempts (ledger s1)" "si_lastAttempt i = le_last (ledger s1)"
        by (simp_all add: budget_attempts_def i sslInputsFor_def Let_def ledger_def ledger_of_def)
      from x True have "issue_certificate env api ?n s1 = (r, s')" by (simp add: executeSSLAction_def)
      from issue_ledger[OF this] computeSSL_issue(4,5)[OF True] show ?thesis
        by (simp add: booked_def c[symmetric] b now)
    qed
  qed
qed

lemma update_ledger:
  assumes run: "cdn_Update env api s = (r, s')" and k: "keyed (ledger s)"
  shows "ledger s' = ledger s \<or> booked (ledger s) (ledger s')"
proof -
  let ?rid = "external_name (cr s)"
  let ?k = "\<lambda>res cfg sec. bindE (buildDesiredWrite env res cfg sec) (\<lambda>(w, dirty).
       if dirty then patch_settings api ?rid w else update_ssl_slot env api cfg sec)"
  have last: "ledger s2 = ledger s \<Longrightarrow> ?k res cfg sec s2 = (r, s') \<Longrightarrow>
      (\<And>ssl. cdp_SSL (le_params (ledger s2)) = Some ssl \<Longrightarrow> ssl_Mode ssl \<noteq> ''custom'' \<Longrightarrow> rs_certIdentity sec = None) \<Longrightarrow>
      ledger s' = ledger s \<or> booked (ledger s) (ledger s')" for res cfg sec s2
  proof -
    assume c: "ledger s2 = ledger s" and run: "?k res cfg sec s2 = (r, s')"
      and sec: "\<And>ssl. cdp_SSL (le_params (ledger s2)) = Some ssl \<Longrightarrow> ssl_Mode ssl \<noteq> ''custom'' \<Longrightarrow> rs_certIdentity sec = None"
    obtain r3 s3 where bd: "buildDesiredWrite env res cfg sec s2 = (r3, s3)" by (cases "buildDesiredWrite env res cfg sec s2")
    have c3: "ledger s3 = ledger s" using calmD[OF calm_buildDesiredWrite bd] c by simp
    show ?thesis
    proof (cases r3)
      case (Inl e)
      with run bd c3 show ?thesis by (auto simp: bindE_def)
    next
      case (Inr wd)
      obtain w d where "wd = (w, d)" by (cases wd)
      with run bd Inr have x: "(if d then patch_settings api ?rid w else update_ssl_slot env api cfg sec) s3 = (r, s')"
        by (simp add: bindE_def)
      show ?thesis
      proof (cases d)
        case True
        with x have "patch_settings api ?rid w s3 = (r, s')" by simp
        from calmD[OF calm_reads(5) this] c3 show ?thesis by simp
      next
        case False
        with x slot_ledger[of env api cfg sec s3 r s'] k sec c c3 show ?thesis by simp
      qed
    qed
  qed
  obtain r1 s1 where g: "getResource api ?rid s = (r1, s1)" by (cases "getResource api ?rid s")
  have c1: "ledger s1 = ledger s" by (rule calmD[OF calm_reads(3) g])
  show ?thesis
  proof (cases r1)
    case (Inl e)
    with run g c1 show ?thesis by (auto simp: cdn_Update_def bindE_gets bindE_def)
  next
    case (Inr res)
    obtain r2 s2 where h: "getConfiguration api ?rid s1 = (r2, s2)" by (cases "getConfiguration api ?rid s1")
    have c2: "ledger s2 = ledger s" using calmD[OF calm_reads(4) h] c1 by simp
    obtain r3 s3 where sx: "cdn_secrets env s2 = (r3, s3)" by (cases "cdn_secrets env s2")
    have c3: "ledger s3 = ledger s" using calmD[OF calm_secrets sx] c2 by simp
    from run g Inr have u: "(if isSuspendedState (hr_Status res) then returnOk () else
        bindE (getConfiguration api ?rid) (\<lambda>cfg. bindE (cdn_secrets env) (?k res cfg))) s1 = (r, s')"
      by (simp add: cdn_Update_def bindE_gets bindE_step(1)[where m = "getResource api ?rid" and s = s])
    show ?thesis
    proof (cases "isSuspendedState (hr_Status res) \<or> isl r2 \<or> isl r3")
      case True
      with u h sx c1 c2 c3 show ?thesis by (cases r2; cases r3) (auto simp: returnOk_def bindE_def split: if_splits)
    next
      case False
      then obtain cfg sec where rs: "r2 = Inr cfg" "r3 = Inr sec" by (cases r2; cases r3) auto
      with u h sx False have "?k res cfg sec s3 = (r, s')"
        by (simp add: bindE_step(1)[where m = "getConfiguration api ?rid" and s = s1] bindE_step(1)[where m = "cdn_secrets env" and s = s2])
      moreover have "rs_certIdentity sec = None" if "cdp_SSL (le_params (ledger s3)) = Some ssl" "ssl_Mode ssl \<noteq> ''custom''" for ssl
        using secrets_custom_only[of env s2 sec s3 ssl] sx rs that c2 c3 by (simp add: ledger_def ledger_of_def Let_def)
      ultimately show ?thesis using last[OF c3] by simp
    qed
  qed
qed

section \<open>A run of reconciles\<close>

text \<open>One reconcile: \<^verbatim>\<open>Observe\<close>, and \<^verbatim>\<open>Update\<close> when the resource is there and not up to date. The states after both.\<close>

definition update_due :: "go_error + observation \<Rightarrow> bool" where
  "update_due r = (case r of Inl e \<Rightarrow> False | Inr ob \<Rightarrow> ResourceExists ob \<and> \<not> ResourceUpToDate ob)"

definition cdn_pass :: "'w cdn_env \<Rightarrow> 'w cdn_api \<Rightarrow> ('w, cdn_req, cdn_object, cdn_observation) rstate \<Rightarrow>
    ('w, cdn_req, cdn_object, cdn_observation) rstate \<times> ('w, cdn_req, cdn_object, cdn_observation) rstate" where
  "cdn_pass env api s = (case cdn_Observe env api s of (r, s1) \<Rightarrow> (s1, if update_due r then snd (cdn_Update env api s1) else s1))"

text \<open>A window of the budget ends with a new key or the annotation; the times charged in it.\<close>

definition window_ends :: "('w, cdn_req, cdn_object, cdn_observation) rstate \<Rightarrow> ('w, cdn_req, cdn_object, cdn_observation) rstate \<Rightarrow> bool" where
  "window_ends s s1 \<longleftrightarrow> le_retry (ledger s) \<or> le_key (ledger s1) \<noteq> le_key (ledger s)"

definition charges :: "('w, cdn_req, cdn_object, cdn_observation) rstate \<Rightarrow> ('w, cdn_req, cdn_object, cdn_observation) rstate \<Rightarrow> int list" where
  "charges s1 s2 = (if le_attempts (ledger s1) < le_attempts (ledger s2) then [the (le_last (ledger s2))] else [])"

text \<open>
  The charged requests of the current window, over reconciles from any state of the world, with any answers, and with changes of
  the object's specification between them.
\<close>

inductive charged_run :: "'w cdn_env \<Rightarrow> 'w cdn_api \<Rightarrow> cdn_mr \<Rightarrow> int list \<Rightarrow> bool" for env api where
  start: "0 \<le> le_attempts (ledger_of m []) \<Longrightarrow> charged_run env api m []"
| edit: "charged_run env api m ts \<Longrightarrow> at_provider m' = at_provider m \<Longrightarrow> charged_run env api m' ts"
| pass: "charged_run env api (cr s) ts \<Longrightarrow> cdn_pass env api s = (s1, s2) \<Longrightarrow>
    charged_run env api (cr s2) ((if window_ends s s1 then [] else ts) @ charges s1 s2)"

text \<open>The log fits the ledger.\<close>

definition log_ok :: "ledger \<Rightarrow> int list \<Rightarrow> bool" where
  "log_ok a ts \<longleftrightarrow> int (length ts) \<le> le_attempts a \<and> int (length ts) \<le> maxIssueAttempts \<and>
     successively (\<lambda>t u. issueSpacing \<le> u - t) ts \<and> (ts \<noteq> [] \<longrightarrow> (\<exists>l. le_last a = Some l \<and> last ts \<le> l))"

lemma log_ok_Nil: "log_ok a [] \<longleftrightarrow> 0 \<le> le_attempts a"
  by (simp add: log_ok_def maxIssueAttempts_def)

lemma log_ok_renewed:
  assumes "log_ok (ledger s) ts" "renewed (ledger s) (ledger s1)"
  shows "log_ok (ledger s1) (if window_ends s s1 then [] else ts)"
proof (cases "window_ends s s1")
  case True
  with assms show ?thesis by (auto simp: log_ok_Nil renewed_def) (auto simp: log_ok_def)
next
  case False
  with assms show ?thesis by (auto simp: log_ok_def renewed_def window_ends_def)
qed

lemma log_ok_booked:
  assumes "log_ok (ledger s1) ts" "booked (ledger s1) (ledger s2)"
  shows "log_ok (ledger s2) (ts @ charges s1 s2)"
proof -
  from assms(2) obtain t where t: "le_last (ledger s2) = Some t" "le_attempts (ledger s1) < maxIssueAttempts"
      "le_attempts (ledger s2) = le_attempts (ledger s1) \<or> le_attempts (ledger s2) = le_attempts (ledger s1) + 1"
      "\<And>l. 0 < le_attempts (ledger s1) \<Longrightarrow> le_last (ledger s1) = Some l \<Longrightarrow> issueSpacing \<le> t - l" by (auto simp: booked_def)
  have late: "issueSpacing \<le> t - last ts" if "ts \<noteq> []"
  proof -
    from assms(1) that obtain l where "le_last (ledger s1) = Some l" "last ts \<le> l" "0 < le_attempts (ledger s1)"
      by (auto simp: log_ok_def) (metis (no_types) length_greater_0_conv of_nat_0_less_iff order_less_le_trans)
    with t(4)[of l] show ?thesis by simp
  qed
  then have "last ts \<le> t" if "ts \<noteq> []" using that by (simp add: issueSpacing_def)
  with assms(1) t late show ?thesis
    by (auto simp: log_ok_def charges_def successively_append_iff)
qed

text \<open>
  C26. Let's Encrypt is asked within its rate limit. Over any run of reconciles, with whatever answers of the API and whatever
  edits of the specification, at most four requests are charged to one window of the budget, and two of a window are at
  least fifteen minutes apart; a window ends only with a change of the budget key or the retry annotation.
\<close>

theorem issue_budget:
  assumes "charged_run env api m ts"
  shows "length ts \<le> 4 \<and> successively (\<lambda>t u. 15 * 60 * 1000000000 \<le> u - t) ts"
proof -
  from assms have "\<forall>qs. log_ok (ledger_of m qs) ts"
  proof (induction rule: charged_run.induct)
    case (start m)
    then show ?case by (simp add: log_ok_Nil ledger_of_def Let_def)
  next
    case (edit m ts m')
    then show ?case by (simp add: log_ok_def ledger_of_def Let_def)
  next
    case (pass s ts s1 s2)
    obtain r s1' where ob: "cdn_Observe env api s = (r, s1')" by (cases "cdn_Observe env api s")
    with pass.hyps(2) have s: "s1' = s1" "s2 = (if update_due r then snd (cdn_Update env api s1) else s1)" by (auto simp: cdn_pass_def)
    from pass.IH have "log_ok (ledger s) ts" by (simp add: ledger_def)
    from log_ok_renewed[OF this] refreshing_Observe[unfolded refreshing_def, rule_format, OF ob] s(1)
    have 1: "log_ok (ledger s1) (if window_ends s s1 then [] else ts)" by simp
    have "ledger s2 = ledger s1 \<or> booked (ledger s1) (ledger s2)"
    proof (cases "update_due r")
      case True
      then obtain o' where "r = Inr o'" "ResourceExists o'" "\<not> ResourceUpToDate o'" by (auto simp: update_due_def split: sum.splits)
      with observe_keyed[of env api s o' s1] ob s(1) have k: "keyed (ledger s1)" by simp
      obtain r2 where "cdn_Update env api s1 = (r2, s2)" using s(2) True by (cases "cdn_Update env api s1") simp
      from update_ledger[OF this k] show ?thesis .
    qed (simp add: s)
    then have "log_ok (ledger s2) ((if window_ends s s1 then [] else ts) @ charges s1 s2)"
    proof
      assume "ledger s2 = ledger s1"
      with 1 show ?thesis by (simp add: charges_def)
    qed (rule log_ok_booked[OF 1])
    then show ?case by (simp add: log_ok_def ledger_def ledger_of_def Let_def)
  qed
  then show ?thesis by (simp add: log_ok_def maxIssueAttempts_def issueSpacing_def)
qed

text \<open>A resource that serves a custom origin and waits for its certificate.\<close>

definition wit_origin :: cdn_origin where
  "wit_origin = \<lparr>og_BucketRef = None, og_Domain = Some ''o.example'', og_IP = None, og_HTTPS = None, og_Port = None, og_AWSAuthSecretRef = None\<rparr>"

definition wit_params :: "cdn_ssl option \<Rightarrow> cdn_parameters" where
  "wit_params ssl = \<lparr>cdp_Name = None, cdp_Description = None, cdp_ProjectID = None, cdp_Origin = wit_origin, cdp_Cache = None, cdp_Security = None,
     cdp_Performance = None, cdp_Cors = None, cdp_Domains = None, cdp_SSL = ssl, cdp_TrafficLimitGBPerMonth = None, cdp_RequestHeaders = None\<rparr>"

definition wit_status :: cdn_observation where
  "wit_status = \<lparr>cdo_ID = None, cdo_TechnicalDomain = None, cdo_State = None, cdo_Source = None, cdo_LockedPresetID = None, cdo_LastPurgedAt = None,
     cdo_Domains = [], cdo_ObservedSettings = None, cdo_TrafficUsage = None, cdo_Certificate = None, cdo_ManagedCertificate = None, cdo_SSL = None,
     cdo_TrafficLimitBytes = None\<rparr>"

definition wit_cdn_mr :: "cdn_ssl option \<Rightarrow> cdn_mr" where
  "wit_cdn_mr ssl = \<lparr>external_name = ''5'', create_incomplete = False, create_failed = [],
     for_provider = \<lparr>cx_Name = ''c'', cx_Namespace = ''ns'', cx_Deleting = False, cx_Annotations = (\<lambda>_. None), cx_Params = wit_params ssl\<rparr>,
     at_provider = wit_status, conditions = (\<lambda>_. None)\<rparr>"

definition wit_resource :: cdn_resource where
  "wit_resource = \<lparr>hr_ID = 5, hr_Name = ''c'', hr_Description = [], hr_Status = ''active'', hr_Source = ''o.example'', hr_CDNDomain = [], hr_PresetID = 3807,
     hr_ProjectID = 1, hr_StorageID = None, hr_TrafficLimitBytes = None, hr_TrafficUsage = None\<rparr>"

definition wit_config :: cdn_config where
  "wit_config = \<lparr>cf_Cache = None, cf_Delivery = None, cf_HTTPHeaders = None, cf_Robots = None, cf_Security = None, cf_Domains = None,
     cf_Origin = Some \<lparr>or_Servers = [(''o.example'', 443)], or_UseHTTPS = Some True, or_AWS = None\<rparr>\<rparr>"

definition wit_env :: "unit cdn_env" where
  "wit_env = \<lparr>en_secret = (\<lambda>_ _ _. KNotFound), en_bucket = (\<lambda>_ _ _. KNotFound), en_unannotate = (\<lambda>_ _. (True, ())),
     en_now = (\<lambda>_. 7), en_x509 = (\<lambda>_. None)\<rparr>"

definition wit_cdn_api :: "unit cdn_api" where
  "wit_cdn_api w q = (case q of GetCdn _ \<Rightarrow> (Resp (ok_response (PCdn wit_resource)), ())
     | GetCdnConfiguration _ \<Rightarrow> (Resp (ok_response (PCdnConfig wit_config)), ())
     | ListCertificates _ \<Rightarrow> (Resp (ok_response (PCertificates [])), ())
     | ListCertificateTasks _ \<Rightarrow> (Resp (ok_response (PTasks [])), ())
     | _ \<Rightarrow> (Resp (ok_response PCdnOther), ()))"

definition wit_cdn_state :: "cdn_ssl option \<Rightarrow> (unit, cdn_req, cdn_object, cdn_observation) rstate" where
  "wit_cdn_state ssl = wit_state () (wit_cdn_mr ssl)"

abbreviation wit_le :: cdn_ssl where
  "wit_le \<equiv> \<lparr>ssl_Mode = ''letsEncrypt'', ssl_CertificateSecretRef = None\<rparr>"

definition wit_secrets :: resolved_secrets where
  "wit_secrets = \<lparr>rs_secureTokenKey = [], rs_awsAccessKey = [], rs_awsSecretKey = [], rs_certPEM = [], rs_keyPEM = [], rs_certIdentity = None\<rparr>"

lemma wit_reads: "reads_as wit_cdn_api rid ''letsEncrypt'' w wit_resource wit_config [] []"
  unfolding reads_as_def cert_list_req_def by (intro conjI answers_ok) (simp_all add: wit_cdn_api_def)

lemma wit_issues:
  assumes "cdo_ManagedCertificate (at_provider m) = None" "st_IssueAttempts (the_ssl (at_provider m)) = None \<or> st_IssueAttempts (the_ssl (at_provider m)) = Some 0"
    "cdp_Domains (cx_Params (for_provider m)) = None"
  shows "so_action (computeSSL (sslInputsFor wit_le m wit_config [] [] wit_secrets 7)) = SslIssue"
    "so_attempts (computeSSL (sslInputsFor wit_le m wit_config [] [] wit_secrets 7)) = 0"
    "so_managed (computeSSL (sslInputsFor wit_le m wit_config [] [] wit_secrets 7)) = None"
  using assms by (auto simp: computeSSL_def sslInputsFor_def Let_def ssl_lets_encrypt_def ssl_clear_slot_def ssl_issue_def latestTask_def
      budget_attempts_def maxIssueAttempts_def domainsAttached_def declared_domains_def wit_config_def)

theorem issue_budget_witness:
  "\<exists>m. charged_run wit_env wit_cdn_api m [7] \<and> length [7 :: int] \<le> 4 \<and> successively (\<lambda>t u. 15 * 60 * 1000000000 \<le> u - t) [7 :: int]"
proof -
  let ?s = "wit_cdn_state (Some wit_le)" and ?x = "for_provider (wit_cdn_mr (Some wit_le))"
  have simps: "world ?s = ()" "cr ?s = wit_cdn_mr (Some wit_le)" "external_name (wit_cdn_mr (Some wit_le)) = ''5''"
      "at_provider (wit_cdn_mr (Some wit_le)) = wit_status"
    by (simp_all add: wit_cdn_state_def wit_state_def wit_cdn_mr_def)
  have n: "DecodeID ''5'' = Some 5" and run: "\<not> isSuspendedState (hr_Status wit_resource)" by code_simp+
  have ssl: "cdp_SSL (cx_Params ?x) = Some wit_le" and q: "quiet ?x" and dm: "cdp_Domains (cx_Params ?x) = None"
    by (simp_all add: wit_cdn_mr_def wit_params_def quiet_def)
  have sec: "resolveSpecSecrets wit_env () ?x = Inr wit_secrets"
    by (simp add: resolveSpecSecrets_def token_secret_def aws_secrets_def cert_secrets_def wit_cdn_mr_def wit_params_def wit_origin_def wit_secrets_def)
  have clean: "\<not> write_dirty (wanted wit_env () ?x wit_resource wit_config wit_secrets)" by code_simp
  have now: "en_now wit_env () = 7" by (simp add: wit_env_def)
  let ?i = "sslInputsFor wit_le (cr ?s) wit_config [] [] wit_secrets (en_now wit_env (world ?s))"
  have act: "so_action (computeSSL ?i) = SslIssue" "so_attempts (computeSSL ?i) = 0" "so_managed (computeSSL ?i) = None"
    unfolding simps now by (intro wit_issues; simp add: simps wit_status_def the_ssl_def dm)+
  have "reads_as wit_cdn_api (external_name (cr ?s)) (ssl_Mode wit_le) (world ?s) wit_resource wit_config [] []" by (simp add: wit_reads)
  from cdn_Observe_runs[OF _ _ this _ run _ refl, of 5 wit_env wit_secrets] obtain ob s1 where
    ob: "cdn_Observe wit_env wit_cdn_api ?s = (Inr ob, s1)" "ResourceExists ob" "\<not> ResourceUpToDate ob"
      "world s1 = ()" "external_name (cr s1) = ''5''" "for_provider (cr s1) = ?x"
      "at_provider (cr s1) = mirror_status ?i (computeSSL ?i) (cdn_status wit_resource wit_config wit_status)"
    using n ssl q sec act(1) by (auto simp: simps)
  let ?i1 = "sslInputsFor wit_le (cr s1) wit_config [] [] wit_secrets (en_now wit_env (world s1))"
  have a1: "so_action (computeSSL ?i1) = SslIssue"
    unfolding ob now using act by (intro wit_issues(1)) (simp_all add: ob dm mirror_status_def the_ssl_def)
  have "reads_as wit_cdn_api (external_name (cr s1)) (ssl_Mode wit_le) (world s1) wit_resource wit_config [] []" by (simp add: wit_reads)
  from cdn_Update_runs[OF _ _ this run _ refl, of 5 wit_env wit_secrets] obtain s' where
    u: "alike s1 s'" "cdn_Update wit_env wit_cdn_api s1 = issue_certificate wit_env wit_cdn_api 5 s'"
    using n ssl sec a1 clean by (auto simp: ob executeSSLAction_def)
  have ans: "answers wit_cdn_api (world t) (IssueCertificate 5) PCdnOther ()" for t :: "(unit, cdn_req, cdn_object, cdn_observation) rstate"
    by (intro answers_ok) (simp add: wit_cdn_api_def)
  have at0: "le_attempts (ledger s1) = 0" "le_attempts (ledger s') = 0"
    using u(1) act(2) by (simp_all add: ledger_def ledger_of_def Let_def alike_def ob mirror_status_def the_ssl_def)
  obtain s2 where s2: "cdn_Update wit_env wit_cdn_api s1 = (Inr (), s2)" "le_attempts (ledger s2) = 1" "le_last (ledger s2) = Some 7"
    using at0(2) ob(4) u(1) now by (simp add: u(2) issue_certificate_def bindE_reading run_equations alike_def
        bindE_step(2)[where m = "write_call _ _", OF write_call_run[OF ans]] ledger_def ledger_of_def update_ssl_def the_ssl_def Let_def)
  have "cdn_pass wit_env wit_cdn_api ?s = (s1, s2)" using ob s2 by (simp add: cdn_pass_def update_due_def)
  moreover have "charged_run wit_env wit_cdn_api (cr ?s) []"
    by (rule charged_run.start) (simp add: ledger_of_def Let_def simps wit_status_def the_ssl_def)
  ultimately have "charged_run wit_env wit_cdn_api (cr s2) [7]"
    using charged_run.pass[of wit_env wit_cdn_api ?s "[]" s1 s2] at0(1) s2 by (simp add: charges_def if_cancel)
  with issue_budget[OF this] show ?thesis by blast
qed

end
