(* ===== verification/CdnConverge.thy ===== *)
theory CdnConverge
  imports CdnSettle CdnBudget
begin

text \<open>
  Convergence of a Cdn with a certificate of its own over a service that does what it is asked: the settings first, then the
  certificate is uploaded, bound, and freed of its copies and of the one it replaces.
\<close>

section \<open>A service\<close>

definition bound_cert :: "cdn_config \<Rightarrow> int option" where
  "bound_cert c = Option.bind (cf_Security c) yc_CertificateID"

text \<open>
  \<open>view w\<close> is the resource, its configuration and the certificates of the account. Reading changes nothing, a PATCH is applied
  as documented, an upload adds a certificate with the identity of the uploaded one, a certificate that is not bound can be deleted.
\<close>

definition cdn_service :: "'w cdn_api \<Rightarrow> string \<Rightarrow> bool \<Rightarrow> resolved_secrets \<Rightarrow> cert_identity \<Rightarrow>
    ('w \<Rightarrow> cdn_resource \<times> cdn_config \<times> cdn_certificate list) \<Rightarrow> bool" where
  "cdn_service api rid echo sec desired view \<longleftrightarrow> (\<forall>w r c cs. view w = (r, c, cs) \<longrightarrow>
     (\<exists>tasks. reads_as api rid ''custom'' w r c cs tasks) \<and>
     (\<forall>p. \<exists>q w'. answers api w (PatchCdn rid p) q w' \<and> view w' = (apply_resource p r, apply_settings echo p c, cs)) \<and>
     (\<exists>q w' d. answers api w (UploadCertificate (rs_certPEM sec) (rs_keyPEM sec)) q w' \<and> identityOf d = desired \<and> view w' = (r, c, cs @ [d])) \<and>
     (\<forall>n. bound_cert c \<noteq> Some n \<longrightarrow> (\<exists>q w'. answers api w (DeleteCertificate (Itoa n)) q w' \<and>
        view w' = (r, c, filter (\<lambda>d. ce_ID d \<noteq> n) cs))))"

lemma cdn_serviceD:
  assumes "cdn_service api rid echo sec desired view" "view w = (r, c, cs)"
  shows "\<exists>tasks. reads_as api rid ''custom'' w r c cs tasks"
    "\<exists>q w'. answers api w (PatchCdn rid p) q w' \<and> view w' = (apply_resource p r, apply_settings echo p c, cs)"
    "\<exists>q w' d. answers api w (UploadCertificate (rs_certPEM sec) (rs_keyPEM sec)) q w' \<and> identityOf d = desired \<and> view w' = (r, c, cs @ [d])"
    "bound_cert c \<noteq> Some n \<Longrightarrow> \<exists>q w'. answers api w (DeleteCertificate (Itoa n)) q w' \<and> view w' = (r, c, filter (\<lambda>d. ce_ID d \<noteq> n) cs)"
  using assms unfolding cdn_service_def by blast+

section \<open>What is left to do\<close>

definition the_copy :: "cert_identity \<Rightarrow> cdn_certificate list \<Rightarrow> cdn_certificate option" where
  "the_copy desired cs = find (\<lambda>c. identityOf c = desired) cs"

definition slot_work :: "cert_identity \<Rightarrow> cdn_config \<Rightarrow> cdn_certificate list \<Rightarrow> nat" where
  "slot_work desired c cs = length cs + (case the_copy desired cs of None \<Rightarrow> 3 | Some b \<Rightarrow> if bound_cert c = Some (ce_ID b) then 0 else 1)"

lemma the_copy_filter:
  assumes "the_copy desired cs = Some b" "ce_ID b \<noteq> n"
  shows "the_copy desired (filter (\<lambda>d. ce_ID d \<noteq> n) cs) = Some b"
  using assms unfolding the_copy_def by (induction cs) (auto split: if_splits)

lemma the_copy_append: "the_copy desired cs = None \<Longrightarrow> identityOf d = desired \<Longrightarrow> the_copy desired (cs @ [d]) = Some d"
  unfolding the_copy_def by (induction cs) (auto split: if_splits)

text \<open>The other sections do not look at the security block.\<close>

lemma security_unread:
  "desired_cache p (c\<lparr>cf_Security := z\<rparr>) = desired_cache p c" "desiredHTTPHeaders p (c\<lparr>cf_Security := z\<rparr>) = desiredHTTPHeaders p c"
  "desired_robots r (c\<lparr>cf_Security := z\<rparr>) = desired_robots r c" "desired_domains p (c\<lparr>cf_Security := z\<rparr>) = desired_domains p c"
  "desired_aws p (c\<lparr>cf_Security := z\<rparr>) sec = desired_aws p c sec"
proof -
  have f: "cf_Cache (c\<lparr>cf_Security := z\<rparr>) = cf_Cache c" "cf_HTTPHeaders (c\<lparr>cf_Security := z\<rparr>) = cf_HTTPHeaders c"
    "cf_Robots (c\<lparr>cf_Security := z\<rparr>) = cf_Robots c" "cf_Domains (c\<lparr>cf_Security := z\<rparr>) = cf_Domains c"
    "cf_Origin (c\<lparr>cf_Security := z\<rparr>) = cf_Origin c" by simp_all
  show "desired_cache p (c\<lparr>cf_Security := z\<rparr>) = desired_cache p c" "desiredHTTPHeaders p (c\<lparr>cf_Security := z\<rparr>) = desiredHTTPHeaders p c"
    "desired_robots r (c\<lparr>cf_Security := z\<rparr>) = desired_robots r c" "desired_domains p (c\<lparr>cf_Security := z\<rparr>) = desired_domains p c"
    "desired_aws p (c\<lparr>cf_Security := z\<rparr>) sec = desired_aws p c sec"
    unfolding desired_cache_def desiredHTTPHeaders_def desired_request_headers_def desired_cors_def desired_robots_def desired_domains_def
      customAliases_def technicalAlias_def aliasesOf_def desired_aws_def f by (rule refl)+
qed

text \<open>A bind changes no setting, and a settings PATCH no binding.\<close>

lemma bind_write_applied:
  "apply_resource (ssl_bind_write v) r = r" "bound_cert (apply_settings echo (ssl_bind_write v) c) = v"
  "desired_write x r (apply_settings echo (ssl_bind_write v) c) sec og = desired_write x r c sec og"
proof -
  show "apply_resource (ssl_bind_write v) r = r" by (simp add: apply_resource_def ssl_bind_write_def)
  have eq: "apply_settings echo (ssl_bind_write v) c = c\<lparr>cf_Security := Some (apply_security echo \<lparr>yp_Redirect = None,
      yp_CertificateID = Some v, yp_SecureToken = None\<rparr> (cf_Security c))\<rparr>"
    by (simp add: apply_settings_def ssl_bind_write_def apply_origin_def apply_config_def over_def)
  show "bound_cert (apply_settings echo (ssl_bind_write v) c) = v"
    by (simp add: eq bound_cert_def apply_security_def Let_def)
  have sec: "desired_security p (apply_settings echo (ssl_bind_write v) c) sec = desired_security p c sec" for p
    by (cases "cf_Security c")
      (simp_all add: eq desired_security_def desired_redirect_def desired_token_def apply_security_def no_security_def Let_def cong: option.case_cong)
  have og: "originDrifted o1 r (apply_settings echo (ssl_bind_write v) c) = originDrifted o1 r c" for o1
    by (rule originDrifted_cong) (simp_all add: eq servers_of_def)
  have "sections_of p (apply_settings echo (ssl_bind_write v) c) sec = sections_of p c sec" for p
    unfolding sections_of_def sec by (simp add: eq security_unread)
  then have cf: "desiredConfig p (apply_settings echo (ssl_bind_write v) c) sec = desiredConfig p c sec" for p
    by (simp add: desiredConfig_sections)
  show "desired_write x r (apply_settings echo (ssl_bind_write v) c) sec og = desired_write x r c sec og"
    unfolding desired_write_def cf og by (rule refl)
qed

lemma settings_keep_binding: "bound_cert (apply_settings echo (desired_write x r c sec og) c) = bound_cert c"
proof -
  have "yp_CertificateID y = None" if "desired_security p c sec = Some y" for p y
    using that by (auto simp: desired_security_def Let_def split: option.splits if_splits)
  then show ?thesis
    by (auto simp: apply_settings_desired bound_cert_def apply_config_def sections_of_def apply_security_def no_security_def Let_def split: option.split)
qed

lemma apply_resource_status [simp]: "hr_Status (apply_resource w r) = hr_Status r"
  by (simp add: apply_resource_def)

section \<open>One reconcile\<close>

text \<open>The situation: an object with a certificate of its own, secrets and origin that stay, and no rejected upload on record.\<close>

definition not_rejected :: "string \<Rightarrow> cdn_observation \<Rightarrow> bool" where
  "not_rejected key st \<longleftrightarrow> \<not> (st_BudgetKey (the_ssl st) = Some key \<and> st_State (the_ssl st) = Some ''failed'')"

definition custom_setting :: "'w cdn_env \<Rightarrow> cdn_object \<Rightarrow> int \<Rightarrow> cdn_ssl \<Rightarrow> resolved_secrets \<Rightarrow> cert_identity \<Rightarrow> resolved_origin option \<Rightarrow> bool" where
  "custom_setting env x n ssl sec desired og \<longleftrightarrow> int64 n \<and> quiet x \<and> cdp_SSL (cx_Params x) = Some ssl \<and> ssl_Mode ssl = ''custom'' \<and>
     rs_certIdentity sec = Some desired \<and> (\<forall>w. resolveSpecSecrets env w x = Inr sec \<and> origin_at env w x = og)"

abbreviation custom_key :: "cdn_object \<Rightarrow> cdn_ssl \<Rightarrow> cert_identity \<Rightarrow> string" where
  "custom_key x ssl desired \<equiv> sslBudgetKey (declared_domains (cx_Params x)) (Some ssl) (Some desired)"

abbreviation settings_left :: "cdn_object \<Rightarrow> resolved_secrets \<Rightarrow> resolved_origin option \<Rightarrow> cdn_resource \<Rightarrow> cdn_config \<Rightarrow> bool" where
  "settings_left x sec og r c \<equiv> write_dirty (desired_write x r c sec og)"

definition work_left :: "cdn_object \<Rightarrow> resolved_secrets \<Rightarrow> cert_identity \<Rightarrow> resolved_origin option \<Rightarrow>
    cdn_resource \<times> cdn_config \<times> cdn_certificate list \<Rightarrow> nat" where
  "work_left x sec desired og v = (case v of (r, c, cs) \<Rightarrow> (if settings_left x sec og r c then 1 else 0) + slot_work desired c cs)"

definition converged :: "cert_identity \<Rightarrow> cdn_resource \<times> cdn_config \<times> cdn_certificate list \<Rightarrow> bool" where
  "converged desired v \<longleftrightarrow> (case v of (r, c, cs) \<Rightarrow> \<exists>b \<in> set cs. identityOf b = desired \<and> bound_cert c = Some (ce_ID b) \<and>
     (\<forall>d \<in> set cs. identityOf d = desired \<longrightarrow> ce_ID d = ce_ID b))"

text \<open>What is kept from one reconcile to the next.\<close>

definition going :: "cdn_object \<Rightarrow> int \<Rightarrow> cdn_ssl \<Rightarrow> resolved_secrets \<Rightarrow> cert_identity \<Rightarrow> resolved_origin option \<Rightarrow>
    ('w \<Rightarrow> cdn_resource \<times> cdn_config \<times> cdn_certificate list) \<Rightarrow> ('w, cdn_req, cdn_object, cdn_observation) rstate \<Rightarrow> bool" where
  "going x n ssl sec desired og view s \<longleftrightarrow> external_name (cr s) = EncodeID n \<and> for_provider (cr s) = x \<and>
     not_rejected (custom_key x ssl desired) (at_provider (cr s)) \<and>
     (\<forall>r c cs. view (world s) = (r, c, cs) \<longrightarrow> \<not> isSuspendedState (hr_Status r) \<and> (settings_left x sec og r c \<longrightarrow> settles (cx_Params x) c))"

lemma slot_of_inputs:
  assumes "i = sslInputsFor ssl m cfg certs tasks sec now" "rs_certIdentity sec = Some desired" "ssl_Mode ssl = ''custom''"
  shows "si_mode i = ''custom''" "si_desired i = Some desired" "si_certificates i = certs" "si_boundID i = bound_cert cfg"
    "si_budgetKey i = custom_key (for_provider m) ssl desired" "si_prevBudgetKey i = DerefString (st_BudgetKey (the_ssl (at_provider m)))"
    "si_prevState i = DerefString (st_State (the_ssl (at_provider m)))"
  using assms by (simp_all add: sslInputsFor_def Let_def bound_cert_def)

lemma not_rejected_iff:
  assumes "key \<noteq> []"
  shows "not_rejected key st \<longleftrightarrow> \<not> (key = DerefString (st_BudgetKey (the_ssl st)) \<and> DerefString (st_State (the_ssl st)) = ''failed'')"
  using assms by (cases "st_BudgetKey (the_ssl st)"; cases "st_State (the_ssl st)") (auto simp: not_rejected_def)

text \<open>The certificate action of one reconcile, when no rejected upload is on record.\<close>

lemma custom_action:
  assumes i: "i = sslInputsFor ssl m cfg certs tasks sec now" "rs_certIdentity sec = Some desired" "ssl_Mode ssl = ''custom''"
    and ok: "not_rejected (custom_key (for_provider m) ssl desired) (at_provider m)"
  obtains "the_copy desired certs = None" "so_action (computeSSL i) = SslUpload" "so_state (computeSSL i) = ''pending''"
  | b where "the_copy desired certs = Some b" "bound_cert cfg \<noteq> Some (ce_ID b)" "so_action (computeSSL i) = SslBind (ce_ID b)" "so_state (computeSSL i) = ''pending''"
  | b where "the_copy desired certs = Some b" "bound_cert cfg = Some (ce_ID b)" "so_action (computeSSL i) = SslNone" "so_state (computeSSL i) = ''bound''"
      "\<forall>d \<in> set certs. identityOf d = desired \<longrightarrow> ce_ID d = ce_ID b"
  | b d where "the_copy desired certs = Some b" "bound_cert cfg = Some (ce_ID b)" "so_action (computeSSL i) = SslDeleteOld (ce_ID d)"
      "so_state (computeSSL i) = ''bound''" "d \<in> set certs" "ce_ID d \<noteq> ce_ID b"
proof -
  note s = slot_of_inputs[OF i]
  have c: "computeSSL i = ssl_custom i" by (simp add: computeSSL_def s(1))
  have nr: "\<not> (si_budgetKey i = si_prevBudgetKey i \<and> si_prevState i = ''failed'')"
    using ok not_rejected_iff[OF sslBudgetKey_nonempty] by (simp add: s)
  from s(2) show thesis
  proof (cases rule: ssl_custom_cases)
    case stuck
    with nr show thesis by simp
  next
    case upload
    then show thesis using that(1) c by (simp add: the_copy_def s)
  next
    case (bind b)
    then show thesis using that(2)[of b] c by (simp add: the_copy_def s)
  next
    case (settled b)
    then show thesis using that(3)[of b] c by (simp add: the_copy_def s)
  next
    case (cleanup b d)
    then show thesis using that(4)[of b d] c by (simp add: the_copy_def s)
  qed
qed

text \<open>\<^verbatim>\<open>Update\<close> decides as \<^verbatim>\<open>Observe\<close> did, with the marker it mirrored.\<close>

lemma cleanup_again:
  assumes "si_certificates i' = si_certificates i" "si_managed i' = so_managed (ssl_cleanup i desired b)"
  shows "so_action (ssl_cleanup i' desired b) = so_action (ssl_cleanup i desired b)"
proof -
  let ?m = "case si_managed i of None \<Rightarrow> markerFor b | Some m \<Rightarrow> m"
  let ?old = "find (managedMatches (Some ?m)) (si_certificates i)"
  have mk: "ct_ID (markerFor b) = Some (ce_ID b)" by (simp add: markerFor_def)
  consider (old) d where "ct_ID ?m \<noteq> None" "ct_ID ?m \<noteq> Some (ce_ID b)" "?old = Some d"
    | (gone) "ct_ID ?m \<noteq> None" "ct_ID ?m \<noteq> Some (ce_ID b)" "?old = None"
    | (same) "\<not> (ct_ID ?m \<noteq> None \<and> ct_ID ?m \<noteq> Some (ce_ID b))" by (metis not_None_eq)
  then show ?thesis
  proof cases
    case old
    then have "si_managed i' = Some ?m" using assms(2) by (simp add: ssl_cleanup_def Let_def)
    with old assms(1) show ?thesis by (simp add: ssl_cleanup_def Let_def)
  next
    case gone
    then have "si_managed i' = Some (markerFor b)" using assms(2) by (simp add: ssl_cleanup_def Let_def split: option.split)
    with gone assms(1) mk show ?thesis by (simp add: ssl_cleanup_def Let_def split: option.split)
  next
    case same
    then have "si_managed i' = Some ?m" using assms(2) by (auto simp: ssl_cleanup_def Let_def split: option.split)
    with same assms(1) show ?thesis by (auto simp: ssl_cleanup_def Let_def split: option.split)
  qed
qed

lemma custom_delete_again:
  assumes "si_mode i = ''custom''" "si_desired i = Some desired" "so_action (computeSSL i) = SslDeleteOld m"
    and "si_mode i' = si_mode i" "si_desired i' = si_desired i" "si_boundID i' = si_boundID i"
      "si_certificates i' = si_certificates i" "si_managed i' = so_managed (computeSSL i)"
  shows "so_action (computeSSL i') = SslDeleteOld m"
proof -
  have c: "computeSSL i = ssl_custom i" "computeSSL i' = ssl_custom i'" using assms(1,4) by (simp_all add: computeSSL_def)
  from assms(2) show ?thesis
  proof (cases rule: ssl_custom_cases)
    case (cleanup b d)
    then have "ssl_custom i = ssl_cleanup i desired b" "ssl_custom i' = ssl_cleanup i' desired b"
      using assms by (simp_all add: ssl_custom_def)
    with cleanup_again[of i' i desired b] assms c show ?thesis by simp
  qed (use assms(3) c in simp_all)
qed

text \<open>The action of \<^verbatim>\<open>Update\<close> on the certificates, over the service.\<close>

lemma slot_action_runs:
  assumes srv: "cdn_service api (EncodeID n) echo sec desired view" and v: "view (world s) = (r, c, cs)"
    and due: "case a of SslUpload \<Rightarrow> the_copy desired cs = None
      | SslBind m \<Rightarrow> \<exists>b. the_copy desired cs = Some b \<and> m = ce_ID b \<and> bound_cert c \<noteq> Some m
      | SslDeleteOld m \<Rightarrow> \<exists>b d. the_copy desired cs = Some b \<and> bound_cert c = Some (ce_ID b) \<and> d \<in> set cs \<and> m = ce_ID d \<and> m \<noteq> ce_ID b
      | _ \<Rightarrow> False"
  obtains s' c' cs' where "executeSSLAction env api a sec n s = (Inr (), s')" "view (world s') = (r, c', cs')"
    "slot_work desired c' cs' < slot_work desired c cs" "c' = c \<or> (\<exists>m. c' = apply_settings echo (ssl_bind_write m) c)"
    "external_name (cr s') = external_name (cr s)" "for_provider (cr s') = for_provider (cr s)"
    "the_ssl (at_provider (cr s')) = the_ssl (at_provider (cr s))"
proof (cases a)
  case SslUpload
  from cdn_serviceD(3)[OF srv v] obtain q w' d where w': "answers api (world s) (UploadCertificate (rs_certPEM sec) (rs_keyPEM sec)) q w'"
      "identityOf d = desired" "view w' = (r, c, cs @ [d])" by blast
  have "executeSSLAction env api a sec n s = (Inr (), s\<lparr>world := w', reqs := reqs s @ [UploadCertificate (rs_certPEM sec) (rs_keyPEM sec)]\<rparr>)"
    by (simp add: SslUpload executeSSLAction_def upload_certificate_def run_equations bindE_step(2)[where m = "write_call api _", OF write_call_run[OF w'(1)]])
  moreover have "slot_work desired c (cs @ [d]) < slot_work desired c cs"
    using due SslUpload the_copy_append[OF _ w'(2)] by (simp add: slot_work_def)
  ultimately show thesis using that w'(3) by simp
next
  case (SslBind m)
  from cdn_serviceD(2)[OF srv v, of "ssl_bind_write (Some m)"] obtain q w' where w': "answers api (world s) (PatchCdn (EncodeID n) (ssl_bind_write (Some m))) q w'"
      "view w' = (r, apply_settings echo (ssl_bind_write (Some m)) c, cs)" by (auto simp: bind_write_applied)
  have e: "executeSSLAction env api a sec n s = (Inr (), s\<lparr>world := w', reqs := reqs s @ [PatchCdn (EncodeID n) (ssl_bind_write (Some m))]\<rparr>)"
    using write_call_run[OF w'(1)] by (simp add: SslBind executeSSLAction_def EncodeID_def)
  have l: "slot_work desired (apply_settings echo (ssl_bind_write (Some m)) c) cs < slot_work desired c cs"
    using due SslBind by (auto simp: slot_work_def bind_write_applied)
  show thesis by (rule that[OF e _ l]) (use w'(2) in auto)
next
  case (SslDeleteOld m)
  with due obtain b d where b: "the_copy desired cs = Some b" "bound_cert c = Some (ce_ID b)" "d \<in> set cs" "m = ce_ID d" "m \<noteq> ce_ID b" by auto
  with cdn_serviceD(4)[OF srv v, of m] obtain q w' where w': "answers api (world s) (DeleteCertificate (Itoa m)) q w'"
      "view w' = (r, c, filter (\<lambda>d. ce_ID d \<noteq> m) cs)" by auto
  obtain s' where "executeSSLAction env api a sec n s = (Inr (), s')" "world s' = w'" "external_name (cr s') = external_name (cr s)"
      "for_provider (cr s') = for_provider (cr s)" "the_ssl (at_provider (cr s')) = the_ssl (at_provider (cr s))"
    by (simp add: SslDeleteOld executeSSLAction_def delete_certificate_def run_equations bindE_step(1)[where m = "write_call api _", OF write_call_run[OF w'(1)]]
        set_managed_def the_ssl_def)
  moreover have "slot_work desired c (filter (\<lambda>d. ce_ID d \<noteq> m) cs) < slot_work desired c cs"
    using b the_copy_filter[OF b(1), of m] by (auto simp: slot_work_def intro: length_filter_less)
  ultimately show thesis using that w'(2) by simp
qed (use due in simp_all)

text \<open>One reconcile makes progress, or there is nothing left to do.\<close>

lemma pass_progress:
  assumes srv: "cdn_service api (EncodeID n) echo sec desired view" and st: "custom_setting env x n ssl sec desired og"
    and go: "going x n ssl sec desired og view s"
  obtains (stop) ob s' where "cdn_Observe env api s = (Inr ob, s')" "ResourceExists ob" "ResourceUpToDate ob" "view (world s') = view (world s)"
      "converged desired (view (world s))"
  | (step) s1 s2 where "cdn_pass env api s = (s1, s2)" "going x n ssl sec desired og view s2"
      "work_left x sec desired og (view (world s2)) < work_left x sec desired og (view (world s))"
proof -
  obtain r c cs where v: "view (world s) = (r, c, cs)" by (cases "view (world s)") auto
  obtain tasks where rd0: "reads_as api (EncodeID n) ''custom'' (world s) r c cs tasks" using cdn_serviceD(1)[OF srv v] by blast
  note S = st[unfolded custom_setting_def] and G = go[unfolded going_def]
  have n: "DecodeID (external_name (cr s)) = Some n" using S G by simp
  have rd: "reads_as api (external_name (cr s)) (ssl_Mode ssl) (world s) r c cs tasks" using rd0 S G by simp
  have run: "\<not> isSuspendedState (hr_Status r)" using G v by blast
  let ?i = "sslInputsFor ssl (cr s) c cs tasks sec (en_now env (world s))"
  have w: "wanted env w x r' c' sec = desired_write x r' c' sec og" for w r' c' using S by (simp add: wanted_def)
  obtain ob s1 where ob: "cdn_Observe env api s = (Inr ob, s1)" "ResourceExists ob"
      "ResourceUpToDate ob \<longleftrightarrow> \<not> settings_left x sec og r c \<and> so_action (computeSSL ?i) = SslNone"
      "world s1 = world s" "external_name (cr s1) = EncodeID n" "for_provider (cr s1) = x"
      "at_provider (cr s1) = mirror_status ?i (computeSSL ?i) (cdn_status r c (at_provider (cr s)))"
    using cdn_Observe_runs[OF n _ rd _ run _ refl, of env sec] S G w by metis
  let ?i1 = "sslInputsFor ssl (cr s1) c cs tasks sec (en_now env (world s1))"
  have id: "rs_certIdentity sec = Some desired" "ssl_Mode ssl = ''custom''" using S by simp_all
  have nr: "not_rejected (custom_key (for_provider (cr s)) ssl desired) (at_provider (cr s))" using G by simp
  have state: "so_state (computeSSL ?i) \<noteq> ''failed''"
    by (rule custom_action[where cfg = c and certs = cs and tasks = tasks and now = "en_now env (world s)", OF refl id nr]) simp_all
  have nr1: "not_rejected (custom_key x ssl desired) (at_provider (cr s1))"
    using state by (simp add: not_rejected_def ob(7) mirror_status_def the_ssl_def)
  have n1: "DecodeID (external_name (cr s1)) = Some n" "\<not> isSuspendedState (hr_Status r)" using S ob(5) run by simp_all
  have rd1: "reads_as api (external_name (cr s1)) (ssl_Mode ssl) (world s1) r c cs tasks" using rd ob G by simp
  obtain s1' where up: "alike s1 s1'" "cdn_Update env api s1 = (if settings_left x sec og r c then patch_settings api (EncodeID n) (desired_write x r c sec og) s1'
      else if so_action (computeSSL ?i1) = SslNone then (Inr (), s1') else executeSSLAction env api (so_action (computeSSL ?i1)) sec n s1')"
    using cdn_Update_runs[OF n1(1) _ rd1 n1(2) _ refl, of env sec] S ob(4-6) w by metis
  have al: "external_name (cr s1') = EncodeID n" "for_provider (cr s1') = x" "at_provider (cr s1') = at_provider (cr s1)" "view (world s1') = (r, c, cs)"
    using up(1) ob v by (simp_all add: alike_def)
  show thesis
  proof (cases "settings_left x sec og r c")
    case True
    let ?w = "desired_write x r c sec og" and ?c = "apply_settings echo (desired_write x r c sec og) c"
    from cdn_serviceD(2)[OF srv al(4), of ?w] obtain q w' where w': "answers api (world s1') (PatchCdn (EncodeID n) ?w) q w'"
        "view w' = (apply_resource ?w r, ?c, cs)" by blast
    let ?s2 = "s1'\<lparr>world := w', reqs := reqs s1' @ [PatchCdn (EncodeID n) ?w]\<rparr>"
    have u: "cdn_Update env api s1 = (Inr (), ?s2)"
      using True up(2) by (simp add: patch_settings_def bindE_step(2)[where m = "write_call api _", OF write_call_run[OF w'(1)]] returnOk_def)
    have sw: "slot_work desired ?c cs = slot_work desired c cs" unfolding slot_work_def settings_keep_binding by (rule refl)
    have clean: "\<not> settings_left x sec og (apply_resource ?w r) ?c"
      using True G v S origin_at_one[of env undefined x] by (intro settings_settle[OF _ _ refl]) auto
    show thesis
    proof (rule step)
      show "cdn_pass env api s = (s1, ?s2)" using ob True u by (simp add: cdn_pass_def update_due_def)
      show "going x n ssl sec desired og view ?s2" using al nr1 w'(2) clean run by (simp add: going_def)
      show "work_left x sec desired og (view (world ?s2)) < work_left x sec desired og (view (world s))"
        using True clean by (simp add: work_left_def v w'(2) sw)
    qed
  next
    case False
    have due: thesis if "case so_action (computeSSL ?i1) of SslUpload \<Rightarrow> the_copy desired cs = None
        | SslBind m \<Rightarrow> \<exists>b. the_copy desired cs = Some b \<and> m = ce_ID b \<and> bound_cert c \<noteq> Some m
        | SslDeleteOld m \<Rightarrow> \<exists>b d. the_copy desired cs = Some b \<and> bound_cert c = Some (ce_ID b) \<and> d \<in> set cs \<and> m = ce_ID d \<and> m \<noteq> ce_ID b
        | _ \<Rightarrow> False" and "so_action (computeSSL ?i) \<noteq> SslNone"
    proof -
      from slot_action_runs[OF srv al(4) that(1)] obtain s2 c' cs' where
        s2: "executeSSLAction env api (so_action (computeSSL ?i1)) sec n s1' = (Inr (), s2)" "view (world s2) = (r, c', cs')"
          "slot_work desired c' cs' < slot_work desired c cs" "c' = c \<or> (\<exists>m. c' = apply_settings echo (ssl_bind_write m) c)"
          "external_name (cr s2) = EncodeID n" "for_provider (cr s2) = x" "the_ssl (at_provider (cr s2)) = the_ssl (at_provider (cr s1))"
        by (metis al(1-3))
      have clean: "\<not> settings_left x sec og r c'" using s2(4) False by (auto simp: bind_write_applied)
      have "so_action (computeSSL ?i1) \<noteq> SslNone" using that(1) by auto
      with False up(2) s2(1) have u: "cdn_Update env api s1 = (Inr (), s2)" by simp
      show thesis
      proof (rule step)
        show "cdn_pass env api s = (s1, s2)" using ob that(2) u by (simp add: cdn_pass_def update_due_def)
        show "going x n ssl sec desired og view s2"
          using s2 nr1 clean run by (simp add: going_def not_rejected_def)
        show "work_left x sec desired og (view (world s2)) < work_left x sec desired og (view (world s))"
          using False clean s2 by (simp add: work_left_def v)
      qed
    qed
    note act1 = custom_action[where m = "cr s1" and cfg = c and certs = cs and tasks = tasks and now = "en_now env (world s1)", OF refl id, unfolded ob(6), OF nr1]
    show thesis
    proof (rule custom_action[where cfg = c and certs = cs and tasks = tasks and now = "en_now env (world s)", OF refl id nr])
      assume a: "the_copy desired cs = None" "so_action (computeSSL ?i) = SslUpload"
      then have "so_action (computeSSL ?i1) = SslUpload" by (rule_tac act1) simp_all
      with a show thesis by (intro due) simp_all
    next
      fix b assume a: "the_copy desired cs = Some b" "bound_cert c \<noteq> Some (ce_ID b)" "so_action (computeSSL ?i) = SslBind (ce_ID b)"
      then have "so_action (computeSSL ?i1) = SslBind (ce_ID b)" by (rule_tac act1) simp_all
      with a show thesis by (intro due) simp_all
    next
      fix b assume a: "the_copy desired cs = Some b" "bound_cert c = Some (ce_ID b)" "so_action (computeSSL ?i) = SslNone"
        "\<forall>d \<in> set cs. identityOf d = desired \<longrightarrow> ce_ID d = ce_ID b"
      then have "converged desired (view (world s))"
        unfolding the_copy_def by (auto simp: converged_def v dest!: find_SomeD)
      then show thesis using stop[OF ob(1,2)] ob a False by simp
    next
      fix b d assume a: "the_copy desired cs = Some b" "bound_cert c = Some (ce_ID b)" "so_action (computeSSL ?i) = SslDeleteOld (ce_ID d)"
        "d \<in> set cs" "ce_ID d \<noteq> ce_ID b"
      have "si_managed ?i1 = so_managed (computeSSL ?i)" by (simp add: sslInputsFor_def Let_def ob(7) mirror_status_def)
      then have del: "so_action (computeSSL ?i1) = SslDeleteOld (ce_ID d)"
        by (intro custom_delete_again[OF slot_of_inputs(1,2)[OF refl id] a(3)]) (simp_all only: slot_of_inputs[OF refl id])
      have "\<exists>b' d'. the_copy desired cs = Some b' \<and> bound_cert c = Some (ce_ID b') \<and> d' \<in> set cs \<and> ce_ID d = ce_ID d' \<and> ce_ID d \<noteq> ce_ID b'"
        using a by blast
      then show thesis by (intro due) (simp_all only: del a(3) ssl_action.case, simp)
    qed
  qed
qed

section \<open>Convergence\<close>

definition cdn_passes :: "nat \<Rightarrow> 'w cdn_env \<Rightarrow> 'w cdn_api \<Rightarrow> ('w, cdn_req, cdn_object, cdn_observation) rstate \<Rightarrow>
    ('w, cdn_req, cdn_object, cdn_observation) rstate" where
  "cdn_passes k env api = (\<lambda>s. snd (cdn_pass env api s)) ^^ k"

lemma passes_converge:
  assumes srv: "cdn_service api (EncodeID n) echo sec desired view" and st: "custom_setting env x n ssl sec desired og"
  shows "going x n ssl sec desired og view s \<Longrightarrow> \<exists>k ob s'. k \<le> work_left x sec desired og (view (world s)) \<and>
    cdn_Observe env api (cdn_passes k env api s) = (Inr ob, s') \<and> ResourceExists ob \<and> ResourceUpToDate ob \<and> converged desired (view (world s'))"
proof (induction "work_left x sec desired og (view (world s))" arbitrary: s rule: less_induct)
  case less
  from srv st less.prems show ?case
  proof (cases rule: pass_progress)
    case (stop ob s')
    then show ?thesis by (intro exI[of _ 0] exI[of _ ob] exI[of _ s']) (simp add: cdn_passes_def)
  next
    case (step s1 s2)
    from less.hyps[OF step(3) step(2)] obtain k ob s' where k: "k \<le> work_left x sec desired og (view (world s2))"
        "cdn_Observe env api (cdn_passes k env api s2) = (Inr ob, s')" "ResourceExists ob" "ResourceUpToDate ob" "converged desired (view (world s'))" by blast
    have "cdn_passes (Suc k) env api s = cdn_passes k env api s2" using step(1) by (simp add: cdn_passes_def funpow_Suc_right del: funpow.simps(2))
    with k step(3) show ?thesis by (intro exI[of _ "Suc k"] exI[of _ ob] exI[of _ s']) simp
  qed
qed

lemma work_left_bound: "work_left x sec desired og (r, c, cs) \<le> length cs + 4"
  by (simp add: work_left_def slot_work_def split: option.split)

text \<open>
  C27. A Cdn with a certificate of its own converges. From any state, over a service that does what it is asked and with a declaration
  that a PATCH can reach, after at most four reconciles more than there are certificates \<^verbatim>\<open>Observe\<close> reports the Cdn up to date; then the
  settings are as declared, a certificate with the Secret's identity is bound, and no copy of it is left in the account.
\<close>

theorem cdn_custom_converges:
  assumes "cdn_service api (EncodeID n) echo sec desired view" "custom_setting env x n ssl sec desired og"
    and "external_name (cr s) = EncodeID n" "for_provider (cr s) = x" "not_rejected (custom_key x ssl desired) (at_provider (cr s))"
    and v: "view (world s) = (r, c, cs)" and "\<not> isSuspendedState (hr_Status r)" "settles (cx_Params x) c"
  shows "\<exists>k ob s'. k \<le> length cs + 4 \<and> cdn_Observe env api (cdn_passes k env api s) = (Inr ob, s') \<and>
    ResourceExists ob \<and> ResourceUpToDate ob \<and> converged desired (view (world s'))"
proof -
  have "going x n ssl sec desired og view s" using assms by (simp add: going_def)
  from passes_converge[OF assms(1,2) this] work_left_bound[of x sec desired og r c cs] show ?thesis
    unfolding v using le_trans by blast
qed

text \<open>A service that keeps one resource and the account's certificates.\<close>

type_synonym cdn_account = "cdn_resource \<times> cdn_config \<times> cdn_certificate list"

definition wit_desired :: cert_identity where
  "wit_desired = identityOf (wit_cert 0 ''custom'' ''2027-05-01'')"

definition account_api :: "cdn_account cdn_api" where
  "account_api w q = (case w of (r, c, cs) \<Rightarrow> (case q of
       GetCdn _ \<Rightarrow> (Resp (ok_response (PCdn r)), w)
     | GetCdnConfiguration _ \<Rightarrow> (Resp (ok_response (PCdnConfig c)), w)
     | ListAllCertificates \<Rightarrow> (Resp (ok_response (PCertificates cs)), w)
     | ListCertificateTasks _ \<Rightarrow> (Resp (ok_response (PTasks [])), w)
     | PatchCdn _ p \<Rightarrow> (Resp (ok_response PCdnOther), (apply_resource p r, apply_settings True p c, cs))
     | UploadCertificate _ _ \<Rightarrow> (Resp (ok_response PCdnOther), (r, c, cs @ [wit_cert (1 + foldr max (map ce_ID cs) 0) ''custom'' ''2027-05-01'']))
     | DeleteCertificate i \<Rightarrow> (Resp (ok_response PCdnOther), (r, c, filter (\<lambda>d. Itoa (ce_ID d) \<noteq> i) cs))
     | _ \<Rightarrow> (Resp (ok_response PCdnOther), w)))"

lemma account_service: "cdn_service account_api rid True sec wit_desired (\<lambda>w. w)"
proof -
  have up: "identityOf (wit_cert k ''custom'' ''2027-05-01'') = wit_desired" for k
    by (simp add: wit_desired_def identityOf_def wit_cert_def)
  have del: "filter (\<lambda>d. Itoa (ce_ID d) \<noteq> Itoa k) cs = filter (\<lambda>d. ce_ID d \<noteq> k) cs" for k cs
    by (rule filter_cong) (auto dest: Itoa_inj)
  show ?thesis
    unfolding cdn_service_def
  proof (intro allI impI conjI)
    fix w :: cdn_account and r c and cs :: "cdn_certificate list" assume w: "w = (r, c, cs)"
    show "\<exists>tasks. reads_as account_api rid ''custom'' w r c cs tasks"
      unfolding reads_as_def cert_list_req_def by (intro exI[of _ "[]"] conjI answers_ok) (simp_all add: account_api_def w)
    show "\<exists>q w'. answers account_api w (PatchCdn rid p) q w' \<and> w' = (apply_resource p r, apply_settings True p c, cs)" for p
      by (intro exI conjI answers_ok) (simp_all add: account_api_def w)
    show "\<exists>q w' d. answers account_api w (UploadCertificate (rs_certPEM sec) (rs_keyPEM sec)) q w' \<and> identityOf d = wit_desired \<and> w' = (r, c, cs @ [d])"
    proof -
      let ?d = "wit_cert (1 + foldr max (map ce_ID cs) 0) ''custom'' ''2027-05-01''"
      have "answers account_api w (UploadCertificate (rs_certPEM sec) (rs_keyPEM sec)) PCdnOther (r, c, cs @ [?d])"
        by (intro answers_ok) (simp add: account_api_def w)
      with up show ?thesis by blast
    qed
    show "\<exists>q w'. answers account_api w (DeleteCertificate (Itoa m)) q w' \<and> w' = (r, c, filter (\<lambda>d. ce_ID d \<noteq> m) cs)" for m
    proof -
      have "answers account_api w (DeleteCertificate (Itoa m)) PCdnOther (r, c, filter (\<lambda>d. ce_ID d \<noteq> m) cs)"
        by (intro answers_ok) (simp add: account_api_def w del)
      then show ?thesis by blast
    qed
  qed
qed

definition wit_custom :: cdn_ssl where
  "wit_custom = \<lparr>ssl_Mode = ''custom'', ssl_CertificateSecretRef = Some ''tls''\<rparr>"

definition wit_tls_env :: "cdn_account cdn_env" where
  "wit_tls_env = \<lparr>en_secret = (\<lambda>_ _ _. KFound [''tls.crt'' \<mapsto> ''C'', ''tls.key'' \<mapsto> ''K'']), en_bucket = (\<lambda>_ _ _. KNotFound),
     en_unannotate = (\<lambda>w _. (True, w)), en_now = (\<lambda>_. 7),
     en_x509 = (\<lambda>_. Some \<lparr>x5_CommonName = ''a.example'', x5_DNSNames = [''a.example''], x5_NotAfterDay = ''2027-05-01''\<rparr>)\<rparr>"

definition wit_tls_secrets :: resolved_secrets where
  "wit_tls_secrets = \<lparr>rs_secureTokenKey = [], rs_awsAccessKey = [], rs_awsSecretKey = [], rs_certPEM = ''C'', rs_keyPEM = ''K'', rs_certIdentity = Some wit_desired\<rparr>"

definition wit_account :: cdn_account where
  "wit_account = (wit_resource\<lparr>hr_Name := ''renamed''\<rparr>, wit_config, [wit_cert 7 ''custom'' ''2026-05-01''])"

definition wit_account_state :: "(cdn_account, cdn_req, cdn_object, cdn_observation) rstate" where
  "wit_account_state = wit_state wit_account (wit_cdn_mr (Some wit_custom))"

theorem cdn_custom_converges_witness:
  "\<exists>k ob s'. k \<le> 5 \<and> cdn_Observe wit_tls_env account_api (cdn_passes k wit_tls_env account_api wit_account_state) = (Inr ob, s') \<and>
     ResourceUpToDate ob \<and> converged wit_desired (world s')"
proof -
  let ?s = wit_account_state and ?x = "for_provider (wit_cdn_mr (Some wit_custom))"
  let ?og = "origin_at wit_tls_env undefined ?x"
  have simps: "world ?s = wit_account" "cr ?s = wit_cdn_mr (Some wit_custom)" by (simp_all add: wit_account_state_def wit_state_def)
  have "parseTLSCertificate wit_tls_env ''C'' = Inr wit_desired" by code_simp
  then have sec: "resolveSpecSecrets wit_tls_env w ?x = Inr wit_tls_secrets" for w
    by (simp add: resolveSpecSecrets_def token_secret_def aws_secrets_def cert_secrets_def secretValue_def wit_cdn_mr_def wit_params_def
        wit_origin_def wit_tls_secrets_def wit_custom_def wit_tls_env_def)
  have og: "origin_at wit_tls_env w ?x = ?og" for w
    by (simp add: origin_at_def wit_cdn_mr_def wit_params_def wit_origin_def Let_def)
  have set: "custom_setting wit_tls_env ?x 5 wit_custom wit_tls_secrets wit_desired ?og"
    unfolding custom_setting_def
  proof (intro conjI allI)
    show "resolveSpecSecrets wit_tls_env w ?x = Inr wit_tls_secrets" for w by (rule sec)
    show "origin_at wit_tls_env w ?x = ?og" for w by (rule og)
  qed (simp_all add: int64_def quiet_def wit_cdn_mr_def wit_params_def wit_custom_def wit_tls_secrets_def)
  have name: "external_name (cr ?s) = EncodeID 5" unfolding simps wit_cdn_mr_def by code_simp
  have fp: "for_provider (cr ?s) = ?x" by (simp add: simps)
  have nr: "not_rejected (custom_key ?x wit_custom wit_desired) (at_provider (cr ?s))"
    by (simp add: simps not_rejected_def wit_cdn_mr_def wit_status_def the_ssl_def)
  have run: "\<not> isSuspendedState (hr_Status (wit_resource\<lparr>hr_Name := ''renamed''\<rparr>))" by code_simp
  have "settles (cx_Params ?x) wit_config" by (simp add: settles_def wit_cdn_mr_def wit_params_def)
  from cdn_custom_converges[OF account_service set name fp nr _ run this, of "[wit_cert 7 ''custom'' ''2026-05-01'']"]
  show ?thesis by (auto simp: simps wit_account_def)
qed

end
