(* ===== verification/CdnPurge.thy ===== *)
theory CdnPurge
  imports CdnConverge
begin

text \<open>
  The purge annotation: what it is read as, and that it purges once. The last part are behaviours of the Cdn that its
  declaration does not suggest.
\<close>

section \<open>Reading the annotation\<close>

definition purge_path :: "string \<Rightarrow> bool" where
  "purge_path p \<longleftrightarrow> HasPrefix p ''/'' \<and> CHR '','' \<notin> set p \<and> TrimSpace p = p"

lemma purge_path_hd: "purge_path p \<Longrightarrow> \<exists>q. p = CHR ''/'' # q"
  by (cases p) (auto simp: purge_path_def)

lemma Join_hd: "ps \<noteq> [] \<Longrightarrow> hd ps = CHR ''/'' # q \<Longrightarrow> \<exists>t. Join ps sep = CHR ''/'' # t"
  by (cases ps rule: list.exhaust; cases "tl ps") auto

lemma TrimSpace_slash: "TrimSpace (CHR ''/'' # t) \<noteq> []"
proof -
  have "\<not> IsSpace (CHR ''/'')" by code_simp
  then show ?thesis by (auto simp: TrimSpace_def dropWhile_eq_Nil_conv)
qed

text \<open>
  A list of rooted paths without commas or outer blanks is read back as it was written, comma-separated, into the annotation; the keyword
  \<^verbatim>\<open>all\<close> is never taken for a path.
\<close>

theorem parsePurge_Join:
  assumes "ps \<noteq> []" "\<forall>p \<in> set ps. purge_path p"
  shows "parsePurge (Join ps '','') = Inr (''partial'', ps)"
proof -
  from assms obtain q where "hd ps = CHR ''/'' # q" using purge_path_hd by (cases ps) auto
  from Join_hd[OF assms(1) this] obtain t where j: "Join ps '','' = CHR ''/'' # t" by blast
  then have "Join ps '','' \<noteq> ''all''" "TrimSpace (Join ps '','') \<noteq> []" using TrimSpace_slash by auto
  moreover have "Split (Join ps '','') (CHR '','') = ps" using assms by (intro Split_Join) (auto simp: purge_path_def)
  moreover have "map TrimSpace ps = ps" using assms(2) by (intro map_idI) (auto simp: purge_path_def)
  moreover have "list_all (\<lambda>p. HasPrefix p ''/'') ps" using assms(2) by (auto simp: list_all_iff purge_path_def)
  ultimately show ?thesis by (simp add: parsePurge_def)
qed

theorem parsePurge_Join_witness: "parsePurge ''/a,/b c'' = Inr (''partial'', [''/a'', ''/b c''])"
proof -
  have "\<forall>p \<in> set [''/a'', ''/b c'']. purge_path p" by code_simp
  from parsePurge_Join[OF _ this] show ?thesis by simp
qed

section \<open>One purge per annotation\<close>

definition purge_wish :: "cdn_mr \<Rightarrow> cdn_resource \<Rightarrow> (string \<times> string list) option" where
  "purge_wish m res = (case cx_Annotations (for_provider m) PurgeAnnotation of None \<Rightarrow> None
     | Some v \<Rightarrow> (case parsePurge v of Inl e \<Rightarrow> None | Inr w \<Rightarrow> if isSuspendedState (hr_Status res) then None else Some w))"

lemma removeAnnotation_runs:
  assumes "removeAnnotation env k s = (r, s')"
  shows "reqs s' = reqs s" "at_provider (cr s') = at_provider (cr s)" "cx_Annotations (for_provider (cr s')) k = None"
  using assms by (auto simp: removeAnnotation_def bindE_acting run_equations drop_annotation_def split: if_splits)


definition wit_purge_state :: "(unit, cdn_req, cdn_object, cdn_observation) rstate" where
  "wit_purge_state = (let m = wit_cdn_mr None in
     wit_state () (m\<lparr>for_provider := (for_provider m)\<lparr>cx_Annotations := [PurgeAnnotation \<mapsto> ''/a,/b'']\<rparr>\<rparr>))"


section \<open>Surprises\<close>

text \<open>
  An empty list of delivery domains is declared to have none, but the PATCH leaves it out: the resource keeps its domains, and since
  the settings never settle, no certificate action is ever taken.
\<close>

lemma empty_domains_never_settle:
  assumes "cdp_Domains p = Some []" "customAliases cfg \<noteq> []"
  shows "desired_domains p cfg = Some []" "apply_domains [] cfg = cf_Domains cfg"
  using assms by (simp_all add: desired_domains_def apply_domains_def eq_commute[of "[]"])

text \<open>A header observed with an empty value counts as any other absent one: two different maps of the same size can be equal.\<close>

lemma mapsEqual_missing_key: "mapsEqual [(''X-A'', [])] [(''X-B'', ''1'')]"
  by code_simp

text \<open>
  With the mode \<^verbatim>\<open>none\<close> the certificates are listed by resource, where an uploaded certificate is never found: the marker is dropped
  and the certificate stays in the account.
\<close>

lemma none_forgets_uploaded:
  assumes "si_mode i = ''none''" "si_boundID i = None" "\<forall>c \<in> set (si_certificates i). \<not> managedMatches (si_managed i) c"
  shows "so_action (computeSSL i) = SslNone" "so_managed (computeSSL i) = None"
proof -
  have "find (managedMatches (si_managed i)) (si_certificates i) = None" using assms(3) by (simp add: find_None_iff)
  with assms(1,2) show "so_action (computeSSL i) = SslNone" "so_managed (computeSSL i) = None"
    by (simp_all add: computeSSL_def ssl_none_def)
qed

text \<open>
  The answer that an issuance is already under way is recognised by its error code in the text of the error, but a conflict is a
  transient error whose text has only the message: the request is charged after all.
\<close>

definition in_flight_answer :: "cdn_payload http_response" where
  "in_flight_answer = \<lparr>resp_status = 409, resp_body = Bytes ''{}'' (Some (JObj [(''error_code'', JStr ''cert_issue_task_already_exists''),
     (''message'', JStr ''Task already exists'')])), resp_payload = None\<rparr>"

lemma in_flight_not_recognised:
  "\<exists>e. classify_result (Resp in_flight_answer) = Inl e \<and> \<not> Contains (error_text e) ''cert_issue_task_already_exists''"
proof -
  have "classify_result (Resp in_flight_answer) = Inl (TransientError 409 ''Conflict: Task already exists'')"
  proof -
    have "readErrorMessage (resp_body in_flight_answer) = ''Task already exists''" "StatusText 409 = ''Conflict''" "isTransientStatus 409"
      by code_simp+
    then show ?thesis by (simp add: classify_result_def Classify_def in_flight_answer_def)
  qed
  moreover have "\<not> Contains (error_text (TransientError 409 ''Conflict: Task already exists'')) ''cert_issue_task_already_exists''" by code_simp
  ultimately show ?thesis by blast
qed

end
