(* ===== verification/S3Policy.thy ===== *)
theory S3Policy
  imports ResolverClient
begin

text \<open>
  The access policies of object-storage users: \<^verbatim>\<open>internal/clients/rgwiam/policy.go\<close>. A policy document is
  represented by what \<^verbatim>\<open>json.Unmarshal\<close> makes of its text, \<open>None\<close> for a text that is not one; marshalling a document
  and reading it back gives the document.
\<close>

section \<open>Rendering\<close>

record grant =
  gr_Bucket :: string
  gr_Level :: string

record iam_statement =
  is_Sid :: string
  is_Effect :: string
  is_Action :: "string list"
  is_Resource :: "string list"

record policy_doc =
  pd_Version :: string
  pd_Statement :: "iam_statement list"

definition arn :: "string \<Rightarrow> string" where
  "arn bucket = ''arn:aws:s3:::'' @ bucket"

definition arnObjects :: "string \<Rightarrow> string" where
  "arnObjects bucket = ''arn:aws:s3:::'' @ bucket @ ''/*''"

definition full_objects :: "string \<Rightarrow> bool" where
  "full_objects level \<longleftrightarrow> level = ''read-write'' \<or> level = ''admin''"

definition objectActions :: "string \<Rightarrow> string list" where
  "objectActions level = (if full_objects level then [''s3:*''] else [''s3:Get*'', ''s3:List*''])"

definition bucketActions :: "string \<Rightarrow> string list" where
  "bucketActions level = (if level = ''admin'' then [''s3:*''] else [''s3:Get*'', ''s3:List*''])"

definition base_statement :: iam_statement where
  "base_statement = \<lparr>is_Sid = ''IamListAllMyBuckets'', is_Effect = ''Allow'', is_Action = [''s3:ListAllMyBuckets''], is_Resource = [''*'']\<rparr>"

definition object_statement :: "grant \<Rightarrow> iam_statement" where
  "object_statement g = \<lparr>is_Sid = (if full_objects (gr_Level g) then ''AllowFullAccessToObjects'' else ''AllowReadObjectsInBucket''),
     is_Effect = ''Allow'', is_Action = objectActions (gr_Level g), is_Resource = [arnObjects (gr_Bucket g)]\<rparr>"

definition bucket_statement :: "grant \<Rightarrow> iam_statement" where
  "bucket_statement g = \<lparr>is_Sid = (if gr_Level g = ''admin'' then ''AllowFullBucketAccess'' else ''AllowReadBucketMetadata''),
     is_Effect = ''Allow'', is_Action = bucketActions (gr_Level g), is_Resource = [arn (gr_Bucket g)]\<rparr>"

definition RenderPolicy :: "grant list \<Rightarrow> policy_doc" where
  "RenderPolicy grants = \<lparr>pd_Version = ''2012-10-17'',
     pd_Statement = base_statement # concat (map (\<lambda>g. [object_statement g, bucket_statement g]) (sort_key gr_Bucket grants))\<rparr>"

section \<open>Comparing and reading\<close>

definition canonical_statement :: "iam_statement \<Rightarrow> string" where
  "canonical_statement s = ToLower (is_Effect s) @ ''|'' @ Join (sort (is_Action s)) '','' @ ''|'' @ Join (sort (is_Resource s)) '',''"

definition canonicalStatements :: "policy_doc option \<Rightarrow> string list option" where
  "canonicalStatements doc = map_option (\<lambda>p. sort (map canonical_statement (pd_Statement p))) doc"

definition PoliciesEqual :: "policy_doc option \<Rightarrow> policy_doc option \<Rightarrow> bool" where
  "PoliciesEqual a b \<longleftrightarrow> (case canonicalStatements a of None \<Rightarrow> False
     | Some ca \<Rightarrow> (case canonicalStatements b of None \<Rightarrow> False | Some cb \<Rightarrow> ca = cb))"

text \<open>\<open>sha\<close> is the hexadecimal SHA-256.\<close>

definition PolicyHash :: "(string \<Rightarrow> string) \<Rightarrow> policy_doc option \<Rightarrow> string" where
  "PolicyHash sha doc = (case canonicalStatements doc of None \<Rightarrow> [] | Some c \<Rightarrow> sha (Join c [CHR 0x0A]))"

definition DeriveLevelForBucket :: "policy_doc option \<Rightarrow> string \<Rightarrow> string option" where
  "DeriveLevelForBucket doc bucket = (case doc of None \<Rightarrow> None
   | Some p \<Rightarrow>
       let full = (\<lambda>r. list_ex (\<lambda>s. r \<in> set (is_Resource s) \<and> ''s3:*'' \<in> set (is_Action s)) (pd_Statement p));
           present = list_ex (\<lambda>s. arnObjects bucket \<in> set (is_Resource s) \<or> arn bucket \<in> set (is_Resource s)) (pd_Statement p) in
       if \<not> present then None
       else if full (arnObjects bucket) \<and> full (arn bucket) then Some ''admin''
       else if full (arnObjects bucket) then Some ''read-write''
       else Some ''read'')"

section \<open>What a list of grants gives\<close>

text \<open>
  The level at which a list of grants opens a bucket: a level that is not one of the three reads. Bucket names have no
  slash, and \<open>resolveGrants\<close> lets no bucket appear twice.
\<close>

definition effective_level :: "string \<Rightarrow> string" where
  "effective_level l = (if l = ''admin'' then ''admin'' else if l = ''read-write'' then ''read-write'' else ''read'')"

definition level_of :: "grant list \<Rightarrow> string \<Rightarrow> string option" where
  "level_of gs b = map_option (\<lambda>g. effective_level (gr_Level g)) (find (\<lambda>g. gr_Bucket g = b) gs)"

definition good_grants :: "grant list \<Rightarrow> bool" where
  "good_grants gs \<longleftrightarrow> distinct (map gr_Bucket gs) \<and> (\<forall>g \<in> set gs. CHR ''/'' \<notin> set (gr_Bucket g))"

definition rights :: "grant \<Rightarrow> string \<times> string" where
  "rights g = (gr_Bucket g, effective_level (gr_Level g))"

lemma level_of_iff:
  assumes "distinct (map gr_Bucket gs)"
  shows "level_of gs b = Some l \<longleftrightarrow> (b, l) \<in> rights ` set gs"
proof -
  have "find (\<lambda>g. gr_Bucket g = b) gs = Some g \<longleftrightarrow> g \<in> set gs \<and> gr_Bucket g = b" for g
    using assms by (induction gs) auto
  then show ?thesis by (auto simp: level_of_def rights_def)
qed

lemma arn_inj [simp]: "arn a = arn b \<longleftrightarrow> a = b" "arnObjects a = arnObjects b \<longleftrightarrow> a = b"
  by (simp_all add: arn_def arnObjects_def)

lemma arn_objects:
  assumes "CHR ''/'' \<notin> set a"
  shows "arn a \<noteq> arnObjects b" "arnObjects b \<noteq> arn a"
  using assms by (auto simp: arn_def arnObjects_def)

lemma arn_star: "arn a \<noteq> ''*''" "arnObjects a \<noteq> ''*''" "''*'' \<noteq> arn a" "''*'' \<noteq> arnObjects a"
  by (simp_all add: arn_def arnObjects_def)

lemma RenderPolicy_statements:
  "set (pd_Statement (RenderPolicy gs)) = insert base_statement (object_statement ` set gs \<union> bucket_statement ` set gs)"
  by (auto simp: RenderPolicy_def)

lemmas statement_defs = base_statement_def object_statement_def bucket_statement_def objectActions_def bucketActions_def

lemma list_ex_render:
  "list_ex P (pd_Statement (RenderPolicy gs)) \<longleftrightarrow>
    P base_statement \<or> (\<exists>g \<in> set gs. P (object_statement g) \<or> P (bucket_statement g))"
  by (auto simp: list_ex_iff RenderPolicy_statements)

lemma statement_fields:
  "is_Resource base_statement = [''*'']" "is_Action base_statement = [''s3:ListAllMyBuckets'']"
  "is_Resource (object_statement g) = [arnObjects (gr_Bucket g)]" "is_Resource (bucket_statement g) = [arn (gr_Bucket g)]"
  "''s3:*'' \<in> set (is_Action (object_statement g)) \<longleftrightarrow> full_objects (gr_Level g)"
  "''s3:*'' \<in> set (is_Action (bucket_statement g)) \<longleftrightarrow> gr_Level g = ''admin''"
  by (simp_all add: statement_defs)

lemma render_cross:
  assumes "good_grants gs" "CHR ''/'' \<notin> set b" "g \<in> set gs"
  shows "arnObjects b \<noteq> arn (gr_Bucket g)" "arn b \<noteq> arnObjects (gr_Bucket g)"
  using assms arn_objects by (auto simp: good_grants_def)

lemma render_full:
  assumes "good_grants gs" "CHR ''/'' \<notin> set b"
  shows "list_ex (\<lambda>s. arnObjects b \<in> set (is_Resource s) \<and> ''s3:*'' \<in> set (is_Action s)) (pd_Statement (RenderPolicy gs)) \<longleftrightarrow>
      (\<exists>g \<in> set gs. gr_Bucket g = b \<and> full_objects (gr_Level g))" (is ?objects)
    and "list_ex (\<lambda>s. arn b \<in> set (is_Resource s) \<and> ''s3:*'' \<in> set (is_Action s)) (pd_Statement (RenderPolicy gs)) \<longleftrightarrow>
      (\<exists>g \<in> set gs. gr_Bucket g = b \<and> gr_Level g = ''admin'')" (is ?bucket)
    and "list_ex (\<lambda>s. arnObjects b \<in> set (is_Resource s) \<or> arn b \<in> set (is_Resource s)) (pd_Statement (RenderPolicy gs)) \<longleftrightarrow>
      (\<exists>g \<in> set gs. gr_Bucket g = b)" (is ?present)
proof -
  note cross = render_cross[OF assms]
  show ?objects unfolding list_ex_render statement_fields using cross arn_star by auto
  show ?bucket unfolding list_ex_render statement_fields using cross arn_star by auto
  show ?present unfolding list_ex_render statement_fields using cross arn_star by auto
qed

section \<open>The canonical form decides\<close>

definition base_form :: string where
  "base_form = ''allow|s3:ListAllMyBuckets|*''"

definition some_form :: "bool \<Rightarrow> string \<Rightarrow> string" where
  "some_form full resource = ''allow|'' @ (if full then ''s3:*'' else ''s3:Get*,s3:List*'') @ ''|'' @ resource"

definition canon_of :: "string \<times> string \<Rightarrow> string list" where
  "canon_of r = [some_form (snd r \<noteq> ''read'') (arnObjects (fst r)), some_form (snd r = ''admin'') (arn (fst r))]"

lemma some_form_inj [simp]: "some_form f a = some_form g b \<longleftrightarrow> f = g \<and> a = b"
  by (auto simp: some_form_def)

lemma base_form_neq [simp]: "some_form f a \<noteq> base_form" "base_form \<noteq> some_form f a"
  by (auto simp: some_form_def base_form_def)

lemma canonical_base: "canonical_statement base_statement = base_form"
  unfolding base_form_def by code_simp

lemma sort_actions: "sort [''s3:Get*'', ''s3:List*''] = [''s3:Get*'', ''s3:List*'']" "ToLower ''Allow'' = ''allow''"
  by code_simp+

lemma canonical_pair: "[canonical_statement (object_statement g), canonical_statement (bucket_statement g)] = canon_of (rights g)"
proof -
  have "Join (sort (if f then [''s3:*''] else [''s3:Get*'', ''s3:List*''])) '','' = (if f then ''s3:*'' else ''s3:Get*,s3:List*'')" for f
    by (simp add: sort_actions(1))
  then show ?thesis
    by (simp add: canonical_statement_def statement_defs sort_actions(2) canon_of_def rights_def some_form_def)
       (simp add: effective_level_def full_objects_def)
qed

lemma canonical_render:
  "canonicalStatements (Some (RenderPolicy gs)) = Some (sort (base_form # concat (map canon_of (map rights (sort_key gr_Bucket gs)))))"
proof -
  have "map canonical_statement (concat (map (\<lambda>g. [object_statement g, bucket_statement g]) xs)) =
      concat (map canon_of (map rights xs))" for xs
    by (induction xs) (simp_all add: canonical_pair[symmetric])
  then show ?thesis by (simp add: canonicalStatements_def RenderPolicy_def canonical_base)
qed

lemma sort_eq_iff: "sort xs = sort ys \<longleftrightarrow> mset xs = mset ys" for xs ys :: "'a :: linorder list"
proof
  assume "mset xs = mset ys"
  then show "sort xs = sort ys" using properties_for_sort[of "sort ys" xs] by simp
next
  assume "sort xs = sort ys"
  then have "mset (sort xs) = mset (sort ys)" by simp
  then show "mset xs = mset ys" by simp
qed

lemma mset_concat_map: "mset (concat (map f xs)) = \<Sum>\<^sub># (image_mset (\<lambda>x. mset (f x)) (mset xs))"
  by (induction xs) auto

text \<open>In a set of canonical forms the one of a right is found only where the same kind of right to the same bucket is.\<close>

lemma canon_member:
  assumes "CHR ''/'' \<notin> set b" "\<forall>r \<in> R. CHR ''/'' \<notin> set (fst r)"
  shows "some_form f (arnObjects b) \<in> insert base_form (\<Union>r \<in> R. set (canon_of r)) \<Longrightarrow> \<exists>l. (b, l) \<in> R \<and> (l \<noteq> ''read'' \<longleftrightarrow> f)"
    and "some_form f (arn b) \<in> insert base_form (\<Union>r \<in> R. set (canon_of r)) \<Longrightarrow> \<exists>l. (b, l) \<in> R \<and> (l = ''admin'' \<longleftrightarrow> f)"
proof -
  have c: "r \<in> R \<Longrightarrow> arnObjects b \<noteq> arn (fst r)" "arn b \<noteq> arnObjects (fst r)" for r
    using assms(2) arn_objects(2)[of "fst r"] arn_objects(1)[OF assms(1)] by blast+
  show "\<exists>l. (b, l) \<in> R \<and> (l \<noteq> ''read'' \<longleftrightarrow> f)" if "some_form f (arnObjects b) \<in> insert base_form (\<Union>r \<in> R. set (canon_of r))"
  proof -
    from that obtain r where r: "r \<in> R" "some_form f (arnObjects b) \<in> set (canon_of r)" by auto
    with c(1) have "fst r = b" "snd r \<noteq> ''read'' \<longleftrightarrow> f" by (simp_all add: canon_of_def)
    with r(1) show ?thesis by (cases r) auto
  qed
  show "\<exists>l. (b, l) \<in> R \<and> (l = ''admin'' \<longleftrightarrow> f)" if "some_form f (arn b) \<in> insert base_form (\<Union>r \<in> R. set (canon_of r))"
  proof -
    from that obtain r where r: "r \<in> R" "some_form f (arn b) \<in> set (canon_of r)" by auto
    with c(2) have "fst r = b" "snd r = ''admin'' \<longleftrightarrow> f" by (simp_all add: canon_of_def)
    with r(1) show ?thesis by (cases r) auto
  qed
qed

lemma rights_levels: "(b, l) \<in> rights ` A \<Longrightarrow> l = ''read'' \<or> l = ''read-write'' \<or> l = ''admin''"
  by (auto simp: rights_def effective_level_def split: if_splits)

lemma rights_functional:
  assumes "good_grants gs" "(b, l) \<in> rights ` set gs" "(b, m) \<in> rights ` set gs"
  shows "l = m"
proof -
  from assms(1) have "distinct (map gr_Bucket gs)" by (simp add: good_grants_def)
  from level_of_iff[OF this, of b] assms(2,3) show ?thesis by (metis option.inject)
qed

lemma canon_subset:
  assumes "good_grants gs" "good_grants hs"
    and "(\<Union>r \<in> rights ` set gs. set (canon_of r)) \<subseteq> insert base_form (\<Union>r \<in> rights ` set hs. set (canon_of r))"
  shows "rights ` set gs \<subseteq> rights ` set hs"
proof (intro subsetI)
  fix r assume r: "r \<in> rights ` set gs"
  obtain b l where rb: "r = (b, l)" by (cases r)
  from r rb obtain g where "g \<in> set gs" "b = gr_Bucket g" by (auto simp: rights_def)
  then have slash1: "CHR ''/'' \<notin> set b" using assms(1) unfolding good_grants_def by blast
  from assms(2) have "\<forall>r \<in> rights ` set hs. CHR ''/'' \<notin> set (fst r)" by (simp add: good_grants_def rights_def)
  note slash = slash1 this
  have "set (canon_of (b, l)) \<subseteq> insert base_form (\<Union>r \<in> rights ` set hs. set (canon_of r))"
    using UN_upper[OF r, of "\<lambda>r. set (canon_of r)"] assms(3) unfolding rb by (rule order_trans)
  then have "some_form (l \<noteq> ''read'') (arnObjects b) \<in> insert base_form (\<Union>r \<in> rights ` set hs. set (canon_of r))"
    "some_form (l = ''admin'') (arn b) \<in> insert base_form (\<Union>r \<in> rights ` set hs. set (canon_of r))"
    by (simp_all add: canon_of_def)
  from canon_member(1)[OF slash this(1)] canon_member(2)[OF slash this(2)]
  obtain m n where mn: "(b, m) \<in> rights ` set hs" "m \<noteq> ''read'' \<longleftrightarrow> l \<noteq> ''read''" "(b, n) \<in> rights ` set hs" "n = ''admin'' \<longleftrightarrow> l = ''admin''"
    by blast
  have "m = n" using rights_functional[OF assms(2) mn(1,3)] .
  with mn rights_levels[OF r[unfolded rb]] rights_levels[OF mn(1)] have "m = l" by auto
  with mn(1) rb show "r \<in> rights ` set hs" by simp
qed

theorem PoliciesEqual_render:
  assumes "good_grants gs" "good_grants hs"
  shows "PoliciesEqual (Some (RenderPolicy gs)) (Some (RenderPolicy hs)) \<longleftrightarrow> level_of gs = level_of hs"
proof -
  let ?cs = "\<lambda>gs. base_form # concat (map canon_of (map rights (sort_key gr_Bucket gs)))"
  have pe: "PoliciesEqual (Some (RenderPolicy gs)) (Some (RenderPolicy hs)) \<longleftrightarrow> mset (?cs gs) = mset (?cs hs)"
    unfolding PoliciesEqual_def canonical_render option.case by (rule sort_eq_iff)
  have sets: "set (?cs g) = insert base_form (\<Union>r \<in> rights ` set g. set (canon_of r))" for g by auto
  have lv: "level_of gs = level_of hs \<longleftrightarrow> rights ` set gs = rights ` set hs"
  proof
    assume "level_of gs = level_of hs"
    then show "rights ` set gs = rights ` set hs"
      using assms level_of_iff[of gs] level_of_iff[of hs] by (auto simp: good_grants_def set_eq_iff)
  next
    assume "rights ` set gs = rights ` set hs"
    then have "level_of gs b = Some l \<longleftrightarrow> level_of hs b = Some l" for b l
      using assms level_of_iff[of gs b l] level_of_iff[of hs b l] by (simp add: good_grants_def)
    then show "level_of gs = level_of hs" by (intro ext option.expand) (metis option.collapse option.distinct(1))+
  qed
  show ?thesis unfolding pe lv
  proof
    assume "mset (?cs gs) = mset (?cs hs)"
    then have "set (?cs gs) = set (?cs hs)" by (rule mset_eq_setD)
    then have "insert base_form (\<Union>r \<in> rights ` set gs. set (canon_of r)) = insert base_form (\<Union>r \<in> rights ` set hs. set (canon_of r))"
      unfolding sets .
    moreover have "U \<subseteq> insert c V" "V \<subseteq> insert c U" if "insert c U = insert c V" for c :: string and U V using that by blast+
    ultimately show "rights ` set gs = rights ` set hs"
      using canon_subset[OF assms] canon_subset[OF assms(2,1)] by (metis subset_antisym)
  next
    assume eq: "rights ` set gs = rights ` set hs"
    have "distinct (map rights xs)" if "good_grants xs" for xs
      using that by (auto simp: good_grants_def rights_def distinct_map inj_on_def)
    from set_eq_iff_mset_eq_distinct[OF this[OF assms(1)] this[OF assms(2)]] eq
    have "mset (map rights gs) = mset (map rights hs)" by simp
    moreover have "mset (concat (map canon_of (map rights (sort_key gr_Bucket g)))) =
        \<Sum>\<^sub># (image_mset (\<lambda>r. mset (canon_of r)) (mset (map rights g)))" for g
      by (simp only: mset_concat_map mset_map mset_sort)
    ultimately show "mset (?cs gs) = mset (?cs hs)" by (simp only: mset.simps)
  qed
qed

text \<open>
  What a rendered policy grants is what was declared: \<^verbatim>\<open>DeriveLevelForBucket\<close> reads from the policy of a list of grants
  the declared level of every bucket, an unknown level being read, and finds no access to a bucket that is not in the list.
\<close>

theorem DeriveLevel_RenderPolicy:
  assumes "good_grants gs" "CHR ''/'' \<notin> set b"
  shows "DeriveLevelForBucket (Some (RenderPolicy gs)) b = level_of gs b"
proof -
  note full = render_full[OF assms]
  show ?thesis
  proof (cases "\<exists>g \<in> set gs. gr_Bucket g = b")
    case True
    then obtain g where g: "g \<in> set gs" "gr_Bucket g = b" by blast
    have one: "h = g" if "h \<in> set gs" "gr_Bucket h = b" for h
      using assms(1) that g by (auto simp: good_grants_def distinct_map inj_on_def)
    have "level_of gs b = Some (effective_level (gr_Level g))"
      using assms(1) g level_of_iff[of gs b] by (auto simp: good_grants_def rights_def)
    moreover have "(\<exists>g \<in> set gs. gr_Bucket g = b \<and> full_objects (gr_Level g)) \<longleftrightarrow> full_objects (gr_Level g)"
      "(\<exists>g \<in> set gs. gr_Bucket g = b \<and> gr_Level g = ''admin'') \<longleftrightarrow> gr_Level g = ''admin''" using g one by blast+
    ultimately show ?thesis
      unfolding DeriveLevelForBucket_def option.case Let_def full using True by (simp add: effective_level_def full_objects_def)
  next
    case False
    then have "level_of gs b = None" by (auto simp: level_of_def find_None_iff)
    with False show ?thesis unfolding DeriveLevelForBucket_def option.case Let_def full by simp
  qed
qed

definition wit_grants :: "grant list" where
  "wit_grants = [\<lparr>gr_Bucket = ''logs'', gr_Level = ''read-write''\<rparr>, \<lparr>gr_Bucket = ''assets'', gr_Level = ''admin''\<rparr>]"

lemma wit_good_grants: "good_grants wit_grants"
  by (simp add: good_grants_def wit_grants_def)

end
