(* ===== verification/S3Client.thy ===== *)
theory S3Client
  imports S3Policy
begin

text \<open>
  The clients the object-storage controllers share: the v2 user methods of \<^verbatim>\<open>clients/timeweb/storages_users_v2.go\<close>, the
  IAM client of \<^verbatim>\<open>clients/rgwiam\<close> (\<^verbatim>\<open>iam.go\<close>, \<^verbatim>\<open>sigv4.go\<close>), and \<^verbatim>\<open>shared/adminkeys.go\<close>. An IAM query names the keys it is
  signed with; its XML answer is part of the response.
\<close>

section \<open>Requests and answers\<close>

record bucket =
  bk_Id :: int
  bk_Name :: string
  bk_Type :: string
  bk_Description :: string
  bk_Hostname :: string
  bk_Location :: string
  bk_StorageClass :: string
  bk_Status :: string
  bk_ProjectId :: int
  bk_PresetId :: "int option"
  bk_ObjectAmount :: int
  bk_Size :: int
  bk_Used :: int
  bk_IsUnlimited :: bool
  bk_MovedInQuarantineAt :: "string option"

record bucket_create =
  bc_Name :: string
  bc_Type :: string
  bc_Description :: "string option"
  bc_PresetId :: int
  bc_ProjectId :: "int option"

record bucket_update =
  bu_BucketType :: string
  bu_Description :: "string option"
  bu_PresetId :: "int option"

record iam_user =
  iu_ID :: string
  iu_Name :: string
  iu_AccessKey :: string
  iu_SecretKey :: string
  iu_Status :: string

datatype iam_query = PutUserPolicy string string policy_doc | GetUserPolicy string string | DeleteUserPolicy string string

type_synonym s3_keys = "string \<times> string"

datatype s3_req = GetStorage int | CreateStorage bucket_create | UpdateStorage int bucket_update | DeleteStorage int
  | CreateStorageUserV2 string | GetStorageUserV2 string | ListStorageUsersV2 | DeleteStorageUserV2 string
  | GetStorageUsers | IamQuery s3_keys iam_query

datatype s3_payload = PBucket bucket | PIamUser iam_user | PIamUsers "iam_user list" | PAdminKeys "s3_keys list"
  | PPolicyDocument "policy_doc option" | PQueryError string string

fun as_bucket :: "s3_payload \<Rightarrow> bucket option" where
  "as_bucket (PBucket b) = Some b" | "as_bucket _ = None"
fun as_iam_user :: "s3_payload \<Rightarrow> iam_user option" where
  "as_iam_user (PIamUser u) = Some u" | "as_iam_user _ = None"
fun as_iam_users :: "s3_payload \<Rightarrow> iam_user list option" where
  "as_iam_users (PIamUsers us) = Some us" | "as_iam_users _ = None"
fun as_admin_keys :: "s3_payload \<Rightarrow> s3_keys list option" where
  "as_admin_keys (PAdminKeys ks) = Some ks" | "as_admin_keys _ = None"

type_synonym 'w s3_api = "('w, s3_req, s3_payload) api"
type_synonym ('w, 's, 'o, 'a) s3_act = "('w, s3_req, 's, 'o, 'a) act"

text \<open>A body that does not decode is returned as it is by \<^verbatim>\<open>DecodeBody\<close>.\<close>

definition fetch_plain :: "('w, 'q, 'p) api \<Rightarrow> ('p \<Rightarrow> 'a option) \<Rightarrow> 'q \<Rightarrow> ('w, 'q, 's, 'o, 'a) act" where
  "fetch_plain api sel q = bindE (call_classify api q) (\<lambda>resp. case Option.bind (resp_payload resp) sel of
     Some x \<Rightarrow> returnOk x | None \<Rightarrow> throwError DecodeBodyError)"

lemma emits_fetch_plain [emits_rules]: "P q \<Longrightarrow> emits P (fetch_plain api sel q)"
  unfolding fetch_plain_def by (intro emits_rules)

lemma fetch_plain_run:
  "answers api (world s) q p w' \<Longrightarrow> sel p = Some x \<Longrightarrow>
   fetch_plain api sel q s = (Inr x, s\<lparr>world := w', reqs := reqs s @ [q]\<rparr>)"
  by (auto dest!: answers_classify simp: bindE_def fetch_plain_def call_classify_run returnOk_def)

section \<open>The IAM client\<close>

definition PolicyName :: string where "PolicyName = ''iam-user-policy''"

text \<open>The errors of an IAM query; \<open>IamDecode\<close> is an answer whose XML does not parse.\<close>

datatype iam_error = NoSuchEntity | IamTransient | QueryError int string string | IamDecode

definition is_iam_transient :: "iam_error \<Rightarrow> bool" where
  "is_iam_transient e = (case e of IamTransient \<Rightarrow> True
     | QueryError st c m \<Rightarrow> st = 429 \<or> st = 0 \<or> st \<ge> 500 \<and> st \<le> 599 | _ \<Rightarrow> False)"

text \<open>The error as a handler returns it.\<close>

fun iam_go_error :: "iam_error \<Rightarrow> go_error" where
  "iam_go_error NoSuchEntity = Errorf ''rgwiam: no such entity''"
| "iam_go_error IamTransient = Errorf ''rgwiam: transient error''"
| "iam_go_error (QueryError st c m) = Errorf (''rgwiam: IAM query error: code='' @ c @ '' status='' @ Itoa st @ '' msg='' @ m)"
| "iam_go_error IamDecode = Errorf ''rgwiam: decode GetUserPolicy''"

definition classifyQueryError :: "s3_payload http_response \<Rightarrow> iam_error" where
  "classifyQueryError resp = (case resp_payload resp of
     Some (PQueryError code msg) \<Rightarrow> if code = ''NoSuchEntity'' then NoSuchEntity else QueryError (resp_status resp) code msg
   | _ \<Rightarrow> QueryError (resp_status resp) [] [])"

definition iam_result :: "s3_payload http_result \<Rightarrow> iam_error + s3_payload http_response" where
  "iam_result r = (case r of NetErr e \<Rightarrow> Inl IamTransient
   | Resp resp \<Rightarrow> if resp_body resp = ReadError then Inl IamTransient
       else if resp_status resp \<ge> 200 \<and> resp_status resp < 300 then Inr resp
       else Inl (classifyQueryError resp))"

definition iam_do :: "'w s3_api \<Rightarrow> s3_keys \<Rightarrow> iam_query \<Rightarrow> ('w, 's, 'o, iam_error + s3_payload http_response) s3_act" where
  "iam_do api keys q = bindE (call api (IamQuery keys q)) (\<lambda>r. returnOk (iam_result r))"

definition iam_PutUserPolicy :: "'w s3_api \<Rightarrow> s3_keys \<Rightarrow> string \<Rightarrow> policy_doc \<Rightarrow> ('w, 's, 'o, iam_error + unit) s3_act" where
  "iam_PutUserPolicy api keys u doc = bindE (iam_do api keys (PutUserPolicy u PolicyName doc)) (\<lambda>r. returnOk (map_sum (\<lambda>e. e) (\<lambda>_. ()) r))"

definition iam_GetUserPolicy :: "'w s3_api \<Rightarrow> s3_keys \<Rightarrow> string \<Rightarrow> ('w, 's, 'o, iam_error + policy_doc option) s3_act" where
  "iam_GetUserPolicy api keys u = bindE (iam_do api keys (GetUserPolicy u PolicyName)) (\<lambda>r. returnOk (case r of Inl e \<Rightarrow> Inl e
     | Inr resp \<Rightarrow> (case resp_payload resp of Some (PPolicyDocument d) \<Rightarrow> Inr d | _ \<Rightarrow> Inl IamDecode)))"

definition iam_DeleteUserPolicy :: "'w s3_api \<Rightarrow> s3_keys \<Rightarrow> string \<Rightarrow> ('w, 's, 'o, iam_error + unit) s3_act" where
  "iam_DeleteUserPolicy api keys u = bindE (iam_do api keys (DeleteUserPolicy u PolicyName)) (\<lambda>r. returnOk (map_sum (\<lambda>e. e) (\<lambda>_. ()) r))"

lemma emits_iam [emits_rules]:
  "P (IamQuery keys (PutUserPolicy u PolicyName doc)) \<Longrightarrow> emits P (iam_PutUserPolicy api keys u doc)"
  "P (IamQuery keys (GetUserPolicy u PolicyName)) \<Longrightarrow> emits P (iam_GetUserPolicy api keys u)"
  "P (IamQuery keys (DeleteUserPolicy u PolicyName)) \<Longrightarrow> emits P (iam_DeleteUserPolicy api keys u)"
  unfolding iam_PutUserPolicy_def iam_GetUserPolicy_def iam_DeleteUserPolicy_def iam_do_def by (auto intro!: emits_rules)

lemma iam_do_run: "iam_do api keys q s = (Inr (iam_result (fst (api (world s) (IamQuery keys q)))), after_call api (IamQuery keys q) s)"
  by (simp add: iam_do_def bindE_def call_def split: prod.split)

section \<open>\<^verbatim>\<open>DeriveAdminKeys\<close>\<close>

definition DeriveAdminKeys :: "'w s3_api \<Rightarrow> ('w, 's, 'o, s3_keys) s3_act" where
  "DeriveAdminKeys api = bindE (fetch_plain api as_admin_keys GetStorageUsers) (\<lambda>users.
     case users of [] \<Rightarrow> throwError (Errorf ''no account-admin S3 keys found at /api/v1/storages/users'')
     | (ak, sk) # _ \<Rightarrow> if ak = [] \<or> sk = [] then throwError (Errorf ''no account-admin S3 keys found at /api/v1/storages/users'')
         else returnOk (ak, sk))"

lemma emits_DeriveAdminKeys [emits_rules]: "P GetStorageUsers \<Longrightarrow> emits P (DeriveAdminKeys api)"
  unfolding DeriveAdminKeys_def by (intro emits_rules)

end
