(* ===== verification/BucketExternal.thy ===== *)
theory BucketExternal
  imports S3Client
begin

text \<open>
  The S3Bucket kind: \<^verbatim>\<open>internal/controller/s3bucket/external.go\<close>. The generated client decodes numbers as \<^verbatim>\<open>float32\<close>.
\<close>

section \<open>Data\<close>

record bucket_parameters =
  bp_Name :: string
  bp_Type :: string
  bp_StorageClass :: string
  bp_InitialSizeGB :: int
  bp_Location :: "string option"
  bp_Description :: "string option"
  bp_ProjectID :: "int option"

record bucket_disk_stats =
  ds_SizeKB :: int
  ds_UsedKB :: int
  ds_IsUnlimited :: bool

record bucket_observation =
  bo_ID :: "int option"
  bo_Hostname :: "string option"
  bo_Location :: "string option"
  bo_StorageClass :: "string option"
  bo_Status :: "string option"
  bo_LockedPresetID :: "int option"
  bo_DiskStats :: "bucket_disk_stats option"
  bo_ObjectAmount :: "int option"
  bo_MovedInQuarantineAt :: "string option"
  bo_AttachedUsers :: "(string \<times> string) list"

type_synonym bucket_mr = "(bucket_parameters, bucket_observation) mr"
type_synonym ('w, 'a) bucket_act = "('w, bucket_parameters, bucket_observation, 'a) s3_act"

text \<open>The client a reconcile runs with; \<open>be_twFull\<close> tells whether the full client is there.\<close>

record bucket_ext =
  be_pcRef :: pc_ref
  be_twFull :: bool

section \<open>Status and conditions\<close>

definition kbPerGB :: int where "kbPerGB = 1024 * 1024"

definition bucket_populateStatus :: "bucket \<Rightarrow> bucket_mr \<Rightarrow> bucket_mr" where
  "bucket_populateStatus b m = (let st = at_provider m in m\<lparr>at_provider := st\<lparr>
     bo_ID := Some (float32_int (bk_Id b)), bo_Hostname := Some (bk_Hostname b), bo_Location := Some (bk_Location b),
     bo_StorageClass := Some (bk_StorageClass b), bo_Status := Some (bk_Status b),
     bo_DiskStats := Some \<lparr>ds_SizeKB = float32_int (bk_Size b), ds_UsedKB = float32_int (bk_Used b), ds_IsUnlimited = bk_IsUnlimited b\<rparr>,
     bo_ObjectAmount := Some (float32_int (bk_ObjectAmount b)),
     bo_MovedInQuarantineAt := (case bk_MovedInQuarantineAt b of None \<Rightarrow> bo_MovedInQuarantineAt st | Some t \<Rightarrow> Some t),
     bo_LockedPresetID := (case (bo_LockedPresetID st, bk_PresetId b) of
        (None, Some p) \<Rightarrow> if float32_int p \<noteq> 0 then Some (float32_int p) else None | (l, _) \<Rightarrow> l)\<rparr>\<rparr>)"

definition bucket_isUpToDate :: "bucket_parameters \<Rightarrow> bucket \<Rightarrow> bool" where
  "bucket_isUpToDate spec b \<longleftrightarrow>
     (if bp_Type spec \<noteq> bk_Type b then False
      else if \<not> PtrEqString (bp_Description spec) (bk_Description b) then False
      else if bp_ProjectID spec \<noteq> None \<and> bp_ProjectID spec \<noteq> Some (float32_int (bk_ProjectId b)) then False
      else True)"

definition bucket_ready_condition :: "string \<Rightarrow> condition" where
  "bucket_ready_condition state =
     (if ToLower state = ''quarantined'' then ReadyFalse ''BucketQuarantined''
      else if ClassifyUpstreamState state = StateUnfunded then ReadyFalse ''PaymentRequired''
      else if ClassifyUpstreamState state = StateActive then Available
      else Creating)"

definition TypeStorageClassDrift :: cond_type where
  "TypeStorageClassDrift = TypeOther ''StorageClassDrift''"

definition setStorageClassDriftCondition :: "string \<Rightarrow> ('w, unit) bucket_act" where
  "setStorageClassDriftCondition observed =
     (if observed = [] then returnOk ()
      else bindE (gets (\<lambda>m. (bp_StorageClass (for_provider m), c_reason (GetCondition m TypeStorageClassDrift)))) (\<lambda>(declared, reason).
        if observed \<noteq> declared then record_and_set \<lparr>c_type = TypeStorageClassDrift, c_status = ConditionTrue, c_reason = ''UpstreamReclassified''\<rparr>
        else if reason \<noteq> [] then record_and_set \<lparr>c_type = TypeStorageClassDrift, c_status = ConditionFalse, c_reason = ''Aligned''\<rparr>
        else returnOk ()))"

definition bucket_connection :: "bucket \<Rightarrow> (string \<times> string) list" where
  "bucket_connection b = [(''endpoint'', bk_Hostname b), (''bucket'', bk_Name b), (''region'', bk_Location b)]"

section \<open>The mirror of attached users\<close>

text \<open>A user whose policy cannot be read is left out.\<close>

primrec attached_users :: "'w s3_api \<Rightarrow> s3_keys \<Rightarrow> string \<Rightarrow> iam_user list \<Rightarrow> ('w, (string \<times> string) list) bucket_act" where
  "attached_users api keys b [] = returnOk []"
| "attached_users api keys b (u # us) = bindE (iam_GetUserPolicy api keys (iu_Name u)) (\<lambda>r.
     bindE (attached_users api keys b us) (\<lambda>rest. returnOk (case r of Inl e \<Rightarrow> rest
       | Inr doc \<Rightarrow> (case DeriveLevelForBucket doc b of None \<Rightarrow> rest | Some level \<Rightarrow> (iu_Name u, level) # rest))))"

definition set_attached :: "(string \<times> string) list \<Rightarrow> bucket_mr \<Rightarrow> bucket_mr" where
  "set_attached us m = m\<lparr>at_provider := (at_provider m)\<lparr>bo_AttachedUsers := us\<rparr>\<rparr>"

definition populateAttachedUsers :: "'w s3_api \<Rightarrow> bucket_ext \<Rightarrow> ('w, unit) bucket_act" where
  "populateAttachedUsers api e =
     (if \<not> be_twFull e then returnOk ()
      else bindE (attempt (fetch_plain api as_iam_users ListStorageUsersV2)) (\<lambda>r. case r of
        Inl err \<Rightarrow> returnOk ()
      | Inr [] \<Rightarrow> modify_cr (set_attached [])
      | Inr (u # us) \<Rightarrow> bindE (attempt (DeriveAdminKeys api)) (\<lambda>k. case k of
          Inl err \<Rightarrow> returnOk ()
        | Inr keys \<Rightarrow> bindE (gets (\<lambda>m. bp_Name (for_provider m))) (\<lambda>b.
            bindE (attached_users api keys b (u # us)) (\<lambda>att. modify_cr (set_attached att))))))"

section \<open>The handlers\<close>

definition bucket_dim :: dimension where
  "bucket_dim = \<lparr>dim_Name = ''S3BucketPreset'', dim_Kind = DimensionPreset\<rparr>"

definition bucket_size_input :: "bucket_parameters \<Rightarrow> resolve_input" where
  "bucket_size_input fp = PresetBySizeInput \<lparr>ps_DiskGB = bp_InitialSizeGB fp, ps_Location = DerefString (bp_Location fp),
     ps_StorageClass = bp_StorageClass fp\<rparr>"

definition bucket_resolvePresetID :: "'w resolver_iface \<Rightarrow> bucket_ext \<Rightarrow> ('w, int) bucket_act" where
  "bucket_resolvePresetID rslv e = bindE (gets for_provider) (\<lambda>fp.
     bindE (map_resolver_error (run_resolver rslv (be_pcRef e) bucket_dim (bucket_size_input fp))) (\<lambda>out.
     case out of PresetOutput n \<Rightarrow> returnOk n
     | _ \<Rightarrow> throwError (Errorf ''s3bucket: resolver returned unexpected output type'')))"

definition bucket_observed :: "'w s3_api \<Rightarrow> bucket_ext \<Rightarrow> bucket \<Rightarrow> ('w, observation) bucket_act" where
  "bucket_observed api e b =
     bindE (modify_cr (bucket_populateStatus b)) (\<lambda>_.
     bindE (populateAttachedUsers api e) (\<lambda>_.
     bindE (record_and_set (bucket_ready_condition (bk_Status b))) (\<lambda>_.
     bindE (setStorageClassDriftCondition (bk_StorageClass b)) (\<lambda>_.
     bindE (gets for_provider) (\<lambda>fp. returnOk \<lparr>ResourceExists = True, ResourceUpToDate = bucket_isUpToDate fp b,
       ConnectionDetails = bucket_connection b\<rparr>)))))"

definition bucket_Observe :: "'w s3_api \<Rightarrow> bucket_ext \<Rightarrow> ('w, observation) bucket_act" where
  "bucket_Observe api e = bindE (gets external_name) (\<lambda>extName.
     if extName = [] then returnOk absent
     else (case DecodeID extName of None \<Rightarrow> returnOk absent
       | Some n \<Rightarrow> fetch_or_absent api ''s3bucket'' as_bucket (GetStorage n) (bucket_observed api e)))"

definition bucket_create_body :: "bucket_parameters \<Rightarrow> int \<Rightarrow> bucket_create" where
  "bucket_create_body fp presetID = \<lparr>bc_Name = bp_Name fp, bc_Type = bp_Type fp, bc_Description = bp_Description fp,
     bc_PresetId = float32_int presetID, bc_ProjectId = map_option float32_int (bp_ProjectID fp)\<rparr>"

text \<open>The preset recorded on creation is the one the service reports, else the resolved one.\<close>

definition lock_preset :: "int \<Rightarrow> bucket_mr \<Rightarrow> bucket_mr" where
  "lock_preset p m = m\<lparr>at_provider := (at_provider m)\<lparr>bo_LockedPresetID := Some p\<rparr>\<rparr>"

definition bucket_Create :: "'w s3_api \<Rightarrow> 'w resolver_iface \<Rightarrow> bucket_ext \<Rightarrow> ('w, (string \<times> string) list) bucket_act" where
  "bucket_Create api rslv e = bindE (bucket_resolvePresetID rslv e) (\<lambda>presetID.
     bindE (gets for_provider) (\<lambda>fp.
     bindE (fetch api ''s3bucket'' as_bucket (CreateStorage (bucket_create_body fp presetID))) (\<lambda>b.
     bindE (modify_cr (\<lambda>m. m\<lparr>external_name := EncodeID (float32_int (bk_Id b))\<rparr>)) (\<lambda>_.
     bindE (modify_cr (bucket_populateStatus b)) (\<lambda>_.
     bindE (modify_cr (lock_preset (case bk_PresetId b of None \<Rightarrow> presetID
        | Some p \<Rightarrow> if float32_int p \<noteq> 0 then float32_int p else presetID))) (\<lambda>_.
     bindE (modify_cr (SetConditions Creating)) (\<lambda>_. returnOk (bucket_connection b))))))))"

text \<open>The tier of a PATCH: only when the size is known and is not the declared one.\<close>

definition bucket_size_differs :: "bucket_parameters \<Rightarrow> bucket \<Rightarrow> bool" where
  "bucket_size_differs fp b \<longleftrightarrow> \<not> bk_IsUnlimited b \<and> float32_int (bk_Size b) > 0 \<and> float32_int (bk_Size b) div kbPerGB \<noteq> bp_InitialSizeGB fp"

definition bucket_resize :: "'w resolver_iface \<Rightarrow> bucket_ext \<Rightarrow> bucket \<Rightarrow> ('w, int option) bucket_act" where
  "bucket_resize rslv e b = bindE (gets for_provider) (\<lambda>fp.
     if bucket_size_differs fp b then bindE (bucket_resolvePresetID rslv e) (\<lambda>n. returnOk (Some n)) else returnOk None)"

definition patch_bucket :: "'w s3_api \<Rightarrow> int \<Rightarrow> bucket \<Rightarrow> int option \<Rightarrow> ('w, (string \<times> string) list) bucket_act" where
  "patch_bucket api n b resized = bindE (gets for_provider) (\<lambda>fp.
     bindE (write_call api (UpdateStorage n \<lparr>bu_BucketType = bp_Type fp, bu_Description = bp_Description fp,
        bu_PresetId = map_option float32_int resized\<rparr>)) (\<lambda>_.
     bindE (case resized of None \<Rightarrow> returnOk () | Some p \<Rightarrow> modify_cr (lock_preset p)) (\<lambda>_.
     returnOk (bucket_connection b))))"

definition ErrStorageClassMismatch :: go_error where
  "ErrStorageClassMismatch = Errorf ''s3bucket: storage class mismatch''"

definition update_bucket :: "'w s3_api \<Rightarrow> 'w resolver_iface \<Rightarrow> bucket_ext \<Rightarrow> int \<Rightarrow> bucket \<Rightarrow> ('w, (string \<times> string) list) bucket_act" where
  "update_bucket api rslv e n b = bindE (gets for_provider) (\<lambda>fp.
     case FirstImmutableDiff [imm ''name'' (bp_Name fp) (bk_Name b)] of
       Some field \<Rightarrow> RejectImmutableChange field
     | None \<Rightarrow>
         if bk_StorageClass b \<noteq> [] \<and> bk_StorageClass b \<noteq> bp_StorageClass fp
         then bindE (record_and_set (SyncedFalse ''StorageClassMismatch'')) (\<lambda>_. throwError ErrStorageClassMismatch)
         else bindE (bucket_resize rslv e b) (patch_bucket api n b))"

definition bucket_Update :: "'w s3_api \<Rightarrow> 'w resolver_iface \<Rightarrow> bucket_ext \<Rightarrow> ('w, (string \<times> string) list) bucket_act" where
  "bucket_Update api rslv e = bindE (gets external_name) (\<lambda>extName.
     case DecodeID extName of None \<Rightarrow> throwError (Errorf ''s3bucket: decode external-name'')
     | Some n \<Rightarrow> bindE (fetch api ''s3bucket'' as_bucket (GetStorage n)) (update_bucket api rslv e n))"

definition bucket_Delete :: "'w s3_api \<Rightarrow> ('w, unit) bucket_act" where
  "bucket_Delete api = bindE (gets external_name) (\<lambda>extName.
     case DecodeID extName of None \<Rightarrow> returnOk ()
     | Some n \<Rightarrow> delete_or_gone api (DeleteStorage n) (modify_cr (SetConditions Deleting)))"

section \<open>The contract\<close>

definition bucket_get_req :: "bucket_mr \<Rightarrow> s3_req option" where
  "bucket_get_req m = map_option GetStorage (DecodeID (external_name m))"

definition bucket_del_req :: "bucket_mr \<Rightarrow> s3_req option" where
  "bucket_del_req m = map_option DeleteStorage (DecodeID (external_name m))"

interpretation bucket: external_client api "bucket_Observe api e" "bucket_Delete api" bucket_get_req bucket_del_req for api e
  by (rule external_clientI[where pfx = "''s3bucket''" and sel = as_bucket and d = "modify_cr (SetConditions Deleting)"
        and k = "bucket_observed api e"])
     (auto simp: bucket_Observe_def bucket_Delete_def bucket_get_req_def bucket_del_req_def bucket_observed_def
       split: option.splits intro!: reports_present_bindE)

end
