(* ===== verification/BucketTier.thy ===== *)
theory BucketTier
  imports RouterTier BucketExternal Monitored
begin

text \<open>
  What an Update of an S3Bucket may write: a tier only for a resize within the class the service reports, taken from the
  catalog. Then what one Update brings up to date, and what it does not.
\<close>

section \<open>The tier\<close>

text \<open>On a cold cache, a preset that \<^verbatim>\<open>Resolve\<close> returns for a size is in the catalog the API answered.\<close>

lemma resolve_bucket_preset:
  assumes client: "\<And>w. fst (client w GetStoragesPresets) = CatalogResp 200 (Some (StoragesPresets l))"
    and res: "Resolve client t1 t2 t3 pc bucket_dim (PresetBySizeInput inp) (newCache ttl) w = (Inr (PresetOutput n), c', w')"
  shows "\<exists>p \<in> set l. n = float32_int (sp_id p) \<and> go_div (float32_int (sp_disk p)) 1024 = ps_DiskGB inp \<and>
    (ps_Location inp = [] \<or> sp_location p = ps_Location inp) \<and> (ps_StorageClass inp = [] \<or> sp_storage_class p = ps_StorageClass inp)"
proof -
  from Resolve_Inr[OF res] obtain def p where d: "map_of defaultRegistry (dim_Name bucket_dim) = Some def"
      "getOrFetch t1 t2 t3 (pc, bucket_dim) (def_fetch def client) (newCache ttl) w = (Inr p, c', w')"
      "resolve_payload bucket_dim p (PresetBySizeInput inp) = Inr (PresetOutput n)" by metis
  have df: "def_fetch def = fetchS3BucketPresets" using d(1) by (simp add: bucket_dim_def defaultRegistry_def) auto
  have "fst (store_result (pc, bucket_dim) t3 (fst (def_fetch def client w)) (newCache ttl)) = Inr p"
    using d(2) by (auto simp: getOrFetch_def cached_def newCache_def split: prod.splits)
  then have p: "p = PresetPayload (map (\<lambda>p. \<lparr>pe_UpstreamID = float32_int (sp_id p), pe_DescShort = sp_description_short p,
          pe_Location = sp_location p, pe_DiskGB = go_div (float32_int (sp_disk p)) 1024,
          pe_StorageClass = sp_storage_class p, pe_Zone = []\<rparr>) l)"
    using client[of w] by (auto simp: df fetchS3BucketPresets_def catalog_get_def store_result_def split: if_splits prod.splits)
  from d(3) have "MatchPresetBySize inp (case p of PresetPayload es \<Rightarrow> es | _ \<Rightarrow> []) (dim_Name bucket_dim) = Inr n"
    by (auto simp: resolve_payload_def map_sum_def p bucket_dim_def split: sum.splits)
  then obtain e where "filter (size_matches inp) (case p of PresetPayload es \<Rightarrow> es | _ \<Rightarrow> []) = [e]" and n: "pe_UpstreamID e = n"
    by (auto simp: MatchPresetBySize_def split: list.splits)
  then have "e \<in> set (filter (size_matches inp) (case p of PresetPayload es \<Rightarrow> es | _ \<Rightarrow> []))" by (metis list.set_intros(1))
  note this n
  then show ?thesis by (auto simp: p size_matches_def)
qed

text \<open>What the PATCH of an Update may carry: \<open>b\<close> is the bucket as read, \<open>l\<close> the catalog.\<close>

definition class_kept :: "bucket_parameters \<Rightarrow> bucket \<Rightarrow> bool" where
  "class_kept fp b \<longleftrightarrow> TrimSpace (bp_Name fp) = TrimSpace (bk_Name b) \<and> (bk_StorageClass b = [] \<or> bk_StorageClass b = bp_StorageClass fp)"

definition offered :: "bucket_parameters \<Rightarrow> storage_preset \<Rightarrow> bool" where
  "offered fp p \<longleftrightarrow> go_div (float32_int (sp_disk p)) 1024 = bp_InitialSizeGB fp \<and>
     (DerefString (bp_Location fp) = [] \<or> sp_location p = DerefString (bp_Location fp)) \<and>
     (bp_StorageClass fp = [] \<or> sp_storage_class p = bp_StorageClass fp)"

lemma silent_sends_nothing:
  "m s = (r, s') \<Longrightarrow> emits (\<lambda>_. False) m \<Longrightarrow> q \<in> set (reqs s') \<Longrightarrow> q \<in> set (reqs s)"
  by (simp add: emits_False_iff)

lemma preset_case:
  assumes "(case out of PresetOutput n \<Rightarrow> returnOk n | _ \<Rightarrow> throwError err) s = (Inr x, s')"
  obtains "out = PresetOutput x" "s' = s"
  using assms by (cases out) auto

lemma bucket_resize_Inr:
  assumes "bucket_resize rslv e b s = (Inr x, s')"
  shows "cr s' = cr s \<and> reqs s' = reqs s \<and>
    world s' \<in> {world s, snd (rslv (be_pcRef e) bucket_dim (bucket_size_input (for_provider (cr s))) (world s))} \<and> (case x of None \<Rightarrow> True | Some p \<Rightarrow> bucket_size_differs (for_provider (cr s)) b \<and>
    fst (rslv (be_pcRef e) bucket_dim (bucket_size_input (for_provider (cr s))) (world s)) = Inr (PresetOutput p))"
proof (cases "bucket_size_differs (for_provider (cr s)) b")
  case False
  with assms show ?thesis by (simp add: bucket_resize_def returnOk_run)
next
  case True
  with assms obtain n s1 where n: "bucket_resolvePresetID rslv e s = (Inr n, s1)" "x = Some n" "s' = s1"
    by (auto simp: bucket_resize_def bindE_Inr returnOk_run)
  then obtain out where out: "run_resolver rslv (be_pcRef e) bucket_dim (bucket_size_input (for_provider (cr s))) s = (Inr out, s1)" "out = PresetOutput n"
    by (auto simp: bucket_resolvePresetID_def bindE_Inr map_resolver_error_Inr elim!: preset_case)
  with n True show ?thesis by (auto simp: run_resolver_def split: prod.splits)
qed

lemma emits_bucket_resize: "emits (\<lambda>_. False) (bucket_resize rslv e b)"
  unfolding bucket_resize_def bucket_resolvePresetID_def
  by (intro emits_rules) (auto split: resolve_output.split intro!: emits_rules)

lemma emits_patch_bucket:
  "patch_bucket api n b x s = (r, s') \<Longrightarrow> \<exists>qs. reqs s' = reqs s @ qs \<and> list_all (\<lambda>q. q = UpdateStorage n
     \<lparr>bu_BucketType = bp_Type (for_provider (cr s)), bu_Description = bp_Description (for_provider (cr s)), bu_PresetId = map_option float32_int x\<rparr>) qs"
  unfolding patch_bucket_def bindE_gets by (erule emitsD[rotated]) (intro emits_rules refl)

text \<open>A run of \<open>update_bucket\<close> that sends a PATCH.\<close>

lemma update_bucket_sends:
  assumes run: "update_bucket api rslv e n b s = (r, s')" and sent: "UpdateStorage i body \<in> set (reqs s')" "UpdateStorage i body \<notin> set (reqs s)"
  shows "i = n \<and> class_kept (for_provider (cr s)) b \<and> (\<forall>p. bu_PresetId body = Some p \<longrightarrow> bucket_size_differs (for_provider (cr s)) b \<and>
    (\<exists>m. p = float32_int m \<and> fst (rslv (be_pcRef e) bucket_dim (bucket_size_input (for_provider (cr s))) (world s)) = Inr (PresetOutput m)))"
proof -
  let ?fp = "for_provider (cr s)"
  have imm: "FirstImmutableDiff [imm ''name'' (bp_Name ?fp) (bk_Name b)] = None"
  proof (rule ccontr)
    assume "FirstImmutableDiff [imm ''name'' (bp_Name ?fp) (bk_Name b)] \<noteq> None"
    then obtain field where f: "FirstImmutableDiff [imm ''name'' (bp_Name ?fp) (bk_Name b)] = Some field" by blast
    have "RejectImmutableChange field s = (r, s')" using run unfolding update_bucket_def bindE_gets f by simp
    from silent_sends_nothing[OF this emits_Reject(2) sent(1)] sent(2) show False by blast
  qed
  have kept: "class_kept ?fp b"
  proof (rule ccontr)
    assume "\<not> class_kept ?fp b"
    with imm run have "bindE (record_and_set (SyncedFalse ''StorageClassMismatch'')) (\<lambda>_. throwError ErrStorageClassMismatch) s = (r, s')"
      by (auto simp: update_bucket_def class_kept_def split: if_splits)
    from silent_sends_nothing[OF this emits_bindE[OF emits_record_and_set emits_throwError] sent(1)] sent(2) show False by blast
  qed
  with imm run have run': "bindE (bucket_resize rslv e b) (patch_bucket api n b) s = (r, s')"
    by (auto simp: update_bucket_def class_kept_def)
  obtain x s1 where x: "bucket_resize rslv e b s = (x, s1)" by (cases "bucket_resize rslv e b s")
  with emits_bucket_resize have same: "reqs s1 = reqs s" by (metis emits_False_iff)
  from run' x same sent obtain y where y: "x = Inr y" "patch_bucket api n b y s1 = (r, s')" by (cases x) (auto simp: bindE_def)
  from emits_patch_bucket[OF y(2)] same sent have "UpdateStorage i body = UpdateStorage n
     \<lparr>bu_BucketType = bp_Type (for_provider (cr s1)), bu_Description = bp_Description (for_provider (cr s1)), bu_PresetId = map_option float32_int y\<rparr>"
    by (auto simp: list_all_iff)
  then have "i = n" "bu_PresetId body = map_option float32_int y" by simp_all
  with kept bucket_resize_Inr[OF x[unfolded y(1)]] show ?thesis by (auto split: option.splits)
qed



text \<open>Two classes of the same size in the catalog, and a bucket of 10 GB to be grown to 20.\<close>

definition wit_sizes :: "storage_preset list" where
  "wit_sizes = map (\<lambda>(n, c). \<lparr>sp_id = n, sp_description_short = [], sp_disk = 20480, sp_location = ''ru-1'', sp_storage_class = c\<rparr>)
     [(3, ''hot''), (4, ''standard'')]"

definition wit_size_client :: "unit catalog_client" where
  "wit_size_client w q = (CatalogResp 200 (Some (StoragesPresets wit_sizes)), w)"

definition wit_bucket :: bucket where
  "wit_bucket = \<lparr>bk_Id = 5, bk_Name = ''logs'', bk_Type = ''private'', bk_Description = [], bk_Hostname = ''h'', bk_Location = ''ru-1'',
     bk_StorageClass = ''standard'', bk_Status = ''created'', bk_ProjectId = 1, bk_PresetId = Some 2, bk_ObjectAmount = 0, bk_Size = 10485760,
     bk_Used = 0, bk_IsUnlimited = False, bk_MovedInQuarantineAt = None\<rparr>"

definition wit_bucket_fp :: bucket_parameters where
  "wit_bucket_fp = \<lparr>bp_Name = ''logs'', bp_Type = ''private'', bp_StorageClass = ''standard'', bp_InitialSizeGB = 20, bp_Location = Some ''ru-1'',
     bp_Description = None, bp_ProjectID = None\<rparr>"

definition wit_bucket_mr :: bucket_mr where
  "wit_bucket_mr = \<lparr>external_name = ''5'', create_incomplete = False, create_failed = [], for_provider = wit_bucket_fp,
     at_provider = \<lparr>bo_ID = None, bo_Hostname = None, bo_Location = None, bo_StorageClass = None, bo_Status = None, bo_LockedPresetID = None,
       bo_DiskStats = None, bo_ObjectAmount = None, bo_MovedInQuarantineAt = None, bo_AttachedUsers = []\<rparr>, conditions = Map.empty\<rparr>"

definition wit_bucket_api :: "'w s3_api" where
  "wit_bucket_api w q = (Resp (ok_response (PBucket wit_bucket)), w)"

definition wit_bucket_state :: "(cache \<times> unit, s3_req, bucket_parameters, bucket_observation) rstate" where
  "wit_bucket_state = wit_state (newCache 300, ()) wit_bucket_mr"

definition wit_bucket_ext :: bucket_ext where
  "wit_bucket_ext = \<lparr>be_pcRef = wit_pc, be_twFull = False\<rparr>"

lemma wit_size_resolves:
  "fst (resolver_of wit_size_client 0 0 0 wit_pc bucket_dim (bucket_size_input wit_bucket_fp) (newCache 300, ())) = Inr (PresetOutput 4)"
proof -
  let ?def = "\<lparr>def_kind = DimensionPreset, def_fetch = fetchS3BucketPresets\<rparr>"
  let ?p = "PresetPayload (map (\<lambda>(n, c). \<lparr>pe_UpstreamID = n, pe_DescShort = [], pe_Location = ''ru-1'', pe_DiskGB = 20,
      pe_StorageClass = c, pe_Zone = []\<rparr>) [(3, ''hot''), (4, ''standard'')])"
  have d: "map_of defaultRegistry (dim_Name bucket_dim) = Some ?def" by (simp add: bucket_dim_def defaultRegistry_def)
  have k: "def_kind ?def = dim_Kind bucket_dim" by (simp add: bucket_dim_def)
  have f: "fst (def_fetch ?def wit_size_client ()) = Inr ?p"
    by (simp add: fetchS3BucketPresets_def catalog_get_def wit_size_client_def wit_sizes_def float32_int_exact go_div_def)
  have ne: "\<not> isEmptySlice ?p" by (simp add: isEmptySlice_def)
  have "resolve_payload bucket_dim ?p (bucket_size_input wit_bucket_fp) = Inr (PresetOutput 4)" by code_simp
  then have "fst (Resolve wit_size_client 0 0 0 wit_pc bucket_dim (bucket_size_input wit_bucket_fp) (newCache 300) ()) = Inr (PresetOutput 4)"
    unfolding Resolve_newCache[OF d k f ne] .
  then show ?thesis by (simp add: resolver_of_def case_prod_beta)
qed


section \<open>What one Update brings up to date\<close>

text \<open>\<open>store w n\<close> is the bucket with id \<open>n\<close>; a PATCH replaces the fields of its body.\<close>

definition apply_bucket_update :: "bucket_update \<Rightarrow> bucket \<Rightarrow> bucket" where
  "apply_bucket_update u b = b\<lparr>bk_Type := bu_BucketType u, bk_Description := (case bu_Description u of None \<Rightarrow> bk_Description b | Some d \<Rightarrow> d),
     bk_PresetId := (case bu_PresetId u of None \<Rightarrow> bk_PresetId b | Some p \<Rightarrow> Some p)\<rparr>"

definition bucket_service :: "'w s3_api \<Rightarrow> ('w \<Rightarrow> int \<Rightarrow> bucket option) \<Rightarrow> bool" where
  "bucket_service api store \<longleftrightarrow>
     (\<forall>w n b. store w n = Some b \<longrightarrow> answers api w (GetStorage n) (PBucket b) w) \<and>
     (\<forall>w n b u. store w n = Some b \<longrightarrow>
        (\<exists>w' p. answers api w (UpdateStorage n u) p w' \<and> store w' n = Some (apply_bucket_update u b)))"

lemma attached_users_total: "\<exists>x s'. attached_users api keys b us s = (Inr x, s') \<and> cr s' = cr s"
proof (induction us arbitrary: s)
  case (Cons u us)
  obtain r s1 where 1: "iam_GetUserPolicy api keys (iu_Name u) s = (Inr r, s1)" "cr s1 = cr s"
    by (auto simp: iam_GetUserPolicy_def iam_do_run bindE_def returnOk_run)
  from Cons[of s1] obtain x s2 where "attached_users api keys b us s1 = (Inr x, s2)" "cr s2 = cr s1" by blast
  with 1 show ?case by (simp add: bindE_def returnOk_run)
qed (simp add: returnOk_run)

text \<open>The mirror of the attached users never fails an Observe and changes nothing but itself.\<close>

lemma populateAttachedUsers_total:
  "\<exists>s'. populateAttachedUsers api e s = (Inr (), s') \<and> for_provider (cr s') = for_provider (cr s) \<and> external_name (cr s') = external_name (cr s)"
proof -
  have quiet: "cr s' = cr s" if "fetch_plain api sel q s = (r, s')" for sel q r s s' and api :: "('a, s3_req, s3_payload) api"
    using that by (auto simp: fetch_plain_def bindE_def call_classify_run returnOk_run throwError_run split: sum.splits option.splits)
  have keys: "cr s' = cr s" if "DeriveAdminKeys api s = (r, s')" for r s s'
    using that quiet unfolding DeriveAdminKeys_def bindE_def
    by (fastforce simp: returnOk_run throwError_run split: sum.splits prod.splits list.splits if_splits)
  obtain r s1 where r: "fetch_plain api as_iam_users ListStorageUsersV2 s = (r, s1)" by fastforce
  obtain k s2 where k: "DeriveAdminKeys api s1 = (k, s2)" by fastforce
  show ?thesis
  proof (cases "be_twFull e \<and> (\<exists>u us. r = Inr (u # us)) \<and> (\<exists>keys. k = Inr keys)")
    case False
    with r k quiet[OF r] keys[OF k] show ?thesis
      by (cases r; cases k) (auto simp: populateAttachedUsers_def attempt_def bindE_def returnOk_run modify_cr_run set_attached_def split: list.splits)
  next
    case True
    then obtain u us keys where *: "be_twFull e" "r = Inr (u # us)" "k = Inr keys" by blast
    obtain x s3 where "attached_users api keys (bp_Name (for_provider (cr s2))) (u # us) s2 = (Inr x, s3)" "cr s3 = cr s2"
      using attached_users_total by blast
    with * r k quiet[OF r] keys[OF k] show ?thesis
      by (simp add: populateAttachedUsers_def attempt_def bindE_def gets_run modify_cr_run set_attached_def del: attached_users.simps)
  qed
qed


lemma bucket_Observe_run:
  assumes "bucket_service api store" "DecodeID (external_name (cr s)) = Some n" "store (world s) n = Some b"
  shows "\<exists>ob s'. bucket_Observe api e s = (Inr ob, s') \<and> ResourceExists ob \<and> ResourceUpToDate ob = bucket_isUpToDate (for_provider (cr s)) b"
proof -
  have ne: "external_name (cr s) \<noteq> []" using assms(2) by auto
  have "answers api (world s) (GetStorage n) (PBucket b) (world s)" using assms(1,3) by (simp add: bucket_service_def)
  from answers_classify[OF this] obtain resp where resp: "classify_result (fst (api (world s) (GetStorage n))) = Inr resp"
    "resp_payload resp = Some (PBucket b)" by blast
  let ?s = "(after_call api (GetStorage n) s)\<lparr>cr := bucket_populateStatus b (cr s)\<rparr>"
  obtain s1 where s1: "populateAttachedUsers api e ?s = (Inr (), s1)" "for_provider (cr s1) = for_provider (cr ?s)"
    using populateAttachedUsers_total by blast
  have fp: "for_provider (cr s1) = for_provider (cr s)" by (simp add: s1(2) bucket_populateStatus_def Let_def)
  have drift: "\<exists>t'. setStorageClassDriftCondition c t = (Inr (), t') \<and> for_provider (cr t') = for_provider (cr t)" for c t
    by (auto simp: setStorageClassDriftCondition_def)
  obtain t' where t': "setStorageClassDriftCondition (bk_StorageClass b)
      (s1\<lparr>events := events_after (bucket_ready_condition (bk_Status b)) s1, cr := SetConditions (bucket_ready_condition (bk_Status b)) (cr s1)\<rparr>) = (Inr (), t')"
      "for_provider (cr t') = for_provider (cr s)"
    using drift[of "bk_StorageClass b"] fp by fastforce
  have "bucket_Observe api e s = bucket_observed api e b (after_call api (GetStorage n) s)"
    using assms(2) ne resp by (simp add: bucket_Observe_def fetch_or_absent_def on_not_found_def decode_def)
  also have "\<dots> = bindE (populateAttachedUsers api e) (\<lambda>_. bindE (record_and_set (bucket_ready_condition (bk_Status b))) (\<lambda>_.
      bindE (setStorageClassDriftCondition (bk_StorageClass b)) (\<lambda>_. bindE (gets for_provider) (\<lambda>fp. returnOk \<lparr>ResourceExists = True,
        ResourceUpToDate = bucket_isUpToDate fp b, ConnectionDetails = bucket_connection b\<rparr>)))) ?s"
    by (simp add: bucket_observed_def)
  also have "\<dots> = (Inr \<lparr>ResourceExists = True, ResourceUpToDate = bucket_isUpToDate (for_provider (cr s)) b, ConnectionDetails = bucket_connection b\<rparr>, t')"
    using s1(1) t' by (simp add: bindE_def[of "populateAttachedUsers api e"] bindE_def[of "setStorageClassDriftCondition (bk_StorageClass b)"])
  finally show ?thesis by simp
qed

text \<open>
  What an Update of an S3Bucket can repair. After an Update that succeeds, the service having done what the PATCH says, the next
  Observe reports the bucket up to date exactly when its project is the declared one (or none is declared) and no description was to be
  removed: a declared project is compared but never sent, and an absent description is omitted from the PATCH.
\<close>

theorem bucket_Update_repairs:
  assumes "bucket_service api store" "DecodeID (external_name (cr s)) = Some n" "store (world s) n = Some b"
    and reads: "\<And>pc dim inp w. store (snd (rslv pc dim inp w)) = store w"
    and "bucket_Update api rslv e s = (Inr x, s1)"
  shows "\<exists>ob s2. bucket_Observe api e s1 = (Inr ob, s2) \<and> ResourceExists ob \<and>
    (ResourceUpToDate ob \<longleftrightarrow> bp_ProjectID (for_provider (cr s)) \<in> {None, Some (float32_int (bk_ProjectId b))} \<and>
      (bp_Description (for_provider (cr s)) = None \<longrightarrow> bk_Description b = []))"
proof -
  let ?fp = "for_provider (cr s)"
  have get: "answers api (world s) (GetStorage n) (PBucket b) (world s)" using assms(1,3) by (simp add: bucket_service_def)
  have f: "fetch api ''s3bucket'' as_bucket (GetStorage n) s = (Inr b, s\<lparr>world := world s, reqs := reqs s @ [GetStorage n]\<rparr>)" (is "_ = (_, ?t)")
    by (rule fetch_sel_run[OF get]) simp
  have run: "update_bucket api rslv e n b ?t = (Inr x, s1)" using assms(2,5) f by (simp add: bucket_Update_def bindE_def[of "fetch api _ _ _"])
  obtain r t1 where r: "bucket_resize rslv e b ?t = (Inr r, t1)" "patch_bucket api n b r t1 = (Inr x, s1)"
    using run by (auto simp: update_bucket_def RejectImmutableChange_def bindE_Inr[of "bucket_resize rslv e b"] split: option.splits if_splits)
  have cr1: "cr t1 = cr s" using bucket_resize_Inr[OF r(1)] by simp
  have store1: "store (world t1) = store (world s)" using bucket_resize_Inr[OF r(1)] reads by auto
  let ?u = "\<lparr>bu_BucketType = bp_Type ?fp, bu_Description = bp_Description ?fp, bu_PresetId = map_option float32_int r\<rparr>"
  obtain w' p where w': "answers api (world t1) (UpdateStorage n ?u) p w'" "store w' n = Some (apply_bucket_update ?u b)"
    using assms(1,3) store1 unfolding bucket_service_def by metis
  have s1: "world s1 = w'" "for_provider (cr s1) = ?fp" "external_name (cr s1) = external_name (cr s)"
    using r(2) write_call_run[OF w'(1)] cr1
    by (auto simp: patch_bucket_def bindE_def[of "write_call api _"] lock_preset_def split: option.splits)
  from bucket_Observe_run[OF assms(1), of s1 n, unfolded s1] assms(2) w'(2) obtain ob s2
    where "bucket_Observe api e s1 = (Inr ob, s2)" "ResourceExists ob" "ResourceUpToDate ob = bucket_isUpToDate ?fp (apply_bucket_update ?u b)"
    by blast
  then show ?thesis
    by (auto simp: bucket_isUpToDate_def apply_bucket_update_def PtrEqString_def split: option.splits)
qed

text \<open>A service that keeps one bucket.\<close>

definition one_bucket_api :: "bucket s3_api" where
  "one_bucket_api w q = (case q of UpdateStorage n u \<Rightarrow> (Resp (ok_response (PBucket (apply_bucket_update u w))), apply_bucket_update u w)
     | _ \<Rightarrow> (Resp (ok_response (PBucket w)), w))"

lemma one_bucket_service: "bucket_service one_bucket_api (\<lambda>w n. Some w)"
  unfolding bucket_service_def by (auto intro!: exI answers_ok simp: one_bucket_api_def)

theorem bucket_Update_repairs_witness:
  "\<exists>x s1 ob s2. bucket_Update one_bucket_api (\<lambda>pc dim inp w. (Inr (PresetOutput 4), w)) wit_bucket_ext
      (wit_state (wit_bucket\<lparr>bk_Type := ''public''\<rparr>) wit_bucket_mr) = (Inr x, s1) \<and>
    bucket_Observe one_bucket_api wit_bucket_ext s1 = (Inr ob, s2) \<and> ResourceUpToDate ob"
proof -
  let ?rslv = "\<lambda>pc dim inp w. (Inr (PresetOutput 4), w :: bucket)" and ?w = "wit_bucket\<lparr>bk_Type := ''public''\<rparr>"
  let ?s = "wit_state ?w wit_bucket_mr :: (bucket, s3_req, bucket_parameters, bucket_observation) rstate"
  have st: "DecodeID (external_name (cr ?s)) = Some 5" by code_simp
  have fp: "for_provider (cr ?s) = wit_bucket_fp" by (simp add: wit_state_def wit_bucket_mr_def)
  have get: "answers one_bucket_api (world ?s) (GetStorage 5) (PBucket ?w) ?w"
    by (rule answers_ok) (simp add: one_bucket_api_def wit_state_def)
  obtain t where t: "fetch one_bucket_api ''s3bucket'' as_bucket (GetStorage 5) ?s = (Inr ?w, t)" "world t = ?w" "for_provider (cr t) = wit_bucket_fp"
    using fetch_sel_run[OF get, of as_bucket ?w] fp by fastforce
  have same: "FirstImmutableDiff [imm ''name'' (bp_Name wit_bucket_fp) (bk_Name ?w)] = None" "bk_StorageClass ?w = bp_StorageClass wit_bucket_fp"
    by (simp_all add: wit_bucket_fp_def wit_bucket_def)
  have sz: "bucket_size_differs wit_bucket_fp ?w"
    by (simp add: bucket_size_differs_def wit_bucket_fp_def wit_bucket_def float32_int_exact kbPerGB_def)
  have "bucket_resize ?rslv wit_bucket_ext ?w t = (Inr (Some 4), t)"
    using sz by (simp add: bucket_resize_def t bucket_resolvePresetID_def map_resolver_error_def attempt_def run_resolver_def bindE_def gets_run returnOk_run)
  then have "update_bucket one_bucket_api ?rslv wit_bucket_ext 5 ?w t = patch_bucket one_bucket_api 5 ?w (Some 4) t"
    unfolding update_bucket_def bindE_gets t(3) same option.case by (simp add: bindE_def)
  moreover have put: "answers one_bucket_api (world t) (UpdateStorage 5 u) (PBucket (apply_bucket_update u ?w)) (apply_bucket_update u ?w)" for u
    by (rule answers_ok) (simp add: one_bucket_api_def t)
  then have "fst (patch_bucket one_bucket_api 5 ?w (Some 4) t) = Inr (bucket_connection ?w)"
    by (simp add: patch_bucket_def bindE_def[of "write_call _ _"] write_call_run[OF put])
  ultimately have "fst (bucket_Update one_bucket_api ?rslv wit_bucket_ext ?s) = Inr (bucket_connection ?w)"
    using st t(1) by (simp add: bucket_Update_def bindE_def[of "fetch _ _ _ _"])
  then obtain s1 where run: "bucket_Update one_bucket_api ?rslv wit_bucket_ext ?s = (Inr (bucket_connection ?w), s1)" by (metis prod.collapse)
  from bucket_Update_repairs[OF one_bucket_service st refl _ run] fp show ?thesis
    unfolding run by (auto simp: wit_bucket_fp_def wit_bucket_def wit_state_def)
qed

text \<open>Observe does not look at the size, so a resize alone is never carried out.\<close>

lemma bucket_resize_unseen: "bucket_isUpToDate (fp\<lparr>bp_InitialSizeGB := g\<rparr>) b = bucket_isUpToDate fp b"
  by (simp add: bucket_isUpToDate_def)

end
