(* ===== verification/UserExternal.thy ===== *)
theory UserExternal
  imports BucketExternal RouterRefs
begin

text \<open>
  The S3User kind: \<^verbatim>\<open>internal/controller/s3user/external.go\<close>, and \<^verbatim>\<open>connector.go\<close> as far as it derives the admin keys and
  resolves the grants. The cluster is a parameter that gives the S3Bucket of a namespace and name.
\<close>

section \<open>Data\<close>

record bucket_grant =
  bg_BucketRef :: "string option"
  bg_BucketName :: "string option"
  bg_AccessLevel :: string

record s3user_parameters =
  up_Name :: string
  up_BucketAccess :: "bucket_grant list"
  up_ProjectID :: "int option"

record s3user_observation =
  uo_ID :: "string option"
  uo_Status :: "string option"
  uo_AccessKeyID :: "string option"
  uo_PolicyHash :: "string option"
  uo_ResolvedBuckets :: "grant list"

type_synonym s3user_mr = "(s3user_parameters, s3user_observation) mr"
type_synonym ('w, 'a) s3user_act = "('w, s3user_parameters, s3user_observation, 'a) s3_act"
type_synonym s3_kube = "string \<Rightarrow> string \<Rightarrow> bucket_mr kube_get"

record s3user_ext =
  ue_keys :: s3_keys
  ue_grants :: "grant list"
  ue_primaryRegion :: string

section \<open>Resolving the grants\<close>

definition errDuplicateBucket :: go_error where
  "errDuplicateBucket = Errorf ''s3user: duplicate bucket in bucketAccess''"

definition named :: "string option \<Rightarrow> bool" where
  "named p \<longleftrightarrow> p \<noteq> None \<and> p \<noteq> Some []"

definition resolveBucketName :: "s3_kube \<Rightarrow> string \<Rightarrow> bucket_grant \<Rightarrow> go_error + string \<times> string" where
  "resolveBucketName kube ns g =
     (if named (bg_BucketName g) \<and> bg_BucketRef g = None then Inr (the (bg_BucketName g), [])
      else case (if named (bg_BucketName g) then None else bg_BucketRef g) of
        None \<Rightarrow> Inl (Errorf ''s3user: each bucketAccess entry needs exactly one of bucketRef/bucketName'')
      | Some ref \<Rightarrow> (case kube ns ref of
          KNotFound \<Rightarrow> Inl (ErrTargetNotFound ''S3Bucket'')
        | KError e \<Rightarrow> Inl (Wrap ''get S3Bucket'' (Errorf e))
        | KFound target \<Rightarrow>
            if c_status (GetCondition target TypeReady) \<noteq> ConditionTrue then Inl (ErrTargetNotReady ''S3Bucket'')
            else if bp_Name (for_provider target) = [] then Inl (ErrTargetNotReady ''S3Bucket'')
            else Inr (bp_Name (for_provider target), DerefString (bo_Location (at_provider target)))))"

fun collect_grants :: "s3_kube \<Rightarrow> string \<Rightarrow> bool \<Rightarrow> string list \<Rightarrow> bucket_grant list \<Rightarrow> go_error + (grant \<times> string) list" where
  "collect_grants kube ns deleting seen [] = Inr []"
| "collect_grants kube ns deleting seen (g # gs) = (case resolveBucketName kube ns g of
     Inl err \<Rightarrow> if deleting then collect_grants kube ns deleting seen gs else Inl err
   | Inr (name, reg) \<Rightarrow> if name \<in> set seen then Inl (Wrap name errDuplicateBucket)
       else map_sum (\<lambda>e. e) (\<lambda>rest. (\<lparr>gr_Bucket = name, gr_Level = bg_AccessLevel g\<rparr>, reg) # rest)
         (collect_grants kube ns deleting (name # seen) gs))"

definition resolveGrants :: "s3_kube \<Rightarrow> string \<Rightarrow> bool \<Rightarrow> s3user_parameters \<Rightarrow> go_error + grant list \<times> string" where
  "resolveGrants kube ns deleting fp = map_sum (\<lambda>e. e) (\<lambda>gs. let out = sort_key (\<lambda>(g, _). gr_Bucket g) gs in
     (map fst out, case out of [] \<Rightarrow> [] | (_, reg) # _ \<Rightarrow> reg)) (collect_grants kube ns deleting [] (up_BucketAccess fp))"

text \<open>While the resource is being deleted missing admin keys are tolerated: the client then signs with empty keys.\<close>

definition s3user_Connect :: "'w s3_api \<Rightarrow> s3_kube \<Rightarrow> string \<Rightarrow> bool \<Rightarrow> ('w, s3user_ext) s3user_act" where
  "s3user_Connect api kube ns deleting = bindE (attempt (DeriveAdminKeys api)) (\<lambda>k.
     case (case k of Inl err \<Rightarrow> if deleting then Inr ([], []) else Inl err | Inr keys \<Rightarrow> Inr keys) of
       Inl err \<Rightarrow> throwError (Wrap ''s3user'' err)
     | Inr keys \<Rightarrow> bindE (gets for_provider) (\<lambda>fp. bindE (lift_sum (resolveGrants kube ns deleting fp)) (\<lambda>(grants, region).
         returnOk \<lparr>ue_keys = keys, ue_grants = grants, ue_primaryRegion = region\<rparr>)))"

section \<open>Status and connection details\<close>

definition s3user_populateStatus :: "(string \<Rightarrow> string) \<Rightarrow> iam_user \<Rightarrow> policy_doc \<Rightarrow> grant list \<Rightarrow> s3user_mr \<Rightarrow> s3user_mr" where
  "s3user_populateStatus sha u desired grants m = m\<lparr>at_provider := \<lparr>uo_ID = Some (iu_ID u), uo_Status = Some (iu_Status u),
     uo_AccessKeyID = Some (iu_AccessKey u), uo_PolicyHash = Some (PolicyHash sha (Some desired)), uo_ResolvedBuckets = grants\<rparr>\<rparr>"

definition s3user_ready_condition :: "string \<Rightarrow> condition" where
  "s3user_ready_condition status =
     (if TrimSpace status = [] then Available
      else if ClassifyUpstreamState status = StateUnfunded then ReadyFalse ''PaymentRequired''
      else if ClassifyUpstreamState status = StateActive then Available
      else Creating)"

definition s3user_connection :: "iam_user \<Rightarrow> grant list \<Rightarrow> string \<Rightarrow> (string \<times> string) list" where
  "s3user_connection u grants region = [(''access_key'', iu_AccessKey u), (''secret_key'', iu_SecretKey u),
     (''endpoint'', ''https://s3.twcstorage.ru''), (''bucket'', case grants of [] \<Rightarrow> [] | g # _ \<Rightarrow> gr_Bucket g),
     (''buckets'', Join (map gr_Bucket grants) '','')] @ (if region \<noteq> [] then [(''region'', region)] else [])"

section \<open>The handlers\<close>

text \<open>\<open>sha\<close> is the hexadecimal SHA-256.\<close>

definition s3user_verdict :: "(string \<Rightarrow> string) \<Rightarrow> s3user_ext \<Rightarrow> iam_user \<Rightarrow> policy_doc option \<Rightarrow> ('w, observation) s3user_act" where
  "s3user_verdict sha e u doc = (let desired = RenderPolicy (ue_grants e) in
     bindE (modify_cr (s3user_populateStatus sha u desired (ue_grants e))) (\<lambda>_.
     bindE (record_and_set (s3user_ready_condition (iu_Status u))) (\<lambda>_.
     returnOk (present (PoliciesEqual doc (Some desired))))))"

definition s3user_observed :: "'w s3_api \<Rightarrow> (string \<Rightarrow> string) \<Rightarrow> s3user_ext \<Rightarrow> iam_user \<Rightarrow> ('w, observation) s3user_act" where
  "s3user_observed api sha e u = bindE (gets (\<lambda>m. up_Name (for_provider m))) (\<lambda>n.
     bindE (iam_GetUserPolicy api (ue_keys e) n) (\<lambda>r. case r of
       Inl err \<Rightarrow> if err = NoSuchEntity then s3user_verdict sha e u None else throwError (iam_go_error err)
     | Inr doc \<Rightarrow> s3user_verdict sha e u doc))"

definition s3user_Observe :: "'w s3_api \<Rightarrow> (string \<Rightarrow> string) \<Rightarrow> s3user_ext \<Rightarrow> ('w, observation) s3user_act" where
  "s3user_Observe api sha e = bindE (gets external_name) (\<lambda>n.
     if n = [] then returnOk absent
     else fetch_or_absent api ''s3user'' as_iam_user (GetStorageUserV2 n) (s3user_observed api sha e))"

definition findUserByName :: "'w s3_api \<Rightarrow> string \<Rightarrow> ('w, iam_user option) s3user_act" where
  "findUserByName api name = bindE (fetch_plain api as_iam_users ListStorageUsersV2) (\<lambda>us. returnOk (find (\<lambda>u. iu_Name u = name) us))"

definition adoptOrCreate :: "'w s3_api \<Rightarrow> string \<Rightarrow> ('w, iam_user) s3user_act" where
  "adoptOrCreate api name = bindE (findUserByName api name) (\<lambda>found. case found of
     Some u \<Rightarrow> returnOk u | None \<Rightarrow> fetch api ''s3user'' as_iam_user (CreateStorageUserV2 name))"

definition put_policy :: "'w s3_api \<Rightarrow> (string \<Rightarrow> string) \<Rightarrow> s3user_ext \<Rightarrow> iam_user \<Rightarrow> ('w, unit) s3user_act" where
  "put_policy api sha e u = (let desired = RenderPolicy (ue_grants e) in
     bindE (gets (\<lambda>m. up_Name (for_provider m))) (\<lambda>n. bindE (iam_PutUserPolicy api (ue_keys e) n desired) (\<lambda>r. case r of
       Inl err \<Rightarrow> throwError (iam_go_error err)
     | Inr _ \<Rightarrow> modify_cr (s3user_populateStatus sha u desired (ue_grants e)))))"

definition s3user_Create :: "'w s3_api \<Rightarrow> (string \<Rightarrow> string) \<Rightarrow> s3user_ext \<Rightarrow> ('w, (string \<times> string) list) s3user_act" where
  "s3user_Create api sha e = bindE (gets (\<lambda>m. up_Name (for_provider m))) (\<lambda>n. bindE (adoptOrCreate api n) (\<lambda>u.
     bindE (modify_cr (\<lambda>m. m\<lparr>external_name := iu_ID u\<rparr>)) (\<lambda>_.
     bindE (put_policy api sha e u) (\<lambda>_.
     if iu_SecretKey u = [] then bindE (emit_event EventTypeWarning ''SecretMissing'') (\<lambda>_.
        throwError (Errorf ''adopted upstream storage user has no retrievable secret key''))
     else bindE (modify_cr (SetConditions Creating)) (\<lambda>_. returnOk (s3user_connection u (ue_grants e) (ue_primaryRegion e)))))))"

definition s3user_Update :: "'w s3_api \<Rightarrow> (string \<Rightarrow> string) \<Rightarrow> s3user_ext \<Rightarrow> ('w, unit) s3user_act" where
  "s3user_Update api sha e = bindE (gets external_name) (\<lambda>n.
     bindE (fetch api ''s3user'' as_iam_user (GetStorageUserV2 n)) (\<lambda>u.
     bindE (gets for_provider) (\<lambda>fp. case FirstImmutableDiff [imm ''name'' (up_Name fp) (iu_Name u)] of
       Some field \<Rightarrow> RejectImmutableChange field
     | None \<Rightarrow> put_policy api sha e u)))"

definition s3user_Delete :: "'w s3_api \<Rightarrow> s3user_ext \<Rightarrow> ('w, unit) s3user_act" where
  "s3user_Delete api e = bindE (gets (\<lambda>m. (external_name m, up_Name (for_provider m)))) (\<lambda>(i, n).
     if i = [] then returnOk ()
     else bindE (iam_DeleteUserPolicy api (ue_keys e) n) (\<lambda>r.
       case (case r of Inl err \<Rightarrow> if err = NoSuchEntity \<or> is_iam_transient err then None else Some err | Inr _ \<Rightarrow> None) of
         Some err \<Rightarrow> throwError (iam_go_error err)
       | None \<Rightarrow> delete_or_gone api (DeleteStorageUserV2 i) (modify_cr (SetConditions Deleting))))"

definition s3user_get_req :: "s3user_mr \<Rightarrow> s3_req option" where
  "s3user_get_req m = (if external_name m = [] then None else Some (GetStorageUserV2 (external_name m)))"

lemma reports_present_verdict: "reports_present (s3user_verdict sha e u doc)"
  unfolding s3user_verdict_def Let_def by (intro reports_present_bindE) simp

interpretation s3user: external_observer api "s3user_Observe api sha e" s3user_get_req for api sha e
  by (rule external_observerI[where pfx = "''s3user''" and sel = as_iam_user and k = "\<lambda>_. s3user_observed api sha e"])
     (auto simp: s3user_Observe_def s3user_get_req_def s3user_observed_def reports_present_verdict
       split: sum.split intro!: reports_present_bindE)

end
