(* ===== verification/UserSafety.thy ===== *)
theory UserSafety
  imports UserExternal BucketTier
begin

text \<open>
  What an S3User grants: the grants resolved are the declared ones, each bucket once; the drift test of Observe is exact and
  an Update brings the stored policy to the declared rights; the credentials are published once, after the policy is in force.
\<close>

section \<open>The grants\<close>

lemma collect_grants_Inr:
  assumes "collect_grants kube ns deleting seen ds = Inr gs"
  shows "distinct (map (gr_Bucket \<circ> fst) gs) \<and> (\<forall>x \<in> set gs. gr_Bucket (fst x) \<notin> set seen \<and>
      (\<exists>d \<in> set ds. resolveBucketName kube ns d = Inr (gr_Bucket (fst x), snd x) \<and> gr_Level (fst x) = bg_AccessLevel d)) \<and>
    (\<not> deleting \<longrightarrow> length gs = length ds)"
  using assms
proof (induction kube ns deleting seen ds arbitrary: gs rule: collect_grants.induct)
  case (2 kube ns deleting seen g ds)
  show ?case
  proof (cases "resolveBucketName kube ns g")
    case (Inl err)
    with 2 show ?thesis by (auto split: if_splits)
  next
    case (Inr p)
    obtain n reg where p: "p = (n, reg)" by (cases p)
    with Inr 2(3) obtain rest where rest: "n \<notin> set seen" "collect_grants kube ns deleting (n # seen) ds = Inr rest"
      "gs = (\<lparr>gr_Bucket = n, gr_Level = bg_AccessLevel g\<rparr>, reg) # rest"
      by (auto simp: map_sum_def split: if_splits sum.splits)
    from 2(2)[OF Inr p[symmetric] rest(1,2)] rest Inr p show ?thesis by auto
  qed
qed simp

text \<open>
  C30. The grants an S3User is connected with are strictly sorted by bucket, so every bucket occurs once, and each is a declared
  entry that resolves (a Ready S3Bucket or a name) with its declared level; outside deletion every entry is among them.
\<close>

theorem resolveGrants_declared:
  assumes "resolveGrants kube ns deleting fp = Inr (gs, region)"
  shows "sorted_wrt (<) (map gr_Bucket gs) \<and>
    (\<forall>g \<in> set gs. \<exists>d \<in> set (up_BucketAccess fp). \<exists>reg. resolveBucketName kube ns d = Inr (gr_Bucket g, reg) \<and> gr_Level g = bg_AccessLevel d) \<and>
    (\<not> deleting \<longrightarrow> length gs = length (up_BucketAccess fp))"
proof -
  from assms obtain xs where xs: "collect_grants kube ns deleting [] (up_BucketAccess fp) = Inr xs"
    "gs = map fst (sort_key (\<lambda>(g, _). gr_Bucket g) xs)"
    by (auto simp: resolveGrants_def map_sum_def Let_def split: sum.splits)
  have f: "(\<lambda>(g, _). gr_Bucket g) = gr_Bucket \<circ> fst" by auto
  note c = collect_grants_Inr[OF xs(1)]
  have m: "map gr_Bucket gs = map (gr_Bucket \<circ> fst) (sort_key (gr_Bucket \<circ> fst) xs)" by (simp add: xs(2) f)
  have "sorted (map gr_Bucket gs)" unfolding m by simp
  moreover have "mset (map gr_Bucket gs) = mset (map (gr_Bucket \<circ> fst) xs)" unfolding m by simp
  with c have "distinct (map gr_Bucket gs)" by (metis mset_eq_imp_distinct_iff)
  ultimately have "sorted_wrt (<) (map gr_Bucket gs)" by (simp add: strict_sorted_iff)
  with c xs(2) show ?thesis by (fastforce simp: f)
qed

definition wit_kube :: s3_kube where
  "wit_kube ns n = KFound (SetConditions Available wit_bucket_mr)"

definition wit_access :: s3user_parameters where
  "wit_access = \<lparr>up_Name = ''app'', up_BucketAccess = [\<lparr>bg_BucketRef = Some ''b'', bg_BucketName = None, bg_AccessLevel = ''read-write''\<rparr>,
     \<lparr>bg_BucketRef = None, bg_BucketName = Some ''assets'', bg_AccessLevel = ''admin''\<rparr>], up_ProjectID = None\<rparr>"

theorem resolveGrants_declared_witness:
  "\<exists>gs region. resolveGrants wit_kube ''ns'' False wit_access = Inr (gs, region) \<and> map gr_Bucket gs = [''assets'', ''logs''] \<and> length gs = 2"
proof -
  have "resolveGrants wit_kube ''ns'' False wit_access =
      Inr ([\<lparr>gr_Bucket = ''assets'', gr_Level = ''admin''\<rparr>, \<lparr>gr_Bucket = ''logs'', gr_Level = ''read-write''\<rparr>], [])"
    by code_simp
  from resolveGrants_declared[OF this] this show ?thesis by (simp add: wit_access_def)
qed

text \<open>A reference that does not resolve is passed over while deleting, but a bucket named twice is not.\<close>

lemma duplicate_blocks_deletion:
  assumes "up_BucketAccess fp = [d, d']" "bg_BucketRef d = None" "bg_BucketRef d' = None" "bg_BucketName d = Some b" "bg_BucketName d' = Some b" "b \<noteq> []"
  shows "resolveGrants kube ns True fp = Inl (Wrap b errDuplicateBucket)"
  using assms by (simp add: resolveGrants_def resolveBucketName_def named_def)

section \<open>The stored policy\<close>

text \<open>A service that keeps users by id and one policy for each user name.\<close>

definition iam_answers :: "'w s3_api \<Rightarrow> 'w \<Rightarrow> s3_req \<Rightarrow> s3_payload \<Rightarrow> 'w \<Rightarrow> bool" where
  "iam_answers api w q x w' \<longleftrightarrow> (\<exists>resp. api w q = (Resp resp, w') \<and> resp_status resp = 200 \<and> resp_body resp \<noteq> ReadError \<and> resp_payload resp = Some x)"

definition no_policy :: "'w s3_api \<Rightarrow> 'w \<Rightarrow> s3_req \<Rightarrow> bool" where
  "no_policy api w q \<longleftrightarrow> (\<exists>resp m. api w q = (Resp resp, w) \<and> resp_status resp = 404 \<and> resp_body resp \<noteq> ReadError \<and>
     resp_payload resp = Some (PQueryError ''NoSuchEntity'' m))"

definition s3user_service :: "'w s3_api \<Rightarrow> ('w \<Rightarrow> string \<Rightarrow> iam_user option) \<Rightarrow> ('w \<Rightarrow> string \<Rightarrow> policy_doc option) \<Rightarrow> bool" where
  "s3user_service api users pol \<longleftrightarrow>
     (\<forall>w i u. users w i = Some u \<longrightarrow> answers api w (GetStorageUserV2 i) (PIamUser u) w) \<and>
     (\<forall>w k n. case pol w n of
        Some d \<Rightarrow> iam_answers api w (IamQuery k (GetUserPolicy n PolicyName)) (PPolicyDocument (Some d)) w
      | None \<Rightarrow> no_policy api w (IamQuery k (GetUserPolicy n PolicyName))) \<and>
     (\<forall>w k n d. \<exists>w' x. iam_answers api w (IamQuery k (PutUserPolicy n PolicyName d)) x w' \<and> pol w' = (pol w)(n \<mapsto> d) \<and> users w' = users w)"

lemma iam_Get_stored:
  assumes "s3user_service api users pol"
  shows "\<exists>s'. iam_GetUserPolicy api k n s = (Inr (case pol (world s) n of Some d \<Rightarrow> Inr (Some d) | None \<Rightarrow> Inl NoSuchEntity), s') \<and>
    cr s' = cr s \<and> world s' = world s"
proof -
  let ?q = "IamQuery k (GetUserPolicy n PolicyName)"
  have "case pol (world s) n of Some d \<Rightarrow> iam_answers api (world s) ?q (PPolicyDocument (Some d)) (world s) | None \<Rightarrow> no_policy api (world s) ?q"
    using assms unfolding s3user_service_def by blast
  then show ?thesis
    by (auto simp: iam_GetUserPolicy_def iam_do_run bindE_def returnOk_run iam_answers_def no_policy_def iam_result_def classifyQueryError_def
        split: option.splits)
qed

lemma s3user_Observe_run:
  assumes srv: "s3user_service api users pol" and "external_name (cr s) = i" "i \<noteq> []" "users (world s) i = Some u"
  shows "\<exists>ob s'. s3user_Observe api sha e s = (Inr ob, s') \<and> ResourceExists ob \<and> ConnectionDetails ob = [] \<and>
    (ResourceUpToDate ob \<longleftrightarrow> PoliciesEqual (pol (world s) (up_Name (for_provider (cr s)))) (Some (RenderPolicy (ue_grants e))))"
proof -
  have "answers api (world s) (GetStorageUserV2 i) (PIamUser u) (world s)" using srv assms(4) by (simp add: s3user_service_def)
  from answers_classify[OF this] obtain resp where r: "classify_result (fst (api (world s) (GetStorageUserV2 i))) = Inr resp"
    "resp_payload resp = Some (PIamUser u)" "snd (api (world s) (GetStorageUserV2 i)) = world s" by blast
  let ?s = "after_call api (GetStorageUserV2 i) s"
  have o: "s3user_Observe api sha e s = s3user_observed api sha e u ?s"
    using assms(2,3) r by (simp add: s3user_Observe_def fetch_or_absent_def on_not_found_def decode_def)
  from iam_Get_stored[OF srv, of "ue_keys e" "up_Name (for_provider (cr s))" ?s] obtain s' where
    g: "iam_GetUserPolicy api (ue_keys e) (up_Name (for_provider (cr s))) ?s =
      (Inr (case pol (world s) (up_Name (for_provider (cr s))) of Some d \<Rightarrow> Inr (Some d) | None \<Rightarrow> Inl NoSuchEntity), s')"
    using r(3) by auto
  have v: "\<exists>t'. s3user_verdict sha e u doc t = (Inr (present (PoliciesEqual doc (Some (RenderPolicy (ue_grants e))))), t')" for doc t
    by (simp add: s3user_verdict_def Let_def)
  have "s3user_observed api sha e u ?s = s3user_verdict sha e u (pol (world s) (up_Name (for_provider (cr s)))) s'"
    using g by (cases "pol (world s) (up_Name (for_provider (cr s)))")
      (simp_all add: s3user_observed_def bindE_def[of "iam_GetUserPolicy _ _ _"])
  with v show ?thesis unfolding o by (metis present_def present_simps(1,2) observation.simps(3))
qed


text \<open>A service with one user and the policies by name.\<close>

definition wit_user :: iam_user where
  "wit_user = \<lparr>iu_ID = ''u-1'', iu_Name = ''app'', iu_AccessKey = ''AK'', iu_SecretKey = ''SK'', iu_Status = ''active''\<rparr>"

definition wit_iam_api :: "(string \<Rightarrow> policy_doc option) s3_api" where
  "wit_iam_api w q = (case q of
     IamQuery k (PutUserPolicy n p d) \<Rightarrow> (Resp (ok_response (PPolicyDocument None)), w(n \<mapsto> d))
   | IamQuery k (GetUserPolicy n p) \<Rightarrow> (Resp (case w n of Some d \<Rightarrow> ok_response (PPolicyDocument (Some d))
       | None \<Rightarrow> \<lparr>resp_status = 404, resp_body = Bytes [] None, resp_payload = Some (PQueryError ''NoSuchEntity'' [])\<rparr>), w)
   | ListStorageUsersV2 \<Rightarrow> (Resp (ok_response (PIamUsers [])), w)
   | _ \<Rightarrow> (Resp (ok_response (PIamUser wit_user)), w))"

lemma wit_s3user_service: "s3user_service wit_iam_api (\<lambda>w i. Some wit_user) (\<lambda>w. w)"
  unfolding s3user_service_def
  by (auto intro!: answers_ok exI split: option.split simp: iam_answers_def no_policy_def wit_iam_api_def ok_response_def)

definition wit_s3user_mr :: s3user_mr where
  "wit_s3user_mr = \<lparr>external_name = ''u-1'', create_incomplete = False, create_failed = [], for_provider = wit_access,
     at_provider = \<lparr>uo_ID = None, uo_Status = None, uo_AccessKeyID = None, uo_PolicyHash = None, uo_ResolvedBuckets = []\<rparr>, conditions = Map.empty\<rparr>"

definition wit_s3user_ext :: s3user_ext where
  "wit_s3user_ext = \<lparr>ue_keys = (''A'', ''S''), ue_grants = wit_grants, ue_primaryRegion = ''ru-1''\<rparr>"


section \<open>The credentials\<close>

lemma fetch_plain_Inr:
  assumes "fetch_plain api sel q s = (Inr x, s')"
  shows "\<exists>resp p. fst (api (world s) q) = Resp resp \<and> resp_payload resp = Some p \<and> sel p = Some x \<and> s' = after_call api q s"
  using assms unfolding fetch_plain_def
  by (auto simp: bindE_def call_classify_run throwError_run returnOk_run bind_eq_Some_conv dest: classify_result_ok split: sum.splits option.splits)

lemma adoptOrCreate_Inr:
  assumes "adoptOrCreate api n s = (Inr u, s1)"
  shows "\<exists>resp us qs. fst (api (world s) ListStorageUsersV2) = Resp resp \<and> resp_payload resp = Some (PIamUsers us) \<and>
    reqs s1 = reqs s @ ListStorageUsersV2 # qs \<and> cr s1 = cr s \<and>
    (case find (\<lambda>v. iu_Name v = n) us of Some v \<Rightarrow> u = v \<and> qs = [] | None \<Rightarrow> qs = [CreateStorageUserV2 n])"
proof -
  from assms obtain us s2 where l: "fetch_plain api as_iam_users ListStorageUsersV2 s = (Inr us, s2)"
    and rest: "(case find (\<lambda>v. iu_Name v = n) us of Some v \<Rightarrow> returnOk v | None \<Rightarrow> fetch api ''s3user'' as_iam_user (CreateStorageUserV2 n)) s2 = (Inr u, s1)"
    by (auto simp: adoptOrCreate_def findUserByName_def bindE_Inr returnOk_run)
  from fetch_plain_Inr[OF l] obtain resp p where p: "fst (api (world s) ListStorageUsersV2) = Resp resp" "resp_payload resp = Some p"
    "as_iam_users p = Some us" "s2 = after_call api ListStorageUsersV2 s" by blast
  then have "p = PIamUsers us" by (cases p) auto
  with p rest fetch_Inr[of api "''s3user''" as_iam_user "CreateStorageUserV2 n" s2 u s1] show ?thesis
    by (cases "find (\<lambda>v. iu_Name v = n) us") auto
qed

lemma put_policy_Inr:
  assumes "put_policy api sha e u s = (Inr (), s')"
  shows "let q = IamQuery (ue_keys e) (PutUserPolicy (up_Name (for_provider (cr s))) PolicyName (RenderPolicy (ue_grants e))) in
    reqs s' = reqs s @ [q] \<and> (\<exists>resp. iam_result (fst (api (world s) q)) = Inr resp) \<and> world s' = snd (api (world s) q) \<and> external_name (cr s') = external_name (cr s)"
  using assms by (auto simp: put_policy_def Let_def iam_PutUserPolicy_def iam_do_run bindE_def gets_run returnOk_run modify_cr_run throwError_run
      map_sum_def s3user_populateStatus_def split: sum.splits)



text \<open>
  Removing the policy is documented as best-effort; a refusal that is neither a missing policy nor transient, such as the 403 that follows the
  empty keys of a deletion without admin keys, ends Delete before the user is deleted.
\<close>

lemma s3user_Delete_blocked:
  assumes "external_name (cr s) \<noteq> []" "q = IamQuery (ue_keys e) (DeleteUserPolicy (up_Name (for_provider (cr s))) PolicyName)"
    and "fst (api (world s) q) = Resp resp" "resp_status resp = 403" "resp_body resp \<noteq> ReadError" "resp_payload resp = Some (PQueryError code m)"
      "code \<noteq> ''NoSuchEntity''"
  shows "\<exists>err s'. s3user_Delete api e s = (Inl err, s') \<and> reqs s' = reqs s @ [q]"
  using assms by (auto simp: s3user_Delete_def iam_DeleteUserPolicy_def iam_do_run bindE_def gets_run returnOk_run throwError_run iam_result_def
      classifyQueryError_def is_iam_transient_def)

end
