(* ===== verification/DockerConfig.thy ===== *)
theory DockerConfig
  imports Prelude
begin

text \<open>
  The login of a container registry, \<^verbatim>\<open>containerregistry/credentials.go\<close>, with what it uses of Go's \<^verbatim>\<open>encoding/base64\<close>
  and \<^verbatim>\<open>encoding/json\<close>, and a reader of the resulting \<^verbatim>\<open>.dockerconfigjson\<close>. A character is a byte; bytes from 128 on are passed
  through, as they are for valid UTF-8 other than U+2028 and U+2029.
\<close>

section \<open>Base64\<close>

definition base64_alphabet :: string where
  "base64_alphabet = ''ABCDEFGHIJKLMNOPQRSTUVWXYZabcdefghijklmnopqrstuvwxyz0123456789+/''"

definition base64_digit :: "nat \<Rightarrow> char" where
  "base64_digit n = base64_alphabet ! n"

fun base64_encode :: "nat list \<Rightarrow> string" where
  "base64_encode [] = []"
| "base64_encode [a] = [base64_digit (a div 4), base64_digit (a mod 4 * 16), CHR ''='', CHR ''='']"
| "base64_encode [a, b] = [base64_digit (a div 4), base64_digit (a mod 4 * 16 + b div 16), base64_digit (b mod 16 * 4), CHR ''='']"
| "base64_encode (a # b # c # bs) = [base64_digit (a div 4), base64_digit (a mod 4 * 16 + b div 16),
     base64_digit (b mod 16 * 4 + c div 64), base64_digit (c mod 64)] @ base64_encode bs"

text \<open>The reader: the value of a digit, and the bytes of a text.\<close>

definition base64_value :: "char \<Rightarrow> nat option" where
  "base64_value c = map_of (zip base64_alphabet [0..<64]) c"

fun base64_decode :: "string \<Rightarrow> nat list option" where
  "base64_decode [] = Some []"
| "base64_decode (w # x # y # z # cs) = (case (base64_value w, base64_value x) of
     (Some p, Some q) \<Rightarrow> (case (base64_value y, base64_value z) of
        (Some r, Some s) \<Rightarrow> map_option (\<lambda>bs. (p * 4 + q div 16) # (q mod 16 * 16 + r div 4) # (r mod 4 * 64 + s) # bs) (base64_decode cs)
      | (Some r, None) \<Rightarrow> if z = CHR ''='' \<and> cs = [] then Some [p * 4 + q div 16, q mod 16 * 16 + r div 4] else None
      | (None, _) \<Rightarrow> if y = CHR ''='' \<and> z = CHR ''='' \<and> cs = [] then Some [p * 4 + q div 16] else None)
   | _ \<Rightarrow> None)"
| "base64_decode _ = None"

lemma base64_value_digit_all: "list_all (\<lambda>n. base64_value (base64_digit n) = Some n) [0..<64]"
  by code_simp

lemma base64_value_digit [simp]: "n < 64 \<Longrightarrow> base64_value (base64_digit n) = Some n"
  using base64_value_digit_all by (simp add: list_all_iff)

lemma base64_value_pad [simp]: "base64_value (CHR ''='') = None"
  by code_simp

lemma digits_of [simp]:
  fixes x y :: nat
  shows "y < 16 \<Longrightarrow> (x * 16 + y) div 16 = x" "y < 16 \<Longrightarrow> (x * 16 + y) mod 16 = y"
    "y < 4 \<Longrightarrow> (x * 4 + y) div 4 = x" "y < 4 \<Longrightarrow> (x * 4 + y) mod 4 = y"
  by simp_all

lemma digit_bounds:
  fixes a :: nat
  assumes "a < 256"
  shows "a div 4 < 64" "a div 16 < 16" "a div 64 < 4"
  using assms by simp_all

lemma joined_bounds [simp]:
  fixes x y :: nat
  shows "y < 16 \<Longrightarrow> x mod 4 * 16 + y < 64" "y < 4 \<Longrightarrow> x mod 16 * 4 + y < 64" "x mod 4 * 16 < 64" "x mod 16 * 4 < 64" "x mod 64 < 64"
  using mod_less_divisor[of 4 x] mod_less_divisor[of 16 x] by linarith+

lemma base64_decode_encode: "list_all (\<lambda>b. b < 256) bs \<Longrightarrow> base64_decode (base64_encode bs) = Some bs"
  by (induction bs rule: base64_encode.induct) (simp_all add: digit_bounds)

definition to_bytes :: "string \<Rightarrow> nat list" where "to_bytes s = map of_char s"
definition of_bytes :: "nat list \<Rightarrow> string" where "of_bytes bs = map char_of bs"

lemma to_bytes_bounded: "list_all (\<lambda>b. b < 256) (to_bytes s)"
  by (auto simp: to_bytes_def list_all_iff nat_of_char_less_256)

lemma of_bytes_to_bytes [simp]: "of_bytes (to_bytes s) = s"
  by (induction s) (simp_all add: of_bytes_def to_bytes_def)

section \<open>JSON strings\<close>

definition hex_digit :: "nat \<Rightarrow> char" where
  "hex_digit n = ''0123456789abcdef'' ! n"

definition json_escape :: "char \<Rightarrow> string" where
  "json_escape c =
     (if c = CHR 0x22 then [CHR 0x5C, CHR 0x22]
      else if c = CHR 0x5C then [CHR 0x5C, CHR 0x5C]
      else if c = CHR 0x08 then [CHR 0x5C, CHR ''b'']
      else if c = CHR 0x0C then [CHR 0x5C, CHR ''f'']
      else if c = CHR 0x0A then [CHR 0x5C, CHR ''n'']
      else if c = CHR 0x0D then [CHR 0x5C, CHR ''r'']
      else if c = CHR 0x09 then [CHR 0x5C, CHR ''t'']
      else if of_char c < (32 :: nat) \<or> c \<in> {CHR ''<'', CHR ''>'', CHR ''&''}
        then [CHR 0x5C, CHR ''u'', CHR ''0'', CHR ''0'', hex_digit (of_char c div 16), hex_digit (of_char c mod 16)]
      else [c])"

definition json_string :: "string \<Rightarrow> string" where
  "json_string s = CHR 0x22 # concat (map json_escape s) @ [CHR 0x22]"

text \<open>The reader of a string: what stands up to the closing quote, and the rest.\<close>

definition hex_value :: "char \<Rightarrow> nat option" where
  "hex_value c = map_of (zip ''0123456789abcdef'' [0..<16]) c"

definition json_unescape :: "char \<Rightarrow> char option" where
  "json_unescape c = map_of [(CHR 0x22, CHR 0x22), (CHR 0x5C, CHR 0x5C), (CHR ''b'', CHR 0x08), (CHR ''f'', CHR 0x0C),
     (CHR ''n'', CHR 0x0A), (CHR ''r'', CHR 0x0D), (CHR ''t'', CHR 0x09)] c"

definition cons_fst :: "char \<Rightarrow> (string \<times> string) option \<Rightarrow> (string \<times> string) option" where
  "cons_fst c = map_option (\<lambda>(s, rest). (c # s, rest))"

function json_read :: "string \<Rightarrow> (string \<times> string) option" where
  "json_read s = (case s of [] \<Rightarrow> None
     | c # s' \<Rightarrow>
         if c = CHR 0x22 then Some ([], s')
         else if c \<noteq> CHR 0x5C then cons_fst c (json_read s')
         else (case s' of
             e # s'' \<Rightarrow> (case json_unescape e of Some d \<Rightarrow> cons_fst d (json_read s'')
               | None \<Rightarrow> (case s'' of _ # _ # h # l # rest \<Rightarrow>
                     if e = CHR ''u'' then (case (hex_value h, hex_value l) of
                         (Some p, Some q) \<Rightarrow> cons_fst (char_of (p * 16 + q)) (json_read rest) | _ \<Rightarrow> None)
                     else None
                   | _ \<Rightarrow> None))
           | [] \<Rightarrow> None))"
  by pat_completeness auto

termination
  by (relation "measure length") auto

declare json_read.simps [simp del]

lemma json_read_quote [simp]: "json_read (CHR 0x22 # s) = Some ([], s)"
  by (simp add: json_read.simps)

lemma json_read_plain: "c \<noteq> CHR 0x22 \<Longrightarrow> c \<noteq> CHR 0x5C \<Longrightarrow> json_read (c # s) = cons_fst c (json_read s)"
  by (simp add: json_read.simps[of "c # s"])

lemma json_read_short: "json_unescape e = Some d \<Longrightarrow> json_read (CHR 0x5C # e # s) = cons_fst d (json_read s)"
  by (simp add: json_read.simps[of "CHR 0x5C # e # s"])

lemma json_read_hex: "hex_value h = Some p \<Longrightarrow> hex_value l = Some q \<Longrightarrow>
    json_read (CHR 0x5C # CHR ''u'' # a # b # h # l # s) = cons_fst (char_of (p * 16 + q)) (json_read s)"
  by (simp add: json_read.simps[of "CHR 0x5C # CHR ''u'' # a # b # h # l # s"] json_unescape_def)

lemma hex_value_digit_all: "list_all (\<lambda>n. hex_value (hex_digit n) = Some n) [0..<16]"
  by code_simp

lemma hex_value_digit [simp]: "n < 16 \<Longrightarrow> hex_value (hex_digit n) = Some n"
  using hex_value_digit_all by (simp add: list_all_iff)

lemma json_read_escape: "json_read (json_escape c @ s) = cons_fst c (json_read s)"
proof (cases "of_char c < (32 :: nat) \<or> c \<in> {CHR ''<'', CHR ''>'', CHR ''&''}")
  case True
  have "(of_char c :: nat) div 16 < 16" "(of_char c :: nat) mod 16 < 16"
    using digit_bounds(2)[OF nat_of_char_less_256] by simp_all
  from json_read_hex[OF hex_value_digit[OF this(1)] hex_value_digit[OF this(2)], of "CHR ''0''" "CHR ''0''" s]
  have hex: "json_read (CHR 0x5C # CHR ''u'' # CHR ''0'' # CHR ''0'' # hex_digit (of_char c div 16) # hex_digit (of_char c mod 16) # s)
      = cons_fst c (json_read s)" by simp
  with True show ?thesis by (auto simp: json_escape_def json_read_short json_unescape_def)
next
  case False
  then show ?thesis by (auto simp: json_escape_def json_read_short json_read_plain json_unescape_def)
qed

text \<open>A printed string is read back, whatever its characters.\<close>

lemma json_read_string: "json_read (concat (map json_escape s) @ CHR 0x22 # rest) = Some (s, rest)"
  by (induction s) (simp_all add: json_read_escape cons_fst_def)

section \<open>The login of a registry\<close>

definition registryEndpoint :: "string \<Rightarrow> string" where
  "registryEndpoint registryName = registryName @ ''.registry.twcstorage.ru''"

text \<open>\<open>None\<close> is \<^verbatim>\<open>errCredentialsUnavailable\<close>, the only error.\<close>

definition deriveRegistryCredentials :: "string \<Rightarrow> string \<Rightarrow> (string \<times> string) option" where
  "deriveRegistryCredentials registryName apiToken = (if registryName = [] \<or> apiToken = [] then None else Some (registryName, apiToken))"

definition buildDockerConfigJSON :: "string \<Rightarrow> string \<Rightarrow> string \<Rightarrow> string" where
  "buildDockerConfigJSON endpoint username password = (let auth = base64_encode (to_bytes (username @ '':'' @ password)) in
     ''{'' @ json_string ''auths'' @ '':{'' @ json_string endpoint @ '':{'' @ json_string ''username'' @ '':'' @ json_string username @ '','' @
     json_string ''password'' @ '':'' @ json_string password @ '','' @ json_string ''auth'' @ '':'' @ json_string auth @ ''}}}'')"

definition buildConnection :: "string \<Rightarrow> string \<Rightarrow> string \<Rightarrow> (string \<times> string) list" where
  "buildConnection endpoint username password = [(''endpoint'', endpoint), (''username'', username), (''password'', password),
     (''.dockerconfigjson'', buildDockerConfigJSON endpoint username password)]"

text \<open>A reader of the file as a container runtime reads it: the endpoint, the user and password, and the decoded \<^verbatim>\<open>auth\<close>.\<close>

fun expect :: "string \<Rightarrow> string \<Rightarrow> string option" where
  "expect [] s = Some s"
| "expect (c # cs) (d # s) = (if c = d then expect cs s else None)"
| "expect (c # cs) [] = None"

definition expect_string :: "string \<Rightarrow> (string \<times> string) option" where
  "expect_string s = Option.bind (expect [CHR 0x22] s) json_read"

definition read_docker_config :: "string \<Rightarrow> (string \<times> string \<times> string \<times> string) option" where
  "read_docker_config s =
     Option.bind (expect (''{'' @ json_string ''auths'' @ '':{'') s) (\<lambda>s.
     Option.bind (expect_string s) (\<lambda>(endpoint, s).
     Option.bind (expect ('':{'' @ json_string ''username'' @ '':'') s) (\<lambda>s.
     Option.bind (expect_string s) (\<lambda>(username, s).
     Option.bind (expect ('','' @ json_string ''password'' @ '':'') s) (\<lambda>s.
     Option.bind (expect_string s) (\<lambda>(password, s).
     Option.bind (expect ('','' @ json_string ''auth'' @ '':'') s) (\<lambda>s.
     Option.bind (expect_string s) (\<lambda>(auth, s).
     if s = ''}}}'' then map_option (\<lambda>bs. (endpoint, username, password, of_bytes bs)) (base64_decode auth) else None))))))))"

lemma expect_append [simp]: "expect cs (cs @ s) = Some s"
  by (induction cs) simp_all

lemma expect_string_json [simp]: "expect_string (json_string v @ s) = Some (v, s)"
  by (simp add: expect_string_def json_string_def json_read_string)

lemma read_docker_config_build:
  "read_docker_config (buildDockerConfigJSON endpoint username password) = Some (endpoint, username, password, username @ '':'' @ password)"
proof -
  let ?auth = "base64_encode (to_bytes (username @ '':'' @ password))"
  have step: "Option.bind (expect lit (lit @ json_string v @ s)) (\<lambda>s. Option.bind (expect_string s) f) = f (v, s)" for lit v s and f :: "string \<times> string \<Rightarrow> 'z option"
    by simp
  have "buildDockerConfigJSON endpoint username password =
    (''{'' @ json_string ''auths'' @ '':{'') @ json_string endpoint @ ('':{'' @ json_string ''username'' @ '':'') @ json_string username @
    ('','' @ json_string ''password'' @ '':'') @ json_string password @ ('','' @ json_string ''auth'' @ '':'') @ json_string ?auth @ ''}}}''"
    unfolding buildDockerConfigJSON_def Let_def append_assoc ..
  then show ?thesis
    unfolding read_docker_config_def
    by (simp only: step prod.case) (simp add: base64_decode_encode[OF to_bytes_bounded])
qed

text \<open>What \<^verbatim>\<open>connectionDetails\<close> publishes for a registry; \<open>None\<close> is \<^verbatim>\<open>errCredentialsUnavailable\<close>.\<close>

definition registry_connectionDetails :: "string \<Rightarrow> string \<Rightarrow> (string \<times> string) list option" where
  "registry_connectionDetails registryName apiToken = map_option (\<lambda>(username, password).
     buildConnection (registryEndpoint registryName) username password) (deriveRegistryCredentials registryName apiToken)"



end
