(* ===== verification/RegistryExternal.thy ===== *)
theory RegistryExternal
  imports DockerConfig RouterRefs ResolverClient
begin

text \<open>
  The ContainerRegistry and ContainerRegistryRepository kinds: \<^verbatim>\<open>containerregistry/registry_external.go\<close> and
  \<^verbatim>\<open>repository_external.go\<close>. The two times of a registry are its formatted texts. The parent of a repository is read from
  the cluster through the parameter \<open>kube\<close>, which takes a name of the repository's own namespace.
\<close>

section \<open>Data\<close>

record registry_parameters =
  gp_Name :: string
  gp_Description :: "string option"
  gp_InitialSizeGB :: int
  gp_Location :: "string option"
  gp_ProjectID :: "int option"

record registry_observation =
  go_ID :: "int option"
  go_LockedPresetID :: "int option"
  go_ProjectID :: "int option"
  go_DiskStats :: "(int \<times> int) option"
  go_CreatedAt :: "string option"
  go_UpdatedAt :: "string option"
  go_Endpoint :: "string option"

record registry =
  rg_Id :: int
  rg_Name :: string
  rg_Description :: string
  rg_DiskSize :: int
  rg_DiskUsed :: int
  rg_PresetId :: int
  rg_ProjectId :: int
  rg_CreatedAt :: string
  rg_UpdatedAt :: string

record registry_create =
  gc_Name :: string
  gc_Description :: "string option"
  gc_PresetId :: int
  gc_ProjectId :: "int option"

record registry_update =
  gu_Description :: "string option"
  gu_PresetId :: int

record repository_tag =
  tg_Tag :: string
  tg_Digest :: string
  tg_SizeBytes :: int

record repository =
  ry_Name :: string
  ry_Tags :: "repository_tag list"

record repository_parameters =
  yp_RegistryRef :: string
  yp_Name :: string

record repository_observation =
  yo_Tags :: "repository_tag list"
  yo_TagCount :: "int option"

datatype registry_req = GetRegistry int | CreateRegistry registry_create | UpdateRegistry int registry_update | DeleteRegistry int
  | GetRegistryRepositories int
datatype registry_payload = PRegistry registry | PRepositories "repository list"

fun as_registry :: "registry_payload \<Rightarrow> registry option" where
  "as_registry (PRegistry r) = Some r" | "as_registry _ = None"
fun as_repositories :: "registry_payload \<Rightarrow> repository list option" where
  "as_repositories (PRepositories rs) = Some rs" | "as_repositories _ = None"

type_synonym 'w registry_api = "('w, registry_req, registry_payload) api"
type_synonym registry_mr = "(registry_parameters, registry_observation) mr"
type_synonym ('w, 'a) registry_act = "('w, registry_req, registry_parameters, registry_observation, 'a) act"
type_synonym repository_mr = "(repository_parameters, repository_observation) mr"
type_synonym ('w, 'a) repository_act = "('w, registry_req, repository_parameters, repository_observation, 'a) act"

text \<open>The client a reconcile of a registry runs with.\<close>

record registry_ext =
  ge_pcRef :: pc_ref
  ge_apiToken :: string

section \<open>Registries\<close>

definition populateRegistryStatus :: "registry \<Rightarrow> registry_mr \<Rightarrow> registry_mr" where
  "populateRegistryStatus r m = (let st = at_provider m in m\<lparr>at_provider := st\<lparr>
     go_ID := Some (rg_Id r), go_ProjectID := Some (rg_ProjectId r), go_DiskStats := Some (rg_DiskSize r, rg_DiskUsed r),
     go_CreatedAt := Some (rg_CreatedAt r), go_UpdatedAt := Some (rg_UpdatedAt r), go_Endpoint := Some (registryEndpoint (rg_Name r)),
     go_LockedPresetID := (if go_LockedPresetID st = None \<and> rg_PresetId r \<noteq> 0 then Some (rg_PresetId r) else go_LockedPresetID st)\<rparr>\<rparr>)"

definition isRegistryUpToDate :: "registry_parameters \<Rightarrow> registry \<Rightarrow> bool" where
  "isRegistryUpToDate spec r \<longleftrightarrow>
     (if \<not> PtrEqString (gp_Description spec) (rg_Description r) then False
      else if gp_ProjectID spec \<noteq> None \<and> gp_ProjectID spec \<noteq> Some (rg_ProjectId r) then False
      else True)"

text \<open>The connection of \<^verbatim>\<open>connectionDetails\<close> where \<^verbatim>\<open>errCredentialsUnavailable\<close> is tolerated; its other error does not occur.\<close>

definition registry_conn :: "registry_ext \<Rightarrow> registry \<Rightarrow> (string \<times> string) list \<Rightarrow> (string \<times> string) list" where
  "registry_conn e r fallback = (case registry_connectionDetails (rg_Name r) (ge_apiToken e) of None \<Rightarrow> fallback | Some conn \<Rightarrow> conn)"

definition registry_dim :: dimension where
  "registry_dim = \<lparr>dim_Name = ''ContainerRegistryPreset'', dim_Kind = DimensionPreset\<rparr>"

definition registry_size_input :: "registry_parameters \<Rightarrow> resolve_input" where
  "registry_size_input fp = PresetBySizeInput \<lparr>ps_DiskGB = gp_InitialSizeGB fp, ps_Location = DerefString (gp_Location fp), ps_StorageClass = []\<rparr>"

definition registry_resolvePresetID :: "'w resolver_iface \<Rightarrow> registry_ext \<Rightarrow> ('w, int) registry_act" where
  "registry_resolvePresetID rslv e = bindE (gets for_provider) (\<lambda>fp.
     bindE (map_resolver_error (run_resolver rslv (ge_pcRef e) registry_dim (registry_size_input fp))) (\<lambda>out.
     case out of PresetOutput n \<Rightarrow> returnOk n
     | _ \<Rightarrow> throwError (Errorf ''containerregistry: resolver returned unexpected output type'')))"

definition registry_observed :: "registry_ext \<Rightarrow> registry \<Rightarrow> ('w, observation) registry_act" where
  "registry_observed e r =
     bindE (modify_cr (populateRegistryStatus r)) (\<lambda>_.
     bindE (record_and_set Available) (\<lambda>_.
     bindE (gets for_provider) (\<lambda>fp. returnOk \<lparr>ResourceExists = True, ResourceUpToDate = isRegistryUpToDate fp r,
       ConnectionDetails = registry_conn e r [(''endpoint'', registryEndpoint (rg_Name r))]\<rparr>)))"

definition registry_Observe :: "'w registry_api \<Rightarrow> registry_ext \<Rightarrow> ('w, observation) registry_act" where
  "registry_Observe api e = bindE (gets external_name) (\<lambda>extName.
     if extName = [] then returnOk absent
     else (case DecodeID extName of None \<Rightarrow> returnOk absent
       | Some n \<Rightarrow> fetch_or_absent api ''containerregistry'' as_registry (GetRegistry n) (registry_observed e)))"

definition lock_registry_preset :: "int \<Rightarrow> registry_mr \<Rightarrow> registry_mr" where
  "lock_registry_preset p m = m\<lparr>at_provider := (at_provider m)\<lparr>go_LockedPresetID := Some p\<rparr>\<rparr>"

definition registry_Create :: "'w registry_api \<Rightarrow> 'w resolver_iface \<Rightarrow> registry_ext \<Rightarrow> ('w, (string \<times> string) list) registry_act" where
  "registry_Create api rslv e = bindE (registry_resolvePresetID rslv e) (\<lambda>presetID.
     bindE (gets for_provider) (\<lambda>fp.
     bindE (fetch api ''containerregistry'' as_registry (CreateRegistry \<lparr>gc_Name = gp_Name fp, gc_Description = gp_Description fp,
        gc_PresetId = presetID, gc_ProjectId = gp_ProjectID fp\<rparr>)) (\<lambda>r.
     bindE (modify_cr (\<lambda>m. m\<lparr>external_name := EncodeID (rg_Id r)\<rparr>)) (\<lambda>_.
     bindE (modify_cr (populateRegistryStatus r)) (\<lambda>_.
     bindE (modify_cr (lock_registry_preset (if rg_PresetId r \<noteq> 0 then rg_PresetId r else presetID))) (\<lambda>_.
     bindE (record_and_set Creating) (\<lambda>_. returnOk (registry_conn e r []))))))))"

definition update_registry :: "'w registry_api \<Rightarrow> 'w resolver_iface \<Rightarrow> registry_ext \<Rightarrow> int \<Rightarrow> registry \<Rightarrow> ('w, (string \<times> string) list) registry_act" where
  "update_registry api rslv e n r = bindE (gets for_provider) (\<lambda>fp.
     case FirstImmutableDiff [imm ''name'' (gp_Name fp) (rg_Name r)] of
       Some field \<Rightarrow> RejectImmutableChange field
     | None \<Rightarrow> bindE (registry_resolvePresetID rslv e) (\<lambda>presetID.
         bindE (write_call api (UpdateRegistry n \<lparr>gu_Description = gp_Description fp, gu_PresetId = presetID\<rparr>)) (\<lambda>_.
         bindE (modify_cr (lock_registry_preset presetID)) (\<lambda>_. returnOk (registry_conn e r [])))))"

definition registry_Update :: "'w registry_api \<Rightarrow> 'w resolver_iface \<Rightarrow> registry_ext \<Rightarrow> ('w, (string \<times> string) list) registry_act" where
  "registry_Update api rslv e = bindE (gets external_name) (\<lambda>extName.
     case DecodeID extName of None \<Rightarrow> throwError (Errorf ''containerregistry: decode external-name'')
     | Some n \<Rightarrow> bindE (fetch api ''containerregistry'' as_registry (GetRegistry n)) (update_registry api rslv e n))"

definition registry_Delete :: "'w registry_api \<Rightarrow> ('w, unit) registry_act" where
  "registry_Delete api = bindE (gets external_name) (\<lambda>extName.
     case DecodeID extName of None \<Rightarrow> returnOk ()
     | Some n \<Rightarrow> delete_or_gone api (DeleteRegistry n) (modify_cr (SetConditions Deleting)))"

definition registry_get_req :: "registry_mr \<Rightarrow> registry_req option" where
  "registry_get_req m = map_option GetRegistry (DecodeID (external_name m))"

definition registry_del_req :: "registry_mr \<Rightarrow> registry_req option" where
  "registry_del_req m = map_option DeleteRegistry (DecodeID (external_name m))"

interpretation registry: external_client api "registry_Observe api e" "registry_Delete api" registry_get_req registry_del_req for api e
  by (rule external_clientI[where pfx = "''containerregistry''" and sel = as_registry and d = "modify_cr (SetConditions Deleting)"
        and k = "registry_observed e"])
     (auto simp: registry_Observe_def registry_Delete_def registry_get_req_def registry_del_req_def registry_observed_def
       split: option.splits intro!: reports_present_bindE)

section \<open>Repositories\<close>

definition isParentReady :: "registry_mr \<Rightarrow> bool" where
  "isParentReady parent \<longleftrightarrow> c_status (GetCondition parent TypeReady) = ConditionTrue"

definition parent_not_ready :: "('w, observation) repository_act" where
  "parent_not_ready = bindE (record_and_set (ReadyFalse ''ParentNotReady'')) (\<lambda>_. returnOk absent)"

text \<open>The status and external name of a repository that is listed.\<close>

definition repository_found :: "repository \<Rightarrow> repository_mr \<Rightarrow> repository_mr" where
  "repository_found y m = m\<lparr>at_provider := \<lparr>yo_Tags = ry_Tags y, yo_TagCount = Some (int (length (ry_Tags y)))\<rparr>,
     external_name := (if external_name m = [] then EncodeComposite (yp_RegistryRef (for_provider m), yp_Name (for_provider m)) else external_name m)\<rparr>"

definition repository_listed :: "repository list \<Rightarrow> ('w, observation) repository_act" where
  "repository_listed ys = bindE (gets (\<lambda>m. yp_Name (for_provider m))) (\<lambda>n. case find (\<lambda>y. ry_Name y = n) ys of
     Some y \<Rightarrow> bindE (modify_cr (repository_found y)) (\<lambda>_. bindE (record_and_set Available) (\<lambda>_. returnOk (present True)))
   | None \<Rightarrow> bindE (record_and_set (ReadyFalse ''RepositoryNotPushed'')) (\<lambda>_. returnOk absent))"

definition repository_Observe :: "'w registry_api \<Rightarrow> (string \<Rightarrow> registry_mr kube_get) \<Rightarrow> ('w, observation) repository_act" where
  "repository_Observe api kube = bindE (gets (\<lambda>m. yp_RegistryRef (for_provider m))) (\<lambda>parentRef. case kube parentRef of
     KFound parent \<Rightarrow>
       if external_name parent = [] then parent_not_ready
       else if \<not> isParentReady parent then parent_not_ready
       else (case DecodeID (external_name parent) of
           None \<Rightarrow> throwError (Errorf ''repository: parent external-name'')
         | Some n \<Rightarrow> bindE (attempt (call_classify api (GetRegistryRepositories n)))
             (on_not_found parent_not_ready (\<lambda>resp. bindE (decode ''repository'' as_repositories resp) repository_listed)))
   | KNotFound \<Rightarrow> throwError (Errorf ''repository: get parent registry'')
   | KError e \<Rightarrow> throwError (Wrap ''repository: get parent registry'' (Errorf e)))"

definition repository_Create :: "('w, unit) repository_act" where
  "repository_Create = bindE (modify_cr (\<lambda>m. m\<lparr>external_name := EncodeComposite (yp_RegistryRef (for_provider m), yp_Name (for_provider m))\<rparr>))
     (\<lambda>_. modify_cr (SetConditions (ReadyFalse ''RepositoryNotPushed'')))"

definition repository_Update :: "('w, unit) repository_act" where
  "repository_Update = returnOk ()"

definition repository_Delete :: "('w, unit) repository_act" where
  "repository_Delete = emit_event EventTypeNormal ''DeleteNoOp''"

end
