(* ===== verification/RegistrySafety.thy ===== *)
theory RegistrySafety
  imports RegistryExternal
begin

text \<open>
  What one Update of a ContainerRegistry brings up to date, when a repository is reported, and what the runtime makes of the
  handlers of a repository.
\<close>

section \<open>Registries\<close>

definition apply_registry_update :: "registry_update \<Rightarrow> registry \<Rightarrow> registry" where
  "apply_registry_update u r = r\<lparr>rg_Description := (case gu_Description u of None \<Rightarrow> rg_Description r | Some d \<Rightarrow> d),
     rg_PresetId := gu_PresetId u\<rparr>"

text \<open>A service that keeps registries in a store and does what a PATCH says.\<close>

definition registry_service :: "'w registry_api \<Rightarrow> ('w \<Rightarrow> int \<Rightarrow> registry option) \<Rightarrow> bool" where
  "registry_service api store \<longleftrightarrow>
     (\<forall>w n r. store w n = Some r \<longrightarrow> answers api w (GetRegistry n) (PRegistry r) w) \<and>
     (\<forall>w n r u. store w n = Some r \<longrightarrow>
        (\<exists>w' p. answers api w (UpdateRegistry n u) p w' \<and> store w' n = Some (apply_registry_update u r)))"

lemma registry_resolvePresetID_Inr:
  assumes "registry_resolvePresetID rslv e s = (Inr p, s')"
  shows "cr s' = cr s \<and> (\<exists>w'. rslv (ge_pcRef e) registry_dim (registry_size_input (for_provider (cr s))) (world s) = (Inr (PresetOutput p), w') \<and> world s' = w')"
proof -
  from assms obtain out s1 where out: "run_resolver rslv (ge_pcRef e) registry_dim (registry_size_input (for_provider (cr s))) s = (Inr out, s1)"
    "(case out of PresetOutput n \<Rightarrow> returnOk n | _ \<Rightarrow> throwError (Errorf ''containerregistry: resolver returned unexpected output type'')) s1 = (Inr p, s')"
    by (auto simp: registry_resolvePresetID_def bindE_Inr map_resolver_error_Inr)
  then have "out = PresetOutput p \<and> s' = s1" by (cases out) auto
  with out(1) show ?thesis by (auto simp: run_resolver_def split: prod.splits)
qed

lemma registry_Observe_run:
  assumes "registry_service api store" "DecodeID (external_name (cr s)) = Some n" "store (world s) n = Some r"
  shows "\<exists>ob s'. registry_Observe api e s = (Inr ob, s') \<and> ResourceExists ob \<and> ResourceUpToDate ob = isRegistryUpToDate (for_provider (cr s)) r \<and>
    at_provider (cr s') = at_provider (populateRegistryStatus r (cr s))"
proof -
  have ne: "external_name (cr s) \<noteq> []" using assms(2) by auto
  have "answers api (world s) (GetRegistry n) (PRegistry r) (world s)" using assms(1,3) by (simp add: registry_service_def)
  from answers_classify[OF this] obtain resp where "classify_result (fst (api (world s) (GetRegistry n))) = Inr resp"
    "resp_payload resp = Some (PRegistry r)" by blast
  with assms(2) ne show ?thesis
    by (simp add: registry_Observe_def fetch_or_absent_def on_not_found_def decode_def registry_observed_def populateRegistryStatus_def Let_def)
qed

text \<open>
  What an Update of a ContainerRegistry can repair. After an Update that succeeds, the service having done what the PATCH says, the
  registry has the tier the catalog gives for the declared size, and the next Observe reports it up to date exactly when its project is the
  declared one (or none is declared) and no description was to be removed: a declared project is compared but never sent.
\<close>

theorem registry_Update_repairs:
  assumes "registry_service api store" "DecodeID (external_name (cr s)) = Some n" "store (world s) n = Some r"
    and reads: "\<And>pc dim inp w. store (snd (rslv pc dim inp w)) = store w"
    and "registry_Update api rslv e s = (Inr x, s1)"
  shows "\<exists>p r' ob s2. fst (rslv (ge_pcRef e) registry_dim (registry_size_input (for_provider (cr s))) (world s)) = Inr (PresetOutput p) \<and>
    store (world s1) n = Some r' \<and> rg_PresetId r' = p \<and> go_LockedPresetID (at_provider (cr s1)) = Some p \<and>
    registry_Observe api e s1 = (Inr ob, s2) \<and> ResourceExists ob \<and>
    (ResourceUpToDate ob \<longleftrightarrow> gp_ProjectID (for_provider (cr s)) \<in> {None, Some (rg_ProjectId r)} \<and>
      (gp_Description (for_provider (cr s)) = None \<longrightarrow> rg_Description r = []))"
proof -
  let ?fp = "for_provider (cr s)"
  have get: "answers api (world s) (GetRegistry n) (PRegistry r) (world s)" using assms(1,3) by (simp add: registry_service_def)
  have f: "fetch api ''containerregistry'' as_registry (GetRegistry n) s = (Inr r, s\<lparr>world := world s, reqs := reqs s @ [GetRegistry n]\<rparr>)" (is "_ = (_, ?t)")
    by (rule fetch_sel_run[OF get]) simp
  have run: "update_registry api rslv e n r ?t = (Inr x, s1)" using assms(2,5) f by (simp add: registry_Update_def bindE_def[of "fetch api _ _ _"])
  let ?u = "\<lambda>p. \<lparr>gu_Description = gp_Description ?fp, gu_PresetId = p\<rparr>"
  obtain p t1 where p: "registry_resolvePresetID rslv e ?t = (Inr p, t1)"
    "bindE (write_call api (UpdateRegistry n (?u p))) (\<lambda>_. bindE (modify_cr (lock_registry_preset p)) (\<lambda>_. returnOk (registry_conn e r []))) t1 = (Inr x, s1)"
    using run by (auto simp: update_registry_def RejectImmutableChange_def bindE_Inr[of "registry_resolvePresetID rslv e"] split: option.splits)
  from registry_resolvePresetID_Inr[OF p(1)] obtain w1 where res: "rslv (ge_pcRef e) registry_dim (registry_size_input ?fp) (world s) = (Inr (PresetOutput p), w1)"
    "world t1 = w1" "cr t1 = cr s" by auto
  with reads[of "ge_pcRef e" registry_dim "registry_size_input ?fp" "world s"] have store1: "store (world t1) = store (world s)" by simp
  obtain w' pl where w': "answers api (world t1) (UpdateRegistry n (?u p)) pl w'" "store w' n = Some (apply_registry_update (?u p) r)"
    using assms(1,3) store1 unfolding registry_service_def by metis
  have s1: "world s1 = w'" "cr s1 = lock_registry_preset p (cr s)"
    using p(2) write_call_run[OF w'(1)] res(3) by (auto simp: bindE_def[of "write_call api _"])
  then have same: "external_name (cr s1) = external_name (cr s)" "for_provider (cr s1) = ?fp" by (simp_all add: lock_registry_preset_def)
  from registry_Observe_run[OF assms(1), of s1 n, unfolded same s1(1)] assms(2) w'(2) obtain ob s2
    where "registry_Observe api e s1 = (Inr ob, s2)" "ResourceExists ob" "ResourceUpToDate ob = isRegistryUpToDate ?fp (apply_registry_update (?u p) r)"
    by blast
  with res(1) s1 w'(2) show ?thesis
    by (auto simp: isRegistryUpToDate_def apply_registry_update_def PtrEqString_def lock_registry_preset_def split: option.splits)
qed

text \<open>Observe does not look at the size, so a resize alone is never carried out.\<close>

lemma registry_resize_unseen: "isRegistryUpToDate (fp\<lparr>gp_InitialSizeGB := g\<rparr>) r = isRegistryUpToDate fp r"
  by (simp add: isRegistryUpToDate_def)

section \<open>Repositories\<close>

text \<open>The repositories that the parent of a repository shows, if it is ready and there.\<close>

definition shown_repositories :: "'w registry_api \<Rightarrow> (string \<Rightarrow> registry_mr kube_get) \<Rightarrow> 'w \<Rightarrow> string \<Rightarrow> repository list option" where
  "shown_repositories api kube w parentRef = (case kube parentRef of
     KFound parent \<Rightarrow>
       if external_name parent = [] \<or> \<not> isParentReady parent then None
       else Option.bind (DecodeID (external_name parent)) (\<lambda>n. case classify_result (fst (api w (GetRegistryRepositories n))) of
           Inr resp \<Rightarrow> Option.bind (resp_payload resp) as_repositories | Inl err \<Rightarrow> None)
   | _ \<Rightarrow> None)"

lemma GetCondition_Ready:
  "GetCondition (SetConditions (ReadyFalse reason) m) TypeReady = ReadyFalse reason" "GetCondition (SetConditions Available m) TypeReady = Available"
  by (simp_all add: GetCondition_def SetConditions_def ReadyFalse_def Available_def)

lemma repository_listed_run:
  assumes "repository_listed ys s = (Inr ob, s')"
  shows "(let name = yp_Name (for_provider (cr s)) in
      (ResourceExists ob \<longleftrightarrow> name \<in> ry_Name ` set ys) \<and>
      (ResourceExists ob \<longrightarrow> ResourceUpToDate ob \<and> (\<exists>y \<in> set ys. ry_Name y = name \<and> yo_Tags (at_provider (cr s')) = ry_Tags y)) \<and>
      GetCondition (cr s') TypeReady = (if ResourceExists ob then Available else ReadyFalse ''RepositoryNotPushed'')) \<and>
    reqs s' = reqs s"
proof (cases "find (\<lambda>y. ry_Name y = yp_Name (for_provider (cr s))) ys")
  case None
  with assms show ?thesis by (auto simp: repository_listed_def find_None_iff GetCondition_Ready)
next
  case (Some y)
  then have "y \<in> set ys" "ry_Name y = yp_Name (for_provider (cr s))" by (auto simp: find_Some_iff)
  with Some assms show ?thesis by (force simp: repository_listed_def repository_found_def GetCondition_Ready Let_def)
qed

text \<open>
  C37. A repository is reported, with its tags and as Ready, exactly when the registry it names is Ready, has an identity and lists it.
  Otherwise the condition tells a parent that is not ready or gone from a repository that has not been pushed. Observe never writes upstream.
\<close>

theorem repository_Observe_shown:
  assumes "repository_Observe api kube s = (Inr ob, s')"
  shows "(let shown = shown_repositories api kube (world s) (yp_RegistryRef (for_provider (cr s))); name = yp_Name (for_provider (cr s)) in
      (ResourceExists ob \<longleftrightarrow> (\<exists>ys. shown = Some ys \<and> name \<in> ry_Name ` set ys)) \<and>
      (ResourceExists ob \<longrightarrow> ResourceUpToDate ob \<and> (\<exists>ys y. shown = Some ys \<and> y \<in> set ys \<and> ry_Name y = name \<and> yo_Tags (at_provider (cr s')) = ry_Tags y)) \<and>
      GetCondition (cr s') TypeReady = (if ResourceExists ob then Available
        else if shown = None then ReadyFalse ''ParentNotReady'' else ReadyFalse ''RepositoryNotPushed'')) \<and>
    (\<exists>qs. reqs s' = reqs s @ qs \<and> qs \<in> {[]} \<union> {[GetRegistryRepositories n] | n. True})"
proof -
  let ?ref = "yp_RegistryRef (for_provider (cr s))" and ?name = "yp_Name (for_provider (cr s))"
  let ?out = "\<lambda>shown. (ResourceExists ob \<longleftrightarrow> (\<exists>ys. shown = Some ys \<and> ?name \<in> ry_Name ` set ys)) \<and>
      (ResourceExists ob \<longrightarrow> ResourceUpToDate ob \<and> (\<exists>ys y. shown = Some ys \<and> y \<in> set ys \<and> ry_Name y = ?name \<and> yo_Tags (at_provider (cr s')) = ry_Tags y)) \<and>
      GetCondition (cr s') TypeReady = (if ResourceExists ob then Available
        else if shown = None then ReadyFalse ''ParentNotReady'' else ReadyFalse ''RepositoryNotPushed'')"
  have not_ready: "?out None \<and> reqs s' = reqs t" if "parent_not_ready t = (Inr ob, s')" for t
    using that GetCondition_Ready by (auto simp: parent_not_ready_def)
  from assms obtain parent where parent: "kube ?ref = KFound parent" by (auto simp: repository_Observe_def split: kube_get.splits)
  show ?thesis
  proof (cases "external_name parent = [] \<or> \<not> isParentReady parent")
    case True
    with assms parent have "parent_not_ready s = (Inr ob, s')" by (auto simp: repository_Observe_def split: if_splits)
    from not_ready[OF this] True parent show ?thesis by (auto simp: shown_repositories_def)
  next
    case False
    with assms parent obtain n where n: "DecodeID (external_name parent) = Some n"
      by (cases "DecodeID (external_name parent)") (auto simp: repository_Observe_def)
    let ?r = "classify_result (fst (api (world s) (GetRegistryRepositories n)))" and ?t = "after_call api (GetRegistryRepositories n) s"
    have run: "on_not_found parent_not_ready (\<lambda>resp. bindE (decode ''repository'' as_repositories resp) repository_listed) ?r ?t = (Inr ob, s')"
      using assms parent False n by (simp add: repository_Observe_def)
    show ?thesis
    proof (cases ?r)
      case (Inl err)
      with run have "parent_not_ready ?t = (Inr ob, s')" by (auto simp: on_not_found_def split: if_splits)
      from not_ready[OF this] False parent n Inl show ?thesis by (auto simp: shown_repositories_def)
    next
      case (Inr resp)
      with run obtain ys where ys: "Option.bind (resp_payload resp) as_repositories = Some ys" "repository_listed ys ?t = (Inr ob, s')"
        by (auto simp: on_not_found_def decode_def split: option.splits)
      with False parent n Inr have "shown_repositories api kube (world s) ?ref = Some ys" by (simp add: shown_repositories_def)
      moreover have "?out (Some ys) \<and> reqs s' = reqs ?t" using repository_listed_run[OF ys(2)] by (auto simp: Let_def)
      ultimately show ?thesis by auto
    qed
  qed
qed

text \<open>A repository pushed to a registry that is Ready.\<close>

definition wit_parent :: registry_mr where
  "wit_parent = SetConditions Available \<lparr>external_name = ''7'', create_incomplete = False, create_failed = [],
     for_provider = \<lparr>gp_Name = ''reg'', gp_Description = None, gp_InitialSizeGB = 5, gp_Location = None, gp_ProjectID = None\<rparr>,
     at_provider = \<lparr>go_ID = None, go_LockedPresetID = None, go_ProjectID = None, go_DiskStats = None, go_CreatedAt = None, go_UpdatedAt = None,
       go_Endpoint = None\<rparr>, conditions = Map.empty\<rparr>"

definition wit_repository_mr :: repository_mr where
  "wit_repository_mr = \<lparr>external_name = [], create_incomplete = False, create_failed = [],
     for_provider = \<lparr>yp_RegistryRef = ''reg'', yp_Name = ''app''\<rparr>, at_provider = \<lparr>yo_Tags = [], yo_TagCount = None\<rparr>, conditions = Map.empty\<rparr>"

definition wit_repositories_api :: "repository list registry_api" where
  "wit_repositories_api w q = (Resp (ok_response (PRepositories w)), w)"

theorem repository_Observe_shown_witness:
  "\<exists>ob s'. repository_Observe wit_repositories_api (\<lambda>_. KFound wit_parent) (wit_state [\<lparr>ry_Name = ''app'', ry_Tags = []\<rparr>] wit_repository_mr) = (Inr ob, s') \<and>
    ResourceExists ob \<and> GetCondition (cr s') TypeReady = Available"
proof -
  let ?w = "[\<lparr>ry_Name = ''app'', ry_Tags = []\<rparr>]"
  let ?s = "wit_state ?w wit_repository_mr :: (_, registry_req, _, _) rstate"
  have parent: "external_name wit_parent = ''7''" "isParentReady wit_parent" "DecodeID ''7'' = Some 7"
    by (simp_all add: wit_parent_def isParentReady_def GetCondition_def SetConditions_def Available_def) code_simp
  have ok: "classify_result (Resp (ok_response (PRepositories ?w))) = Inr (ok_response (PRepositories ?w))" by code_simp
  have "\<exists>ob s'. repository_Observe wit_repositories_api (\<lambda>_. KFound wit_parent) ?s = (Inr ob, s')"
    by (simp add: repository_Observe_def parent wit_repositories_api_def wit_state_def ok on_not_found_def decode_def,
        simp add: ok_response_def repository_listed_def wit_repository_mr_def)
  then obtain ob s' where run: "repository_Observe wit_repositories_api (\<lambda>_. KFound wit_parent) ?s = (Inr ob, s')" by blast
  have shown: "shown_repositories wit_repositories_api (\<lambda>_. KFound wit_parent) ?w ''reg'' = Some ?w"
    by (simp add: shown_repositories_def parent wit_repositories_api_def ok, simp add: ok_response_def)
  from repository_Observe_shown[OF run] run shown show ?thesis
    by (auto simp: Let_def wit_state_def wit_repository_mr_def)
qed

text \<open>
  One reconcile of the runtime: Create follows an Observe that finds nothing. The parent's condition is lost, as Create, which is run on
  every such reconcile and not only once, always reports a repository that has not been pushed.
\<close>

lemma repository_parent_condition_lost:
  assumes "repository_Create s = (Inr (), s')"
  shows "GetCondition (cr s') TypeReady = ReadyFalse ''RepositoryNotPushed'' \<and> world s' = world s \<and> reqs s' = reqs s"
  using assms GetCondition_Ready(1) by (auto simp: repository_Create_def)

text \<open>
  Delete changes neither the service nor the resource, so while the registry lists a repository that is being deleted, the next Observe
  finds it again and the deletion never ends.
\<close>

lemma repository_Delete_noop:
  "repository_Delete s = (r, s') \<Longrightarrow> r = Inr () \<and> world s' = world s \<and> reqs s' = reqs s \<and> cr s' = cr s"
  by (auto simp: repository_Delete_def emit_event_def split: if_splits)

end
