(* ===== verification/Credentials.thy ===== *)
theory Credentials
  imports RouterRefs Complex_Main
begin

text \<open>
  Whose token a reconcile uses and where it is sent: \<^verbatim>\<open>shared/credentials.go\<close> over the cluster as a parameter, and
  \<^verbatim>\<open>clients/timeweb/client.go\<close>: the limiter every client of a host shares, the transport that adds the token, and the
  redirect policy. \<^verbatim>\<open>url.Parse\<close> is the parameter \<open>host_of\<close> (the host, if the URL parses); a limiter is its rate and
  burst, which are set when it is made.
\<close>

section \<open>\<^verbatim>\<open>ResolveToken\<close>\<close>

record provider_config =
  pcf_Namespace :: string
  pcf_Source :: string
  pcf_SecretName :: string
  pcf_SecretKey :: string
  pcf_SecretNamespace :: string

record pc_reference =
  pr_Kind :: string
  pr_Name :: string

text \<open>Secrets and namespaced configurations by namespace and name, cluster configurations by name.\<close>

record pc_kube =
  pk_ProviderConfig :: "string \<Rightarrow> string \<Rightarrow> provider_config kube_get"
  pk_ClusterProviderConfig :: "string \<Rightarrow> provider_config kube_get"
  pk_Secret :: "string \<Rightarrow> string \<Rightarrow> (string \<rightharpoonup> string) kube_get"

definition invalidRef :: "string \<Rightarrow> go_error" where
  "invalidRef m = Wrap m ErrInvalidProviderConfigRef"

text \<open>The configuration, and whether it is the namespaced kind.\<close>

definition lookupProviderConfig :: "pc_kube \<Rightarrow> string \<Rightarrow> pc_reference \<Rightarrow> go_error + provider_config \<times> bool" where
  "lookupProviderConfig kube mrNamespace ref =
     (if pr_Kind ref = ''ProviderConfig'' then
        (if mrNamespace = [] then Inl (invalidRef ''kind requires the managed resource to be namespaced'')
         else case pk_ProviderConfig kube mrNamespace (pr_Name ref) of
           KNotFound \<Rightarrow> Inl (invalidRef ''ProviderConfig not found'')
         | KError e \<Rightarrow> Inl (Wrap ''get ProviderConfig'' (Errorf e))
         | KFound pc \<Rightarrow> Inr (pc, True))
      else if pr_Kind ref = ''ClusterProviderConfig'' \<or> pr_Kind ref = [] then
        (case pk_ClusterProviderConfig kube (pr_Name ref) of
           KNotFound \<Rightarrow> Inl (invalidRef ''ClusterProviderConfig not found'')
         | KError e \<Rightarrow> Inl (Wrap ''get ClusterProviderConfig'' (Errorf e))
         | KFound pc \<Rightarrow> Inr (pc, False))
      else Inl (invalidRef ''unsupported providerConfigRef.kind''))"

definition resolveSecretNamespace :: "provider_config \<Rightarrow> bool \<Rightarrow> go_error + string" where
  "resolveSecretNamespace pc isNamespaced =
     (if isNamespaced then
        (if pcf_SecretNamespace pc = [] then Inr (pcf_Namespace pc)
         else if pcf_SecretNamespace pc \<noteq> pcf_Namespace pc then Inl (invalidRef ''cross-namespace references are not supported'')
         else Inr (pcf_Namespace pc))
      else if pcf_SecretNamespace pc = [] then Inl (invalidRef ''missing credentials.secretRef.namespace'')
      else Inr (pcf_SecretNamespace pc))"

definition read_token :: "pc_kube \<Rightarrow> provider_config \<Rightarrow> string \<Rightarrow> go_error + string" where
  "read_token kube pc ns = (case pk_Secret kube ns (pcf_SecretName pc) of
     KFound data \<Rightarrow> (case data (pcf_SecretKey pc) of
         None \<Rightarrow> Inl (Errorf ''credential Secret key is empty'')
       | Some raw \<Rightarrow> if TrimSpace raw = [] then Inl (Errorf ''credential Secret key is empty'') else Inr (TrimSpace raw))
   | KNotFound \<Rightarrow> Inl (Wrap ''get credential Secret'' (Errorf ''not found''))
   | KError e \<Rightarrow> Inl (Wrap ''get credential Secret'' (Errorf e)))"

definition ResolveToken :: "pc_kube \<Rightarrow> string \<Rightarrow> pc_reference option \<Rightarrow> go_error + string" where
  "ResolveToken kube mrNamespace pcRef = (case pcRef of
     None \<Rightarrow> Inl (invalidRef ''spec.providerConfigRef.name is required'')
   | Some ref \<Rightarrow>
       if pr_Name ref = [] then Inl (invalidRef ''spec.providerConfigRef.name is required'')
       else case lookupProviderConfig kube mrNamespace ref of Inl e \<Rightarrow> Inl e
       | Inr (pc, isNamespaced) \<Rightarrow>
           if pcf_Source pc \<noteq> ''Secret'' then Inl (invalidRef ''unsupported credentials.source'')
           else if pcf_SecretName pc = [] \<or> pcf_SecretKey pc = [] then Inl (invalidRef ''missing credentials.secretRef'')
           else (case resolveSecretNamespace pc isNamespaced of Inl e \<Rightarrow> Inl e | Inr ns \<Rightarrow> read_token kube pc ns))"

text \<open>
  A token comes only from the Secret that the declared configuration names. With kind \<^verbatim>\<open>ProviderConfig\<close> that is a configuration of the
  managed resource's own namespace and a Secret of the configuration's namespace; with kind \<^verbatim>\<open>ClusterProviderConfig\<close> (or none) it is the
  cluster's configuration and the namespace it states. No kind falls back to the other, and the token is not blank.
\<close>

theorem ResolveToken_confined:
  assumes "ResolveToken kube ns pcRef = Inr token"
  shows "\<exists>ref pc secretNS data raw. pcRef = Some ref \<and> pr_Name ref \<noteq> [] \<and>
    (if pr_Kind ref = ''ProviderConfig''
     then ns \<noteq> [] \<and> pk_ProviderConfig kube ns (pr_Name ref) = KFound pc \<and> secretNS = pcf_Namespace pc \<and> pcf_SecretNamespace pc \<in> {[], secretNS}
     else pr_Kind ref \<in> {''ClusterProviderConfig'', []} \<and> pk_ClusterProviderConfig kube (pr_Name ref) = KFound pc \<and>
       secretNS = pcf_SecretNamespace pc \<and> secretNS \<noteq> []) \<and>
    pk_Secret kube secretNS (pcf_SecretName pc) = KFound data \<and> data (pcf_SecretKey pc) = Some raw \<and> token = TrimSpace raw \<and> token \<noteq> []"
proof -
  from assms obtain ref where ref: "pcRef = Some ref" "pr_Name ref \<noteq> []" by (auto simp: ResolveToken_def split: option.splits if_splits)
  with assms obtain pc n secretNS where pc: "lookupProviderConfig kube ns ref = Inr (pc, n)" "resolveSecretNamespace pc n = Inr secretNS"
    "read_token kube pc secretNS = Inr token"
    by (auto simp: ResolveToken_def split: sum.splits if_splits)
  from pc(3) obtain data raw where tok: "pk_Secret kube secretNS (pcf_SecretName pc) = KFound data" "data (pcf_SecretKey pc) = Some raw"
    "token = TrimSpace raw" "token \<noteq> []"
    by (auto simp: read_token_def split: kube_get.splits option.splits if_splits)
  have "if pr_Kind ref = ''ProviderConfig''
     then ns \<noteq> [] \<and> pk_ProviderConfig kube ns (pr_Name ref) = KFound pc \<and> secretNS = pcf_Namespace pc \<and> pcf_SecretNamespace pc \<in> {[], secretNS}
     else pr_Kind ref \<in> {''ClusterProviderConfig'', []} \<and> pk_ClusterProviderConfig kube (pr_Name ref) = KFound pc \<and>
       secretNS = pcf_SecretNamespace pc \<and> secretNS \<noteq> []"
    using pc(1,2) by (auto simp: lookupProviderConfig_def resolveSecretNamespace_def split: if_splits kube_get.splits)
  with ref tok show ?thesis by blast
qed

definition wit_pc_kube :: pc_kube where
  "wit_pc_kube = \<lparr>pk_ProviderConfig = \<lambda>ns n. if ns = ''team'' \<and> n = ''main'' then KFound \<lparr>pcf_Namespace = ns, pcf_Source = ''Secret'',
       pcf_SecretName = ''tw'', pcf_SecretKey = ''token'', pcf_SecretNamespace = []\<rparr> else KNotFound,
     pk_ClusterProviderConfig = \<lambda>n. KNotFound, pk_Secret = \<lambda>ns n. if ns = ''team'' \<and> n = ''tw'' then KFound [''token'' \<mapsto> '' t0k ''] else KNotFound\<rparr>"

theorem ResolveToken_confined_witness:
  "ResolveToken wit_pc_kube ''team'' (Some \<lparr>pr_Kind = ''ProviderConfig'', pr_Name = ''main''\<rparr>) = Inr ''t0k'' \<and>
   (\<exists>pc. pk_ProviderConfig wit_pc_kube ''team'' ''main'' = KFound pc \<and> pcf_Namespace pc = ''team'')"
proof -
  have "ResolveToken wit_pc_kube ''team'' (Some \<lparr>pr_Kind = ''ProviderConfig'', pr_Name = ''main''\<rparr>) = Inr ''t0k''"
    by code_simp
  from ResolveToken_confined[OF this] this show ?thesis by (auto simp: wit_pc_kube_def)
qed

section \<open>The client\<close>

record client_config =
  cc_Token :: string
  cc_BaseURL :: string
  cc_RateLimit :: real
  cc_Burst :: int

text \<open>A limiter is shared by reference: \<open>li_Id\<close> tells one from another, the rate and the burst are set when it is made.\<close>

record limiter =
  li_Id :: nat
  li_Rate :: real
  li_Burst :: int

text \<open>The process-global map of limiters; its mutex makes a call one step.\<close>

record limiters =
  sl_Next :: nat
  sl_Map :: "string \<rightharpoonup> limiter"

text \<open>A client holds its limiter, its token, the host the token belongs to and the base URL.\<close>

record tw_client =
  tc_Limiter :: limiter
  tc_Token :: string
  tc_Host :: string
  tc_BaseURL :: string

type_synonym url_parser = "string \<Rightarrow> string option"

definition no_limiters :: limiters where
  "no_limiters = \<lparr>sl_Next = 0, sl_Map = Map.empty\<rparr>"

definition DefaultBaseURL :: string where "DefaultBaseURL = ''https://api.timeweb.cloud''"
definition DefaultRateLimit :: real where "DefaultRateLimit = 2"
definition DefaultBurst :: int where "DefaultBurst = 3"

definition hostKey :: "url_parser \<Rightarrow> string \<Rightarrow> string" where
  "hostKey host_of baseURL = (case host_of baseURL of None \<Rightarrow> baseURL | Some h \<Rightarrow> if h \<noteq> [] then h else baseURL)"

definition sharedLimiter :: "url_parser \<Rightarrow> string \<Rightarrow> real \<Rightarrow> int \<Rightarrow> limiters \<Rightarrow> limiter \<times> limiters" where
  "sharedLimiter host_of baseURL rl burst ls = (let key = hostKey host_of baseURL in case sl_Map ls key of
     Some l \<Rightarrow> (l, ls)
   | None \<Rightarrow> let l = \<lparr>li_Id = sl_Next ls, li_Rate = rl, li_Burst = burst\<rparr> in
       (l, \<lparr>sl_Next = Suc (sl_Next ls), sl_Map = (sl_Map ls)(key \<mapsto> l)\<rparr>))"

definition client_New :: "url_parser \<Rightarrow> client_config \<Rightarrow> limiters \<Rightarrow> (go_error + tw_client) \<times> limiters" where
  "client_New host_of cfg ls =
     (if TrimSpace (cc_Token cfg) = [] then (Inl (Errorf ''timeweb: token is required''), ls)
      else let baseURL = (if cc_BaseURL cfg = [] then DefaultBaseURL else cc_BaseURL cfg);
               rl = (if cc_RateLimit cfg = 0 then DefaultRateLimit else cc_RateLimit cfg);
               burst = (if cc_Burst cfg = 0 then DefaultBurst else cc_Burst cfg) in
        case sharedLimiter host_of baseURL rl burst ls of (l, ls') \<Rightarrow>
          (Inr \<lparr>tc_Limiter = l, tc_Token = cc_Token cfg, tc_Host = (case host_of baseURL of None \<Rightarrow> [] | Some h \<Rightarrow> h), tc_BaseURL = baseURL\<rparr>, ls'))"

text \<open>The clients that a process makes, one after the other.\<close>

fun client_News :: "url_parser \<Rightarrow> client_config list \<Rightarrow> limiters \<Rightarrow> (go_error + tw_client) list \<times> limiters" where
  "client_News host_of [] ls = ([], ls)"
| "client_News host_of (cfg # cfgs) ls = (let (r, ls1) = client_New host_of cfg ls; (rs, ls2) = client_News host_of cfgs ls1 in (r # rs, ls2))"

subsection \<open>One limiter per host\<close>

definition limiters_ok :: "limiters \<Rightarrow> bool" where
  "limiters_ok ls \<longleftrightarrow> (\<forall>k l. sl_Map ls k = Some l \<longrightarrow> li_Id l < sl_Next ls) \<and> inj_on (sl_Map ls) (dom (sl_Map ls))"

definition holds_limiter :: "url_parser \<Rightarrow> limiters \<Rightarrow> tw_client \<Rightarrow> bool" where
  "holds_limiter host_of ls c \<longleftrightarrow> sl_Map ls (hostKey host_of (tc_BaseURL c)) = Some (tc_Limiter c)"

lemma holds_limiter_mono: "holds_limiter host_of ls c \<Longrightarrow> sl_Map ls \<subseteq>\<^sub>m sl_Map ls' \<Longrightarrow> holds_limiter host_of ls' c"
  by (auto simp: holds_limiter_def map_le_def dom_def)

lemma limiters_ok_add:
  assumes "limiters_ok ls" "sl_Map ls k = None" "li_Id l = sl_Next ls"
  shows "limiters_ok \<lparr>sl_Next = Suc (sl_Next ls), sl_Map = (sl_Map ls)(k \<mapsto> l)\<rparr>"
proof -
  from assms have fresh: "sl_Map ls k' \<noteq> Some l" for k' by (force simp: limiters_ok_def)
  show ?thesis using assms fresh by (auto simp: limiters_ok_def inj_on_def less_Suc_eq)
qed

lemma sharedLimiter_ok:
  assumes "limiters_ok ls" "sharedLimiter host_of baseURL rl burst ls = (l, ls')"
  shows "limiters_ok ls' \<and> sl_Map ls \<subseteq>\<^sub>m sl_Map ls' \<and> sl_Map ls' (hostKey host_of baseURL) = Some l"
  using assms limiters_ok_add[OF assms(1)]
  by (auto simp: sharedLimiter_def Let_def map_le_def split: option.splits)

lemma client_New_ok:
  assumes "limiters_ok ls" "client_New host_of cfg ls = (r, ls')"
  shows "limiters_ok ls' \<and> sl_Map ls \<subseteq>\<^sub>m sl_Map ls' \<and> (\<forall>c. r = Inr c \<longrightarrow> holds_limiter host_of ls' c)"
proof (cases "TrimSpace (cc_Token cfg) = []")
  case True
  with assms show ?thesis by (auto simp: client_New_def)
next
  case False
  define baseURL where "baseURL = (if cc_BaseURL cfg = [] then DefaultBaseURL else cc_BaseURL cfg)"
  obtain rl burst l where lim: "sharedLimiter host_of baseURL rl burst ls = (l, ls')"
    and r: "r = Inr \<lparr>tc_Limiter = l, tc_Token = cc_Token cfg, tc_Host = (case host_of baseURL of None \<Rightarrow> [] | Some h \<Rightarrow> h), tc_BaseURL = baseURL\<rparr>"
    using assms(2) False unfolding client_New_def Let_def baseURL_def[symmetric] by (auto split: prod.splits)
  from sharedLimiter_ok[OF assms(1) lim] r show ?thesis by (simp add: holds_limiter_def)
qed

lemma client_News_ok:
  assumes "limiters_ok ls" "client_News host_of cfgs ls = (rs, ls')"
  shows "limiters_ok ls' \<and> sl_Map ls \<subseteq>\<^sub>m sl_Map ls' \<and> (\<forall>c. Inr c \<in> set rs \<longrightarrow> holds_limiter host_of ls' c)"
  using assms
proof (induction cfgs arbitrary: ls rs)
  case Nil
  then show ?case by simp
next
  case (Cons cfg cfgs)
  from Cons.prems(2) obtain r ls1 rs2 where new: "client_New host_of cfg ls = (r, ls1)"
    and news: "client_News host_of cfgs ls1 = (rs2, ls')" and rs: "rs = r # rs2"
    by (auto split: prod.splits)
  from client_New_ok[OF Cons.prems(1) new] Cons.IH[OF _ news] rs show ?case
    by (auto intro: map_le_trans holds_limiter_mono)
qed


definition wit_host_of :: url_parser where
  "wit_host_of u = (if u = DefaultBaseURL then Some ''api.timeweb.cloud'' else None)"

definition wit_config :: "string \<Rightarrow> client_config" where
  "wit_config token = \<lparr>cc_Token = token, cc_BaseURL = [], cc_RateLimit = 0, cc_Burst = 0\<rparr>"

definition wit_tw_client :: "string \<Rightarrow> tw_client" where
  "wit_tw_client token = \<lparr>tc_Limiter = \<lparr>li_Id = 0, li_Rate = 2, li_Burst = 3\<rparr>, tc_Token = token, tc_Host = ''api.timeweb.cloud'',
     tc_BaseURL = DefaultBaseURL\<rparr>"

lemma wit_tokens: "TrimSpace ''t0k'' = ''t0k''" "TrimSpace ''other'' = ''other''"
  by code_simp+

definition wit_limiters :: limiters where
  "wit_limiters = \<lparr>sl_Next = 1, sl_Map = [''api.timeweb.cloud'' \<mapsto> tc_Limiter (wit_tw_client [])]\<rparr>"

lemma wit_client_New:
  assumes "ls \<in> {no_limiters, wit_limiters}" "TrimSpace token \<noteq> []"
  shows "client_New wit_host_of (wit_config token) ls = (Inr (wit_tw_client token), wit_limiters)"
  using assms by (auto simp: client_New_def sharedLimiter_def wit_config_def wit_tw_client_def wit_host_of_def no_limiters_def wit_limiters_def
      hostKey_def DefaultRateLimit_def DefaultBurst_def Let_def)

lemma wit_client_News:
  "client_News wit_host_of [wit_config ''t0k'', wit_config ''other''] no_limiters =
    ([Inr (wit_tw_client ''t0k''), Inr (wit_tw_client ''other'')], wit_limiters)"
  by (simp add: wit_client_New wit_tokens)


subsection \<open>The token and redirects\<close>

text \<open>\<^verbatim>\<open>RoundTrip\<close>: the headers of the request that goes out to a host.\<close>

definition RoundTrip :: "tw_client \<Rightarrow> string \<Rightarrow> (string \<times> string) list" where
  "RoundTrip c host = (if tc_Host c = [] \<or> EqualFold host (tc_Host c) then [(''Authorization'', ''Bearer '' @ tc_Token c)] else []) @
     [(''Accept'', ''application/json'')]"

text \<open>\<^verbatim>\<open>CheckRedirect\<close>: an error ends the chain; \<open>via\<close> is the number of requests already made.\<close>

definition CheckRedirect :: "tw_client \<Rightarrow> string \<Rightarrow> nat \<Rightarrow> go_error option" where
  "CheckRedirect c host via =
     (if tc_Host c \<noteq> [] \<and> \<not> EqualFold host (tc_Host c) then Some (Errorf ''timeweb: refusing cross-host redirect'')
      else if via \<ge> 10 then Some (Errorf ''timeweb: stopped after 10 redirects'')
      else None)"

text \<open>
  \<^verbatim>\<open>http.Client.Do\<close>: the request goes to a host, whose answer may redirect to another; \<open>server n\<close> is the host that the answer
  to request \<open>n\<close> redirects to. The result lists the requests sent: host and headers. Only the redirect policy bounds the chain.
\<close>

function send_chain :: "tw_client \<Rightarrow> (nat \<Rightarrow> string option) \<Rightarrow> string \<Rightarrow> nat \<Rightarrow> (string \<times> (string \<times> string) list) list" where
  "send_chain c server host n = (host, RoundTrip c host) # (case server n of None \<Rightarrow> []
     | Some h \<Rightarrow> if CheckRedirect c h (Suc n) = None then send_chain c server h (Suc n) else [])"
  by pat_completeness auto

termination
  by (relation "measure (\<lambda>(c, server, host, n). 10 - n)") (auto simp: CheckRedirect_def split: if_splits)

declare send_chain.simps [simp del]

lemma CheckRedirect_None: "CheckRedirect c h via = None \<longleftrightarrow> (tc_Host c \<noteq> [] \<longrightarrow> EqualFold h (tc_Host c)) \<and> via < 10"
  by (auto simp: CheckRedirect_def)

lemma send_chain_members:
  "(h, hs) \<in> set (send_chain c server host n) \<Longrightarrow>
    hs = RoundTrip c h \<and> (h = host \<or> (tc_Host c \<noteq> [] \<longrightarrow> EqualFold h (tc_Host c)))"
proof (induction c server host n rule: send_chain.induct)
  case (1 c server host n)
  from "1.prems" consider "h = host" "hs = RoundTrip c host"
    | g where "server n = Some g" "CheckRedirect c g (Suc n) = None" "(h, hs) \<in> set (send_chain c server g (Suc n))"
    by (cases "server n") (auto simp: send_chain.simps[of c server host n] split: if_splits)
  then show ?case by cases (use "1.IH" in \<open>auto simp: CheckRedirect_None\<close>)
qed

lemma send_chain_length: "n < 10 \<Longrightarrow> length (send_chain c server host n) \<le> 10 - n"
proof (induction c server host n rule: send_chain.induct)
  case (1 c server host n)
  show ?case
  proof (cases "\<exists>g. server n = Some g \<and> CheckRedirect c g (Suc n) = None")
    case True
    then obtain g where g: "server n = Some g" "CheckRedirect c g (Suc n) = None" by blast
    then have "Suc n < 10" by (simp add: CheckRedirect_None)
    with "1.IH"[OF g] g show ?thesis by (simp add: send_chain.simps[of c server host n])
  next
    case False
    with "1.prems" show ?thesis by (auto simp: send_chain.simps[of c server host n] split: option.splits)
  qed
qed

text \<open>
  C35. The account token stays with the API. Whatever redirects the servers answer with, a request that carries the token goes to the host
  the client was built for, no request leaves that host once the first has gone there, and at most ten requests are sent.
\<close>

theorem token_stays_home:
  assumes "client_New host_of cfg ls = (Inr c, ls')" "host_of (tc_BaseURL c) = Some home" "home \<noteq> []"
    and "(h, headers) \<in> set (send_chain c server host 0)"
  shows "((''Authorization'', ''Bearer '' @ cc_Token cfg) \<in> set headers \<longleftrightarrow> EqualFold h home) \<and>
    (EqualFold host home \<longrightarrow> EqualFold h home) \<and> length (send_chain c server host 0) \<le> 10"
proof -
  from assms(1-3) have c: "tc_Host c = home" "tc_Token c = cc_Token cfg"
    by (auto simp: client_New_def Let_def split: if_splits prod.splits option.splits)
  with assms(3) have "(''Authorization'', ''Bearer '' @ cc_Token cfg) \<in> set (RoundTrip c h) \<longleftrightarrow> EqualFold h home"
    by (auto simp: RoundTrip_def)
  with send_chain_members[OF assms(4)] send_chain_length[of 0 c server host] c assms(3) show ?thesis by auto
qed

text \<open>A server that redirects to its own host in another case, then elsewhere: the second redirect is refused.\<close>

theorem token_stays_home_witness:
  "\<exists>c ls'. client_New wit_host_of (wit_config ''t0k'') no_limiters = (Inr c, ls') \<and>
    send_chain c (\<lambda>n. if n = 0 then Some ''API.timeweb.cloud'' else Some ''evil.example'') ''api.timeweb.cloud'' 0 =
      [(''api.timeweb.cloud'', RoundTrip c ''api.timeweb.cloud''), (''API.timeweb.cloud'', RoundTrip c ''API.timeweb.cloud'')] \<and>
    (''Authorization'', ''Bearer t0k'') \<in> set (RoundTrip c ''API.timeweb.cloud'')"
proof -
  let ?c = "wit_tw_client ''t0k''"
  let ?s = "\<lambda>n::nat. if n = 0 then Some ''API.timeweb.cloud'' else Some ''evil.example''"
  have ef: "EqualFold ''API.timeweb.cloud'' ''api.timeweb.cloud''" "\<not> EqualFold ''evil.example'' ''api.timeweb.cloud''" by code_simp+
  have host: "tc_Host ?c = ''api.timeweb.cloud''" by (simp add: wit_tw_client_def)
  have chain: "send_chain ?c ?s ''api.timeweb.cloud'' 0 =
      [(''api.timeweb.cloud'', RoundTrip ?c ''api.timeweb.cloud''), (''API.timeweb.cloud'', RoundTrip ?c ''API.timeweb.cloud'')]"
    using ef by (simp add: send_chain.simps CheckRedirect_None host)
  from token_stays_home[OF wit_client_New[of no_limiters "''t0k''"], of "''api.timeweb.cloud''" "''API.timeweb.cloud''" _ ?s "''api.timeweb.cloud''"] chain ef
  have "(''Authorization'', ''Bearer t0k'') \<in> set (RoundTrip ?c ''API.timeweb.cloud'')"
    by (auto simp: wit_tw_client_def wit_host_of_def wit_config_def wit_tokens)
  with wit_client_New[of no_limiters "''t0k''"] chain show ?thesis by (auto simp: wit_tokens)
qed

end
