(* ===== verification/Watches.thy ===== *)
theory Watches
  imports RouterExternal AddonExternal CdnSettings
begin

text \<open>
  The watches that wake a resource when something it depends on changes: \<^verbatim>\<open>mapNetworkToRouters\<close> of \<^verbatim>\<open>network/controller.go\<close>,
  \<^verbatim>\<open>mapBucketToCdns\<close> of \<^verbatim>\<open>cdn/controller.go\<close> and \<^verbatim>\<open>enqueueDependentsOfCluster\<close> of \<^verbatim>\<open>kubernetes/controller.go\<close>; and the Router and
  nodepool branches of \<^verbatim>\<open>Connect\<close> (\<^verbatim>\<open>network/connector.go\<close>, \<^verbatim>\<open>kubernetes/connector.go\<close>) as far as they resolve references.
\<close>

section \<open>The contract of a watch\<close>

text \<open>
  The resources of the namespace are a list of names and specs, or an error of the List. \<open>concerns n s\<close> is the test of the
  loop for a changed object named \<open>n\<close>.
\<close>

definition enqueue :: "('s \<Rightarrow> bool) \<Rightarrow> go_error + (string \<times> 's) list \<Rightarrow> string list" where
  "enqueue concerns listed = (case listed of Inl e \<Rightarrow> [] | Inr items \<Rightarrow> map fst (filter (\<lambda>(_, s). concerns s) items))"

text \<open>
  \<open>changed n c c'\<close>: the cluster goes from \<open>c\<close> to \<open>c'\<close> by a change of the watched kind at \<open>n\<close>. A resource that the test
  leaves out resolves to the same in both.
\<close>

locale watch =
  fixes changed :: "'n \<Rightarrow> 'c \<Rightarrow> 'c \<Rightarrow> bool" and concerns :: "'n \<Rightarrow> 's \<Rightarrow> bool" and resolve :: "'c \<Rightarrow> 's \<Rightarrow> 'r"
  assumes unconcerned: "changed n c c' \<Longrightarrow> \<not> concerns n s \<Longrightarrow> resolve c s = resolve c' s"
begin

lemma complete:
  assumes "changed n c c'" "(name, s) \<in> set items" "resolve c s \<noteq> resolve c' s"
  shows "name \<in> set (enqueue (concerns n) (Inr items))"
  using assms unconcerned by (force simp: enqueue_def)

end

section \<open>Networks and Routers\<close>

definition router_Connect :: "'l kube \<Rightarrow> pc_ref \<Rightarrow> string \<Rightarrow> bool \<Rightarrow> 'l router_parameters \<Rightarrow> go_error + router_ext" where
  "router_Connect kube pc ns deleting fp =
     (if deleting then Inr \<lparr>re_pcRef = pc, re_resolvedNetworks = [], re_resolvedProjectID = None, re_resolvedRoutes = []\<rparr>
      else case resolveRouterRefs kube ns fp of
        Inl e \<Rightarrow> Inl (Wrap ''network/router: resolve references'' e)
      | Inr (nets, pid) \<Rightarrow> (case resolveRouterStaticRoutes kube ns (rp_StaticRoutes fp) of
          Inl e \<Rightarrow> Inl (Wrap ''network/router: resolve references'' e)
        | Inr routes \<Rightarrow> Inr \<lparr>re_pcRef = pc, re_resolvedNetworks = nets, re_resolvedProjectID = pid, re_resolvedRoutes = routes\<rparr>))"

definition routerUsesSelector :: "'l router_parameters \<Rightarrow> bool" where
  "routerUsesSelector fp \<longleftrightarrow> list_ex (\<lambda>a. at_NetworkSelector a \<noteq> None) (rp_Networks fp)"

definition mapNetworkToRouters :: "go_error + (string \<times> 'l router_parameters) list \<Rightarrow> string list" where
  "mapNetworkToRouters routers = enqueue routerUsesSelector routers"

text \<open>
  What selectors match has changed, and nothing that is read by name: the labels of a Network, or a Network that no
  reference names. The watch is meant for these; a Network that is referenced by name is left to the poll.
\<close>

definition selection_changed :: "'l kube \<Rightarrow> 'l kube \<Rightarrow> bool" where
  "selection_changed k k' \<longleftrightarrow> kube_Network k = kube_Network k' \<and> kube_FloatingIP k = kube_FloatingIP k' \<and>
     kube_Project k = kube_Project k' \<and> kube_Router k = kube_Router k'"

lemma single_refs_same:
  assumes "selection_changed k k'"
  shows "resolve_explicit k = resolve_explicit k'" "resolve_project k = resolve_project k'" "resolve_route k = resolve_route k'"
proof -
  from assms have same: "kube_Network k = kube_Network k'" "kube_FloatingIP k = kube_FloatingIP k'" "kube_Project k = kube_Project k'" "kube_Router k = kube_Router k'"
    by (simp_all add: selection_changed_def)
  then have refs: "resolveRouterNetworkRef k = resolveRouterNetworkRef k'" "resolveFloatingIPRef k = resolveFloatingIPRef k'"
    "resolveProjectRef k = resolveProjectRef k'"
    by (simp_all add: fun_eq_iff resolveRouterNetworkRef_def resolveFloatingIPRef_def resolveProjectRef_def)
  have "resolve_explicit k ns a = resolve_explicit k' ns a" "resolve_project k ns fp = resolve_project k' ns fp" "resolve_route k ns r = resolve_route k' ns r"
    for ns a fp r
    unfolding resolve_explicit_def resolve_network_id_def resolve_nat_def resolve_project_def resolve_route_def resolveStaticRouteVia_def refs same
    by (rule refl)+
  then show "resolve_explicit k = resolve_explicit k'" "resolve_project k = resolve_project k'" "resolve_route k = resolve_route k'"
    by (simp_all add: fun_eq_iff)
qed

lemma passes_same:
  assumes "selection_changed k k'"
  shows "explicit_pass k ns as acc = explicit_pass k' ns as acc"
    "resolveRouterStaticRoutes k ns rs = resolveRouterStaticRoutes k' ns rs"
proof -
  show "explicit_pass k ns as acc = explicit_pass k' ns as acc"
  proof (induction as arbitrary: acc)
    case (Cons a as)
    then show ?case by (cases acc) (simp add: single_refs_same[OF assms] split: sum.split)
  qed simp
  show "resolveRouterStaticRoutes k ns rs = resolveRouterStaticRoutes k' ns rs"
    by (induction rs) (auto simp: single_refs_same[OF assms] split: sum.split)
qed

lemma selector_pass_none: "\<not> list_ex (\<lambda>a. at_NetworkSelector a \<noteq> None) as \<Longrightarrow> selector_pass k ns as acc = Inr acc"
  by (induction as arbitrary: acc) auto

interpretation networks: watch "\<lambda>_. selection_changed" "\<lambda>_. routerUsesSelector" "\<lambda>k. router_Connect k pc ns deleting" for pc ns deleting
proof
  fix k k' :: "'l kube" and fp :: "'l router_parameters"
  assume ch: "selection_changed k k'" and no: "\<not> routerUsesSelector fp"
  have "selector_pass j ns (rp_Networks fp) acc = Inr acc" for j :: "'l kube" and acc
    using no by (auto simp: routerUsesSelector_def intro: selector_pass_none)
  then show "router_Connect k pc ns deleting fp = router_Connect k' pc ns deleting fp"
    using passes_same[OF ch] single_refs_same(2)[OF ch] by (simp add: router_Connect_def resolveRouterRefs_def cong: sum.case_cong)
qed

section \<open>Clusters and their dependents\<close>

text \<open>What a dependent says of its cluster: \<^verbatim>\<open>clusterRef\<close>, \<^verbatim>\<open>clusterSelector\<close>, \<^verbatim>\<open>clusterID\<close>.\<close>

type_synonym cluster_link = "string option \<times> unit option \<times> string option"

definition nodepool_Connect :: "k8s_kube \<Rightarrow> string \<Rightarrow> bool \<Rightarrow> cluster_link \<Rightarrow> go_error + string" where
  "nodepool_Connect kube ns deleting link = (case link of (ref, sel, i) \<Rightarrow>
     if deleting then Inr []
     else case resolveClusterRef kube ns ref sel i of
       Inl e \<Rightarrow> Inl (Wrap ''kubernetes/nodepool: resolve cluster reference'' e) | Inr n \<Rightarrow> Inr n)"

definition nodepools_of_cluster :: "string \<Rightarrow> go_error + (string \<times> cluster_link) list \<Rightarrow> string list" where
  "nodepools_of_cluster clusterName listed = enqueue (\<lambda>(ref, _). ref = Some clusterName) listed"

definition addons_of_cluster :: "string \<Rightarrow> go_error + (string \<times> addon_parameters) list \<Rightarrow> string list" where
  "addons_of_cluster clusterName listed = enqueue (\<lambda>fp. adp_ClusterRef fp = Some clusterName) listed"

text \<open>The cluster of that name, in whatever namespace, has changed, come or gone.\<close>

definition cluster_changed :: "string \<Rightarrow> k8s_kube \<Rightarrow> k8s_kube \<Rightarrow> bool" where
  "cluster_changed n k k' \<longleftrightarrow> (\<forall>ns m. m \<noteq> n \<longrightarrow> kk_Cluster k ns m = kk_Cluster k' ns m)"

lemma resolveClusterRef_same: "cluster_changed n k k' \<Longrightarrow> ref \<noteq> Some n \<Longrightarrow> resolveClusterRef k ns ref sel i = resolveClusterRef k' ns ref sel i"
  by (cases ref) (simp_all add: resolveClusterRef_def cluster_changed_def cong: option.case_cong)

interpretation nodepools: watch cluster_changed "\<lambda>n (ref, _). ref = Some n" "\<lambda>k. nodepool_Connect k ns deleting" for ns deleting
  by unfold_locales (auto simp: nodepool_Connect_def resolveClusterRef_same)

interpretation addons: watch cluster_changed "\<lambda>n fp. adp_ClusterRef fp = Some n" "\<lambda>k. addon_Connect k ns deleting" for ns deleting
  by unfold_locales (auto simp: addon_Connect_def resolveClusterRef_same)

section \<open>Buckets and Cdns\<close>

definition mapBucketToCdns :: "string \<Rightarrow> go_error + (string \<times> cdn_object) list \<Rightarrow> string list" where
  "mapBucketToCdns bucketName listed = enqueue (\<lambda>x. og_BucketRef (cdp_Origin (cx_Params x)) = Some bucketName) listed"

definition bucket_changed :: "string \<Rightarrow> 'w cdn_env \<Rightarrow> 'w cdn_env \<Rightarrow> bool" where
  "bucket_changed n e e' \<longleftrightarrow> (\<forall>w ns m. m \<noteq> n \<longrightarrow> en_bucket e w ns m = en_bucket e' w ns m)"

text \<open>How the origin of a Cdn resolves, as a function of the state the handler runs in.\<close>

definition cdn_origin_of :: "'w cdn_env \<Rightarrow> cdn_object \<Rightarrow> ('w, resolved_origin) cdn_act" where
  "cdn_origin_of env x = (\<lambda>s. resolveOrigin env (s\<lparr>cr := (cr s)\<lparr>for_provider := x\<rparr>\<rparr>))"

interpretation buckets: watch bucket_changed "\<lambda>n x. og_BucketRef (cdp_Origin (cx_Params x)) = Some n" cdn_origin_of
  by unfold_locales (auto simp: cdn_origin_of_def resolveOrigin_def bucket_changed_def fun_eq_iff Let_def bindE_def reading_def split: option.split)

section \<open>No missed wake-up\<close>



end
