(* ===== verification/Connectors.thy ===== *)
theory Connectors
  imports Credentials Watches ServerRefs NodepoolExternal UserSafety RegistryExternal
begin

text \<open>
  \<^verbatim>\<open>Connect\<close> of every kind, whole: the usage of the configuration is tracked, the token resolved, the client built, and then the
  references of the kind (\<open>RouterRefs\<close>, \<open>ServerRefs\<close>, \<open>AddonExternal\<close>, \<open>UserExternal\<close>) are resolved, unless the resource is being
  deleted. The usage tracker is a parameter.
\<close>

section \<open>What all connectors share\<close>

record managed_meta =
  mm_Namespace :: string
  mm_PCRef :: "pc_reference option"
  mm_Deleting :: bool

record connect_env =
  ct_Kube :: pc_kube
  ct_Track :: "managed_meta \<Rightarrow> go_error option"
  ct_HostOf :: url_parser

definition token_config :: "string \<Rightarrow> client_config" where
  "token_config token = \<lparr>cc_Token = token, cc_BaseURL = [], cc_RateLimit = 0, cc_Burst = 0\<rparr>"

text \<open>The common beginning; \<open>pkg\<close> is the prefix of the error messages.\<close>

definition connect_client :: "connect_env \<Rightarrow> string \<Rightarrow> managed_meta \<Rightarrow> limiters \<Rightarrow> (go_error + tw_client) \<times> limiters" where
  "connect_client env pkg m ls = (case ct_Track env m of
     Some e \<Rightarrow> (Inl (Wrap (pkg @ '': track ProviderConfigUsage'') e), ls)
   | None \<Rightarrow> (case ResolveToken (ct_Kube env) (mm_Namespace m) (mm_PCRef m) of
       Inl e \<Rightarrow> (Inl (Wrap pkg e), ls)
     | Inr token \<Rightarrow> (case client_New (ct_HostOf env) (token_config token) ls of
         (Inl e, ls') \<Rightarrow> (Inl (Wrap (pkg @ '': build Timeweb client'') e), ls')
       | (Inr c, ls') \<Rightarrow> (Inr c, ls'))))"

definition connecting :: "connect_env \<Rightarrow> string \<Rightarrow> managed_meta \<Rightarrow> (tw_client \<Rightarrow> go_error + 'e) \<Rightarrow> limiters \<Rightarrow> (go_error + 'e) \<times> limiters" where
  "connecting env pkg m f ls = (case connect_client env pkg m ls of (Inl e, ls') \<Rightarrow> (Inl e, ls') | (Inr c, ls') \<Rightarrow> (f c, ls'))"

definition pcRefFor :: "managed_meta \<Rightarrow> pc_ref" where
  "pcRefFor m = (case mm_PCRef m of None \<Rightarrow> \<lparr>pc_Kind = [], pc_Name = [], pc_Namespace = []\<rparr>
   | Some ref \<Rightarrow> \<lparr>pc_Kind = pr_Kind ref, pc_Name = pr_Name ref, pc_Namespace = mm_Namespace m\<rparr>)"

text \<open>A connector is handed a resource; \<open>None\<close> is one of another kind.\<close>

definition connecting_kind :: "connect_env \<Rightarrow> string \<Rightarrow> string \<Rightarrow> managed_meta \<Rightarrow> 'p option \<Rightarrow> ('p \<Rightarrow> tw_client \<Rightarrow> go_error + 'e) \<Rightarrow> limiters \<Rightarrow>
    (go_error + 'e) \<times> limiters" where
  "connecting_kind env pkg not_kind m mg f ls =
     (case mg of None \<Rightarrow> (Inl (Errorf not_kind), ls) | Some p \<Rightarrow> connecting env pkg m (f p) ls)"

section \<open>Kinds without references\<close>

definition project_Connect :: "connect_env \<Rightarrow> managed_meta \<Rightarrow> unit option \<Rightarrow> limiters \<Rightarrow> (go_error + tw_client) \<times> limiters" where
  "project_Connect env m mg = connecting_kind env ''project'' ''managed resource is not a Project'' m mg (\<lambda>_. Inr)"

definition sshkey_Connect :: "connect_env \<Rightarrow> managed_meta \<Rightarrow> unit option \<Rightarrow> limiters \<Rightarrow> (go_error + tw_client) \<times> limiters" where
  "sshkey_Connect env m mg = connecting_kind env ''sshkey'' ''managed resource is not a SSHKey'' m mg (\<lambda>_. Inr)"

definition cdn_Connect :: "connect_env \<Rightarrow> managed_meta \<Rightarrow> unit option \<Rightarrow> limiters \<Rightarrow> (go_error + tw_client) \<times> limiters" where
  "cdn_Connect env m mg = connecting_kind env ''cdn'' ''managed resource is not a Cdn'' m mg (\<lambda>_. Inr)"

definition repository_Connect :: "connect_env \<Rightarrow> managed_meta \<Rightarrow> unit option \<Rightarrow> limiters \<Rightarrow> (go_error + tw_client) \<times> limiters" where
  "repository_Connect env m mg =
     connecting_kind env ''containerregistryrepository'' ''managed resource is not a ContainerRegistryRepository'' m mg (\<lambda>_. Inr)"

text \<open>A registry's login is the token the client was built with.\<close>

definition registry_Connect :: "connect_env \<Rightarrow> managed_meta \<Rightarrow> unit option \<Rightarrow> limiters \<Rightarrow> (go_error + tw_client \<times> registry_ext) \<times> limiters" where
  "registry_Connect env m mg = connecting_kind env ''containerregistry'' ''managed resource is not a ContainerRegistry'' m mg
     (\<lambda>_ c. Inr (c, \<lparr>ge_pcRef = pcRefFor m, ge_apiToken = tc_Token c\<rparr>))"

text \<open>\<^verbatim>\<open>s3bucket\<close> reads \<^verbatim>\<open>GetProviderConfigReference().Kind\<close> without a nil check: the outcome \<open>None\<close> is that panic.\<close>

definition s3bucket_Connect :: "connect_env \<Rightarrow> managed_meta \<Rightarrow> unit option \<Rightarrow> limiters \<Rightarrow> (go_error + (tw_client \<times> bucket_ext) option) \<times> limiters" where
  "s3bucket_Connect env m mg = connecting_kind env ''s3bucket'' ''managed resource is not a S3Bucket'' m mg
     (\<lambda>_ c. Inr (map_option (\<lambda>ref. (c, \<lparr>be_pcRef = \<lparr>pc_Kind = pr_Kind ref, pc_Name = pr_Name ref, pc_Namespace = mm_Namespace m\<rparr>, be_twFull = True\<rparr>))
       (mm_PCRef m)))"

section \<open>Kinds with references\<close>

datatype 'l network_mg = MgNetwork | MgFloatingIP | MgRouter "'l router_parameters" | MgFirewall | MgOther

datatype network_ext =
    NetworkExt (ext_tw: tw_client)
  | FloatingIPExt (ext_tw: tw_client)
  | RouterExt (ext_tw: tw_client) router_ext
  | FirewallExt (ext_tw: tw_client)

definition network_Connect :: "connect_env \<Rightarrow> 'l kube \<Rightarrow> managed_meta \<Rightarrow> 'l network_mg option \<Rightarrow> limiters \<Rightarrow> (go_error + network_ext) \<times> limiters" where
  "network_Connect env kube m mg = connecting_kind env ''network'' ''network connector: unsupported managed resource kind'' m mg (\<lambda>p c. case p of
     MgNetwork \<Rightarrow> Inr (NetworkExt c)
   | MgFloatingIP \<Rightarrow> Inr (FloatingIPExt c)
   | MgRouter fp \<Rightarrow> map_sum (\<lambda>e. e) (RouterExt c) (router_Connect kube (pcRefFor m) (mm_Namespace m) (mm_Deleting m) fp)
   | MgFirewall \<Rightarrow> Inr (FirewallExt c)
   | MgOther \<Rightarrow> Inl (Errorf ''network connector: unsupported managed resource kind''))"

definition compute_Connect :: "connect_env \<Rightarrow> compute_kube \<Rightarrow> managed_meta \<Rightarrow> server_parameters option \<Rightarrow> limiters \<Rightarrow>
    (go_error + tw_client \<times> server_ext) \<times> limiters" where
  "compute_Connect env kube m mg = connecting_kind env ''compute/server'' ''managed resource is not a Server'' m mg
     (\<lambda>fp c. map_sum (\<lambda>e. e) (Pair c) (server_Connect kube (pcRefFor m) (mm_Namespace m) (mm_Deleting m) fp))"

datatype kubernetes_mg = MgCluster cluster_parameters | MgNodepool cluster_link | MgAddon addon_parameters | MgOtherK8s

datatype kubernetes_ext =
    ClusterExt (k8s_tw: tw_client) cluster_ext
  | NodepoolExt (k8s_tw: tw_client) nodepool_ext
  | AddonExt (k8s_tw: tw_client) string

definition kubernetes_Connect :: "connect_env \<Rightarrow> k8s_kube \<Rightarrow> managed_meta \<Rightarrow> kubernetes_mg option \<Rightarrow> limiters \<Rightarrow> (go_error + kubernetes_ext) \<times> limiters" where
  "kubernetes_Connect env kube m mg =
     connecting_kind env ''kubernetes'' ''kubernetes connector: unsupported managed resource kind'' m mg (\<lambda>p c. case p of
       MgCluster fp \<Rightarrow> map_sum (\<lambda>e. e) (ClusterExt c) (cluster_Connect kube (pcRefFor m) (mm_Namespace m) (mm_Deleting m) fp)
     | MgNodepool link \<Rightarrow> map_sum (\<lambda>e. e) (\<lambda>n. NodepoolExt c \<lparr>ne_pcRef = pcRefFor m, ne_resolvedClusterID = n\<rparr>)
         (nodepool_Connect kube (mm_Namespace m) (mm_Deleting m) link)
     | MgAddon fp \<Rightarrow> map_sum (\<lambda>e. e) (AddonExt c) (addon_Connect kube (mm_Namespace m) (mm_Deleting m) fp)
     | MgOtherK8s \<Rightarrow> Inl (Errorf ''kubernetes connector: unsupported managed resource kind''))"

text \<open>An S3User asks the API for the admin keys on the way.\<close>

definition s3user_connecting :: "connect_env \<Rightarrow> 'w s3_api \<Rightarrow> s3_kube \<Rightarrow> managed_meta \<Rightarrow> bool \<Rightarrow> ('w, s3_req, s3user_parameters, s3user_observation) rstate \<Rightarrow>
    limiters \<Rightarrow> ((go_error + tw_client \<times> s3user_ext) \<times> ('w, s3_req, s3user_parameters, s3user_observation) rstate) \<times> limiters" where
  "s3user_connecting env api kube m is_user s ls =
     (if \<not> is_user then ((Inl (Errorf ''managed resource is not a S3User''), s), ls)
      else case connect_client env ''s3user'' m ls of
        (Inl e, ls') \<Rightarrow> ((Inl e, s), ls')
      | (Inr c, ls') \<Rightarrow> (bindE (s3user_Connect api kube (mm_Namespace m) (mm_Deleting m)) (\<lambda>e. returnOk (c, e)) s, ls'))"

section \<open>Whose account\<close>

lemma connecting_Inr [simp]:
  "fst (connecting env pkg m f ls) = Inr x \<longleftrightarrow> (\<exists>c. fst (connect_client env pkg m ls) = Inr c \<and> f c = Inr x)"
  by (auto simp: connecting_def split: prod.split sum.split)

lemma connecting_kind_Inr [simp]:
  "fst (connecting_kind env pkg nk m mg f ls) = Inr x \<longleftrightarrow> (\<exists>p c. mg = Some p \<and> fst (connect_client env pkg m ls) = Inr c \<and> f p c = Inr x)"
  by (auto simp: connecting_kind_def split: option.split)

lemma map_sum_Inr [simp]: "map_sum (\<lambda>e. e) f r = Inr x \<longleftrightarrow> (\<exists>y. r = Inr y \<and> x = f y)"
  by (cases r) auto

text \<open>
  The token that a resource declares: with kind \<^verbatim>\<open>ProviderConfig\<close> a configuration of its own namespace and a Secret of that
  configuration's namespace; otherwise the cluster's configuration and the namespace it states.
\<close>

definition declares :: "pc_kube \<Rightarrow> managed_meta \<Rightarrow> string \<Rightarrow> bool" where
  "declares kube m token \<longleftrightarrow> (\<exists>ref pc secretNS data raw. mm_PCRef m = Some ref \<and> pr_Name ref \<noteq> [] \<and>
    (if pr_Kind ref = ''ProviderConfig''
     then mm_Namespace m \<noteq> [] \<and> pk_ProviderConfig kube (mm_Namespace m) (pr_Name ref) = KFound pc \<and> secretNS = pcf_Namespace pc \<and>
       pcf_SecretNamespace pc \<in> {[], secretNS}
     else pr_Kind ref \<in> {''ClusterProviderConfig'', []} \<and> pk_ClusterProviderConfig kube (pr_Name ref) = KFound pc \<and>
       secretNS = pcf_SecretNamespace pc \<and> secretNS \<noteq> []) \<and>
    pk_Secret kube secretNS (pcf_SecretName pc) = KFound data \<and> data (pcf_SecretKey pc) = Some raw \<and> token = TrimSpace raw \<and> token \<noteq> [])"

text \<open>A client that stands for the declared account: its use of the configuration is recorded, and it holds the shared limiter of its host.\<close>

definition account_of :: "connect_env \<Rightarrow> managed_meta \<Rightarrow> limiters \<Rightarrow> tw_client \<Rightarrow> bool" where
  "account_of env m ls c \<longleftrightarrow> ct_Track env m = None \<and> declares (ct_Kube env) m (tc_Token c) \<and> holds_limiter (ct_HostOf env) ls c"

lemma client_New_token: "client_New host_of (token_config token) ls = (Inr c, ls') \<Longrightarrow> tc_Token c = token"
  by (auto simp: client_New_def token_config_def Let_def split: if_splits prod.splits)

lemma connect_client_account:
  assumes "limiters_ok ls" "fst (connect_client env pkg m ls) = Inr c"
  shows "account_of env m (snd (connect_client env pkg m ls)) c"
proof -
  from assms(2) obtain token ls' where t: "ct_Track env m = None" "ResolveToken (ct_Kube env) (mm_Namespace m) (mm_PCRef m) = Inr token"
    "client_New (ct_HostOf env) (token_config token) ls = (Inr c, ls')" "snd (connect_client env pkg m ls) = ls'"
    by (auto simp: connect_client_def split: option.splits sum.splits prod.splits)
  have "declares (ct_Kube env) m token" using ResolveToken_confined[OF t(2)] unfolding declares_def .
  with t client_New_token[OF t(3)] client_New_ok[OF assms(1) t(3)] show ?thesis by (simp add: account_of_def)
qed

lemma connecting_kind_account:
  assumes "limiters_ok ls" "connecting_kind env pkg nk m mg f ls = (Inr x, ls')"
  shows "\<exists>p c. mg = Some p \<and> f p c = Inr x \<and> account_of env m ls' c"
proof -
  from assms(2) obtain p c where p: "mg = Some p" "f p c = Inr x" "fst (connect_client env pkg m ls) = Inr c" "snd (connect_client env pkg m ls) = ls'"
    by (auto simp: connecting_kind_def connecting_def split: option.splits sum.splits prod.splits)
  with connect_client_account[OF assms(1) p(3)] show ?thesis by auto
qed

lemma account_token: "account_of env m ls c \<Longrightarrow> declares (ct_Kube env) m (tc_Token c)" "declares kube m token \<Longrightarrow> mm_PCRef m \<noteq> None"
  by (auto simp: account_of_def declares_def)

text \<open>A resolver cache entry is keyed by \<open>pcRefFor\<close>: two resources of one key resolve the same token, so no account sees the catalog of another.\<close>

theorem cache_key_account:
  assumes "pcRefFor m = pcRefFor m'" "declares kube m t" "declares kube m' t'"
  shows "t = t'"
proof -
  from account_token(2)[OF assms(2)] account_token(2)[OF assms(3)] assms(1) have "mm_PCRef m = mm_PCRef m'" "mm_Namespace m = mm_Namespace m'"
    by (auto simp: pcRefFor_def)
  with assms(2,3) show ?thesis by (auto simp: declares_def split: if_splits)
qed

lemma plain_kinds_account:
  assumes "limiters_ok ls" "c_kind \<in> {project_Connect, sshkey_Connect, cdn_Connect, repository_Connect}" "c_kind env m u ls = (Inr c, ls')"
  shows "account_of env m ls' c"
  using assms(2,3)
  by (auto simp: project_Connect_def sshkey_Connect_def cdn_Connect_def repository_Connect_def dest!: connecting_kind_account[OF assms(1)])

lemma network_account: "limiters_ok ls \<Longrightarrow> network_Connect env nk m mg ls = (Inr x, ls') \<Longrightarrow> account_of env m ls' (ext_tw x)"
  unfolding network_Connect_def by (drule (1) connecting_kind_account, elim exE conjE, rename_tac p c, case_tac p) auto

lemma kubernetes_account: "limiters_ok ls \<Longrightarrow> kubernetes_Connect env kk m mg ls = (Inr x, ls') \<Longrightarrow> account_of env m ls' (k8s_tw x)"
  unfolding kubernetes_Connect_def by (drule (1) connecting_kind_account, elim exE conjE, rename_tac p c, case_tac p) auto

lemma compute_account:
  "limiters_ok ls \<Longrightarrow> compute_Connect env ck m fp ls = (Inr (c, e), ls') \<Longrightarrow> account_of env m ls' c \<and> se_pcRef e = pcRefFor m"
  unfolding compute_Connect_def by (drule (1) connecting_kind_account) (auto simp: server_Connect_def split: if_splits sum.splits)

lemma registry_account: "limiters_ok ls \<Longrightarrow> registry_Connect env m u ls = (Inr (c, e), ls') \<Longrightarrow>
    account_of env m ls' c \<and> declares (ct_Kube env) m (ge_apiToken e) \<and> ge_pcRef e = pcRefFor m"
  unfolding registry_Connect_def by (drule (1) connecting_kind_account) (auto dest: account_token)

lemma s3bucket_account:
  assumes "limiters_ok ls" "s3bucket_Connect env m u ls = (Inr x, ls')"
  shows "\<exists>c e. x = Some (c, e) \<and> account_of env m ls' c \<and> be_pcRef e = pcRefFor m"
proof -
  from connecting_kind_account[OF assms(1) assms(2)[unfolded s3bucket_Connect_def]] obtain c where c: "account_of env m ls' c"
    "x = map_option (\<lambda>ref. (c, \<lparr>be_pcRef = \<lparr>pc_Kind = pr_Kind ref, pc_Name = pr_Name ref, pc_Namespace = mm_Namespace m\<rparr>, be_twFull = True\<rparr>)) (mm_PCRef m)"
    by auto
  from account_token(2)[OF account_token(1)[OF c(1)]] c show ?thesis by (auto simp: pcRefFor_def)
qed

lemma s3user_account:
  assumes "limiters_ok ls" "s3user_connecting env api sk m is_user s ls = ((Inr (c, e), s'), ls')"
  shows "account_of env m ls' c"
proof -
  from assms(2) have "connect_client env ''s3user'' m ls = (Inr c, ls')"
    by (auto simp: s3user_connecting_def bindE_def returnOk_def split: if_splits prod.splits sum.splits)
  with connect_client_account[OF assms(1), of env "''s3user''" m c] show ?thesis by simp
qed

text \<open>
  C33. A connected client stands for the account its resource declares, for every kind: the use of the configuration has been tracked, the token
  comes only from the Secret that the declared configuration names (no kind of configuration falls back to the other), and the limiter is
  the one all reconciles of the host share. The docker password of a registry is that token, the resolver is keyed by the resource's own
  reference, and the unchecked reference that an S3Bucket reads is never nil.
\<close>

theorem connected_account:
  assumes "limiters_ok ls"
  shows "(network_Connect env nk m nmg ls = (Inr nx, ls') \<longrightarrow> account_of env m ls' (ext_tw nx)) \<and>
    (compute_Connect env ck m fp ls = (Inr (c, se), ls') \<longrightarrow> account_of env m ls' c \<and> se_pcRef se = pcRefFor m) \<and>
    (kubernetes_Connect env kk m kmg ls = (Inr kx, ls') \<longrightarrow> account_of env m ls' (k8s_tw kx)) \<and>
    (registry_Connect env m u ls = (Inr (c, ge), ls') \<longrightarrow>
       account_of env m ls' c \<and> declares (ct_Kube env) m (ge_apiToken ge) \<and> ge_pcRef ge = pcRefFor m) \<and>
    (s3bucket_Connect env m u ls = (Inr bx, ls') \<longrightarrow>
       (\<exists>d be. bx = Some (d, be) \<and> account_of env m ls' d \<and> be_pcRef be = pcRefFor m)) \<and>
    (s3user_connecting env api sk m is_user s ls = ((Inr (c, ue), s'), ls') \<longrightarrow> account_of env m ls' c) \<and>
    (c_kind \<in> {project_Connect, sshkey_Connect, cdn_Connect, repository_Connect} \<longrightarrow>
       c_kind env m u ls = (Inr c, ls') \<longrightarrow> account_of env m ls' c)"
  by (intro conjI[OF impI] impI; (rule network_account[OF assms] compute_account[OF assms] kubernetes_account[OF assms] registry_account[OF assms]
      s3bucket_account[OF assms] s3user_account[OF assms] plain_kinds_account[OF assms]); assumption)

definition wit_connect_env :: connect_env where
  "wit_connect_env = \<lparr>ct_Kube = wit_pc_kube, ct_Track = (\<lambda>m. None), ct_HostOf = wit_host_of\<rparr>"

definition wit_meta :: "bool \<Rightarrow> managed_meta" where
  "wit_meta deleting = \<lparr>mm_Namespace = ''team'', mm_PCRef = Some \<lparr>pr_Kind = ''ProviderConfig'', pr_Name = ''main''\<rparr>, mm_Deleting = deleting\<rparr>"

lemma wit_meta_ns: "mm_Namespace (wit_meta deleting) = ''team''" "mm_Deleting (wit_meta deleting) = deleting"
  by (simp_all add: wit_meta_def)

lemma wit_connect_client: "connect_client wit_connect_env pkg (wit_meta deleting) no_limiters = (Inr (wit_tw_client ''t0k''), wit_limiters)"
proof -
  have "ResolveToken wit_pc_kube ''team'' (Some \<lparr>pr_Kind = ''ProviderConfig'', pr_Name = ''main''\<rparr>) = Inr ''t0k''"
    by code_simp
  moreover have "client_New wit_host_of (token_config ''t0k'') no_limiters = (Inr (wit_tw_client ''t0k''), wit_limiters)"
    using wit_client_New[of no_limiters "''t0k''"] by (simp add: wit_tokens wit_config_def token_config_def)
  ultimately show ?thesis by (simp add: connect_client_def wit_connect_env_def wit_meta_def)
qed

theorem connected_account_witness:
  "\<exists>e. registry_Connect wit_connect_env (wit_meta False) (Some ()) no_limiters = (Inr (wit_tw_client ''t0k'', e), wit_limiters) \<and>
    declares wit_pc_kube (wit_meta False) (ge_apiToken e) \<and> ge_apiToken e = ''t0k''"
proof -
  let ?e = "\<lparr>ge_pcRef = pcRefFor (wit_meta False), ge_apiToken = ''t0k''\<rparr>"
  have run: "registry_Connect wit_connect_env (wit_meta False) (Some ()) no_limiters = (Inr (wit_tw_client ''t0k'', ?e), wit_limiters)"
    by (simp add: registry_Connect_def connecting_kind_def connecting_def wit_connect_client wit_tw_client_def)
  have "limiters_ok no_limiters" by (simp add: limiters_ok_def no_limiters_def)
  note connected_account[OF this, THEN conjunct2, THEN conjunct2, THEN conjunct2, THEN conjunct1, THEN mp, OF run]
  with run show ?thesis by (auto simp: wit_connect_env_def)
qed

section \<open>Deletion\<close>

text \<open>The buckets of the entries that resolve.\<close>

definition resolved_names :: "s3_kube \<Rightarrow> string \<Rightarrow> bucket_grant list \<Rightarrow> string list" where
  "resolved_names kube ns gs = List.map_filter (\<lambda>g. case resolveBucketName kube ns g of Inl e \<Rightarrow> None | Inr (n, reg) \<Rightarrow> Some n) gs"

lemma collect_grants_deleting:
  "isl (collect_grants kube ns True seen gs) \<longleftrightarrow> \<not> (distinct (resolved_names kube ns gs) \<and> set (resolved_names kube ns gs) \<inter> set seen = {})"
proof (induction gs arbitrary: seen)
  case (Cons g gs)
  show ?case
  proof (cases "resolveBucketName kube ns g")
    case (Inl e)
    with Cons show ?thesis by (simp add: resolved_names_def List.map_filter_simps)
  next
    case (Inr p)
    then have n: "resolved_names kube ns (g # gs) = fst p # resolved_names kube ns gs"
      by (simp add: resolved_names_def List.map_filter_simps split: prod.split)
    from Inr Cons[of "fst p # seen"] show ?thesis unfolding n by (cases p) (auto simp: isl_map_sum)
  qed
qed (simp add: resolved_names_def List.map_filter_simps)

lemma resolveGrants_deleting: "isl (resolveGrants kube ns True fp) \<longleftrightarrow> \<not> distinct (resolved_names kube ns (up_BucketAccess fp))"
  using collect_grants_deleting[of kube ns "[]" "up_BucketAccess fp"] by (simp add: resolveGrants_def isl_map_sum)

lemma DeriveAdminKeys_cr: "DeriveAdminKeys api s = (r, s') \<Longrightarrow> cr s' = cr s"
  by (auto simp: DeriveAdminKeys_def fetch_plain_def bindE_def call_classify_run returnOk_run throwError_run
      split: sum.splits option.splits list.splits prod.splits if_splits)

lemma s3user_Connect_deleting:
  "isl (fst (s3user_Connect api kube ns True s)) \<longleftrightarrow> isl (resolveGrants kube ns True (for_provider (cr s)))"
proof -
  obtain r s' where d: "DeriveAdminKeys api s = (r, s')" by fastforce
  with DeriveAdminKeys_cr[OF d] show ?thesis
    by (auto simp: s3user_Connect_def bindE_def attempt_def gets_def lift_sum_def returnOk_def split: sum.splits prod.splits)
qed

lemma connecting_isl: "(\<And>c. \<not> isl (f c)) \<Longrightarrow> isl (fst (connecting env pkg m f ls)) \<longleftrightarrow> isl (fst (connect_client env pkg m ls))"
  by (auto simp: connecting_def split: prod.split sum.split)

text \<open>
  C40. What a resource refers to never blocks its deletion. While it is being deleted, a Router, a Server, a cluster, a nodepool and an addon are
  connected whenever the account can be, whatever has become of the objects they refer to; an S3User is too, also when
  the admin keys cannot be derived, unless two of its entries that still resolve name the same bucket, and exactly then not.
\<close>

theorem deletion_connects:
  assumes "mm_Deleting m"
  shows "(isl (fst (network_Connect env nk m (Some (MgRouter fp)) ls)) \<longleftrightarrow> isl (fst (connect_client env ''network'' m ls))) \<and>
    (isl (fst (compute_Connect env ck m (Some sp) ls)) \<longleftrightarrow> isl (fst (connect_client env ''compute/server'' m ls))) \<and>
    (kmg \<in> {MgCluster cp, MgNodepool link, MgAddon ap} \<longrightarrow>
       (isl (fst (kubernetes_Connect env kk m (Some kmg) ls)) \<longleftrightarrow> isl (fst (connect_client env ''kubernetes'' m ls)))) \<and>
    (isl (fst (fst (s3user_connecting env api sk m True s ls))) \<longleftrightarrow>
       isl (fst (connect_client env ''s3user'' m ls)) \<or>
       \<not> distinct (resolved_names sk (mm_Namespace m) (up_BucketAccess (for_provider (cr s)))))"
proof (intro conjI impI)
  show "isl (fst (network_Connect env nk m (Some (MgRouter fp)) ls)) \<longleftrightarrow> isl (fst (connect_client env ''network'' m ls))"
    unfolding network_Connect_def connecting_kind_def by (simp add: assms router_Connect_def connecting_isl)
  show "isl (fst (compute_Connect env ck m (Some sp) ls)) \<longleftrightarrow> isl (fst (connect_client env ''compute/server'' m ls))"
    unfolding compute_Connect_def connecting_kind_def by (simp add: assms server_Connect_def connecting_isl)
  show "isl (fst (kubernetes_Connect env kk m (Some kmg) ls)) \<longleftrightarrow> isl (fst (connect_client env ''kubernetes'' m ls))"
    if "kmg \<in> {MgCluster cp, MgNodepool link, MgAddon ap}"
    using that unfolding kubernetes_Connect_def connecting_kind_def
    by (auto simp: assms cluster_Connect_def nodepool_Connect_def addon_Connect_def connecting_isl split: prod.split)
  show "isl (fst (fst (s3user_connecting env api sk m True s ls))) \<longleftrightarrow> isl (fst (connect_client env ''s3user'' m ls)) \<or>
      \<not> distinct (resolved_names sk (mm_Namespace m) (up_BucketAccess (for_provider (cr s))))"
    using s3user_Connect_deleting[of api sk "mm_Namespace m" s]
    by (auto simp: assms s3user_connecting_def resolveGrants_deleting bindE_def returnOk_def split: prod.split sum.split)
qed

text \<open>The cluster of a nodepool is gone: outside deletion it is not connected, during deletion it is.\<close>

theorem deletion_connects_witness:
  "let kk = wit_k8s_kube\<lparr>kk_Cluster := \<lambda>ns n. KNotFound\<rparr>; mg = Some (MgNodepool (Some ''main'', None, None)) in
    isl (fst (kubernetes_Connect wit_connect_env kk (wit_meta False) mg no_limiters)) \<and>
    \<not> isl (fst (kubernetes_Connect wit_connect_env kk (wit_meta True) mg no_limiters))"
proof -
  let ?kk = "wit_k8s_kube\<lparr>kk_Cluster := \<lambda>ns n. KNotFound\<rparr>" and ?mg = "MgNodepool (Some ''main'', None, None)"
  have "mm_Deleting (wit_meta True)" by (simp add: wit_meta_def)
  from deletion_connects[OF this, THEN conjunct2, THEN conjunct2, THEN conjunct1, of ?mg _ "(Some ''main'', None, None)" _ wit_connect_env ?kk no_limiters]
  have "\<not> isl (fst (kubernetes_Connect wit_connect_env ?kk (wit_meta True) (Some ?mg) no_limiters))" by (simp add: wit_connect_client)
  moreover have "isl (nodepool_Connect ?kk ''team'' False (Some ''main'', None, None))"
    by (simp add: nodepool_Connect_def resolveClusterRef_def get_ref_def set_text_def)
  then have "isl (fst (kubernetes_Connect wit_connect_env ?kk (wit_meta False) (Some ?mg) no_limiters))"
    by (simp add: kubernetes_Connect_def connecting_kind_def connecting_def wit_connect_client wit_meta_ns isl_map_sum)
  ultimately show ?thesis by simp
qed

end
