(* ===== verification/ClientWire.thy ===== *)
theory ClientWire
  imports DockerConfig FirewallExternal CdnTypes S3Client
begin

text \<open>
  What the hand-written methods of the client put on the wire: \<^verbatim>\<open>clients/timeweb/firewall.go\<close>, \<^verbatim>\<open>cdn.go\<close> and
  \<^verbatim>\<open>storages_users_v2.go\<close>. A request is a method, the text of a URL below the base URL, and a body; \<^verbatim>\<open>url.PathEscape\<close> and
  \<^verbatim>\<open>url.QueryEscape\<close> are modelled byte by byte. The body of a CDN write is the \<open>cdn_write\<close> that is marshalled.
\<close>

section \<open>Escaping\<close>

definition upper_hex :: "nat \<Rightarrow> char" where
  "upper_hex n = ''0123456789ABCDEF'' ! n"

definition percent :: "char \<Rightarrow> string" where
  "percent c = [CHR ''%'', upper_hex (of_char c div 16), upper_hex (of_char c mod 16)]"

definition unreserved :: "char \<Rightarrow> bool" where
  "unreserved c \<longleftrightarrow> c \<in> set ''ABCDEFGHIJKLMNOPQRSTUVWXYZabcdefghijklmnopqrstuvwxyz0123456789-_.~''"

definition PathEscape :: "string \<Rightarrow> string" where
  "PathEscape s = concat (map (\<lambda>c. if unreserved c \<or> c \<in> set ''$&+:=@'' then [c] else percent c) s)"

definition QueryEscape :: "string \<Rightarrow> string" where
  "QueryEscape s = concat (map (\<lambda>c. if unreserved c then [c] else if c = CHR '' '' then ''+'' else percent c) s)"

text \<open>The reader; \<open>q\<close> tells the query form, in which a plus is a blank.\<close>

definition upper_hex_value :: "char \<Rightarrow> nat option" where
  "upper_hex_value c = map_of (zip ''0123456789ABCDEF'' [0..<16]) c"

fun unescape :: "bool \<Rightarrow> string \<Rightarrow> string option" where
  "unescape q [] = Some []"
| "unescape q (c # s) =
     (if c = CHR ''%'' then (case s of h # l # rest \<Rightarrow> (case (upper_hex_value h, upper_hex_value l) of
          (Some p, Some r) \<Rightarrow> map_option ((#) (char_of (p * 16 + r))) (unescape q rest) | _ \<Rightarrow> None) | _ \<Rightarrow> None)
      else map_option ((#) (if q \<and> c = CHR ''+'' then CHR '' '' else c)) (unescape q s))"

lemma upper_hex_all: "list_all (\<lambda>n. upper_hex_value (upper_hex n) = Some n \<and> upper_hex n \<noteq> CHR ''/'' \<and> upper_hex n \<noteq> CHR ''?'') [0..<16]"
  by code_simp

lemma upper_hex [simp]:
  assumes "n < 16"
  shows "upper_hex_value (upper_hex n) = Some n" "upper_hex n \<noteq> CHR ''/''" "CHR ''/'' \<noteq> upper_hex n" "upper_hex n \<noteq> CHR ''?''" "CHR ''?'' \<noteq> upper_hex n"
  using upper_hex_all assms by (auto simp: list_all_iff)

lemma hex_parts: "(of_char c :: nat) div 16 < 16" "(of_char c :: nat) mod 16 < 16"
  using digit_bounds(2)[OF nat_of_char_less_256] by simp_all

lemma unescape_percent: "unescape q (percent c @ s) = map_option ((#) c) (unescape q s)"
  by (simp add: percent_def hex_parts)

lemma unreserved_not: "unreserved c \<Longrightarrow> c \<noteq> CHR ''%'' \<and> c \<noteq> CHR ''/'' \<and> c \<noteq> CHR ''?'' \<and> c \<noteq> CHR ''+''"
  by (auto simp: unreserved_def)

lemma unescape_PathEscape: "unescape False (PathEscape s) = Some s"
  by (induction s) (auto simp: PathEscape_def unescape_percent dest: unreserved_not)

lemma unescape_QueryEscape: "unescape True (QueryEscape s) = Some s"
  by (induction s) (auto simp: QueryEscape_def unescape_percent dest: unreserved_not)

lemma escape_inj [simp]: "PathEscape a = PathEscape b \<longleftrightarrow> a = b" "QueryEscape a = QueryEscape b \<longleftrightarrow> a = b"
  by (metis unescape_PathEscape option.inject, metis unescape_QueryEscape option.inject)

lemma escape_clean [simp]:
  "CHR ''/'' \<notin> set (PathEscape s)" "CHR ''?'' \<notin> set (PathEscape s)" "CHR ''/'' \<notin> set (QueryEscape s)"
  by (auto simp: PathEscape_def QueryEscape_def percent_def hex_parts dest: unreserved_not)

section \<open>Paths\<close>

text \<open>A base followed by segments, as the code concatenates them.\<close>

definition url_below :: "string \<Rightarrow> string list \<Rightarrow> string" where
  "url_below base segs = base @ concat (map (\<lambda>s. CHR ''/'' # s) segs)"

definition clean :: "string \<Rightarrow> bool" where
  "clean s \<longleftrightarrow> CHR ''/'' \<notin> set s"

lemma cut_at:
  assumes "c \<notin> set a" "c \<notin> set b"
  shows "a @ c # x = b @ c # y \<longleftrightarrow> a = b \<and> x = y"
  using assms by (induction a arbitrary: b) (case_tac b; auto)+

lemma segs_inj: "list_all clean segs \<Longrightarrow> list_all clean segs' \<Longrightarrow>
    concat (map (\<lambda>s. CHR ''/'' # s) segs) = concat (map (\<lambda>s. CHR ''/'' # s) segs') \<longleftrightarrow> segs = segs'"
proof (induction segs arbitrary: segs')
  case Nil
  then show ?case by (cases segs') auto
next
  case (Cons a as)
  show ?case
  proof (cases segs')
    case (Cons b bs)
    have c: "clean a" "clean b" "list_all clean as" "list_all clean bs" using Cons.prems Cons by auto
    have "a @ x = b @ y \<longleftrightarrow> a = b \<and> x = y" if "x \<in> {[]} \<union> range ((#) (CHR ''/''))" "y \<in> {[]} \<union> range ((#) (CHR ''/''))" for x y
      using that c(1,2) cut_at[of "CHR ''/''" a b] by (auto simp: clean_def append_eq_append_conv2)
    moreover have "concat (map (\<lambda>s. CHR ''/'' # s) xs) \<in> {[]} \<union> range ((#) (CHR ''/''))" for xs by (cases xs) auto
    ultimately show ?thesis using Cons.IH[OF c(3,4)] by (simp add: local.Cons)
  qed simp
qed

lemma url_below_inj: "list_all clean segs \<Longrightarrow> list_all clean segs' \<Longrightarrow> url_below base segs = url_below base segs' \<longleftrightarrow> segs = segs'"
  by (simp add: url_below_def segs_inj)

section \<open>Firewalls\<close>

definition firewallBase :: string where "firewallBase = ''/api/v1/firewall/groups''"

text \<open>A field that is empty and marked \<^verbatim>\<open>omitempty\<close> is left out of a body.\<close>

definition text_field :: "string \<Rightarrow> string \<Rightarrow> (string \<times> string) list" where
  "text_field k v = (if v = [] then [] else [(k, v)])"

definition ptr_field :: "string \<Rightarrow> string option \<Rightarrow> (string \<times> string) list" where
  "ptr_field k v = (case v of None \<Rightarrow> [] | Some x \<Rightarrow> [(k, x)])"

definition rule_fields :: "rule_payload \<Rightarrow> (string \<times> string) list" where
  "rule_fields r = text_field ''id'' (ru_ID r) @ [(''direction'', ru_Direction r), (''protocol'', ru_Protocol r)] @ ptr_field ''port'' (ru_Port r) @
     text_field ''cidr'' (ru_CIDR r) @ ptr_field ''description'' (ru_Description r) @ text_field ''group_id'' (ru_GroupID r)"

definition query_param :: "string \<Rightarrow> string \<Rightarrow> string" where
  "query_param k v = (if v = [] then [] else k @ ''='' @ QueryEscape v)"

definition resourcePath :: "string \<Rightarrow> string \<Rightarrow> string \<Rightarrow> string" where
  "resourcePath g i t = url_below firewallBase [g, ''resources'', PathEscape i @ ''?'' @ query_param ''resource_type'' t]"

type_synonym wire = "string \<times> string \<times> (string \<times> string) list option"

fun firewall_wire :: "firewall_req \<Rightarrow> wire" where
  "firewall_wire (CreateFirewallGroup n d p) =
     (''POST'', firewallBase @ ''?'' @ query_param ''policy'' p, Some ((''name'', n) # text_field ''description'' d))"
| "firewall_wire (GetFirewallGroup g) = (''GET'', url_below firewallBase [g], None)"
| "firewall_wire ListFirewallGroups = (''GET'', firewallBase, None)"
| "firewall_wire (PatchFirewallGroup g n d) = (''PATCH'', url_below firewallBase [g], Some [(''name'', n), (''description'', d)])"
| "firewall_wire (DeleteFirewallGroup g) = (''DELETE'', url_below firewallBase [g], None)"
| "firewall_wire (ListFirewallRules g) = (''GET'', url_below firewallBase [g, ''rules''], None)"
| "firewall_wire (CreateFirewallRule g r) = (''POST'', url_below firewallBase [g, ''rules''], Some (rule_fields r))"
| "firewall_wire (DeleteFirewallRule g r) = (''DELETE'', url_below firewallBase [g, ''rules'', r], None)"
| "firewall_wire (ListFirewallResources g) = (''GET'', url_below firewallBase [g, ''resources''], None)"
| "firewall_wire (LinkFirewallResource g i t) = (''POST'', resourcePath g i t, None)"
| "firewall_wire (UnlinkFirewallResource g i t) = (''DELETE'', resourcePath g i t, None)"
| "firewall_wire (GetServiceFirewallGroups t i) = (''GET'', url_below ''/api/v1/firewall/service'' [PathEscape t, PathEscape i], None)"

text \<open>The ids of groups and rules, which the methods do not escape.\<close>

fun firewall_ids :: "firewall_req \<Rightarrow> string list" where
  "firewall_ids (GetFirewallGroup g) = [g]"
| "firewall_ids (PatchFirewallGroup g n d) = [g]"
| "firewall_ids (DeleteFirewallGroup g) = [g]"
| "firewall_ids (ListFirewallRules g) = [g]"
| "firewall_ids (CreateFirewallRule g r) = [g]"
| "firewall_ids (DeleteFirewallRule g r) = [g, r]"
| "firewall_ids (ListFirewallResources g) = [g]"
| "firewall_ids (LinkFirewallResource g i t) = [g]"
| "firewall_ids (UnlinkFirewallResource g i t) = [g]"
| "firewall_ids _ = []"

lemma clean_simps [simp]:
  "clean ''rules''" "clean ''resources''" "clean (PathEscape s)" "clean (a @ b) \<longleftrightarrow> clean a \<and> clean b" "clean []"
  "clean (query_param ''resource_type'' t)" "clean (c # a) \<longleftrightarrow> c \<noteq> CHR ''/'' \<and> clean a"
  by (auto simp: clean_def query_param_def)

lemma query_param_inj [simp]: "query_param k a = query_param k b \<longleftrightarrow> a = b"
proof -
  have "QueryEscape x = [] \<longleftrightarrow> x = []" for x using escape_inj(2)[of x "[]"] by (simp add: QueryEscape_def)
  then show ?thesis by (auto simp: query_param_def)
qed

lemma rule_fields_inj: "rule_fields a = rule_fields b \<Longrightarrow> a = b"
proof -
  have field: "ru_ID r = (case map_of (rule_fields r) ''id'' of None \<Rightarrow> [] | Some v \<Rightarrow> v)"
    "Some (ru_Direction r) = map_of (rule_fields r) ''direction''" "Some (ru_Protocol r) = map_of (rule_fields r) ''protocol''"
    "ru_Port r = map_of (rule_fields r) ''port''" "ru_CIDR r = (case map_of (rule_fields r) ''cidr'' of None \<Rightarrow> [] | Some v \<Rightarrow> v)"
    "ru_Description r = map_of (rule_fields r) ''description''"
    "ru_GroupID r = (case map_of (rule_fields r) ''group_id'' of None \<Rightarrow> [] | Some v \<Rightarrow> v)" for r
    by (simp_all add: rule_fields_def text_field_def ptr_field_def map_add_def split: option.split)
  assume "rule_fields a = rule_fields b"
  with field[of a] field[of b] have "ru_Direction a = ru_Direction b" "ru_Protocol a = ru_Protocol b" by (metis option.inject)+
  with \<open>rule_fields a = rule_fields b\<close> field(1,4-7)[of a] field(1,4-7)[of b] show ?thesis by (cases a, cases b) simp
qed

lemma resourcePath_inj: "clean g \<Longrightarrow> clean g' \<Longrightarrow> resourcePath g i t = resourcePath g' i' t' \<longleftrightarrow> g = g' \<and> i = i' \<and> t = t'"
  using cut_at[of "CHR ''?''" "PathEscape i" "PathEscape i'"] by (simp add: resourcePath_def url_below_inj)

lemma resourcePath_below:
  assumes "clean g" "list_all clean segs" "length segs \<noteq> 3 \<or> segs ! 1 \<noteq> ''resources''"
  shows "resourcePath g i t \<noteq> url_below firewallBase segs" "url_below firewallBase segs \<noteq> resourcePath g i t"
  using assms by (auto simp: resourcePath_def url_below_inj)

lemma url_below_other:
  "url_below firewallBase segs \<noteq> firewallBase @ CHR ''?'' # q" "firewallBase @ CHR ''?'' # q \<noteq> url_below firewallBase segs"
  "url_below firewallBase (s # segs) \<noteq> firewallBase" "firewallBase \<noteq> url_below firewallBase (s # segs)"
  "url_below firewallBase segs \<noteq> url_below ''/api/v1/firewall/service'' segs'" "url_below ''/api/v1/firewall/service'' segs' \<noteq> url_below firewallBase segs"
  "firewallBase \<noteq> url_below ''/api/v1/firewall/service'' segs'" "url_below ''/api/v1/firewall/service'' segs' \<noteq> firewallBase"
  by (cases segs; simp add: url_below_def firewallBase_def)+



text \<open>An id with a slash is sent as it is: the deletion of such a group is the deletion of a rule of another.\<close>

lemma firewall_wire_slash: "firewall_wire (DeleteFirewallGroup ''g/rules/r'') = firewall_wire (DeleteFirewallRule ''g'' ''r'')"
  by (simp add: url_below_def)

section \<open>CDN resources and certificates\<close>

definition cdnBase :: string where "cdnBase = ''/api/v1/cdn/http-resources''"
definition cdnCertBase :: string where "cdnCertBase = ''/api/v1/cdn/certificates''"

datatype cdn_body = NoBody | WriteBody cdn_write | PurgeBody string "string list" | CertificateBody string string | IssueBody int

fun cdn_wire :: "cdn_req \<Rightarrow> string \<times> string \<times> cdn_body" where
  "cdn_wire ListCdns = (''GET'', cdnBase, NoBody)"
| "cdn_wire (GetCdn i) = (''GET'', url_below cdnBase [i], NoBody)"
| "cdn_wire (GetCdnConfiguration i) = (''GET'', url_below cdnBase [i, ''configuration''], NoBody)"
| "cdn_wire (CreateCdn b) = (''POST'', cdnBase, WriteBody b)"
| "cdn_wire (PatchCdn i b) = (''PATCH'', url_below cdnBase [i], WriteBody b)"
| "cdn_wire (DeleteCdn i) = (''DELETE'', url_below cdnBase [i], NoBody)"
| "cdn_wire (ClearCdnCache i t ps) = (''POST'', url_below cdnBase [i, ''clear-cache''], PurgeBody t ps)"
| "cdn_wire ListCdnPresets = (''GET'', ''/api/v1/cdn/presets'', NoBody)"
| "cdn_wire (ListCertificates i) = (''GET'', cdnCertBase @ ''?resource_id='' @ i, NoBody)"
| "cdn_wire ListAllCertificates = (''GET'', cdnCertBase, NoBody)"
| "cdn_wire (ListCertificateTasks i) = (''GET'', cdnCertBase @ ''/tasks?resource_id='' @ i, NoBody)"
| "cdn_wire (UploadCertificate c k) = (''POST'', cdnCertBase, CertificateBody c k)"
| "cdn_wire (IssueCertificate n) = (''POST'', url_below cdnCertBase [''issue''], IssueBody n)"
| "cdn_wire (DeleteCertificate i) = (''DELETE'', url_below cdnCertBase [i], NoBody)"

fun cdn_ids :: "cdn_req \<Rightarrow> string list" where
  "cdn_ids (GetCdn i) = [i]" | "cdn_ids (GetCdnConfiguration i) = [i]" | "cdn_ids (PatchCdn i b) = [i]" | "cdn_ids (DeleteCdn i) = [i]"
| "cdn_ids (ClearCdnCache i t ps) = [i]" | "cdn_ids (DeleteCertificate i) = [i]" | "cdn_ids _ = []"

lemma cdn_other:
  "url_below cdnBase (s # segs) \<noteq> cdnBase" "cdnBase \<noteq> url_below cdnBase (s # segs)"
  "url_below cdnBase segs \<noteq> url_below cdnCertBase segs'" "url_below cdnCertBase segs' \<noteq> url_below cdnBase segs"
  "url_below cdnBase segs \<noteq> cdnCertBase @ x" "cdnCertBase @ x \<noteq> url_below cdnBase segs"
  "url_below cdnBase segs \<noteq> cdnCertBase" "cdnCertBase \<noteq> url_below cdnBase segs"
  "url_below cdnBase segs \<noteq> ''/api/v1/cdn/presets''" "''/api/v1/cdn/presets'' \<noteq> url_below cdnBase segs"
  by (simp_all add: url_below_def cdnBase_def cdnCertBase_def)

lemma cdn_wire_injective:
  assumes "list_all clean (cdn_ids q)" "list_all clean (cdn_ids q')"
  shows "cdn_wire q = cdn_wire q' \<longleftrightarrow> q = q'"
proof
  assume "cdn_wire q = cdn_wire q'"
  with assms show "q = q'"
    by (cases q; cases q') (auto simp: url_below_inj cdn_other, auto simp: cdnBase_def cdnCertBase_def)
qed simp

section \<open>Storage users\<close>

definition storageUsersBase :: string where "storageUsersBase = ''/api/v2/storages/users''"

text \<open>The other requests of \<open>s3_req\<close> are those of the generated client and of the IAM client.\<close>

fun storage_wire :: "s3_req \<Rightarrow> wire option" where
  "storage_wire (CreateStorageUserV2 n) = Some (''POST'', storageUsersBase, Some [(''name'', n)])"
| "storage_wire (GetStorageUserV2 i) = Some (''GET'', url_below storageUsersBase [i], None)"
| "storage_wire ListStorageUsersV2 = Some (''GET'', storageUsersBase, None)"
| "storage_wire (DeleteStorageUserV2 i) = Some (''DELETE'', url_below storageUsersBase [i], None)"
| "storage_wire _ = None"

lemma storage_wire_injective: "storage_wire q = Some x \<Longrightarrow> storage_wire q' = Some x \<Longrightarrow> q = q'"
  by (cases q; cases q') (auto simp: url_below_def)

end
