(* ===== verification/Spec2Isabelle.thy ===== *)
theory Spec2Isabelle
  imports RouterStable RouterTier NetworkExternal FloatingIPExternal ProjectExternal SSHKeyExternal NodepoolSafety NodepoolCreate
    FirewallPasses ClusterConverge ClusterCreate ServerConverge ServerRefs AddonExternal CdnPurge BucketTier UserSafety RegistrySafety Connectors ClientWire
    Resolver Placement Monitored
begin

text \<open>
  Verification of the Crossplane provider for Timeweb Cloud.

  \<^bold>\<open>The program.\<close> The provider reconciles Kubernetes custom resources with the Timeweb Cloud API. For every
  kind of resource there is an external client (\<^verbatim>\<open>src/internal/controller/<kind>/*_external.go\<close>) with the handlers
  \<^verbatim>\<open>Observe\<close>, \<^verbatim>\<open>Create\<close>, \<^verbatim>\<open>Update\<close> and \<^verbatim>\<open>Delete\<close>, which the managed-resource runtime calls in a loop: it observes,
  creates what does not exist, updates what is not up to date and deletes what is being deleted. All handlers
  classify the answers of the API with \<^verbatim>\<open>timeweb.Classify\<close> (\<^verbatim>\<open>src/internal/clients/timeweb/errors.go\<close>), share the helpers of
  \<^verbatim>\<open>src/internal/controller/shared\<close>, and translate slugs and sizes with the catalog resolver
  (\<^verbatim>\<open>shared/resolver\<close>), which keeps the catalog in a cache with a time to live.

  \<^bold>\<open>How it is modelled.\<close> A handler is a function from a state to a result and a new state (\<open>Handler\<close>): the state
  holds the managed resource (external name, spec, status, conditions), the outside world, the requests issued and
  the events emitted; the result is an error (\<open>Inl\<close>) or a value (\<open>Inr\<close>), and \<open>bindE\<close> is the statement sequence with
  its early returns. The API is a parameter \<open>api\<close> that maps a world and a request to a response and a new world,
  so every statement holds for every behaviour of the service, failures between any two requests included; where a
  statement needs a service that does what it is asked, that is a named hypothesis (\<open>vpc_service\<close>,
  \<open>group_service\<close>, \<open>firewall_service\<close>, ...) with a concrete service that meets it. Requests are datatypes with one
  constructor per method of the client; a decoded body is part of a response. The resolver is a parameter
  (\<open>resolver_iface\<close>) of the handlers, and \<open>RouterTier\<close> puts the program's own \<open>Resolve\<close> in its place. Conditions are
  type, status and reason; messages and times carry no control and are left out. Maps that the code iterates are
  association lists in an arbitrary order with distinct keys. Go \<^verbatim>\<open>int\<close> is \<open>int\<close> with \<open>wrap64\<close> where it may overflow; the
  generated client's \<^verbatim>\<open>float32\<close> ids are rounded by \<open>float32_int\<close>.

  \<^bold>\<open>The theories.\<close>

  \<^item> \<open>Prelude\<close>: the Go string, number and map operations, and the lemma collections.
  \<^item> \<open>TwErrors\<close>: \<^verbatim>\<open>errors.go\<close>. Classification is exact (404, transient, success), secrets are scrubbed.
  \<^item> \<open>Handler\<close>, \<open>SharedHelpers\<close>, \<open>ExternalClient\<close>: the handler monad with its calculus of issued requests and its Hoare
    triples; conditions, events, external names (\<open>name_codec\<close>), immutable fields; the contract of an external
    client (\<open>external_client\<close>), interpreted by the kinds that read and delete by external name.
  \<^item> \<open>Placement\<close>: \<^verbatim>\<open>azlocation.go\<close>.
  \<^item> \<open>ResolverSlug\<close>, \<open>ResolverSelect\<close>, \<open>ResolverCache\<close>, \<open>Resolver\<close>, \<open>ResolverClient\<close>: the resolver. Slug matching is
    sound and round-trips, configurator selection is the tightest fit and independent of the order of the catalog.
    The cache is modelled sequentially (\<open>getOrFetch\<close>) and as a transition system of goroutines over the
    singleflight group (\<open>thread_step\<close>): single flight, spacing of fetches by the TTL, provenance of values.
  \<^item> \<open>Budget\<close>, \<open>Monitored\<close>: counting requests against a budget, and watching a run: \<open>monitor ok api\<close> records whether
    every request was allowed in the world it was made in.
  \<^item> \<open>NetworkExternal\<close>, \<open>FloatingIPExternal\<close>, \<open>ProjectExternal\<close>, \<open>SSHKeyExternal\<close>: the small kinds.
  \<^item> \<open>RouterRefs\<close>, \<open>RouterExternal\<close>: references and handlers of the Router. \<open>RouterSafety\<close>: the budget of eight
    mutations a pass and what the pass may write; \<open>RouterAddresses\<close>: no NAT address of another resource is bound or
    released; \<open>RouterLifecycle\<close>: creation and deletion; \<open>RouterStable\<close>: a router that \<^verbatim>\<open>Observe\<close> finds up to date is
    not written by \<^verbatim>\<open>Update\<close>; \<open>RouterTier\<close>: composition with the resolver.
  \<^item> \<open>NodepoolExternal\<close>, \<open>NodepoolSafety\<close>, \<open>NodepoolCreate\<close>: the worker groups of a cluster. Identity, agreement of
    \<^verbatim>\<open>Observe\<close> and \<^verbatim>\<open>Update\<close>, convergence in two passes, readiness, no duplicate after a lost create.
  \<^item> \<open>ClusterVersion\<close>, \<open>ClusterExternal\<close>: the KubernetesCluster, its version upgrade and its integration with a router.
    \<open>ClusterSafety\<close>: upgrades go forward only, the integration waits for a usable router, a cluster declared by
    location alone cannot be updated; \<open>ClusterConverge\<close>: one \<^verbatim>\<open>Update\<close> converges; \<open>ClusterCreate\<close>: no duplicate after a
    lost create. \<open>K8sSizing\<close>: sizing shared by clusters and node groups.
  \<^item> \<open>AddonExternal\<close>: the references of the Kubernetes kinds (\<^verbatim>\<open>kubernetes/refs.go\<close>, and \<^verbatim>\<open>Connect\<close> as far as it resolves
    them), and the addons of a cluster: when an addon is reported as existing, and a deletion that never ends.
  \<^item> \<open>ServerExternal\<close>: the Server and its floating IPs (\<^verbatim>\<open>compute/server_external.go\<close>, \<^verbatim>\<open>floatingip_bind.go\<close>);
    \<open>ServerRefs\<close>: its references. \<open>ServerSafety\<close>: addresses are released and bound only for the right server, and all
    of them before the server is deleted; \<open>ServerConverge\<close>: one round converges, and what \<^verbatim>\<open>extractIPs\<close> reports.
  \<^item> \<open>FirewallExternal\<close>: the handlers of the Firewall. \<open>FirewallService\<close>: the contract of the firewall API;
    \<open>FirewallBudget\<close>: the budget, and that no service is taken from another group; \<open>FirewallConverge\<close>,
    \<open>FirewallPasses\<close>: the locale \<open>keyed_reconcile\<close> of passes over items with keys, interpreted for rules and for
    attachments, and the number of passes after which a firewall is up to date.
  \<^item> \<open>CdnTypes\<close>, \<open>CdnSettings\<close>, \<open>CdnSsl\<close>, \<open>CdnExternal\<close>: the Cdn (\<^verbatim>\<open>cdn/external.go\<close>, \<^verbatim>\<open>ssl.go\<close>): its wire types, the settings
    PATCH section by section, the certificate slot, and the handlers with the purge annotation. \<open>CdnSettle\<close>: a settings
    PATCH leaves no drift; \<open>CdnSlot\<close>: which certificates may be deleted; \<open>CdnBudget\<close>: the rate limit of certificate
    requests over any run of reconciles; \<open>CdnRun\<close>, \<open>CdnConverge\<close>: convergence of a Cdn with a certificate of its own;
    \<open>CdnPurge\<close>: the purge annotation, and declarations that never settle.
  \<^item> \<open>S3Policy\<close>: the access policies of object-storage users (\<^verbatim>\<open>rgwiam/policy.go\<close>): equality of policies is equality of the
    rights they give, and a rendered policy is read back. \<open>S3Client\<close>: the IAM queries (\<^verbatim>\<open>rgwiam/iam.go\<close>, \<^verbatim>\<open>sigv4.go\<close>), the user
    methods of the API (\<^verbatim>\<open>storages_users_v2.go\<close>) and the admin keys (\<^verbatim>\<open>shared/adminkeys.go\<close>).
  \<^item> \<open>BucketExternal\<close>, \<open>BucketTier\<close>: the S3Bucket: its handlers, what tier an \<^verbatim>\<open>Update\<close> may send (composed with the resolver)
    and what one \<^verbatim>\<open>Update\<close> repairs. \<open>UserExternal\<close>, \<open>UserSafety\<close>: the S3User with the resolution of its grants: which grants
    are connected, that the policy follows them, and when credentials are published.
  \<^item> \<open>DockerConfig\<close>: the login of a registry with its base64 and JSON text (\<^verbatim>\<open>containerregistry/credentials.go\<close>) and a reader of it.
    \<open>RegistryExternal\<close>, \<open>RegistrySafety\<close>: ContainerRegistry and the observe-only ContainerRegistryRepository.
  \<^item> \<open>Credentials\<close>: \<^verbatim>\<open>shared/credentials.go\<close> and \<^verbatim>\<open>clients/timeweb/client.go\<close>: which Secret a token comes from, one rate limiter
    per host, and that redirects never carry the token to another host. \<open>ClientWire\<close>: the method, URL and body of the requests of
    the hand-written client (\<^verbatim>\<open>firewall.go\<close>, \<^verbatim>\<open>cdn.go\<close>, \<^verbatim>\<open>storages_users_v2.go\<close>), which never collide.
  \<^item> \<open>Watches\<close>: the locale \<open>watch\<close> and its instances: a change of a Network, a cluster or a bucket wakes every resource that then
    resolves to something else (\<^verbatim>\<open>network/controller.go\<close>, \<^verbatim>\<open>kubernetes/controller.go\<close>, \<^verbatim>\<open>cdn/controller.go\<close>).
    \<open>Connectors\<close>: \<^verbatim>\<open>Connect\<close> of every kind (\<^verbatim>\<open>connector.go\<close> of every controller), which composes the credentials, the client and the
    references: whose account a client stands for, and that references never block a deletion.

  \<^bold>\<open>Bounds.\<close> All handlers are total: loops run over lists, and the budgets (eight mutations for a router and a
  firewall, four issue attempts of a Cdn, ten requests of a redirect chain) are those of the code. Repetition of \<^verbatim>\<open>Update\<close> is bounded by an explicit number of passes.

  \<^bold>\<open>Not modelled.\<close> The generated API client and deep copies, the test double, flag parsing and registration with the
  controller manager, and the reconciler of provider configurations, which the library provides. Of the
  libraries the code calls, the token bucket of a limiter, the connection pool, request signing, XML and SHA-256 are parameters
  or part of the answer of the service. \<^verbatim>\<open>ListUserPolicies\<close> has no caller.
\<close>

end
